(* ===== verification/Prelude.thy ===== *)
theory Prelude
  imports
    Main
    "HOL-Library.Word"
    "HOL-Library.AList"
    "HOL-Library.List_Lexorder"
    "HOL-Library.Char_ord"
    "HOL-Library.Sublist"
    "HOL-Library.Multiset"
begin

text \<open>
  What the components share: the functions of Go's \<open>strings\<close> package that the sources call,
  integer conversions and their decimal rendering, the error-or-value type, and association
  lists as Go maps.

  A Go string is a list of bytes (\<open>string\<close> is \<open>char list\<close>, and a \<open>char\<close> is a byte).
  The string functions are those of Go on ASCII text: white space and letter case beyond ASCII
  are outside the model. Strings are compared bytewise, as Go's \<open><\<close> does.

  A Go map is an association list with distinct keys. Iterating over a Go map visits its keys in
  an unspecified order; the model visits them in list order, and every theorem holds for every
  list, hence for every order.
\<close>

section \<open>Results\<close>

text \<open>A Go function returning \<open>(T, error)\<close> returns a value of \<open>'e + 'a\<close>.\<close>

fun and_then :: "'e + 'a \<Rightarrow> ('a \<Rightarrow> 'e + 'b) \<Rightarrow> 'e + 'b" where
  "and_then (Inl e) f = Inl e"
| "and_then (Inr x) f = f x"

fun map_error :: "('e \<Rightarrow> 'f) \<Rightarrow> 'e + 'a \<Rightarrow> 'f + 'a" where
  "map_error f (Inl e) = Inl (f e)"
| "map_error f (Inr x) = Inr x"

text \<open>A loop over a slice whose body may return an error: it stops at the first one.\<close>

fun map_res :: "('a \<Rightarrow> 'e + 'b) \<Rightarrow> 'a list \<Rightarrow> 'e + 'b list" where
  "map_res f [] = Inr []"
| "map_res f (x # xs) =
     (case f x of Inl e \<Rightarrow> Inl e
      | Inr y \<Rightarrow> (case map_res f xs of Inl e \<Rightarrow> Inl e | Inr ys \<Rightarrow> Inr (y # ys)))"

section \<open>Go strings\<close>

definition is_space :: "char \<Rightarrow> bool" where
  "is_space c \<longleftrightarrow> c \<in> {CHR 0x09, CHR 0x0A, CHR 0x0B, CHR 0x0C, CHR 0x0D, CHR '' ''}"

definition trim_left :: "string \<Rightarrow> string" where
  "trim_left s = dropWhile is_space s"

definition trim_right :: "string \<Rightarrow> string" where
  "trim_right s = rev (dropWhile is_space (rev s))"

definition trim_space :: "string \<Rightarrow> string" where
  "trim_space s = trim_right (trim_left s)"

definition lower_char :: "char \<Rightarrow> char" where
  "lower_char c = (if CHR ''A'' \<le> c \<and> c \<le> CHR ''Z'' then char_of (of_char c + 32 :: nat) else c)"

definition to_lower :: "string \<Rightarrow> string" where
  "to_lower s = map lower_char s"

definition has_prefix :: "string \<Rightarrow> string \<Rightarrow> bool" where
  "has_prefix s p \<longleftrightarrow> take (length p) s = p"

definition has_suffix :: "string \<Rightarrow> string \<Rightarrow> bool" where
  "has_suffix s p \<longleftrightarrow> length p \<le> length s \<and> drop (length s - length p) s = p"

definition trim_prefix :: "string \<Rightarrow> string \<Rightarrow> string" where
  "trim_prefix s p = (if has_prefix s p then drop (length p) s else s)"

fun contains_str :: "string \<Rightarrow> string \<Rightarrow> bool" where
  "contains_str [] t = (t = [])"
| "contains_str (c # s) t = (has_prefix (c # s) t \<or> contains_str s t)"

text \<open>\<open>strings.Cut\<close> with a separator of one byte: what is before it, after it, and if it occurs.\<close>

definition cut :: "string \<Rightarrow> char \<Rightarrow> string \<times> string \<times> bool" where
  "cut s c = (takeWhile (\<lambda>x. x \<noteq> c) s, drop 1 (dropWhile (\<lambda>x. x \<noteq> c) s), c \<in> set s)"

text \<open>\<open>strings.Split\<close> with a separator of one byte: one piece more than separators.\<close>

fun split_on :: "char \<Rightarrow> string \<Rightarrow> string list" where
  "split_on c [] = [[]]"
| "split_on c (x # xs) =
     (if x = c then [] # split_on c xs
      else (case split_on c xs of [] \<Rightarrow> [[x]] | p # ps \<Rightarrow> (x # p) # ps))"

fun join :: "string \<Rightarrow> string list \<Rightarrow> string" where
  "join sep [] = []"
| "join sep [x] = x"
| "join sep (x # y # ys) = x @ sep @ join sep (y # ys)"

section \<open>Integers\<close>

definition to_int32 :: "int \<Rightarrow> int" where
  "to_int32 i = signed_take_bit 31 i"

definition to_int64 :: "int \<Rightarrow> int" where
  "to_int64 i = signed_take_bit 63 i"

definition digit_char :: "nat \<Rightarrow> char" where
  "digit_char d = char_of (48 + d)"

fun nat_to_string :: "nat \<Rightarrow> string" where
  "nat_to_string n =
     (if n < 10 then [digit_char n] else nat_to_string (n div 10) @ [digit_char (n mod 10)])"

declare nat_to_string.simps [simp del]

text \<open>\<open>strconv.Itoa\<close> and the verb \<open>%d\<close>.\<close>

definition itoa :: "int \<Rightarrow> string" where
  "itoa i = (if i < 0 then CHR ''-'' # nat_to_string (nat (- i)) else nat_to_string (nat i))"

definition hex_char :: "nat \<Rightarrow> char" where
  "hex_char d = (if d < 10 then char_of (48 + d) else char_of (87 + d))"

text \<open>The verb \<open>%02x\<close> on a byte, and \<open>hex.EncodeToString\<close>.\<close>

definition hex_byte :: "8 word \<Rightarrow> string" where
  "hex_byte b = [hex_char (unat b div 16), hex_char (unat b mod 16)]"

definition hex_encode :: "8 word list \<Rightarrow> string" where
  "hex_encode bs = concat (map hex_byte bs)"

text \<open>The verb \<open>%q\<close> on ASCII text.\<close>

definition quote_char :: "char \<Rightarrow> string" where
  "quote_char c =
     (let n = of_char c :: nat in
      if c = CHR 0x22 then [CHR 0x5C, CHR 0x22]
      else if c = CHR 0x5C then [CHR 0x5C, CHR 0x5C]
      else if c = CHR 0x07 then CHR 0x5C # ''a''
      else if c = CHR 0x08 then CHR 0x5C # ''b''
      else if c = CHR 0x0C then CHR 0x5C # ''f''
      else if c = CHR 0x0A then CHR 0x5C # ''n''
      else if c = CHR 0x0D then CHR 0x5C # ''r''
      else if c = CHR 0x09 then CHR 0x5C # ''t''
      else if c = CHR 0x0B then CHR 0x5C # ''v''
      else if n < 32 \<or> n = 127 then CHR 0x5C # CHR ''x'' # [hex_char (n div 16), hex_char (n mod 16)]
      else [c])"

definition go_quote :: "string \<Rightarrow> string" where
  "go_quote s = CHR 0x22 # concat (map quote_char s) @ [CHR 0x22]"

section \<open>Go maps\<close>

type_synonym ('k, 'v) gomap = "('k \<times> 'v) list"

definition get :: "('k, 'v) gomap \<Rightarrow> 'k \<Rightarrow> 'v option" where
  "get m k = map_of m k"

definition put :: "'k \<Rightarrow> 'v \<Rightarrow> ('k, 'v) gomap \<Rightarrow> ('k, 'v) gomap" where
  "put k v m = AList.update k v m"

definition del :: "'k \<Rightarrow> ('k, 'v) gomap \<Rightarrow> ('k, 'v) gomap" where
  "del k m = AList.delete k m"

definition keys_of :: "('k, 'v) gomap \<Rightarrow> 'k list" where
  "keys_of m = map fst m"

definition is_gomap :: "('k, 'v) gomap \<Rightarrow> bool" where
  "is_gomap m \<longleftrightarrow> distinct (keys_of m)"

section \<open>Collections of rewrite rules\<close>

named_theorems go_strings \<open>normal forms of trimmed and lower-cased strings\<close>
named_theorems go_maps \<open>lookups after updates of a Go map\<close>

section \<open>Facts on results\<close>

lemma and_then_Inr [simp]: "and_then r f = Inr y \<longleftrightarrow> (\<exists>x. r = Inr x \<and> f x = Inr y)"
  by (cases r) auto

lemma map_error_Inr [simp]: "map_error f r = Inr y \<longleftrightarrow> r = Inr y"
  by (cases r) auto

lemma map_error_Inl [simp]: "map_error f r = Inl y \<longleftrightarrow> (\<exists>e. r = Inl e \<and> y = f e)"
  by (cases r) auto

lemma map_res_Inr: "map_res f xs = Inr ys \<longleftrightarrow> list_all2 (\<lambda>x y. f x = Inr y) xs ys"
proof (induction xs arbitrary: ys)
  case (Cons x xs)
  show ?case
  proof (cases "f x")
    case (Inr y)
    then show ?thesis
      by (cases "map_res f xs") (auto simp: list_all2_Cons1 Cons.IH [symmetric])
  qed (auto simp: list_all2_Cons1)
qed auto

lemma map_res_eq_map: "(\<And>x. x \<in> set xs \<Longrightarrow> f x = Inr (g x)) \<Longrightarrow> map_res f xs = Inr (map g xs)"
  by (induction xs) auto

lemma map_res_set: "map_res f xs = Inr ys \<Longrightarrow> y \<in> set ys \<Longrightarrow> \<exists>x \<in> set xs. f x = Inr y"
  by (fastforce simp: map_res_Inr list_all2_conv_all_nth in_set_conv_nth)

lemma map_res_set2: "map_res f xs = Inr ys \<Longrightarrow> x \<in> set xs \<Longrightarrow> \<exists>y \<in> set ys. f x = Inr y"
  by (fastforce simp: map_res_Inr list_all2_conv_all_nth in_set_conv_nth)

section \<open>Facts on strings\<close>

lemma lower_char_idem [simp]: "lower_char (lower_char c) = lower_char c"
proof (cases "CHR ''A'' \<le> c \<and> c \<le> CHR ''Z''")
  case True
  then have r: "65 \<le> (of_char c :: nat)" "(of_char c :: nat) \<le> 90"
    by (simp_all add: less_eq_char_def)
  then have "of_char (char_of (of_char c + 32 :: nat) :: char) = (of_char c + 32 :: nat)"
    by (simp add: of_char_of)
  with r have "\<not> char_of (of_char c + 32 :: nat) \<le> CHR ''Z''"
    by (simp add: less_eq_char_def)
  with True show ?thesis by (simp add: lower_char_def)
next
  case False
  then show ?thesis by (auto simp: lower_char_def)
qed

lemma to_lower_idem [simp]: "to_lower (to_lower s) = to_lower s"
  by (simp add: to_lower_def)

lemma length_to_lower [simp]: "length (to_lower s) = length s"
  by (simp add: to_lower_def)

lemma to_lower_append [simp]: "to_lower (s @ t) = to_lower s @ to_lower t"
  by (simp add: to_lower_def)

lemma to_lower_Nil [simp]: "to_lower [] = []" "to_lower s = [] \<longleftrightarrow> s = []"
  by (simp_all add: to_lower_def)

lemma is_space_lower_char [simp]: "is_space (lower_char c) = is_space c"
proof (cases "CHR ''A'' \<le> c \<and> c \<le> CHR ''Z''")
  case True
  then have r: "65 \<le> (of_char c :: nat)" "(of_char c :: nat) \<le> 90"
    by (simp_all add: less_eq_char_def)
  then have "of_char (lower_char c) = (of_char c + 32 :: nat)"
    using True by (simp add: lower_char_def of_char_of)
  moreover have "is_space d \<Longrightarrow> (of_char d :: nat) \<le> 32" for d
    by (auto simp: is_space_def)
  ultimately show ?thesis using r by force
next
  case False
  then show ?thesis by (auto simp: lower_char_def)
qed

lemma trim_left_to_lower: "trim_left (to_lower s) = to_lower (trim_left s)"
  by (simp add: trim_left_def to_lower_def dropWhile_map comp_def)

lemma trim_right_to_lower: "trim_right (to_lower s) = to_lower (trim_right s)"
  by (simp add: trim_right_def to_lower_def rev_map dropWhile_map comp_def)

lemma trim_space_to_lower [go_strings]: "trim_space (to_lower s) = to_lower (trim_space s)"
  by (simp add: trim_space_def trim_left_to_lower trim_right_to_lower)

text \<open>A trimmed string is one with no white space at either end.\<close>

definition trimmed :: "string \<Rightarrow> bool" where
  "trimmed s \<longleftrightarrow> s = [] \<or> \<not> is_space (hd s) \<and> \<not> is_space (last s)"

lemma trim_space_trimmed: "trimmed s \<Longrightarrow> trim_space s = s"
proof (cases s rule: rev_cases)
  case (snoc xs x)
  assume "trimmed s"
  with snoc show ?thesis
    by (cases xs) (auto simp: trim_space_def trim_left_def trim_right_def trimmed_def)
qed (simp add: trim_space_def trim_left_def trim_right_def)

lemma last_trim_right: "trim_right s \<noteq> [] \<Longrightarrow> \<not> is_space (last (trim_right s))"
  by (simp add: trim_right_def last_rev hd_dropWhile del: dropWhile_eq_Nil_conv)

lemma trim_right_prefix: "prefix (trim_right s) s"
  by (metis suffix_dropWhile suffix_to_prefix rev_rev_ident trim_right_def)

lemma trimmed_trim_space [simp]: "trimmed (trim_space s)"
proof (cases "trim_space s = []")
  case False
  then have "trim_left s \<noteq> []"
    by (auto simp: trim_space_def trim_right_def)
  then have "\<not> is_space (hd (trim_left s))"
    unfolding trim_left_def by (rule hd_dropWhile)
  moreover have "hd (trim_space s) = hd (trim_left s)"
    using trim_right_prefix [of "trim_left s"] False
    by (metis hd_append2 prefix_def trim_space_def)
  ultimately show ?thesis
    using False last_trim_right [of "trim_left s"]
    by (simp add: trimmed_def trim_space_def)
qed (simp add: trimmed_def)

lemma trim_space_idem [simp]: "trim_space (trim_space s) = trim_space s"
  by (simp add: trim_space_trimmed)

lemma set_trim_space: "set (trim_space s) \<subseteq> set s"
proof -
  have "set (trim_right t) \<subseteq> set t" for t
    using set_mono_prefix trim_right_prefix by blast
  then have "set (trim_space s) \<subseteq> set (trim_left s)"
    by (simp add: trim_space_def)
  then show ?thesis by (auto simp: trim_left_def dest: set_dropWhileD)
qed

lemma trimmed_if_no_space: "\<forall>c \<in> set s. \<not> is_space c \<Longrightarrow> trimmed s"
  by (cases s) (auto simp: trimmed_def)

lemma has_prefix_iff: "has_prefix s p \<longleftrightarrow> prefix p s"
  by (metis append_eq_conv_conj append_take_drop_id has_prefix_def prefix_def)

lemma has_suffix_iff: "has_suffix s p \<longleftrightarrow> suffix p s"
  unfolding has_suffix_def suffix_def
  by (metis add_diff_cancel_right' append_eq_conv_conj append_take_drop_id diff_le_self
      length_append le_add2)

lemma has_prefix_append [simp]: "has_prefix (p @ s) p"
  by (simp add: has_prefix_def)

lemma has_suffix_append [simp]: "has_suffix (s @ p) p"
  by (simp add: has_suffix_def)

lemma trim_prefix_append: "has_prefix v p \<Longrightarrow> p @ trim_prefix v p = v"
  by (metis append_take_drop_id has_prefix_def trim_prefix_def)

lemma cut_found:
  assumes "cut s c = (a, b, True)"
  shows "s = a @ c # b" and "c \<notin> set a"
proof -
  from assms have c: "c \<in> set s" and a: "a = takeWhile (\<lambda>x. x \<noteq> c) s"
    and b: "b = drop 1 (dropWhile (\<lambda>x. x \<noteq> c) s)"
    by (auto simp: cut_def)
  from c have ne: "dropWhile (\<lambda>x. x \<noteq> c) s \<noteq> []"
    by auto
  then have "hd (dropWhile (\<lambda>x. x \<noteq> c) s) = c"
    using hd_dropWhile [OF ne] by simp
  with ne b have "dropWhile (\<lambda>x. x \<noteq> c) s = c # b"
    by (cases "dropWhile (\<lambda>x. x \<noteq> c) s") auto
  with a show "s = a @ c # b" by (metis takeWhile_dropWhile_id)
  show "c \<notin> set a" using a by (auto dest: set_takeWhileD)
qed

lemma cut_at: "c \<notin> set a \<Longrightarrow> cut (a @ c # b) c = (a, b, True)"
  by (induction a) (auto simp: cut_def)

lemma split_on_ne [simp]: "split_on c s \<noteq> []"
  by (induction s) (auto split: list.splits)

lemma split_on_no_sep: "p \<in> set (split_on c s) \<Longrightarrow> c \<notin> set p"
  by (induction s arbitrary: p) (force split: if_splits list.splits)+

lemma join_split_on: "join [c] (split_on c s) = s"
proof (induction s)
  case (Cons x s)
  then show ?case
    by (cases "split_on c s"; cases "tl (split_on c s)") auto
qed simp

lemma split_on_no_sep_eq: "c \<notin> set s \<Longrightarrow> split_on c s = [s]"
  by (induction s) auto

lemma split_on_append_sep: "split_on c (s @ c # t) = split_on c s @ split_on c t"
proof (induction s)
  case (Cons x s)
  then show ?case
    by (cases "split_on c s") auto
qed simp

lemma split_on_join:
  "ps \<noteq> [] \<Longrightarrow> \<forall>p \<in> set ps. c \<notin> set p \<Longrightarrow> split_on c (join [c] ps) = ps"
proof (induction "[c]" ps rule: join.induct)
  case (3 x y ys)
  then show ?case by (simp add: split_on_append_sep split_on_no_sep_eq)
qed (auto simp: split_on_no_sep_eq)

section \<open>Facts on integers\<close>

lemma to_int32_id: "- (2 ^ 31) \<le> i \<Longrightarrow> i < 2 ^ 31 \<Longrightarrow> to_int32 i = i"
  unfolding to_int32_def by (rule signed_take_bit_int_eq_self) auto

lemma to_int64_id: "- (2 ^ 63) \<le> i \<Longrightarrow> i < 2 ^ 63 \<Longrightarrow> to_int64 i = i"
  unfolding to_int64_def by (rule signed_take_bit_int_eq_self) auto

lemma nat_to_string_ne [simp]: "nat_to_string n \<noteq> []"
  by (subst nat_to_string.simps) simp

section \<open>Facts on Go maps\<close>

lemma get_Nil [simp, go_maps]: "get [] k = None"
  by (simp add: get_def)

lemma get_put [simp, go_maps]: "get (put k v m) k' = (if k' = k then Some v else get m k')"
  by (simp add: get_def put_def update_conv)

lemma get_del [simp, go_maps]: "get (del k m) k' = (if k' = k then None else get m k')"
  by (simp add: get_def del_def delete_conv)

lemma is_gomap_Nil [simp, intro]: "is_gomap []"
  by (simp add: is_gomap_def keys_of_def)

lemma is_gomap_put [simp, intro]: "is_gomap m \<Longrightarrow> is_gomap (put k v m)"
  by (simp add: is_gomap_def keys_of_def put_def distinct_update)

lemma is_gomap_del [simp, intro]: "is_gomap m \<Longrightarrow> is_gomap (del k m)"
  by (simp add: is_gomap_def keys_of_def del_def distinct_delete)

lemma set_keys_of: "set (keys_of m) = {k. get m k \<noteq> None}"
  by (force simp: keys_of_def get_def map_of_eq_None_iff)

lemma get_Some_in: "get m k = Some v \<Longrightarrow> (k, v) \<in> set m"
  by (simp add: get_def map_of_SomeD)

lemma in_get_Some: "is_gomap m \<Longrightarrow> (k, v) \<in> set m \<Longrightarrow> get m k = Some v"
  by (simp add: get_def is_gomap_def keys_of_def)

lemma is_gomap_filter [simp, intro]: "is_gomap m \<Longrightarrow> is_gomap (filter P m)"
  by (simp add: is_gomap_def keys_of_def distinct_map_filter)

lemma get_filter:
  assumes "is_gomap m"
  shows "get (filter (\<lambda>(k, v). P k v) m) k =
    (case get m k of None \<Rightarrow> None | Some v \<Rightarrow> if P k v then Some v else None)"
proof (cases "get (filter (\<lambda>(k, v). P k v) m) k")
  case None
  then have "(k, v) \<notin> set (filter (\<lambda>(k, v). P k v) m)" for v
    using in_get_Some [OF is_gomap_filter [OF assms]] by force
  with None show ?thesis by (auto split: option.splits dest!: get_Some_in)
next
  case (Some v)
  from get_Some_in [OF this] have "(k, v) \<in> set m" "P k v" by auto
  with Some in_get_Some [OF assms] show ?thesis by auto
qed

text \<open>A keyed store as its clients see it: lookups after an insertion and a removal.\<close>

locale keyed_store =
  fixes lookup :: "'s \<Rightarrow> 'k \<Rightarrow> 'v option"
    and insert :: "'k \<Rightarrow> 'v \<Rightarrow> 's \<Rightarrow> 's"
    and remove :: "'k \<Rightarrow> 's \<Rightarrow> 's"
    and ok :: "'s \<Rightarrow> bool"
  assumes lookup_insert: "ok s \<Longrightarrow> lookup (insert k v s) k' = (if k' = k then Some v else lookup s k')"
    and lookup_remove: "ok s \<Longrightarrow> lookup (remove k s) k' = (if k' = k then None else lookup s k')"
    and ok_insert: "ok s \<Longrightarrow> ok (insert k v s)"
    and ok_remove: "ok s \<Longrightarrow> ok (remove k s)"
begin

lemma insert_remove_lookup: "ok s \<Longrightarrow> lookup (remove k (insert k v s)) = lookup (remove k s)"
  by (rule ext) (simp add: lookup_insert lookup_remove ok_insert)

lemma insert_fresh_remove:
  "ok s \<Longrightarrow> lookup s k = None \<Longrightarrow> lookup (remove k (insert k v s)) = lookup s"
  by (rule ext) (simp add: lookup_insert lookup_remove ok_insert)

lemma insert_commute_lookup:
  "ok s \<Longrightarrow> k \<noteq> l \<Longrightarrow> lookup (insert k v (insert l w s)) = lookup (insert l w (insert k v s))"
  by (rule ext) (simp add: lookup_insert ok_insert)

end

interpretation gomap: keyed_store get put del is_gomap
  by unfold_locales simp_all

end
