(* ===== verification/Ociref.thy ===== *)
theory Ociref
  imports Prelude
begin

text \<open>
  \<open>internal/ociref/ref.go\<close>: digest-pinned OCI image references
  \<open>repo/image@sha256:<64 hex digits>\<close>. The parser trims the reference, cuts it at the first
  \<open>@\<close>, trims both parts, and lower-cases the digest before it looks at it. The theorems say what
  an accepted reference looks like, that every well-formed one is accepted, and that the stored
  reference parses back to the same value.
\<close>

record DigestReference =
  drOriginal :: string
  drRepository :: string
  drDigestAlgorithm :: string
  drDigestHex :: string

datatype ref_error =
    RefEmpty
  | RefNotPinned string
  | RefEmptyRepository string
  | RefWhitespace string
  | RefBadDigest string

definition Digest :: "DigestReference \<Rightarrow> string" where
  "Digest r = drDigestAlgorithm r @ '':'' @ drDigestHex r"

definition is_hex_char :: "char \<Rightarrow> bool" where
  "is_hex_char c \<longleftrightarrow> (CHR ''a'' \<le> c \<and> c \<le> CHR ''f'') \<or> (CHR ''0'' \<le> c \<and> c \<le> CHR ''9'')"

text \<open>The regular expression \<open>^[a-f0-9]{64}$\<close>.\<close>

definition sha256HexPattern :: "string \<Rightarrow> bool" where
  "sha256HexPattern s \<longleftrightarrow> length s = 64 \<and> list_all is_hex_char s"

definition ref_blank :: "char \<Rightarrow> bool" where
  "ref_blank c \<longleftrightarrow> c \<in> {CHR '' '', CHR 0x09, CHR 0x0A, CHR 0x0D}"

definition ParseDigestReference :: "string \<Rightarrow> ref_error + DigestReference" where
  "ParseDigestReference raw =
     (let ref = trim_space raw in
      if ref = [] then Inl RefEmpty
      else
        (case cut ref CHR ''@'' of (repo0, digest0, found) \<Rightarrow>
          if \<not> found then Inl (RefNotPinned ref)
          else
            (let repo = trim_space repo0; digestPart = trim_space digest0 in
             if repo = [] then Inl (RefEmptyRepository ref)
             else if list_ex ref_blank repo then Inl (RefWhitespace ref)
             else
               (case cut (to_lower digestPart) CHR '':'' of (algo, hexPart, ok) \<Rightarrow>
                 if \<not> ok \<or> algo \<noteq> ''sha256'' \<or> \<not> sha256HexPattern hexPart
                 then Inl (RefBadDigest ref)
                 else Inr \<lparr>drOriginal = ref, drRepository = repo,
                           drDigestAlgorithm = algo, drDigestHex = hexPart\<rparr>))))"

section \<open>Accepted references\<close>

lemma ParseDigestReference_InrD:
  assumes "ParseDigestReference raw = Inr r"
  shows "drOriginal r = trim_space raw" "drRepository r \<noteq> []" "\<not> list_ex ref_blank (drRepository r)"
    "drDigestAlgorithm r = ''sha256''" "sha256HexPattern (drDigestHex r)"
    "trimmed (drRepository r)" "CHR ''@'' \<notin> set (drRepository r)"
proof -
  obtain repo0 digest0 found where c1: "cut (trim_space raw) CHR ''@'' = (repo0, digest0, found)"
    by (metis prod_cases3)
  obtain algo hexPart ok where c2: "cut (to_lower (trim_space digest0)) CHR '':'' = (algo, hexPart, ok)"
    by (metis prod_cases3)
  have eqs: "found" "trim_space repo0 \<noteq> []" "\<not> list_ex ref_blank (trim_space repo0)"
    "algo = ''sha256''" "sha256HexPattern hexPart"
    "r = \<lparr>drOriginal = trim_space raw, drRepository = trim_space repo0,
          drDigestAlgorithm = algo, drDigestHex = hexPart\<rparr>"
    using assms by (auto simp: ParseDigestReference_def Let_def c1 c2 split: if_splits)
  show "drOriginal r = trim_space raw" "drRepository r \<noteq> []" "\<not> list_ex ref_blank (drRepository r)"
    "drDigestAlgorithm r = ''sha256''" "sha256HexPattern (drDigestHex r)"
    "trimmed (drRepository r)"
    using eqs by simp_all
  have "CHR ''@'' \<notin> set repo0"
    using c1 cut_found(2) [of "trim_space raw" "CHR ''@''" repo0 digest0] eqs by simp
  then show "CHR ''@'' \<notin> set (drRepository r)"
    using eqs set_trim_space [of repo0] by auto
qed

lemma ParseDigestReference_trim: "ParseDigestReference (trim_space raw) = ParseDigestReference raw"
  by (simp add: ParseDigestReference_def)

lemma ParseDigestReference_reparse:
  "ParseDigestReference raw = Inr r \<Longrightarrow> ParseDigestReference (drOriginal r) = Inr r"
  using ParseDigestReference_InrD(1) ParseDigestReference_trim by simp

lemma Digest_ne [simp]: "Digest r \<noteq> []"
  by (simp add: Digest_def)

lemma is_hex_not_space: "is_hex_char c \<Longrightarrow> \<not> is_space c"
  by (auto simp: is_hex_char_def is_space_def less_eq_char_def)

lemma lower_hex: "is_hex_char c \<Longrightarrow> lower_char c = c"
  by (auto simp: is_hex_char_def lower_char_def less_eq_char_def)

lemma hex_no_space: "sha256HexPattern s \<Longrightarrow> c \<in> set s \<Longrightarrow> \<not> is_space c"
  by (auto simp: sha256HexPattern_def list_all_iff dest: is_hex_not_space)

lemma sha256_prefix_no_space: "c \<in> set ''sha256:'' \<Longrightarrow> \<not> is_space c"
  by (auto simp: is_space_def)

lemma trimmed_Digest:
  assumes "ParseDigestReference raw = Inr r"
  shows "trimmed (Digest r)"
proof (rule trimmed_if_no_space, rule ballI)
  fix c
  assume "c \<in> set (Digest r)"
  then have "c \<in> set ''sha256:'' \<or> c \<in> set (drDigestHex r)"
    using ParseDigestReference_InrD(4) [OF assms] by (auto simp: Digest_def)
  then show "\<not> is_space c"
    using sha256_prefix_no_space hex_no_space ParseDigestReference_InrD(5) [OF assms] by blast
qed

text \<open>Every reference of the documented form is accepted, in any case of the digest.\<close>

lemma ParseDigestReference_complete:
  assumes repo: "repo \<noteq> []" "\<forall>c \<in> set repo. \<not> is_space c \<and> c \<noteq> CHR ''@''"
    and dig: "to_lower dig = ''sha256:'' @ hex" "sha256HexPattern hex"
  shows "ParseDigestReference (repo @ ''@'' @ dig) =
    Inr \<lparr>drOriginal = repo @ ''@'' @ dig, drRepository = repo,
         drDigestAlgorithm = ''sha256'', drDigestHex = hex\<rparr>"
proof -
  have "\<not> is_space c" if "c \<in> set (to_lower dig)" for c
  proof -
    from that have "c \<in> set ''sha256:'' \<or> c \<in> set hex"
      unfolding dig(1) set_append by (rule Un_iff [THEN iffD1])
    then show ?thesis using sha256_prefix_no_space hex_no_space [OF dig(2)] by blast
  qed
  then have digsp: "\<forall>c \<in> set dig. \<not> is_space c"
    unfolding to_lower_def using is_space_lower_char by fastforce
  have "\<not> is_space CHR ''@''" by (simp add: is_space_def)
  then have "trimmed (repo @ ''@'' @ dig)"
    using repo digsp by (intro trimmed_if_no_space) auto
  then have 1: "trim_space (repo @ ''@'' @ dig) = repo @ ''@'' @ dig"
    by (rule trim_space_trimmed)
  have 2: "trim_space repo = repo" "trim_space dig = dig"
    using repo digsp by (simp_all add: trim_space_trimmed trimmed_if_no_space)
  have 3: "\<not> list_ex ref_blank repo"
    using repo by (auto simp: list_ex_iff ref_blank_def is_space_def)
  have 4: "cut (repo @ ''@'' @ dig) CHR ''@'' = (repo, dig, True)"
    using repo cut_at [of "CHR ''@''" repo dig] by auto
  have 5: "cut (to_lower dig) CHR '':'' = (''sha256'', hex, True)"
    using dig cut_at [of "CHR '':''" "''sha256''" hex] by simp
  show ?thesis
    using repo(1) dig(2) 2 3 4 5 unfolding ParseDigestReference_def 1 by simp
qed

text \<open>C19. A reference of a repository and a digest is accepted exactly when the digest, lower-cased, is
  \<open>sha256:\<close> followed by 64 hexadecimal digits, and then the parts of the result are the repository as
  given and the lower-cased digest.\<close>

theorem ParseDigestReference_iff:
  assumes "repo \<noteq> []" and "\<forall>c \<in> set repo. \<not> is_space c \<and> c \<noteq> CHR ''@''" and "\<forall>c \<in> set dig. \<not> is_space c"
  shows "ParseDigestReference (repo @ ''@'' @ dig) = Inr r \<longleftrightarrow>
    (\<exists>hex. to_lower dig = ''sha256:'' @ hex \<and> sha256HexPattern hex \<and>
       r = \<lparr>drOriginal = repo @ ''@'' @ dig, drRepository = repo, drDigestAlgorithm = ''sha256'', drDigestHex = hex\<rparr>)"
    (is "?l \<longleftrightarrow> ?r")
proof
  assume ?r
  then show ?l using ParseDigestReference_complete [OF assms(1,2)] by blast
next
  assume l: ?l
  have "\<not> is_space CHR ''@''" by (simp add: is_space_def)
  then have "trimmed (repo @ ''@'' @ dig)"
    using assms by (intro trimmed_if_no_space) auto
  then have t: "trim_space (repo @ ''@'' @ dig) = repo @ ''@'' @ dig" "trim_space repo = repo" "trim_space dig = dig"
    using assms by (simp_all add: trim_space_trimmed trimmed_if_no_space del: append.simps)
  have c: "cut (repo @ ''@'' @ dig) CHR ''@'' = (repo, dig, True)"
    using assms(2) cut_at [of "CHR ''@''" repo dig] by auto
  obtain algo hex ok where c2: "cut (to_lower dig) CHR '':'' = (algo, hex, ok)" by (metis prod_cases3)
  have e: "algo = ''sha256''" "sha256HexPattern hex" "ok"
    "r = \<lparr>drOriginal = repo @ ''@'' @ dig, drRepository = repo, drDigestAlgorithm = algo, drDigestHex = hex\<rparr>"
    using l unfolding ParseDigestReference_def t Let_def c prod.case c2 by (simp_all split: if_splits)
  moreover have "to_lower dig = algo @ CHR '':'' # hex" using cut_found(1) [of "to_lower dig" "CHR '':''" algo hex] c2 e(3) by simp
  ultimately show ?r by simp
qed

theorem ParseDigestReference_iff_witness:
  "\<exists>r. ParseDigestReference (''app'' @ ''@'' @ ''SHA256:'' @ replicate 64 CHR ''A'') = Inr r \<and> drRepository r = ''app'' \<and>
     drDigestHex r = replicate 64 CHR ''a''"
proof -
  have "\<forall>c \<in> set ''app''. \<not> is_space c \<and> c \<noteq> CHR ''@''" "\<forall>c \<in> set (''SHA256:'' @ replicate 64 CHR ''A''). \<not> is_space c"
    by (simp_all add: is_space_def)
  from ParseDigestReference_iff [OF _ this] have iff: "ParseDigestReference (''app'' @ ''@'' @ ''SHA256:'' @ replicate 64 CHR ''A'') = Inr r \<longleftrightarrow>
    (\<exists>hex. to_lower (''SHA256:'' @ replicate 64 CHR ''A'') = ''sha256:'' @ hex \<and> sha256HexPattern hex \<and>
       r = \<lparr>drOriginal = ''app'' @ ''@'' @ ''SHA256:'' @ replicate 64 CHR ''A'', drRepository = ''app'', drDigestAlgorithm = ''sha256'', drDigestHex = hex\<rparr>)"
    for r by blast
  have "to_lower ''SHA256:'' = ''sha256:''" "lower_char CHR ''A'' = CHR ''a''" "is_hex_char CHR ''a''" by code_simp+
  then have "to_lower (''SHA256:'' @ replicate 64 CHR ''A'') = ''sha256:'' @ replicate 64 CHR ''a''" "sha256HexPattern (replicate 64 CHR ''a'')"
    unfolding to_lower_def map_append map_replicate by (simp_all only: sha256HexPattern_def length_replicate list_all_iff set_replicate_conv_if) simp_all
  with iff show ?thesis by (intro exI conjI) (rule iff [THEN iffD2], blast, simp_all)
qed

end
