(* ===== verification/Json.thy ===== *)
theory Json
  imports Prelude
begin

text \<open>
  \<open>encoding/json\<close> as the sources use it to write: strings with Go's escapes (control
  characters, quotes, backslashes and the HTML characters), integers, booleans, arrays and
  objects with their fields in declaration order.
\<close>

definition json_escape :: "char \<Rightarrow> string" where
  "json_escape c =
     (if c = CHR 0x22 then [CHR 0x5C, CHR 0x22]
      else if c = CHR 0x5C then [CHR 0x5C, CHR 0x5C]
      else if c = CHR 0x08 then [CHR 0x5C, CHR ''b'']
      else if c = CHR 0x0C then [CHR 0x5C, CHR ''f'']
      else if c = CHR 0x0A then [CHR 0x5C, CHR ''n'']
      else if c = CHR 0x0D then [CHR 0x5C, CHR ''r'']
      else if c = CHR 0x09 then [CHR 0x5C, CHR ''t'']
      else if (of_char c :: nat) < 32 \<or> c \<in> {CHR ''<'', CHR ''>'', CHR ''&''}
      then CHR 0x5C # ''u00'' @ hex_byte (word_of_nat (of_char c))
      else [c])"

definition json_string :: "string \<Rightarrow> string" where
  "json_string s = CHR 0x22 # concat (map json_escape s) @ [CHR 0x22]"

definition json_bool :: "bool \<Rightarrow> string" where
  "json_bool b = (if b then ''true'' else ''false'')"

definition json_array :: "string list \<Rightarrow> string" where
  "json_array xs = ''['' @ join '','' xs @ '']''"

definition json_object :: "(string \<times> string) list \<Rightarrow> string" where
  "json_object fs = CHR 0x7B # join '','' (map (\<lambda>(k, v). json_string k @ '':'' @ v) fs) @ [CHR 0x7D]"

end
