(* ===== verification/Digest.thy ===== *)
theory Digest
  imports Prelude
begin

text \<open>
  The two digests of Go's \<open>crypto\<close> packages that the sources compute: SHA-256 (policy hashes,
  the runtime root file system cache key) and SHA-1 (guest addresses and MAC addresses derived
  from a run identifier). Both follow FIPS 180-4 on byte strings: pad to a multiple of 64 bytes,
  expand each block into a message schedule, and fold the compression function over the blocks.
\<close>

unbundle bit_operations_syntax

type_synonym byte = "8 word"
type_synonym w32 = "32 word"

definition bytes_of :: "string \<Rightarrow> byte list" where
  "bytes_of s = map (\<lambda>c. word_of_nat (of_char c)) s"

section \<open>Padding and blocks\<close>

definition be64 :: "nat \<Rightarrow> byte list" where
  "be64 n = map (\<lambda>i. word_of_nat (n div 256 ^ (7 - i))) [0..<8]"

definition be32 :: "w32 \<Rightarrow> byte list" where
  "be32 w = map (\<lambda>i. ucast (drop_bit (8 * (3 - i)) w)) [0..<4]"

definition pad_message :: "byte list \<Rightarrow> byte list" where
  "pad_message m = m @ 0x80 # replicate ((119 - length m mod 64) mod 64) 0 @ be64 (8 * length m)"

fun words_of :: "byte list \<Rightarrow> w32 list" where
  "words_of (a # b # c # d # r) =
     (push_bit 24 (ucast a) OR push_bit 16 (ucast b) OR push_bit 8 (ucast c) OR ucast d) # words_of r"
| "words_of _ = []"

fun blocks_of :: "w32 list \<Rightarrow> w32 list list" where
  "blocks_of [] = []"
| "blocks_of (w # ws) = take 16 (w # ws) # blocks_of (drop 15 ws)"

section \<open>SHA-256\<close>

text \<open>
  The round constants and the initial state are the first 32 bits of the fractional parts of the
  cube roots of the first 64 primes and of the square roots of the first eight. They are computed
  here: scaled by \<open>2 ^ 32\<close>, the root's integer part modulo \<open>2 ^ 32\<close> is the fraction.
\<close>

definition first_primes :: "int list" where
  "first_primes = filter (\<lambda>p. list_all (\<lambda>d. p mod d \<noteq> 0) [2..p - 1]) [2..311]"

definition int_root :: "nat \<Rightarrow> int \<Rightarrow> int" where
  "int_root k n = foldl (\<lambda>r b. if (r + 2 ^ b) ^ k \<le> n then r + 2 ^ b else r) 0 (rev [0..<40])"

definition root_fraction :: "nat \<Rightarrow> int \<Rightarrow> w32" where
  "root_fraction k p = word_of_int (int_root k (p * 2 ^ (32 * k)))"

definition sha256_k :: "w32 list" where
  "sha256_k = map (root_fraction 3) first_primes"

definition sha256_h0 :: "w32 list" where
  "sha256_h0 = map (root_fraction 2) [2, 3, 5, 7, 11, 13, 17, 19]"

definition rotr32 :: "nat \<Rightarrow> w32 \<Rightarrow> w32" where
  "rotr32 n x = drop_bit n x OR push_bit (32 - n) x"

text \<open>The schedule is kept newest word first, so the word \<open>j\<close> places back is at index \<open>j - 1\<close>.\<close>

primrec sha256_schedule :: "nat \<Rightarrow> w32 list \<Rightarrow> w32 list" where
  "sha256_schedule 0 ws = ws"
| "sha256_schedule (Suc n) ws =
     (let w15 = ws ! 14; w2 = ws ! 1;
          s0 = rotr32 7 w15 XOR rotr32 18 w15 XOR drop_bit 3 w15;
          s1 = rotr32 17 w2 XOR rotr32 19 w2 XOR drop_bit 10 w2
      in sha256_schedule n ((ws ! 15 + s0 + ws ! 6 + s1) # ws))"

fun sha256_round :: "w32 list \<Rightarrow> w32 \<times> w32 \<Rightarrow> w32 list" where
  "sha256_round [a, b, c, d, e, f, g, h] (k, w) =
     (let t1 = h + (rotr32 6 e XOR rotr32 11 e XOR rotr32 25 e) + ((e AND f) XOR (NOT e AND g)) + k + w;
          t2 = (rotr32 2 a XOR rotr32 13 a XOR rotr32 22 a) + ((a AND b) XOR (a AND c) XOR (b AND c))
      in [t1 + t2, a, b, c, d + t1, e, f, g])"
| "sha256_round st _ = st"

definition sha256_block :: "w32 list \<Rightarrow> w32 list \<Rightarrow> w32 list" where
  "sha256_block st blk =
     map2 (+) st (foldl sha256_round st (zip sha256_k (rev (sha256_schedule 48 (rev blk)))))"

definition sha256_sum :: "string \<Rightarrow> byte list" where
  "sha256_sum s =
     concat (map be32 (foldl sha256_block sha256_h0 (blocks_of (words_of (pad_message (bytes_of s))))))"

definition sha256_hex :: "string \<Rightarrow> string" where
  "sha256_hex s = hex_encode (sha256_sum s)"

section \<open>SHA-1\<close>

definition sha1_h0 :: "w32 list" where
  "sha1_h0 = [0x67452301, 0xefcdab89, 0x98badcfe, 0x10325476, 0xc3d2e1f0]"

primrec sha1_schedule :: "nat \<Rightarrow> w32 list \<Rightarrow> w32 list" where
  "sha1_schedule 0 ws = ws"
| "sha1_schedule (Suc n) ws =
     sha1_schedule n (rotr32 31 (ws ! 2 XOR ws ! 7 XOR ws ! 13 XOR ws ! 15) # ws)"

fun sha1_round :: "w32 list \<Rightarrow> nat \<times> w32 \<Rightarrow> w32 list" where
  "sha1_round [a, b, c, d, e] (t, w) =
     (let (f, k) =
        (if t < 20 then ((b AND c) OR (NOT b AND d), 0x5a827999)
         else if t < 40 then (b XOR c XOR d, 0x6ed9eba1)
         else if t < 60 then ((b AND c) OR (b AND d) OR (c AND d), 0x8f1bbcdc)
         else (b XOR c XOR d, 0xca62c1d6))
      in [rotr32 27 a + f + e + k + w, a, rotr32 2 b, c, d])"
| "sha1_round st _ = st"

definition sha1_block :: "w32 list \<Rightarrow> w32 list \<Rightarrow> w32 list" where
  "sha1_block st blk =
     map2 (+) st (foldl sha1_round st (zip [0..<80] (rev (sha1_schedule 64 (rev blk)))))"

definition sha1_sum :: "string \<Rightarrow> byte list" where
  "sha1_sum s =
     concat (map be32 (foldl sha1_block sha1_h0 (blocks_of (words_of (pad_message (bytes_of s))))))"

section \<open>Lengths\<close>

lemma length_be32 [simp]: "length (be32 w) = 4"
  by (simp add: be32_def)

lemma length_concat_be32: "length (concat (map be32 ws)) = 4 * length ws"
  by (induction ws) auto

lemma length_sha1_round [simp]: "length (sha1_round st x) = length st"
  by (induction st x rule: sha1_round.induct) (auto simp: Let_def split: prod.splits)

lemma length_sha256_round [simp]: "length (sha256_round st x) = length st"
  by (induction st x rule: sha256_round.induct) (auto simp: Let_def)

lemma length_foldl_inv: "(\<And>s x. length (f s x) = length s) \<Longrightarrow> length (foldl f s xs) = length s"
  by (induction xs arbitrary: s) auto

lemma length_sha1_block: "length (sha1_block st blk) = length st"
  by (simp add: sha1_block_def length_foldl_inv)

lemma length_sha256_block: "length (sha256_block st blk) = length st"
  by (simp add: sha256_block_def length_foldl_inv)

lemma length_sha1_sum [simp]: "length (sha1_sum s) = 20"
  by (simp add: sha1_sum_def length_concat_be32 length_foldl_inv length_sha1_block sha1_h0_def)

lemma length_sha256_sum [simp]: "length (sha256_sum s) = 32"
  by (simp add: sha256_sum_def length_concat_be32 length_foldl_inv length_sha256_block sha256_h0_def)

lemma length_hex_encode [simp]: "length (hex_encode bs) = 2 * length bs"
  by (induction bs) (auto simp: hex_encode_def hex_byte_def)

lemma length_sha256_hex [simp]: "length (sha256_hex s) = 64"
  by (simp add: sha256_hex_def)

lemma sha256_hex_ne [simp]: "sha256_hex s \<noteq> []"
  using length_sha256_hex [of s] by (metis list.size(3) zero_neq_numeral)

text \<open>The characters of a hexadecimal text.\<close>

lemma hex_char_plain: "n < 16 \<Longrightarrow> lower_char (hex_char n) = hex_char n \<and> \<not> is_space (hex_char n) \<and> hex_char n \<noteq> CHR '':'' \<and> hex_char n \<noteq> CHR ''s''"
proof -
  have "\<forall>n \<in> set [0..<16]. lower_char (hex_char n) = hex_char n \<and> \<not> is_space (hex_char n) \<and> hex_char n \<noteq> CHR '':'' \<and> hex_char n \<noteq> CHR ''s''"
    by code_simp
  then show "n < 16 \<Longrightarrow> ?thesis" by simp
qed

lemma hex_encode_chars:
  assumes "c \<in> set (hex_encode bs)"
  shows "\<exists>n < 16. c = hex_char n"
proof -
  obtain b :: "8 word" where b: "c = hex_char (unat b div 16) \<or> c = hex_char (unat b mod 16)"
    using assms by (auto simp: hex_encode_def hex_byte_def)
  have "unat b < 256" using unsigned_less [of b] by simp
  then have "unat b div 16 < 16" "unat b mod 16 < 16" by simp_all
  then show ?thesis using b by blast
qed

lemma hex_encode_trimmed: "trim_space (hex_encode bs) = hex_encode bs"
  using hex_encode_chars hex_char_plain by (intro trim_space_trimmed trimmed_if_no_space) blast

end
