(* ===== verification/Paths.thy ===== *)
theory Paths
  imports Prelude
begin

text \<open>
  Slash-separated paths as Go's \<open>path\<close> and (on Unix) \<open>path/filepath\<close> treat them: \<open>Clean\<close>,
  \<open>Join\<close>, \<open>Dir\<close>, \<open>IsAbs\<close> and \<open>Rel\<close>. \<open>Clean\<close> works on the list of segments with a stack,
  newest segment first: empty segments and \<open>.\<close> are skipped, \<open>..\<close> pops a segment, stays at the
  front of a relative path and is dropped at the root. The lemmas say what a cleaned path looks
  like and that cleaning is idempotent.
\<close>

abbreviation slash :: char where
  "slash \<equiv> CHR ''/''"

definition clean_step :: "bool \<Rightarrow> string list \<Rightarrow> string \<Rightarrow> string list" where
  "clean_step rooted st seg =
     (if seg = [] \<or> seg = ''.'' then st
      else if seg = ''..'' then
        (case st of
           t # rest \<Rightarrow> if t = ''..'' then (if rooted then st else ''..'' # st) else rest
         | [] \<Rightarrow> if rooted then [] else [''..''])
      else seg # st)"

definition clean_segments :: "bool \<Rightarrow> string list \<Rightarrow> string list" where
  "clean_segments rooted segs = rev (foldl (clean_step rooted) [] segs)"

definition rooted_path :: "string \<Rightarrow> bool" where
  "rooted_path p \<longleftrightarrow> has_prefix p ''/''"

definition render_path :: "bool \<Rightarrow> string list \<Rightarrow> string" where
  "render_path rooted segs =
     (if rooted then ''/'' @ join ''/'' segs else if segs = [] then ''.'' else join ''/'' segs)"

text \<open>\<open>path.Clean\<close> and \<open>filepath.Clean\<close>.\<close>

definition Clean :: "string \<Rightarrow> string" where
  "Clean p = render_path (rooted_path p) (clean_segments (rooted_path p) (split_on slash p))"

text \<open>\<open>filepath.Join\<close>: empty leading elements are dropped, the rest joined and cleaned.\<close>

definition path_join :: "string list \<Rightarrow> string" where
  "path_join elems =
     (case dropWhile (\<lambda>e. e = []) elems of [] \<Rightarrow> [] | es \<Rightarrow> Clean (join ''/'' es))"

definition IsAbs :: "string \<Rightarrow> bool" where
  "IsAbs p \<longleftrightarrow> rooted_path p"

text \<open>\<open>filepath.Dir\<close>: everything up to the last slash, cleaned.\<close>

definition path_dir :: "string \<Rightarrow> string" where
  "path_dir p = Clean (rev (dropWhile (\<lambda>c. c \<noteq> slash) (rev p)))"

section \<open>Cleaned segments\<close>

definition plain_seg :: "string \<Rightarrow> bool" where
  "plain_seg s \<longleftrightarrow> s \<noteq> [] \<and> s \<noteq> ''.'' \<and> s \<noteq> ''..'' \<and> slash \<notin> set s"

text \<open>A stack of a rooted path holds plain segments only; one of a relative path may end in \<open>..\<close>.\<close>

definition clean_stack :: "bool \<Rightarrow> string list \<Rightarrow> bool" where
  "clean_stack rooted st \<longleftrightarrow>
     (\<exists>ps k. st = ps @ replicate k ''..'' \<and> (\<forall>p \<in> set ps. plain_seg p) \<and> (rooted \<longrightarrow> k = 0))"

lemma plain_seg_neq: "plain_seg s \<Longrightarrow> s \<noteq> ''..''" "plain_seg s \<Longrightarrow> s \<noteq> ''.''" "plain_seg s \<Longrightarrow> s \<noteq> []"
  by (auto simp: plain_seg_def)

lemma clean_stack_Nil [simp]: "clean_stack rooted []"
  by (auto simp: clean_stack_def)

lemma clean_stack_push: "clean_stack r st \<Longrightarrow> plain_seg s \<Longrightarrow> clean_stack r (s # st)"
  unfolding clean_stack_def by (metis append_Cons set_ConsD)

lemma clean_stack_dots: "(r \<longrightarrow> k = 0) \<Longrightarrow> clean_stack r (replicate k ''..'')"
  unfolding clean_stack_def by (metis append_Nil empty_iff list.set(1))

lemma clean_stack_step:
  assumes "clean_stack r st" and "slash \<notin> set seg"
  shows "clean_stack r (clean_step r st seg)"
proof -
  obtain ps k where st: "st = ps @ replicate k ''..''" and ps: "\<forall>p \<in> set ps. plain_seg p"
    and k: "r \<longrightarrow> k = 0"
    using assms(1) by (auto simp: clean_stack_def)
  consider (skip) "seg = [] \<or> seg = ''.''" | (up) "seg = ''..''" | (plain) "plain_seg seg"
    using assms(2) unfolding plain_seg_def by blast
  then show ?thesis
  proof cases
    case skip
    then show ?thesis using assms(1) by (simp add: clean_step_def)
  next
    case plain
    then show ?thesis using assms(1) by (simp add: clean_step_def clean_stack_push plain_seg_neq)
  next
    case up
    show ?thesis
    proof (cases ps)
      case Nil
      have "clean_step r st seg = (if r then st else replicate (Suc k) ''..'')"
        using Nil up st k by (cases k) (auto simp: clean_step_def)
      then show ?thesis
        using assms(1) clean_stack_dots [of r "Suc k"] by (cases r) simp_all
    next
      case (Cons p qs)
      then have "clean_step r st seg = qs @ replicate k ''..''"
        using up st ps by (simp add: clean_step_def plain_seg_neq)
      then show ?thesis using Cons ps k by (auto simp: clean_stack_def)
    qed
  qed
qed

lemma clean_stack_foldl:
  "clean_stack r st \<Longrightarrow> \<forall>s \<in> set segs. slash \<notin> set s \<Longrightarrow> clean_stack r (foldl (clean_step r) st segs)"
  by (induction segs arbitrary: st) (auto simp: clean_stack_step)

lemma clean_stack_segments:
  "\<forall>s \<in> set segs. slash \<notin> set s \<Longrightarrow> clean_stack r (rev (clean_segments r segs))"
  by (simp add: clean_segments_def clean_stack_foldl)

lemma rooted_segments_plain:
  assumes "\<forall>s \<in> set segs. slash \<notin> set s" and "s \<in> set (clean_segments True segs)"
  shows "plain_seg s"
  using clean_stack_segments [OF assms(1), of True] assms(2)
  by (auto simp: clean_stack_def dest!: arg_cong [of "rev _" _ rev])

lemma clean_segment_cases:
  assumes "\<forall>s \<in> set segs. slash \<notin> set s" and "s \<in> set (clean_segments r segs)"
  shows "plain_seg s \<or> s = ''..''"
proof -
  obtain ps k where "rev (clean_segments r segs) = ps @ replicate k ''..''"
    and "\<forall>p \<in> set ps. plain_seg p"
    using clean_stack_segments [OF assms(1), of r] by (auto simp: clean_stack_def)
  then have "set (clean_segments r segs) \<subseteq> set ps \<union> {''..''}"
    by (metis Un_mono set_append set_replicate_conv_if set_rev subset_refl empty_subsetI)
  then show ?thesis using assms(2) \<open>\<forall>p \<in> set ps. plain_seg p\<close> by blast
qed

text \<open>Cleaning a clean list of segments gives it back.\<close>

lemma foldl_clean_plain: "\<forall>p \<in> set ps. plain_seg p \<Longrightarrow> foldl (clean_step r) st ps = rev ps @ st"
  by (induction ps arbitrary: st) (simp_all add: clean_step_def plain_seg_neq)

lemma foldl_clean_dots:
  "foldl (clean_step False) (replicate j ''..'') (replicate k ''..'') = replicate (j + k) ''..''"
proof (induction k arbitrary: j)
  case (Suc k)
  have "clean_step False (replicate j ''..'') ''..'' = replicate (Suc j) ''..''"
    by (cases j) (auto simp: clean_step_def)
  with Suc [of "Suc j"] show ?case by simp
qed simp

lemma clean_segments_clean:
  assumes "clean_stack r (rev segs)"
  shows "clean_segments r segs = segs"
proof -
  obtain ps k where "rev segs = ps @ replicate k ''..''" and ps: "\<forall>p \<in> set ps. plain_seg p"
    and k: "r \<longrightarrow> k = 0"
    using assms by (auto simp: clean_stack_def)
  then have segs: "segs = replicate k ''..'' @ rev ps"
    by (metis rev_append rev_replicate rev_rev_ident)
  have "foldl (clean_step r) [] (replicate k ''..'') = replicate k ''..''"
    using foldl_clean_dots [of 0 k] k by (cases r) auto
  then have "foldl (clean_step r) [] segs = ps @ replicate k ''..''"
    using ps by (simp add: segs foldl_clean_plain)
  then show ?thesis by (simp add: clean_segments_def segs)
qed

section \<open>Cleaned paths\<close>

lemma split_no_slash [simp]: "\<forall>s \<in> set (split_on slash p). slash \<notin> set s"
  using split_on_no_sep by blast

lemma plain_seg_or_dots: "plain_seg s \<or> s = ''..'' \<Longrightarrow> s \<noteq> [] \<and> slash \<notin> set s"
  by (elim disjE) (simp_all add: plain_seg_def)

lemma segs_no_slash: "s \<in> set (clean_segments r (split_on slash p)) \<Longrightarrow> slash \<notin> set s"
  using clean_segment_cases [OF split_no_slash] plain_seg_or_dots by blast

lemma clean_segs_ne: "s \<in> set (clean_segments r (split_on slash p)) \<Longrightarrow> s \<noteq> []"
  using clean_segment_cases [OF split_no_slash] plain_seg_or_dots by blast

lemma rooted_render [simp]: "rooted_path (render_path True segs)"
  by (simp add: rooted_path_def render_path_def has_prefix_def)

lemma rooted_join_False:
  "\<forall>s \<in> set segs. s \<noteq> [] \<and> slash \<notin> set s \<Longrightarrow> \<not> rooted_path (join ''/'' segs)"
  by (cases "(''/'', segs)" rule: join.cases)
    (auto simp: rooted_path_def has_prefix_def take_Suc neq_Nil_conv split: list.splits)

lemma rooted_Clean: "rooted_path (Clean p) = rooted_path p"
proof (cases "rooted_path p")
  case False
  then show ?thesis
    using rooted_join_False [of "clean_segments False (split_on slash p)"] segs_no_slash clean_segs_ne
    by (auto simp: Clean_def render_path_def rooted_path_def has_prefix_def)
qed (simp add: Clean_def)

text \<open>The segments of a cleaned path: a leading empty one if rooted, then the clean segments.\<close>

lemma split_render:
  assumes "\<forall>s \<in> set segs. slash \<notin> set s"
  shows "split_on slash (render_path r segs) =
    (if r then [] # (if segs = [] then [[]] else segs) else if segs = [] then [''.''] else segs)"
  using assms split_on_join [of segs slash] by (cases segs) (auto simp: render_path_def)

lemma split_Clean:
  "split_on slash (Clean p) =
    (let r = rooted_path p; segs = clean_segments r (split_on slash p)
     in if r then [] # (if segs = [] then [[]] else segs) else if segs = [] then [''.''] else segs)"
  by (simp add: Clean_def split_render segs_no_slash Let_def)

lemma clean_segments_skip [simp]:
  "clean_segments r [] = []"
  "clean_segments r ([] # segs) = clean_segments r segs" "clean_segments r [[]] = []"
  "clean_segments r [''.''] = []"
  by (simp_all add: clean_segments_def clean_step_def)

lemma clean_segments_Clean:
  "clean_segments (rooted_path p) (split_on slash (Clean p)) = clean_segments (rooted_path p) (split_on slash p)"
  using clean_segments_clean [OF clean_stack_segments [OF split_no_slash]]
  by (auto simp: split_Clean Let_def)

theorem Clean_idem [simp]: "Clean (Clean p) = Clean p"
  by (simp add: Clean_def [of "Clean p"] rooted_Clean clean_segments_Clean) (simp add: Clean_def)

text \<open>A cleaned rooted path has no \<open>..\<close> and no empty segment but the first (and that of \<open>/\<close>).\<close>

lemma Clean_rooted_no_dotdot:
  assumes "rooted_path p"
  shows "''..'' \<notin> set (split_on slash (Clean p))"
proof
  assume "''..'' \<in> set (split_on slash (Clean p))"
  with assms have "''..'' \<in> set (clean_segments True (split_on slash p))"
    by (simp add: split_Clean Let_def split: if_splits)
  then have "plain_seg ''..''" by (rule rooted_segments_plain [OF split_no_slash])
  then show False by (simp add: plain_seg_def)
qed

text \<open>Joining a directory with a plain name: the name is the last segment, so different names give different paths.\<close>

lemma clean_segments_snoc: "plain_seg a \<Longrightarrow> clean_segments r (segs @ [a]) = clean_segments r segs @ [a]"
  by (simp add: clean_segments_def clean_step_def plain_seg_neq)

lemma path_join_plain:
  assumes "plain_seg a"
  shows "path_join [base, a] = render_path (rooted_path base) (clean_segments (rooted_path base) (split_on slash base) @ [a])"
proof -
  have a: "slash \<notin> set a" "a \<noteq> []" using assms by (auto simp: plain_seg_def)
  have r: "\<not> rooted_path a" using a by (cases a) (auto simp: rooted_path_def has_prefix_def)
  have sp: "split_on slash a = [a]" by (rule split_on_no_sep_eq) (use a in simp)
  show ?thesis
  proof (cases "base = []")
    case True
    have "\<not> rooted_path []" by (simp add: rooted_path_def has_prefix_def)
    then show ?thesis using True a r clean_segments_snoc [OF assms, of False "[]"] by (simp add: path_join_def Clean_def sp)
  next
    case False
    then have "rooted_path (base @ slash # a) = rooted_path base" by (cases base) (auto simp: rooted_path_def has_prefix_def)
    then show ?thesis using False clean_segments_snoc [OF assms] by (simp add: path_join_def Clean_def split_on_append_sep sp)
  qed
qed

lemma render_snoc_inj:
  assumes "render_path r (xs @ [a]) = render_path r (xs @ [b])" "\<forall>s \<in> set (xs @ [a, b]). slash \<notin> set s"
  shows "a = b"
proof -
  have "split_on slash (render_path r (xs @ [a])) = split_on slash (render_path r (xs @ [b]))" by (rule arg_cong [OF assms(1)])
  moreover have "\<forall>s \<in> set (xs @ [a]). slash \<notin> set s" "\<forall>s \<in> set (xs @ [b]). slash \<notin> set s" using assms(2) by auto
  ultimately show ?thesis by (simp add: split_render split: if_splits)
qed

lemma path_join_inj:
  assumes "path_join [base, a] = path_join [base, b]" "plain_seg a" "plain_seg b"
  shows "a = b"
proof (rule render_snoc_inj)
  show "render_path (rooted_path base) (clean_segments (rooted_path base) (split_on slash base) @ [a]) =
      render_path (rooted_path base) (clean_segments (rooted_path base) (split_on slash base) @ [b])"
    using assms(1) unfolding path_join_plain [OF assms(2)] path_join_plain [OF assms(3)] .
  show "\<forall>s \<in> set (clean_segments (rooted_path base) (split_on slash base) @ [a, b]). slash \<notin> set s"
    using segs_no_slash assms(2,3) by (auto simp: plain_seg_def)
qed

end
