(* ===== verification/Policy.thy ===== *)
theory Policy
  imports Ociref Json Digest Paths
begin

text \<open>
  \<open>internal/policy/policy.go\<close>: the sandbox policy. A raw policy (what the YAML file holds) is
  compiled into a \<open>CompiledPolicy\<close>: version 1 only, a digest-pinned image, default deny, and
  allow rules with normalised hosts and sorted, duplicate-free ports. \<open>ToProto\<close> and
  \<open>FromProto\<close> carry a compiled policy over the control API, with the SHA-256 of its JSON as a
  tamper check. \<open>Loader\<close> finds the policy file of a repository.

  The YAML parser is a parameter of \<open>readPolicy\<close>. \<open>sort.Slice\<close> sorts the allow rules by host;
  the model sorts stably, which is what Go does up to twelve rules, and beyond that one of the
  orders Go allows for rules of the same host.
\<close>

section \<open>Data\<close>

record rawAllowRule =
  rawHost :: string
  rawPorts :: "int list"

record rawPolicy =
  rawVersion :: int
  rawImageRef :: string
  rawDockerRequired :: bool
  rawNetworkDefault :: string
  rawAllow :: "rawAllowRule list"

record AllowRule =
  arHost :: string
  arPorts :: "int list"

record DockerService =
  dsRequired :: bool

record Services =
  svDocker :: DockerService

record CompiledPolicy =
  cpVersion :: int
  cpImageRef :: string
  cpImageDigest :: string
  cpServices :: Services
  cpNetworkDefault :: string
  cpAllow :: "AllowRule list"
  cpHash :: string

text \<open>The protobuf message: message fields are pointers, so they may be missing.\<close>

record PbAllowRule =
  pbHost :: string
  pbPorts :: "int list"

record PbPolicy =
  pbVersion :: int
  pbImageRef :: string
  pbImageDigest :: string
  pbServices :: "bool option option"
  pbNetworkDefault :: string
  pbAllow :: "PbAllowRule list"
  pbHash :: string

datatype policy_error =
    MissingPolicy
  | MissingVersion
  | UnsupportedVersion int
  | MissingImageRef
  | InvalidImageRef ref_error
  | DigestMismatch string string
  | UnsupportedDefault string
  | EmptyHost
  | NoPorts string
  | InvalidPort string int
  | HashMismatch string string

section \<open>Hash\<close>

definition json_allow_rule :: "AllowRule \<Rightarrow> string" where
  "json_allow_rule r =
     json_object [(''host'', json_string (arHost r)), (''ports'', json_array (map itoa (arPorts r)))]"

definition json_policy :: "CompiledPolicy \<Rightarrow> string" where
  "json_policy p =
     json_object
       [(''version'', itoa (cpVersion p)),
        (''image_ref'', json_string (cpImageRef p)),
        (''image_digest'', json_string (cpImageDigest p)),
        (''services'', json_object [(''docker'',
           json_object [(''required'', json_bool (dsRequired (svDocker (cpServices p))))])]),
        (''network_default'', json_string (cpNetworkDefault p)),
        (''allow'', json_array (map json_allow_rule (cpAllow p))),
        (''hash'', json_string (cpHash p))]"

definition hashPolicy :: "CompiledPolicy \<Rightarrow> string" where
  "hashPolicy p = sha256_hex (json_policy (p\<lparr>cpHash := []\<rparr>))"

section \<open>Compilation\<close>

definition norm_host :: "string \<Rightarrow> string" where
  "norm_host h = trim_space (to_lower h)"

definition norm_default :: "string \<Rightarrow> string" where
  "norm_default d = (let n = trim_space (to_lower d) in if n = [] then ''deny'' else n)"

text \<open>
  The loop over a rule's ports: the accumulator holds the ports kept so far, which are also the
  keys of the \<open>seen\<close> map.
\<close>

fun collectPorts :: "string \<Rightarrow> int list \<Rightarrow> int list \<Rightarrow> policy_error + int list" where
  "collectPorts host [] acc = Inr acc"
| "collectPorts host (port # ports) acc =
     (if port < 1 \<or> port > 65535 then Inl (InvalidPort host port)
      else if port \<in> set acc then collectPorts host ports acc
      else collectPorts host ports (acc @ [port]))"

definition compileRule :: "rawAllowRule \<Rightarrow> policy_error + AllowRule" where
  "compileRule rule =
     (let host = norm_host (rawHost rule) in
      if host = [] then Inl EmptyHost
      else if rawPorts rule = [] then Inl (NoPorts host)
      else (case collectPorts host (rawPorts rule) [] of
              Inl e \<Rightarrow> Inl e
            | Inr ports \<Rightarrow> Inr \<lparr>arHost = host, arPorts = sort ports\<rparr>))"

definition sortRules :: "AllowRule list \<Rightarrow> AllowRule list" where
  "sortRules allow = sort_key arHost allow"

definition Compile :: "rawPolicy \<Rightarrow> policy_error + CompiledPolicy" where
  "Compile raw =
     (if rawVersion raw = 0 then Inl MissingVersion
      else if rawVersion raw \<noteq> 1 then Inl (UnsupportedVersion (rawVersion raw))
      else
        (let imageRef = trim_space (rawImageRef raw) in
         if imageRef = [] then Inl MissingImageRef
         else
           (case ParseDigestReference imageRef of
              Inl e \<Rightarrow> Inl (InvalidImageRef e)
            | Inr parsedRef \<Rightarrow>
                (let networkDefault = norm_default (rawNetworkDefault raw) in
                 if networkDefault \<noteq> ''deny'' then Inl (UnsupportedDefault networkDefault)
                 else
                   (case map_res compileRule (rawAllow raw) of
                      Inl e \<Rightarrow> Inl e
                    | Inr allow \<Rightarrow>
                        (let compiled =
                           \<lparr>cpVersion = rawVersion raw, cpImageRef = drOriginal parsedRef,
                            cpImageDigest = Digest parsedRef,
                            cpServices = \<lparr>svDocker = \<lparr>dsRequired = rawDockerRequired raw\<rparr>\<rparr>,
                            cpNetworkDefault = networkDefault, cpAllow = sortRules allow,
                            cpHash = []\<rparr>
                         in Inr (compiled\<lparr>cpHash := hashPolicy compiled\<rparr>)))))))"

definition Allows :: "CompiledPolicy \<Rightarrow> string \<Rightarrow> int \<Rightarrow> bool" where
  "Allows p host port =
     list_ex (\<lambda>rule. arHost rule = norm_host host \<and> list_ex (\<lambda>candidate. candidate = port) (arPorts rule))
       (cpAllow p)"

definition RequiresDockerService :: "CompiledPolicy option \<Rightarrow> bool" where
  "RequiresDockerService p =
     (case p of None \<Rightarrow> False | Some p \<Rightarrow> dsRequired (svDocker (cpServices p)))"

section \<open>Loading\<close>

text \<open>What \<open>os.Stat\<close> and \<open>os.ReadFile\<close> say of a path.\<close>

datatype stat_result = StatOk | StatNotExist | StatError string

record policy_fs =
  fsStat :: "string \<Rightarrow> stat_result"
  fsRead :: "string \<Rightarrow> string + string"

datatype load_error =
    CheckPolicy string string
  | ReadPolicy string
  | ParsePolicy string string
  | PolicyNotFound string string
  | CompilePolicy policy_error

definition PrimaryPolicyPath :: string where
  "PrimaryPolicyPath = ''cleanroom.yaml''"

definition FallbackPolicyPath :: string where
  "FallbackPolicyPath = ''.buildkite/cleanroom.yaml''"

definition exists_path :: "policy_fs \<Rightarrow> string \<Rightarrow> string + bool" where
  "exists_path fs p =
     (case fsStat fs p of StatOk \<Rightarrow> Inr True | StatNotExist \<Rightarrow> Inr False | StatError e \<Rightarrow> Inl e)"

definition readPolicy :: "(string \<Rightarrow> string + rawPolicy) \<Rightarrow> policy_fs \<Rightarrow> string \<Rightarrow> load_error + rawPolicy" where
  "readPolicy yaml fs p =
     (case fsRead fs p of
        Inl e \<Rightarrow> Inl (ReadPolicy e)
      | Inr b \<Rightarrow> (case yaml b of Inl e \<Rightarrow> Inl (ParsePolicy p e) | Inr raw \<Rightarrow> Inr raw))"

definition Load ::
  "(string \<Rightarrow> string + rawPolicy) \<Rightarrow> policy_fs \<Rightarrow> string \<Rightarrow> load_error + rawPolicy \<times> string" where
  "Load yaml fs root =
     (let primary = path_join [root, PrimaryPolicyPath]; fallback = path_join [root, FallbackPolicyPath] in
      case exists_path fs primary of
        Inl e \<Rightarrow> Inl (CheckPolicy primary e)
      | Inr True \<Rightarrow> and_then (readPolicy yaml fs primary) (\<lambda>raw. Inr (raw, primary))
      | Inr False \<Rightarrow>
          (case exists_path fs fallback of
             Inl e \<Rightarrow> Inl (CheckPolicy fallback e)
           | Inr True \<Rightarrow> and_then (readPolicy yaml fs fallback) (\<lambda>raw. Inr (raw, fallback))
           | Inr False \<Rightarrow> Inl (PolicyNotFound primary fallback)))"

definition LoadAndCompile ::
  "(string \<Rightarrow> string + rawPolicy) \<Rightarrow> policy_fs \<Rightarrow> string \<Rightarrow> load_error + CompiledPolicy \<times> string" where
  "LoadAndCompile yaml fs root =
     and_then (Load yaml fs root) (\<lambda>(raw, source).
       and_then (map_error CompilePolicy (Compile raw)) (\<lambda>compiled. Inr (compiled, source)))"

section \<open>Protocol buffers\<close>

definition ToProto :: "CompiledPolicy \<Rightarrow> PbPolicy" where
  "ToProto p =
     \<lparr>pbVersion = to_int32 (cpVersion p), pbImageRef = cpImageRef p, pbImageDigest = cpImageDigest p,
      pbServices = Some (Some (dsRequired (svDocker (cpServices p)))),
      pbNetworkDefault = cpNetworkDefault p,
      pbAllow = map (\<lambda>r. \<lparr>pbHost = arHost r, pbPorts = map to_int32 (arPorts r)\<rparr>) (cpAllow p),
      pbHash = cpHash p\<rparr>"

text \<open>\<open>pb.GetServices().GetDocker().GetRequired()\<close>: a missing message reads as false.\<close>

definition pbDockerRequired :: "PbPolicy \<Rightarrow> bool" where
  "pbDockerRequired pb =
     (case pbServices pb of None \<Rightarrow> False | Some docker \<Rightarrow> (case docker of None \<Rightarrow> False | Some b \<Rightarrow> b))"

definition fromProtoRule :: "PbAllowRule \<Rightarrow> policy_error + AllowRule" where
  "fromProtoRule rule =
     (let host = norm_host (pbHost rule) in
      if host = [] then Inl EmptyHost
      else (case collectPorts host (pbPorts rule) [] of
              Inl e \<Rightarrow> Inl e
            | Inr ports \<Rightarrow>
                if ports = [] then Inl (NoPorts host)
                else Inr \<lparr>arHost = host, arPorts = sort ports\<rparr>))"

definition FromProto :: "PbPolicy option \<Rightarrow> policy_error + CompiledPolicy" where
  "FromProto msg =
     (case msg of None \<Rightarrow> Inl MissingPolicy
      | Some pb \<Rightarrow>
     (if pbVersion pb = 0 then Inl MissingVersion
      else if pbVersion pb \<noteq> 1 then Inl (UnsupportedVersion (pbVersion pb))
      else
        (let imageRef = trim_space (pbImageRef pb) in
         if imageRef = [] then Inl MissingImageRef
         else
           (case ParseDigestReference imageRef of
              Inl e \<Rightarrow> Inl (InvalidImageRef e)
            | Inr parsedRef \<Rightarrow>
                (let providedDigest = trim_space (pbImageDigest pb) in
                 if providedDigest \<noteq> [] \<and> providedDigest \<noteq> Digest parsedRef
                 then Inl (DigestMismatch providedDigest (Digest parsedRef))
                 else
                (let networkDefault = norm_default (pbNetworkDefault pb) in
                 if networkDefault \<noteq> ''deny'' then Inl (UnsupportedDefault networkDefault)
                 else
                   (case map_res fromProtoRule (pbAllow pb) of
                      Inl e \<Rightarrow> Inl e
                    | Inr allow \<Rightarrow>
                        (let compiled =
                           \<lparr>cpVersion = pbVersion pb, cpImageRef = drOriginal parsedRef,
                            cpImageDigest = Digest parsedRef,
                            cpServices = \<lparr>svDocker = \<lparr>dsRequired = pbDockerRequired pb\<rparr>\<rparr>,
                            cpNetworkDefault = networkDefault, cpAllow = sortRules allow,
                            cpHash = []\<rparr>;
                             hash = hashPolicy compiled
                         in if pbHash pb \<noteq> [] \<and> pbHash pb \<noteq> hash
                            then Inl (HashMismatch hash (pbHash pb))
                            else Inr (compiled\<lparr>cpHash := hash\<rparr>)))))))))"

section \<open>Well-formed policies\<close>

definition wf_port :: "int \<Rightarrow> bool" where
  "wf_port port \<longleftrightarrow> 1 \<le> port \<and> port \<le> 65535"

definition wf_rule :: "AllowRule \<Rightarrow> bool" where
  "wf_rule r \<longleftrightarrow> arHost r \<noteq> [] \<and> norm_host (arHost r) = arHost r \<and>
     arPorts r \<noteq> [] \<and> sorted (arPorts r) \<and> distinct (arPorts r) \<and> list_all wf_port (arPorts r)"

definition pinned_image :: "CompiledPolicy \<Rightarrow> bool" where
  "pinned_image p \<longleftrightarrow>
     (case ParseDigestReference (cpImageRef p) of
        Inl _ \<Rightarrow> False
      | Inr r \<Rightarrow> drOriginal r = cpImageRef p \<and> cpImageDigest p = Digest r)"

definition wf_policy :: "CompiledPolicy \<Rightarrow> bool" where
  "wf_policy p \<longleftrightarrow> cpVersion p = 1 \<and> pinned_image p \<and> cpNetworkDefault p = ''deny'' \<and>
     list_all wf_rule (cpAllow p) \<and> sorted (map arHost (cpAllow p)) \<and> cpHash p = hashPolicy p"

section \<open>Lemmas\<close>

lemma norm_host_idem [simp]: "norm_host (norm_host h) = norm_host h"
  by (simp add: norm_host_def go_strings)

lemma collectPorts_Inr:
  "collectPorts h ports acc = Inr out \<Longrightarrow>
     set out = set acc \<union> set ports \<and> (distinct acc \<longrightarrow> distinct out) \<and> list_all wf_port ports"
  by (induction h ports acc rule: collectPorts.induct) (auto simp: wf_port_def split: if_splits)

lemma collectPorts_id:
  "list_all wf_port ports \<Longrightarrow> distinct (acc @ ports) \<Longrightarrow> collectPorts h ports acc = Inr (acc @ ports)"
  by (induction h ports acc rule: collectPorts.induct) (auto simp: wf_port_def)

lemma collectPorts_wf:
  assumes "collectPorts h ports [] = Inr out" and "h \<noteq> []" "norm_host h = h" "out \<noteq> []"
  shows "wf_rule \<lparr>arHost = h, arPorts = sort out\<rparr>"
  using collectPorts_Inr [OF assms(1)] assms(2-4)
  by (simp add: wf_rule_def list_all_iff) (metis length_0_conv length_sort)

lemma compileRule_wf: "compileRule rule = Inr r \<Longrightarrow> wf_rule r"
  by (auto simp: compileRule_def Let_def split: if_splits sum.splits intro!: collectPorts_wf
      dest: collectPorts_Inr)

lemma compileRule_Inr:
  "compileRule rule = Inr r \<Longrightarrow> arHost r = norm_host (rawHost rule) \<and> set (arPorts r) = set (rawPorts rule)"
  by (auto simp: compileRule_def Let_def split: if_splits sum.splits dest: collectPorts_Inr)

lemma fromProtoRule_wf: "fromProtoRule rule = Inr r \<Longrightarrow> wf_rule r"
  by (auto simp: fromProtoRule_def Let_def split: if_splits sum.splits intro!: collectPorts_wf)

lemma wf_ports_int32: "list_all wf_port ports \<Longrightarrow> map to_int32 ports = ports"
  by (induction ports) (auto simp: wf_port_def intro: to_int32_id)

lemma fromProtoRule_toProto:
  assumes "wf_rule r"
  shows "fromProtoRule \<lparr>pbHost = arHost r, pbPorts = map to_int32 (arPorts r)\<rparr> = Inr r"
  using assms
  by (simp add: fromProtoRule_def wf_rule_def wf_ports_int32 collectPorts_id sorted_sort_id Let_def)

lemma list_all_map_res: "map_res f xs = Inr ys \<Longrightarrow> (\<And>x y. f x = Inr y \<Longrightarrow> P y) \<Longrightarrow> list_all P ys"
  by (auto simp: list_all_iff dest: map_res_set)

lemma sortRules_props [simp]:
  "list_all P (sortRules rs) = list_all P rs" "sorted (map arHost (sortRules rs))"
  "set (sortRules rs) = set rs"
  by (simp_all add: sortRules_def list_all_iff)

lemma sortRules_id: "sorted (map arHost rs) \<Longrightarrow> sortRules rs = rs"
  by (simp add: sortRules_def sort_key_id_if_sorted)

lemma hashPolicy_hash [simp]: "hashPolicy (p\<lparr>cpHash := h\<rparr>) = hashPolicy p"
  by (simp add: hashPolicy_def)

lemma pinned_imageI:
  "ParseDigestReference raw = Inr r \<Longrightarrow> drOriginal r = cpImageRef p \<Longrightarrow> cpImageDigest p = Digest r
     \<Longrightarrow> pinned_image p"
  using ParseDigestReference_reparse [of raw r] by (simp add: pinned_image_def)

lemma norm_default_deny [simp]: "norm_default ''deny'' = ''deny''"
  by (simp add: norm_default_def to_lower_def lower_char_def trim_space_def trim_left_def
      trim_right_def is_space_def less_eq_char_def)

lemma Allows_iff:
  "Allows p h port \<longleftrightarrow> (\<exists>r \<in> set (cpAllow p). arHost r = norm_host h \<and> port \<in> set (arPorts r))"
  by (auto simp: Allows_def list_ex_iff)

lemma wf_policy_ports: "wf_policy p \<Longrightarrow> Allows p h port \<Longrightarrow> wf_port port"
  by (auto simp: Allows_iff wf_policy_def wf_rule_def list_all_iff)

lemma Compile_InrE:
  assumes "Compile raw = Inr p"
  obtains r allow where "rawVersion raw = 1" "ParseDigestReference (rawImageRef raw) = Inr r"
    "norm_default (rawNetworkDefault raw) = ''deny''" "map_res compileRule (rawAllow raw) = Inr allow"
    "p = (let c = \<lparr>cpVersion = 1, cpImageRef = drOriginal r, cpImageDigest = Digest r,
                   cpServices = \<lparr>svDocker = \<lparr>dsRequired = rawDockerRequired raw\<rparr>\<rparr>,
                   cpNetworkDefault = ''deny'', cpAllow = sortRules allow, cpHash = []\<rparr>
          in c\<lparr>cpHash := hashPolicy c\<rparr>)"
  using assms by (auto simp: Compile_def Let_def ParseDigestReference_trim split: if_splits sum.splits)

lemma FromProto_InrE:
  assumes "FromProto (Some pb) = Inr p"
  obtains r allow where "pbVersion pb = 1" "ParseDigestReference (pbImageRef pb) = Inr r"
    "trim_space (pbImageDigest pb) \<in> {[], Digest r}"
    "norm_default (pbNetworkDefault pb) = ''deny''" "map_res fromProtoRule (pbAllow pb) = Inr allow"
    "pbHash pb \<in> {[], cpHash p}"
    "p = (let c = \<lparr>cpVersion = 1, cpImageRef = drOriginal r, cpImageDigest = Digest r,
                   cpServices = \<lparr>svDocker = \<lparr>dsRequired = pbDockerRequired pb\<rparr>\<rparr>,
                   cpNetworkDefault = ''deny'', cpAllow = sortRules allow, cpHash = []\<rparr>
          in c\<lparr>cpHash := hashPolicy c\<rparr>)"
  using assms by (auto simp: FromProto_def Let_def ParseDigestReference_trim split: if_splits sum.splits)

text \<open>A well-formed policy survives the trip through its protobuf message.\<close>

lemma FromProto_ToProto_wf:
  assumes "wf_policy p"
  shows "FromProto (Some (ToProto p)) = Inr p"
proof -
  obtain r where r: "ParseDigestReference (cpImageRef p) = Inr r" "drOriginal r = cpImageRef p"
    "cpImageDigest p = Digest r"
    using assms by (auto simp: wf_policy_def pinned_image_def split: sum.splits)
  have trim: "trim_space (cpImageRef p) = cpImageRef p"
    using ParseDigestReference_InrD(1) [OF r(1)] r(2) by simp
  have c: "\<lparr>cpVersion = 1, cpImageRef = cpImageRef p, cpImageDigest = Digest r,
      cpServices = \<lparr>svDocker = \<lparr>dsRequired = dsRequired (svDocker (cpServices p))\<rparr>\<rparr>,
      cpNetworkDefault = ''deny'', cpAllow = cpAllow p, cpHash = h\<rparr> = p\<lparr>cpHash := h\<rparr>" for h
    using assms r(3)
    by (intro CompiledPolicy.equality Services.equality DockerService.equality) (simp_all add: wf_policy_def)
  have "cpImageRef p \<noteq> []"
    using r(1) by (auto simp: ParseDigestReference_def Let_def trim_space_def trim_left_def trim_right_def)
  moreover have "trim_space (Digest r) = Digest r"
    using trimmed_Digest [OF r(1)] by (rule trim_space_trimmed)
  moreover have "map_res fromProtoRule (pbAllow (ToProto p)) = Inr (cpAllow p)"
    using assms fromProtoRule_toProto
    by (auto simp: ToProto_def map_res_Inr list_all2_conv_all_nth wf_policy_def list_all_length)
  moreover have "to_int32 1 = 1"
    by (rule to_int32_id) auto
  moreover have "p\<lparr>cpHash := hashPolicy p\<rparr> = p"
    using assms by (cases p) (simp add: wf_policy_def)
  ultimately show ?thesis
    using assms r trim
    by (simp add: FromProto_def ToProto_def wf_policy_def sortRules_id pbDockerRequired_def Let_def c)
qed

section \<open>The contract of a policy source\<close>

text \<open>
  The control service and the backends only ever see policies that came out of a compiler. What
  they rely on is that such a policy is well formed; everything else follows.
\<close>

locale policy_source =
  fixes compile :: "'raw \<Rightarrow> policy_error + CompiledPolicy"
  assumes compile_wf: "compile raw = Inr p \<Longrightarrow> wf_policy p"
begin

lemma compile_roundtrip: "compile raw = Inr p \<Longrightarrow> FromProto (Some (ToProto p)) = Inr p"
  by (rule FromProto_ToProto_wf) (rule compile_wf)

lemma compile_denies: "compile raw = Inr p \<Longrightarrow> \<not> wf_port port \<Longrightarrow> \<not> Allows p h port"
  using wf_policy_ports compile_wf by blast

lemma compile_hash: "compile raw = Inr p \<Longrightarrow> cpHash p = hashPolicy p"
  using compile_wf by (simp add: wf_policy_def)

end

interpretation yaml: policy_source Compile
proof
  fix raw p
  assume "Compile raw = Inr p"
  then show "wf_policy p"
    by (rule Compile_InrE)
      (auto simp: wf_policy_def hashPolicy_def Let_def intro: pinned_imageI list_all_map_res compileRule_wf)
qed

interpretation proto: policy_source "\<lambda>pb. FromProto (Some pb)"
proof
  fix pb p
  assume "FromProto (Some pb) = Inr p"
  then show "wf_policy p"
    by (rule FromProto_InrE)
      (auto simp: wf_policy_def hashPolicy_def Let_def intro: pinned_imageI list_all_map_res fromProtoRule_wf)
qed

section \<open>An example policy\<close>

definition demo_ref :: string where
  "demo_ref = ''alpine'' @ ''@'' @ ''sha256:'' @ replicate 64 (CHR ''0'')"

definition demo_raw :: rawPolicy where
  "demo_raw =
     \<lparr>rawVersion = 1, rawImageRef = demo_ref, rawDockerRequired = True, rawNetworkDefault = [],
      rawAllow = [\<lparr>rawHost = ''registry.npmjs.org'', rawPorts = [443]\<rparr>,
                  \<lparr>rawHost = '' GitHub.com'', rawPorts = [443, 80, 443]\<rparr>]\<rparr>"

lemma demo_ref_parses:
  "ParseDigestReference demo_ref =
     Inr \<lparr>drOriginal = demo_ref, drRepository = ''alpine'', drDigestAlgorithm = ''sha256'',
          drDigestHex = replicate 64 (CHR ''0'')\<rparr>"
  unfolding demo_ref_def
  by (rule ParseDigestReference_complete)
    (auto simp: is_space_def sha256HexPattern_def list_all_iff is_hex_char_def less_eq_char_def
      to_lower_def lower_char_def)

lemma norm_default_Nil [simp]: "norm_default [] = ''deny''"
  by (simp add: norm_default_def trim_space_def trim_left_def trim_right_def)

lemma demo_hosts:
  "norm_host ''registry.npmjs.org'' = ''registry.npmjs.org''" "norm_host '' GitHub.com'' = ''github.com''"
  "norm_host ''GITHUB.COM'' = ''github.com''"
  by code_simp+

lemma demo_rules:
  "map_res compileRule (rawAllow demo_raw) =
     Inr [\<lparr>arHost = ''registry.npmjs.org'', arPorts = [443]\<rparr>, \<lparr>arHost = ''github.com'', arPorts = [80, 443]\<rparr>]"
  by (simp add: demo_raw_def compileRule_def demo_hosts Let_def)

lemma demo_compiles: "\<exists>p. Compile demo_raw = Inr p"
  using demo_rules demo_ref_parses ParseDigestReference_trim [of demo_ref]
    ParseDigestReference_InrD(1) [OF demo_ref_parses]
  by (simp add: Compile_def demo_raw_def Let_def) (simp add: demo_ref_def)

section \<open>Properties\<close>

text \<open>C14. Every policy \<open>Compile\<close> returns is well formed: version 1, an image reference that parses as
  digest-pinned and whose digest is the recorded one, default deny, rules sorted by host with
  normalised non-empty hosts and non-empty, strictly increasing ports in 1 to 65535, and the hash of
  its own content.\<close>

theorem Compile_well_formed:
  assumes "Compile raw = Inr p"
  shows "wf_policy p"
  using assms by (rule yaml.compile_wf)

theorem Compile_well_formed_witness:
  "\<exists>p. Compile demo_raw = Inr p \<and> wf_policy p"
  using demo_compiles Compile_well_formed by blast



text \<open>C15. A compiled policy survives the control API: \<open>FromProto\<close> of its protobuf message gives the
  same policy back, hash included.\<close>

theorem Compile_ToProto_FromProto:
  assumes "Compile raw = Inr p"
  shows "FromProto (Some (ToProto p)) = Inr p"
  using assms by (rule yaml.compile_roundtrip)

theorem Compile_ToProto_FromProto_witness:
  "\<exists>p. Compile demo_raw = Inr p \<and> FromProto (Some (ToProto p)) = Inr p"
  using demo_compiles Compile_ToProto_FromProto by blast

text \<open>A policy message that the server accepts is well formed, and a hash or an image digest that
  the client supplied is the one the server computes itself: a tampered message is refused.\<close>

theorem FromProto_accepts:
  assumes "FromProto (Some pb) = Inr p"
  shows "wf_policy p \<and> (pbHash pb = [] \<or> pbHash pb = hashPolicy p) \<and>
    (trim_space (pbImageDigest pb) = [] \<or> trim_space (pbImageDigest pb) = cpImageDigest p)"
  using proto.compile_wf [OF assms] assms
  by (auto elim!: FromProto_InrE simp: Let_def wf_policy_def)

theorem FromProto_accepts_witness:
  "\<exists>pb p. FromProto (Some pb) = Inr p \<and> wf_policy p \<and> pbHash pb = hashPolicy p \<and> pbHash pb \<noteq> []"
proof -
  obtain p where "Compile demo_raw = Inr p" using demo_compiles by blast
  from yaml.compile_roundtrip [OF this] have r: "FromProto (Some (ToProto p)) = Inr p" .
  have "pbHash (ToProto p) = hashPolicy p"
    using FromProto_accepts [OF r] by (simp add: ToProto_def wf_policy_def)
  with r FromProto_accepts [OF r] show ?thesis
    by (metis hashPolicy_def sha256_hex_ne)
qed

text \<open>A file \<open>cleanroom.yaml\<close> shadows \<open>.buildkite/cleanroom.yaml\<close>: when it exists, the result of
  loading is what it holds (or the error of reading it), whatever the fallback path says.\<close>

theorem Load_prefers_primary:
  assumes "fsStat fs (path_join [root, PrimaryPolicyPath]) = StatOk"
  shows "Load yaml fs root =
    map_sum id (\<lambda>raw. (raw, path_join [root, PrimaryPolicyPath]))
      (readPolicy yaml fs (path_join [root, PrimaryPolicyPath]))"
  using assms
  by (cases "readPolicy yaml fs (path_join [root, PrimaryPolicyPath])")
    (simp_all add: Load_def exists_path_def Let_def)

theorem Load_prefers_primary_witness:
  "fst (projr (Load (\<lambda>_. Inr demo_raw) \<lparr>fsStat = (\<lambda>_. StatOk), fsRead = (\<lambda>_. Inr [])\<rparr> ''/repo'')) = demo_raw"
  by (subst Load_prefers_primary) (simp_all add: readPolicy_def)

end
