(* ===== verification/Gateway_Registry.thy ===== *)
theory Gateway_Registry
  imports Policy
begin

text \<open>
  \<open>internal/gateway/registry.go\<close> and \<open>credentials.go\<close>: who a request belongs to (by guest IP, or
  by a capability token where the source address says nothing) and which token the host adds for
  an upstream. Each operation of the registry runs under its lock, so it is one atomic function
  of the two maps. The two identity kinds obey one contract, the locale \<open>identity_map\<close>.
\<close>

record SandboxScope =
  ssSandboxID :: string
  ssGuestIP :: string
  ssPolicy :: CompiledPolicy

record Registry =
  byGuestIP :: "(string, SandboxScope) gomap"
  byScopeToken :: "(string, SandboxScope) gomap"

datatype registry_error = GuestIPRegistered string | EmptyScopeToken | TokenRegistered

definition NewRegistry :: Registry where
  "NewRegistry = \<lparr>byGuestIP = [], byScopeToken = []\<rparr>"

definition Register :: "string \<Rightarrow> string \<Rightarrow> CompiledPolicy \<Rightarrow> Registry \<Rightarrow> registry_error + Registry" where
  "Register guestIP sandboxID p r =
     (case get (byGuestIP r) guestIP of
        Some _ \<Rightarrow> Inl (GuestIPRegistered guestIP)
      | None \<Rightarrow>
          Inr (r\<lparr>byGuestIP := put guestIP
                 \<lparr>ssSandboxID = sandboxID, ssGuestIP = guestIP, ssPolicy = p\<rparr> (byGuestIP r)\<rparr>))"

definition Release :: "string \<Rightarrow> Registry \<Rightarrow> Registry" where
  "Release guestIP r = r\<lparr>byGuestIP := del guestIP (byGuestIP r)\<rparr>"

definition Lookup :: "Registry \<Rightarrow> string \<Rightarrow> SandboxScope option" where
  "Lookup r guestIP = get (byGuestIP r) guestIP"

definition RegisterScopeToken ::
  "string \<Rightarrow> string \<Rightarrow> CompiledPolicy \<Rightarrow> Registry \<Rightarrow> registry_error + Registry" where
  "RegisterScopeToken scopeToken0 sandboxID p r =
     (let scopeToken = trim_space scopeToken0 in
      if scopeToken = [] then Inl EmptyScopeToken
      else
        (case get (byScopeToken r) scopeToken of
           Some _ \<Rightarrow> Inl TokenRegistered
         | None \<Rightarrow>
             Inr (r\<lparr>byScopeToken := put scopeToken
                    \<lparr>ssSandboxID = sandboxID, ssGuestIP = [], ssPolicy = p\<rparr> (byScopeToken r)\<rparr>)))"

definition ReleaseScopeToken :: "string \<Rightarrow> Registry \<Rightarrow> Registry" where
  "ReleaseScopeToken scopeToken r = r\<lparr>byScopeToken := del scopeToken (byScopeToken r)\<rparr>"

definition LookupScopeToken :: "Registry \<Rightarrow> string \<Rightarrow> SandboxScope option" where
  "LookupScopeToken r scopeToken = get (byScopeToken r) scopeToken"

section \<open>Credentials\<close>

record EnvCredentialProvider =
  hostTokens :: "(string, string) gomap"

definition hostEnvMap :: "(string, string) gomap" where
  "hostEnvMap =
     [(''github.com'', ''CLEANROOM_GITHUB_TOKEN''), (''gitlab.com'', ''CLEANROOM_GITLAB_TOKEN'')]"

definition addHostToken ::
  "(string \<Rightarrow> string) \<Rightarrow> string \<times> string \<Rightarrow> (string, string) gomap \<Rightarrow> (string, string) gomap" where
  "addHostToken getenv = (\<lambda>(host, envVar) tokens.
     let v = trim_space (getenv envVar) in if v \<noteq> [] then put host v tokens else tokens)"

definition NewEnvCredentialProvider :: "(string \<Rightarrow> string) \<Rightarrow> EnvCredentialProvider" where
  "NewEnvCredentialProvider getenv = \<lparr>hostTokens = fold (addHostToken getenv) hostEnvMap []\<rparr>"

definition ResolveCredential :: "EnvCredentialProvider \<Rightarrow> string \<Rightarrow> string" where
  "ResolveCredential p upstreamHost =
     (case get (hostTokens p) (to_lower (trim_space upstreamHost)) of None \<Rightarrow> [] | Some t \<Rightarrow> t)"

definition ConfiguredHosts :: "EnvCredentialProvider \<Rightarrow> string list" where
  "ConfiguredHosts p = sort (keys_of (hostTokens p))"

section \<open>The contract of an identity map\<close>

text \<open>
  A registration succeeds exactly when the key is free, and then resolves to its sandbox and its
  policy; no operation on one key changes what another key resolves to.
\<close>

locale identity_map =
  fixes register :: "string \<Rightarrow> string \<Rightarrow> CompiledPolicy \<Rightarrow> 'r \<Rightarrow> registry_error + 'r"
    and release :: "string \<Rightarrow> 'r \<Rightarrow> 'r"
    and resolve_id :: "'r \<Rightarrow> string \<Rightarrow> SandboxScope option"
    and good_key :: "string \<Rightarrow> bool"
  assumes register_ok: "good_key k \<Longrightarrow> (\<exists>r'. register k sb p r = Inr r') \<longleftrightarrow> resolve_id r k = None"
    and register_resolve: "good_key k \<Longrightarrow> register k sb p r = Inr r' \<Longrightarrow>
      \<exists>s. resolve_id r' k = Some s \<and> ssSandboxID s = sb \<and> ssPolicy s = p"
    and register_frame: "good_key k \<Longrightarrow> register k sb p r = Inr r' \<Longrightarrow> l \<noteq> k \<Longrightarrow>
      resolve_id r' l = resolve_id r l"
    and release_resolve: "resolve_id (release k r) l = (if l = k then None else resolve_id r l)"
begin

lemma register_release:
  assumes "good_key k" "register k sb p r = Inr r'"
  shows "resolve_id (release k r') = resolve_id r"
proof (rule ext)
  fix l
  have "resolve_id r k = None" using assms register_ok by blast
  then show "resolve_id (release k r') l = resolve_id r l"
    using assms by (simp add: release_resolve register_frame)
qed

lemma no_takeover:
  assumes "good_key k" "resolve_id r k = Some s"
  shows "\<exists>e. register k sb p r = Inl e"
  using assms register_ok [of k sb p r] by (cases "register k sb p r") auto

lemma reregister_after_release: "good_key k \<Longrightarrow> \<exists>r'. register k sb p (release k r) = Inr r'"
  by (simp add: register_ok release_resolve)

end

interpretation ip: identity_map Register Release Lookup "\<lambda>_. True"
  by unfold_locales (auto simp: Register_def Release_def Lookup_def split: option.splits)

interpretation token: identity_map RegisterScopeToken ReleaseScopeToken LookupScopeToken
    "\<lambda>k. trimmed k \<and> k \<noteq> []"
  by unfold_locales
    (auto simp: RegisterScopeToken_def ReleaseScopeToken_def LookupScopeToken_def trim_space_trimmed
      split: option.splits)

section \<open>Credentials: lemmas\<close>

lemma get_hostTokens:
  "get (hostTokens (NewEnvCredentialProvider getenv)) h =
     (if h = ''github.com'' \<and> trim_space (getenv ''CLEANROOM_GITHUB_TOKEN'') \<noteq> []
      then Some (trim_space (getenv ''CLEANROOM_GITHUB_TOKEN''))
      else if h = ''gitlab.com'' \<and> trim_space (getenv ''CLEANROOM_GITLAB_TOKEN'') \<noteq> []
      then Some (trim_space (getenv ''CLEANROOM_GITLAB_TOKEN'')) else None)"
  by (simp add: NewEnvCredentialProvider_def hostEnvMap_def addHostToken_def Let_def)

lemma is_gomap_hostTokens: "is_gomap (hostTokens (NewEnvCredentialProvider getenv))"
  by (simp add: NewEnvCredentialProvider_def hostEnvMap_def addHostToken_def Let_def)

section \<open>Properties\<close>

text \<open>A guest IP that is registered cannot be taken over: a second registration of it, for any
  sandbox and policy, is refused, and the first sandbox keeps resolving to its own policy after any
  registration or release of other addresses.\<close>

theorem Register_no_takeover:
  assumes "Lookup r ip = Some s"
  shows "(\<exists>e. Register ip sb p r = Inl e) \<and>
    (\<forall>ip' r'. ip' \<noteq> ip \<longrightarrow> Register ip' sb p r = Inr r' \<longrightarrow> Lookup r' ip = Some s) \<and>
    (\<forall>ip'. ip' \<noteq> ip \<longrightarrow> Lookup (Release ip' r) ip = Some s)"
  using assms ip.no_takeover ip.register_frame ip.release_resolve by (metis (full_types))

theorem Register_no_takeover_witness:
  "\<exists>r s. Lookup r ''10.1.1.2'' = Some s \<and> ssSandboxID s = ''cr_a'' \<and>
     (\<forall>p. \<exists>e. Register ''10.1.1.2'' ''cr_b'' p r = Inl e)"
proof -
  obtain p where "Compile demo_raw = Inr p" using demo_compiles by blast
  obtain r where r: "Register ''10.1.1.2'' ''cr_a'' p NewRegistry = Inr r"
    by (simp add: Register_def NewRegistry_def)
  then obtain s where s: "Lookup r ''10.1.1.2'' = Some s" "ssSandboxID s = ''cr_a''"
    using ip.register_resolve by blast
  with Register_no_takeover [OF s(1)] show ?thesis by blast
qed

text \<open>Tokens are found where they were configured, and nowhere else: \<open>Resolve\<close> returns a non-empty
  token for a host exactly when that host is listed as configured, and only \<open>github.com\<close> and
  \<open>gitlab.com\<close> can be.\<close>

theorem ResolveCredential_configured:
  "ResolveCredential (NewEnvCredentialProvider getenv) host \<noteq> [] \<longleftrightarrow>
     to_lower (trim_space host) \<in> set (ConfiguredHosts (NewEnvCredentialProvider getenv)) \<and>
     to_lower (trim_space host) \<in> {''github.com'', ''gitlab.com''}"
  by (auto simp: ResolveCredential_def ConfiguredHosts_def set_keys_of get_hostTokens split: option.splits if_splits)

end
