(* ===== verification/Gateway_Path.thy ===== *)
theory Gateway_Path
  imports Paths
begin

text \<open>
  \<open>internal/gateway/path.go\<close>: the gateway's check of a request path. The path is percent-decoded
  (once more than the HTTP server already did), refused when it holds a null byte, a \<open>..\<close> segment
  or a double slash, cleaned, and made absolute.
\<close>

datatype path_error = errPathNullByte | errPathTraversal | errPathDoubleSlash | errPathEncoding

definition unhex :: "char \<Rightarrow> nat option" where
  "unhex c =
     (if CHR ''0'' \<le> c \<and> c \<le> CHR ''9'' then Some (of_char c - 48)
      else if CHR ''a'' \<le> c \<and> c \<le> CHR ''f'' then Some (of_char c - 87)
      else if CHR ''A'' \<le> c \<and> c \<le> CHR ''F'' then Some (of_char c - 55)
      else None)"

text \<open>\<open>url.PathUnescape\<close>: \<open>None\<close> is the escape error of a percent sign without two hex digits.\<close>

fun PathUnescape :: "string \<Rightarrow> string option" where
  "PathUnescape [] = Some []"
| "PathUnescape (c # s) =
     (if c = CHR 0x25 then
        (case s of
           a # b # r \<Rightarrow>
             (case (unhex a, unhex b) of
                (Some h, Some l) \<Rightarrow> map_option (Cons (char_of (16 * h + l))) (PathUnescape r)
              | _ \<Rightarrow> None)
         | _ \<Rightarrow> None)
      else map_option (Cons c) (PathUnescape s))"

definition containsTraversal :: "string \<Rightarrow> bool" where
  "containsTraversal p = list_ex (\<lambda>segment. segment = ''..'') (split_on slash p)"

definition CanonicalisePath :: "string \<Rightarrow> path_error + string" where
  "CanonicalisePath raw =
     (if CHR 0x00 \<in> set raw then Inl errPathNullByte
      else
        (case PathUnescape raw of
           None \<Rightarrow> Inl errPathEncoding
         | Some decoded \<Rightarrow>
             if CHR 0x00 \<in> set decoded then Inl errPathNullByte
             else if containsTraversal decoded then Inl errPathTraversal
             else if contains_str decoded ''//'' then Inl errPathDoubleSlash
             else
               (let c0 = Clean decoded; cleaned = (if has_prefix c0 ''/'' then c0 else ''/'' @ c0) in
                if containsTraversal cleaned then Inl errPathTraversal else Inr cleaned)))"

section \<open>Lemmas\<close>

lemma contains_str_iff: "contains_str s t \<longleftrightarrow> sublist t s"
proof (induction s)
  case (Cons c s)
  then show ?case by (simp add: sublist_Cons_right has_prefix_iff)
qed simp

text \<open>A double slash is an empty segment with a segment on either side.\<close>

lemma double_slash_segments:
  assumes "contains_str p ''//''"
  shows "\<exists>A B. split_on slash p = A @ [] # B \<and> A \<noteq> [] \<and> B \<noteq> []"
proof -
  obtain u v where "p = u @ ''//'' @ v"
    using assms by (auto simp: contains_str_iff sublist_def)
  then have "split_on slash p = split_on slash u @ [] # split_on slash v"
    using split_on_append_sep [of slash u "slash # v"] by simp
  then show ?thesis using split_on_ne by blast
qed

lemma no_double_slash_render:
  assumes "\<forall>s \<in> set segs. slash \<notin> set s \<and> s \<noteq> []"
  shows "\<not> contains_str (render_path True segs) ''//''"
proof
  assume "contains_str (render_path True segs) ''//''"
  then obtain A B where ab: "split_on slash (render_path True segs) = A @ [] # B" "A \<noteq> []" "B \<noteq> []"
    using double_slash_segments by blast
  have "split_on slash (render_path True segs) = [] # (if segs = [] then [[]] else segs)"
    using assms by (simp add: split_render)
  with ab have "A = [] # tl A" "(if segs = [] then [[]] else segs) = tl A @ [] # B"
    by (auto simp: Cons_eq_append_conv)
  then show False using assms ab(3) by (auto split: if_splits simp: append_eq_Cons_conv Cons_eq_append_conv)
qed

lemma set_join: "set (join sep ps) \<subseteq> set sep \<union> \<Union> (set ` set ps)"
  by (induction sep ps rule: join.induct) auto

lemma set_split_on: "p \<in> set (split_on c s) \<Longrightarrow> set p \<subseteq> set s"
  by (induction s arbitrary: p) (fastforce split: if_splits list.splits)+

lemma foldl_clean_step_set:
  "set (foldl (clean_step r) st segs) \<subseteq> set st \<union> set segs \<union> {''..''}"
proof (induction segs arbitrary: st)
  case (Cons s segs)
  have "set (clean_step r st s) \<subseteq> set st \<union> {s, ''..''}"
    by (auto simp: clean_step_def split: list.splits if_splits)
  with Cons [of "clean_step r st s"] show ?case by auto
qed auto

lemma set_clean_segments: "set (clean_segments r segs) \<subseteq> set segs \<union> {''..''}"
  using foldl_clean_step_set [of r "[]" segs] by (simp add: clean_segments_def)

lemma set_Clean: "set (Clean p) \<subseteq> set p \<union> set ''/.''"
proof -
  have "set s \<subseteq> set p \<union> set ''/.''" if "s \<in> set (clean_segments r (split_on slash p))" for r s
    using that set_clean_segments [of r "split_on slash p"] set_split_on [of s slash p] by fastforce
  then have "set (join ''/'' (clean_segments r (split_on slash p))) \<subseteq> set p \<union> set ''/.''" for r
    using set_join [of "''/''" "clean_segments r (split_on slash p)"] by fastforce
  then show ?thesis by (auto simp: Clean_def render_path_def)
qed

lemma containsTraversal_iff: "containsTraversal p \<longleftrightarrow> ''..'' \<in> set (split_on slash p)"
  by (auto simp: containsTraversal_def list_ex_iff)

lemma PathUnescape_plain: "CHR 0x25 \<notin> set p \<Longrightarrow> PathUnescape p = Some p"
  by (induction p) auto

text \<open>A relative path without \<open>..\<close> cleans to plain segments.\<close>

lemma clean_segments_no_up:
  assumes "''..'' \<notin> set segs" and "\<forall>s \<in> set segs. slash \<notin> set s"
  shows "\<forall>s \<in> set (clean_segments r segs). plain_seg s"
proof -
  have "\<forall>s \<in> set (foldl (clean_step r) st segs). plain_seg s" if "\<forall>s \<in> set st. plain_seg s" for st
    using assms that
  proof (induction segs arbitrary: st)
    case (Cons s segs)
    have "s \<noteq> ''..''" "slash \<notin> set s" using Cons.prems(1,2) by auto
    then have "\<forall>t \<in> set (clean_step r st s). plain_seg t"
      using Cons.prems(3) plain_seg_def [of s] by (simp add: clean_step_def)
    with Cons show ?case by simp
  qed simp
  from this [of "[]"] show ?thesis by (simp add: clean_segments_def)
qed

lemma CanonicalisePath_InrD:
  assumes "CanonicalisePath raw = Inr c"
  obtains decoded where "PathUnescape raw = Some decoded" "CHR 0x00 \<notin> set decoded"
    "''..'' \<notin> set (split_on slash decoded)"
    "c = (if rooted_path decoded then Clean decoded else ''/'' @ Clean decoded)"
  using assms
  by (auto simp: CanonicalisePath_def containsTraversal_iff Let_def rooted_Clean rooted_path_def [symmetric]
      split: if_splits option.splits)

text \<open>A canonical path is an absolute path of plain segments, but for \<open>/.\<close>, the empty input's.\<close>

lemma CanonicalisePath_segments:
  assumes "CanonicalisePath raw = Inr c"
  shows "c = ''/.'' \<or> (\<exists>segs. c = render_path True segs \<and> (\<forall>s \<in> set segs. plain_seg s))"
proof -
  obtain d where d: "''..'' \<notin> set (split_on slash d)"
    "c = (if rooted_path d then Clean d else ''/'' @ Clean d)"
    using assms by (rule CanonicalisePath_InrD)
  let ?segs = "clean_segments (rooted_path d) (split_on slash d)"
  have plain: "\<forall>s \<in> set ?segs. plain_seg s"
    using d(1) by (intro clean_segments_no_up) simp_all
  show ?thesis
  proof (cases "\<not> rooted_path d \<and> ?segs = []")
    case True
    then have "c = ''/.''" using d(2) by (auto simp: Clean_def render_path_def)
    then show ?thesis ..
  next
    case False
    then have "c = render_path True ?segs"
      using d(2) by (cases "rooted_path d") (simp_all add: Clean_def render_path_def)
    with plain show ?thesis by blast
  qed
qed

section \<open>Properties\<close>

text \<open>A path the gateway lets through is absolute, holds no null byte, no \<open>..\<close> segment and no double
  slash, whatever mix of plain and percent-encoded bytes the request used.\<close>

theorem CanonicalisePath_safe:
  assumes "CanonicalisePath raw = Inr c"
  shows "has_prefix c ''/'' \<and> CHR 0x00 \<notin> set c \<and> ''..'' \<notin> set (split_on slash c) \<and> \<not> contains_str c ''//''"
proof -
  obtain d where d: "CHR 0x00 \<notin> set d"
    "c = (if rooted_path d then Clean d else ''/'' @ Clean d)"
    using assms by (rule CanonicalisePath_InrD)
  have nul: "CHR 0x00 \<notin> set c"
    using d set_Clean [of d] by auto
  show ?thesis
  proof (cases "c = ''/.''")
    case True
    then show ?thesis by (simp add: has_prefix_def)
  next
    case False
    then obtain segs where s: "c = render_path True segs" "\<forall>s \<in> set segs. plain_seg s"
      using CanonicalisePath_segments [OF assms] by blast
    then have "''..'' \<notin> set (split_on slash c)"
      by (auto simp: split_render plain_seg_def)
    moreover have "\<not> contains_str c ''//''"
      using s by (simp add: no_double_slash_render plain_seg_def)
    ultimately show ?thesis
      using nul s(1) rooted_render [of segs] by (simp add: rooted_path_def)
  qed
qed

theorem CanonicalisePath_safe_witness:
  "CanonicalisePath ''/git/github.com/./org%2Frepo'' = Inr ''/git/github.com/org/repo'' \<and>
   has_prefix ''/git/github.com/org/repo'' ''/''"
proof -
  have e: "CanonicalisePath ''/git/github.com/./org%2Frepo'' = Inr ''/git/github.com/org/repo''"
    by code_simp
  from CanonicalisePath_safe [OF e] e show ?thesis by blast
qed

text \<open>Canonicalisation is stable: a canonical path with no percent sign, of a request path that
  started with a slash, canonicalises to itself.\<close>

theorem CanonicalisePath_stable:
  assumes "CanonicalisePath raw = Inr c" and "has_prefix raw ''/''" and "CHR 0x25 \<notin> set c"
  shows "CanonicalisePath c = Inr c"
proof -
  obtain d where d: "PathUnescape raw = Some d" "CHR 0x00 \<notin> set d"
    "c = (if rooted_path d then Clean d else ''/'' @ Clean d)"
    using assms(1) by (rule CanonicalisePath_InrD)
  have "rooted_path d"
    using assms(2) d(1) by (cases raw) (auto simp: rooted_path_def has_prefix_def)
  then have c: "c = Clean d" "Clean c = c" "rooted_path c"
    using d(3) by (simp_all add: rooted_Clean)
  from CanonicalisePath_safe [OF assms(1)] c assms(3) show ?thesis
    by (simp add: CanonicalisePath_def PathUnescape_plain containsTraversal_iff rooted_path_def Let_def)
qed

theorem CanonicalisePath_stable_witness:
  "CanonicalisePath ''/meta/'' = Inr ''/meta'' \<and> CanonicalisePath ''/meta'' = Inr ''/meta''"
proof -
  have e: "CanonicalisePath ''/meta/'' = Inr ''/meta''" by code_simp
  have "CanonicalisePath ''/meta'' = Inr ''/meta''"
    by (rule CanonicalisePath_stable [OF e]) (simp_all add: has_prefix_def)
  with e show ?thesis by simp
qed

end
