(* ===== verification/Gateway.thy ===== *)
theory Gateway
  imports Gateway_Registry Gateway_Path
begin

text \<open>
  \<open>internal/gateway/server.go\<close> and \<open>git.go\<close>: the host gateway's HTTP handler. A request passes
  the identity middleware, the path middleware and the route table, and, under \<open>/git/\<close>, the git
  proxy. The outcome is the response, the upstream request if one was sent, and the audit entries.

  Parameters of the model: the upstream service, whether \<open>http.NewRequest\<close> takes the method and
  the URL, and the canonical text of an IPv6 source address. A request's path is the decoded one;
  its raw form is the default encoding of it, so the route table sees the same segments.
\<close>

section \<open>Requests and responses\<close>

record http_request =
  rqMethod :: string
  rqPath :: string
  rqRawQuery :: string
  rqHeader :: "string \<Rightarrow> string"
  rqRemoteAddr :: string
  rqBody :: string

record upstream_request =
  urMethod :: string
  urURL :: string
  urHeaders :: "(string, string) gomap"
  urBody :: string

record upstream_response =
  upStatus :: int
  upHeaders :: "(string \<times> string) list"
  upBody :: string

datatype gw_response =
    Forbidden
  | BadRequest string
  | ReasonError int string string
  | InternalError
  | NotImplemented string
  | NotFound
  | MovedTo string
  | Proxied upstream_response

record audit_entry =
  auSandbox :: string
  auHost :: string
  auRepoPath :: string
  auAction :: string
  auReason :: string

record gw_outcome =
  goResponse :: gw_response
  goUpstream :: "upstream_request option"
  goAudit :: "audit_entry list"

definition refuse :: "gw_response \<Rightarrow> gw_outcome" where
  "refuse resp = \<lparr>goResponse = resp, goUpstream = None, goAudit = []\<rparr>"

text \<open>The parts of the outside world the handler talks to.\<close>

record gw_world =
  gwUpstream :: "upstream_request \<Rightarrow> string + upstream_response"
  gwValidRequest :: "string \<Rightarrow> string \<Rightarrow> bool"
  gwCanonIPv6 :: "string \<Rightarrow> string option"

section \<open>The git proxy\<close>

datatype classify_error = PushDenied | NotSmartHTTP

fun queryParamIn :: "string list \<Rightarrow> string \<Rightarrow> string" where
  "queryParamIn [] key = []"
| "queryParamIn (part # parts) key =
     (case cut part CHR ''='' of (k, v, _) \<Rightarrow> if k = key then v else queryParamIn parts key)"

definition queryParam :: "string \<Rightarrow> string \<Rightarrow> string" where
  "queryParam rawQuery key = queryParamIn (split_on CHR ''&'' rawQuery) key"

definition classifyRequest :: "string \<Rightarrow> string \<Rightarrow> string \<Rightarrow> classify_error + string" where
  "classifyRequest httpMethod repoPath query =
     (if httpMethod = ''GET'' \<and> has_suffix repoPath ''/info/refs'' then
        (if queryParam query ''service'' = ''git-receive-pack'' then Inl PushDenied else Inr ''info-refs'')
      else if httpMethod = ''POST'' \<and> has_suffix repoPath ''/git-upload-pack'' then Inr ''upload-pack''
      else if httpMethod = ''POST'' \<and> has_suffix repoPath ''/git-receive-pack'' then Inl PushDenied
      else Inl NotSmartHTTP)"

definition classify_message :: "classify_error \<Rightarrow> string" where
  "classify_message e =
     (case e of
        PushDenied \<Rightarrow> ''method_not_allowed: git push (receive-pack) is denied''
      | NotSmartHTTP \<Rightarrow> ''method_not_allowed: only git smart-HTTP operations are permitted'')"

definition forwardedHeaders :: "string list" where
  "forwardedHeaders = [''Content-Type'', ''Accept'', ''Git-Protocol'']"

definition copyHeaders :: "(string \<Rightarrow> string) \<Rightarrow> (string, string) gomap" where
  "copyHeaders hdr =
     fold (\<lambda>key hs. if hdr key \<noteq> [] then put key (hdr key) hs else hs) forwardedHeaders []"

definition audit :: "SandboxScope \<Rightarrow> string \<Rightarrow> string \<Rightarrow> string \<Rightarrow> string \<Rightarrow> audit_entry" where
  "audit scope host repoPath action reason =
     \<lparr>auSandbox = ssSandboxID scope, auHost = host, auRepoPath = repoPath, auAction = action, auReason = reason\<rparr>"

text \<open>\<open>writeReasonError\<close>: the reason code is in a header and in front of the message.\<close>

definition reasonOutcome :: "int \<Rightarrow> string \<Rightarrow> string \<Rightarrow> upstream_request option \<Rightarrow> audit_entry list \<Rightarrow> gw_outcome" where
  "reasonOutcome status code msg up log =
     \<lparr>goResponse = ReasonError status code (code @ '': '' @ msg), goUpstream = up, goAudit = log\<rparr>"

text \<open>
  The whole of \<open>gitHandler.ServeHTTP\<close>. The credential provider may be missing; it may fail
  (\<open>Inl\<close>) or return a token, possibly empty.
\<close>

definition gitServe ::
  "gw_world \<Rightarrow> (string \<Rightarrow> string + string) option \<Rightarrow> SandboxScope \<Rightarrow> http_request \<Rightarrow> gw_outcome" where
  "gitServe w creds scope r =
     (let trimmedPath = trim_prefix (rqPath r) ''/git/'' in
      if trimmedPath = [] \<or> trimmedPath = rqPath r then refuse (BadRequest ''missing upstream host'')
      else
        (let upstreamHost = takeWhile (\<lambda>c. c \<noteq> slash) trimmedPath;
             repoPath = dropWhile (\<lambda>c. c \<noteq> slash) trimmedPath
         in
         if slash \<notin> set trimmedPath \<or> upstreamHost = [] then refuse (BadRequest ''missing repository path'')
         else if \<not> Allows (ssPolicy scope) upstreamHost 443 then
           reasonOutcome 403 ''host_not_allowed'' ''upstream host is not allowed by sandbox policy'' None
             [audit scope upstreamHost repoPath ''deny'' ''host_not_allowed'']
         else
           (case classifyRequest (rqMethod r) repoPath (rqRawQuery r) of
              Inl e \<Rightarrow>
                reasonOutcome 403 ''method_not_allowed'' (classify_message e) None
                  [audit scope upstreamHost repoPath ''deny'' ''method_not_allowed'']
            | Inr _ \<Rightarrow>
                (let url = ''https://'' @ upstreamHost @ repoPath @
                       (if rqRawQuery r \<noteq> [] then ''?'' @ rqRawQuery r else []);
                     headers = copyHeaders (rqHeader r)
                 in
                 if \<not> gwValidRequest w (rqMethod r) url then refuse InternalError
                 else
                   (case (case creds of None \<Rightarrow> Inr [] | Some resolveToken \<Rightarrow> resolveToken upstreamHost) of
                      Inl _ \<Rightarrow> refuse InternalError
                    | Inr tok \<Rightarrow>
                        (let up = \<lparr>urMethod = rqMethod r, urURL = url,
                               urHeaders = (if tok \<noteq> [] then put ''Authorization'' (''Bearer '' @ tok) headers else headers),
                               urBody = rqBody r\<rparr>;
                             log = [audit scope upstreamHost repoPath ''allow'' ''proxied'']
                         in
                         case gwUpstream w up of
                           Inl _ \<Rightarrow> reasonOutcome 502 ''upstream_error'' ''upstream error'' (Some up) log
                         | Inr resp \<Rightarrow>
                             \<lparr>goResponse = Proxied resp, goUpstream = Some up, goAudit = log\<rparr>))))))"

section \<open>The server\<close>

definition serviceRoutes :: "string list" where
  "serviceRoutes = [''/git/'', ''/registry/'', ''/secrets/'', ''/meta/'']"

text \<open>
  The route table of \<open>http.ServeMux\<close> on a path: a path that is not clean and a registered subtree
  without its final slash are redirected, a path below a subtree goes to its handler.
\<close>

datatype route = RouteHandler string | RouteRedirect string | RouteNone

definition muxRoute :: "string \<Rightarrow> route" where
  "muxRoute p =
     (if p = ''/.'' then RouteRedirect ''/''
      else if (p @ ''/'') \<in> set serviceRoutes then RouteRedirect (p @ ''/'')
      else (case filter (has_prefix p) serviceRoutes of [] \<Rightarrow> RouteNone | s # _ \<Rightarrow> RouteHandler s))"

definition stubHandler :: "string \<Rightarrow> gw_outcome" where
  "stubHandler service = refuse (NotImplemented (service @ '' service not yet implemented''))"

definition muxServe ::
  "gw_world \<Rightarrow> (string \<Rightarrow> string + string) option \<Rightarrow> SandboxScope \<Rightarrow> http_request \<Rightarrow> gw_outcome" where
  "muxServe w creds scope r =
     (case muxRoute (rqPath r) of
        RouteNone \<Rightarrow> refuse NotFound
      | RouteRedirect p \<Rightarrow> refuse (MovedTo p)
      | RouteHandler s \<Rightarrow>
          if s = ''/git/'' then gitServe w creds scope r
          else if s = ''/registry/'' then stubHandler ''registry''
          else if s = ''/secrets/'' then stubHandler ''secrets''
          else stubHandler ''meta'')"

definition pathMiddleware ::
  "gw_world \<Rightarrow> (string \<Rightarrow> string + string) option \<Rightarrow> SandboxScope \<Rightarrow> http_request \<Rightarrow> gw_outcome" where
  "pathMiddleware w creds scope r =
     (case CanonicalisePath (rqPath r) of
        Inl _ \<Rightarrow> refuse (BadRequest ''path'')
      | Inr canonical \<Rightarrow> muxServe w creds scope (r\<lparr>rqPath := canonical\<rparr>))"

text \<open>\<open>net.SplitHostPort\<close>: the host part, \<open>None\<close> for an address error.\<close>

definition SplitHostPort :: "string \<Rightarrow> string option" where
  "SplitHostPort hp =
     (if CHR '':'' \<notin> set hp then None
      else if has_prefix hp ''['' then
        (case cut hp CHR '']'' of (a, b, found) \<Rightarrow>
           if \<not> found \<or> \<not> has_prefix b '':'' \<or> CHR '':'' \<in> set (drop 1 b) then None
           else if CHR ''['' \<in> set (drop 1 a) \<or> CHR ''['' \<in> set b \<or> CHR '']'' \<in> set b then None
           else Some (drop 1 a))
      else
        (let host = takeWhile (\<lambda>c. c \<noteq> CHR '':'') hp; rest = drop 1 (dropWhile (\<lambda>c. c \<noteq> CHR '':'') hp) in
         if CHR '':'' \<in> set rest \<or> CHR ''['' \<in> set hp \<or> CHR '']'' \<in> set hp then None else Some host))"

text \<open>
  A host with no colon is returned as it is: Go parses it as an IPv4 address only in its canonical
  form, and returns it unparsed otherwise. A host with a colon goes through the IPv6 parser.
\<close>

definition extractSourceIP :: "gw_world \<Rightarrow> string \<Rightarrow> string" where
  "extractSourceIP w remoteAddr =
     (case SplitHostPort remoteAddr of
        None \<Rightarrow> trim_space remoteAddr
      | Some host \<Rightarrow>
          if CHR '':'' \<in> set host then (case gwCanonIPv6 w host of None \<Rightarrow> host | Some ip \<Rightarrow> ip) else host)"

definition resolveIdentity :: "gw_world \<Rightarrow> Registry \<Rightarrow> http_request \<Rightarrow> SandboxScope option" where
  "resolveIdentity w reg r =
     (let sourceIP = extractSourceIP w (rqRemoteAddr r);
          byIP = (if sourceIP \<noteq> [] then Lookup reg sourceIP else None)
      in case byIP of
           Some scope \<Rightarrow> Some scope
         | None \<Rightarrow>
             (let scopeToken = trim_space (rqHeader r ''X-Cleanroom-Scope-Token'') in
              if scopeToken \<noteq> [] then LookupScopeToken reg scopeToken else None))"

definition identityMiddleware ::
  "gw_world \<Rightarrow> (string \<Rightarrow> string + string) option \<Rightarrow> Registry \<Rightarrow> http_request \<Rightarrow> gw_outcome" where
  "identityMiddleware w creds reg r =
     (case resolveIdentity w reg r of
        Some scope \<Rightarrow> pathMiddleware w creds scope r
      | None \<Rightarrow> refuse Forbidden)"

section \<open>Lemmas\<close>

lemmas outcome_simps = refuse_def reasonOutcome_def stubHandler_def

lemma refuse_upstream [simp]: "goUpstream (refuse x) = None" "goAudit (refuse x) = []"
  by (simp_all add: refuse_def)

lemma reasonOutcome_sel [simp]:
  "goUpstream (reasonOutcome a b c up log) = up" "goAudit (reasonOutcome a b c up log) = log"
  by (simp_all add: reasonOutcome_def)

lemma stubHandler_sel [simp]: "goUpstream (stubHandler s) = None" "goAudit (stubHandler s) = []"
  by (simp_all add: stubHandler_def)

lemma get_copyHeaders:
  "get (copyHeaders hdr) k = (if k \<in> set forwardedHeaders \<and> hdr k \<noteq> [] then Some (hdr k) else None)"
  by (simp add: copyHeaders_def forwardedHeaders_def)

text \<open>What an upstream request of the git proxy says about the request that caused it.\<close>

lemma gitServe_upstream:
  assumes "goUpstream (gitServe w creds scope r) = Some up"
  obtains host path tok where
    "rqPath r = ''/git/'' @ host @ path" "host \<noteq> []" "slash \<notin> set host" "has_prefix path ''/''"
    "Allows (ssPolicy scope) host 443"
    "isl (classifyRequest (rqMethod r) path (rqRawQuery r)) = False"
    "(case creds of None \<Rightarrow> Inr [] | Some f \<Rightarrow> f host) = Inr tok"
    "up = \<lparr>urMethod = rqMethod r,
           urURL = ''https://'' @ host @ path @ (if rqRawQuery r \<noteq> [] then ''?'' @ rqRawQuery r else []),
           urHeaders = (if tok \<noteq> [] then put ''Authorization'' (''Bearer '' @ tok) (copyHeaders (rqHeader r))
                        else copyHeaders (rqHeader r)),
           urBody = rqBody r\<rparr>"
    "goAudit (gitServe w creds scope r) = [audit scope host path ''allow'' ''proxied'']"
proof -
  define t where "t = trim_prefix (rqPath r) ''/git/''"
  define host where "host = takeWhile (\<lambda>c. c \<noteq> slash) t"
  define path where "path = dropWhile (\<lambda>c. c \<noteq> slash) t"
  note defs = t_def [symmetric] host_def [symmetric] path_def [symmetric]
  have tne: "t \<noteq> rqPath r" and hne: "host \<noteq> []" and sl: "slash \<in> set t"
    and al: "Allows (ssPolicy scope) host 443"
    and cl: "isl (classifyRequest (rqMethod r) path (rqRawQuery r)) = False"
    using assms by (auto simp: gitServe_def Let_def defs split: if_splits sum.splits)
  obtain tok where tok: "(case creds of None \<Rightarrow> Inr [] | Some f \<Rightarrow> f host) = Inr tok"
    using assms by (cases "case creds of None \<Rightarrow> Inr [] | Some f \<Rightarrow> f host")
      (auto simp: gitServe_def Let_def defs split: if_splits sum.splits)
  from tne have pre: "has_prefix (rqPath r) ''/git/''" by (metis t_def trim_prefix_def)
  have 1: "rqPath r = ''/git/'' @ host @ path"
    using trim_prefix_append [OF pre] by (simp add: t_def [symmetric] host_def path_def)
  have 2: "slash \<notin> set host" by (auto simp: host_def dest: set_takeWhileD)
  from sl have "path \<noteq> []" by (auto simp: path_def)
  then have 3: "has_prefix path ''/''"
    using hd_dropWhile [of "\<lambda>c. c \<noteq> slash" t] by (cases path) (auto simp: path_def has_prefix_def)
  show thesis
    by (rule that [OF 1 hne 2 3 al cl tok])
      (use assms tok in \<open>auto simp: gitServe_def Let_def defs split: if_splits sum.splits\<close>)
qed

lemma gitServe_no_upstream:
  "goUpstream (gitServe w creds scope r) = None \<Longrightarrow> e \<in> set (goAudit (gitServe w creds scope r)) \<Longrightarrow>
     auAction e = ''deny''"
  by (simp add: gitServe_def Let_def audit_def split: if_splits sum.splits)

lemma gitServe_audits:
  "(\<exists>up. goUpstream (gitServe w creds scope r) = Some up) \<longleftrightarrow>
   (\<exists>e \<in> set (goAudit (gitServe w creds scope r)). auAction e = ''allow'' \<and> ssSandboxID scope = auSandbox e)"
proof (cases "goUpstream (gitServe w creds scope r)")
  case None
  then show ?thesis using gitServe_no_upstream [OF None] by force
next
  case (Some up)
  then show ?thesis by (rule gitServe_upstream) (simp add: Some audit_def)
qed

lemma muxServe_upstream:
  "goUpstream (muxServe w creds scope r) = Some up \<Longrightarrow> muxServe w creds scope r = gitServe w creds scope r"
  by (auto simp: muxServe_def split: route.splits if_splits)

lemma serve_upstream:
  assumes "goUpstream (identityMiddleware w creds reg r) = Some up"
  obtains scope canonical where "resolveIdentity w reg r = Some scope"
    "CanonicalisePath (rqPath r) = Inr canonical"
    "identityMiddleware w creds reg r = gitServe w creds scope (r\<lparr>rqPath := canonical\<rparr>)"
  using assms muxServe_upstream
  by (fastforce simp: identityMiddleware_def pathMiddleware_def split: option.splits sum.splits)

lemma classify_read_only:
  "isl (classifyRequest m p q) = False \<Longrightarrow>
     (m = ''GET'' \<and> has_suffix p ''/info/refs'' \<and> queryParam q ''service'' \<noteq> ''git-receive-pack'') \<or>
     (m = ''POST'' \<and> has_suffix p ''/git-upload-pack'')"
  by (auto simp: classifyRequest_def split: if_splits)

lemma gitServe_token_irrelevant:
  "gitServe w creds scope (r\<lparr>rqHeader := (rqHeader r)(''X-Cleanroom-Scope-Token'' := t), rqPath := p\<rparr>) =
   gitServe w creds scope (r\<lparr>rqPath := p\<rparr>)"
proof -
  have "copyHeaders ((rqHeader r)(''X-Cleanroom-Scope-Token'' := t)) = copyHeaders (rqHeader r)"
    by (simp add: copyHeaders_def forwardedHeaders_def)
  then show ?thesis by (simp add: gitServe_def Let_def cong: sum.case_cong if_cong)
qed

section \<open>Examples\<close>

definition demo_policy :: CompiledPolicy where
  "demo_policy =
     \<lparr>cpVersion = 1, cpImageRef = demo_ref, cpImageDigest = [],
      cpServices = \<lparr>svDocker = \<lparr>dsRequired = False\<rparr>\<rparr>, cpNetworkDefault = ''deny'',
      cpAllow = [\<lparr>arHost = ''github.com'', arPorts = [443]\<rparr>], cpHash = []\<rparr>"

definition demo_registry :: Registry where
  "demo_registry =
     \<lparr>byGuestIP = [(''10.1.1.2'', \<lparr>ssSandboxID = ''cr_a'', ssGuestIP = ''10.1.1.2'', ssPolicy = demo_policy\<rparr>)],
      byScopeToken = [(''tok'', \<lparr>ssSandboxID = ''cr_b'', ssGuestIP = [], ssPolicy = demo_policy\<rparr>)]\<rparr>"

definition demo_world :: gw_world where
  "demo_world =
     \<lparr>gwUpstream = (\<lambda>_. Inr \<lparr>upStatus = 200, upHeaders = [], upBody = ''ok''\<rparr>),
      gwValidRequest = (\<lambda>_ _. True), gwCanonIPv6 = (\<lambda>_. None)\<rparr>"

definition demo_request :: "string \<Rightarrow> string \<Rightarrow> http_request" where
  "demo_request p q =
     \<lparr>rqMethod = ''GET'', rqPath = p, rqRawQuery = q,
      rqHeader = (\<lambda>h. if h = ''Authorization'' then ''guest'' else []),
      rqRemoteAddr = ''10.1.1.2:4321'', rqBody = []\<rparr>"

definition demo_creds :: "(string \<Rightarrow> string + string) option" where
  "demo_creds = Some (\<lambda>_. Inr ''s3cret'')"

definition demo_up :: upstream_request where
  "demo_up =
     \<lparr>urMethod = ''GET'', urURL = ''https://github.com/o/r.git/info/refs?service=git-upload-pack'',
      urHeaders = [(''Authorization'', ''Bearer s3cret'')], urBody = []\<rparr>"

lemma demo_served:
  "goUpstream (identityMiddleware demo_world demo_creds demo_registry
     (demo_request ''/git/github.com/o/r.git/info/refs'' ''service=git-upload-pack'')) = Some demo_up"
  by code_simp

text \<open>
  The service of an \<open>info/refs\<close> request is compared before it is percent-decoded, so an encoded
  \<open>git-receive-pack\<close> is classified as a read and sent upstream.
\<close>

lemma push_probe_encoded:
  "classifyRequest ''GET'' ''/o/r.git/info/refs'' ''service=git%2Dreceive-pack'' = Inr ''info-refs''"
  by code_simp

text \<open>
  Canonicalisation drops a final slash and the route table adds it: a request for \<open>/git/\<close> is
  redirected to itself, and the proxy's answer for a missing upstream host is never given.
\<close>

lemma git_root_redirects_to_itself:
  "goResponse (identityMiddleware demo_world demo_creds demo_registry (demo_request ''/git/'' [])) =
     MovedTo ''/git/''"
  by code_simp

section \<open>Properties\<close>



text \<open>C13. Credentials stay on the host: an upstream request carries at most the three forwarded headers
  and an \<open>Authorization\<close> header, and the latter is the host's token for that upstream, never anything
  the guest sent.\<close>

theorem gateway_credentials:
  assumes "goUpstream (identityMiddleware w creds reg r) = Some up"
  shows "set (keys_of (urHeaders up)) \<subseteq> insert ''Authorization'' (set forwardedHeaders) \<and>
    (\<forall>v. get (urHeaders up) ''Authorization'' = Some v \<longrightarrow>
       (\<exists>provider host tok. creds = Some provider \<and> provider host = Inr tok \<and> v = ''Bearer '' @ tok \<and>
          has_prefix (urURL up) (''https://'' @ host @ ''/'')))"
proof -
  obtain scope canonical where
    s: "goUpstream (gitServe w creds scope (r\<lparr>rqPath := canonical\<rparr>)) = Some up"
    using assms serve_upstream by metis
  from s obtain host path tok where h: "has_prefix path ''/''"
    "(case creds of None \<Rightarrow> Inr [] | Some f \<Rightarrow> f host) = Inr tok"
    "urURL up = ''https://'' @ host @ path @ (if rqRawQuery r \<noteq> [] then ''?'' @ rqRawQuery r else [])"
    "urHeaders up = (if tok \<noteq> [] then put ''Authorization'' (''Bearer '' @ tok) (copyHeaders (rqHeader r))
                     else copyHeaders (rqHeader r))"
    by (rule gitServe_upstream) simp
  have "has_prefix (urURL up) (''https://'' @ host @ ''/'')"
    using h(1,3) by (cases path) (auto simp: has_prefix_def)
  moreover have "''Authorization'' \<notin> set forwardedHeaders" by (simp add: forwardedHeaders_def)
  ultimately show ?thesis
    using h(2,4) by (auto simp: set_keys_of get_copyHeaders split: if_splits option.splits)
qed

theorem gateway_credentials_witness:
  "\<exists>host. get (urHeaders demo_up) ''Authorization'' = Some (''Bearer s3cret'') \<and>
     has_prefix (urURL demo_up) (''https://'' @ host @ ''/'')"
proof -
  have "get (urHeaders demo_up) ''Authorization'' = Some (''Bearer s3cret'')" by code_simp
  with gateway_credentials [OF demo_served] show ?thesis by blast
qed

text \<open>A sandbox cannot borrow another's identity: when the source address is registered, the scope
  token header changes nothing, neither whose policy applies nor what is sent upstream.\<close>

theorem gateway_token_no_override:
  assumes "Lookup reg (extractSourceIP w (rqRemoteAddr r)) = Some scope"
    and "extractSourceIP w (rqRemoteAddr r) \<noteq> []"
  shows "identityMiddleware w creds reg (r\<lparr>rqHeader := (rqHeader r)(''X-Cleanroom-Scope-Token'' := t)\<rparr>) =
    identityMiddleware w creds reg r"
  using assms gitServe_token_irrelevant [where r = r and t = t and scope = scope]
  by (simp add: identityMiddleware_def resolveIdentity_def pathMiddleware_def muxServe_def Let_def
      split: sum.splits route.splits)

theorem gateway_token_no_override_witness:
  "goUpstream (identityMiddleware demo_world demo_creds demo_registry
     ((demo_request ''/git/github.com/o/r.git/info/refs'' ''service=git-upload-pack'')
        \<lparr>rqHeader := (rqHeader (demo_request ''/git/github.com/o/r.git/info/refs'' ''service=git-upload-pack''))
           (''X-Cleanroom-Scope-Token'' := ''tok'')\<rparr>)) = Some demo_up"
  by (subst gateway_token_no_override
      [where scope = "\<lparr>ssSandboxID = ''cr_a'', ssGuestIP = ''10.1.1.2'', ssPolicy = demo_policy\<rparr>"])
    (code_simp, code_simp, rule demo_served)

text \<open>Every upstream request is audited: the gateway logs an \<open>allow\<close> entry, for the sandbox the
  request was identified with, exactly when it sends something upstream.\<close>

theorem gateway_audits_upstream:
  "goUpstream (identityMiddleware w creds reg r) \<noteq> None \<longleftrightarrow>
   (\<exists>e \<in> set (goAudit (identityMiddleware w creds reg r)). auAction e = ''allow'' \<and>
      map_option ssSandboxID (resolveIdentity w reg r) = Some (auSandbox e))"
  using gitServe_audits
  by (auto simp: identityMiddleware_def pathMiddleware_def muxServe_def split: option.splits sum.splits route.splits)

end
