(* ===== verification/Host_Env.thy ===== *)
theory Host_Env
  imports Paths
begin

text \<open>
  What the program reads of its host: \<open>internal/paths\<close> (the base directories for cache, data,
  state and run files), \<open>internal/endpoint\<close> (where the control server listens and where clients
  connect) and \<open>internal/runtimeconfig\<close> (the configuration file). The environment variables, the
  home directory, the temporary directory, the effective user, the system socket and the host
  operating system are fields of \<open>host_env\<close>; the YAML parser is a parameter.
\<close>

record host_env =
  heGetenv :: "string \<Rightarrow> string"
  heHome :: "string + string"
  heTempDir :: string
  heEuid :: int
  heSystemSocket :: bool
  heGOOS :: string

datatype env_error =
    HomeError string
  | Unresolved string
  | ReadConfig string string
  | ParseConfig string string

definition getenv_trimmed :: "host_env \<Rightarrow> string \<Rightarrow> string" where
  "getenv_trimmed env var = trim_space (heGetenv env var)"

section \<open>Base directories\<close>

text \<open>
  The three base directories differ in the XDG variable, the directory under home and the
  message only: \<open>$XDG_..._HOME/cleanroom\<close>, then home, then \<open>$XDG_RUNTIME_DIR/cleanroom\<close>.
\<close>

definition base_dir :: "string \<Rightarrow> string list \<Rightarrow> string \<Rightarrow> host_env \<Rightarrow> env_error + string" where
  "base_dir xdgVar homeRel what env =
     (let xdg = getenv_trimmed env xdgVar; runtimeDir = getenv_trimmed env ''XDG_RUNTIME_DIR'' in
      if xdg \<noteq> [] then Inr (path_join [xdg, ''cleanroom''])
      else (case heHome env of
              Inl e \<Rightarrow> if runtimeDir \<noteq> [] then Inr (path_join [runtimeDir, ''cleanroom'']) else Inl (HomeError e)
            | Inr home \<Rightarrow>
                if home \<noteq> [] then Inr (path_join (home # homeRel @ [''cleanroom'']))
                else if runtimeDir \<noteq> [] then Inr (path_join [runtimeDir, ''cleanroom''])
                else Inl (Unresolved what)))"

definition CacheBaseDir :: "host_env \<Rightarrow> env_error + string" where
  "CacheBaseDir = base_dir ''XDG_CACHE_HOME'' [''.cache''] ''cache''"

definition DataBaseDir :: "host_env \<Rightarrow> env_error + string" where
  "DataBaseDir = base_dir ''XDG_DATA_HOME'' [''.local'', ''share''] ''data''"

definition StateBaseDir :: "host_env \<Rightarrow> env_error + string" where
  "StateBaseDir = base_dir ''XDG_STATE_HOME'' [''.local'', ''state''] ''state''"

definition ImageCacheDir :: "host_env \<Rightarrow> env_error + string" where
  "ImageCacheDir env = and_then (CacheBaseDir env) (\<lambda>base. Inr (path_join [base, ''images'']))"

definition ImageMetadataDBPath :: "host_env \<Rightarrow> env_error + string" where
  "ImageMetadataDBPath env =
     and_then (StateBaseDir env) (\<lambda>base. Inr (path_join [base, ''images'', ''metadata.db'']))"

definition AssetsDir :: "host_env \<Rightarrow> env_error + string" where
  "AssetsDir env = and_then (DataBaseDir env) (\<lambda>base. Inr (path_join [base, ''assets'']))"

definition RunBaseDir :: "host_env \<Rightarrow> env_error + string" where
  "RunBaseDir env = and_then (StateBaseDir env) (\<lambda>base. Inr (path_join [base, ''runs'']))"

definition configDir :: "string list \<Rightarrow> host_env \<Rightarrow> env_error + string" where
  "configDir rel env =
     (let configHome = getenv_trimmed env ''XDG_CONFIG_HOME'' in
      if configHome \<noteq> [] then Inr (path_join (configHome # rel))
      else (case heHome env of Inl e \<Rightarrow> Inl (HomeError e)
            | Inr home \<Rightarrow> Inr (path_join (home # ''.config'' # rel))))"

definition TLSDir :: "host_env \<Rightarrow> env_error + string" where
  "TLSDir = configDir [''cleanroom'', ''tls'']"

section \<open>Endpoints\<close>

record Endpoint =
  epScheme :: string
  epAddress :: string
  epBaseURL :: string

datatype endpoint_error = InvalidUnix string | UnsupportedEndpoint string

definition unix_endpoint :: "string \<Rightarrow> Endpoint" where
  "unix_endpoint a = \<lparr>epScheme = ''unix'', epAddress = a, epBaseURL = ''http://unix''\<rparr>"

definition DefaultSystemSocketPath :: string where
  "DefaultSystemSocketPath = ''/var/run/cleanroom/cleanroom.sock''"

definition defaultListenEndpoint :: "host_env \<Rightarrow> Endpoint" where
  "defaultListenEndpoint env =
     (let d = getenv_trimmed env ''XDG_RUNTIME_DIR'';
          runtimeDir = (if d = [] then path_join [heTempDir env, ''cleanroom''] else d)
      in unix_endpoint (path_join [runtimeDir, ''cleanroom'', ''cleanroom.sock'']))"

definition defaultClientEndpoint :: "host_env \<Rightarrow> Endpoint" where
  "defaultClientEndpoint env =
     (if heEuid env = 0 \<and> heSystemSocket env then unix_endpoint DefaultSystemSocketPath
      else defaultListenEndpoint env)"

definition resolve :: "host_env \<Rightarrow> string \<Rightarrow> bool \<Rightarrow> endpoint_error + Endpoint" where
  "resolve env raw listenDefault =
     (let v0 = trim_space raw; v = (if v0 = [] then getenv_trimmed env ''CLEANROOM_HOST'' else v0) in
      if v = [] then Inr (if listenDefault then defaultListenEndpoint env else defaultClientEndpoint env)
      else if has_prefix v ''unix://'' then
        (let p = trim_prefix v ''unix://'' in if p = [] then Inl (InvalidUnix v) else Inr (unix_endpoint p))
      else if has_prefix v ''http://'' \<or> has_prefix v ''https://'' then
        Inr \<lparr>epScheme = (if has_prefix v ''https://'' then ''https'' else ''http''),
             epAddress = v, epBaseURL = v\<rparr>
      else if has_prefix v ''/'' then Inr (unix_endpoint v)
      else Inl (UnsupportedEndpoint v))"

definition ResolveListen :: "host_env \<Rightarrow> string \<Rightarrow> endpoint_error + Endpoint" where
  "ResolveListen env raw = resolve env raw True"

definition Resolve :: "host_env \<Rightarrow> string \<Rightarrow> endpoint_error + Endpoint" where
  "Resolve env raw = resolve env raw False"

section \<open>Runtime configuration\<close>

record DockerServiceConfig =
  dscStartupTimeoutSeconds :: int
  dscStorageDriver :: string
  dscIPTables :: bool

record RtFirecrackerConfig =
  rfBinaryPath :: string
  rfKernelImage :: string
  rfRootFS :: string
  rfDocker :: DockerServiceConfig
  rfPrivilegedMode :: string
  rfPrivilegedHelperPath :: string
  rfVCPUs :: int
  rfMemoryMiB :: int
  rfGuestCID :: "32 word"
  rfGuestPort :: "32 word"
  rfLaunchSeconds :: int

record DarwinVZConfig =
  dvKernelImage :: string
  dvRootFS :: string
  dvDocker :: DockerServiceConfig
  dvVCPUs :: int
  dvMemoryMiB :: int
  dvGuestPort :: "32 word"
  dvLaunchSeconds :: int

record Config =
  cfgDefaultBackend :: string
  cfgFirecracker :: RtFirecrackerConfig
  cfgDarwinVZ :: DarwinVZConfig

definition zeroDocker :: DockerServiceConfig where
  "zeroDocker = \<lparr>dscStartupTimeoutSeconds = 0, dscStorageDriver = [], dscIPTables = False\<rparr>"

definition zeroConfig :: Config where
  "zeroConfig =
     \<lparr>cfgDefaultBackend = [],
      cfgFirecracker = \<lparr>rfBinaryPath = [], rfKernelImage = [], rfRootFS = [], rfDocker = zeroDocker,
        rfPrivilegedMode = [], rfPrivilegedHelperPath = [], rfVCPUs = 0, rfMemoryMiB = 0,
        rfGuestCID = 0, rfGuestPort = 0, rfLaunchSeconds = 0\<rparr>,
      cfgDarwinVZ = \<lparr>dvKernelImage = [], dvRootFS = [], dvDocker = zeroDocker, dvVCPUs = 0,
        dvMemoryMiB = 0, dvGuestPort = 0, dvLaunchSeconds = 0\<rparr>\<rparr>"

definition DefaultBackendForGOOS :: "string \<Rightarrow> string" where
  "DefaultBackendForGOOS goos =
     (if to_lower (trim_space goos) = ''darwin'' then ''darwin-vz'' else ''firecracker'')"

definition DefaultBackendForHost :: "host_env \<Rightarrow> string" where
  "DefaultBackendForHost env = DefaultBackendForGOOS (heGOOS env)"

definition darwinVZConfigIsZero :: "DarwinVZConfig \<Rightarrow> bool" where
  "darwinVZConfigIsZero c \<longleftrightarrow>
     trim_space (dvKernelImage c) = [] \<and> trim_space (dvRootFS c) = [] \<and>
     dscStartupTimeoutSeconds (dvDocker c) = 0 \<and> trim_space (dscStorageDriver (dvDocker c)) = [] \<and>
     \<not> dscIPTables (dvDocker c) \<and> dvVCPUs c = 0 \<and> dvMemoryMiB c = 0 \<and> dvGuestPort c = 0 \<and>
     dvLaunchSeconds c = 0"

definition configPath :: "host_env \<Rightarrow> env_error + string" where
  "configPath = configDir [''cleanroom'', ''config.yaml'']"

text \<open>
  The two YAML decodings of the file (the current layout, and the legacy key \<open>darwin_vz\<close>) are
  parameters; \<open>readFile\<close> is \<open>None\<close> for a file that does not exist.
\<close>

definition LoadConfig ::
  "(string \<Rightarrow> string + Config) \<Rightarrow> (string \<Rightarrow> string + DarwinVZConfig) \<Rightarrow>
   (string \<Rightarrow> (string + string) option) \<Rightarrow> host_env \<Rightarrow> env_error + Config \<times> string" where
  "LoadConfig yaml legacyYaml readFile env =
     and_then (configPath env) (\<lambda>path.
       case readFile path of
         None \<Rightarrow> Inr (zeroConfig, path)
       | Some (Inl e) \<Rightarrow> Inl (ReadConfig path e)
       | Some (Inr b) \<Rightarrow>
           (case yaml b of
              Inl e \<Rightarrow> Inl (ParseConfig path e)
            | Inr cfg0 \<Rightarrow>
                (let cfg1 =
                   (if darwinVZConfigIsZero (cfgDarwinVZ cfg0) then
                      (case legacyYaml b of
                         Inr legacy \<Rightarrow>
                           if \<not> darwinVZConfigIsZero legacy then cfg0\<lparr>cfgDarwinVZ := legacy\<rparr> else cfg0
                       | Inl _ \<Rightarrow> cfg0)
                    else cfg0);
                     d = trim_space (cfgDefaultBackend cfg1)
                 in Inr (cfg1\<lparr>cfgDefaultBackend := (if d = [] then DefaultBackendForHost env else d)\<rparr>, path))))"

section \<open>Properties\<close>

lemma resolve_given:
  "trim_space raw \<noteq> [] \<Longrightarrow> resolve env raw l = resolve env' raw l'"
  by (simp add: resolve_def Let_def)

text \<open>An explicit endpoint decides alone: the environment, the default socket and whether the
  caller listens or connects play no part, and the result is a Unix socket with a non-empty path, an
  HTTP or HTTPS URL unchanged, or an error, never a silent default.\<close>

theorem resolve_explicit:
  assumes "trim_space raw \<noteq> []" and "resolve env raw l = Inr ep"
  shows "resolve env' raw l' = Inr ep \<and>
    ((epScheme ep = ''unix'' \<and> epAddress ep \<noteq> [] \<and>
        trim_space raw \<in> {epAddress ep, ''unix://'' @ epAddress ep}) \<or>
     (epScheme ep \<in> {''http'', ''https''} \<and> epAddress ep = trim_space raw \<and> epBaseURL ep = trim_space raw))"
proof -
  have "resolve env' raw l' = Inr ep"
    using resolve_given [OF assms(1)] assms(2) by metis
  moreover have "has_prefix (trim_space raw) ''unix://'' \<Longrightarrow>
      trim_space raw = ''unix://'' @ trim_prefix (trim_space raw) ''unix://''"
    by (rule trim_prefix_append [symmetric])
  ultimately show ?thesis
    using assms by (auto simp: resolve_def Let_def unix_endpoint_def split: if_splits)
qed

theorem resolve_explicit_witness:
  "resolve \<lparr>heGetenv = (\<lambda>_. ''https://example.com''), heHome = Inr ''/root'', heTempDir = ''/tmp'',
            heEuid = 0, heSystemSocket = True, heGOOS = ''linux''\<rparr> '' unix:///run/c.sock'' False =
     Inr (unix_endpoint ''/run/c.sock'')"
proof -
  have a: "trim_space '' unix:///run/c.sock'' \<noteq> []" by code_simp
  have "resolve \<lparr>heGetenv = (\<lambda>_. []), heHome = Inr [], heTempDir = [], heEuid = 1,
      heSystemSocket = False, heGOOS = []\<rparr> '' unix:///run/c.sock'' True = Inr (unix_endpoint ''/run/c.sock'')"
    by code_simp
  from resolve_explicit [OF a this] show ?thesis by blast
qed

end
