(* ===== verification/Backend.thy ===== *)
theory Backend
  imports Policy Host_Env
begin

text \<open>
  \<open>internal/backend/backend.go\<close>: what the control service and a backend adapter exchange. An
  adapter is seen through the interfaces it implements, so it is a record of flags; the results of
  its calls are arguments of the operations that make them.
\<close>

section \<open>Data\<close>

record FirecrackerConfig =
  fcBinaryPath :: string
  fcKernelImagePath :: string
  fcRootFSPath :: string
  fcDockerStartupSeconds :: int
  fcDockerStorageDriver :: string
  fcDockerIPTables :: bool
  fcPrivilegedMode :: string
  fcPrivilegedHelperPath :: string
  fcRunDir :: string
  fcVCPUs :: int
  fcMemoryMiB :: int
  fcGuestCID :: "32 word"
  fcGuestPort :: "32 word"
  fcLaunch :: bool
  fcLaunchSeconds :: int

record ProvisionRequest =
  prSandboxID :: string
  prPolicy :: "CompiledPolicy option"
  prConfig :: FirecrackerConfig

record RunRequest =
  rrSandboxID :: string
  rrRunID :: string
  rrCommand :: "string list"
  rrTTY :: bool
  rrPolicy :: "CompiledPolicy option"
  rrConfig :: FirecrackerConfig

record RunResult =
  resRunID :: string
  resExitCode :: int
  resLaunchedVM :: bool
  resPlanPath :: string
  resRunDir :: string
  resImageRef :: string
  resImageDigest :: string
  resMessage :: string
  resStdout :: string
  resStderr :: string

record adapter =
  adStreaming :: bool
  adPersistent :: bool
  adFileDownload :: bool
  adReporter :: "(string, bool) gomap option"

section \<open>Capabilities\<close>

definition knownCapabilityKeys :: "string list" where
  "knownCapabilityKeys =
     [''exec.streaming'', ''sandbox.persistent'', ''sandbox.file_download'', ''network.default_deny'',
      ''network.allowlist_egress'', ''network.guest_interface'']"

definition CapabilitiesForAdapter :: "adapter option \<Rightarrow> (string, bool) gomap" where
  "CapabilitiesForAdapter ad =
     (let caps0 = fold (\<lambda>k. put k False) knownCapabilityKeys [] in
      case ad of
        None \<Rightarrow> caps0
      | Some a \<Rightarrow>
          (let caps1 = (if adStreaming a then put ''exec.streaming'' True caps0 else caps0);
               caps2 = (if adPersistent a then put ''sandbox.persistent'' True caps1 else caps1);
               caps3 = (if adFileDownload a then put ''sandbox.file_download'' True caps2 else caps2)
           in case adReporter a of
                None \<Rightarrow> caps3
              | Some reported \<Rightarrow> fold (\<lambda>(k, v). put k v) reported caps3))"

definition SortedCapabilityKeys :: "(string, bool) gomap \<Rightarrow> string list" where
  "SortedCapabilityKeys caps = sort (keys_of caps)"

definition CloneCapabilities :: "(string, bool) gomap \<Rightarrow> (string, bool) gomap" where
  "CloneCapabilities caps = fold (\<lambda>(k, v). put k v) caps []"

section \<open>Lemmas\<close>

lemma get_fold_put:
  "is_gomap ps \<Longrightarrow> get (fold (\<lambda>(k, v). put k v) ps m) k = (case get ps k of None \<Rightarrow> get m k | Some v \<Rightarrow> Some v)"
proof (induction ps arbitrary: m)
  case (Cons a ps)
  obtain k' v' where a: "a = (k', v')" by (cases a)
  have "get ps k' = None" using Cons.prems
    by (auto simp: is_gomap_def keys_of_def get_def a map_of_eq_None_iff)
  then show ?case
    using Cons by (auto simp: a is_gomap_def keys_of_def get_def [of "_ # _"] get_def [of ps] split: option.splits)
qed simp

lemma is_gomap_fold_put: "is_gomap m \<Longrightarrow> is_gomap (fold (\<lambda>(k, v). put k v) ps m)"
  by (induction ps arbitrary: m) auto

lemma get_caps0:
  "get (fold (\<lambda>k. put k False) ks m) k = (if k \<in> set ks then Some False else get m k)"
  by (induction ks arbitrary: m) auto

section \<open>Properties\<close>

text \<open>The capability map of an adapter: every known key is present; a key the adapter reports has
  the reported value; any other key is true exactly when it stands for an interface the adapter
  implements.\<close>

theorem CapabilitiesForAdapter_get:
  assumes "\<And>r. adReporter a = Some r \<Longrightarrow> is_gomap r"
  shows "get (CapabilitiesForAdapter (Some a)) k =
    (case Option.bind (adReporter a) (\<lambda>r. get r k) of
       Some v \<Rightarrow> Some v
     | None \<Rightarrow>
         if k \<in> set knownCapabilityKeys
         then Some ((k = ''exec.streaming'' \<and> adStreaming a) \<or> (k = ''sandbox.persistent'' \<and> adPersistent a) \<or>
                    (k = ''sandbox.file_download'' \<and> adFileDownload a))
         else None)"
proof -
  have known: "''exec.streaming'' \<in> set knownCapabilityKeys" "''sandbox.persistent'' \<in> set knownCapabilityKeys"
    "''sandbox.file_download'' \<in> set knownCapabilityKeys"
    by (simp_all add: knownCapabilityKeys_def)
  show ?thesis
    using assms known
    by (cases "adReporter a")
      (auto simp: CapabilitiesForAdapter_def Let_def get_caps0 get_fold_put split: option.splits)
qed

theorem CapabilitiesForAdapter_get_witness:
  "get (CapabilitiesForAdapter (Some \<lparr>adStreaming = True, adPersistent = False, adFileDownload = False,
      adReporter = Some [(''network.default_deny'', True)]\<rparr>)) ''network.default_deny'' = Some True"
  by (subst CapabilitiesForAdapter_get) (simp_all add: is_gomap_def keys_of_def get_def)

end
