(* ===== verification/Service_State.thy ===== *)
theory Service_State
  imports Backend "HOL-Library.Product_Lexorder"
begin

text \<open>
  The state of the control service, \<open>internal/controlservice/service.go\<close>, and the helpers its
  handlers share: identifiers, bounded histories and outputs, event recording, finalisation of an
  execution and pruning of retained state.

  A time is a number of nanoseconds since Go's zero time, so \<open>IsZero\<close> is equality with 0. The four
  maps of the service hold pointers; a pointer is always the one stored under its own key, so an
  update through it is an update of the map entry. A channel of events is the list of the events that
  wait in its buffer, under the subscription that owns it; closing it removes it. The \<open>Done\<close> channel is
  its flag \<open>DoneClosed\<close>; a cancel function or an attach function is the flag saying it is set.
  Maps start empty rather than nil, so \<open>ensureMapsLocked\<close> has nothing to do. Logging is left out.
\<close>

type_synonym time = int

section \<open>Data\<close>

datatype SandboxStatus =
  SANDBOX_UNSPECIFIED | SANDBOX_PROVISIONING | SANDBOX_READY | SANDBOX_STOPPING | SANDBOX_STOPPED | SANDBOX_FAILED

datatype ExecutionStatus =
  EXECUTION_UNSPECIFIED | QUEUED | RUNNING | SUCCEEDED | FAILED | CANCELED | TIMED_OUT

datatype ExecutionKind = KIND_UNSPECIFIED | KIND_BATCH | KIND_INTERACTIVE | KIND_OTHER int

record SandboxEvent =
  seSandboxID :: string
  seStatus :: SandboxStatus
  seMessage :: string
  seOccurredAt :: time

datatype exec_payload =
    PStdout string
  | PStderr string
  | PExit int ExecutionStatus string
  | PMessage string

record ExecutionStreamEvent =
  eeSandboxID :: string
  eeExecutionID :: string
  eeStatus :: ExecutionStatus
  eePayload :: exec_payload
  eeImageRef :: string
  eeImageDigest :: string
  eeOccurredAt :: "time option"

record sandboxState =
  sbID :: string
  sbBackend :: string
  sbPolicy :: "CompiledPolicy option"
  sbFirecracker :: FirecrackerConfig
  sbActiveExecutionID :: string
  sbDownloadInProgress :: bool
  sbCreatedAt :: time
  sbUpdatedAt :: time
  sbLastExecutionID :: string
  sbStatus :: SandboxStatus
  sbEventHistory :: "SandboxEvent list"
  sbEventSubscribers :: "(int, SandboxEvent list) gomap"
  sbNextSubID :: int
  sbDoneClosed :: bool

record executionState =
  exID :: string
  exSandboxID :: string
  exRunID :: string
  exImageRef :: string
  exImageDigest :: string
  exCommand :: "string list"
  exLaunchSeconds :: int
  exTTY :: bool
  exKind :: ExecutionKind
  exStatus :: ExecutionStatus
  exExitCode :: int
  exStartedAt :: "time option"
  exFinishedAt :: "time option"
  exMessage :: string
  exStdout :: string
  exStderr :: string
  exLaunchedVM :: bool
  exPlanPath :: string
  exRunDir :: string
  exCancelRequested :: bool
  exCancelSignal :: int
  exCancel :: bool
  exAttachStdin :: bool
  exAttachResize :: bool
  exEventHistory :: "ExecutionStreamEvent list"
  exEventSubscribers :: "(int, ExecutionStreamEvent list) gomap"
  exNextSubID :: int
  exDoneClosed :: bool

record interactiveSessionState =
  isSessionID :: string
  isSandboxID :: string
  isExecutionID :: string
  isToken :: string
  isExpiresAt :: time
  isInitialCols :: "32 word"
  isInitialRows :: "32 word"

record Service =
  svcConfig :: Config
  svcBackends :: "(string, adapter) gomap"
  svcSandboxes :: "(string, sandboxState) gomap"
  svcExecutions :: "(string, executionState) gomap"
  svcSessions :: "(string, interactiveSessionState) gomap"
  svcAttached :: "(string, unit) gomap"
  svcEndpoint :: string
  svcALPN :: string
  svcCertPin :: string

section \<open>Limits\<close>

definition maxRetainedStoppedSandboxes :: nat where
  "maxRetainedStoppedSandboxes = 256"

definition maxRetainedFinishedExecutions :: nat where
  "maxRetainedFinishedExecutions = 2048"

definition maxRetainedSandboxEvents :: nat where
  "maxRetainedSandboxEvents = 256"

definition maxRetainedExecutionEvents :: nat where
  "maxRetainedExecutionEvents = 2048"

definition maxRetainedExecutionOutputBytes :: nat where
  "maxRetainedExecutionOutputBytes = 1 * 1024 * 1024"

definition retainedStateMaxAge :: time where
  "retainedStateMaxAge = 24 * 3600 * 10 ^ 9"

definition interactiveSessionTokenTTL :: time where
  "interactiveSessionTokenTTL = 30 * 10 ^ 9"

definition attachStdinRegistrationWait :: time where
  "attachStdinRegistrationWait = 2 * 10 ^ 9"

definition attachResizeRegistrationWait :: time where
  "attachResizeRegistrationWait = 250 * 10 ^ 6"

definition defaultDownloadMaxBytes :: int where
  "defaultDownloadMaxBytes = 10 * 1024 * 1024"

text \<open>The capacities of the channels made by the two \<open>Subscribe\<close> functions.\<close>

definition sandboxChanCap :: nat where
  "sandboxChanCap = 64"

definition executionChanCap :: nat where
  "executionChanCap = 2048"

section \<open>Identifiers and tokens\<close>

text \<open>\<open>ids.go\<close>. The type-id generator is a parameter; \<open>now\<close> is the clock reading of the fallback.\<close>

definition unix_nano :: "time \<Rightarrow> int" where
  "unix_nano t = to_int64 (t - 62135596800 * 10 ^ 9)"

definition newID :: "(string \<Rightarrow> string + string) \<Rightarrow> time \<Rightarrow> string \<Rightarrow> string" where
  "newID generateTypeID now pre =
     (case generateTypeID pre of
        Inr i \<Rightarrow> if trim_space i \<noteq> [] then i else pre @ ''-'' @ itoa (unix_nano now)
      | Inl _ \<Rightarrow> pre @ ''-'' @ itoa (unix_nano now))"

definition newSandboxID :: "(string \<Rightarrow> string + string) \<Rightarrow> time \<Rightarrow> string" where
  "newSandboxID g now = newID g now ''cr''"

definition newExecutionID :: "(string \<Rightarrow> string + string) \<Rightarrow> time \<Rightarrow> string" where
  "newExecutionID g now = newID g now ''exec''"

definition newRunID :: "(string \<Rightarrow> string + string) \<Rightarrow> time \<Rightarrow> string" where
  "newRunID g now = newID g now ''run''"

definition newInteractiveSessionID :: "(string \<Rightarrow> string + string) \<Rightarrow> time \<Rightarrow> string" where
  "newInteractiveSessionID g now = newID g now ''isess''"

text \<open>\<open>base64.RawURLEncoding\<close>: 6 bits a character, no padding.\<close>

definition base64url_char :: "nat \<Rightarrow> char" where
  "base64url_char d =
     (if d < 26 then char_of (65 + d) else if d < 52 then char_of (71 + d)
      else if d < 62 then char_of (d - 4) else if d = 62 then CHR ''-'' else CHR ''_'')"

fun base64url :: "8 word list \<Rightarrow> string" where
  "base64url (a # b # c # rest) =
     (let n = unat a * 65536 + unat b * 256 + unat c in
      base64url_char (n div 262144) # base64url_char (n div 4096 mod 64) #
      base64url_char (n div 64 mod 64) # base64url_char (n mod 64) # base64url rest)"
| "base64url [a, b] =
     (let n = unat a * 1024 + unat b * 4 in
      [base64url_char (n div 4096), base64url_char (n div 64 mod 64), base64url_char (n mod 64)])"
| "base64url [a] = (let n = unat a * 16 in [base64url_char (n div 64), base64url_char (n mod 64)])"
| "base64url [] = []"

text \<open>The argument is what reading 24 random bytes gives: an error, or the bytes.\<close>

definition newSessionToken :: "string + 8 word list \<Rightarrow> string + string" where
  "newSessionToken random = and_then random (\<lambda>buf. Inr (base64url buf))"

section \<open>Pure helpers\<close>

definition isFinalExecutionStatus :: "ExecutionStatus \<Rightarrow> bool" where
  "isFinalExecutionStatus st \<longleftrightarrow> st \<in> {SUCCEEDED, FAILED, CANCELED, TIMED_OUT}"

definition cancelExitCode :: "int \<Rightarrow> int" where
  "cancelExitCode signal = (if signal \<le> 0 \<or> signal > 127 then 130 else 128 + signal)"

definition executionKey :: "string \<Rightarrow> string \<Rightarrow> string" where
  "executionKey sandboxID executionID = sandboxID @ ''/'' @ executionID"

definition normalizeCommand :: "string list \<Rightarrow> string list" where
  "normalizeCommand command = (case command of c # cs \<Rightarrow> if c = ''--'' then cs else command | [] \<Rightarrow> command)"

definition resolveExecutionKind :: "ExecutionKind \<Rightarrow> bool \<Rightarrow> ExecutionKind + ExecutionKind" where
  "resolveExecutionKind kind tty =
     (case kind of
        KIND_UNSPECIFIED \<Rightarrow> Inr (if tty then KIND_INTERACTIVE else KIND_BATCH)
      | KIND_BATCH \<Rightarrow> Inr kind
      | KIND_INTERACTIVE \<Rightarrow> Inr kind
      | KIND_OTHER _ \<Rightarrow> Inl kind)"

definition resolveBackendName :: "host_env \<Rightarrow> string \<Rightarrow> string \<Rightarrow> string" where
  "resolveBackendName env requested configuredDefault =
     (if requested \<noteq> [] then requested
      else if configuredDefault \<noteq> [] then configuredDefault
      else DefaultBackendForHost env)"

definition mergeBackendConfig :: "string \<Rightarrow> int \<Rightarrow> Config \<Rightarrow> FirecrackerConfig" where
  "mergeBackendConfig backendName launchSeconds cfg =
     (let f = cfgFirecracker cfg; d = cfgDarwinVZ cfg;
          out = \<lparr>fcBinaryPath = rfBinaryPath f, fcKernelImagePath = rfKernelImage f,
            fcRootFSPath = rfRootFS f,
            fcDockerStartupSeconds = dscStartupTimeoutSeconds (rfDocker f),
            fcDockerStorageDriver = dscStorageDriver (rfDocker f),
            fcDockerIPTables = dscIPTables (rfDocker f),
            fcPrivilegedMode = rfPrivilegedMode f, fcPrivilegedHelperPath = rfPrivilegedHelperPath f,
            fcRunDir = [], fcVCPUs = rfVCPUs f, fcMemoryMiB = rfMemoryMiB f,
            fcGuestCID = rfGuestCID f, fcGuestPort = rfGuestPort f, fcLaunch = False,
            fcLaunchSeconds = rfLaunchSeconds f\<rparr>;
          out = (if backendName = ''darwin-vz''
            then out\<lparr>fcKernelImagePath := dvKernelImage d, fcRootFSPath := dvRootFS d,
              fcDockerStartupSeconds := dscStartupTimeoutSeconds (dvDocker d),
              fcDockerStorageDriver := dscStorageDriver (dvDocker d),
              fcDockerIPTables := dscIPTables (dvDocker d),
              fcVCPUs := dvVCPUs d, fcMemoryMiB := dvMemoryMiB d, fcGuestPort := dvGuestPort d,
              fcLaunchSeconds := dvLaunchSeconds d\<rparr>
            else out);
          out = out\<lparr>fcLaunch := True\<rparr>
      in if launchSeconds \<noteq> 0 then out\<lparr>fcLaunchSeconds := launchSeconds\<rparr> else out)"

text \<open>
  The limits of the two retention functions are Go ints; a limit that is not positive behaves as 0,
  so the model takes natural numbers.
\<close>

definition appendRetainedOutput :: "string \<Rightarrow> string \<Rightarrow> nat \<Rightarrow> string" where
  "appendRetainedOutput existing chunk limit =
     (if limit = 0 then []
      else if chunk = [] then
        (if length existing \<le> limit then existing else drop (length existing - limit) existing)
      else if length chunk \<ge> limit then drop (length chunk - limit) chunk
      else
        (let keepExisting = limit - length chunk;
             existing = (if keepExisting < length existing then drop (length existing - keepExisting) existing
                         else existing)
         in existing @ chunk))"

definition appendBounded :: "'a list \<Rightarrow> 'a \<Rightarrow> nat \<Rightarrow> 'a list" where
  "appendBounded history item limit =
     (if limit = 0 then []
      else (let history = history @ [item] in
            if length history \<le> limit then history else drop (length history - limit) history))"

definition bufferedResultDelta :: "string \<Rightarrow> string \<Rightarrow> nat \<Rightarrow> string \<times> bool" where
  "bufferedResultDelta retained buffered retentionLimit =
     (if buffered = [] then ([], False)
      else if retained = [] then (buffered, False)
      else if has_suffix buffered retained then
        (if retentionLimit > 0 \<and> length retained \<ge> retentionLimit then ([], False)
         else if has_prefix buffered retained then (drop (length retained) buffered, False)
         else (buffered, True))
      else if has_prefix buffered retained then (drop (length retained) buffered, False)
      else (buffered, True))"

section \<open>Responses\<close>

record PbSandbox =
  psSandboxID :: string
  psStatus :: SandboxStatus
  psBackend :: string
  psPolicyHash :: string
  psCreatedAt :: time
  psUpdatedAt :: time

definition cloneSandboxLocked :: "sandboxState \<Rightarrow> PbSandbox" where
  "cloneSandboxLocked st =
     \<lparr>psSandboxID = sbID st, psStatus = sbStatus st, psBackend = sbBackend st,
      psPolicyHash = (case sbPolicy st of None \<Rightarrow> [] | Some p \<Rightarrow> cpHash p),
      psCreatedAt = sbCreatedAt st, psUpdatedAt = sbUpdatedAt st\<rparr>"

record PbExecution =
  peExecutionID :: string
  peSandboxID :: string
  peStatus :: ExecutionStatus
  peCommand :: "string list"
  peExitCode :: int
  peTty :: bool
  peRunID :: string
  peKind :: ExecutionKind
  peStartedAt :: "time option"
  peFinishedAt :: "time option"

definition cloneExecutionLocked :: "executionState \<Rightarrow> PbExecution" where
  "cloneExecutionLocked st =
     \<lparr>peExecutionID = exID st, peSandboxID = exSandboxID st, peStatus = exStatus st,
      peCommand = exCommand st, peExitCode = exExitCode st, peTty = exTTY st, peRunID = exRunID st,
      peKind = exKind st, peStartedAt = exStartedAt st, peFinishedAt = exFinishedAt st\<rparr>"

section \<open>Events\<close>

text \<open>
  Sending an event to every subscriber: a channel with room takes it, a full one is closed and its
  subscription deleted.
\<close>

definition broadcast :: "nat \<Rightarrow> 'e \<Rightarrow> (int, 'e list) gomap \<Rightarrow> (int, 'e list) gomap" where
  "broadcast capacity ev subs =
     map (\<lambda>(i, ch). (i, ch @ [ev])) (filter (\<lambda>(i, ch). length ch < capacity) subs)"

definition recordSandboxEventLocked :: "time \<Rightarrow> SandboxStatus \<Rightarrow> string \<Rightarrow> sandboxState \<Rightarrow> sandboxState" where
  "recordSandboxEventLocked now status message sb =
     (let event = \<lparr>seSandboxID = sbID sb, seStatus = status, seMessage = message, seOccurredAt = now\<rparr> in
      sb\<lparr>sbStatus := status, sbUpdatedAt := now,
         sbEventHistory := appendBounded (sbEventHistory sb) event maxRetainedSandboxEvents,
         sbEventSubscribers := broadcast sandboxChanCap event (sbEventSubscribers sb)\<rparr>)"

definition recordExecutionEventLocked :: "time \<Rightarrow> ExecutionStreamEvent \<Rightarrow> executionState \<Rightarrow> executionState" where
  "recordExecutionEventLocked now event ex =
     (let event = (if trim_space (eeImageRef event) = [] then event\<lparr>eeImageRef := exImageRef ex\<rparr> else event);
          event = (if trim_space (eeImageDigest event) = [] then event\<lparr>eeImageDigest := exImageDigest ex\<rparr> else event);
          event = (if eeOccurredAt event = None then event\<lparr>eeOccurredAt := Some now\<rparr> else event)
      in ex\<lparr>exEventHistory := appendBounded (exEventHistory ex) event maxRetainedExecutionEvents,
            exEventSubscribers := broadcast executionChanCap event (exEventSubscribers ex)\<rparr>)"

text \<open>The event literals of the source, which leave the image fields empty.\<close>

definition exec_event :: "executionState \<Rightarrow> ExecutionStatus \<Rightarrow> exec_payload \<Rightarrow> time \<Rightarrow> ExecutionStreamEvent" where
  "exec_event ex status payload at =
     \<lparr>eeSandboxID = exSandboxID ex, eeExecutionID = exID ex, eeStatus = status, eePayload = payload,
      eeImageRef = [], eeImageDigest = [], eeOccurredAt = Some at\<rparr>"

definition closeSandboxDoneLocked :: "sandboxState \<Rightarrow> sandboxState" where
  "closeSandboxDoneLocked sb = (if sbDoneClosed sb then sb else sb\<lparr>sbDoneClosed := True\<rparr>)"

definition closeExecutionDoneLocked :: "executionState \<Rightarrow> executionState" where
  "closeExecutionDoneLocked ex = (if exDoneClosed ex then ex else ex\<lparr>exDoneClosed := True\<rparr>)"

definition clearExecutionAttachIOLocked :: "executionState \<Rightarrow> executionState" where
  "clearExecutionAttachIOLocked ex = ex\<lparr>exAttachStdin := False, exAttachResize := False\<rparr>"

section \<open>Outputs\<close>

definition appendExecutionStdoutLocked :: "time \<Rightarrow> ExecutionStatus \<Rightarrow> string \<Rightarrow> executionState \<Rightarrow> executionState" where
  "appendExecutionStdoutLocked now status chunk ex =
     (if chunk = [] then ex
      else recordExecutionEventLocked now (exec_event ex status (PStdout chunk) now)
             (ex\<lparr>exStdout := appendRetainedOutput (exStdout ex) chunk maxRetainedExecutionOutputBytes\<rparr>))"

definition appendExecutionStderrLocked :: "time \<Rightarrow> ExecutionStatus \<Rightarrow> string \<Rightarrow> executionState \<Rightarrow> executionState" where
  "appendExecutionStderrLocked now status chunk ex =
     (if chunk = [] then ex
      else recordExecutionEventLocked now (exec_event ex status (PStderr chunk) now)
             (ex\<lparr>exStderr := appendRetainedOutput (exStderr ex) chunk maxRetainedExecutionOutputBytes\<rparr>))"

definition replaceExecutionStdoutFromBufferedLocked ::
  "time \<Rightarrow> ExecutionStatus \<Rightarrow> string \<Rightarrow> executionState \<Rightarrow> executionState" where
  "replaceExecutionStdoutFromBufferedLocked now status output ex =
     (if output = [] then ex
      else recordExecutionEventLocked now (exec_event ex status (PStdout output) now)
             (ex\<lparr>exStdout := appendRetainedOutput [] output maxRetainedExecutionOutputBytes\<rparr>))"

definition replaceExecutionStderrFromBufferedLocked ::
  "time \<Rightarrow> ExecutionStatus \<Rightarrow> string \<Rightarrow> executionState \<Rightarrow> executionState" where
  "replaceExecutionStderrFromBufferedLocked now status output ex =
     (if output = [] then ex
      else recordExecutionEventLocked now (exec_event ex status (PStderr output) now)
             (ex\<lparr>exStderr := appendRetainedOutput [] output maxRetainedExecutionOutputBytes\<rparr>))"

definition mergeBufferedResultOutputLocked :: "(nat \<Rightarrow> time) \<Rightarrow> RunResult \<Rightarrow> bool \<Rightarrow> executionState \<Rightarrow> executionState" where
  "mergeBufferedResultOutputLocked clk result usedStreaming ex =
     (let (appendStdout, replaceStdout) =
            (if usedStreaming then bufferedResultDelta (exStdout ex) (resStdout result) maxRetainedExecutionOutputBytes
             else (resStdout result, False));
          (appendStderr, replaceStderr) =
            (if usedStreaming then bufferedResultDelta (exStderr ex) (resStderr result) maxRetainedExecutionOutputBytes
             else (resStderr result, False));
          ex = (if replaceStdout then replaceExecutionStdoutFromBufferedLocked (clk 0) RUNNING appendStdout ex
                else appendExecutionStdoutLocked (clk 0) RUNNING appendStdout ex)
      in if replaceStderr then replaceExecutionStderrFromBufferedLocked (clk 1) RUNNING appendStderr ex
         else appendExecutionStderrLocked (clk 1) RUNNING appendStderr ex)"

section \<open>Interactive sessions\<close>

definition session_key :: "interactiveSessionState \<Rightarrow> string" where
  "session_key session = executionKey (isSandboxID session) (isExecutionID session)"

definition pruneExpiredInteractiveSessionsLocked :: "time \<Rightarrow> time \<Rightarrow> Service \<Rightarrow> Service" where
  "pruneExpiredInteractiveSessionsLocked clock now s =
     (let now = (if now = 0 then clock else now) in
      s\<lparr>svcSessions := filter (\<lambda>(i, session). \<not> now > isExpiresAt session) (svcSessions s)\<rparr>)"

definition hasPendingInteractiveSessionLocked :: "string \<Rightarrow> Service \<Rightarrow> bool" where
  "hasPendingInteractiveSessionLocked execKey s =
     list_ex (\<lambda>(i, session). session_key session = execKey) (svcSessions s)"

definition clearInteractiveExecutionStateLocked :: "string \<Rightarrow> Service \<Rightarrow> Service" where
  "clearInteractiveExecutionStateLocked execKey s =
     s\<lparr>svcAttached := del execKey (svcAttached s),
       svcSessions := filter (\<lambda>(i, session). session_key session \<noteq> execKey) (svcSessions s)\<rparr>"

section \<open>Pruning\<close>

text \<open>
  Dropping an entry also closes its \<open>Done\<close> channel and its subscriptions; the entry leaves the map, so
  what remains of that in the state is the deletion. The second loop of each function looks a candidate
  up again before it drops it; nothing has changed it in between, the lock being held throughout.
\<close>

definition dropSandboxLocked :: "string \<Rightarrow> Service \<Rightarrow> Service" where
  "dropSandboxLocked sandboxID s = s\<lparr>svcSandboxes := del sandboxID (svcSandboxes s)\<rparr>"

definition dropExecutionLocked :: "string \<Rightarrow> Service \<Rightarrow> Service" where
  "dropExecutionLocked key s =
     (let s = clearInteractiveExecutionStateLocked key s in s\<lparr>svcExecutions := del key (svcExecutions s)\<rparr>)"

definition hasActiveExecutionLocked :: "string \<Rightarrow> Service \<Rightarrow> bool" where
  "hasActiveExecutionLocked sandboxID s =
     list_ex (\<lambda>(k, ex). exSandboxID ex = sandboxID \<and> \<not> isFinalExecutionStatus (exStatus ex)) (svcExecutions s)"

definition executionTerminalTime :: "executionState \<Rightarrow> time" where
  "executionTerminalTime ex =
     (case exFinishedAt ex of Some t \<Rightarrow> t | None \<Rightarrow> (case exStartedAt ex of Some t \<Rightarrow> t | None \<Rightarrow> 0))"

definition sandboxTerminalTime :: "sandboxState \<Rightarrow> time" where
  "sandboxTerminalTime sb = (if sbUpdatedAt sb \<noteq> 0 then sbUpdatedAt sb else sbCreatedAt sb)"

definition past_retention :: "time \<Rightarrow> time \<Rightarrow> bool" where
  "past_retention now t \<longleftrightarrow> retainedStateMaxAge > 0 \<and> t \<noteq> 0 \<and> now - t > retainedStateMaxAge"

text \<open>
  The order of both \<open>sort.Slice\<close> calls: entries with no time first, then by time, ties by key.
\<close>

definition oldest_first :: "(time \<times> string) list \<Rightarrow> (time \<times> string) list" where
  "oldest_first = sort_key (\<lambda>(t, k). (t \<noteq> 0, t, k))"

definition pruneExecutionsLocked :: "time \<Rightarrow> Service \<Rightarrow> Service" where
  "pruneExecutionsLocked now s =
     (let finals = filter (\<lambda>(k, ex). isFinalExecutionStatus (exStatus ex)) (svcExecutions s);
          old = filter (\<lambda>(k, ex). past_retention now (executionTerminalTime ex)) finals;
          candidates = map (\<lambda>(k, ex). (executionTerminalTime ex, k))
            (filter (\<lambda>(k, ex). \<not> past_retention now (executionTerminalTime ex)) finals);
          s = fold dropExecutionLocked (map fst old) s;
          limit = maxRetainedFinishedExecutions
      in if length candidates \<le> limit then s
         else fold dropExecutionLocked (map snd (take (length candidates - limit) (oldest_first candidates))) s)"

definition pruneSandboxesLocked :: "time \<Rightarrow> Service \<Rightarrow> Service" where
  "pruneSandboxesLocked now s =
     (let stopped = filter (\<lambda>(k, sb). sbStatus sb = SANDBOX_STOPPED \<and> \<not> hasActiveExecutionLocked k s) (svcSandboxes s);
          old = filter (\<lambda>(k, sb). past_retention now (sandboxTerminalTime sb)) stopped;
          candidates = map (\<lambda>(k, sb). (sandboxTerminalTime sb, k))
            (filter (\<lambda>(k, sb). \<not> past_retention now (sandboxTerminalTime sb)) stopped);
          s = fold dropSandboxLocked (map fst old) s;
          limit = maxRetainedStoppedSandboxes
      in if length candidates \<le> limit then s
         else fold dropSandboxLocked (map snd (take (length candidates - limit) (oldest_first candidates))) s)"

definition pruneStateLocked :: "time \<Rightarrow> time \<Rightarrow> Service \<Rightarrow> Service" where
  "pruneStateLocked clock now s =
     (let now = (if now = 0 then clock else now) in pruneSandboxesLocked now (pruneExecutionsLocked now s))"

section \<open>Finalisation\<close>

text \<open>
  \<open>key\<close> is the key under which \<open>ex\<close> is stored; the source finalises only executions it has just
  looked up. The clock readings are those the source takes when the time it is given is zero.
\<close>

definition finalizeExecutionInternalLocked ::
  "(nat \<Rightarrow> time) \<Rightarrow> string \<Rightarrow> executionState \<Rightarrow> ExecutionStatus \<Rightarrow> int \<Rightarrow> string \<Rightarrow> string \<Rightarrow> time \<Rightarrow> bool \<Rightarrow>
   Service \<Rightarrow> Service" where
  "finalizeExecutionInternalLocked clk key ex status exitCode message exitMessage finished prune s =
     (let finished = (if finished = 0 then clk 0 else finished);
          exitMessage = (if exitMessage = [] then message else exitMessage);
          ex = ex\<lparr>exStatus := status, exExitCode := exitCode, exMessage := message,
                  exFinishedAt := Some finished\<rparr>;
          ex = recordExecutionEventLocked finished
                 (exec_event ex status (PExit exitCode status exitMessage) finished) ex;
          ex = closeExecutionDoneLocked ex;
          s = s\<lparr>svcExecutions := put key ex (svcExecutions s)\<rparr>;
          s = clearInteractiveExecutionStateLocked (executionKey (exSandboxID ex) (exID ex)) s
      in if prune then pruneStateLocked (clk 1) finished s else s)"

definition finalizeExecutionLocked ::
  "(nat \<Rightarrow> time) \<Rightarrow> string \<Rightarrow> executionState \<Rightarrow> ExecutionStatus \<Rightarrow> int \<Rightarrow> string \<Rightarrow> string \<Rightarrow> time \<Rightarrow> Service \<Rightarrow> Service" where
  "finalizeExecutionLocked clk key ex status exitCode message exitMessage finished =
     finalizeExecutionInternalLocked clk key ex status exitCode message exitMessage finished True"

definition finalizeExecutionWithoutPruneLocked ::
  "(nat \<Rightarrow> time) \<Rightarrow> string \<Rightarrow> executionState \<Rightarrow> ExecutionStatus \<Rightarrow> int \<Rightarrow> string \<Rightarrow> string \<Rightarrow> time \<Rightarrow> Service \<Rightarrow> Service" where
  "finalizeExecutionWithoutPruneLocked clk key ex status exitCode message exitMessage finished =
     finalizeExecutionInternalLocked clk key ex status exitCode message exitMessage finished False"

end
