(* ===== verification/Service_Ops.thy ===== *)
theory Service_Ops
  imports Service_State
begin

text \<open>
  The handlers of \<open>internal/controlservice/service.go\<close>, one definition for each stretch of code that
  holds the service's lock. A handler that releases the lock to call an adapter is two definitions
  with the result of the call between them. Each takes the readings of the clock in the order the
  source takes them (\<open>clk 0\<close>, \<open>clk 1\<close>, ...) and returns the new service with the answer or the error.
  A nil request is \<open>None\<close>.
\<close>

datatype svc_error =
    MissingRequest
  | MissingPolicyField
  | InvalidPolicy policy_error
  | UnknownBackend string
  | ProvisionFailed string
  | MissingSandboxID
  | MissingExecutionID
  | MissingPath
  | PathNotAbsolute
  | MissingCommand
  | UnsupportedKind ExecutionKind
  | UnknownSandbox string
  | SandboxNotReady string
  | DownloadUnsupported string
  | BusyDownload string
  | BusyExecution string string
  | DownloadFailed string
  | TerminateFailed string
  | UnknownExecution string string
  | NotInteractive string
  | NoLongerActive string
  | TransportNotConfigured
  | AlreadyAttached string
  | AlreadyPending string
  | TokenGeneration string
  | MissingSessionID
  | MissingSessionToken
  | UnknownSession string
  | InvalidSessionToken
  | NotRunning
  | StdinUnsupported
  | ResizeUnsupported
  | AttachFailed string
  | ContextEnded string

section \<open>Sandboxes\<close>

record CreateSandboxRequest =
  csPolicy :: "PbPolicy option"
  csBackend :: string
  csLaunchSeconds :: "int option"

text \<open>
  \<open>CreateSandbox\<close> up to the call of the adapter: the request it provisions with, if the adapter is
  persistent. \<open>now\<close> is \<open>clk 0\<close>, the identifier may read \<open>clk 1\<close>.
\<close>

definition CreateSandbox_prepare ::
  "host_env \<Rightarrow> (string \<Rightarrow> string + string) \<Rightarrow> (nat \<Rightarrow> time) \<Rightarrow> CreateSandboxRequest option \<Rightarrow> Service \<Rightarrow>
   svc_error + (bool \<times> string \<times> ProvisionRequest)" where
  "CreateSandbox_prepare env gen clk req s =
     (case req of None \<Rightarrow> Inl MissingRequest
      | Some req \<Rightarrow>
          if csPolicy req = None then Inl MissingPolicyField
          else
            (case FromProto (csPolicy req) of
               Inl e \<Rightarrow> Inl (InvalidPolicy e)
             | Inr compiled \<Rightarrow>
                 (let backendName = resolveBackendName env (trim_space (csBackend req)) (cfgDefaultBackend (svcConfig s)) in
                  case get (svcBackends s) backendName of
                    None \<Rightarrow> Inl (UnknownBackend backendName)
                  | Some ad \<Rightarrow>
                      (let launchSeconds = (case csLaunchSeconds req of None \<Rightarrow> 0 | Some l \<Rightarrow> l);
                           fc = (mergeBackendConfig backendName launchSeconds (svcConfig s))\<lparr>fcRunDir := []\<rparr>;
                           sandboxID = newSandboxID gen (clk 1)
                       in Inr (adPersistent ad, backendName,
                               \<lparr>prSandboxID = sandboxID, prPolicy = Some compiled, prConfig = fc\<rparr>)))))"

definition new_sandbox :: "string \<Rightarrow> ProvisionRequest \<Rightarrow> time \<Rightarrow> sandboxState" where
  "new_sandbox backendName pr now =
     \<lparr>sbID = prSandboxID pr, sbBackend = backendName, sbPolicy = prPolicy pr, sbFirecracker = prConfig pr,
      sbActiveExecutionID = [], sbDownloadInProgress = False, sbCreatedAt = now, sbUpdatedAt = now,
      sbLastExecutionID = [], sbStatus = SANDBOX_READY, sbEventHistory = [], sbEventSubscribers = [],
      sbNextSubID = 0, sbDoneClosed = False\<rparr>"

text \<open>The whole handler; \<open>provision\<close> is the adapter's \<open>ProvisionSandbox\<close>, \<open>None\<close> for no error.\<close>

definition CreateSandbox ::
  "host_env \<Rightarrow> (string \<Rightarrow> string + string) \<Rightarrow> (ProvisionRequest \<Rightarrow> string option) \<Rightarrow> (nat \<Rightarrow> time) \<Rightarrow>
   CreateSandboxRequest option \<Rightarrow> Service \<Rightarrow> Service \<times> (svc_error + PbSandbox \<times> string)" where
  "CreateSandbox env gen provision clk req s =
     (case CreateSandbox_prepare env gen clk req s of
        Inl e \<Rightarrow> (s, Inl e)
      | Inr (persistent, backendName, pr) \<Rightarrow>
          (case (if persistent then provision pr else None) of
             Some e \<Rightarrow> (s, Inl (ProvisionFailed e))
           | None \<Rightarrow>
               (let now = clk 0;
                    st = recordSandboxEventLocked (clk 2) SANDBOX_READY ''sandbox created and ready''
                           (new_sandbox backendName pr now);
                    s = s\<lparr>svcSandboxes := put (prSandboxID pr) st (svcSandboxes s)\<rparr>;
                    s = pruneStateLocked (clk 3) now s
                in (s, Inr (cloneSandboxLocked st, ''sandbox created and ready'')))))"

definition GetSandbox :: "string option \<Rightarrow> Service \<Rightarrow> svc_error + PbSandbox" where
  "GetSandbox req s =
     (case req of None \<Rightarrow> Inl MissingSandboxID
      | Some sid \<Rightarrow>
          if trim_space sid = [] then Inl MissingSandboxID
          else (case get (svcSandboxes s) (trim_space sid) of
                  None \<Rightarrow> Inl (UnknownSandbox sid)
                | Some st \<Rightarrow> Inr (cloneSandboxLocked st)))"

definition ListSandboxes :: "Service \<Rightarrow> PbSandbox list" where
  "ListSandboxes s = map cloneSandboxLocked (sort_key sbCreatedAt (map snd (svcSandboxes s)))"

record DownloadRequest =
  dlSandboxID :: string
  dlPath :: string
  dlMaxBytes :: int

text \<open>
  \<open>DownloadSandboxFile\<close> up to the adapter's call: it marks the sandbox and returns what the adapter is
  asked for. \<open>DownloadSandboxFile_finish\<close> is the deferred function.
\<close>

definition DownloadSandboxFile_begin ::
  "DownloadRequest option \<Rightarrow> Service \<Rightarrow> Service \<times> (svc_error + string \<times> string \<times> int)" where
  "DownloadSandboxFile_begin req s =
     (case req of None \<Rightarrow> (s, Inl MissingRequest)
      | Some req \<Rightarrow>
          (let sandboxID = trim_space (dlSandboxID req); path = dlPath req;
               maxBytes = (if dlMaxBytes req \<le> 0 then defaultDownloadMaxBytes else dlMaxBytes req) in
           if sandboxID = [] then (s, Inl MissingSandboxID)
           else if path = [] then (s, Inl MissingPath)
           else if \<not> has_prefix path ''/'' then (s, Inl PathNotAbsolute)
           else
             (case get (svcSandboxes s) sandboxID of
                None \<Rightarrow> (s, Inl (UnknownSandbox sandboxID))
              | Some st \<Rightarrow>
                  if sbStatus st \<noteq> SANDBOX_READY then (s, Inl (SandboxNotReady sandboxID))
                  else
                    (case get (svcBackends s) (sbBackend st) of
                       None \<Rightarrow> (s, Inl (UnknownBackend (sbBackend st)))
                     | Some ad \<Rightarrow>
                         if \<not> adFileDownload ad then (s, Inl (DownloadUnsupported (sbBackend st)))
                         else if sbDownloadInProgress st then (s, Inl (BusyDownload sandboxID))
                         else
                           (let activeID = trim_space (sbActiveExecutionID st) in
                            if activeID \<noteq> [] \<and>
                               (case get (svcExecutions s) (executionKey sandboxID activeID) of
                                  None \<Rightarrow> False | Some ex \<Rightarrow> \<not> isFinalExecutionStatus (exStatus ex))
                            then (s, Inl (BusyExecution sandboxID activeID))
                            else (s\<lparr>svcSandboxes := put sandboxID (st\<lparr>sbDownloadInProgress := True\<rparr>) (svcSandboxes s)\<rparr>,
                                  Inr (sandboxID, path, maxBytes)))))))"

definition DownloadSandboxFile_finish :: "string \<Rightarrow> Service \<Rightarrow> Service" where
  "DownloadSandboxFile_finish sandboxID s =
     (case get (svcSandboxes s) sandboxID of
        None \<Rightarrow> s
      | Some current \<Rightarrow> s\<lparr>svcSandboxes := put sandboxID (current\<lparr>sbDownloadInProgress := False\<rparr>) (svcSandboxes s)\<rparr>)"

record DownloadResponse =
  drspSandboxID :: string
  drspPath :: string
  drspData :: string
  drspSizeBytes :: int

text \<open>The answer, from what the adapter returned.\<close>

definition DownloadSandboxFile_answer :: "string \<Rightarrow> string \<Rightarrow> string + string \<Rightarrow> svc_error + DownloadResponse" where
  "DownloadSandboxFile_answer sandboxID path result =
     (case result of
        Inl e \<Rightarrow> Inl (DownloadFailed e)
      | Inr bytes \<Rightarrow> Inr \<lparr>drspSandboxID = sandboxID, drspPath = path, drspData = bytes,
                       drspSizeBytes = to_int64 (int (length bytes))\<rparr>)"

text \<open>
  One turn of the loop of \<open>TerminateSandbox\<close> over the executions, for the one stored under \<open>key\<close>: a
  queued execution is finalised on the spot, of a running one the cancel function is collected.
\<close>

definition terminate_execution ::
  "(nat \<Rightarrow> time) \<Rightarrow> time \<Rightarrow> string \<Rightarrow> string \<Rightarrow> Service \<times> string list \<Rightarrow> Service \<times> string list" where
  "terminate_execution clk terminatedAt sandboxID key acc =
     (let (s, cancels) = acc in
      case get (svcExecutions s) key of
        None \<Rightarrow> acc
      | Some ex \<Rightarrow>
          if exSandboxID ex \<noteq> sandboxID then acc
          else if isFinalExecutionStatus (exStatus ex) then acc
          else
            (let ex = ex\<lparr>exCancelRequested := True, exCancelSignal := 15\<rparr>;
                 ex = recordExecutionEventLocked (clk 0)
                        (exec_event ex (exStatus ex) (PMessage ''execution canceled due to sandbox termination'') (clk 0)) ex
             in if exStatus ex = QUEUED
                then (finalizeExecutionWithoutPruneLocked (\<lambda>i. clk (i + 1)) key ex CANCELED
                        (cancelExitCode (exCancelSignal ex)) (exMessage ex)
                        ''execution canceled before start (sandbox termination)'' terminatedAt s, cancels)
                else (s\<lparr>svcExecutions := put key ex (svcExecutions s)\<rparr>,
                      if exCancel ex then cancels @ [key] else cancels)))"

text \<open>
  The first critical section: the answer is whether the sandbox was stopped already, whether its
  adapter has to terminate it, and the executions whose cancel functions are called next. \<open>tick key\<close>
  are the clock readings for the execution under \<open>key\<close>.
\<close>

definition TerminateSandbox_begin ::
  "(nat \<Rightarrow> time) \<Rightarrow> (string \<Rightarrow> nat \<Rightarrow> time) \<Rightarrow> string option \<Rightarrow> Service \<Rightarrow>
   Service \<times> (svc_error + string \<times> bool \<times> bool \<times> string list)" where
  "TerminateSandbox_begin clk tick req s =
     (case req of None \<Rightarrow> (s, Inl MissingSandboxID)
      | Some raw \<Rightarrow>
          (let sandboxID = trim_space raw in
           if sandboxID = [] then (s, Inl MissingSandboxID)
           else
             (case get (svcSandboxes s) sandboxID of
                None \<Rightarrow> (s, Inl (UnknownSandbox sandboxID))
              | Some st \<Rightarrow>
                  if sbStatus st = SANDBOX_STOPPED then (s, Inr (sandboxID, True, False, []))
                  else
                    (let persistent = (case get (svcBackends s) (sbBackend st) of None \<Rightarrow> False | Some ad \<Rightarrow> adPersistent ad);
                         st = (if sbStatus st \<noteq> SANDBOX_STOPPING
                               then recordSandboxEventLocked (clk 0) SANDBOX_STOPPING ''sandbox termination requested''
                                      (st\<lparr>sbStatus := SANDBOX_STOPPING\<rparr>)
                               else st);
                         s = s\<lparr>svcSandboxes := put sandboxID st (svcSandboxes s)\<rparr>;
                         (s, cancels) = fold (\<lambda>key. terminate_execution (tick key) (clk 1) sandboxID key)
                                          (keys_of (svcExecutions s)) (s, [])
                     in (s, Inr (sandboxID, False, persistent, cancels))))))"

text \<open>
  What follows the cancellations: \<open>adapterError\<close> is the outcome of the adapter's \<open>TerminateSandbox\<close>,
  asked only when \<open>begin\<close> said so.
\<close>

definition TerminateSandbox_finish ::
  "(nat \<Rightarrow> time) \<Rightarrow> string \<Rightarrow> string option \<Rightarrow> Service \<Rightarrow> Service \<times> (svc_error + string \<times> bool \<times> string)" where
  "TerminateSandbox_finish clk sandboxID adapterError s =
     (case adapterError of
        Some e \<Rightarrow> (s, Inl (TerminateFailed e))
      | None \<Rightarrow>
          (let now = clk 0;
               s = (case get (svcSandboxes s) sandboxID of
                      None \<Rightarrow> s
                    | Some st \<Rightarrow>
                        if sbStatus st \<noteq> SANDBOX_STOPPED
                        then s\<lparr>svcSandboxes := put sandboxID
                                (closeSandboxDoneLocked
                                  (recordSandboxEventLocked (clk 1) SANDBOX_STOPPED ''sandbox terminated''
                                    (st\<lparr>sbStatus := SANDBOX_STOPPED\<rparr>))) (svcSandboxes s)\<rparr>
                        else s);
               s = pruneStateLocked (clk 2) now s
           in (s, Inr (sandboxID, True, ''sandbox terminated''))))"

section \<open>Executions\<close>

record CreateExecutionRequest =
  ceSandboxID :: string
  ceCommand :: "string list"
  ceOptions :: "(int \<times> bool) option"
  ceKind :: ExecutionKind

definition new_execution ::
  "string \<Rightarrow> string \<Rightarrow> string \<Rightarrow> string \<Rightarrow> string list \<Rightarrow> int \<Rightarrow> bool \<Rightarrow> ExecutionKind \<Rightarrow> executionState" where
  "new_execution sandboxID executionID imageRef imageDigest command launchSeconds tty kind =
     \<lparr>exID = executionID, exSandboxID = sandboxID, exRunID = [], exImageRef = imageRef,
      exImageDigest = imageDigest, exCommand = command, exLaunchSeconds = launchSeconds, exTTY = tty,
      exKind = kind, exStatus = QUEUED, exExitCode = 0, exStartedAt = None, exFinishedAt = None,
      exMessage = [], exStdout = [], exStderr = [], exLaunchedVM = False, exPlanPath = [],
      exRunDir = [], exCancelRequested = False, exCancelSignal = 0, exCancel = False,
      exAttachStdin = False, exAttachResize = False, exEventHistory = [], exEventSubscribers = [],
      exNextSubID = 0, exDoneClosed = False\<rparr>"

text \<open>
  \<open>CreateExecution\<close>. On success the caller starts \<open>runExecution\<close> for the two identifiers returned.
  A stale active execution is cleared even when the call then fails because a download runs.
\<close>

definition CreateExecution ::
  "(string \<Rightarrow> string + string) \<Rightarrow> (nat \<Rightarrow> time) \<Rightarrow> CreateExecutionRequest option \<Rightarrow> Service \<Rightarrow>
   Service \<times> (svc_error + PbExecution)" where
  "CreateExecution gen clk req s =
     (case req of None \<Rightarrow> (s, Inl MissingRequest)
      | Some req \<Rightarrow>
          (let sandboxID = trim_space (ceSandboxID req); command = normalizeCommand (ceCommand req);
               (launchSeconds, tty) = (case ceOptions req of None \<Rightarrow> (0, False) | Some lt \<Rightarrow> lt) in
           if sandboxID = [] then (s, Inl MissingSandboxID)
           else if command = [] then (s, Inl MissingCommand)
           else
             (case resolveExecutionKind (ceKind req) tty of
                Inl k \<Rightarrow> (s, Inl (UnsupportedKind k))
              | Inr kind \<Rightarrow>
                  (let tty = (kind = KIND_INTERACTIVE \<or> tty); now = clk 0; executionID = newExecutionID gen (clk 1) in
                   case get (svcSandboxes s) sandboxID of
                     None \<Rightarrow> (s, Inl (UnknownSandbox sandboxID))
                   | Some sandbox \<Rightarrow>
                       if sbStatus sandbox \<noteq> SANDBOX_READY then (s, Inl (SandboxNotReady sandboxID))
                       else if get (svcBackends s) (sbBackend sandbox) = None
                       then (s, Inl (UnknownBackend (sbBackend sandbox)))
                       else if trim_space (sbActiveExecutionID sandbox) \<noteq> [] \<and>
                         (case get (svcExecutions s) (executionKey sandboxID (sbActiveExecutionID sandbox)) of
                            None \<Rightarrow> False | Some ex \<Rightarrow> \<not> isFinalExecutionStatus (exStatus ex))
                       then (s, Inl (BusyExecution sandboxID (sbActiveExecutionID sandbox)))
                       else
                         (let sandbox = (if trim_space (sbActiveExecutionID sandbox) \<noteq> []
                                         then sandbox\<lparr>sbActiveExecutionID := []\<rparr> else sandbox);
                              s = s\<lparr>svcSandboxes := put sandboxID sandbox (svcSandboxes s)\<rparr> in
                          if sbDownloadInProgress sandbox then (s, Inl (BusyDownload sandboxID))
                          else
                            (let (imageRef, imageDigest) =
                                   (case sbPolicy sandbox of None \<Rightarrow> ([], []) | Some p \<Rightarrow> (cpImageRef p, cpImageDigest p));
                                 ex = new_execution sandboxID executionID imageRef imageDigest command launchSeconds tty kind;
                                 ex = recordExecutionEventLocked now
                                        (exec_event ex QUEUED (PMessage ''execution queued'') now) ex;
                                 sandbox = sandbox\<lparr>sbLastExecutionID := executionID,
                                   sbActiveExecutionID := executionID, sbUpdatedAt := now\<rparr>;
                                 s = s\<lparr>svcExecutions := put (executionKey sandboxID executionID) ex (svcExecutions s),
                                       svcSandboxes := put sandboxID sandbox (svcSandboxes s)\<rparr>;
                                 s = pruneStateLocked (clk 2) now s
                             in (s, Inr (cloneExecutionLocked ex))))))))"

text \<open>The checks of a request that names a sandbox and an execution.\<close>

definition exec_ids :: "(string \<times> string) option \<Rightarrow> svc_error + string \<times> string" where
  "exec_ids req =
     (case req of None \<Rightarrow> Inl MissingRequest
      | Some (sandboxID, executionID) \<Rightarrow>
          if trim_space sandboxID = [] then Inl MissingSandboxID
          else if trim_space executionID = [] then Inl MissingExecutionID
          else Inr (trim_space sandboxID, trim_space executionID))"

definition GetExecution :: "(string \<times> string) option \<Rightarrow> Service \<Rightarrow> svc_error + PbExecution" where
  "GetExecution req s =
     and_then (exec_ids req) (\<lambda>(sandboxID, executionID).
       case get (svcExecutions s) (executionKey sandboxID executionID) of
         None \<Rightarrow> Inl (UnknownExecution executionID sandboxID)
       | Some ex \<Rightarrow> Inr (cloneExecutionLocked ex))"

record CancelResponse =
  crAccepted :: bool
  crStatus :: ExecutionStatus

text \<open>
  \<open>CancelExecution\<close>; the last component of the answer is whether the cancel function of the running
  execution is called once the lock is released.
\<close>

definition CancelExecution ::
  "(nat \<Rightarrow> time) \<Rightarrow> (string \<times> string) option \<Rightarrow> int \<Rightarrow> Service \<Rightarrow>
   Service \<times> (svc_error + CancelResponse \<times> bool)" where
  "CancelExecution clk req signal s =
     (case exec_ids req of Inl e \<Rightarrow> (s, Inl e)
      | Inr (sandboxID, executionID) \<Rightarrow>
          (let key = executionKey sandboxID executionID; now = clk 0;
               signalNum = (if signal = 0 then 2 else signal) in
           case get (svcExecutions s) key of
             None \<Rightarrow> (s, Inl (UnknownExecution executionID sandboxID))
           | Some ex \<Rightarrow>
               if isFinalExecutionStatus (exStatus ex)
               then (s, Inr (\<lparr>crAccepted = False, crStatus = exStatus ex\<rparr>, False))
               else
                 (let ex = ex\<lparr>exCancelRequested := True, exCancelSignal := signalNum\<rparr>;
                      ex = recordExecutionEventLocked now
                             ((exec_event ex (exStatus ex)
                                (PMessage (''cancel requested (signal='' @ itoa signalNum @ '')'')) now)
                              \<lparr>eeSandboxID := sandboxID, eeExecutionID := executionID\<rparr>) ex in
                  if exStatus ex = QUEUED
                  then (finalizeExecutionLocked (\<lambda>i. clk (i + 1)) key ex CANCELED (cancelExitCode signalNum)
                          (exMessage ex) ''execution canceled before start'' now s,
                        Inr (\<lparr>crAccepted = True, crStatus = CANCELED\<rparr>, False))
                  else (s\<lparr>svcExecutions := put key ex (svcExecutions s)\<rparr>,
                        Inr (\<lparr>crAccepted = True, crStatus = exStatus ex\<rparr>, exCancel ex)))))"

end
