(* ===== verification/Service_Run.thy ===== *)
theory Service_Run
  imports Service_Ops
begin

text \<open>
  The rest of the handlers of \<open>internal/controlservice/service.go\<close>: interactive sessions, attached
  input, event subscriptions, waiting, and \<open>runExecution\<close>, the goroutine that carries an execution
  from its queue to a final status.
\<close>

section \<open>Interactive sessions\<close>

record OpenRequest =
  oiSandboxID :: string
  oiExecutionID :: string
  oiInitialCols :: "32 word"
  oiInitialRows :: "32 word"

record OpenResponse =
  orSessionID :: string
  orSessionToken :: string
  orExpiresAt :: time
  orQuicEndpoint :: string
  orAlpn :: string
  orServerCertPinSha256 :: string

definition OpenInteractiveExecution ::
  "(string \<Rightarrow> string + string) \<Rightarrow> string + 8 word list \<Rightarrow> (nat \<Rightarrow> time) \<Rightarrow> OpenRequest option \<Rightarrow> Service \<Rightarrow>
   Service \<times> (svc_error + OpenResponse)" where
  "OpenInteractiveExecution gen random clk req s =
     (case exec_ids (map_option (\<lambda>r. (oiSandboxID r, oiExecutionID r)) req) of
        Inl e \<Rightarrow> (s, Inl e)
      | Inr (sandboxID, executionID) \<Rightarrow>
          (case newSessionToken random of
             Inl e \<Rightarrow> (s, Inl (TokenGeneration e))
           | Inr token \<Rightarrow>
               (let now = clk 0; sessionID = newInteractiveSessionID gen (clk 1);
                    expiresAt = now + interactiveSessionTokenTTL;
                    execKey = executionKey sandboxID executionID in
                if trim_space (svcEndpoint s) = [] \<or> trim_space (svcALPN s) = [] then (s, Inl TransportNotConfigured)
                else
                  (case get (svcExecutions s) execKey of
                     None \<Rightarrow> (s, Inl (UnknownExecution executionID sandboxID))
                   | Some ex \<Rightarrow>
                       if exKind ex \<noteq> KIND_INTERACTIVE then (s, Inl (NotInteractive executionID))
                       else if isFinalExecutionStatus (exStatus ex) then (s, Inl (NoLongerActive executionID))
                       else
                         (let s = pruneExpiredInteractiveSessionsLocked (clk 2) now s in
                          if get (svcAttached s) execKey \<noteq> None then (s, Inl (AlreadyAttached executionID))
                          else if hasPendingInteractiveSessionLocked execKey s then (s, Inl (AlreadyPending executionID))
                          else
                            (s\<lparr>svcSessions := put sessionID
                                 \<lparr>isSessionID = sessionID, isSandboxID = sandboxID, isExecutionID = executionID,
                                  isToken = token, isExpiresAt = expiresAt,
                                  isInitialCols = oiInitialCols (the req), isInitialRows = oiInitialRows (the req)\<rparr>
                                 (svcSessions s)\<rparr>,
                             Inr \<lparr>orSessionID = sessionID, orSessionToken = token, orExpiresAt = expiresAt,
                                  orQuicEndpoint = svcEndpoint s, orAlpn = svcALPN s,
                                  orServerCertPinSha256 = svcCertPin s\<rparr>))))))"

definition ConfigureInteractiveTransport :: "string \<Rightarrow> string \<Rightarrow> string \<Rightarrow> Service \<Rightarrow> Service" where
  "ConfigureInteractiveTransport ep alpn certPin s =
     s\<lparr>svcEndpoint := trim_space ep, svcALPN := trim_space alpn, svcCertPin := trim_space certPin\<rparr>"

record InteractiveSession =
  insSessionID :: string
  insSandboxID :: string
  insExecutionID :: string
  insInitialCols :: "32 word"
  insInitialRows :: "32 word"

definition ConsumeInteractiveSession ::
  "(nat \<Rightarrow> time) \<Rightarrow> string \<Rightarrow> string \<Rightarrow> Service \<Rightarrow> Service \<times> (svc_error + InteractiveSession)" where
  "ConsumeInteractiveSession clk sessionID token s =
     (let sid = trim_space sessionID; tok = trim_space token; now = clk 0 in
      if sid = [] then (s, Inl MissingSessionID)
      else if tok = [] then (s, Inl MissingSessionToken)
      else
        (let s = pruneExpiredInteractiveSessionsLocked (clk 1) now s in
         case get (svcSessions s) sid of
           None \<Rightarrow> (s, Inl (UnknownSession sid))
         | Some session \<Rightarrow>
             if isToken session \<noteq> tok then (s, Inl InvalidSessionToken)
             else
               (let execKey = session_key session; s' = s\<lparr>svcSessions := del sid (svcSessions s)\<rparr> in
                case get (svcExecutions s) execKey of
                  None \<Rightarrow> (s', Inl (UnknownExecution (isExecutionID session) (isSandboxID session)))
                | Some ex \<Rightarrow>
                    if exKind ex \<noteq> KIND_INTERACTIVE then (s', Inl (NotInteractive (isExecutionID session)))
                    else if isFinalExecutionStatus (exStatus ex) then (s', Inl (NoLongerActive (isExecutionID session)))
                    else if get (svcAttached s) execKey \<noteq> None then (s', Inl (AlreadyAttached (isExecutionID session)))
                    else (s'\<lparr>svcAttached := put execKey () (svcAttached s)\<rparr>,
                          Inr \<lparr>insSessionID = isSessionID session, insSandboxID = isSandboxID session,
                               insExecutionID = isExecutionID session, insInitialCols = isInitialCols session,
                               insInitialRows = isInitialRows session\<rparr>))))"

definition ReleaseInteractiveExecution :: "string \<Rightarrow> string \<Rightarrow> Service \<Rightarrow> Service" where
  "ReleaseInteractiveExecution sandboxID executionID s =
     (if trim_space sandboxID = [] \<or> trim_space executionID = [] then s
      else s\<lparr>svcAttached := del (executionKey (trim_space sandboxID) (trim_space executionID)) (svcAttached s)\<rparr>)"

section \<open>Attached input\<close>

text \<open>
  The polling loops of \<open>WriteExecutionStdin\<close> and \<open>ResizeExecutionTTY\<close>. The list holds, for every turn,
  the service as the loop finds it and the reading of the clock it compares with the deadline;
  \<open>None\<close> is a loop that is still waiting at the end of the list. \<open>call\<close> is the attached function.
\<close>

fun await_attach ::
  "(executionState \<Rightarrow> bool) \<Rightarrow> svc_error \<Rightarrow> string option \<Rightarrow> time \<Rightarrow> string \<Rightarrow> string \<Rightarrow> (Service \<times> time) list \<Rightarrow>
   (svc_error + unit) option" where
  "await_attach attached unsupported call deadline sandboxID executionID [] = None"
| "await_attach attached unsupported call deadline sandboxID executionID ((s, now) # rest) =
     (case get (svcExecutions s) (executionKey sandboxID executionID) of
        None \<Rightarrow> Some (Inl (UnknownExecution executionID sandboxID))
      | Some ex \<Rightarrow>
          if isFinalExecutionStatus (exStatus ex) then Some (Inl NotRunning)
          else if attached ex then Some (case call of None \<Rightarrow> Inr () | Some e \<Rightarrow> Inl (AttachFailed e))
          else if now > deadline then Some (Inl unsupported)
          else await_attach attached unsupported call deadline sandboxID executionID rest)"

definition WriteExecutionStdin ::
  "(string \<Rightarrow> string option) \<Rightarrow> time \<Rightarrow> (Service \<times> time) list \<Rightarrow> string \<Rightarrow> string \<Rightarrow> string \<Rightarrow>
   (svc_error + unit) option" where
  "WriteExecutionStdin writeFn start turns sandboxID executionID bytes =
     (if bytes = [] then Some (Inr ())
      else if trim_space sandboxID = [] then Some (Inl MissingSandboxID)
      else if trim_space executionID = [] then Some (Inl MissingExecutionID)
      else await_attach exAttachStdin StdinUnsupported (writeFn bytes) (start + attachStdinRegistrationWait)
             (trim_space sandboxID) (trim_space executionID) turns)"

definition ResizeExecutionTTY ::
  "(32 word \<Rightarrow> 32 word \<Rightarrow> string option) \<Rightarrow> time \<Rightarrow> (Service \<times> time) list \<Rightarrow> string \<Rightarrow> string \<Rightarrow> 32 word \<Rightarrow> 32 word \<Rightarrow>
   (svc_error + unit) option" where
  "ResizeExecutionTTY resizeFn start turns sandboxID executionID cols rows =
     (if trim_space sandboxID = [] then Some (Inl MissingSandboxID)
      else if trim_space executionID = [] then Some (Inl MissingExecutionID)
      else await_attach exAttachResize ResizeUnsupported (resizeFn cols rows) (start + attachResizeRegistrationWait)
             (trim_space sandboxID) (trim_space executionID) turns)"

text \<open>The flags say which functions of the \<open>AttachIO\<close> are set.\<close>

definition setExecutionAttachIO :: "string \<Rightarrow> bool \<Rightarrow> bool \<Rightarrow> Service \<Rightarrow> Service" where
  "setExecutionAttachIO key writeStdin resizeTTY s =
     (case get (svcExecutions s) key of
        None \<Rightarrow> s
      | Some ex \<Rightarrow>
          if isFinalExecutionStatus (exStatus ex) then s
          else s\<lparr>svcExecutions := put key (ex\<lparr>exAttachStdin := writeStdin, exAttachResize := resizeTTY\<rparr>) (svcExecutions s)\<rparr>)"

section \<open>Subscriptions\<close>

text \<open>
  The answer is the history, the number of the subscription and whether it is live: for a sandbox or
  an execution that is done the channel is closed at once.
\<close>

definition SubscribeSandboxEvents ::
  "string \<Rightarrow> Service \<Rightarrow> Service \<times> (svc_error + SandboxEvent list \<times> int \<times> bool)" where
  "SubscribeSandboxEvents sandboxID s =
     (if trim_space sandboxID = [] then (s, Inl MissingSandboxID)
      else
        (case get (svcSandboxes s) (trim_space sandboxID) of
           None \<Rightarrow> (s, Inl (UnknownSandbox (trim_space sandboxID)))
         | Some sb \<Rightarrow>
             (let subID = sbNextSubID sb; sb' = sb\<lparr>sbNextSubID := subID + 1\<rparr>;
                  sb' = (if sbDoneClosed sb then sb' else sb'\<lparr>sbEventSubscribers := put subID [] (sbEventSubscribers sb)\<rparr>)
              in (s\<lparr>svcSandboxes := put (trim_space sandboxID) sb' (svcSandboxes s)\<rparr>,
                  Inr (sbEventHistory sb, subID, \<not> sbDoneClosed sb)))))"

definition unsubscribeSandbox :: "string \<Rightarrow> int \<Rightarrow> Service \<Rightarrow> Service" where
  "unsubscribeSandbox sandboxID subID s =
     (case get (svcSandboxes s) sandboxID of
        None \<Rightarrow> s
      | Some sb \<Rightarrow> s\<lparr>svcSandboxes := put sandboxID (sb\<lparr>sbEventSubscribers := del subID (sbEventSubscribers sb)\<rparr>) (svcSandboxes s)\<rparr>)"

definition SubscribeExecutionEvents ::
  "string \<Rightarrow> string \<Rightarrow> Service \<Rightarrow> Service \<times> (svc_error + ExecutionStreamEvent list \<times> int \<times> bool)" where
  "SubscribeExecutionEvents sandboxID executionID s =
     (case exec_ids (Some (sandboxID, executionID)) of Inl e \<Rightarrow> (s, Inl e)
      | Inr (sandboxID, executionID) \<Rightarrow>
          (let key = executionKey sandboxID executionID in
           case get (svcExecutions s) key of
             None \<Rightarrow> (s, Inl (UnknownExecution executionID sandboxID))
           | Some ex \<Rightarrow>
               (let subID = exNextSubID ex; ex' = ex\<lparr>exNextSubID := subID + 1\<rparr>;
                    ex' = (if exDoneClosed ex then ex' else ex'\<lparr>exEventSubscribers := put subID [] (exEventSubscribers ex)\<rparr>)
                in (s\<lparr>svcExecutions := put key ex' (svcExecutions s)\<rparr>,
                    Inr (exEventHistory ex, subID, \<not> exDoneClosed ex)))))"

definition unsubscribeExecution :: "string \<Rightarrow> string \<Rightarrow> int \<Rightarrow> Service \<Rightarrow> Service" where
  "unsubscribeExecution sandboxID executionID subID s =
     (let key = executionKey sandboxID executionID in
      case get (svcExecutions s) key of
        None \<Rightarrow> s
      | Some ex \<Rightarrow> s\<lparr>svcExecutions := put key (ex\<lparr>exEventSubscribers := del subID (exEventSubscribers ex)\<rparr>) (svcExecutions s)\<rparr>)"

section \<open>Waiting and snapshots\<close>

definition executionDoneChannel :: "string \<Rightarrow> string \<Rightarrow> Service \<Rightarrow> svc_error + bool" where
  "executionDoneChannel sandboxID executionID s =
     (case get (svcExecutions s) (executionKey sandboxID executionID) of
        None \<Rightarrow> Inl (UnknownExecution executionID sandboxID)
      | Some ex \<Rightarrow> Inr (exDoneClosed ex))"

text \<open>
  \<open>WaitExecution\<close> from the service at the call and what wakes the wait: the context with its error, or
  the \<open>Done\<close> channel with the service found then.
\<close>

definition WaitExecution :: "string \<Rightarrow> string \<Rightarrow> Service \<Rightarrow> string + Service \<Rightarrow> svc_error + PbExecution" where
  "WaitExecution sandboxID executionID s wake =
     and_then (executionDoneChannel sandboxID executionID s) (\<lambda>_.
       case wake of
         Inl e \<Rightarrow> Inl (ContextEnded e)
       | Inr s' \<Rightarrow>
           (case get (svcExecutions s') (executionKey sandboxID executionID) of
              None \<Rightarrow> Inl (UnknownExecution executionID sandboxID)
            | Some ex \<Rightarrow> Inr (cloneExecutionLocked ex)))"

record executionSnapshot =
  esExecution :: PbExecution
  esImageRef :: string
  esImageDigest :: string
  esMessage :: string
  esStdout :: string
  esStderr :: string
  esPlanPath :: string
  esRunDir :: string
  esLaunched :: bool

definition ExecutionSnapshot :: "string \<Rightarrow> string \<Rightarrow> Service \<Rightarrow> svc_error + executionSnapshot" where
  "ExecutionSnapshot sandboxID executionID s =
     (case get (svcExecutions s) (executionKey sandboxID executionID) of
        None \<Rightarrow> Inl (UnknownExecution executionID sandboxID)
      | Some ex \<Rightarrow>
          Inr \<lparr>esExecution = cloneExecutionLocked ex, esImageRef = exImageRef ex, esImageDigest = exImageDigest ex,
               esMessage = exMessage ex, esStdout = exStdout ex, esStderr = exStderr ex,
               esPlanPath = exPlanPath ex, esRunDir = exRunDir ex, esLaunched = exLaunchedVM ex\<rparr>)"

section \<open>Running an execution\<close>

definition run_config :: "host_env \<Rightarrow> FirecrackerConfig \<Rightarrow> executionState \<Rightarrow> FirecrackerConfig" where
  "run_config env fc ex =
     (let fc = (if trim_space (fcRunDir fc) = []
                then (case RunBaseDir env of Inr d \<Rightarrow> fc\<lparr>fcRunDir := path_join [d, exRunID ex]\<rparr> | Inl _ \<Rightarrow> fc)
                else fc)
      in if exLaunchSeconds ex \<noteq> 0 then fc\<lparr>fcLaunchSeconds := exLaunchSeconds ex\<rparr> else fc)"

text \<open>
  The first critical section of \<open>runExecution\<close>: the request for the adapter, with the adapter, or
  \<open>None\<close> when the goroutine ends there.
\<close>

definition runExecution_start ::
  "host_env \<Rightarrow> (string \<Rightarrow> string + string) \<Rightarrow> (nat \<Rightarrow> time) \<Rightarrow> string \<Rightarrow> string \<Rightarrow> Service \<Rightarrow>
   Service \<times> (adapter \<times> RunRequest) option" where
  "runExecution_start env gen clk sandboxID executionID s =
     (let key = executionKey sandboxID executionID; clk' = (\<lambda>i. clk (i + 1)) in
      case get (svcExecutions s) key of
        None \<Rightarrow> (s, None)
      | Some ex \<Rightarrow>
          if isFinalExecutionStatus (exStatus ex) then (s, None)
          else
            (case get (svcSandboxes s) sandboxID of
               None \<Rightarrow> (finalizeExecutionLocked clk' key ex FAILED 1 (exMessage ex) ''sandbox no longer exists'' (clk 0) s, None)
             | Some sb \<Rightarrow>
                 if sbStatus sb \<noteq> SANDBOX_READY then
                   (let (finalStatus, exitCode) =
                          (if sbStatus sb = SANDBOX_STOPPING \<or> sbStatus sb = SANDBOX_STOPPED
                           then (CANCELED, cancelExitCode (exCancelSignal ex)) else (FAILED, 1))
                    in (finalizeExecutionLocked clk' key ex finalStatus exitCode (exMessage ex)
                          (''sandbox '' @ go_quote sandboxID @ '' is not ready'') (clk 0) s, None))
                 else
                   (case get (svcBackends s) (sbBackend sb) of
                      None \<Rightarrow>
                        (finalizeExecutionLocked clk' key ex FAILED 1 (exMessage ex)
                           (''unknown backend '' @ go_quote (sbBackend sb)) (clk 0) s, None)
                    | Some ad \<Rightarrow>
                        (let started = clk 0;
                             ex = ex\<lparr>exCancel := True, exStartedAt := Some started, exStatus := RUNNING,
                                     exRunID := newRunID gen (clk 1)\<rparr>;
                             ex = (case sbPolicy sb of None \<Rightarrow> ex
                                   | Some p \<Rightarrow> ex\<lparr>exImageRef := cpImageRef p, exImageDigest := cpImageDigest p\<rparr>);
                             ex = recordExecutionEventLocked started
                                    ((exec_event ex (exStatus ex) (PMessage ''execution started'') started)
                                     \<lparr>eeSandboxID := sandboxID, eeExecutionID := executionID\<rparr>) ex;
                             runReq = \<lparr>rrSandboxID = sandboxID, rrRunID = exRunID ex, rrCommand = exCommand ex,
                               rrTTY = exTTY ex, rrPolicy = sbPolicy sb, rrConfig = run_config env (sbFirecracker sb) ex\<rparr>
                         in (s\<lparr>svcExecutions := put key ex (svcExecutions s)\<rparr>, Some (ad, runReq))))))"

text \<open>
  \<open>runAdapterExecution\<close>: which method of the adapter is called, and whether its output is streamed. The
  methods are parameters.
\<close>

record adapter_calls =
  acRunInSandbox :: "RunRequest \<Rightarrow> string + RunResult"
  acRunStream :: "RunRequest \<Rightarrow> string + RunResult"
  acRun :: "RunRequest \<Rightarrow> string + RunResult"

definition runAdapterExecution :: "adapter_calls \<Rightarrow> adapter \<Rightarrow> RunRequest \<Rightarrow> (string + RunResult) \<times> bool" where
  "runAdapterExecution calls ad runReq =
     (if adPersistent ad then (acRunInSandbox calls runReq, True)
      else if adStreaming ad then (acRunStream calls runReq, True)
      else (acRun calls runReq, False))"

definition recordExecutionOutputChunk :: "time \<Rightarrow> string \<Rightarrow> bool \<Rightarrow> string \<Rightarrow> Service \<Rightarrow> Service" where
  "recordExecutionOutputChunk now key isStdout chunk s =
     (if chunk = [] then s
      else
        (case get (svcExecutions s) key of
           None \<Rightarrow> s
         | Some ex \<Rightarrow>
             if isFinalExecutionStatus (exStatus ex) then s
             else if isStdout
             then s\<lparr>svcExecutions := put key (appendExecutionStdoutLocked now (exStatus ex) chunk ex) (svcExecutions s)\<rparr>
             else s\<lparr>svcExecutions := put key (appendExecutionStderrLocked now (exStatus ex) chunk ex) (svcExecutions s)\<rparr>))"

datatype stream_call = OnStdout string | OnStderr string | OnAttach bool bool

definition executionOutputStream :: "time \<Rightarrow> string \<Rightarrow> stream_call \<Rightarrow> Service \<Rightarrow> Service" where
  "executionOutputStream now key c =
     (case c of
        OnStdout chunk \<Rightarrow> recordExecutionOutputChunk now key True chunk
      | OnStderr chunk \<Rightarrow> recordExecutionOutputChunk now key False chunk
      | OnAttach w r \<Rightarrow> setExecutionAttachIO key w r)"

datatype ctx_err = ContextCanceled | DeadlineExceeded

definition executionRunErrorStatus :: "executionState \<Rightarrow> ctx_err option \<Rightarrow> ExecutionStatus \<times> int" where
  "executionRunErrorStatus ex ctxErr =
     (if exCancelRequested ex \<or> ctxErr = Some ContextCanceled then (CANCELED, cancelExitCode (exCancelSignal ex))
      else if ctxErr = Some DeadlineExceeded then (TIMED_OUT, 124)
      else (FAILED, 1))"

text \<open>
  The second critical section of \<open>runExecution\<close>, from what the adapter returned and the error of the
  run's context at that point.
\<close>

definition apply_result :: "RunResult \<Rightarrow> executionState \<Rightarrow> executionState" where
  "apply_result result ex =
     (let ex = ex\<lparr>exRunID := resRunID result, exLaunchedVM := resLaunchedVM result,
                  exPlanPath := resPlanPath result, exRunDir := resRunDir result\<rparr>;
          ex = (if trim_space (resImageRef result) \<noteq> [] then ex\<lparr>exImageRef := resImageRef result\<rparr> else ex);
          ex = (if trim_space (resImageDigest result) \<noteq> [] then ex\<lparr>exImageDigest := resImageDigest result\<rparr> else ex)
      in ex\<lparr>exMessage := resMessage result\<rparr>)"

definition result_status :: "executionState \<Rightarrow> RunResult \<Rightarrow> ExecutionStatus \<times> int" where
  "result_status ex result =
     (if exCancelRequested ex then (CANCELED, cancelExitCode (exCancelSignal ex))
      else if resExitCode result = 0 then (SUCCEEDED, to_int32 (resExitCode result))
      else (FAILED, to_int32 (resExitCode result)))"

definition runExecution_finish ::
  "(nat \<Rightarrow> time) \<Rightarrow> string \<Rightarrow> string \<Rightarrow> string + RunResult \<Rightarrow> bool \<Rightarrow> ctx_err option \<Rightarrow> Service \<Rightarrow> Service" where
  "runExecution_finish clk sandboxID executionID outcome usedStreaming ctxErr s =
     (let key = executionKey sandboxID executionID; clk' = (\<lambda>i. clk (i + 5)) in
      case get (svcExecutions s) key of
        None \<Rightarrow> s
      | Some ex \<Rightarrow>
          (let s = (case get (svcSandboxes s) sandboxID of
                      None \<Rightarrow> s
                    | Some sb \<Rightarrow>
                        if sbActiveExecutionID sb = executionID
                        then s\<lparr>svcSandboxes := put sandboxID (sb\<lparr>sbActiveExecutionID := [], sbUpdatedAt := clk 0\<rparr>) (svcSandboxes s)\<rparr>
                        else s);
               ex = clearExecutionAttachIOLocked (ex\<lparr>exCancel := False\<rparr>)
           in case outcome of
                Inl err \<Rightarrow>
                  (let (finalStatus, exitCode) = executionRunErrorStatus ex ctxErr;
                       ex = (if trim_space err \<noteq> []
                             then appendExecutionStderrLocked (clk 1) finalStatus (err @ [CHR 0x0A]) ex else ex)
                   in finalizeExecutionLocked clk' key ex finalStatus exitCode err [] (clk 4) s)
              | Inr result \<Rightarrow>
                  (let ex = apply_result result ex;
                       ex = mergeBufferedResultOutputLocked (\<lambda>i. clk (i + 1)) result usedStreaming ex;
                       ex = (if resExitCode result \<noteq> 0 \<and> trim_space (resMessage result) \<noteq> [] \<and>
                               \<not> contains_str (exStderr ex) (resMessage result)
                             then appendExecutionStderrLocked (clk 3) RUNNING (resMessage result @ [CHR 0x0A]) ex else ex);
                       (finalStatus, finalExitCode) = result_status ex result
                   in finalizeExecutionLocked clk' key ex finalStatus finalExitCode (exMessage ex) [] (clk 4) s)))"

end
