(* ===== verification/Service_Facts.thy ===== *)
theory Service_Facts
  imports Service_Run
begin

text \<open>
  Facts on the helpers of the control service: what retention keeps, how event sources and their
  subscribers relate, and what pruning removes.
\<close>

section \<open>Retention of outputs and histories\<close>

text \<open>The reference definition of both retention functions: the last \<open>n\<close> elements.\<close>

definition keep_last :: "nat \<Rightarrow> 'a list \<Rightarrow> 'a list" where
  "keep_last n xs = drop (length xs - n) xs"

lemma length_keep_last [simp]: "length (keep_last n xs) = min n (length xs)"
  by (simp add: keep_last_def)

lemma keep_last_all [simp]: "length xs \<le> n \<Longrightarrow> keep_last n xs = xs"
  by (simp add: keep_last_def)

lemma keep_last_append: "keep_last n (xs @ ys) = drop (length xs + length ys - n) xs @ keep_last n ys"
  by (simp add: keep_last_def)

lemma keep_last_keep_last_append [simp]: "keep_last n (keep_last n xs @ ys) = keep_last n (xs @ ys)"
  by (cases "length xs \<le> n") (simp_all add: keep_last_def add.commute)

lemma suffix_keep_last: "suffix (keep_last n xs) xs"
  by (simp add: keep_last_def suffix_drop)

lemma keep_last_suffix: "suffix r xs \<Longrightarrow> length r = n \<Longrightarrow> keep_last n xs = r"
  by (auto simp: keep_last_def suffix_def)

lemma appendRetainedOutput_eq: "appendRetainedOutput e c n = keep_last n (e @ c)"
  by (auto simp: appendRetainedOutput_def keep_last_def Let_def)

lemma appendBounded_eq: "appendBounded h x n = keep_last n (h @ [x])"
  by (auto simp: appendBounded_def keep_last_def Let_def)

lemma length_appendBounded [simp]: "length (appendBounded h x n) \<le> n"
  by (simp add: appendBounded_eq)

lemma length_appendRetainedOutput [simp]: "length (appendRetainedOutput e c n) \<le> n"
  by (simp add: appendRetainedOutput_eq)

text \<open>Whatever was streamed, merging a buffered output keeps the end of that output.\<close>

lemma bufferedResultDelta_merge:
  assumes "bufferedResultDelta r b n = (d, rep)" and "b \<noteq> []" and "length r \<le> n"
  shows "(if rep then keep_last n d else keep_last n (r @ d)) = keep_last n b"
proof -
  have "suffix r b \<Longrightarrow> n \<le> length r \<Longrightarrow> keep_last n b = r"
    using keep_last_suffix assms(3) by fastforce
  moreover have "prefix r b \<Longrightarrow> r @ drop (length r) b = b"
    by (auto simp: prefix_def)
  ultimately show ?thesis
    using assms
    by (auto simp: bufferedResultDelta_def has_suffix_iff has_prefix_iff split: if_splits)
qed

lemma bufferedResultDelta_Nil [simp]: "bufferedResultDelta r [] n = ([], False)"
  by (simp add: bufferedResultDelta_def)

lemma bufferedResultDelta_nonempty:
  "bufferedResultDelta r b n = (d, True) \<Longrightarrow> d \<noteq> []"
  by (auto simp: bufferedResultDelta_def split: if_splits)

section \<open>Event sources\<close>

lemma broadcast_get:
  assumes "is_gomap subs"
  shows "get (broadcast cap ev subs) i =
    (case get subs i of None \<Rightarrow> None | Some ch \<Rightarrow> if length ch < cap then Some (ch @ [ev]) else None)"
proof -
  have "get (map (\<lambda>(i, ch). (i, ch @ [ev])) m) i = map_option (\<lambda>ch. ch @ [ev]) (get m i)" for m
    by (induction m) (auto simp: get_def)
  then show ?thesis
    using assms get_filter [of subs "\<lambda>i ch. length ch < cap" i]
    by (simp add: broadcast_def split: option.splits)
qed

lemma broadcast_is_gomap [simp]: "is_gomap subs \<Longrightarrow> is_gomap (broadcast cap ev subs)"
proof -
  have "keys_of (map (\<lambda>(i, ch). (i, ch @ [ev])) m) = keys_of m" for m :: "(int, 'a list) gomap"
    by (auto simp: keys_of_def)
  then have "is_gomap (map (\<lambda>(i, ch). (i, ch @ [ev])) m) = is_gomap m" for m :: "(int, 'a list) gomap"
    unfolding is_gomap_def by simp
  then show "is_gomap subs \<Longrightarrow> ?thesis"
    unfolding broadcast_def by simp
qed

text \<open>
  A component that records events: it keeps a bounded history and forwards each event to its
  subscribers. Both sandboxes and executions are event sources.
\<close>

locale event_source =
  fixes record_event :: "'e \<Rightarrow> 'x \<Rightarrow> 'x"
    and stamp :: "'x \<Rightarrow> 'e \<Rightarrow> 'e"
    and history :: "'x \<Rightarrow> 'e list"
    and subs :: "'x \<Rightarrow> (int, 'e list) gomap"
    and limit :: nat
    and cap :: nat
  assumes history_record: "history (record_event e x) = appendBounded (history x) (stamp x e) limit"
    and subs_record: "subs (record_event e x) = broadcast cap (stamp x e) (subs x)"
    and stamp_record: "stamp (record_event e x) e' = stamp x e'"
begin

lemma stamp_fold: "stamp (fold record_event es x) e = stamp x e"
  by (induction es arbitrary: x) (simp_all add: stamp_record)

text \<open>A subscriber misses no event: its buffer grows by exactly the events recorded, or it is closed.\<close>

lemma subscriber_complete:
  assumes "is_gomap (subs x)" and "get (subs x) i = Some ch"
    and "get (subs (fold record_event es x)) i = Some ch'"
  shows "ch' = ch @ map (stamp x) es"
  using assms
proof (induction es arbitrary: x ch)
  case (Cons e es)
  have g: "get (subs (record_event e x)) i = (if length ch < cap then Some (ch @ [stamp x e]) else None)"
    using Cons.prems by (simp add: subs_record broadcast_get)
  have no: "get (subs (fold record_event es y)) i = None"
    if "get (subs y) i = None" "is_gomap (subs y)" for y es
    using that by (induction es arbitrary: y) (simp_all add: subs_record broadcast_get)
  have gm: "is_gomap (subs (record_event e x))" using Cons.prems by (simp add: subs_record)
  show ?case
  proof (cases "length ch < cap")
    case True
    with Cons.IH [OF gm, of "ch @ [stamp x e]"] Cons.prems g show ?thesis
      by (simp add: stamp_record)
  next
    case False
    with no [OF _ gm] g Cons.prems show ?thesis by simp
  qed
qed simp

lemma subscriber_kept:
  "is_gomap (subs x) \<Longrightarrow> get (subs x) i = Some ch \<Longrightarrow> length ch + length es \<le> cap \<Longrightarrow>
   get (subs (fold record_event es x)) i = Some (ch @ map (stamp x) es)"
proof (induction es arbitrary: x ch)
  case (Cons e es)
  have "get (subs (record_event e x)) i = Some (ch @ [stamp x e])"
    using Cons.prems by (simp add: subs_record broadcast_get)
  with Cons.IH [of "record_event e x" "ch @ [stamp x e]"] Cons.prems show ?case
    by (simp add: subs_record stamp_record)
qed simp

lemma history_fold: "length (history x) \<le> limit \<Longrightarrow>
  history (fold record_event es x) = keep_last limit (history x @ map (stamp x) es)"
proof (induction es arbitrary: x)
  case (Cons e es)
  have "length (history (record_event e x)) \<le> limit" by (simp add: history_record)
  from Cons.IH [OF this] show ?case
    by (simp add: history_record stamp_record appendBounded_eq)
qed simp

end

definition stamp_execution :: "time \<Rightarrow> executionState \<Rightarrow> ExecutionStreamEvent \<Rightarrow> ExecutionStreamEvent" where
  "stamp_execution now ex event =
     event\<lparr>eeImageRef := (if trim_space (eeImageRef event) = [] then exImageRef ex else eeImageRef event),
           eeImageDigest := (if trim_space (eeImageDigest event) = [] then exImageDigest ex else eeImageDigest event),
           eeOccurredAt := Some (case eeOccurredAt event of None \<Rightarrow> now | Some t \<Rightarrow> t)\<rparr>"

lemma recordExecutionEventLocked_eq:
  "recordExecutionEventLocked now event ex =
     ex\<lparr>exEventHistory := appendBounded (exEventHistory ex) (stamp_execution now ex event) maxRetainedExecutionEvents,
        exEventSubscribers := broadcast executionChanCap (stamp_execution now ex event) (exEventSubscribers ex)\<rparr>"
proof -
  have "stamp_execution now ex event =
    (let event = (if trim_space (eeImageRef event) = [] then event\<lparr>eeImageRef := exImageRef ex\<rparr> else event);
         event = (if trim_space (eeImageDigest event) = [] then event\<lparr>eeImageDigest := exImageDigest ex\<rparr> else event)
     in if eeOccurredAt event = None then event\<lparr>eeOccurredAt := Some now\<rparr> else event)"
    by (cases event) (auto simp: stamp_execution_def Let_def)
  then show ?thesis unfolding recordExecutionEventLocked_def Let_def by (simp only:)
qed

interpretation exev: event_source "recordExecutionEventLocked now" "stamp_execution now" exEventHistory
  exEventSubscribers maxRetainedExecutionEvents executionChanCap for now
  by unfold_locales (simp_all add: recordExecutionEventLocked_eq stamp_execution_def)

text \<open>A sandbox event is determined by the sandbox, the status and the message.\<close>

definition record_sandbox :: "SandboxEvent \<Rightarrow> sandboxState \<Rightarrow> sandboxState" where
  "record_sandbox e sb = recordSandboxEventLocked (seOccurredAt e) (seStatus e) (seMessage e) sb"

interpretation sbev: event_source record_sandbox "\<lambda>sb e. e\<lparr>seSandboxID := sbID sb\<rparr>" sbEventHistory
  sbEventSubscribers maxRetainedSandboxEvents sandboxChanCap
proof unfold_locales
  fix e :: SandboxEvent and x :: sandboxState
  have eq: "e\<lparr>seSandboxID := sbID x\<rparr> =
      \<lparr>seSandboxID = sbID x, seStatus = seStatus e, seMessage = seMessage e, seOccurredAt = seOccurredAt e\<rparr>"
    by simp
  show "sbEventHistory (record_sandbox e x) =
      appendBounded (sbEventHistory x) (e\<lparr>seSandboxID := sbID x\<rparr>) maxRetainedSandboxEvents"
    and "sbEventSubscribers (record_sandbox e x) =
      broadcast sandboxChanCap (e\<lparr>seSandboxID := sbID x\<rparr>) (sbEventSubscribers x)"
    unfolding eq by (simp_all add: record_sandbox_def recordSandboxEventLocked_def Let_def)
qed (simp add: record_sandbox_def recordSandboxEventLocked_def Let_def)

section \<open>Pruning\<close>

text \<open>The keys either pruning function removes, from the entries it may remove.\<close>

definition pruned_keys :: "time \<Rightarrow> nat \<Rightarrow> ('v \<Rightarrow> time) \<Rightarrow> (string, 'v) gomap \<Rightarrow> string list" where
  "pruned_keys now limit terminal finals =
     map fst (filter (\<lambda>(k, x). past_retention now (terminal x)) finals) @
     (let candidates = map (\<lambda>(k, x). (terminal x, k)) (filter (\<lambda>(k, x). \<not> past_retention now (terminal x)) finals)
      in map snd (take (length candidates - limit) (oldest_first candidates)))"

definition final_executions :: "Service \<Rightarrow> (string, executionState) gomap" where
  "final_executions s = filter (\<lambda>(k, ex). isFinalExecutionStatus (exStatus ex)) (svcExecutions s)"

definition removable_sandboxes :: "Service \<Rightarrow> (string, sandboxState) gomap" where
  "removable_sandboxes s =
     filter (\<lambda>(k, sb). sbStatus sb = SANDBOX_STOPPED \<and> \<not> hasActiveExecutionLocked k s) (svcSandboxes s)"

lemma fold_prune:
  "(if length c \<le> l then fold f a s else fold f (map snd (take (length c - l) (g c))) (fold f a s)) =
   fold f (a @ map snd (take (length c - l) (g c))) s"
  by simp

lemma pruneExecutionsLocked_eq:
  "pruneExecutionsLocked now s =
     fold dropExecutionLocked
       (pruned_keys now maxRetainedFinishedExecutions executionTerminalTime (final_executions s)) s"
  unfolding pruneExecutionsLocked_def pruned_keys_def final_executions_def Let_def
  by (rule fold_prune)

lemma pruneSandboxesLocked_eq:
  "pruneSandboxesLocked now s =
     fold dropSandboxLocked
       (pruned_keys now maxRetainedStoppedSandboxes sandboxTerminalTime (removable_sandboxes s)) s"
  unfolding pruneSandboxesLocked_def pruned_keys_def removable_sandboxes_def Let_def
  by (rule fold_prune)

lemma set_oldest_first [simp]: "set (oldest_first cs) = set cs"
  by (simp add: oldest_first_def)

lemma length_oldest_first [simp]: "length (oldest_first cs) = length cs"
  by (simp add: oldest_first_def)

lemma oldest_first_split:
  assumes "a \<in> set (take m (oldest_first cs))" and "b \<in> set (drop m (oldest_first cs))"
  shows "(\<lambda>(t, k). (t \<noteq> 0, t, k)) a \<le> (\<lambda>(t, k). (t \<noteq> 0, t, k)) b"
proof -
  have "sorted (map (\<lambda>(t, k). (t \<noteq> 0, t, k)) (take m (oldest_first cs) @ drop m (oldest_first cs)))"
    by (simp add: oldest_first_def del: map_append)
  then have "\<forall>x \<in> set (map (\<lambda>(t, k). (t \<noteq> 0, t, k)) (take m (oldest_first cs))).
      \<forall>y \<in> set (map (\<lambda>(t, k). (t \<noteq> 0, t, k)) (drop m (oldest_first cs))). x \<le> y"
    unfolding map_append sorted_append by (elim conjE)
  then have "\<forall>x \<in> set (take m (oldest_first cs)). \<forall>y \<in> set (drop m (oldest_first cs)).
      (\<lambda>(t, k). (t \<noteq> 0, t, k)) x \<le> (\<lambda>(t, k). (t \<noteq> 0, t, k)) y"
    by (simp only: set_map ball_simps)
  from bspec [OF bspec [OF this assms(1)] assms(2)] show ?thesis .
qed

lemma distinct_oldest_first: "distinct (map snd cs) \<Longrightarrow> distinct (map snd (oldest_first cs))"
proof -
  have "mset (map snd (oldest_first cs)) = mset (map snd cs)"
    unfolding oldest_first_def by (simp only: mset_map mset_sort)
  then show "distinct (map snd cs) \<Longrightarrow> ?thesis" using mset_eq_imp_distinct_iff by blast
qed

lemma pruned_keys_subset: "set (pruned_keys now limit terminal finals) \<subseteq> set (keys_of finals)"
  by (auto simp: pruned_keys_def Let_def keys_of_def dest!: in_set_takeD) force+

lemma card_minus_take: "distinct xs \<Longrightarrow> card (set xs - set (take m xs)) = length xs - m"
  using set_take_subset [of m xs] by (simp add: card_Diff_subset distinct_card min_def)

text \<open>
  Pruning keeps at most \<open>limit\<close> of the entries it may remove, and what it removes is past the retention
  age or older than everything it keeps.
\<close>

lemma pruned_keys_bound:
  assumes "is_gomap finals"
  shows "length (filter (\<lambda>(k, x). k \<notin> set (pruned_keys now limit terminal finals)) finals) \<le> limit"
proof -
  let ?old = "\<lambda>(k, x). past_retention now (terminal x)"
  let ?cs = "map (\<lambda>(k, x). (terminal x, k)) (filter (\<lambda>(k, x). \<not> past_retention now (terminal x)) finals)"
  let ?L = "map snd (oldest_first ?cs)"
  let ?m = "length ?cs - limit"
  let ?kept = "filter (\<lambda>(k, x). k \<notin> set (pruned_keys now limit terminal finals)) finals"
  have keys: "map snd ?cs = map fst (filter (\<lambda>(k, x). \<not> past_retention now (terminal x)) finals)"
    by (simp add: comp_def case_prod_beta)
  have dist: "distinct ?L"
    using assms distinct_map_filter by (intro distinct_oldest_first) (auto simp: keys is_gomap_def keys_of_def simp del: map_map)
  have "set (map fst ?kept) \<subseteq> set ?L - set (take ?m ?L)"
  proof
    fix k assume "k \<in> set (map fst ?kept)"
    then obtain x where x: "(k, x) \<in> set finals" "k \<notin> set (pruned_keys now limit terminal finals)" by auto
    then have "\<not> past_retention now (terminal x)" by (force simp: pruned_keys_def)
    with x have "(terminal x, k) \<in> set ?cs" by force
    then have "k \<in> set ?L" by force
    moreover have "k \<notin> set (take ?m ?L)" using x(2) by (auto simp: pruned_keys_def Let_def take_map)
    ultimately show "k \<in> set ?L - set (take ?m ?L)" by blast
  qed
  then have "card (set (map fst ?kept)) \<le> card (set ?L - set (take ?m ?L))"
    by (intro card_mono) auto
  also have "\<dots> = length ?L - ?m"
    using dist by (rule card_minus_take)
  also have "\<dots> \<le> limit" by simp
  also have "card (set (map fst ?kept)) = length ?kept"
    using assms by (metis distinct_card distinct_map_filter is_gomap_def keys_of_def length_map)
  finally show ?thesis .
qed

lemma pruned_keys_oldest:
  assumes "is_gomap finals" and "k \<in> set (pruned_keys now limit terminal finals)"
    and "(k, x) \<in> set finals" and "(k', x') \<in> set finals" and "k' \<notin> set (pruned_keys now limit terminal finals)"
    and "\<not> past_retention now (terminal x)"
  shows "(terminal x \<noteq> 0, terminal x, k) \<le> (terminal x' \<noteq> 0, terminal x', k')"
proof -
  let ?cs = "map (\<lambda>(k, x). (terminal x, k)) (filter (\<lambda>(k, x). \<not> past_retention now (terminal x)) finals)"
  let ?m = "length ?cs - limit"
  have uniq: "y = x" if "(k, y) \<in> set finals" for y
    using that assms(1,3) by (metis in_get_Some option.inject)
  have a: "(terminal x, k) \<in> set (take ?m (oldest_first ?cs))"
  proof -
    from assms(2,6) uniq obtain t where "(t, k) \<in> set (take ?m (oldest_first ?cs))"
      by (auto simp: pruned_keys_def Let_def)
    moreover from in_set_takeD [OF this] uniq have "t = terminal x" by auto
    ultimately show ?thesis by simp
  qed
  have "\<not> past_retention now (terminal x')" using assms(4,5) by (force simp: pruned_keys_def)
  with assms(4) have "(terminal x', k') \<in> set ?cs" by force
  then have "(terminal x', k') \<in> set (take ?m (oldest_first ?cs) @ drop ?m (oldest_first ?cs))" by simp
  moreover have "(terminal x', k') \<notin> set (take ?m (oldest_first ?cs))"
    using assms(5) by (force simp: pruned_keys_def Let_def)
  ultimately have "(terminal x', k') \<in> set (drop ?m (oldest_first ?cs))" by (simp only: set_append) blast
  from oldest_first_split [OF a this] show ?thesis by simp
qed

section \<open>What pruning does to the service\<close>

lemma fold_dropSandbox [simp]:
  "svcExecutions (fold dropSandboxLocked ks s) = svcExecutions s"
  "svcSessions (fold dropSandboxLocked ks s) = svcSessions s"
  "svcAttached (fold dropSandboxLocked ks s) = svcAttached s"
  "svcBackends (fold dropSandboxLocked ks s) = svcBackends s"
  "svcConfig (fold dropSandboxLocked ks s) = svcConfig s"
  "svcEndpoint (fold dropSandboxLocked ks s) = svcEndpoint s"
  "svcALPN (fold dropSandboxLocked ks s) = svcALPN s"
  by (induction ks arbitrary: s) (simp_all add: dropSandboxLocked_def)

lemma fold_dropSandbox_get:
  "get (svcSandboxes (fold dropSandboxLocked ks s)) k = (if k \<in> set ks then None else get (svcSandboxes s) k)"
  by (induction ks arbitrary: s) (simp_all add: dropSandboxLocked_def)

lemma fold_dropSandbox_gomap: "is_gomap (svcSandboxes s) \<Longrightarrow> is_gomap (svcSandboxes (fold dropSandboxLocked ks s))"
  by (induction ks arbitrary: s) (simp_all add: dropSandboxLocked_def)

lemma fold_dropExecution [simp]:
  "svcSandboxes (fold dropExecutionLocked ks s) = svcSandboxes s"
  "svcBackends (fold dropExecutionLocked ks s) = svcBackends s"
  "svcConfig (fold dropExecutionLocked ks s) = svcConfig s"
  "svcEndpoint (fold dropExecutionLocked ks s) = svcEndpoint s"
  "svcALPN (fold dropExecutionLocked ks s) = svcALPN s"
  by (induction ks arbitrary: s)
    (simp_all add: dropExecutionLocked_def clearInteractiveExecutionStateLocked_def Let_def)

lemma fold_dropExecution_get:
  "get (svcExecutions (fold dropExecutionLocked ks s)) k = (if k \<in> set ks then None else get (svcExecutions s) k)"
  by (induction ks arbitrary: s)
    (simp_all add: dropExecutionLocked_def clearInteractiveExecutionStateLocked_def Let_def)

lemma fold_dropExecution_attached:
  "get (svcAttached (fold dropExecutionLocked ks s)) k = (if k \<in> set ks then None else get (svcAttached s) k)"
  by (induction ks arbitrary: s)
    (simp_all add: dropExecutionLocked_def clearInteractiveExecutionStateLocked_def Let_def)

lemma fold_dropExecution_sessions:
  "svcSessions (fold dropExecutionLocked ks s) = filter (\<lambda>(i, se). session_key se \<notin> set ks) (svcSessions s)"
  by (induction ks arbitrary: s)
    (simp_all add: dropExecutionLocked_def clearInteractiveExecutionStateLocked_def Let_def case_prod_unfold conj_commute)

lemma fold_dropExecution_gomap:
  "is_gomap (svcExecutions s) \<Longrightarrow> is_gomap (svcExecutions (fold dropExecutionLocked ks s))"
  "is_gomap (svcAttached s) \<Longrightarrow> is_gomap (svcAttached (fold dropExecutionLocked ks s))"
  by (induction ks arbitrary: s)
    (simp_all add: dropExecutionLocked_def clearInteractiveExecutionStateLocked_def Let_def)

lemma final_executions_get:
  "is_gomap (svcExecutions s) \<Longrightarrow> get (final_executions s) k = Some ex \<longleftrightarrow>
   get (svcExecutions s) k = Some ex \<and> isFinalExecutionStatus (exStatus ex)"
  using get_filter [of "svcExecutions s" "\<lambda>k ex. isFinalExecutionStatus (exStatus ex)" k]
  by (auto simp: final_executions_def split: option.splits if_splits)

lemma removable_sandboxes_get:
  "is_gomap (svcSandboxes s) \<Longrightarrow> get (removable_sandboxes s) k = Some sb \<longleftrightarrow>
   get (svcSandboxes s) k = Some sb \<and> sbStatus sb = SANDBOX_STOPPED \<and> \<not> hasActiveExecutionLocked k s"
  using get_filter [of "svcSandboxes s" "\<lambda>k sb. sbStatus sb = SANDBOX_STOPPED \<and> \<not> hasActiveExecutionLocked k s" k]
  by (auto simp: removable_sandboxes_def split: option.splits if_splits)

lemma hasActiveExecutionLocked_iff:
  "is_gomap (svcExecutions s) \<Longrightarrow> hasActiveExecutionLocked sid s \<longleftrightarrow>
   (\<exists>k ex. get (svcExecutions s) k = Some ex \<and> exSandboxID ex = sid \<and> \<not> isFinalExecutionStatus (exStatus ex))"
  by (force simp: hasActiveExecutionLocked_def list_ex_iff dest: get_Some_in in_get_Some)

text \<open>Pruning, for a client: it drops some final executions and some stopped sandboxes without active ones.\<close>

lemma pruneStateLocked_drops:
  assumes "is_gomap (svcExecutions s)" and "is_gomap (svcSandboxes s)"
  obtains es bs where "pruneStateLocked c now s = fold dropSandboxLocked bs (fold dropExecutionLocked es s)"
    and "\<And>k. k \<in> set es \<Longrightarrow> \<exists>ex. get (svcExecutions s) k = Some ex \<and> isFinalExecutionStatus (exStatus ex)"
    and "\<And>k. k \<in> set bs \<Longrightarrow> (\<exists>sb. get (svcSandboxes s) k = Some sb \<and> sbStatus sb = SANDBOX_STOPPED) \<and>
      (\<forall>key ex. get (svcExecutions s) key = Some ex \<and> exSandboxID ex = k \<longrightarrow> isFinalExecutionStatus (exStatus ex))"
proof -
  define now' where "now' = (if now = 0 then c else now)"
  define es where "es = pruned_keys now' maxRetainedFinishedExecutions executionTerminalTime (final_executions s)"
  define s1 where "s1 = fold dropExecutionLocked es s"
  define bs where "bs = pruned_keys now' maxRetainedStoppedSandboxes sandboxTerminalTime (removable_sandboxes s1)"
  have es: "\<exists>ex. get (svcExecutions s) k = Some ex \<and> isFinalExecutionStatus (exStatus ex)" if "k \<in> set es" for k
  proof -
    have "k \<in> set (keys_of (final_executions s))"
      using that pruned_keys_subset unfolding es_def by blast
    then obtain ex where "get (final_executions s) k = Some ex" unfolding set_keys_of by blast
    then show ?thesis using final_executions_get [OF assms(1)] by blast
  qed
  have bs: "(\<exists>sb. get (svcSandboxes s) k = Some sb \<and> sbStatus sb = SANDBOX_STOPPED) \<and>
      (\<forall>key ex. get (svcExecutions s) key = Some ex \<and> exSandboxID ex = k \<longrightarrow> isFinalExecutionStatus (exStatus ex))"
    if "k \<in> set bs" for k
  proof -
    have "k \<in> set (keys_of (removable_sandboxes s1))"
      using that pruned_keys_subset unfolding bs_def by blast
    then obtain sb where "get (removable_sandboxes s1) k = Some sb" unfolding set_keys_of by blast
    then have sb: "get (svcSandboxes s) k = Some sb" "sbStatus sb = SANDBOX_STOPPED" "\<not> hasActiveExecutionLocked k s1"
      using removable_sandboxes_get [of s1 k sb] assms(2) by (auto simp: s1_def)
    have "is_gomap (svcExecutions s1)" unfolding s1_def by (rule fold_dropExecution_gomap) (rule assms(1))
    with sb(3) have no: "get (svcExecutions s1) key = Some ex \<Longrightarrow> exSandboxID ex = k \<Longrightarrow> isFinalExecutionStatus (exStatus ex)"
      for key ex by (auto simp: hasActiveExecutionLocked_iff)
    have "isFinalExecutionStatus (exStatus ex)" if "get (svcExecutions s) key = Some ex" "exSandboxID ex = k" for key ex
      using no [of key ex] es [of key] that by (cases "key \<in> set es") (auto simp: s1_def fold_dropExecution_get)
    with sb show ?thesis by blast
  qed
  have "pruneStateLocked c now s = fold dropSandboxLocked bs (fold dropExecutionLocked es s)"
    unfolding pruneStateLocked_def Let_def pruneSandboxesLocked_eq pruneExecutionsLocked_eq bs_def s1_def es_def now'_def ..
  from that [OF this es bs] show thesis by blast
qed

end
