(* ===== verification/Service_Inv.thy ===== *)
theory Service_Inv
  imports Service_Facts
begin

text \<open>
  The invariant of the control service and that every handler keeps it. It speaks of the four maps
  only. \<open>id_ok\<close> is what the service relies on for the identifiers it generates: not empty, no white
  space at the ends and no slash, the separator of \<open>executionKey\<close>.
\<close>

section \<open>The invariant\<close>

definition id_ok :: "string \<Rightarrow> bool" where
  "id_ok i \<longleftrightarrow> i \<noteq> [] \<and> trimmed i \<and> CHR ''/'' \<notin> set i"

definition subs_ok :: "nat \<Rightarrow> int \<Rightarrow> (int, 'e list) gomap \<Rightarrow> bool" where
  "subs_ok cap n subs \<longleftrightarrow> is_gomap subs \<and> (\<forall>i ch. get subs i = Some ch \<longrightarrow> length ch \<le> cap \<and> i < n)"

abbreviation final :: "executionState \<Rightarrow> bool" where
  "final ex \<equiv> isFinalExecutionStatus (exStatus ex)"

text \<open>An execution on its own: identifiers, status and flags, outcome, bounds.\<close>

definition exec_ids_ok :: "executionState \<Rightarrow> bool" where
  "exec_ids_ok ex \<longleftrightarrow> id_ok (exID ex) \<and> id_ok (exSandboxID ex)"

definition exec_flags_ok :: "executionState \<Rightarrow> bool" where
  "exec_flags_ok ex \<longleftrightarrow>
     exStatus ex \<in> {QUEUED, RUNNING, SUCCEEDED, FAILED, CANCELED} \<and>
     exDoneClosed ex = final ex \<and> (exFinishedAt ex \<noteq> None) = final ex \<and>
     exCancel ex = (exStatus ex = RUNNING) \<and>
     (exAttachStdin ex \<or> exAttachResize ex \<longrightarrow> exStatus ex = RUNNING)"

definition exec_kind_ok :: "executionState \<Rightarrow> bool" where
  "exec_kind_ok ex \<longleftrightarrow> exKind ex = KIND_BATCH \<or> exKind ex = KIND_INTERACTIVE \<and> exTTY ex"

definition exec_outcome_ok :: "executionState \<Rightarrow> bool" where
  "exec_outcome_ok ex \<longleftrightarrow>
     (final ex \<longrightarrow> (exStatus ex = CANCELED) = exCancelRequested ex) \<and>
     (exStatus ex = CANCELED \<longrightarrow> exExitCode ex = cancelExitCode (exCancelSignal ex)) \<and>
     (exStatus ex = SUCCEEDED \<longrightarrow> exExitCode ex = 0)"

definition exec_bounds_ok :: "executionState \<Rightarrow> bool" where
  "exec_bounds_ok ex \<longleftrightarrow>
     length (exEventHistory ex) \<le> maxRetainedExecutionEvents \<and>
     length (exStdout ex) \<le> maxRetainedExecutionOutputBytes \<and>
     length (exStderr ex) \<le> maxRetainedExecutionOutputBytes \<and>
     subs_ok executionChanCap (exNextSubID ex) (exEventSubscribers ex)"

definition exec_ok :: "executionState \<Rightarrow> bool" where
  "exec_ok ex \<longleftrightarrow> exec_ids_ok ex \<and> exec_flags_ok ex \<and> exec_kind_ok ex \<and> exec_outcome_ok ex \<and> exec_bounds_ok ex"

lemmas exec_ok_defs = exec_ids_ok_def exec_flags_ok_def exec_kind_ok_def exec_outcome_ok_def exec_bounds_ok_def

text \<open>A sandbox on its own.\<close>

definition sandbox_ok :: "sandboxState \<Rightarrow> bool" where
  "sandbox_ok sb \<longleftrightarrow>
     id_ok (sbID sb) \<and> sbStatus sb \<in> {SANDBOX_READY, SANDBOX_STOPPING, SANDBOX_STOPPED} \<and>
     sbDoneClosed sb = (sbStatus sb = SANDBOX_STOPPED) \<and>
     (\<exists>p. sbPolicy sb = Some p \<and> wf_policy p) \<and>
     length (sbEventHistory sb) \<le> maxRetainedSandboxEvents \<and>
     subs_ok sandboxChanCap (sbNextSubID sb) (sbEventSubscribers sb)"

text \<open>
  An execution that is not final is the active execution of its sandbox, which is not serving a
  download and, while the execution is queued, is ready.
\<close>

definition active_in :: "executionState \<Rightarrow> (string, sandboxState) gomap \<Rightarrow> bool" where
  "active_in ex B \<longleftrightarrow>
     (case get B (exSandboxID ex) of
        None \<Rightarrow> False
      | Some sb \<Rightarrow> sbActiveExecutionID sb = exID ex \<and> \<not> sbDownloadInProgress sb \<and>
          (exStatus ex = QUEUED \<longrightarrow> sbStatus sb = SANDBOX_READY))"

definition live_interactive :: "(string, executionState) gomap \<Rightarrow> string \<Rightarrow> bool" where
  "live_interactive E k \<longleftrightarrow>
     (case get E k of None \<Rightarrow> False | Some ex \<Rightarrow> exKind ex = KIND_INTERACTIVE \<and> \<not> final ex)"

definition sandboxes_inv :: "(string, sandboxState) gomap \<Rightarrow> bool" where
  "sandboxes_inv B \<longleftrightarrow> is_gomap B \<and> (\<forall>k sb. get B k = Some sb \<longrightarrow> sbID sb = k \<and> sandbox_ok sb)"

definition executions_inv :: "(string, sandboxState) gomap \<Rightarrow> (string, executionState) gomap \<Rightarrow> bool" where
  "executions_inv B E \<longleftrightarrow> is_gomap E \<and>
     (\<forall>k ex. get E k = Some ex \<longrightarrow> k = executionKey (exSandboxID ex) (exID ex) \<and> exec_ok ex \<and>
        (\<not> final ex \<longrightarrow> active_in ex B))"

text \<open>
  A pending session and an attached client belong to a live interactive execution, and an execution
  has at most one of them.
\<close>

definition sessions_inv ::
  "(string, executionState) gomap \<Rightarrow> (string, interactiveSessionState) gomap \<Rightarrow> (string, unit) gomap \<Rightarrow> bool" where
  "sessions_inv E S A \<longleftrightarrow> is_gomap S \<and> is_gomap A \<and>
     (\<forall>i se. get S i = Some se \<longrightarrow> isSessionID se = i \<and> live_interactive E (session_key se) \<and>
        get A (session_key se) = None) \<and>
     (\<forall>i j se se'. get S i = Some se \<and> get S j = Some se' \<and> session_key se = session_key se' \<longrightarrow> i = j) \<and>
     (\<forall>k. get A k \<noteq> None \<longrightarrow> live_interactive E k)"

definition svc_inv :: "Service \<Rightarrow> bool" where
  "svc_inv s \<longleftrightarrow> sandboxes_inv (svcSandboxes s) \<and> executions_inv (svcSandboxes s) (svcExecutions s) \<and>
     sessions_inv (svcExecutions s) (svcSessions s) (svcAttached s)"

section \<open>Keys\<close>

lemma executionKey_inj:
  assumes "executionKey a b = executionKey a' b'" and "CHR ''/'' \<notin> set a" "CHR ''/'' \<notin> set a'"
  shows "a = a' \<and> b = b'"
proof -
  have "cut (executionKey x y) CHR ''/'' = (x, y, True)" if "CHR ''/'' \<notin> set x" for x y
    unfolding executionKey_def append_Cons append_Nil using that by (rule cut_at)
  with assms show ?thesis by (metis prod.inject)
qed

lemma executionKey_id_inj:
  "id_ok a \<Longrightarrow> id_ok a' \<Longrightarrow> executionKey a b = executionKey a' b' \<longleftrightarrow> a = a' \<and> b = b'"
  using executionKey_inj unfolding id_ok_def by blast

lemma id_ok_trim [simp]: "id_ok i \<Longrightarrow> trim_space i = i" "id_ok i \<Longrightarrow> i \<noteq> []"
  by (simp_all add: id_ok_def trim_space_trimmed)

section \<open>Consequences for one map entry\<close>

lemma svc_inv_gomaps:
  "svc_inv s \<Longrightarrow> is_gomap (svcSandboxes s)" "svc_inv s \<Longrightarrow> is_gomap (svcExecutions s)"
  "svc_inv s \<Longrightarrow> is_gomap (svcSessions s)" "svc_inv s \<Longrightarrow> is_gomap (svcAttached s)"
  by (simp_all add: svc_inv_def sandboxes_inv_def executions_inv_def sessions_inv_def)

lemma svc_inv_exec:
  assumes "svc_inv s" and "get (svcExecutions s) k = Some ex"
  shows "k = executionKey (exSandboxID ex) (exID ex)" "exec_ok ex"
    "\<not> final ex \<Longrightarrow> active_in ex (svcSandboxes s)"
  using assms by (auto simp: svc_inv_def executions_inv_def)

lemma svc_inv_sandbox:
  assumes "svc_inv s" and "get (svcSandboxes s) k = Some sb"
  shows "sbID sb = k" "sandbox_ok sb" "id_ok k"
  using assms by (auto simp: svc_inv_def sandboxes_inv_def sandbox_ok_def)

text \<open>At most one execution of a sandbox is not final.\<close>

lemma svc_inv_one_active:
  assumes "svc_inv s" and "get (svcExecutions s) k = Some ex" "\<not> final ex"
    and "get (svcExecutions s) k' = Some ex'" "\<not> final ex'" and "exSandboxID ex = exSandboxID ex'"
  shows "k = k' \<and> ex = ex'"
proof -
  have "active_in ex (svcSandboxes s)" "active_in ex' (svcSandboxes s)"
    using svc_inv_exec(3) assms(1-5) by blast+
  then have "exID ex = exID ex'"
    using assms(6) by (auto simp: active_in_def split: option.splits)
  then have "k = k'" using svc_inv_exec(1) [OF assms(1)] assms(2,4,6) by metis
  with assms(2,4) show ?thesis by simp
qed

section \<open>Executions\<close>

text \<open>The fields the invariant reads, apart from the bounded ones.\<close>

definition core where
  "core ex = (exID ex, exSandboxID ex, exKind ex, exTTY ex, exStatus ex, exExitCode ex, exFinishedAt ex,
     (exCancelRequested ex, exCancelSignal ex, exCancel ex, exAttachStdin ex, exAttachResize ex, exDoneClosed ex))"

lemma exec_ok_core: "core ex' = core ex \<Longrightarrow> exec_bounds_ok ex' \<Longrightarrow> exec_ok ex \<Longrightarrow> exec_ok ex'"
  unfolding exec_ok_def exec_ids_ok_def exec_flags_ok_def exec_kind_ok_def exec_outcome_ok_def core_def by simp

lemma core_eqD:
  assumes "core ex' = core ex"
  shows "exID ex' = exID ex" "exSandboxID ex' = exSandboxID ex" "exKind ex' = exKind ex" "exTTY ex' = exTTY ex"
    "exStatus ex' = exStatus ex" "exCancelRequested ex' = exCancelRequested ex" "exCancelSignal ex' = exCancelSignal ex"
    "exDoneClosed ex' = exDoneClosed ex" "exCancel ex' = exCancel ex" "exAttachStdin ex' = exAttachStdin ex"
    "exAttachResize ex' = exAttachResize ex" "exExitCode ex' = exExitCode ex" "exFinishedAt ex' = exFinishedAt ex"
  using assms unfolding core_def by simp_all

lemma subs_ok_broadcast: "subs_ok cap n subs \<Longrightarrow> subs_ok cap n (broadcast cap e subs)"
  by (auto simp: subs_ok_def broadcast_get split: option.splits if_splits)

lemma subs_ok_put: "subs_ok cap n subs \<Longrightarrow> subs_ok cap (n + 1) (put n [] subs)"
  by (force simp: subs_ok_def)

lemma subs_ok_del: "subs_ok cap n subs \<Longrightarrow> subs_ok cap n (del i subs)"
  by (auto simp: subs_ok_def)

lemma subs_ok_mono: "subs_ok cap n subs \<Longrightarrow> subs_ok cap (n + 1) subs"
  by (force simp: subs_ok_def)

lemma core_record [simp]: "core (recordExecutionEventLocked now e ex) = core ex"
  by (simp add: recordExecutionEventLocked_eq core_def)

lemma record_outputs [simp]:
  "exStdout (recordExecutionEventLocked now e ex) = exStdout ex"
  "exStderr (recordExecutionEventLocked now e ex) = exStderr ex"
  "exMessage (recordExecutionEventLocked now e ex) = exMessage ex"
  "exNextSubID (recordExecutionEventLocked now e ex) = exNextSubID ex"
  by (simp_all add: recordExecutionEventLocked_eq)

lemma record_core_fields [simp]:
  "exID (recordExecutionEventLocked now e ex) = exID ex"
  "exSandboxID (recordExecutionEventLocked now e ex) = exSandboxID ex"
  "exKind (recordExecutionEventLocked now e ex) = exKind ex"
  "exStatus (recordExecutionEventLocked now e ex) = exStatus ex"
  "exCancelRequested (recordExecutionEventLocked now e ex) = exCancelRequested ex"
  "exCancelSignal (recordExecutionEventLocked now e ex) = exCancelSignal ex"
  "exCancel (recordExecutionEventLocked now e ex) = exCancel ex"
  "exDoneClosed (recordExecutionEventLocked now e ex) = exDoneClosed ex"
  by (simp_all add: recordExecutionEventLocked_eq)

lemma bounds_record [simp]: "exec_bounds_ok ex \<Longrightarrow> exec_bounds_ok (recordExecutionEventLocked now e ex)"
  by (simp add: recordExecutionEventLocked_eq exec_bounds_ok_def subs_ok_broadcast)

lemma exec_ok_bounds: "exec_ok ex \<Longrightarrow> exec_bounds_ok ex"
  by (simp add: exec_ok_def)

lemma exec_ok_record: "exec_ok ex \<Longrightarrow> exec_ok (recordExecutionEventLocked now e ex)"
  by (rule exec_ok_core [OF core_record]) (simp_all add: exec_ok_bounds)

lemma core_output [simp]:
  "core (appendExecutionStdoutLocked now st c ex) = core ex"
  "core (appendExecutionStderrLocked now st c ex) = core ex"
  "core (replaceExecutionStdoutFromBufferedLocked now st c ex) = core ex"
  "core (replaceExecutionStderrFromBufferedLocked now st c ex) = core ex"
  by (simp_all add: appendExecutionStdoutLocked_def appendExecutionStderrLocked_def core_def
      replaceExecutionStdoutFromBufferedLocked_def replaceExecutionStderrFromBufferedLocked_def
      recordExecutionEventLocked_eq)

lemma bounds_output [simp]:
  assumes "exec_bounds_ok ex"
  shows "exec_bounds_ok (appendExecutionStdoutLocked now st c ex)"
    "exec_bounds_ok (appendExecutionStderrLocked now st c ex)"
    "exec_bounds_ok (replaceExecutionStdoutFromBufferedLocked now st c ex)"
    "exec_bounds_ok (replaceExecutionStderrFromBufferedLocked now st c ex)"
  using assms
  by (simp_all add: appendExecutionStdoutLocked_def appendExecutionStderrLocked_def exec_bounds_ok_def
      replaceExecutionStdoutFromBufferedLocked_def replaceExecutionStderrFromBufferedLocked_def
      recordExecutionEventLocked_eq subs_ok_broadcast)

lemma merge_cases:
  "\<exists>f g. mergeBufferedResultOutputLocked clk result b ex = g (f ex) \<and>
     (\<forall>x. core (f x) = core x) \<and> (\<forall>x. core (g x) = core x) \<and>
     (\<forall>x. exec_bounds_ok x \<longrightarrow> exec_bounds_ok (f x)) \<and> (\<forall>x. exec_bounds_ok x \<longrightarrow> exec_bounds_ok (g x))"
proof -
  obtain a ra where a: "(if b then bufferedResultDelta (exStdout ex) (resStdout result) maxRetainedExecutionOutputBytes
      else (resStdout result, False)) = (a, ra)" by fastforce
  obtain c rc where c: "(if b then bufferedResultDelta (exStderr ex) (resStderr result) maxRetainedExecutionOutputBytes
      else (resStderr result, False)) = (c, rc)" by fastforce
  let ?f = "\<lambda>x. if ra then replaceExecutionStdoutFromBufferedLocked (clk 0) RUNNING a x
    else appendExecutionStdoutLocked (clk 0) RUNNING a x"
  let ?g = "\<lambda>x. if rc then replaceExecutionStderrFromBufferedLocked (clk 1) RUNNING c x
    else appendExecutionStderrLocked (clk 1) RUNNING c x"
  have "mergeBufferedResultOutputLocked clk result b ex = ?g (?f ex)"
    unfolding mergeBufferedResultOutputLocked_def a c Let_def case_prod_conv by (rule refl)
  then show ?thesis by (intro exI [of _ ?f] exI [of _ ?g]) simp
qed

lemma core_merge [simp]: "core (mergeBufferedResultOutputLocked clk result b ex) = core ex"
  using merge_cases [of clk result b ex] by auto

lemma bounds_merge [simp]: "exec_bounds_ok ex \<Longrightarrow> exec_bounds_ok (mergeBufferedResultOutputLocked clk result b ex)"
  using merge_cases [of clk result b ex] by auto

lemma core_apply_result [simp]: "core (apply_result result ex) = core ex"
  by (simp add: apply_result_def core_def Let_def)

lemma bounds_apply_result [simp]: "exec_bounds_ok (apply_result result ex) = exec_bounds_ok ex"
  by (simp add: apply_result_def exec_bounds_ok_def Let_def)

section \<open>Updates of the maps\<close>

lemma live_interactive_put:
  "live_interactive (put k ex E) k' \<longleftrightarrow>
     (if k' = k then exKind ex = KIND_INTERACTIVE \<and> \<not> final ex else live_interactive E k')"
  by (simp add: live_interactive_def)

lemma active_in_put:
  "active_in ex (put k sb B) \<longleftrightarrow>
     (if exSandboxID ex = k
      then sbActiveExecutionID sb = exID ex \<and> \<not> sbDownloadInProgress sb \<and> (exStatus ex = QUEUED \<longrightarrow> sbStatus sb = SANDBOX_READY)
      else active_in ex B)"
  by (simp add: active_in_def)

lemma executions_inv_put:
  assumes "executions_inv B E" and "exec_ok ex'" and "k = executionKey (exSandboxID ex') (exID ex')"
    and "\<not> final ex' \<Longrightarrow> active_in ex' B"
  shows "executions_inv B (put k ex' E)"
  using assms unfolding executions_inv_def by simp

lemma inv_put_exec:
  assumes inv: "svc_inv s" and k: "get (svcExecutions s) k = Some ex" and ok: "exec_ok ex'"
    and same: "exID ex' = exID ex" "exSandboxID ex' = exSandboxID ex" "exKind ex' = exKind ex"
    and st: "final ex' = final ex" "exStatus ex' = QUEUED \<Longrightarrow> exStatus ex = QUEUED"
  shows "svc_inv (s\<lparr>svcExecutions := put k ex' (svcExecutions s)\<rparr>)"
proof -
  have "active_in ex' (svcSandboxes s)" if "\<not> final ex'"
    using svc_inv_exec(3) [OF inv k] that st same by (auto simp: active_in_def split: option.splits)
  moreover have "k = executionKey (exSandboxID ex') (exID ex')"
    using svc_inv_exec(1) [OF inv k] same by simp
  ultimately have "executions_inv (svcSandboxes s) (put k ex' (svcExecutions s))"
    using inv ok by (intro executions_inv_put) (auto simp: svc_inv_def)
  moreover have "live_interactive (put k ex' (svcExecutions s)) = live_interactive (svcExecutions s)"
    using k st same by (intro ext) (simp add: live_interactive_def)
  ultimately show ?thesis
    using inv by (simp add: svc_inv_def sessions_inv_def)
qed

text \<open>Finalising: the entry becomes final and the sessions of its key go.\<close>

lemma sessions_inv_clear:
  assumes "sessions_inv E S A" and "\<And>k'. k' \<noteq> k \<Longrightarrow> live_interactive E' k' = live_interactive E k'"
  shows "sessions_inv E' (filter (\<lambda>(i, se). session_key se \<noteq> k) S) (del k A)"
proof -
  have S: "is_gomap S" using assms(1) by (simp add: sessions_inv_def)
  have g: "get (filter (\<lambda>(i, se). session_key se \<noteq> k) S) i = Some se \<longleftrightarrow> get S i = Some se \<and> session_key se \<noteq> k" for i se
    using get_filter [OF S, of "\<lambda>i se. session_key se \<noteq> k" i] by (auto split: option.splits if_splits)
  show ?thesis
    using assms S unfolding sessions_inv_def g by (auto split: if_splits)
qed

lemma inv_finalize:
  assumes inv: "svc_inv s" and k: "get (svcExecutions s) k = Some ex" and ok: "exec_ok ex'"
    and same: "exID ex' = exID ex" "exSandboxID ex' = exSandboxID ex" and fin: "final ex'"
  shows "svc_inv (clearInteractiveExecutionStateLocked k (s\<lparr>svcExecutions := put k ex' (svcExecutions s)\<rparr>))"
proof -
  have "k = executionKey (exSandboxID ex') (exID ex')"
    using svc_inv_exec(1) [OF inv k] same by simp
  then have "executions_inv (svcSandboxes s) (put k ex' (svcExecutions s))"
    using inv ok fin by (intro executions_inv_put) (auto simp: svc_inv_def)
  moreover have "sessions_inv (put k ex' (svcExecutions s))
      (filter (\<lambda>(i, se). session_key se \<noteq> k) (svcSessions s)) (del k (svcAttached s))"
    using inv by (intro sessions_inv_clear [where E = "svcExecutions s"]) (simp_all add: svc_inv_def live_interactive_put)
  ultimately show ?thesis
    using inv by (simp add: svc_inv_def clearInteractiveExecutionStateLocked_def)
qed

lemma inv_put_sandbox:
  assumes inv: "svc_inv s" and sb: "sandbox_ok sb'" "sbID sb' = k"
    and act: "\<And>key ex. get (svcExecutions s) key = Some ex \<Longrightarrow> \<not> final ex \<Longrightarrow> exSandboxID ex = k \<Longrightarrow>
      sbActiveExecutionID sb' = exID ex \<and> \<not> sbDownloadInProgress sb' \<and> (exStatus ex = QUEUED \<longrightarrow> sbStatus sb' = SANDBOX_READY)"
  shows "svc_inv (s\<lparr>svcSandboxes := put k sb' (svcSandboxes s)\<rparr>)"
proof -
  have "active_in ex (put k sb' (svcSandboxes s))" if "get (svcExecutions s) key = Some ex" "\<not> final ex" for key ex
    using act [OF that] svc_inv_exec(3) [OF inv that] by (simp add: active_in_put)
  then have "executions_inv (put k sb' (svcSandboxes s)) (svcExecutions s)"
    using inv unfolding svc_inv_def executions_inv_def by blast
  with inv sb show ?thesis unfolding svc_inv_def sandboxes_inv_def by simp
qed

text \<open>The common case: the sandbox changes nothing an active execution relies on.\<close>

lemma inv_put_sandbox_same:
  assumes inv: "svc_inv s" and k: "get (svcSandboxes s) k = Some sb" and sb: "sandbox_ok sb'" "sbID sb' = sbID sb"
    and same: "sbActiveExecutionID sb' = sbActiveExecutionID sb" "sbDownloadInProgress sb' = sbDownloadInProgress sb"
      "sbStatus sb = SANDBOX_READY \<Longrightarrow> sbStatus sb' = SANDBOX_READY"
  shows "svc_inv (s\<lparr>svcSandboxes := put k sb' (svcSandboxes s)\<rparr>)"
proof (rule inv_put_sandbox [OF inv sb(1)])
  show "sbID sb' = k" using svc_inv_sandbox(1) [OF inv k] sb(2) by simp
  fix key ex assume ex: "get (svcExecutions s) key = Some ex" "\<not> final ex" "exSandboxID ex = k"
  show "sbActiveExecutionID sb' = exID ex \<and> \<not> sbDownloadInProgress sb' \<and> (exStatus ex = QUEUED \<longrightarrow> sbStatus sb' = SANDBOX_READY)"
    using svc_inv_exec(3) [OF inv ex(1,2)] ex(3) k same by (simp add: active_in_def)
qed

lemma inv_prune:
  assumes inv: "svc_inv s"
  shows "svc_inv (pruneStateLocked c now s)"
proof -
  obtain es bs where eq: "pruneStateLocked c now s = fold dropSandboxLocked bs (fold dropExecutionLocked es s)"
    and es: "\<And>k. k \<in> set es \<Longrightarrow> \<exists>ex. get (svcExecutions s) k = Some ex \<and> final ex"
    and bs: "\<And>k. k \<in> set bs \<Longrightarrow> (\<exists>sb. get (svcSandboxes s) k = Some sb \<and> sbStatus sb = SANDBOX_STOPPED) \<and>
      (\<forall>key ex. get (svcExecutions s) key = Some ex \<and> exSandboxID ex = k \<longrightarrow> final ex)"
    using pruneStateLocked_drops [OF svc_inv_gomaps(2) [OF inv] svc_inv_gomaps(1) [OF inv]] by metis
  let ?s = "pruneStateLocked c now s"
  have B: "get (svcSandboxes ?s) k = (if k \<in> set bs then None else get (svcSandboxes s) k)" for k
    by (simp add: eq fold_dropSandbox_get)
  have E: "get (svcExecutions ?s) k = (if k \<in> set es then None else get (svcExecutions s) k)" for k
    by (simp add: eq fold_dropExecution_get)
  have A: "get (svcAttached ?s) k = (if k \<in> set es then None else get (svcAttached s) k)" for k
    by (simp add: eq fold_dropExecution_attached)
  have S: "get (svcSessions ?s) i = Some se \<longleftrightarrow> get (svcSessions s) i = Some se \<and> session_key se \<notin> set es" for i se
    using get_filter [OF svc_inv_gomaps(3) [OF inv], of "\<lambda>i se. session_key se \<notin> set es" i]
    by (auto simp: eq fold_dropExecution_sessions split: option.splits if_splits)
  have gm: "is_gomap (svcSandboxes ?s)" "is_gomap (svcExecutions ?s)" "is_gomap (svcSessions ?s)" "is_gomap (svcAttached ?s)"
    using svc_inv_gomaps [OF inv]
    by (auto simp: eq fold_dropExecution_sessions intro!: fold_dropSandbox_gomap fold_dropExecution_gomap is_gomap_filter)
  have "sandboxes_inv (svcSandboxes ?s)"
    using inv gm(1) by (simp add: svc_inv_def sandboxes_inv_def B)
  moreover have "executions_inv (svcSandboxes ?s) (svcExecutions ?s)"
  proof -
    have "active_in ex (svcSandboxes ?s)" if "get (svcExecutions s) k = Some ex" "\<not> final ex" for k ex
      using svc_inv_exec(3) [OF inv that] bs [of "exSandboxID ex"] that by (auto simp: active_in_def B)
    then show ?thesis
      using inv gm(2) by (simp add: svc_inv_def executions_inv_def E)
  qed
  moreover have live: "live_interactive (svcExecutions ?s) k" if "live_interactive (svcExecutions s) k" for k
    using that es [of k] by (auto simp: live_interactive_def E split: option.splits)
  then have "sessions_inv (svcExecutions ?s) (svcSessions ?s) (svcAttached ?s)"
    using inv gm(3,4) by (auto simp: svc_inv_def sessions_inv_def A S split: if_splits)
  ultimately show ?thesis by (simp add: svc_inv_def)
qed

end
