(* ===== verification/Service_Handlers.thy ===== *)
theory Service_Handlers
  imports Service_Inv
begin

text \<open>Every handler of the control service keeps the invariant \<open>svc_inv\<close>.\<close>

section \<open>Finalisation\<close>

definition finalized :: "time \<Rightarrow> ExecutionStatus \<Rightarrow> int \<Rightarrow> string \<Rightarrow> string \<Rightarrow> executionState \<Rightarrow> executionState" where
  "finalized finished status exitCode message exitMessage ex =
     closeExecutionDoneLocked
       (recordExecutionEventLocked finished
          (exec_event (ex\<lparr>exStatus := status, exExitCode := exitCode, exMessage := message, exFinishedAt := Some finished\<rparr>)
             status (PExit exitCode status (if exitMessage = [] then message else exitMessage)) finished)
          (ex\<lparr>exStatus := status, exExitCode := exitCode, exMessage := message, exFinishedAt := Some finished\<rparr>))"

lemma finalized_fields [simp]:
  "exID (finalized t st c m em ex) = exID ex"
  "exSandboxID (finalized t st c m em ex) = exSandboxID ex"
  "exKind (finalized t st c m em ex) = exKind ex"
  "exStatus (finalized t st c m em ex) = st"
  "exExitCode (finalized t st c m em ex) = c"
  "exFinishedAt (finalized t st c m em ex) = Some t"
  "exDoneClosed (finalized t st c m em ex)"
  "exCancelRequested (finalized t st c m em ex) = exCancelRequested ex"
  "exCancelSignal (finalized t st c m em ex) = exCancelSignal ex"
  "exStdout (finalized t st c m em ex) = exStdout ex"
  "exStderr (finalized t st c m em ex) = exStderr ex"
  by (simp_all add: finalized_def closeExecutionDoneLocked_def recordExecutionEventLocked_eq)

lemma finalized_ok:
  assumes "exec_ids_ok ex" "exec_kind_ok ex" "exec_bounds_ok ex"
    and "\<not> exCancel ex" "\<not> exAttachStdin ex" "\<not> exAttachResize ex" and "st \<in> {SUCCEEDED, FAILED, CANCELED}"
    and "(st = CANCELED) = exCancelRequested ex" and "st = CANCELED \<Longrightarrow> c = cancelExitCode (exCancelSignal ex)"
    and "st = SUCCEEDED \<Longrightarrow> c = 0"
  shows "exec_ok (finalized t st c m em ex)"
proof -
  have "exec_bounds_ok (finalized t st c m em ex)"
    using assms(3) by (auto simp: finalized_def closeExecutionDoneLocked_def recordExecutionEventLocked_eq
        exec_bounds_ok_def subs_ok_broadcast)
  moreover have "exec_ids_ok (finalized t st c m em ex)" "exec_kind_ok (finalized t st c m em ex)"
    using assms(1,2) by (simp_all add: exec_ids_ok_def exec_kind_ok_def finalized_def closeExecutionDoneLocked_def
        recordExecutionEventLocked_eq)
  moreover have "exec_flags_ok (finalized t st c m em ex)"
    using assms(4-7) by (auto simp: exec_flags_ok_def finalized_def closeExecutionDoneLocked_def
        recordExecutionEventLocked_eq isFinalExecutionStatus_def)
  moreover have "exec_outcome_ok (finalized t st c m em ex)"
    using assms(8-10) by (simp add: exec_outcome_ok_def)
  ultimately show ?thesis by (simp add: exec_ok_def)
qed

lemma finalizeExecutionInternalLocked_eq:
  "finalizeExecutionInternalLocked clk key ex st c m em t prune s =
     (let t = (if t = 0 then clk 0 else t);
          s = clearInteractiveExecutionStateLocked (executionKey (exSandboxID ex) (exID ex))
                (s\<lparr>svcExecutions := put key (finalized t st c m em ex) (svcExecutions s)\<rparr>)
      in if prune then pruneStateLocked (clk 1) t s else s)"
proof -
  have "exSandboxID (finalized t st c m em ex) = exSandboxID ex" "exID (finalized t st c m em ex) = exID ex" for t
    by simp_all
  then show ?thesis
    unfolding finalizeExecutionInternalLocked_def finalized_def Let_def by simp
qed

lemma inv_finalizeExecution:
  assumes inv: "svc_inv s" and k: "get (svcExecutions s) k = Some ex0"
    and same: "exID ex = exID ex0" "exSandboxID ex = exSandboxID ex0"
    and ok: "exec_kind_ok ex" "exec_bounds_ok ex"
    "\<not> exCancel ex" "\<not> exAttachStdin ex" "\<not> exAttachResize ex" "st \<in> {SUCCEEDED, FAILED, CANCELED}"
    "(st = CANCELED) = exCancelRequested ex" "st = CANCELED \<Longrightarrow> c = cancelExitCode (exCancelSignal ex)"
    "st = SUCCEEDED \<Longrightarrow> c = 0"
  shows "svc_inv (finalizeExecutionInternalLocked clk k ex st c m em t prune s)"
proof -
  have "exec_ids_ok ex"
    using svc_inv_exec(2) [OF inv k] same by (simp add: exec_ok_def exec_ids_ok_def)
  then have "exec_ok (finalized t st c m em ex)" for t
    using ok by (intro finalized_ok) auto
  then have "svc_inv (clearInteractiveExecutionStateLocked k
      (s\<lparr>svcExecutions := put k (finalized t st c m em ex) (svcExecutions s)\<rparr>))" for t
    using inv k same ok(6) by (intro inv_finalize) (auto simp: isFinalExecutionStatus_def)
  moreover have "executionKey (exSandboxID ex) (exID ex) = k"
    using svc_inv_exec(1) [OF inv k] same by simp
  ultimately show ?thesis
    by (simp add: finalizeExecutionInternalLocked_eq Let_def inv_prune)
qed

section \<open>Sandboxes\<close>

lemma sandbox_ok_record:
  assumes "sandbox_ok sb" and "st \<in> {SANDBOX_READY, SANDBOX_STOPPING}" and "sbStatus sb \<noteq> SANDBOX_STOPPED"
  shows "sandbox_ok (recordSandboxEventLocked now st m sb)"
  using assms by (auto simp: sandbox_ok_def recordSandboxEventLocked_def Let_def subs_ok_broadcast)

lemma sandbox_ok_stop:
  assumes "sandbox_ok sb"
  shows "sandbox_ok (closeSandboxDoneLocked (recordSandboxEventLocked now SANDBOX_STOPPED m sb))"
  using assms by (auto simp: sandbox_ok_def recordSandboxEventLocked_def closeSandboxDoneLocked_def Let_def subs_ok_broadcast)

lemma record_sandbox_fields [simp]:
  "sbID (recordSandboxEventLocked now st m sb) = sbID sb"
  "sbStatus (recordSandboxEventLocked now st m sb) = st"
  "sbActiveExecutionID (recordSandboxEventLocked now st m sb) = sbActiveExecutionID sb"
  "sbDownloadInProgress (recordSandboxEventLocked now st m sb) = sbDownloadInProgress sb"
  "sbDoneClosed (recordSandboxEventLocked now st m sb) = sbDoneClosed sb"
  by (simp_all add: recordSandboxEventLocked_def Let_def)

lemma close_sandbox_fields [simp]:
  "sbID (closeSandboxDoneLocked sb) = sbID sb"
  "sbStatus (closeSandboxDoneLocked sb) = sbStatus sb"
  "sbActiveExecutionID (closeSandboxDoneLocked sb) = sbActiveExecutionID sb"
  "sbDownloadInProgress (closeSandboxDoneLocked sb) = sbDownloadInProgress sb"
  by (simp_all add: closeSandboxDoneLocked_def)

lemma sandbox_ok_update [simp]:
  "sandbox_ok (sb\<lparr>sbActiveExecutionID := a\<rparr>) = sandbox_ok sb"
  "sandbox_ok (sb\<lparr>sbDownloadInProgress := b\<rparr>) = sandbox_ok sb"
  "sandbox_ok (sb\<lparr>sbUpdatedAt := t\<rparr>) = sandbox_ok sb"
  "sandbox_ok (sb\<lparr>sbLastExecutionID := a\<rparr>) = sandbox_ok sb"
  by (simp_all add: sandbox_ok_def)

lemma CreateSandbox_prepare_InrD:
  assumes "CreateSandbox_prepare env gen clk req s = Inr (persistent, backendName, pr)"
  obtains r pb p ad where "req = Some r" "csPolicy r = Some pb" "FromProto (Some pb) = Inr p" "prPolicy pr = Some p"
    "prSandboxID pr = newSandboxID gen (clk 1)" "get (svcBackends s) backendName = Some ad" "persistent = adPersistent ad"
proof -
  obtain r where r: "req = Some r" using assms by (cases req) (simp_all add: CreateSandbox_prepare_def)
  obtain pb where pb: "csPolicy r = Some pb" using assms r by (cases "csPolicy r") (simp_all add: CreateSandbox_prepare_def)
  obtain p where p: "FromProto (Some pb) = Inr p"
    using assms r pb by (cases "FromProto (Some pb)") (simp_all add: CreateSandbox_prepare_def)
  let ?b = "resolveBackendName env (trim_space (csBackend r)) (cfgDefaultBackend (svcConfig s))"
  obtain ad where ad: "get (svcBackends s) ?b = Some ad"
    using assms r pb p by (cases "get (svcBackends s) ?b") (simp_all add: CreateSandbox_prepare_def Let_def)
  show thesis
    using assms ad by (intro that [of r pb p ad]) (auto simp: r pb p CreateSandbox_prepare_def Let_def)
qed

lemma new_sandbox_ok:
  assumes "wf_policy p" "prPolicy pr = Some p" "id_ok (prSandboxID pr)"
  shows "sandbox_ok (recordSandboxEventLocked t SANDBOX_READY m (new_sandbox b pr now))"
  using assms by (intro sandbox_ok_record) (simp_all add: sandbox_ok_def new_sandbox_def subs_ok_def)

lemma inv_CreateSandbox:
  assumes inv: "svc_inv s" and fresh: "get (svcSandboxes s) (newSandboxID gen (clk 1)) = None" "id_ok (newSandboxID gen (clk 1))"
  shows "svc_inv (fst (CreateSandbox env gen provision clk req s))"
proof (cases "CreateSandbox_prepare env gen clk req s")
  case (Inr x)
  obtain persistent backendName pr where x: "x = (persistent, backendName, pr)" by (cases x)
  from Inr [unfolded x] obtain p where p: "prPolicy pr = Some p" "wf_policy p" "prSandboxID pr = newSandboxID gen (clk 1)"
    using CreateSandbox_prepare_InrD proto.compile_wf by metis
  let ?st = "recordSandboxEventLocked (clk 2) SANDBOX_READY ''sandbox created and ready'' (new_sandbox backendName pr (clk 0))"
  have "svc_inv (s\<lparr>svcSandboxes := put (prSandboxID pr) ?st (svcSandboxes s)\<rparr>)"
  proof (rule inv_put_sandbox [OF inv])
    show "sandbox_ok ?st" using p fresh by (intro new_sandbox_ok) auto
    show "sbID ?st = prSandboxID pr" by (simp add: new_sandbox_def)
    fix key ex assume "get (svcExecutions s) key = Some ex" "\<not> final ex" "exSandboxID ex = prSandboxID pr"
    then have False using svc_inv_exec(3) [OF inv] fresh p(3) by (fastforce simp: active_in_def split: option.splits)
    then show "sbActiveExecutionID ?st = exID ex \<and> \<not> sbDownloadInProgress ?st \<and> (exStatus ex = QUEUED \<longrightarrow> sbStatus ?st = SANDBOX_READY)" ..
  qed
  then show ?thesis
    using inv by (simp add: CreateSandbox_def Inr x Let_def inv_prune split: option.split)
qed (simp add: CreateSandbox_def inv)

lemma no_active_if_id:
  assumes inv: "svc_inv s" and k: "get (svcSandboxes s) sid = Some sb"
    and no: "case get (svcExecutions s) (executionKey sid (sbActiveExecutionID sb)) of None \<Rightarrow> True | Some ex \<Rightarrow> final ex"
    and ex: "get (svcExecutions s) key = Some ex" "exSandboxID ex = sid"
  shows "final ex"
proof (rule ccontr)
  assume nf: "\<not> final ex"
  with svc_inv_exec [OF inv ex(1)] k ex(2) have "key = executionKey sid (sbActiveExecutionID sb)"
    by (auto simp: active_in_def)
  with ex no nf show False by simp
qed

text \<open>The test both busy checks make: the active execution is missing or final.\<close>

lemma not_busy_no_active:
  assumes inv: "svc_inv s" and k: "get (svcSandboxes s) sid = Some sb"
    and no: "\<not> (trim_space (sbActiveExecutionID sb) \<noteq> [] \<and>
      (case get (svcExecutions s) (executionKey sid (sbActiveExecutionID sb)) of None \<Rightarrow> False | Some ex \<Rightarrow> \<not> final ex))"
    and ex: "get (svcExecutions s) key = Some ex" "exSandboxID ex = sid"
  shows "final ex"
proof (rule ccontr)
  assume nf: "\<not> final ex"
  have "sbActiveExecutionID sb = exID ex" "id_ok (exID ex)"
    using svc_inv_exec [OF inv ex(1)] nf k ex(2) by (auto simp: active_in_def exec_ok_def exec_ids_ok_def)
  then have "trim_space (sbActiveExecutionID sb) \<noteq> []" by simp
  with no no_active_if_id [OF inv k _ ex] nf show False by (auto split: option.splits)
qed

lemma trim_active:
  assumes inv: "svc_inv s" and k: "get (svcSandboxes s) sid = Some sb"
    and ex: "get (svcExecutions s) key = Some ex" "exSandboxID ex = sid" "\<not> final ex"
  shows "trim_space (sbActiveExecutionID sb) = sbActiveExecutionID sb" "sbActiveExecutionID sb \<noteq> []"
proof -
  have "sbActiveExecutionID sb = exID ex" "id_ok (exID ex)"
    using svc_inv_exec [OF inv ex(1)] ex k by (auto simp: active_in_def exec_ok_def exec_ids_ok_def)
  then show "trim_space (sbActiveExecutionID sb) = sbActiveExecutionID sb" "sbActiveExecutionID sb \<noteq> []" by simp_all
qed

lemma inv_DownloadSandboxFile_finish:
  assumes inv: "svc_inv s"
  shows "svc_inv (DownloadSandboxFile_finish sid s)"
proof (cases "get (svcSandboxes s) sid")
  case (Some sb)
  have "svc_inv (s\<lparr>svcSandboxes := put sid (sb\<lparr>sbDownloadInProgress := False\<rparr>) (svcSandboxes s)\<rparr>)"
    using svc_inv_sandbox [OF inv Some] svc_inv_exec(3) [OF inv] Some
    by (intro inv_put_sandbox [OF inv]) (fastforce simp: active_in_def)+
  with Some show ?thesis by (simp add: DownloadSandboxFile_finish_def)
qed (simp add: DownloadSandboxFile_finish_def inv)

text \<open>What a download that starts has checked.\<close>

lemma DownloadSandboxFile_begin_cases:
  obtains (error) e where "DownloadSandboxFile_begin req s = (s, Inl e)"
  | (started) r sid sb ad where "req = Some r" "sid = trim_space (dlSandboxID r)" "get (svcSandboxes s) sid = Some sb"
      "sbStatus sb = SANDBOX_READY" "get (svcBackends s) (sbBackend sb) = Some ad" "adFileDownload ad"
      "\<not> sbDownloadInProgress sb" "has_prefix (dlPath r) ''/''"
      "\<not> (trim_space (sbActiveExecutionID sb) \<noteq> [] \<and>
         (case get (svcExecutions s) (executionKey sid (trim_space (sbActiveExecutionID sb))) of
            None \<Rightarrow> False | Some ex \<Rightarrow> \<not> final ex))"
      "DownloadSandboxFile_begin req s =
         (s\<lparr>svcSandboxes := put sid (sb\<lparr>sbDownloadInProgress := True\<rparr>) (svcSandboxes s)\<rparr>,
          Inr (sid, dlPath r, if dlMaxBytes r \<le> 0 then defaultDownloadMaxBytes else dlMaxBytes r))"
proof (cases "\<exists>e. DownloadSandboxFile_begin req s = (s, Inl e)")
  case True
  then show thesis using error by blast
next
  case False
  then obtain r where r: "req = Some r" by (cases req) (simp_all add: DownloadSandboxFile_begin_def)
  let ?sid = "trim_space (dlSandboxID r)"
  have p: "?sid \<noteq> []" "dlPath r \<noteq> []" "has_prefix (dlPath r) ''/''"
    using False r by (auto simp: DownloadSandboxFile_begin_def Let_def split: if_splits)
  obtain sb where sb: "get (svcSandboxes s) ?sid = Some sb"
    using False r p by (cases "get (svcSandboxes s) ?sid") (simp_all add: DownloadSandboxFile_begin_def Let_def)
  have st: "sbStatus sb = SANDBOX_READY"
    using False r p sb by (simp add: DownloadSandboxFile_begin_def Let_def split: if_splits)
  obtain ad where ad: "get (svcBackends s) (sbBackend sb) = Some ad"
    using False r p sb st by (cases "get (svcBackends s) (sbBackend sb)") (simp_all add: DownloadSandboxFile_begin_def Let_def)
  have rest: "adFileDownload ad" "\<not> sbDownloadInProgress sb"
    using False r p sb st ad by (auto simp: DownloadSandboxFile_begin_def Let_def split: if_splits)
  have busy: "\<not> (trim_space (sbActiveExecutionID sb) \<noteq> [] \<and>
         (case get (svcExecutions s) (executionKey ?sid (trim_space (sbActiveExecutionID sb))) of
            None \<Rightarrow> False | Some ex \<Rightarrow> \<not> final ex))"
    using False r p sb st ad rest by (simp add: DownloadSandboxFile_begin_def Let_def split: if_splits)
  show thesis
    by (rule started [OF r refl sb st ad rest p(3) busy])
      (use r p sb st ad rest busy in \<open>simp only: DownloadSandboxFile_begin_def Let_def option.case if_False if_True not_True_eq_False not_False_eq_True simp_thms\<close>)
qed

lemma inv_DownloadSandboxFile_begin:
  assumes inv: "svc_inv s"
  shows "svc_inv (fst (DownloadSandboxFile_begin req s))"
proof (cases rule: DownloadSandboxFile_begin_cases [of req s])
  case (started r sid sb ad)
  have "final ex" if ex: "get (svcExecutions s) key = Some ex" "exSandboxID ex = sid" for key ex
  proof (rule ccontr)
    assume nf: "\<not> final ex"
    note t = trim_active [OF inv started(3) ex nf]
    show False using started(9) nf not_busy_no_active [OF inv started(3) _ ex] by (simp add: t)
  qed
  then show ?thesis
    using started svc_inv_sandbox [OF inv started(3)] by (simp, intro inv_put_sandbox [OF inv]) auto
qed (simp add: inv)

section \<open>Termination of a sandbox\<close>

lemma canceled_exec:
  assumes "exec_ok ex" "\<not> final ex"
  shows "exec_ok (ex\<lparr>exCancelRequested := True, exCancelSignal := sig\<rparr>)"
  using assms unfolding exec_ok_def exec_ok_defs by (auto simp: isFinalExecutionStatus_def)

lemma queued_flags: "exec_ok ex \<Longrightarrow> exStatus ex = QUEUED \<Longrightarrow> \<not> exCancel ex \<and> \<not> exAttachStdin ex \<and> \<not> exAttachResize ex"
  by (auto simp: exec_ok_def exec_flags_ok_def)

text \<open>
  Both ways to cancel an execution: the request is noted and recorded; a queued execution is finalised.
\<close>

definition cancel_noted :: "time \<Rightarrow> ExecutionStreamEvent \<Rightarrow> int \<Rightarrow> executionState \<Rightarrow> executionState" where
  "cancel_noted now e sig ex = recordExecutionEventLocked now e (ex\<lparr>exCancelRequested := True, exCancelSignal := sig\<rparr>)"

lemma cancel_noted_fields [simp]:
  "exID (cancel_noted now e sig ex) = exID ex" "exSandboxID (cancel_noted now e sig ex) = exSandboxID ex"
  "exKind (cancel_noted now e sig ex) = exKind ex" "exStatus (cancel_noted now e sig ex) = exStatus ex"
  "exCancel (cancel_noted now e sig ex) = exCancel ex" "exCancelRequested (cancel_noted now e sig ex)"
  "exCancelSignal (cancel_noted now e sig ex) = sig"
  by (simp_all add: cancel_noted_def)

lemma inv_cancel:
  assumes inv: "svc_inv s" and k: "get (svcExecutions s) k = Some ex" and nf: "\<not> final ex"
  shows "svc_inv (s\<lparr>svcExecutions := put k (cancel_noted now e sig ex) (svcExecutions s)\<rparr>)" (is ?put)
    and "exStatus ex = QUEUED \<Longrightarrow>
      svc_inv (finalizeExecutionInternalLocked clk k (cancel_noted now e sig ex) CANCELED (cancelExitCode sig) m em t prune s)"
proof -
  have ok: "exec_ok (cancel_noted now e sig ex)"
    unfolding cancel_noted_def
    using canceled_exec [OF svc_inv_exec(2) [OF inv k] nf] by (rule exec_ok_record)
  then show ?put using k by (intro inv_put_exec [OF inv]) simp_all
  assume "exStatus ex = QUEUED"
  with ok k show "svc_inv (finalizeExecutionInternalLocked clk k (cancel_noted now e sig ex) CANCELED (cancelExitCode sig) m em t prune s)"
    using queued_flags [OF ok] by (intro inv_finalizeExecution [OF inv k]) (simp_all add: exec_ok_def)
qed

lemma terminate_execution_eq:
  "terminate_execution clk at sid key (s, cs) =
     (case get (svcExecutions s) key of None \<Rightarrow> (s, cs)
      | Some ex \<Rightarrow>
          if exSandboxID ex \<noteq> sid \<or> final ex then (s, cs)
          else
            (let ex' = cancel_noted (clk 0) (exec_event ex (exStatus ex) (PMessage ''execution canceled due to sandbox termination'') (clk 0)) 15 ex in
             if exStatus ex = QUEUED
             then (finalizeExecutionInternalLocked (\<lambda>i. clk (i + 1)) key ex' CANCELED (cancelExitCode 15) (exMessage ex')
                     ''execution canceled before start (sandbox termination)'' at False s, cs)
             else (s\<lparr>svcExecutions := put key ex' (svcExecutions s)\<rparr>, if exCancel ex then cs @ [key] else cs)))"
  unfolding terminate_execution_def cancel_noted_def finalizeExecutionWithoutPruneLocked_def Let_def
  by (simp add: exec_event_def split: option.split)

lemma inv_terminate_execution:
  assumes "svc_inv s"
  shows "svc_inv (fst (terminate_execution clk at sid key (s, cs)))"
proof (cases "get (svcExecutions s) key")
  case (Some ex)
  then show ?thesis
    using assms inv_cancel [OF assms Some] by (simp add: terminate_execution_eq Let_def)
qed (simp add: terminate_execution_eq assms)

text \<open>
  While a sandbox is being stopped its queued executions are finalised one after the other, so the
  sandbox is marked first and the invariant is restored at the end of the loop. What holds meanwhile
  is the invariant of the service without the mark: the loop does not look at the sandboxes.
\<close>

definition with_sandbox :: "string \<Rightarrow> sandboxState \<Rightarrow> Service \<Rightarrow> Service" where
  "with_sandbox sid sb s = s\<lparr>svcSandboxes := put sid sb (svcSandboxes s)\<rparr>"

lemma finalize_frame [simp]:
  "svcSandboxes (finalizeExecutionInternalLocked clk k ex st c m em t False s) = svcSandboxes s"
  by (simp add: finalizeExecutionInternalLocked_eq clearInteractiveExecutionStateLocked_def Let_def)

lemma terminate_execution_with_sandbox:
  "terminate_execution clk at sid key (with_sandbox sid' sb s, cs) =
     (let (s', cs') = terminate_execution clk at sid key (s, cs) in (with_sandbox sid' sb s', cs'))"
  by (simp add: terminate_execution_eq with_sandbox_def finalizeExecutionInternalLocked_eq
      clearInteractiveExecutionStateLocked_def Let_def split: option.split)

lemma terminate_execution_sandboxes [simp]:
  "svcSandboxes (fst (terminate_execution clk at sid key (s, cs))) = svcSandboxes s"
  by (simp add: terminate_execution_eq Let_def split: option.split)

lemma terminate_execution_other:
  "k \<noteq> key \<Longrightarrow> get (svcExecutions (fst (terminate_execution clk at sid key (s, cs)))) k = get (svcExecutions s) k"
  by (simp add: terminate_execution_eq finalizeExecutionInternalLocked_eq
      clearInteractiveExecutionStateLocked_def Let_def split: option.split)

text \<open>What the loop does to an execution of the sandbox: nothing if it is final, the end if it is queued.\<close>

definition stopped_exec :: "string \<Rightarrow> executionState \<Rightarrow> executionState \<Rightarrow> bool" where
  "stopped_exec sid ex ex' \<longleftrightarrow>
     exSandboxID ex' = exSandboxID ex \<and> exID ex' = exID ex \<and>
     (if exSandboxID ex \<noteq> sid \<or> final ex then ex' = ex
      else exCancelRequested ex' \<and> exStatus ex' = (if exStatus ex = QUEUED then CANCELED else exStatus ex))"

lemma terminate_execution_self:
  assumes "get (svcExecutions s) key = Some ex"
  shows "\<exists>ex'. get (svcExecutions (fst (terminate_execution clk at sid key (s, cs)))) key = Some ex' \<and> stopped_exec sid ex ex'"
  using assms
  by (auto simp: terminate_execution_eq finalizeExecutionInternalLocked_eq clearInteractiveExecutionStateLocked_def
      Let_def stopped_exec_def)

definition terminate_loop where
  "terminate_loop tick at sid keys = fold (\<lambda>key. terminate_execution (tick key) at sid key) keys"

lemma terminate_loop_simps:
  "terminate_loop tick at sid [] acc = acc"
  "terminate_loop tick at sid (k # ks) acc = terminate_loop tick at sid ks (terminate_execution (tick k) at sid k acc)"
  by (simp_all add: terminate_loop_def)

lemma terminate_loop_with_sandbox:
  "terminate_loop tick at sid keys (with_sandbox sid' sb s, cs) =
     (let (s', cs') = terminate_loop tick at sid keys (s, cs) in (with_sandbox sid' sb s', cs'))"
proof (induction keys arbitrary: s cs)
  case (Cons k ks)
  obtain s1 cs1 where "terminate_execution (tick k) at sid k (s, cs) = (s1, cs1)" by fastforce
  then show ?case using Cons.IH [of s1 cs1] by (simp add: terminate_loop_simps terminate_execution_with_sandbox)
qed (simp add: terminate_loop_simps)

lemma terminate_loop_inv:
  "svc_inv s \<Longrightarrow> svc_inv (fst (terminate_loop tick at sid keys (s, cs)))"
proof (induction keys arbitrary: s cs)
  case (Cons k ks)
  then show ?case
    using inv_terminate_execution [of s "tick k" at sid k cs]
    by (cases "terminate_execution (tick k) at sid k (s, cs)") (simp add: terminate_loop_simps)
qed (simp add: terminate_loop_simps)

lemma terminate_loop_sandboxes [simp]:
  "svcSandboxes (fst (terminate_loop tick at sid keys (s, cs))) = svcSandboxes s"
proof (induction keys arbitrary: s cs)
  case (Cons k ks)
  then show ?case
    using terminate_execution_sandboxes [of "tick k" at sid k s cs]
    by (cases "terminate_execution (tick k) at sid k (s, cs)") (simp add: terminate_loop_simps)
qed (simp add: terminate_loop_simps)

lemma terminate_loop_other:
  "k \<notin> set keys \<Longrightarrow> get (svcExecutions (fst (terminate_loop tick at sid keys (s, cs)))) k = get (svcExecutions s) k"
proof (induction keys arbitrary: s cs)
  case (Cons k' ks)
  then show ?case
    using terminate_execution_other [of k k' "tick k'" at sid s cs]
    by (cases "terminate_execution (tick k') at sid k' (s, cs)") (simp add: terminate_loop_simps)
qed (simp add: terminate_loop_simps)

lemma terminate_loop_self:
  assumes "distinct keys" "k \<in> set keys" "get (svcExecutions s) k = Some ex"
  shows "\<exists>ex'. get (svcExecutions (fst (terminate_loop tick at sid keys (s, cs)))) k = Some ex' \<and> stopped_exec sid ex ex'"
  using assms
proof (induction keys arbitrary: s cs)
  case (Cons k' ks)
  obtain s1 cs1 where s1: "terminate_execution (tick k') at sid k' (s, cs) = (s1, cs1)" by fastforce
  show ?case
  proof (cases "k = k'")
    case True
    with Cons.prems terminate_execution_self [OF Cons.prems(3), of "tick k'" at sid cs] terminate_loop_other [of k ks tick at sid s1 cs1]
    show ?thesis by (simp add: terminate_loop_simps s1)
  next
    case False
    with Cons.prems Cons.IH [of s1 cs1] terminate_execution_other [OF False, of "tick k'" at sid s cs] s1
    show ?thesis by (simp add: terminate_loop_simps)
  qed
qed simp

text \<open>The first half of \<open>TerminateSandbox\<close>, in terms of the loop over the unmarked service.\<close>

lemma TerminateSandbox_begin_cases:
  obtains (unchanged) r where "TerminateSandbox_begin clk tick req s = (s, r)"
      "\<And>sid st pers cs. r = Inr (sid, st, pers, cs) \<Longrightarrow> st \<and> \<not> pers \<and> cs = [] \<and>
         (\<exists>sb. get (svcSandboxes s) sid = Some sb \<and> sbStatus sb = SANDBOX_STOPPED)"
  | (stopping) raw sid sb sb' s' cs pers where "req = Some raw" "sid = trim_space raw" "get (svcSandboxes s) sid = Some sb"
      "sbStatus sb \<noteq> SANDBOX_STOPPED"
      "sb' = (if sbStatus sb \<noteq> SANDBOX_STOPPING
              then recordSandboxEventLocked (clk 0) SANDBOX_STOPPING ''sandbox termination requested'' (sb\<lparr>sbStatus := SANDBOX_STOPPING\<rparr>)
              else sb)"
      "terminate_loop tick (clk 1) sid (keys_of (svcExecutions s)) (s, []) = (s', cs)"
      "TerminateSandbox_begin clk tick req s = (with_sandbox sid sb' s', Inr (sid, False, pers, cs))"
proof (cases req)
  case None
  then show thesis by (intro unchanged [of "Inl MissingSandboxID"]) (simp_all add: TerminateSandbox_begin_def)
next
  case (Some raw)
  show thesis
  proof (cases "trim_space raw = [] \<or> get (svcSandboxes s) (trim_space raw) = None")
    case True
    then show thesis using Some
      by (intro unchanged [of "Inl (if trim_space raw = [] then MissingSandboxID else UnknownSandbox (trim_space raw))"])
        (auto simp: TerminateSandbox_begin_def Let_def)
  next
    case False
    then obtain sb where sb: "get (svcSandboxes s) (trim_space raw) = Some sb" by auto
    let ?sb' = "if sbStatus sb \<noteq> SANDBOX_STOPPING
      then recordSandboxEventLocked (clk 0) SANDBOX_STOPPING ''sandbox termination requested'' (sb\<lparr>sbStatus := SANDBOX_STOPPING\<rparr>) else sb"
    show thesis
    proof (cases "sbStatus sb = SANDBOX_STOPPED")
      case True
      with False Some sb show thesis
        by (intro unchanged [of "Inr (trim_space raw, True, False, [])"]) (simp_all add: TerminateSandbox_begin_def Let_def)
    next
      case ns: False
      obtain s' cs where loop: "terminate_loop tick (clk 1) (trim_space raw) (keys_of (svcExecutions s)) (s, []) = (s', cs)"
        by fastforce
      have marked: "terminate_loop tick (clk 1) (trim_space raw) (keys_of (svcExecutions s)) (with_sandbox (trim_space raw) ?sb' s, []) =
          (with_sandbox (trim_space raw) ?sb' s', cs)"
        by (simp only: terminate_loop_with_sandbox loop Let_def case_prod_conv)
      have "TerminateSandbox_begin clk tick req s = (with_sandbox (trim_space raw) ?sb' s', Inr (trim_space raw, False,
          (case get (svcBackends s) (sbBackend sb) of None \<Rightarrow> False | Some ad \<Rightarrow> adPersistent ad), cs))"
        using marked False ns unfolding terminate_loop_def with_sandbox_def
        by (simp add: TerminateSandbox_begin_def Some sb Let_def)
      with Some sb ns loop show thesis by (intro stopping) auto
    qed
  qed
qed

lemma in_keys: "get m k = Some v \<Longrightarrow> k \<in> set (keys_of m)"
  unfolding set_keys_of by simp

lemma terminate_loop_all:
  assumes inv: "svc_inv s" and loop: "terminate_loop tick at sid (keys_of (svcExecutions s)) (s, cs0) = (s', cs)"
  shows "get (svcExecutions s') k = None \<longleftrightarrow> get (svcExecutions s) k = None"
    and "get (svcExecutions s) k = Some ex \<Longrightarrow> \<exists>ex'. get (svcExecutions s') k = Some ex' \<and> stopped_exec sid ex ex'"
proof -
  have d: "distinct (keys_of (svcExecutions s))" using svc_inv_gomaps(2) [OF inv] by (simp add: is_gomap_def)
  have self: "\<exists>ex'. get (svcExecutions s') k = Some ex' \<and> stopped_exec sid ex ex'"
    if "get (svcExecutions s) k = Some ex" for ex
    using terminate_loop_self [OF d in_keys [OF that] that, of tick at sid cs0] loop by simp
  then show "get (svcExecutions s) k = Some ex \<Longrightarrow> \<exists>ex'. get (svcExecutions s') k = Some ex' \<and> stopped_exec sid ex ex'" .
  have "get (svcExecutions s') k = None" if "get (svcExecutions s) k = None"
    using terminate_loop_other [of k "keys_of (svcExecutions s)" tick at sid s cs0] that loop by (simp add: set_keys_of)
  with self show "get (svcExecutions s') k = None \<longleftrightarrow> get (svcExecutions s) k = None"
    by (cases "get (svcExecutions s) k") fastforce+
qed

lemma inv_TerminateSandbox_begin:
  assumes inv: "svc_inv s"
  shows "svc_inv (fst (TerminateSandbox_begin clk tick req s))"
proof (cases rule: TerminateSandbox_begin_cases [of clk tick req s])
  case (stopping raw sid sb sb' s' cs pers)
  have s': "svc_inv s'" "svcSandboxes s' = svcSandboxes s"
    using terminate_loop_inv [OF inv] terminate_loop_sandboxes stopping(6) by (metis fst_conv)+
  have sb: "sandbox_ok sb" "sbID sb = sid" using svc_inv_sandbox [OF inv stopping(3)] by simp_all
  have ok: "sandbox_ok sb'"
  proof (cases "sbStatus sb = SANDBOX_STOPPING")
    case False
    have "sandbox_ok (sb\<lparr>sbStatus := SANDBOX_STOPPING\<rparr>)" using sb(1) stopping(4) by (auto simp: sandbox_ok_def)
    with False show ?thesis unfolding stopping(5) by (simp add: sandbox_ok_record)
  qed (simp add: stopping(5) sb)
  have id': "sbID sb' = sid" "sbActiveExecutionID sb' = sbActiveExecutionID sb" "sbDownloadInProgress sb' = sbDownloadInProgress sb"
    using sb(2) by (simp_all add: stopping(5))
  have "svc_inv (s'\<lparr>svcSandboxes := put sid sb' (svcSandboxes s')\<rparr>)"
  proof (rule inv_put_sandbox [OF s'(1) ok id'(1)])
    fix key ex assume ex: "get (svcExecutions s') key = Some ex" "\<not> final ex" "exSandboxID ex = sid"
    obtain ex0 where "get (svcExecutions s) key = Some ex0" "stopped_exec sid ex0 ex"
      using terminate_loop_all [OF inv stopping(6), of key] ex(1) by (cases "get (svcExecutions s) key") auto
    then have "exStatus ex \<noteq> QUEUED"
      using ex by (auto simp: stopped_exec_def isFinalExecutionStatus_def split: if_splits)
    with svc_inv_exec(3) [OF s'(1) ex(1,2)] ex(3) stopping(3) s'(2) id'
    show "sbActiveExecutionID sb' = exID ex \<and> \<not> sbDownloadInProgress sb' \<and> (exStatus ex = QUEUED \<longrightarrow> sbStatus sb' = SANDBOX_READY)"
      by (simp add: active_in_def)
  qed
  with stopping(7) show ?thesis by (simp add: with_sandbox_def)
qed (simp add: inv)

text \<open>
  A sandbox is only marked stopped after it was stopping, so no queued execution is left; this is the
  condition \<open>stoppable\<close>, which the system below keeps for every pending termination.
\<close>

definition stoppable :: "Service \<Rightarrow> string \<Rightarrow> bool" where
  "stoppable s sid \<longleftrightarrow> (case get (svcSandboxes s) sid of None \<Rightarrow> True | Some sb \<Rightarrow> sbStatus sb \<noteq> SANDBOX_READY)"

lemma inv_TerminateSandbox_finish:
  assumes inv: "svc_inv s" and ready: "stoppable s sid"
  shows "svc_inv (fst (TerminateSandbox_finish clk sid err s))"
proof (cases err)
  case None
  show ?thesis
  proof (cases "get (svcSandboxes s) sid")
    case (Some sb)
    let ?sb = "closeSandboxDoneLocked (recordSandboxEventLocked (clk 1) SANDBOX_STOPPED ''sandbox terminated'' (sb\<lparr>sbStatus := SANDBOX_STOPPED\<rparr>))"
    have "svc_inv (s\<lparr>svcSandboxes := put sid ?sb (svcSandboxes s)\<rparr>)" if "sbStatus sb \<noteq> SANDBOX_STOPPED"
    proof (rule inv_put_sandbox [OF inv])
      have "recordSandboxEventLocked (clk 1) SANDBOX_STOPPED ''sandbox terminated'' (sb\<lparr>sbStatus := SANDBOX_STOPPED\<rparr>) =
          recordSandboxEventLocked (clk 1) SANDBOX_STOPPED ''sandbox terminated'' sb"
        by (simp add: recordSandboxEventLocked_def Let_def)
      then show "sandbox_ok ?sb" using svc_inv_sandbox(2) [OF inv Some] by (simp add: sandbox_ok_stop)
      show "sbID ?sb = sid" using svc_inv_sandbox(1) [OF inv Some] by simp
      fix key ex assume "get (svcExecutions s) key = Some ex" "\<not> final ex" "exSandboxID ex = sid"
      with svc_inv_exec(3) [OF inv] Some ready
      show "sbActiveExecutionID ?sb = exID ex \<and> \<not> sbDownloadInProgress ?sb \<and> (exStatus ex = QUEUED \<longrightarrow> sbStatus ?sb = SANDBOX_READY)"
        by (fastforce simp: active_in_def stoppable_def)
    qed
    then show ?thesis using inv None Some by (simp add: TerminateSandbox_finish_def Let_def inv_prune)
  qed (simp add: TerminateSandbox_finish_def None Let_def inv_prune inv)
qed (simp add: TerminateSandbox_finish_def inv)

section \<open>Executions\<close>

lemma new_execution_ok:
  assumes "id_ok sid" "id_ok eid" "kind = KIND_BATCH \<or> kind = KIND_INTERACTIVE \<and> tty"
  shows "exec_ok (new_execution sid eid ir idg cmd l tty kind)"
  using assms by (simp add: exec_ok_def exec_ok_defs new_execution_def isFinalExecutionStatus_def subs_ok_def)

text \<open>What a created execution has checked, and the three ways \<open>CreateExecution\<close> ends.\<close>

lemma CreateExecution_cases:
  obtains (error) e where "CreateExecution gen clk req s = (s, Inl e)"
  | (busy) sid sb where "get (svcSandboxes s) sid = Some sb" "sbStatus sb = SANDBOX_READY" "sbDownloadInProgress sb"
      "\<not> (trim_space (sbActiveExecutionID sb) \<noteq> [] \<and>
         (case get (svcExecutions s) (executionKey sid (sbActiveExecutionID sb)) of None \<Rightarrow> False | Some ex \<Rightarrow> \<not> final ex))"
      "CreateExecution gen clk req s =
         (s\<lparr>svcSandboxes := put sid (if trim_space (sbActiveExecutionID sb) \<noteq> [] then sb\<lparr>sbActiveExecutionID := []\<rparr> else sb)
            (svcSandboxes s)\<rparr>, Inl (BusyDownload sid))"
  | (created) r sid eid sb ir idg launch tty kind ex sb' where "req = Some r" "sid = trim_space (ceSandboxID r)"
      "eid = newExecutionID gen (clk 1)"
      "normalizeCommand (ceCommand r) \<noteq> []"
      "get (svcSandboxes s) sid = Some sb" "sbStatus sb = SANDBOX_READY" "\<not> sbDownloadInProgress sb"
      "\<not> (trim_space (sbActiveExecutionID sb) \<noteq> [] \<and>
         (case get (svcExecutions s) (executionKey sid (sbActiveExecutionID sb)) of None \<Rightarrow> False | Some ex \<Rightarrow> \<not> final ex))"
      "kind = KIND_BATCH \<or> kind = KIND_INTERACTIVE \<and> tty"
      "ex = recordExecutionEventLocked (clk 0)
         (exec_event (new_execution sid eid ir idg (normalizeCommand (ceCommand r)) launch tty kind) QUEUED
            (PMessage ''execution queued'') (clk 0))
         (new_execution sid eid ir idg (normalizeCommand (ceCommand r)) launch tty kind)"
      "sb' = sb\<lparr>sbLastExecutionID := eid, sbActiveExecutionID := eid, sbUpdatedAt := clk 0\<rparr>"
      "CreateExecution gen clk req s =
         (pruneStateLocked (clk 2) (clk 0)
            (s\<lparr>svcExecutions := put (executionKey sid eid) ex (svcExecutions s), svcSandboxes := put sid sb' (svcSandboxes s)\<rparr>),
          Inr (cloneExecutionLocked ex))"
proof (cases "\<exists>e. CreateExecution gen clk req s = (s, Inl e)")
  case True
  then show thesis using error by blast
next
  case ne: False
  then obtain r where r: "req = Some r" by (cases req) (simp_all add: CreateExecution_def)
  obtain launch tty where o: "(case ceOptions r of None \<Rightarrow> (0, False) | Some lt \<Rightarrow> lt) = (launch, tty)" by fastforce
  let ?sid = "trim_space (ceSandboxID r)"
  have p: "?sid \<noteq> []" "normalizeCommand (ceCommand r) \<noteq> []"
    using ne r o by (auto simp: CreateExecution_def Let_def split: if_splits)
  obtain kind where k: "resolveExecutionKind (ceKind r) tty = Inr kind"
    using ne r o p by (cases "resolveExecutionKind (ceKind r) tty") (simp_all add: CreateExecution_def Let_def)
  obtain sb where sb: "get (svcSandboxes s) ?sid = Some sb"
    using ne r o p k by (cases "get (svcSandboxes s) ?sid") (simp_all add: CreateExecution_def Let_def)
  have st: "sbStatus sb = SANDBOX_READY" "get (svcBackends s) (sbBackend sb) \<noteq> None"
    using ne r o p k sb by (auto simp: CreateExecution_def Let_def split: if_splits)
  have busy': "\<not> (trim_space (sbActiveExecutionID sb) \<noteq> [] \<and>
         (case get (svcExecutions s) (executionKey ?sid (sbActiveExecutionID sb)) of None \<Rightarrow> False | Some ex \<Rightarrow> \<not> final ex))"
    using ne r o p k sb st by (simp add: CreateExecution_def Let_def split: if_splits)
  let ?sb = "if trim_space (sbActiveExecutionID sb) \<noteq> [] then sb\<lparr>sbActiveExecutionID := []\<rparr> else sb"
  note facts = CreateExecution_def r option.case o Let_def case_prod_conv p k sum.case sb st if_False busy'
  have d: "sbDownloadInProgress ?sb = sbDownloadInProgress sb" "sbPolicy ?sb = sbPolicy sb" by simp_all
  show thesis
  proof (cases "sbDownloadInProgress sb")
    case True
    then have "CreateExecution gen clk req s = (s\<lparr>svcSandboxes := put ?sid ?sb (svcSandboxes s)\<rparr>, Inl (BusyDownload ?sid))"
      by (simp only: facts d if_True simp_thms)
    with busy sb st(1) True busy' show thesis by blast
  next
    case False
    obtain ir idg where img: "(case sbPolicy sb of None \<Rightarrow> ([], []) | Some p \<Rightarrow> (cpImageRef p, cpImageDigest p)) = (ir, idg)"
      by fastforce
    let ?tty = "kind = KIND_INTERACTIVE \<or> tty" and ?eid = "newExecutionID gen (clk 1)"
    have kk: "kind = KIND_BATCH \<or> kind = KIND_INTERACTIVE \<and> ?tty"
      using k by (cases "ceKind r") (auto simp: resolveExecutionKind_def split: if_splits)
    let ?ex0 = "new_execution ?sid ?eid ir idg (normalizeCommand (ceCommand r)) launch ?tty kind"
    let ?ex = "recordExecutionEventLocked (clk 0) (exec_event ?ex0 QUEUED (PMessage ''execution queued'') (clk 0)) ?ex0"
    have "?sb\<lparr>sbLastExecutionID := ?eid, sbActiveExecutionID := ?eid, sbUpdatedAt := clk 0\<rparr> =
        sb\<lparr>sbLastExecutionID := ?eid, sbActiveExecutionID := ?eid, sbUpdatedAt := clk 0\<rparr>"
      by simp
    moreover have "put ?sid y (put ?sid x m) = put ?sid y m" for x y :: sandboxState and m
      by (simp add: put_def)
    ultimately have "CreateExecution gen clk req s =
        (pruneStateLocked (clk 2) (clk 0)
            (s\<lparr>svcExecutions := put (executionKey ?sid ?eid) ?ex (svcExecutions s),
               svcSandboxes := put ?sid (sb\<lparr>sbLastExecutionID := ?eid, sbActiveExecutionID := ?eid, sbUpdatedAt := clk 0\<rparr>) (svcSandboxes s)\<rparr>),
          Inr (cloneExecutionLocked ?ex))"
      using False img by (simp add: facts d)
    from created [OF r refl refl p(2) sb st(1) False busy' kk refl refl this] show thesis .
  qed
qed

lemma inv_new_execution:
  assumes inv: "svc_inv s" and sb: "get (svcSandboxes s) sid = Some sb" "sbStatus sb = SANDBOX_READY" "\<not> sbDownloadInProgress sb"
    and free: "\<not> (trim_space (sbActiveExecutionID sb) \<noteq> [] \<and>
         (case get (svcExecutions s) (executionKey sid (sbActiveExecutionID sb)) of None \<Rightarrow> False | Some ex \<Rightarrow> \<not> final ex))"
    and ex: "exec_ok ex" "exSandboxID ex = sid" "exID ex = eid" "exStatus ex = QUEUED"
    and sb': "sb' = sb\<lparr>sbLastExecutionID := eid, sbActiveExecutionID := eid, sbUpdatedAt := now\<rparr>"
    and new: "get (svcExecutions s) (executionKey sid eid) = None"
  shows "svc_inv (s\<lparr>svcExecutions := put (executionKey sid eid) ex (svcExecutions s), svcSandboxes := put sid sb' (svcSandboxes s)\<rparr>)"
proof -
  let ?k = "executionKey sid eid"
  have "executions_inv (put sid sb' (svcSandboxes s)) (put ?k ex (svcExecutions s))"
  proof (rule executions_inv_put [OF _ ex(1)])
    have "active_in x (put sid sb' (svcSandboxes s))" if x: "get (svcExecutions s) key = Some x" "\<not> final x" for key x
      using not_busy_no_active [OF inv sb(1) free x(1)] svc_inv_exec(3) [OF inv x] x(2) by (auto simp: active_in_put)
    then show "executions_inv (put sid sb' (svcSandboxes s)) (svcExecutions s)"
      using inv unfolding svc_inv_def executions_inv_def by blast
    show "?k = executionKey (exSandboxID ex) (exID ex)" using ex by simp
    show "active_in ex (put sid sb' (svcSandboxes s))" using ex sb sb' by (simp add: active_in_put)
  qed
  moreover have "sandboxes_inv (put sid sb' (svcSandboxes s))"
    using inv svc_inv_sandbox [OF inv sb(1)] sb' by (simp add: svc_inv_def sandboxes_inv_def)
  moreover have "sessions_inv (put ?k ex (svcExecutions s)) (svcSessions s) (svcAttached s)"
  proof -
    have "live_interactive (put ?k ex (svcExecutions s)) k" if "live_interactive (svcExecutions s) k" for k
      using that new by (cases "k = ?k") (simp_all add: live_interactive_def)
    then show ?thesis using inv unfolding svc_inv_def sessions_inv_def by meson
  qed
  ultimately show ?thesis by (simp add: svc_inv_def)
qed

lemma exec_ids_Inr: "exec_ids req = Inr (a, b) \<Longrightarrow> a \<noteq> [] \<and> b \<noteq> []"
  by (auto simp: exec_ids_def split: option.splits prod.splits if_splits)

text \<open>\<open>CancelExecution\<close>: the three ways it ends for a known execution.\<close>

lemma CancelExecution_cases:
  obtains (unchanged) r where "CancelExecution clk req sig s = (s, r)" "\<forall>rsp. r \<noteq> Inr (rsp, True)"
  | (queued) sid eid ex e where "exec_ids req = Inr (sid, eid)" "get (svcExecutions s) (executionKey sid eid) = Some ex"
      "exStatus ex = QUEUED"
      "CancelExecution clk req sig s =
        (finalizeExecutionInternalLocked (\<lambda>i. clk (i + 1)) (executionKey sid eid)
           (cancel_noted (clk 0) e (if sig = 0 then 2 else sig) ex) CANCELED (cancelExitCode (if sig = 0 then 2 else sig))
           (exMessage ex) ''execution canceled before start'' (clk 0) True s,
         Inr (\<lparr>crAccepted = True, crStatus = CANCELED\<rparr>, False))"
  | (running) sid eid ex e where "exec_ids req = Inr (sid, eid)" "get (svcExecutions s) (executionKey sid eid) = Some ex"
      "\<not> final ex" "exStatus ex \<noteq> QUEUED"
      "CancelExecution clk req sig s =
        (s\<lparr>svcExecutions := put (executionKey sid eid) (cancel_noted (clk 0) e (if sig = 0 then 2 else sig) ex) (svcExecutions s)\<rparr>,
         Inr (\<lparr>crAccepted = True, crStatus = exStatus ex\<rparr>, exCancel ex))"
proof (cases "exec_ids req")
  case (Inl e)
  then show thesis by (intro unchanged [of "Inl e"]) (simp_all add: CancelExecution_def)
next
  case (Inr x)
  obtain sid eid where x: "x = (sid, eid)" by (cases x)
  show thesis
  proof (cases "get (svcExecutions s) (executionKey sid eid)")
    case None
    then show thesis by (intro unchanged [of "Inl (UnknownExecution eid sid)"]) (simp_all add: CancelExecution_def Inr x Let_def)
  next
    case (Some ex)
    show thesis
    proof (cases "final ex")
      case True
      then show thesis by (intro unchanged [of "Inr (\<lparr>crAccepted = False, crStatus = exStatus ex\<rparr>, False)"])
          (simp_all add: CancelExecution_def Inr x Some Let_def)
    next
      case False
      let ?sig = "if sig = 0 then 2 else sig"
      let ?e = "(exec_event (ex\<lparr>exCancelRequested := True, exCancelSignal := ?sig\<rparr>) (exStatus ex)
          (PMessage (''cancel requested (signal='' @ itoa ?sig @ '')'')) (clk 0))\<lparr>eeSandboxID := sid, eeExecutionID := eid\<rparr>"
      have "CancelExecution clk req sig s =
         (if exStatus ex = QUEUED
          then (finalizeExecutionInternalLocked (\<lambda>i. clk (i + 1)) (executionKey sid eid)
             (cancel_noted (clk 0) ?e ?sig ex) CANCELED (cancelExitCode ?sig)
             (exMessage ex) ''execution canceled before start'' (clk 0) True s,
             Inr (\<lparr>crAccepted = True, crStatus = CANCELED\<rparr>, False))
          else (s\<lparr>svcExecutions := put (executionKey sid eid) (cancel_noted (clk 0) ?e ?sig ex) (svcExecutions s)\<rparr>,
             Inr (\<lparr>crAccepted = True, crStatus = exStatus ex\<rparr>, exCancel ex)))"
        using False by (simp add: CancelExecution_def Inr x Some Let_def cancel_noted_def finalizeExecutionLocked_def)
      with queued [of sid eid ex ?e] running [of sid eid ex ?e] Inr x Some False show thesis
        by (cases "exStatus ex = QUEUED") simp_all
    qed
  qed
qed

lemma inv_CancelExecution:
  assumes inv: "svc_inv s"
  shows "svc_inv (fst (CancelExecution clk req sig s))"
proof (cases rule: CancelExecution_cases [of clk req sig s])
  case (queued sid eid ex e)
  then have "\<not> final ex" by (simp add: isFinalExecutionStatus_def)
  from inv_cancel(2) [OF inv queued(2) this queued(3)] queued(4) show ?thesis by simp
next
  case (running sid eid ex e)
  from inv_cancel(1) [OF inv running(2,3)] running(5) show ?thesis by simp
qed (simp add: inv)

section \<open>Interactive sessions\<close>

text \<open>Sessions and attachments may always be removed.\<close>

lemma inv_fewer_sessions:
  assumes inv: "svc_inv s" and S: "\<And>i se. get S' i = Some se \<Longrightarrow> get (svcSessions s) i = Some se" "is_gomap S'"
    and A: "\<And>k. get A' k \<noteq> None \<Longrightarrow> get (svcAttached s) k \<noteq> None" "is_gomap A'"
  shows "svc_inv (s\<lparr>svcSessions := S', svcAttached := A'\<rparr>)"
proof -
  have i: "sessions_inv (svcExecutions s) (svcSessions s) (svcAttached s)" using inv by (simp add: svc_inv_def)
  have A': "get (svcAttached s) k = None \<Longrightarrow> get A' k = None" for k using A(1) [of k] by blast
  have "sessions_inv (svcExecutions s) S' A'"
    unfolding sessions_inv_def
  proof (intro conjI allI impI)
    fix k assume "get A' k \<noteq> None"
    with A(1) i show "live_interactive (svcExecutions s) k" unfolding sessions_inv_def by blast
  next
    fix i j se se' assume "get S' i = Some se \<and> get S' j = Some se' \<and> session_key se = session_key se'"
    with S(1) have "get (svcSessions s) i = Some se" "get (svcSessions s) j = Some se'" "session_key se = session_key se'"
      by blast+
    with \<open>sessions_inv _ _ _\<close> show "i = j" unfolding sessions_inv_def by blast
  next
    fix i se assume "get S' i = Some se"
    with S(1) have "get (svcSessions s) i = Some se" .
    with \<open>sessions_inv _ _ _\<close> A' show "isSessionID se = i" "live_interactive (svcExecutions s) (session_key se)"
      "get A' (session_key se) = None" unfolding sessions_inv_def by blast+
  qed (use S(2) A(2) in simp_all)
  with inv show ?thesis by (simp add: svc_inv_def)
qed

lemma pruned_sessions_get:
  assumes "is_gomap (svcSessions s)"
  shows "get (svcSessions (pruneExpiredInteractiveSessionsLocked c now s)) i = Some se \<longleftrightarrow>
    get (svcSessions s) i = Some se \<and> (if now = 0 then c else now) \<le> isExpiresAt se"
  using get_filter [OF assms, of "\<lambda>i se. \<not> (if now = 0 then c else now) > isExpiresAt se" i]
  by (auto simp: pruneExpiredInteractiveSessionsLocked_def Let_def not_less split: option.splits if_splits)

lemma pruned_sessions_frame [simp]:
  "svcExecutions (pruneExpiredInteractiveSessionsLocked c now s) = svcExecutions s"
  "svcSandboxes (pruneExpiredInteractiveSessionsLocked c now s) = svcSandboxes s"
  "svcAttached (pruneExpiredInteractiveSessionsLocked c now s) = svcAttached s"
  by (simp_all add: pruneExpiredInteractiveSessionsLocked_def Let_def)

lemma inv_pruneExpired:
  assumes inv: "svc_inv s"
  shows "svc_inv (pruneExpiredInteractiveSessionsLocked c now s)"
proof -
  let ?s = "pruneExpiredInteractiveSessionsLocked c now s"
  have "svc_inv (s\<lparr>svcSessions := svcSessions ?s, svcAttached := svcAttached s\<rparr>)"
    using pruned_sessions_get svc_inv_gomaps [OF inv]
    by (intro inv_fewer_sessions [OF inv]) (auto simp: pruneExpiredInteractiveSessionsLocked_def Let_def)
  then show ?thesis by (simp add: svc_inv_def)
qed

lemma hasPending_iff:
  "is_gomap (svcSessions s) \<Longrightarrow> hasPendingInteractiveSessionLocked k s \<longleftrightarrow>
   (\<exists>i se. get (svcSessions s) i = Some se \<and> session_key se = k)"
  by (force simp: hasPendingInteractiveSessionLocked_def list_ex_iff dest: get_Some_in in_get_Some)

lemma inv_put_session:
  assumes inv: "svc_inv s" and live: "live_interactive (svcExecutions s) (session_key se)"
    and no: "get (svcAttached s) (session_key se) = None" "\<not> hasPendingInteractiveSessionLocked (session_key se) s"
    and i: "isSessionID se = i" "get (svcSessions s) i = None"
  shows "svc_inv (s\<lparr>svcSessions := put i se (svcSessions s)\<rparr>)"
proof -
  have n: "\<forall>j se'. get (svcSessions s) j = Some se' \<longrightarrow> session_key se' \<noteq> session_key se"
    using no(2) hasPending_iff [OF svc_inv_gomaps(3) [OF inv]] by blast
  have "sessions_inv (svcExecutions s) (svcSessions s) (svcAttached s)" using inv by (simp add: svc_inv_def)
  then have "sessions_inv (svcExecutions s) (put i se (svcSessions s)) (svcAttached s)"
    using n i live no(1) unfolding sessions_inv_def by (auto split: if_splits) metis+
  with inv show ?thesis by (simp add: svc_inv_def)
qed

text \<open>The two outcomes of \<open>OpenInteractiveExecution\<close>: at most expired sessions go, or a session is added.\<close>

lemma OpenInteractiveExecution_cases:
  obtains (error) e s' where "OpenInteractiveExecution gen random clk req s = (s', Inl e)"
      "s' = s \<or> s' = pruneExpiredInteractiveSessionsLocked (clk 2) (clk 0) s"
  | (opened) sid eid ex se s' rsp where "get (svcExecutions s) (executionKey sid eid) = Some ex"
      "exKind ex = KIND_INTERACTIVE" "\<not> final ex" "s' = pruneExpiredInteractiveSessionsLocked (clk 2) (clk 0) s"
      "get (svcAttached s') (executionKey sid eid) = None" "\<not> hasPendingInteractiveSessionLocked (executionKey sid eid) s'"
      "isSessionID se = newInteractiveSessionID gen (clk 1)" "session_key se = executionKey sid eid"
      "isExpiresAt se = clk 0 + interactiveSessionTokenTTL" "newSessionToken random = Inr (isToken se)"
      "orSessionID rsp = isSessionID se" "orSessionToken rsp = isToken se"
      "OpenInteractiveExecution gen random clk req s =
         (s'\<lparr>svcSessions := put (newInteractiveSessionID gen (clk 1)) se (svcSessions s')\<rparr>, Inr rsp)"
proof (cases "exec_ids (map_option (\<lambda>r. (oiSandboxID r, oiExecutionID r)) req)")
  case (Inl e)
  then show thesis by (intro error [of s]) (simp_all add: OpenInteractiveExecution_def)
next
  case (Inr x)
  obtain sid eid where x: "x = (sid, eid)" by (cases x)
  let ?s = "pruneExpiredInteractiveSessionsLocked (clk 2) (clk 0) s" and ?k = "executionKey sid eid"
  show thesis
  proof (cases "newSessionToken random")
    case (Inl e)
    then show thesis by (intro error [of s]) (simp_all add: OpenInteractiveExecution_def Inr x)
  next
    case tok: (Inr token)
    note eq = OpenInteractiveExecution_def Inr x tok Let_def
    show thesis
    proof (cases "trim_space (svcEndpoint s) = [] \<or> trim_space (svcALPN s) = [] \<or> get (svcExecutions s) ?k = None")
      case True
      then have "fst (OpenInteractiveExecution gen random clk req s) = s \<and>
          isl (snd (OpenInteractiveExecution gen random clk req s))" by (auto simp: eq)
      then show thesis by (metis error isl_def prod.collapse)
    next
      case False
      then obtain ex where ex: "get (svcExecutions s) ?k = Some ex" by auto
      show thesis
      proof (cases "exKind ex = KIND_INTERACTIVE \<and> \<not> final ex")
        case nl: False
        then have "fst (OpenInteractiveExecution gen random clk req s) = s \<and>
            isl (snd (OpenInteractiveExecution gen random clk req s))" using False ex by (auto simp: eq)
        then show thesis by (metis error isl_def prod.collapse)
      next
        case live: True
        show thesis
        proof (cases "get (svcAttached ?s) ?k = None \<and> \<not> hasPendingInteractiveSessionLocked ?k ?s")
          case False
          then have "fst (OpenInteractiveExecution gen random clk req s) = ?s \<and>
              isl (snd (OpenInteractiveExecution gen random clk req s))"
            using \<open>\<not> (trim_space (svcEndpoint s) = [] \<or> _)\<close> ex live by (auto simp: eq)
          then show thesis by (metis error isl_def prod.collapse)
        next
          case True
          let ?i = "newInteractiveSessionID gen (clk 1)"
          let ?se = "\<lparr>isSessionID = ?i, isSandboxID = sid, isExecutionID = eid, isToken = token,
            isExpiresAt = clk 0 + interactiveSessionTokenTTL,
            isInitialCols = oiInitialCols (the req), isInitialRows = oiInitialRows (the req)\<rparr>"
          let ?r = "\<lparr>orSessionID = ?i, orSessionToken = token, orExpiresAt = clk 0 + interactiveSessionTokenTTL,
            orQuicEndpoint = svcEndpoint ?s, orAlpn = svcALPN ?s, orServerCertPinSha256 = svcCertPin ?s\<rparr>"
          have "OpenInteractiveExecution gen random clk req s = (?s\<lparr>svcSessions := put ?i ?se (svcSessions ?s)\<rparr>, Inr ?r)"
            using True False ex live by (simp add: eq)
          with ex live True show thesis by (intro opened [of sid eid ex ?s ?se ?r]) (simp_all add: session_key_def tok)
        qed
      qed
    qed
  qed
qed

lemma inv_OpenInteractiveExecution:
  assumes inv: "svc_inv s" and fresh: "get (svcSessions s) (newInteractiveSessionID gen (clk 1)) = None"
  shows "svc_inv (fst (OpenInteractiveExecution gen random clk req s))"
proof (cases rule: OpenInteractiveExecution_cases [of gen random clk req s])
  case (error e s')
  then show ?thesis using inv inv_pruneExpired by auto
next
  case (opened sid eid ex se s' rsp)
  have "get (svcSessions s') (newInteractiveSessionID gen (clk 1)) = None"
    using fresh pruned_sessions_get [OF svc_inv_gomaps(3) [OF inv]] unfolding opened(4)
    by (metis not_None_eq)
  moreover have "live_interactive (svcExecutions s') (session_key se)"
    using opened(1-4,8) by (simp add: live_interactive_def)
  ultimately show ?thesis
    using opened inv_pruneExpired [OF inv] by (simp, intro inv_put_session) simp_all
qed

end
