(* ===== verification/Service_Handlers_Run.thy ===== *)
theory Service_Handlers_Run
  imports Service_Handlers
begin

text \<open>
  The remaining handlers keep \<open>svc_inv\<close>: consuming and releasing interactive sessions, attached
  input, outputs, subscriptions and the two halves of \<open>runExecution\<close>.
\<close>

section \<open>Consuming and releasing sessions\<close>

text \<open>The outcomes of \<open>ConsumeInteractiveSession\<close>; the expired sessions are gone in all but the first.\<close>

lemma ConsumeInteractiveSession_cases:
  obtains (refused) e where "ConsumeInteractiveSession clk sid tok s = (s, Inl e)"
  | (kept) e s' where "s' = pruneExpiredInteractiveSessionsLocked (clk 1) (clk 0) s"
      "ConsumeInteractiveSession clk sid tok s = (s', Inl e)"
      "\<And>se. get (svcSessions s') (trim_space sid) = Some se \<Longrightarrow> isToken se \<noteq> trim_space tok"
  | (deleted) e s' se where "s' = pruneExpiredInteractiveSessionsLocked (clk 1) (clk 0) s"
      "get (svcSessions s') (trim_space sid) = Some se" "isToken se = trim_space tok"
      "\<not> (live_interactive (svcExecutions s') (session_key se) \<and> get (svcAttached s') (session_key se) = None)"
      "ConsumeInteractiveSession clk sid tok s = (s'\<lparr>svcSessions := del (trim_space sid) (svcSessions s')\<rparr>, Inl e)"
  | (consumed) s' se where "s' = pruneExpiredInteractiveSessionsLocked (clk 1) (clk 0) s"
      "get (svcSessions s') (trim_space sid) = Some se" "isToken se = trim_space tok"
      "live_interactive (svcExecutions s') (session_key se)" "get (svcAttached s') (session_key se) = None"
      "ConsumeInteractiveSession clk sid tok s =
         (s'\<lparr>svcSessions := del (trim_space sid) (svcSessions s'), svcAttached := put (session_key se) () (svcAttached s')\<rparr>,
          Inr \<lparr>insSessionID = isSessionID se, insSandboxID = isSandboxID se, insExecutionID = isExecutionID se,
               insInitialCols = isInitialCols se, insInitialRows = isInitialRows se\<rparr>)"
proof (cases "trim_space sid = [] \<or> trim_space tok = []")
  case True
  then have "fst (ConsumeInteractiveSession clk sid tok s) = s \<and> isl (snd (ConsumeInteractiveSession clk sid tok s))"
    by (auto simp: ConsumeInteractiveSession_def Let_def)
  then show thesis by (metis refused isl_def prod.collapse)
next
  case False
  let ?s = "pruneExpiredInteractiveSessionsLocked (clk 1) (clk 0) s"
  note eq = ConsumeInteractiveSession_def Let_def
  show thesis
  proof (cases "get (svcSessions ?s) (trim_space sid)")
    case None
    with False show thesis by (intro kept [OF refl, of "UnknownSession (trim_space sid)"]) (simp_all add: eq)
  next
    case (Some se)
    show thesis
    proof (cases "isToken se = trim_space tok")
      case tok: False
      with False Some show thesis by (intro kept [OF refl, of InvalidSessionToken]) (simp_all add: eq)
    next
      case tok: True
      show thesis
      proof (cases "live_interactive (svcExecutions ?s) (session_key se) \<and> get (svcAttached ?s) (session_key se) = None")
        case dead: False
        let ?s' = "?s\<lparr>svcSessions := del (trim_space sid) (svcSessions ?s)\<rparr>"
        have "fst (ConsumeInteractiveSession clk sid tok s) = ?s' \<and> isl (snd (ConsumeInteractiveSession clk sid tok s))"
          using False Some tok dead
          by (cases "get (svcExecutions ?s) (session_key se)") (auto simp: eq live_interactive_def)
        then show thesis using deleted [OF refl Some tok dead] by (metis isl_def prod.collapse)
      next
        case True
        then obtain ex where "get (svcExecutions s) (session_key se) = Some ex" "exKind ex = KIND_INTERACTIVE" "\<not> final ex"
          by (auto simp: live_interactive_def split: option.splits)
        with True False Some tok show thesis by (intro consumed [OF refl Some tok]) (simp_all add: eq)
      qed
    qed
  qed
qed

lemma inv_ConsumeInteractiveSession:
  assumes inv: "svc_inv s"
  shows "svc_inv (fst (ConsumeInteractiveSession clk sid tok s))"
proof (cases rule: ConsumeInteractiveSession_cases [of clk sid tok s])
  case (kept e s')
  then show ?thesis using inv_pruneExpired [OF inv] by simp
next
  case (deleted e s' se)
  have inv': "svc_inv s'" using inv_pruneExpired [OF inv] deleted(1) by simp
  have "svc_inv (s'\<lparr>svcSessions := del (trim_space sid) (svcSessions s'), svcAttached := svcAttached s'\<rparr>)"
    using svc_inv_gomaps [OF inv'] by (intro inv_fewer_sessions [OF inv']) (auto split: if_splits)
  then show ?thesis using deleted(5) by (simp add: svc_inv_def)
next
  case (consumed s' se)
  have inv': "svc_inv s'" using inv_pruneExpired [OF inv] consumed(1) by simp
  then have i: "sessions_inv (svcExecutions s') (svcSessions s') (svcAttached s')" by (simp add: svc_inv_def)
  have other: "session_key se' \<noteq> session_key se" if "get (svcSessions s') j = Some se'" "j \<noteq> trim_space sid" for j se'
    using i that consumed(2) unfolding sessions_inv_def by metis
  have "sessions_inv (svcExecutions s') (del (trim_space sid) (svcSessions s')) (put (session_key se) () (svcAttached s'))"
    unfolding sessions_inv_def
  proof (intro conjI allI impI)
    fix j se' assume "get (del (trim_space sid) (svcSessions s')) j = Some se'"
    then have j: "get (svcSessions s') j = Some se'" "j \<noteq> trim_space sid" by (simp_all split: if_splits)
    with i show "isSessionID se' = j" "live_interactive (svcExecutions s') (session_key se')"
      unfolding sessions_inv_def by blast+
    show "get (put (session_key se) () (svcAttached s')) (session_key se') = None"
      using other [OF j] j i unfolding sessions_inv_def by auto
  next
    fix a b sa sb
    assume "get (del (trim_space sid) (svcSessions s')) a = Some sa \<and> get (del (trim_space sid) (svcSessions s')) b = Some sb \<and>
      session_key sa = session_key sb"
    then show "a = b" using i unfolding sessions_inv_def by (auto split: if_splits)
  next
    fix k assume "get (put (session_key se) () (svcAttached s')) k \<noteq> None"
    then show "live_interactive (svcExecutions s') k"
      using i consumed(4) unfolding sessions_inv_def by (auto split: if_splits)
  qed (use svc_inv_gomaps [OF inv'] in simp_all)
  with inv' show ?thesis using consumed(6) by (simp add: svc_inv_def)
qed (simp add: inv)

lemma inv_ReleaseInteractiveExecution:
  assumes inv: "svc_inv s"
  shows "svc_inv (ReleaseInteractiveExecution sid eid s)"
proof -
  have "svc_inv (s\<lparr>svcSessions := svcSessions s, svcAttached := del k (svcAttached s)\<rparr>)" for k
    using svc_inv_gomaps [OF inv] by (intro inv_fewer_sessions [OF inv]) (auto split: if_splits)
  then show ?thesis using inv by (simp add: ReleaseInteractiveExecution_def svc_inv_def)
qed

lemma inv_ConfigureInteractiveTransport: "svc_inv s \<Longrightarrow> svc_inv (ConfigureInteractiveTransport ep alpn pin s)"
  by (simp add: ConfigureInteractiveTransport_def svc_inv_def)

section \<open>Attached input, outputs and subscriptions\<close>

text \<open>An execution that is running has its adapter attached; the adapter's callbacks find it there.\<close>

definition running_at :: "Service \<Rightarrow> string \<Rightarrow> bool" where
  "running_at s k \<longleftrightarrow> (\<exists>ex. get (svcExecutions s) k = Some ex \<and> exStatus ex = RUNNING)"

lemma inv_setExecutionAttachIO:
  assumes inv: "svc_inv s" and run: "running_at s k"
  shows "svc_inv (setExecutionAttachIO k w r s)"
proof -
  obtain ex where ex: "get (svcExecutions s) k = Some ex" "exStatus ex = RUNNING" using run by (auto simp: running_at_def)
  have "exec_ok (ex\<lparr>exAttachStdin := w, exAttachResize := r\<rparr>)"
    using svc_inv_exec(2) [OF inv ex(1)] ex(2) by (simp add: exec_ok_def exec_ok_defs)
  from inv_put_exec [OF inv ex(1) this] show ?thesis using ex inv by (simp add: setExecutionAttachIO_def)
qed

lemma inv_put_core:
  assumes inv: "svc_inv s" and k: "get (svcExecutions s) k = Some ex" and c: "core ex' = core ex" and b: "exec_bounds_ok ex'"
  shows "svc_inv (s\<lparr>svcExecutions := put k ex' (svcExecutions s)\<rparr>)"
  using core_eqD [OF c] exec_ok_core [OF c b svc_inv_exec(2) [OF inv k]]
  by (intro inv_put_exec [OF inv k]) simp_all

lemma inv_recordExecutionOutputChunk:
  assumes inv: "svc_inv s"
  shows "svc_inv (recordExecutionOutputChunk now k b chunk s)"
proof (cases "get (svcExecutions s) k")
  case (Some ex)
  have "exec_bounds_ok ex" using svc_inv_exec(2) [OF inv Some] by (simp add: exec_ok_def)
  then show ?thesis
    using inv by (simp add: recordExecutionOutputChunk_def Some inv_put_core [OF inv Some])
qed (simp add: recordExecutionOutputChunk_def inv)

lemma inv_executionOutputStream:
  "svc_inv s \<Longrightarrow> running_at s k \<Longrightarrow> svc_inv (executionOutputStream now k c s)"
  by (cases c) (simp_all add: executionOutputStream_def inv_recordExecutionOutputChunk inv_setExecutionAttachIO)

lemma inv_SubscribeExecutionEvents:
  assumes inv: "svc_inv s"
  shows "svc_inv (fst (SubscribeExecutionEvents a b s))"
proof (cases "exec_ids (Some (a, b))")
  case (Inr x)
  obtain sid eid where x: "x = (sid, eid)" by (cases x)
  show ?thesis
  proof (cases "get (svcExecutions s) (executionKey sid eid)")
    case (Some ex)
    have b: "exec_bounds_ok ex" using svc_inv_exec(2) [OF inv Some] by (simp add: exec_ok_def)
    have "exec_bounds_ok (ex\<lparr>exNextSubID := exNextSubID ex + 1, exEventSubscribers := put (exNextSubID ex) [] (exEventSubscribers ex)\<rparr>)"
      "exec_bounds_ok (ex\<lparr>exNextSubID := exNextSubID ex + 1\<rparr>)"
      using b by (simp_all add: exec_bounds_ok_def subs_ok_put subs_ok_mono)
    then show ?thesis
      by (simp add: SubscribeExecutionEvents_def Inr x Some Let_def inv_put_core [OF inv Some] core_def)
  qed (simp add: SubscribeExecutionEvents_def Inr x Let_def inv)
qed (simp add: SubscribeExecutionEvents_def inv)

lemma inv_unsubscribeExecution:
  assumes inv: "svc_inv s"
  shows "svc_inv (unsubscribeExecution a b i s)"
proof (cases "get (svcExecutions s) (executionKey a b)")
  case (Some ex)
  have "exec_bounds_ok ex" using svc_inv_exec(2) [OF inv Some] by (simp add: exec_ok_def)
  then have "exec_bounds_ok (ex\<lparr>exEventSubscribers := del i (exEventSubscribers ex)\<rparr>)"
    by (simp add: exec_bounds_ok_def subs_ok_del)
  then show ?thesis by (simp add: unsubscribeExecution_def Some inv_put_core [OF inv Some] core_def)
qed (simp add: unsubscribeExecution_def inv)

lemma inv_SubscribeSandboxEvents:
  assumes inv: "svc_inv s"
  shows "svc_inv (fst (SubscribeSandboxEvents a s))"
proof (cases "trim_space a = [] \<or> get (svcSandboxes s) (trim_space a) = None")
  case False
  then obtain sb where sb: "get (svcSandboxes s) (trim_space a) = Some sb" by auto
  have ok: "sandbox_ok sb" using svc_inv_sandbox(2) [OF inv sb] .
  let ?sb = "sb\<lparr>sbNextSubID := sbNextSubID sb + 1\<rparr>"
  let ?sb' = "if sbDoneClosed sb then ?sb else ?sb\<lparr>sbEventSubscribers := put (sbNextSubID sb) [] (sbEventSubscribers sb)\<rparr>"
  have "sandbox_ok ?sb'" using ok by (auto simp: sandbox_ok_def subs_ok_put subs_ok_mono)
  then have "svc_inv (s\<lparr>svcSandboxes := put (trim_space a) ?sb' (svcSandboxes s)\<rparr>)"
    by (intro inv_put_sandbox_same [OF inv sb]) simp_all
  then show ?thesis using False sb by (simp add: SubscribeSandboxEvents_def Let_def)
qed (auto simp: SubscribeSandboxEvents_def inv)

lemma inv_unsubscribeSandbox:
  assumes inv: "svc_inv s"
  shows "svc_inv (unsubscribeSandbox a i s)"
proof (cases "get (svcSandboxes s) a")
  case (Some sb)
  have "sandbox_ok (sb\<lparr>sbEventSubscribers := del i (sbEventSubscribers sb)\<rparr>)"
    using svc_inv_sandbox(2) [OF inv Some] by (simp add: sandbox_ok_def subs_ok_del)
  then have "svc_inv (s\<lparr>svcSandboxes := put a (sb\<lparr>sbEventSubscribers := del i (sbEventSubscribers sb)\<rparr>) (svcSandboxes s)\<rparr>)"
    by (intro inv_put_sandbox_same [OF inv Some]) simp_all
  then show ?thesis by (simp add: unsubscribeSandbox_def Some)
qed (simp add: unsubscribeSandbox_def inv)

section \<open>Running an execution\<close>

text \<open>
  The two ways the first half of \<open>runExecution\<close> ends when the execution is still queued in a ready
  sandbox; by the invariant a queued execution has one, so the checks of the source for a missing or
  stopped sandbox never fire there.
\<close>

lemma runExecution_start_cases:
  assumes inv: "svc_inv s" and q: "\<not> running_at s (executionKey sid eid)"
    and ids: "id_ok sid"
  obtains (gone) "runExecution_start env gen clk sid eid s = (s, None)"
      "\<And>ex. get (svcExecutions s) (executionKey sid eid) = Some ex \<Longrightarrow> final ex"
  | (no_backend) ex em where "get (svcExecutions s) (executionKey sid eid) = Some ex" "exStatus ex = QUEUED"
      "runExecution_start env gen clk sid eid s =
         (finalizeExecutionInternalLocked (\<lambda>i. clk (i + 1)) (executionKey sid eid) ex FAILED 1 (exMessage ex) em (clk 0) True s, None)"
  | (running) ex ex' sb ad req where "get (svcExecutions s) (executionKey sid eid) = Some ex" "exStatus ex = QUEUED"
      "get (svcSandboxes s) sid = Some sb" "sbStatus sb = SANDBOX_READY" "get (svcBackends s) (sbBackend sb) = Some ad"
      "core ex' = core (ex\<lparr>exCancel := True, exStatus := RUNNING\<rparr>)" "exec_bounds_ok ex'" "exStartedAt ex' = Some (clk 0)"
      "rrSandboxID req = sid" "rrCommand req = exCommand ex" "rrTTY req = exTTY ex" "rrPolicy req = sbPolicy sb"
      "runExecution_start env gen clk sid eid s =
         (s\<lparr>svcExecutions := put (executionKey sid eid) ex' (svcExecutions s)\<rparr>, Some (ad, req))"
proof (cases "get (svcExecutions s) (executionKey sid eid)")
  case None
  then show thesis by (intro gone) (simp_all add: runExecution_start_def Let_def)
next
  case (Some ex)
  note ok = svc_inv_exec [OF inv Some]
  show thesis
  proof (cases "final ex")
    case True
    with Some show thesis by (intro gone) (simp_all add: runExecution_start_def Let_def)
  next
    case nf: False
    have qd: "exStatus ex = QUEUED"
      using ok(2) nf q Some by (auto simp: running_at_def exec_ok_def exec_flags_ok_def isFinalExecutionStatus_def)
    have same: "exSandboxID ex = sid"
      using ok(1,2) ids executionKey_id_inj [of sid "exSandboxID ex" eid "exID ex"]
      by (simp add: exec_ok_def exec_ids_ok_def)
    obtain sb where sb: "get (svcSandboxes s) sid = Some sb" "sbStatus sb = SANDBOX_READY"
      using ok(3) [OF nf] same qd by (auto simp: active_in_def split: option.splits)
    show thesis
    proof (cases "get (svcBackends s) (sbBackend sb)")
      case None
      with Some nf sb qd show thesis
        by (intro no_backend) (simp_all add: runExecution_start_def Let_def finalizeExecutionLocked_def)
    next
      case ad: (Some ad)
      define x where "x = ex\<lparr>exCancel := True, exStartedAt := Some (clk 0), exStatus := RUNNING, exRunID := newRunID gen (clk 1)\<rparr>"
      define y where "y = (case sbPolicy sb of None \<Rightarrow> x | Some p \<Rightarrow> x\<lparr>exImageRef := cpImageRef p, exImageDigest := cpImageDigest p\<rparr>)"
      define z where "z = recordExecutionEventLocked (clk 0)
        ((exec_event y (exStatus y) (PMessage ''execution started'') (clk 0))\<lparr>eeSandboxID := sid, eeExecutionID := eid\<rparr>) y"
      have y: "core y = core (ex\<lparr>exCancel := True, exStatus := RUNNING\<rparr>)" "exec_bounds_ok y" "exStartedAt y = Some (clk 0)"
          "exCommand y = exCommand ex" "exTTY y = exTTY ex"
        using ok(2) by (simp_all add: y_def x_def core_def exec_ok_def exec_bounds_ok_def split: option.split)
      have z: "core z = core (ex\<lparr>exCancel := True, exStatus := RUNNING\<rparr>)" "exec_bounds_ok z"
        unfolding z_def using y by simp_all
      have z': "exStartedAt z = Some (clk 0)" "exCommand z = exCommand ex" "exTTY z = exTTY ex"
        unfolding z_def recordExecutionEventLocked_eq using y by simp_all
      have "runExecution_start env gen clk sid eid s =
         (s\<lparr>svcExecutions := put (executionKey sid eid) z (svcExecutions s)\<rparr>,
          Some (ad, \<lparr>rrSandboxID = sid, rrRunID = exRunID z, rrCommand = exCommand z, rrTTY = exTTY z, rrPolicy = sbPolicy sb,
            rrConfig = run_config env (sbFirecracker sb) z\<rparr>))"
        by (simp only: runExecution_start_def Let_def Some option.case nf sb ad if_False simp_thms z_def y_def x_def)
      from running [OF Some qd sb ad z z'(1) _ _ _ _ this] z' show thesis by simp
    qed
  qed
qed

lemma inv_runExecution_start:
  assumes inv: "svc_inv s" and q: "\<not> running_at s (executionKey sid eid)"
    and ids: "id_ok sid" and nc: "\<And>ex. get (svcExecutions s) (executionKey sid eid) = Some ex \<Longrightarrow> exStatus ex = QUEUED \<Longrightarrow> \<not> exCancelRequested ex"
  shows "svc_inv (fst (runExecution_start env gen clk sid eid s))"
proof (cases rule: runExecution_start_cases [OF inv q ids, where env = env and gen = gen and clk = clk, case_names gone no_backend running])
  case (no_backend ex em)
  have "exec_ok ex" using svc_inv_exec(2) [OF inv no_backend(1)] .
  then show ?thesis
    unfolding no_backend(3) fst_conv
    using queued_flags [of ex] no_backend nc [OF no_backend(1)]
    by (intro inv_finalizeExecution [OF inv no_backend(1)]) (simp_all add: exec_ok_def)
next
  case (running ex ex' sb ad req)
  have "exec_ok (ex\<lparr>exCancel := True, exStatus := RUNNING\<rparr>)"
    using svc_inv_exec(2) [OF inv running(1)] running(2)
    by (simp add: exec_ok_def exec_ok_defs isFinalExecutionStatus_def)
  from exec_ok_core [OF running(6,7) this] running core_eqD [OF running(6)] show ?thesis
    by (simp, intro inv_put_exec [OF inv running(1)]) (simp_all add: isFinalExecutionStatus_def)
qed (simp_all add: inv)

text \<open>The second half of \<open>runExecution\<close>, for an execution that is running.\<close>

definition detach :: "time \<Rightarrow> string \<Rightarrow> string \<Rightarrow> Service \<Rightarrow> Service" where
  "detach now sid eid s =
     (case get (svcSandboxes s) sid of
        None \<Rightarrow> s
      | Some sb \<Rightarrow>
          if sbActiveExecutionID sb = eid
          then s\<lparr>svcSandboxes := put sid (sb\<lparr>sbActiveExecutionID := [], sbUpdatedAt := now\<rparr>) (svcSandboxes s)\<rparr>
          else s)"

lemma runExecution_finish_cases:
  assumes inv: "svc_inv s" and k: "get (svcExecutions s) (executionKey sid eid) = Some ex"
    and ctx: "ctxErr = Some ContextCanceled \<Longrightarrow> exCancelRequested ex" "ctxErr \<noteq> Some DeadlineExceeded"
  obtains ex' st c m where
    "core ex' = core (ex\<lparr>exCancel := False, exAttachStdin := False, exAttachResize := False\<rparr>)" "exec_bounds_ok ex'"
    "st \<in> {SUCCEEDED, FAILED, CANCELED}" "(st = CANCELED) = exCancelRequested ex"
    "st = CANCELED \<Longrightarrow> c = cancelExitCode (exCancelSignal ex)" "st = SUCCEEDED \<Longrightarrow> c = 0"
    "runExecution_finish clk sid eid outcome streaming ctxErr s =
       finalizeExecutionInternalLocked (\<lambda>i. clk (i + 5)) (executionKey sid eid) ex' st c m [] (clk 4) True (detach (clk 0) sid eid s)"
proof -
  define x where "x = clearExecutionAttachIOLocked (ex\<lparr>exCancel := False\<rparr>)"
  have x: "core x = core (ex\<lparr>exCancel := False, exAttachStdin := False, exAttachResize := False\<rparr>)" "exec_bounds_ok x"
    using svc_inv_exec(2) [OF inv k]
    by (simp_all add: x_def clearExecutionAttachIOLocked_def core_def exec_ok_def exec_bounds_ok_def)
  have cr: "exCancelRequested x = exCancelRequested ex" "exCancelSignal x = exCancelSignal ex"
    by (simp_all add: x_def clearExecutionAttachIOLocked_def)
  have start: "runExecution_finish clk sid eid outcome streaming ctxErr s =
    (case outcome of
       Inl err \<Rightarrow>
         (let (st, c) = executionRunErrorStatus x ctxErr;
              y = (if trim_space err \<noteq> [] then appendExecutionStderrLocked (clk 1) st (err @ [CHR 0x0A]) x else x)
          in finalizeExecutionLocked (\<lambda>i. clk (i + 5)) (executionKey sid eid) y st c err [] (clk 4) (detach (clk 0) sid eid s))
     | Inr result \<Rightarrow>
         (let y = mergeBufferedResultOutputLocked (\<lambda>i. clk (i + 1)) result streaming (apply_result result x);
              y = (if resExitCode result \<noteq> 0 \<and> trim_space (resMessage result) \<noteq> [] \<and> \<not> contains_str (exStderr y) (resMessage result)
                   then appendExecutionStderrLocked (clk 3) RUNNING (resMessage result @ [CHR 0x0A]) y else y);
              (st, c) = result_status y result
          in finalizeExecutionLocked (\<lambda>i. clk (i + 5)) (executionKey sid eid) y st c (exMessage y) [] (clk 4) (detach (clk 0) sid eid s)))"
    unfolding runExecution_finish_def Let_def k option.case x_def detach_def by (rule refl)
  show thesis
  proof (cases outcome)
    case (Inl err)
    obtain st c where st: "executionRunErrorStatus x ctxErr = (st, c)" by fastforce
    let ?y = "if trim_space err \<noteq> [] then appendExecutionStderrLocked (clk 1) st (err @ [CHR 0x0A]) x else x"
    have s: "st \<in> {SUCCEEDED, FAILED, CANCELED}" "(st = CANCELED) = exCancelRequested ex"
      "st = CANCELED \<Longrightarrow> c = cancelExitCode (exCancelSignal ex)" "st = SUCCEEDED \<Longrightarrow> c = 0"
      using st ctx cr by (auto simp: executionRunErrorStatus_def split: if_splits)
    have "runExecution_finish clk sid eid outcome streaming ctxErr s =
       finalizeExecutionInternalLocked (\<lambda>i. clk (i + 5)) (executionKey sid eid) ?y st c err [] (clk 4) True (detach (clk 0) sid eid s)"
      unfolding start unfolding Inl by (simp only: sum.case Let_def st case_prod_conv finalizeExecutionLocked_def)
    from that [OF _ _ s this] x show thesis by simp
  next
    case (Inr result)
    define y where "y = mergeBufferedResultOutputLocked (\<lambda>i. clk (i + 1)) result streaming (apply_result result x)"
    define z where "z = (if resExitCode result \<noteq> 0 \<and> trim_space (resMessage result) \<noteq> [] \<and> \<not> contains_str (exStderr y) (resMessage result)
      then appendExecutionStderrLocked (clk 3) RUNNING (resMessage result @ [CHR 0x0A]) y else y)"
    have z: "core z = core x" "exec_bounds_ok z" using x(2) by (simp_all add: z_def y_def)
    obtain st c where st: "result_status z result = (st, c)" by fastforce
    have s: "st \<in> {SUCCEEDED, FAILED, CANCELED}" "(st = CANCELED) = exCancelRequested ex"
      "st = CANCELED \<Longrightarrow> c = cancelExitCode (exCancelSignal ex)" "st = SUCCEEDED \<Longrightarrow> c = 0"
      using st cr core_eqD [OF z(1)] by (auto simp: result_status_def to_int32_id split: if_splits)
    have "runExecution_finish clk sid eid outcome streaming ctxErr s =
       finalizeExecutionInternalLocked (\<lambda>i. clk (i + 5)) (executionKey sid eid) z st c (exMessage z) [] (clk 4) True (detach (clk 0) sid eid s)"
      unfolding start unfolding Inr by (simp only: sum.case Let_def y_def [symmetric] z_def [symmetric] st case_prod_conv finalizeExecutionLocked_def)
    from that [OF _ z(2) s this] z(1) x(1) show thesis by simp
  qed
qed

lemma detach_inv:
  assumes inv: "svc_inv s" and k: "get (svcExecutions s) (executionKey sid eid) = Some ex" "final ex" and ids: "id_ok sid"
  shows "svc_inv (detach now sid eid s)"
proof (cases "get (svcSandboxes s) sid")
  case (Some sb)
  have "svc_inv (s\<lparr>svcSandboxes := put sid (sb\<lparr>sbActiveExecutionID := [], sbUpdatedAt := now\<rparr>) (svcSandboxes s)\<rparr>)"
    if a: "sbActiveExecutionID sb = eid"
  proof (rule inv_put_sandbox [OF inv])
    show "sandbox_ok (sb\<lparr>sbActiveExecutionID := [], sbUpdatedAt := now\<rparr>)" "sbID (sb\<lparr>sbActiveExecutionID := [], sbUpdatedAt := now\<rparr>) = sid"
      using svc_inv_sandbox [OF inv Some] by simp_all
    fix key x assume x: "get (svcExecutions s) key = Some x" "\<not> final x" "exSandboxID x = sid"
    with svc_inv_exec [OF inv x(1)] Some a have "key = executionKey sid eid" by (auto simp: active_in_def)
    with x k show "sbActiveExecutionID (sb\<lparr>sbActiveExecutionID := [], sbUpdatedAt := now\<rparr>) = exID x \<and>
      \<not> sbDownloadInProgress (sb\<lparr>sbActiveExecutionID := [], sbUpdatedAt := now\<rparr>) \<and>
      (exStatus x = QUEUED \<longrightarrow> sbStatus (sb\<lparr>sbActiveExecutionID := [], sbUpdatedAt := now\<rparr>) = SANDBOX_READY)" by simp
  qed
  with Some inv show ?thesis by (simp add: detach_def)
qed (simp add: detach_def inv)

text \<open>Detaching and finalising without pruning commute, so the invariant holds when both are done.\<close>

lemma finalize_detach:
  "finalizeExecutionInternalLocked clk k ex st c m em t False (detach now sid eid s) =
   detach now sid eid (finalizeExecutionInternalLocked clk k ex st c m em t False s)"
  by (simp add: finalizeExecutionInternalLocked_eq detach_def clearInteractiveExecutionStateLocked_def Let_def split: option.split)

lemma finalize_prune:
  "finalizeExecutionInternalLocked clk k ex st c m em t True s =
   pruneStateLocked (clk 1) (if t = 0 then clk 0 else t) (finalizeExecutionInternalLocked clk k ex st c m em t False s)"
  by (simp add: finalizeExecutionInternalLocked_eq Let_def)

lemma finalize_get:
  "get (svcExecutions (finalizeExecutionInternalLocked clk k ex st c m em t False s)) k' =
   (if k' = k then Some (finalized (if t = 0 then clk 0 else t) st c m em ex) else get (svcExecutions s) k')"
  by (simp add: finalizeExecutionInternalLocked_eq clearInteractiveExecutionStateLocked_def Let_def)

lemma inv_runExecution_finish:
  assumes inv: "svc_inv s" and k: "get (svcExecutions s) (executionKey sid eid) = Some ex" and ids: "id_ok sid"
    and ctx: "ctxErr = Some ContextCanceled \<Longrightarrow> exCancelRequested ex" "ctxErr \<noteq> Some DeadlineExceeded"
  shows "svc_inv (runExecution_finish clk sid eid outcome streaming ctxErr s)"
proof -
  obtain ex' st c m where f: "core ex' = core (ex\<lparr>exCancel := False, exAttachStdin := False, exAttachResize := False\<rparr>)" "exec_bounds_ok ex'"
    "st \<in> {SUCCEEDED, FAILED, CANCELED}" "(st = CANCELED) = exCancelRequested ex"
    "st = CANCELED \<Longrightarrow> c = cancelExitCode (exCancelSignal ex)" "st = SUCCEEDED \<Longrightarrow> c = 0"
    "runExecution_finish clk sid eid outcome streaming ctxErr s =
       finalizeExecutionInternalLocked (\<lambda>i. clk (i + 5)) (executionKey sid eid) ex' st c m [] (clk 4) True (detach (clk 0) sid eid s)"
    using runExecution_finish_cases [OF inv k ctx, where clk = clk and outcome = outcome and streaming = streaming] by blast
  let ?f = "finalizeExecutionInternalLocked (\<lambda>i. clk (i + 5)) (executionKey sid eid) ex' st c m [] (clk 4) False"
  have "exec_kind_ok ex'"
    using svc_inv_exec(2) [OF inv k] core_eqD [OF f(1)] by (simp add: exec_ok_def exec_kind_ok_def)
  then have "svc_inv (?f s)"
    using f core_eqD [OF f(1)] by (intro inv_finalizeExecution [OF inv k]) simp_all
  moreover have "get (svcExecutions (?f s)) (executionKey sid eid) = Some (finalized (if clk 4 = 0 then clk (0 + 5) else clk 4) st c m [] ex')"
    by (simp add: finalize_get)
  ultimately have "svc_inv (detach (clk 0) sid eid (?f s))"
    using f(3) ids by (intro detach_inv) (auto simp: isFinalExecutionStatus_def)
  then show ?thesis unfolding f(7) finalize_prune finalize_detach by (rule inv_prune)
qed

end
