(* ===== verification/Service_System.thy ===== *)
theory Service_System
  imports Service_Handlers_Run
begin

text \<open>
  The control service as a system: its state with the goroutines and calls that are under way, and a
  step relation with one rule for each critical section. Steps interleave freely, as handlers run
  concurrently. Reachable states satisfy \<open>sys_inv\<close>.

  Hypotheses of the rules on the type-id generator: an identifier it returns has the shape \<open>id_ok\<close> and
  was not issued before. The context of a run is only ever cancelled through the cancel function the
  service stores, so its error is \<open>context.Canceled\<close> after such a call and never a deadline.
\<close>

section \<open>States and steps\<close>

record sys =
  sysService :: Service
  sysIssued :: "string list"
  sysQueued :: "(string \<times> string) list"
  sysRunning :: "(string \<times> string) list"
  sysCancels :: "string list"
  sysDownloads :: "string list"
  sysTerminations :: "(string \<times> bool) list"

definition initial :: "Config \<Rightarrow> (string, adapter) gomap \<Rightarrow> sys" where
  "initial cfg backends =
     \<lparr>sysService = \<lparr>svcConfig = cfg, svcBackends = backends, svcSandboxes = [], svcExecutions = [],
        svcSessions = [], svcAttached = [], svcEndpoint = [], svcALPN = [], svcCertPin = []\<rparr>,
      sysIssued = [], sysQueued = [], sysRunning = [], sysCancels = [], sysDownloads = [], sysTerminations = []\<rparr>"

definition fresh_id :: "string \<Rightarrow> sys \<Rightarrow> bool" where
  "fresh_id i x \<longleftrightarrow> id_ok i \<and> i \<notin> set (sysIssued x)"

text \<open>A subscriber takes the first event from its channel.\<close>

definition receiveExecution :: "string \<Rightarrow> int \<Rightarrow> Service \<Rightarrow> Service" where
  "receiveExecution k i s =
     (case get (svcExecutions s) k of
        None \<Rightarrow> s
      | Some ex \<Rightarrow>
          (case get (exEventSubscribers ex) i of
             None \<Rightarrow> s
           | Some ch \<Rightarrow> s\<lparr>svcExecutions := put k (ex\<lparr>exEventSubscribers := put i (tl ch) (exEventSubscribers ex)\<rparr>) (svcExecutions s)\<rparr>))"

definition receiveSandbox :: "string \<Rightarrow> int \<Rightarrow> Service \<Rightarrow> Service" where
  "receiveSandbox k i s =
     (case get (svcSandboxes s) k of
        None \<Rightarrow> s
      | Some sb \<Rightarrow>
          (case get (sbEventSubscribers sb) i of
             None \<Rightarrow> s
           | Some ch \<Rightarrow> s\<lparr>svcSandboxes := put k (sb\<lparr>sbEventSubscribers := put i (tl ch) (sbEventSubscribers sb)\<rparr>) (svcSandboxes s)\<rparr>))"

text \<open>The handlers that only touch the service, and need nothing of the system.\<close>

inductive local_step :: "Service \<Rightarrow> Service \<Rightarrow> bool" where
  consume: "local_step s (fst (ConsumeInteractiveSession clk i tok s))"
| release: "local_step s (ReleaseInteractiveExecution a b s)"
| configure: "local_step s (ConfigureInteractiveTransport e a p s)"
| download_refused: "DownloadSandboxFile_begin req s = (s', Inl e) \<Longrightarrow> local_step s s'"
| create_refused: "CreateExecution gen clk req s = (s', Inl e) \<Longrightarrow> local_step s s'"
| subscribe_sandbox: "local_step s (fst (SubscribeSandboxEvents a s))"
| unsubscribe_sandbox: "local_step s (unsubscribeSandbox a i s)"
| subscribe_execution: "local_step s (fst (SubscribeExecutionEvents a b s))"
| unsubscribe_execution: "local_step s (unsubscribeExecution a b i s)"
| receive_sandbox: "local_step s (receiveSandbox k i s)"
| receive_execution: "local_step s (receiveExecution k i s)"

inductive sys_step :: "sys \<Rightarrow> sys \<Rightarrow> bool" where
  local: "local_step (sysService x) s' \<Longrightarrow> sys_step x (x\<lparr>sysService := s'\<rparr>)"
| create_sandbox: "fresh_id (newSandboxID gen (clk 1)) x \<Longrightarrow>
    sys_step x (x\<lparr>sysService := fst (CreateSandbox env gen provision clk req (sysService x)),
                  sysIssued := newSandboxID gen (clk 1) # sysIssued x\<rparr>)"
| open_session: "fresh_id (newInteractiveSessionID gen (clk 1)) x \<Longrightarrow>
    sys_step x (x\<lparr>sysService := fst (OpenInteractiveExecution gen random clk oreq (sysService x)),
                  sysIssued := newInteractiveSessionID gen (clk 1) # sysIssued x\<rparr>)"
| download_begin: "DownloadSandboxFile_begin dreq (sysService x) = (s', Inr (sid, path, n)) \<Longrightarrow>
    sys_step x (x\<lparr>sysService := s', sysDownloads := sid # sysDownloads x\<rparr>)"
| download_finish: "sid \<in> set (sysDownloads x) \<Longrightarrow>
    sys_step x (x\<lparr>sysService := DownloadSandboxFile_finish sid (sysService x),
                  sysDownloads := remove1 sid (sysDownloads x)\<rparr>)"
| terminate_refused: "TerminateSandbox_begin clk tick treq (sysService x) = (s', Inl e) \<Longrightarrow>
    sys_step x (x\<lparr>sysService := s'\<rparr>)"
| terminate_begin: "TerminateSandbox_begin clk tick treq (sysService x) = (s', Inr (sid, stopped, pers, cs)) \<Longrightarrow>
    sys_step x (x\<lparr>sysService := s', sysTerminations := (sid, pers) # sysTerminations x, sysCancels := cs @ sysCancels x\<rparr>)"
| terminate_finish: "(sid, pers) \<in> set (sysTerminations x) \<Longrightarrow> pers \<or> err = None \<Longrightarrow>
    sys_step x (x\<lparr>sysService := fst (TerminateSandbox_finish clk sid err (sysService x)),
                  sysTerminations := remove1 (sid, pers) (sysTerminations x)\<rparr>)"
| create_execution: "fresh_id (newExecutionID gen (clk 1)) x \<Longrightarrow>
    CreateExecution gen clk ereq (sysService x) = (s', Inr pe) \<Longrightarrow>
    sys_step x (x\<lparr>sysService := s', sysIssued := newExecutionID gen (clk 1) # sysIssued x,
                  sysQueued := (peSandboxID pe, peExecutionID pe) # sysQueued x\<rparr>)"
| cancel_refused: "CancelExecution clk creq sig (sysService x) = (s', Inl e) \<Longrightarrow> sys_step x (x\<lparr>sysService := s'\<rparr>)"
| cancel: "CancelExecution clk (Some (a, b)) sig (sysService x) = (s', Inr (rsp, call)) \<Longrightarrow>
    sys_step x (x\<lparr>sysService := s',
      sysCancels := (if call then [executionKey (trim_space a) (trim_space b)] else []) @ sysCancels x\<rparr>)"
| start_ended: "(sid, eid) \<in> set (sysQueued x) \<Longrightarrow> runExecution_start env gen clk sid eid (sysService x) = (s', None) \<Longrightarrow>
    sys_step x (x\<lparr>sysService := s', sysQueued := remove1 (sid, eid) (sysQueued x)\<rparr>)"
| start_running: "(sid, eid) \<in> set (sysQueued x) \<Longrightarrow> runExecution_start env gen clk sid eid (sysService x) = (s', Some run) \<Longrightarrow>
    sys_step x (x\<lparr>sysService := s', sysQueued := remove1 (sid, eid) (sysQueued x),
                  sysRunning := (sid, eid) # sysRunning x\<rparr>)"
| stream: "(sid, eid) \<in> set (sysRunning x) \<Longrightarrow>
    sys_step x (x\<lparr>sysService := executionOutputStream now (executionKey sid eid) c (sysService x)\<rparr>)"
| finish: "(sid, eid) \<in> set (sysRunning x) \<Longrightarrow>
    ctxErr = None \<or> ctxErr = Some ContextCanceled \<and> executionKey sid eid \<in> set (sysCancels x) \<Longrightarrow>
    sys_step x (x\<lparr>sysService := runExecution_finish clk sid eid outcome streaming ctxErr (sysService x),
                  sysRunning := remove1 (sid, eid) (sysRunning x)\<rparr>)"

inductive reachable :: "sys \<Rightarrow> bool" where
  start: "reachable (initial cfg backends)"
| step: "reachable x \<Longrightarrow> sys_step x y \<Longrightarrow> reachable y"

section \<open>The invariant of the system\<close>

definition issued_inv :: "string set \<Rightarrow> Service \<Rightarrow> bool" where
  "issued_inv I s \<longleftrightarrow>
     (\<forall>k sb. get (svcSandboxes s) k = Some sb \<longrightarrow> k \<in> I) \<and>
     (\<forall>k ex. get (svcExecutions s) k = Some ex \<longrightarrow> exID ex \<in> I) \<and>
     (\<forall>i se. get (svcSessions s) i = Some se \<longrightarrow> i \<in> I)"

text \<open>Every execution that is not final has its goroutine, and every running goroutine its execution.\<close>

definition goroutines_inv :: "(string \<times> string) list \<Rightarrow> (string \<times> string) list \<Rightarrow> Service \<Rightarrow> bool" where
  "goroutines_inv Q R s \<longleftrightarrow> distinct (Q @ R) \<and> (\<forall>(a, b) \<in> set (Q @ R). id_ok a) \<and>
     (\<forall>k ex. get (svcExecutions s) k = Some ex \<longrightarrow>
        (exStatus ex = QUEUED \<longrightarrow> (exSandboxID ex, exID ex) \<in> set Q \<and> \<not> exCancelRequested ex) \<and>
        (exStatus ex = RUNNING \<longrightarrow> (exSandboxID ex, exID ex) \<in> set R)) \<and>
     (\<forall>(a, b) \<in> set R. running_at s (executionKey a b))"

definition pending_inv :: "sys \<Rightarrow> bool" where
  "pending_inv x \<longleftrightarrow>
     (\<forall>k \<in> set (sysCancels x). \<forall>ex. get (svcExecutions (sysService x)) k = Some ex \<longrightarrow> exCancelRequested ex) \<and>
     (\<forall>(sid, p) \<in> set (sysTerminations x). sid \<in> set (sysIssued x) \<and> stoppable (sysService x) sid) \<and>
     distinct (sysDownloads x) \<and> (\<forall>sid \<in> set (sysDownloads x). sid \<in> set (sysIssued x)) \<and>
     (\<forall>sid sb. get (svcSandboxes (sysService x)) sid = Some sb \<longrightarrow>
        sbDownloadInProgress sb = (sid \<in> set (sysDownloads x)))"

definition sys_inv :: "sys \<Rightarrow> bool" where
  "sys_inv x \<longleftrightarrow> svc_inv (sysService x) \<and> issued_inv (set (sysIssued x)) (sysService x) \<and>
     goroutines_inv (sysQueued x) (sysRunning x) (sysService x) \<and>
     (\<forall>(a, b) \<in> set (sysQueued x @ sysRunning x). b \<in> set (sysIssued x)) \<and> pending_inv x \<and>
     (\<forall>k \<in> set (sysCancels x). \<exists>a b. k = executionKey a b \<and> id_ok a \<and> b \<in> set (sysIssued x))"

section \<open>Steps that neither start nor end a run\<close>

text \<open>The result of an execution: what a client can still ask for when it is over.\<close>

definition result_of where
  "result_of ex = (exStatus ex, exExitCode ex, exMessage ex, exFinishedAt ex, exStdout ex, exStderr ex, exEventHistory ex)"

definition evolves :: "executionState \<Rightarrow> executionState \<Rightarrow> bool" where
  "evolves ex ex' \<longleftrightarrow> exID ex' = exID ex \<and> exSandboxID ex' = exSandboxID ex \<and>
     (exStatus ex' = exStatus ex \<or> final ex') \<and> (final ex \<longrightarrow> result_of ex' = result_of ex) \<and>
     (exCancelRequested ex \<longrightarrow> exCancelRequested ex') \<and>
     (exStatus ex' = QUEUED \<longrightarrow> exCancelRequested ex' = exCancelRequested ex)"

text \<open>
  \<open>quiet K s s'\<close>: no execution appears, those that stay evolve, running ones outside \<open>K\<close> keep running,
  and sandboxes do not appear, become ready or change their download flag.
\<close>

definition quiet :: "string set \<Rightarrow> Service \<Rightarrow> Service \<Rightarrow> bool" where
  "quiet K s s' \<longleftrightarrow>
     (\<forall>k ex'. get (svcExecutions s') k = Some ex' \<longrightarrow> (\<exists>ex. get (svcExecutions s) k = Some ex \<and> evolves ex ex')) \<and>
     (\<forall>k. k \<notin> K \<longrightarrow> running_at s k \<longrightarrow> running_at s' k) \<and>
     (\<forall>k sb'. get (svcSandboxes s') k = Some sb' \<longrightarrow> (\<exists>sb. get (svcSandboxes s) k = Some sb \<and>
        (sbStatus sb' = SANDBOX_READY \<longrightarrow> sbStatus sb = SANDBOX_READY) \<and> sbDownloadInProgress sb' = sbDownloadInProgress sb)) \<and>
     (\<forall>i se. get (svcSessions s') i = Some se \<longrightarrow> get (svcSessions s) i = Some se)"

lemma isFinal_simps [simp]:
  "\<not> isFinalExecutionStatus QUEUED" "\<not> isFinalExecutionStatus RUNNING" "isFinalExecutionStatus SUCCEEDED"
  "isFinalExecutionStatus FAILED" "isFinalExecutionStatus CANCELED"
  by (simp_all add: isFinalExecutionStatus_def)

lemma evolves_refl [simp]: "evolves ex ex"
  by (simp add: evolves_def)

lemma evolves_trans: "evolves a b \<Longrightarrow> evolves b c \<Longrightarrow> evolves a c"
  unfolding evolves_def result_of_def by auto

lemma quiet_execD:
  "quiet K s s' \<Longrightarrow> get (svcExecutions s') k = Some ex' \<Longrightarrow> \<exists>ex. get (svcExecutions s) k = Some ex \<and> evolves ex ex'"
  unfolding quiet_def by blast

lemma quiet_refl [simp]: "quiet K s s"
  unfolding quiet_def using evolves_refl by blast

lemma quiet_trans:
  assumes "quiet K a b" "quiet K b c"
  shows "quiet K a c"
  unfolding quiet_def
proof (intro conjI allI impI)
  fix k ex' assume "get (svcExecutions c) k = Some ex'"
  with assms(2) obtain ex where "get (svcExecutions b) k = Some ex" "evolves ex ex'" unfolding quiet_def by blast
  with assms(1) show "\<exists>ex. get (svcExecutions a) k = Some ex \<and> evolves ex ex'"
    unfolding quiet_def using evolves_trans by blast
next
  fix k sb' assume "get (svcSandboxes c) k = Some sb'"
  with assms(2) obtain sb where sb: "get (svcSandboxes b) k = Some sb" "sbStatus sb' = SANDBOX_READY \<longrightarrow> sbStatus sb = SANDBOX_READY"
    "sbDownloadInProgress sb' = sbDownloadInProgress sb" unfolding quiet_def by blast
  with assms(1) obtain sa where "get (svcSandboxes a) k = Some sa" "sbStatus sb = SANDBOX_READY \<longrightarrow> sbStatus sa = SANDBOX_READY"
    "sbDownloadInProgress sb = sbDownloadInProgress sa" unfolding quiet_def by blast
  with sb show "\<exists>sb. get (svcSandboxes a) k = Some sb \<and>
      (sbStatus sb' = SANDBOX_READY \<longrightarrow> sbStatus sb = SANDBOX_READY) \<and> sbDownloadInProgress sb' = sbDownloadInProgress sb" by auto
qed (use assms in \<open>unfold quiet_def, blast+\<close>)

lemma quiet_prune:
  assumes inv: "svc_inv s"
  shows "quiet K s (pruneStateLocked c now s)"
proof -
  obtain es bs where eq: "pruneStateLocked c now s = fold dropSandboxLocked bs (fold dropExecutionLocked es s)"
    and es: "\<And>k. k \<in> set es \<Longrightarrow> \<exists>ex. get (svcExecutions s) k = Some ex \<and> final ex"
    using pruneStateLocked_drops [OF svc_inv_gomaps(2) [OF inv] svc_inv_gomaps(1) [OF inv]] by metis
  let ?s = "pruneStateLocked c now s"
  have E: "get (svcExecutions ?s) k = (if k \<in> set es then None else get (svcExecutions s) k)" for k
    by (simp add: eq fold_dropExecution_get)
  have B: "get (svcSandboxes ?s) k = (if k \<in> set bs then None else get (svcSandboxes s) k)" for k
    by (simp add: eq fold_dropSandbox_get)
  have S: "get (svcSessions s) i = Some se" if "get (svcSessions ?s) i = Some se" for i se
    using get_filter [OF svc_inv_gomaps(3) [OF inv], of "\<lambda>i se. session_key se \<notin> set es" i] that
    by (auto simp: eq fold_dropExecution_sessions split: option.splits if_splits)
  have "running_at ?s k" if "running_at s k" for k
    using that es [of k] unfolding running_at_def E by auto
  then show ?thesis unfolding quiet_def E B using S by (auto split: if_splits)
qed

lemma quiet_put_exec:
  assumes "get (svcExecutions s) k = Some ex" "evolves ex ex'" "exStatus ex = RUNNING \<Longrightarrow> k \<notin> K \<Longrightarrow> exStatus ex' = RUNNING"
  shows "quiet K s (s\<lparr>svcExecutions := put k ex' (svcExecutions s)\<rparr>)"
  unfolding quiet_def running_at_def using assms by auto

lemma quiet_put_sandbox:
  assumes "get (svcSandboxes s) k = Some sb" "sbStatus sb' = SANDBOX_READY \<longrightarrow> sbStatus sb = SANDBOX_READY"
    "sbDownloadInProgress sb' = sbDownloadInProgress sb"
  shows "quiet K s (s\<lparr>svcSandboxes := put k sb' (svcSandboxes s)\<rparr>)"
  unfolding quiet_def running_at_def using assms by auto

lemma quiet_sessions:
  assumes "\<And>i se. get S' i = Some se \<Longrightarrow> get (svcSessions s) i = Some se"
  shows "quiet K s (s\<lparr>svcSessions := S', svcAttached := A'\<rparr>)"
  unfolding quiet_def running_at_def using assms by auto

lemma quiet_cong:
  "quiet K s s' \<Longrightarrow> svcExecutions s'' = svcExecutions s' \<Longrightarrow> svcSandboxes s'' = svcSandboxes s' \<Longrightarrow>
   svcSessions s'' = svcSessions s' \<Longrightarrow> quiet K s s''"
  by (simp add: quiet_def running_at_def)

lemma evolves_core:
  assumes "core ex' = core ex" "final ex \<Longrightarrow> result_of ex' = result_of ex"
  shows "evolves ex ex'"
  unfolding evolves_def using core_eqD [OF assms(1)] assms(2) by auto

lemma quiet_finalize:
  assumes inv: "svc_inv s" and k: "get (svcExecutions s) k = Some ex0" "\<not> final ex0"
    and same: "exID ex = exID ex0" "exSandboxID ex = exSandboxID ex0" "exCancelRequested ex0 \<Longrightarrow> exCancelRequested ex"
    and K: "exStatus ex0 = RUNNING \<Longrightarrow> k \<in> K" and st: "st \<in> {SUCCEEDED, FAILED, CANCELED}"
  shows "quiet K s (finalizeExecutionInternalLocked clk k ex st c m em t False s)"
proof -
  let ?x = "finalized (if t = 0 then clk 0 else t) st c m em ex"
  let ?k = "executionKey (exSandboxID ex) (exID ex)"
  have "evolves ex0 ?x" using k(2) same st by (auto simp: evolves_def)
  then have q: "quiet K s (s\<lparr>svcExecutions := put k ?x (svcExecutions s)\<rparr>)"
    using k K by (intro quiet_put_exec) auto
  have "get (svcSessions s) i = Some se" if "get (filter (\<lambda>(i, se). session_key se \<noteq> ?k) (svcSessions s)) i = Some se" for i se
    using get_filter [OF svc_inv_gomaps(3) [OF inv], of "\<lambda>i se. session_key se \<noteq> ?k" i] that
    by (auto split: option.splits if_splits)
  then have "quiet K (s\<lparr>svcExecutions := put k ?x (svcExecutions s)\<rparr>)
      (clearInteractiveExecutionStateLocked ?k (s\<lparr>svcExecutions := put k ?x (svcExecutions s)\<rparr>))"
    unfolding quiet_def running_at_def clearInteractiveExecutionStateLocked_def by auto
  from quiet_trans [OF q this] show ?thesis by (simp add: finalizeExecutionInternalLocked_eq Let_def)
qed

section \<open>Local steps\<close>

lemma quiet_pruneExpired:
  assumes "svc_inv s"
  shows "quiet K s (pruneExpiredInteractiveSessionsLocked c now s)"
  using pruned_sessions_get [OF svc_inv_gomaps(3) [OF assms], of c now] unfolding quiet_def running_at_def by auto

lemma quiet_ConsumeInteractiveSession:
  assumes inv: "svc_inv s"
  shows "quiet K s (fst (ConsumeInteractiveSession clk i tok s))"
proof -
  note p = quiet_pruneExpired [OF inv, of K "clk 1" "clk 0"]
  show ?thesis
  proof (cases rule: ConsumeInteractiveSession_cases [of clk i tok s])
    case (deleted e s' se)
    have "quiet K s' (s'\<lparr>svcSessions := del (trim_space i) (svcSessions s'), svcAttached := svcAttached s'\<rparr>)"
      by (rule quiet_sessions) (simp split: if_splits)
    then have "quiet K s' (s'\<lparr>svcSessions := del (trim_space i) (svcSessions s')\<rparr>)" by (rule quiet_cong) simp_all
    with p deleted show ?thesis using quiet_trans by fastforce
  next
    case (consumed s' se)
    have "quiet K s' (s'\<lparr>svcSessions := del (trim_space i) (svcSessions s'), svcAttached := put (session_key se) () (svcAttached s')\<rparr>)"
      by (rule quiet_sessions) (simp split: if_splits)
    with p consumed show ?thesis using quiet_trans by fastforce
  qed (use p in simp_all)
qed

lemma quiet_put_core:
  assumes "get (svcExecutions s) k = Some ex" "core ex' = core ex" "final ex \<Longrightarrow> result_of ex' = result_of ex"
  shows "quiet K s (s\<lparr>svcExecutions := put k ex' (svcExecutions s)\<rparr>)"
  using quiet_put_exec [OF assms(1) evolves_core [OF assms(2,3)]] core_eqD(5) [OF assms(2)] by simp

lemma result_of_subs [simp]:
  "result_of (ex\<lparr>exEventSubscribers := m\<rparr>) = result_of ex" "result_of (ex\<lparr>exNextSubID := n\<rparr>) = result_of ex"
  "result_of (ex\<lparr>exNextSubID := n, exEventSubscribers := m\<rparr>) = result_of ex"
  by (simp_all add: result_of_def)

lemma core_subs [simp]:
  "core (ex\<lparr>exEventSubscribers := m\<rparr>) = core ex" "core (ex\<lparr>exNextSubID := n\<rparr>) = core ex"
  "core (ex\<lparr>exNextSubID := n, exEventSubscribers := m\<rparr>) = core ex"
  by (simp_all add: core_def)

lemma quiet_SubscribeExecutionEvents: "quiet K s (fst (SubscribeExecutionEvents a b s))"
proof (cases "exec_ids (Some (a, b))")
  case (Inr x)
  obtain sid eid where x: "x = (sid, eid)" by (cases x)
  show ?thesis
  proof (cases "get (svcExecutions s) (executionKey sid eid)")
    case (Some ex)
    then show ?thesis by (simp add: SubscribeExecutionEvents_def Inr x Let_def quiet_put_core [OF Some])
  qed (simp add: SubscribeExecutionEvents_def Inr x Let_def)
qed (simp add: SubscribeExecutionEvents_def)

lemma quiet_unsubscribeExecution: "quiet K s (unsubscribeExecution a b i s)"
  by (cases "get (svcExecutions s) (executionKey a b)")
    (simp_all add: unsubscribeExecution_def Let_def quiet_put_core)

lemma quiet_SubscribeSandboxEvents: "quiet K s (fst (SubscribeSandboxEvents a s))"
proof (cases "get (svcSandboxes s) (trim_space a)")
  case (Some sb)
  then show ?thesis by (simp add: SubscribeSandboxEvents_def Let_def quiet_put_sandbox [OF Some])
qed (simp add: SubscribeSandboxEvents_def)

lemma quiet_unsubscribeSandbox: "quiet K s (unsubscribeSandbox a i s)"
  by (cases "get (svcSandboxes s) a") (simp_all add: unsubscribeSandbox_def quiet_put_sandbox)

lemma subs_ok_tl: "subs_ok cap n subs \<Longrightarrow> get subs i = Some ch \<Longrightarrow> subs_ok cap n (put i (tl ch) subs)"
  by (force simp: subs_ok_def)

lemma receiveExecution_ok:
  assumes inv: "svc_inv s"
  shows "svc_inv (receiveExecution k i s) \<and> quiet K s (receiveExecution k i s)"
proof (cases "get (svcExecutions s) k")
  case (Some ex)
  show ?thesis
  proof (cases "get (exEventSubscribers ex) i")
    case ch: (Some ch)
    have "exec_bounds_ok ex" using svc_inv_exec(2) [OF inv Some] by (simp add: exec_ok_def)
    then have "exec_bounds_ok (ex\<lparr>exEventSubscribers := put i (tl ch) (exEventSubscribers ex)\<rparr>)"
      using ch by (simp add: exec_bounds_ok_def subs_ok_tl)
    then show ?thesis
      by (simp add: receiveExecution_def Some ch inv_put_core [OF inv Some] quiet_put_core [OF Some])
  qed (simp add: receiveExecution_def Some inv)
qed (simp add: receiveExecution_def inv)

lemma receiveSandbox_ok:
  assumes inv: "svc_inv s"
  shows "svc_inv (receiveSandbox k i s) \<and> quiet K s (receiveSandbox k i s)"
proof (cases "get (svcSandboxes s) k")
  case (Some sb)
  show ?thesis
  proof (cases "get (sbEventSubscribers sb) i")
    case ch: (Some ch)
    let ?sb = "sb\<lparr>sbEventSubscribers := put i (tl ch) (sbEventSubscribers sb)\<rparr>"
    have "sandbox_ok ?sb" using svc_inv_sandbox(2) [OF inv Some] ch by (simp add: sandbox_ok_def subs_ok_tl)
    then have "svc_inv (s\<lparr>svcSandboxes := put k ?sb (svcSandboxes s)\<rparr>)"
      by (intro inv_put_sandbox_same [OF inv Some]) simp_all
    then show ?thesis by (simp add: receiveSandbox_def Some ch quiet_put_sandbox [OF Some])
  qed (simp add: receiveSandbox_def Some inv)
qed (simp add: receiveSandbox_def inv)

lemma create_refused_ok:
  assumes inv: "svc_inv s" and eq: "CreateExecution gen clk req s = (s', Inl e)"
  shows "svc_inv s' \<and> quiet K s s'"
proof (cases rule: CreateExecution_cases [of gen clk req s])
  case (error e')
  with eq inv show ?thesis by simp
next
  case (busy sid sb)
  let ?sb = "if trim_space (sbActiveExecutionID sb) \<noteq> [] then sb\<lparr>sbActiveExecutionID := []\<rparr> else sb"
  have "svc_inv (s\<lparr>svcSandboxes := put sid ?sb (svcSandboxes s)\<rparr>)"
    using not_busy_no_active [OF inv busy(1,4)] svc_inv_sandbox [OF inv busy(1)]
    by (intro inv_put_sandbox [OF inv]) auto
  moreover have "quiet K s (s\<lparr>svcSandboxes := put sid ?sb (svcSandboxes s)\<rparr>)"
    by (rule quiet_put_sandbox [OF busy(1)]) (simp_all split: if_splits)
  ultimately show ?thesis using busy(5) eq by (simp only: prod.inject)
next
  case (created r sid eid sb ir idg launch tty kind ex sb')
  with eq show ?thesis by simp
qed

lemma local_step_ok:
  assumes "local_step s s'" "svc_inv s"
  shows "svc_inv s' \<and> quiet K s s'"
  using assms
proof (induction rule: local_step.induct)
  case (consume s clk i tok)
  then show ?case by (simp add: inv_ConsumeInteractiveSession quiet_ConsumeInteractiveSession)
next
  case (release s a b)
  have "quiet K s (s\<lparr>svcAttached := A\<rparr>)" for A by (rule quiet_cong [OF quiet_refl]) simp_all
  with release show ?case by (simp add: inv_ReleaseInteractiveExecution) (simp add: ReleaseInteractiveExecution_def)
next
  case (configure s e a p)
  have "quiet K s (ConfigureInteractiveTransport e a p s)"
    by (rule quiet_cong [OF quiet_refl]) (simp_all add: ConfigureInteractiveTransport_def)
  with configure show ?case by (simp add: inv_ConfigureInteractiveTransport)
next
  case (download_refused req s s' e)
  then show ?case by (cases rule: DownloadSandboxFile_begin_cases [of req s]) simp_all
next
  case (create_refused gen clk req s s' e)
  then show ?case using create_refused_ok by blast
qed (simp_all add: inv_SubscribeSandboxEvents quiet_SubscribeSandboxEvents inv_unsubscribeSandbox quiet_unsubscribeSandbox
    inv_SubscribeExecutionEvents quiet_SubscribeExecutionEvents inv_unsubscribeExecution quiet_unsubscribeExecution
    receiveSandbox_ok receiveExecution_ok)

section \<open>Preservation\<close>

lemma quiet_issued:
  assumes "issued_inv I s" "quiet K s s'"
  shows "issued_inv I s'"
  unfolding issued_inv_def
proof (intro conjI allI impI)
  fix k ex' assume "get (svcExecutions s') k = Some ex'"
  from quiet_execD [OF assms(2) this] obtain ex where "get (svcExecutions s) k = Some ex" "exID ex' = exID ex"
    unfolding evolves_def by blast
  with assms(1) show "exID ex' \<in> I" unfolding issued_inv_def by auto
qed (use assms in \<open>unfold quiet_def issued_inv_def, blast+\<close>)

lemma quiet_pending:
  assumes p: "pending_inv x" and q: "quiet K (sysService x) s'"
  shows "pending_inv (x\<lparr>sysService := s'\<rparr>)"
proof -
  let ?s = "sysService x"
  have B: "\<exists>sb. get (svcSandboxes ?s) k = Some sb \<and> (sbStatus sb' = SANDBOX_READY \<longrightarrow> sbStatus sb = SANDBOX_READY) \<and>
      sbDownloadInProgress sb' = sbDownloadInProgress sb" if "get (svcSandboxes s') k = Some sb'" for k sb'
    using q that unfolding quiet_def by blast
  have "exCancelRequested ex'" if "k \<in> set (sysCancels x)" "get (svcExecutions s') k = Some ex'" for k ex'
    using quiet_execD [OF q that(2)] p that(1) unfolding pending_inv_def evolves_def by blast
  moreover have "stoppable s' sid" if "stoppable ?s sid" for sid
    using that B [of sid] unfolding stoppable_def by (auto split: option.splits)
  moreover have "sbDownloadInProgress sb' = (sid \<in> set (sysDownloads x))" if "get (svcSandboxes s') sid = Some sb'" for sid sb'
    using B [OF that] p unfolding pending_inv_def by blast
  ultimately show ?thesis using p unfolding pending_inv_def by auto
qed

text \<open>The goroutines: those outside \<open>K\<close> stay where they are.\<close>

lemma quiet_goroutines:
  assumes g: "goroutines_inv Q R s" and q: "quiet K s s'"
    and R': "distinct R'" "set R' \<subseteq> set R" "\<And>a b. (a, b) \<in> set R' \<Longrightarrow> executionKey a b \<notin> K"
    and left: "\<And>k ex. get (svcExecutions s') k = Some ex \<Longrightarrow> exStatus ex = RUNNING \<Longrightarrow> (exSandboxID ex, exID ex) \<in> set R \<Longrightarrow>
      (exSandboxID ex, exID ex) \<in> set R'"
  shows "goroutines_inv Q R' s'"
proof -
  have R: "running_at s' k" if "running_at s k" "k \<notin> K" for k using q that unfolding quiet_def by blast
  have st: "(exStatus ex' = QUEUED \<longrightarrow> (exSandboxID ex', exID ex') \<in> set Q \<and> \<not> exCancelRequested ex') \<and>
      (exStatus ex' = RUNNING \<longrightarrow> (exSandboxID ex', exID ex') \<in> set R')"
    if ex': "get (svcExecutions s') k = Some ex'" for k ex'
  proof -
    from quiet_execD [OF q ex'] obtain ex where ex: "get (svcExecutions s) k = Some ex" "evolves ex ex'" by blast
    with g have "(exStatus ex = QUEUED \<longrightarrow> (exSandboxID ex, exID ex) \<in> set Q \<and> \<not> exCancelRequested ex) \<and>
      (exStatus ex = RUNNING \<longrightarrow> (exSandboxID ex, exID ex) \<in> set R)"
      unfolding goroutines_inv_def by blast
    with ex(2) left [OF ex'] show ?thesis unfolding evolves_def by auto
  qed
  show ?thesis
    unfolding goroutines_inv_def
  proof (intro conjI)
    show "distinct (Q @ R')" "\<forall>(a, b) \<in> set (Q @ R'). id_ok a"
      using g R'(1,2) unfolding goroutines_inv_def by auto
    show "\<forall>k ex. get (svcExecutions s') k = Some ex \<longrightarrow>
        (exStatus ex = QUEUED \<longrightarrow> (exSandboxID ex, exID ex) \<in> set Q \<and> \<not> exCancelRequested ex) \<and>
        (exStatus ex = RUNNING \<longrightarrow> (exSandboxID ex, exID ex) \<in> set R')"
      using st by blast
    show "\<forall>(a, b) \<in> set R'. running_at s' (executionKey a b)"
      using g R R'(2,3) unfolding goroutines_inv_def by blast
  qed
qed

lemma sys_inv_quiet:
  assumes inv: "sys_inv x" and svc: "svc_inv s'" and q: "quiet {} (sysService x) s'"
  shows "sys_inv (x\<lparr>sysService := s'\<rparr>)"
proof -
  have g: "goroutines_inv (sysQueued x) (sysRunning x) (sysService x)" using inv by (simp add: sys_inv_def)
  then have "goroutines_inv (sysQueued x) (sysRunning x) s'"
    by (intro quiet_goroutines [OF g q]) (auto simp: goroutines_inv_def)
  moreover have "issued_inv (set (sysIssued x)) s'"
    using quiet_issued [OF _ q] inv by (simp add: sys_inv_def)
  moreover have "pending_inv (x\<lparr>sysService := s'\<rparr>)"
    using quiet_pending [OF _ q] inv by (simp add: sys_inv_def)
  ultimately show ?thesis using inv svc by (simp add: sys_inv_def)
qed

end
