(* ===== verification/Service_Safety.thy ===== *)
theory Service_Safety
  imports Service_System
begin

text \<open>Every step of the control service keeps \<open>sys_inv\<close>, so every reachable state has it.\<close>

section \<open>Changes of the bookkeeping\<close>

lemma sys_invD:
  assumes "sys_inv x"
  shows "svc_inv (sysService x)" "issued_inv (set (sysIssued x)) (sysService x)"
    "goroutines_inv (sysQueued x) (sysRunning x) (sysService x)" "pending_inv x"
    "\<And>a b. (a, b) \<in> set (sysQueued x) \<union> set (sysRunning x) \<Longrightarrow> b \<in> set (sysIssued x)"
    "\<And>k. k \<in> set (sysCancels x) \<Longrightarrow> \<exists>a b. k = executionKey a b \<and> id_ok a \<and> b \<in> set (sysIssued x)"
  using assms by (auto simp: sys_inv_def)

lemma sys_service_first [simp]:
  "x\<lparr>sysIssued := a, sysService := s\<rparr> = x\<lparr>sysService := s, sysIssued := a\<rparr>"
  "x\<lparr>sysQueued := q, sysService := s\<rparr> = x\<lparr>sysService := s, sysQueued := q\<rparr>"
  "x\<lparr>sysRunning := r, sysService := s\<rparr> = x\<lparr>sysService := s, sysRunning := r\<rparr>"
  "x\<lparr>sysCancels := c, sysService := s\<rparr> = x\<lparr>sysService := s, sysCancels := c\<rparr>"
  "x\<lparr>sysDownloads := d, sysService := s\<rparr> = x\<lparr>sysService := s, sysDownloads := d\<rparr>"
  "x\<lparr>sysTerminations := u, sysService := s\<rparr> = x\<lparr>sysService := s, sysTerminations := u\<rparr>"
  by (cases x; simp)+

lemma sys_inv_issue: "sys_inv x \<Longrightarrow> sys_inv (x\<lparr>sysIssued := i # sysIssued x\<rparr>)"
  unfolding sys_inv_def issued_inv_def pending_inv_def by fastforce

lemma sys_inv_prune: "sys_inv x \<Longrightarrow> sys_inv (x\<lparr>sysService := pruneStateLocked c now (sysService x)\<rparr>)"
  by (intro sys_inv_quiet inv_prune quiet_prune) (auto simp: sys_inv_def)

lemma sys_inv_sessions:
  assumes "sys_inv x" "svc_inv ((sysService x)\<lparr>svcSessions := S'\<rparr>)" "\<And>i se. get S' i = Some se \<Longrightarrow> i \<in> set (sysIssued x)"
  shows "sys_inv (x\<lparr>sysService := (sysService x)\<lparr>svcSessions := S'\<rparr>\<rparr>)"
  using assms unfolding sys_inv_def issued_inv_def goroutines_inv_def pending_inv_def stoppable_def running_at_def by simp

lemma sys_inv_fewer_terminations:
  assumes "sys_inv x" "set T \<subseteq> set (sysTerminations x)"
  shows "sys_inv (x\<lparr>sysTerminations := T\<rparr>)"
proof -
  have "pending_inv (x\<lparr>sysTerminations := T\<rparr>)"
    using sys_invD(4) [OF assms(1)] assms(2) unfolding pending_inv_def by auto
  with assms(1) show ?thesis by (simp add: sys_inv_def)
qed

lemma sys_inv_termination:
  assumes "sys_inv x" "sid \<in> set (sysIssued x)" "stoppable (sysService x) sid"
  shows "sys_inv (x\<lparr>sysTerminations := (sid, p) # sysTerminations x\<rparr>)"
proof -
  have "pending_inv (x\<lparr>sysTerminations := (sid, p) # sysTerminations x\<rparr>)"
    using sys_invD(4) [OF assms(1)] assms(2,3) unfolding pending_inv_def by auto
  with assms(1) show ?thesis by (simp add: sys_inv_def)
qed

lemma sys_inv_cancels:
  assumes "sys_inv x"
    "\<And>k. k \<in> set cs \<Longrightarrow> \<exists>ex. get (svcExecutions (sysService x)) k = Some ex \<and> exCancelRequested ex"
  shows "sys_inv (x\<lparr>sysCancels := cs @ sysCancels x\<rparr>)"
proof -
  have "pending_inv (x\<lparr>sysCancels := cs @ sysCancels x\<rparr>)"
    using sys_invD(4) [OF assms(1)] assms(2) unfolding pending_inv_def by (auto; fastforce)
  moreover have "\<exists>a b. k = executionKey a b \<and> id_ok a \<and> b \<in> set (sysIssued x)" if k: "k \<in> set cs" for k
  proof -
    from assms(2) [OF k] obtain ex where ex: "get (svcExecutions (sysService x)) k = Some ex" by blast
    with svc_inv_exec [OF sys_invD(1) [OF assms(1)] ex] sys_invD(2) [OF assms(1)]
    show ?thesis unfolding issued_inv_def exec_ok_def exec_ids_ok_def by blast
  qed
  ultimately show ?thesis using assms(1) unfolding sys_inv_def by auto
qed

section \<open>Sandboxes\<close>

lemma CreateSandbox_shape:
  obtains (same) "fst (CreateSandbox env gen provision clk req s) = s"
  | (new) sb where "fst (CreateSandbox env gen provision clk req s) =
        pruneStateLocked (clk 3) (clk 0) (s\<lparr>svcSandboxes := put (newSandboxID gen (clk 1)) sb (svcSandboxes s)\<rparr>)"
      "sbID sb = newSandboxID gen (clk 1)" "id_ok (newSandboxID gen (clk 1)) \<Longrightarrow> sandbox_ok sb"
      "\<not> sbDownloadInProgress sb" "sbStatus sb = SANDBOX_READY"
proof (cases "CreateSandbox_prepare env gen clk req s")
  case (Inl e)
  then show thesis by (intro same) (simp add: CreateSandbox_def)
next
  case (Inr y)
  obtain persistent backendName pr where y: "y = (persistent, backendName, pr)" by (cases y)
  from Inr [unfolded y] obtain p where p: "prPolicy pr = Some p" "wf_policy p" "prSandboxID pr = newSandboxID gen (clk 1)"
    using CreateSandbox_prepare_InrD proto.compile_wf by metis
  let ?sb = "recordSandboxEventLocked (clk 2) SANDBOX_READY ''sandbox created and ready'' (new_sandbox backendName pr (clk 0))"
  show thesis
  proof (cases "if persistent then provision pr else None")
    case None
    then have "fst (CreateSandbox env gen provision clk req s) =
        pruneStateLocked (clk 3) (clk 0) (s\<lparr>svcSandboxes := put (newSandboxID gen (clk 1)) ?sb (svcSandboxes s)\<rparr>)"
      by (simp add: CreateSandbox_def Inr y Let_def p)
    from new [OF this] show thesis using p new_sandbox_ok [OF p(2,1)] by (simp add: new_sandbox_def)
  next
    case (Some e)
    then show thesis by (intro same) (simp add: CreateSandbox_def Inr y)
  qed
qed

lemma sys_inv_new_sandbox:
  assumes inv: "sys_inv x" and i: "fresh_id i x" and sb: "sbID sb = i" "sandbox_ok sb" "\<not> sbDownloadInProgress sb"
  shows "sys_inv (x\<lparr>sysService := (sysService x)\<lparr>svcSandboxes := put i sb (svcSandboxes (sysService x))\<rparr>, sysIssued := i # sysIssued x\<rparr>)"
    (is "sys_inv ?y")
proof -
  have none: "get (svcSandboxes (sysService x)) i = None"
    using sys_invD(2) [OF inv] i unfolding issued_inv_def fresh_id_def by (cases "get (svcSandboxes (sysService x)) i") auto
  have "svc_inv ((sysService x)\<lparr>svcSandboxes := put i sb (svcSandboxes (sysService x))\<rparr>)"
  proof (rule inv_put_sandbox [OF sys_invD(1) [OF inv] sb(2,1)])
    fix key ex assume ex: "get (svcExecutions (sysService x)) key = Some ex" "\<not> final ex" "exSandboxID ex = i"
    from svc_inv_exec(3) [OF sys_invD(1) [OF inv] ex(1,2)] ex(3) none
    show "sbActiveExecutionID sb = exID ex \<and> \<not> sbDownloadInProgress sb \<and> (exStatus ex = QUEUED \<longrightarrow> sbStatus sb = SANDBOX_READY)"
      by (simp add: active_in_def)
  qed
  then have "svc_inv (sysService ?y)" by simp
  moreover have "issued_inv (set (sysIssued ?y)) (sysService ?y)"
    using sys_invD(2) [OF inv] unfolding issued_inv_def by (auto split: if_splits)
  moreover have "goroutines_inv (sysQueued ?y) (sysRunning ?y) (sysService ?y)"
    using sys_invD(3) [OF inv] unfolding goroutines_inv_def running_at_def by simp
  moreover have "pending_inv ?y"
    using sys_invD(4) [OF inv] i sb(3) unfolding pending_inv_def fresh_id_def stoppable_def by (auto split: if_splits)
  ultimately show ?thesis using sys_invD(5,6) [OF inv] unfolding sys_inv_def by fastforce
qed

lemma sys_inv_CreateSandbox:
  assumes inv: "sys_inv x" and i: "fresh_id (newSandboxID gen (clk 1)) x"
  shows "sys_inv (x\<lparr>sysService := fst (CreateSandbox env gen provision clk req (sysService x)),
    sysIssued := newSandboxID gen (clk 1) # sysIssued x\<rparr>)"
proof (cases rule: CreateSandbox_shape [of env gen provision clk req "sysService x"])
  case same
  then show ?thesis using sys_inv_issue [OF inv, of "newSandboxID gen (clk 1)"] by simp
next
  case (new sb)
  from i have "id_ok (newSandboxID gen (clk 1))" by (simp add: fresh_id_def)
  from sys_inv_prune [OF sys_inv_new_sandbox [OF inv i new(2) new(3) [OF this] new(4)], of "clk 3" "clk 0"]
  show ?thesis by (simp add: new(1))
qed

lemma sys_inv_OpenInteractiveExecution:
  assumes inv: "sys_inv x" and i: "fresh_id (newInteractiveSessionID gen (clk 1)) x"
  shows "sys_inv (x\<lparr>sysService := fst (OpenInteractiveExecution gen random clk req (sysService x)),
    sysIssued := newInteractiveSessionID gen (clk 1) # sysIssued x\<rparr>)"
proof -
  let ?i = "newInteractiveSessionID gen (clk 1)" and ?s = "sysService x"
  have svc: "svc_inv ?s" using sys_invD(1) [OF inv] .
  have none: "get (svcSessions ?s) ?i = None"
    using sys_invD(2) [OF inv] i unfolding issued_inv_def fresh_id_def by (cases "get (svcSessions ?s) ?i") auto
  have inv': "svc_inv (fst (OpenInteractiveExecution gen random clk req ?s))"
    using svc none by (rule inv_OpenInteractiveExecution)
  have p: "sys_inv (x\<lparr>sysService := pruneExpiredInteractiveSessionsLocked (clk 2) (clk 0) ?s, sysIssued := ?i # sysIssued x\<rparr>)"
    using sys_inv_issue [OF sys_inv_quiet [OF inv inv_pruneExpired [OF svc] quiet_pruneExpired [OF svc]], of ?i] by simp
  show ?thesis
  proof (cases rule: OpenInteractiveExecution_cases [of gen random clk req ?s])
    case (error e s')
    then show ?thesis using p sys_inv_issue [OF inv, of ?i] by auto
  next
    case (opened sid eid ex se s' rsp)
    let ?y = "x\<lparr>sysService := s', sysIssued := ?i # sysIssued x\<rparr>"
    have y: "sys_inv ?y" using p opened(4) by simp
    have ids: "j \<in> set (sysIssued ?y)" if "get (put ?i se (svcSessions s')) j = Some se'" for j se'
      using sys_invD(2) [OF y] that unfolding issued_inv_def by (auto split: if_splits)
    have "svc_inv ((sysService ?y)\<lparr>svcSessions := put ?i se (svcSessions s')\<rparr>)" using inv' opened(13) by simp
    from sys_inv_sessions [OF y this ids] show ?thesis using opened(13) by simp
  qed
qed

section \<open>Downloads\<close>

lemma sys_inv_download_flag:
  assumes inv: "sys_inv x" and sb: "get (svcSandboxes (sysService x)) sid = Some sb"
    and svc: "svc_inv ((sysService x)\<lparr>svcSandboxes := put sid (sb\<lparr>sbDownloadInProgress := b\<rparr>) (svcSandboxes (sysService x))\<rparr>)"
    and D: "distinct D" "b = (sid \<in> set D)" "set D - {sid} = set (sysDownloads x) - {sid}"
  shows "sys_inv (x\<lparr>sysService := (sysService x)\<lparr>svcSandboxes := put sid (sb\<lparr>sbDownloadInProgress := b\<rparr>) (svcSandboxes (sysService x))\<rparr>,
    sysDownloads := D\<rparr>)" (is "sys_inv ?y")
proof -
  have sid: "sid \<in> set (sysIssued x)" using sys_invD(2) [OF inv] sb unfolding issued_inv_def by blast
  have other: "j \<in> set D \<longleftrightarrow> j \<in> set (sysDownloads x)" if "j \<noteq> sid" for j
    using D(3) that by blast
  have p: "pending_inv x" using sys_invD(4) [OF inv] .
  have st: "stoppable (sysService ?y) j = stoppable (sysService x) j" for j
    using sb by (simp add: stoppable_def)
  have "pending_inv ?y"
    unfolding pending_inv_def
  proof (intro conjI)
    show "\<forall>(sid', p) \<in> set (sysTerminations ?y). sid' \<in> set (sysIssued ?y) \<and> stoppable (sysService ?y) sid'"
      using p st unfolding pending_inv_def by simp
    show "\<forall>j \<in> set (sysDownloads ?y). j \<in> set (sysIssued ?y)"
      using p sid other unfolding pending_inv_def by (simp, metis)
    show "\<forall>j sb'. get (svcSandboxes (sysService ?y)) j = Some sb' \<longrightarrow> sbDownloadInProgress sb' = (j \<in> set (sysDownloads ?y))"
      using p D(2) other unfolding pending_inv_def by simp
  qed (use p D(1) in \<open>simp_all add: pending_inv_def\<close>)
  moreover have "issued_inv (set (sysIssued ?y)) (sysService ?y)"
    using sys_invD(2) [OF inv] sid unfolding issued_inv_def by simp
  moreover have "goroutines_inv (sysQueued ?y) (sysRunning ?y) (sysService ?y)"
    using sys_invD(3) [OF inv] unfolding goroutines_inv_def running_at_def by simp
  ultimately show ?thesis using svc inv unfolding sys_inv_def by simp
qed

lemma sys_inv_download_begin:
  assumes inv: "sys_inv x" and eq: "DownloadSandboxFile_begin req (sysService x) = (s', Inr (sid, path, n))"
  shows "sys_inv (x\<lparr>sysService := s', sysDownloads := sid # sysDownloads x\<rparr>)"
proof (cases rule: DownloadSandboxFile_begin_cases [of req "sysService x"])
  case (error e)
  with eq show ?thesis by simp
next
  case (started r sid' sb ad)
  have s: "sid' = sid" "s' = (sysService x)\<lparr>svcSandboxes := put sid (sb\<lparr>sbDownloadInProgress := True\<rparr>) (svcSandboxes (sysService x))\<rparr>"
    using started(10) eq by auto
  have "svc_inv s'" using inv_DownloadSandboxFile_begin [OF sys_invD(1) [OF inv], of req] eq by simp
  moreover have "distinct (sid # sysDownloads x)"
    using sys_invD(4) [OF inv] started(3,7) s(1) unfolding pending_inv_def by auto
  ultimately show ?thesis
    using sys_inv_download_flag [OF inv started(3) [unfolded s(1)], of True "sid # sysDownloads x"] s(2) by auto
qed

lemma sys_inv_download_finish:
  assumes inv: "sys_inv x" and D: "sid \<in> set (sysDownloads x)"
  shows "sys_inv (x\<lparr>sysService := DownloadSandboxFile_finish sid (sysService x), sysDownloads := remove1 sid (sysDownloads x)\<rparr>)"
proof -
  have dist: "distinct (sysDownloads x)" using sys_invD(4) [OF inv] by (simp add: pending_inv_def)
  show ?thesis
  proof (cases "get (svcSandboxes (sysService x)) sid")
    case None
    have "pending_inv (x\<lparr>sysDownloads := remove1 sid (sysDownloads x)\<rparr>)"
      unfolding pending_inv_def
    proof (intro conjI)
      show "\<forall>j sb. get (svcSandboxes (sysService (x\<lparr>sysDownloads := remove1 sid (sysDownloads x)\<rparr>))) j = Some sb \<longrightarrow>
          sbDownloadInProgress sb = (j \<in> set (sysDownloads (x\<lparr>sysDownloads := remove1 sid (sysDownloads x)\<rparr>)))"
        using sys_invD(4) [OF inv] None dist unfolding pending_inv_def by auto
    qed (use sys_invD(4) [OF inv] dist in \<open>auto simp: pending_inv_def\<close>)
    with None inv show ?thesis by (simp add: DownloadSandboxFile_finish_def sys_inv_def)
  next
    case (Some sb)
    have "svc_inv (DownloadSandboxFile_finish sid (sysService x))"
      using inv_DownloadSandboxFile_finish [OF sys_invD(1) [OF inv]] .
    then show ?thesis
      using sys_inv_download_flag [OF inv Some, of False "remove1 sid (sysDownloads x)"] dist Some
      by (simp add: DownloadSandboxFile_finish_def set_remove1_eq)
  qed
qed

section \<open>Termination of sandboxes\<close>

lemma quiet_cancel:
  assumes inv: "svc_inv s" and k: "get (svcExecutions s) k = Some ex" "\<not> final ex"
  shows "exStatus ex \<noteq> QUEUED \<Longrightarrow> quiet K s (s\<lparr>svcExecutions := put k (cancel_noted now e sig ex) (svcExecutions s)\<rparr>)"
    and "exStatus ex = QUEUED \<Longrightarrow>
      quiet K s (finalizeExecutionInternalLocked clk k (cancel_noted now e sig ex) CANCELED c m em t False s)"
proof -
  assume "exStatus ex \<noteq> QUEUED"
  with k show "quiet K s (s\<lparr>svcExecutions := put k (cancel_noted now e sig ex) (svcExecutions s)\<rparr>)"
    by (intro quiet_put_exec [OF k(1)]) (auto simp: evolves_def)
next
  assume "exStatus ex = QUEUED"
  with k show "quiet K s (finalizeExecutionInternalLocked clk k (cancel_noted now e sig ex) CANCELED c m em t False s)"
    by (intro quiet_finalize [OF inv k]) simp_all
qed

lemma quiet_terminate_execution:
  assumes inv: "svc_inv s"
  shows "quiet K s (fst (terminate_execution clk at sid key (s, cs)))"
proof (cases "get (svcExecutions s) key")
  case (Some ex)
  then show ?thesis using quiet_cancel [OF inv Some] by (simp add: terminate_execution_eq Let_def)
qed (simp add: terminate_execution_eq)

lemma quiet_terminate_loop:
  "svc_inv s \<Longrightarrow> quiet K s (fst (terminate_loop tick at sid keys (s, cs)))"
proof (induction keys arbitrary: s cs)
  case (Cons k ks)
  obtain s1 cs1 where s1: "terminate_execution (tick k) at sid k (s, cs) = (s1, cs1)" by fastforce
  have "svc_inv s1" "quiet K s s1"
    using inv_terminate_execution [OF Cons.prems, of "tick k" at sid k cs]
      quiet_terminate_execution [OF Cons.prems, of K "tick k" at sid k cs] s1 by simp_all
  with Cons.IH [of s1 cs1] show ?case by (simp add: terminate_loop_simps s1) (rule quiet_trans)
qed (simp add: terminate_loop_simps)

lemma terminate_execution_cancels:
  "set (snd (terminate_execution clk at sid key (s, cs))) \<subseteq> set cs \<union>
     (if \<exists>ex. get (svcExecutions s) key = Some ex \<and> exSandboxID ex = sid \<and> \<not> final ex then {key} else {})"
  by (auto simp: terminate_execution_eq Let_def split: option.split)

lemma terminate_loop_cancels:
  "distinct keys \<Longrightarrow> k \<in> set (snd (terminate_loop tick at sid keys (s, cs))) \<Longrightarrow>
   k \<in> set cs \<or> (\<exists>ex. get (svcExecutions s) k = Some ex \<and> exSandboxID ex = sid \<and> \<not> final ex)"
proof (induction keys arbitrary: s cs)
  case (Cons k' ks)
  obtain s1 cs1 where s1: "terminate_execution (tick k') at sid k' (s, cs) = (s1, cs1)" by fastforce
  have "k \<in> set cs1 \<or> (\<exists>ex. get (svcExecutions s1) k = Some ex \<and> exSandboxID ex = sid \<and> \<not> final ex)"
    using Cons.IH [of s1 cs1] Cons.prems by (simp add: terminate_loop_simps s1)
  then show ?case
  proof
    assume "k \<in> set cs1"
    then show ?thesis using terminate_execution_cancels [of "tick k'" at sid k' s cs] s1 by (auto split: if_splits)
  next
    assume r: "\<exists>ex. get (svcExecutions s1) k = Some ex \<and> exSandboxID ex = sid \<and> \<not> final ex"
    show ?thesis
    proof (cases "k = k'")
      case False
      with r terminate_execution_other [OF False, of "tick k'" at sid s cs] s1 show ?thesis by simp
    next
      case True
      have "get (svcExecutions s) k \<noteq> None"
      proof
        assume "get (svcExecutions s) k = None"
        then have "s1 = s" using s1 True by (simp add: terminate_execution_eq)
        with r \<open>get (svcExecutions s) k = None\<close> show False by simp
      qed
      with r True terminate_execution_self [of s k _ "tick k'" at sid cs] s1 show ?thesis
        by (auto simp: stopped_exec_def split: if_splits)
    qed
  qed
qed (simp add: terminate_loop_simps)

text \<open>Conversely the cancel function of every running execution of the sandbox is collected.\<close>

lemma terminate_loop_grows: "set cs \<subseteq> set (snd (terminate_loop tick at sid keys (s, cs)))"
proof (induction keys arbitrary: s cs)
  case (Cons k ks)
  obtain s1 cs1 where s1: "terminate_execution (tick k) at sid k (s, cs) = (s1, cs1)" by fastforce
  then have "set cs \<subseteq> set cs1" by (auto simp: terminate_execution_eq Let_def split: option.splits if_splits)
  with Cons.IH [where s = s1 and cs = cs1] show ?case by (simp add: terminate_loop_simps s1)
qed (simp add: terminate_loop_simps)

lemma terminate_loop_collects:
  assumes "distinct keys" "k \<in> set keys" "get (svcExecutions s) k = Some ex" "exSandboxID ex = sid"
    "\<not> final ex" "exStatus ex \<noteq> QUEUED" "exCancel ex"
  shows "k \<in> set (snd (terminate_loop tick at sid keys (s, cs)))"
  using assms(1-3)
proof (induction keys arbitrary: s cs)
  case (Cons k' ks)
  obtain s1 cs1 where s1: "terminate_execution (tick k') at sid k' (s, cs) = (s1, cs1)" by fastforce
  show ?case
  proof (cases "k = k'")
    case True
    then have "k \<in> set cs1" using s1 Cons.prems(3) assms(4-7) by (auto simp: terminate_execution_eq Let_def)
    then show ?thesis unfolding terminate_loop_simps s1 by (rule subsetD [OF terminate_loop_grows])
  next
    case False
    with terminate_execution_other [OF False, where clk = "tick k'" and at = at and sid = sid and s = s and cs = cs] s1
      Cons.prems Cons.IH [where s = s1 and cs = cs1] show ?thesis by (simp add: terminate_loop_simps)
  qed
qed simp

lemma quiet_TerminateSandbox_begin:
  assumes svc: "svc_inv s"
  shows "quiet {} s (fst (TerminateSandbox_begin clk tick req s))"
proof (cases rule: TerminateSandbox_begin_cases [of clk tick req s])
  case (stopping raw sid sb sb' s1 cs pers)
  have s1: "quiet {} s s1" "svcSandboxes s1 = svcSandboxes s"
    using quiet_terminate_loop [OF svc] terminate_loop_sandboxes stopping(6) by (metis fst_conv)+
  have "quiet {} s1 (with_sandbox sid sb' s1)"
    unfolding with_sandbox_def using stopping(3) s1(2) by (intro quiet_put_sandbox [of _ _ sb]) (simp_all add: stopping(5))
  from quiet_trans [OF s1(1) this] show ?thesis using stopping(7) by simp
qed simp

lemma sys_inv_terminate_begin:
  assumes inv: "sys_inv x" and eq: "TerminateSandbox_begin clk tick req (sysService x) = (s', r)"
  shows "sys_inv (x\<lparr>sysService := s'\<rparr>)"
    and "r = Inr (sid, st, pers, cs) \<Longrightarrow>
      sys_inv (x\<lparr>sysService := s', sysTerminations := (sid, pers) # sysTerminations x, sysCancels := cs @ sysCancels x\<rparr>)"
proof -
  let ?s = "sysService x"
  have svc: "svc_inv ?s" using sys_invD(1) [OF inv] .
  have svc': "svc_inv s'" using inv_TerminateSandbox_begin [OF svc, of clk tick req] eq by simp
  have sys': "sys_inv (x\<lparr>sysService := s'\<rparr>)"
    using sys_inv_quiet [OF inv svc'] quiet_TerminateSandbox_begin [OF svc, of clk tick req] eq by simp
  have both: "r = Inr (sid, st, pers, cs) \<longrightarrow>
      sid \<in> set (sysIssued x) \<and> stoppable s' sid \<and>
      (\<forall>k \<in> set cs. \<exists>ex. get (svcExecutions s') k = Some ex \<and> exCancelRequested ex)"
  proof (cases rule: TerminateSandbox_begin_cases [of clk tick req ?s])
    case (unchanged r')
    have "sid \<in> set (sysIssued x) \<and> stoppable s' sid \<and> cs = []" if r: "r = Inr (sid, st, pers, cs)"
    proof -
      have "r' = r" "s' = ?s" using unchanged(1) eq by simp_all
      with unchanged(2) r obtain sb where "cs = []" "get (svcSandboxes ?s) sid = Some sb" "sbStatus sb = SANDBOX_STOPPED" by blast
      with sys_invD(2) [OF inv] \<open>s' = ?s\<close> show ?thesis unfolding issued_inv_def stoppable_def by auto
    qed
    then show ?thesis by auto
  next
    case (stopping raw sid' sb sb' s1 cs' pers')
    have s': "s' = with_sandbox sid' sb' s1" and r: "r = Inr (sid', False, pers', cs')" using stopping(7) eq by simp_all
    have "sbStatus sb' = SANDBOX_STOPPING" by (simp add: stopping(5))
    then have "stoppable s' sid'" by (simp add: stoppable_def s' with_sandbox_def)
    moreover have "sid' \<in> set (sysIssued x)" using sys_invD(2) [OF inv] stopping(3) unfolding issued_inv_def by blast
    moreover have "\<exists>ex. get (svcExecutions s') k = Some ex \<and> exCancelRequested ex" if k: "k \<in> set cs'" for k
    proof -
      have "distinct (keys_of (svcExecutions ?s))" using svc_inv_gomaps(2) [OF svc] by (simp add: is_gomap_def)
      from terminate_loop_cancels [OF this, of k tick "clk 1" sid' ?s "[]"] k stopping(6)
      obtain ex where ex: "get (svcExecutions ?s) k = Some ex" "exSandboxID ex = sid'" "\<not> final ex" by auto
      from terminate_loop_all(2) [OF svc stopping(6) ex(1)] ex(2,3) show ?thesis
        by (auto simp: s' with_sandbox_def stopped_exec_def)
    qed
    ultimately show ?thesis using r by auto
  qed
  show "sys_inv (x\<lparr>sysService := s'\<rparr>)" by (rule sys')
  assume "r = Inr (sid, st, pers, cs)"
  with both sys' have y: "sys_inv (x\<lparr>sysService := s'\<rparr>)" "sid \<in> set (sysIssued x)" "stoppable s' sid"
    "\<forall>k \<in> set cs. \<exists>ex. get (svcExecutions s') k = Some ex \<and> exCancelRequested ex" by blast+
  have "sys_inv (x\<lparr>sysService := s', sysTerminations := (sid, pers) # sysTerminations x\<rparr>)"
    using sys_inv_termination [OF y(1), of sid pers] y(2,3) by simp
  from sys_inv_cancels [OF this, of cs] y(4)
  show "sys_inv (x\<lparr>sysService := s', sysTerminations := (sid, pers) # sysTerminations x, sysCancels := cs @ sysCancels x\<rparr>)"
    by simp
qed

lemma quiet_TerminateSandbox_finish:
  assumes inv: "svc_inv s" and "stoppable s sid"
  shows "quiet K s (fst (TerminateSandbox_finish clk sid err s))"
proof (cases err)
  case None
  show ?thesis
  proof (cases "get (svcSandboxes s) sid")
    case None
    with \<open>err = None\<close> show ?thesis by (simp add: TerminateSandbox_finish_def Let_def quiet_prune inv)
  next
    case (Some sb)
    let ?sb = "closeSandboxDoneLocked (recordSandboxEventLocked (clk 1) SANDBOX_STOPPED ''sandbox terminated'' (sb\<lparr>sbStatus := SANDBOX_STOPPED\<rparr>))"
    let ?s = "if sbStatus sb \<noteq> SANDBOX_STOPPED then s\<lparr>svcSandboxes := put sid ?sb (svcSandboxes s)\<rparr> else s"
    have eq: "fst (TerminateSandbox_finish clk sid None t) =
        (case get (svcSandboxes t) sid of None \<Rightarrow> pruneStateLocked (clk 2) (clk 0) t
         | Some sb \<Rightarrow> pruneStateLocked (clk 2) (clk 0) (if sbStatus sb \<noteq> SANDBOX_STOPPED
             then t\<lparr>svcSandboxes := put sid (closeSandboxDoneLocked (recordSandboxEventLocked (clk 1) SANDBOX_STOPPED ''sandbox terminated''
               (sb\<lparr>sbStatus := SANDBOX_STOPPED\<rparr>))) (svcSandboxes t)\<rparr> else t))" for t
      by (simp add: TerminateSandbox_finish_def Let_def split: option.split)
    have q: "quiet K s ?s" using Some by (simp add: quiet_put_sandbox [OF Some])
    have "svc_inv ?s"
    proof (cases "sbStatus sb = SANDBOX_STOPPED")
      case False
      have ok: "sandbox_ok ?sb"
        using sandbox_ok_stop [OF svc_inv_sandbox(2) [OF inv Some], of "clk 1" "''sandbox terminated''"]
        by (simp add: recordSandboxEventLocked_def Let_def)
      have "svc_inv (s\<lparr>svcSandboxes := put sid ?sb (svcSandboxes s)\<rparr>)"
      proof (rule inv_put_sandbox [OF inv ok])
        show "sbID ?sb = sid" using svc_inv_sandbox(1) [OF inv Some] by simp
        fix key ex assume ex: "get (svcExecutions s) key = Some ex" "\<not> final ex" "exSandboxID ex = sid"
        from svc_inv_exec(3) [OF inv ex(1,2)] ex(3) Some assms(2)
        show "sbActiveExecutionID ?sb = exID ex \<and> \<not> sbDownloadInProgress ?sb \<and> (exStatus ex = QUEUED \<longrightarrow> sbStatus ?sb = SANDBOX_READY)"
          by (auto simp: active_in_def stoppable_def)
      qed
      with False show ?thesis by simp
    qed (simp add: inv)
    from quiet_trans [OF q quiet_prune [OF this, of K "clk 2" "clk 0"]] show ?thesis
      unfolding None eq Some option.case .
  qed
qed (simp add: TerminateSandbox_finish_def)

lemma sys_inv_terminate_finish:
  assumes inv: "sys_inv x" and T: "(sid, pers) \<in> set (sysTerminations x)"
  shows "sys_inv (x\<lparr>sysService := fst (TerminateSandbox_finish clk sid err (sysService x)),
    sysTerminations := remove1 (sid, pers) (sysTerminations x)\<rparr>)"
proof -
  have st: "stoppable (sysService x) sid" using sys_invD(4) [OF inv] T unfolding pending_inv_def by blast
  have "sys_inv (x\<lparr>sysService := fst (TerminateSandbox_finish clk sid err (sysService x))\<rparr>)"
    using sys_inv_quiet [OF inv inv_TerminateSandbox_finish quiet_TerminateSandbox_finish] sys_invD(1) [OF inv] st by blast
  from sys_inv_fewer_terminations [OF this, of "remove1 (sid, pers) (sysTerminations x)"] set_remove1_subset [of "(sid, pers)" "sysTerminations x"]
  show ?thesis by simp
qed

section \<open>Executions\<close>

lemma executionKey_inj_right:
  assumes "executionKey a b = executionKey a' b'" and "CHR ''/'' \<notin> set b" "CHR ''/'' \<notin> set b'"
  shows "b = b'"
proof -
  have "cut (rev (executionKey x y)) CHR ''/'' = (rev y, rev x, True)" if "CHR ''/'' \<notin> set y" for x y
    unfolding executionKey_def append_Cons append_Nil rev_append rev.simps(2) append_assoc
    using that by (intro cut_at) simp
  with assms show ?thesis by (metis prod.inject rev_rev_ident)
qed

lemma fresh_execution_key:
  assumes inv: "sys_inv x" and i: "fresh_id eid x"
  shows "get (svcExecutions (sysService x)) (executionKey sid eid) = None"
proof (cases "get (svcExecutions (sysService x)) (executionKey sid eid)")
  case (Some ex)
  note ok = svc_inv_exec [OF sys_invD(1) [OF inv] Some]
  have "id_ok (exID ex)" using ok(2) by (simp add: exec_ok_def exec_ids_ok_def)
  with ok(1) i have "eid = exID ex" using executionKey_inj_right unfolding fresh_id_def id_ok_def by blast
  with i sys_invD(2) [OF inv] Some show ?thesis unfolding issued_inv_def fresh_id_def by blast
qed simp

lemma sys_inv_create_execution:
  assumes inv: "sys_inv x" and i: "fresh_id (newExecutionID gen (clk 1)) x"
    and eq: "CreateExecution gen clk req (sysService x) = (s', Inr pe)"
  shows "sys_inv (x\<lparr>sysService := s', sysIssued := newExecutionID gen (clk 1) # sysIssued x,
    sysQueued := (peSandboxID pe, peExecutionID pe) # sysQueued x\<rparr>)"
proof (cases rule: CreateExecution_cases [of gen clk req "sysService x"])
  case (error e)
  with eq show ?thesis by simp
next
  case (busy sid sb)
  with eq show ?thesis by simp
next
  case (created r sid eid sb ir idg launch tty kind ex sb')
  let ?s = "sysService x" and ?k = "executionKey sid eid"
  let ?s1 = "?s\<lparr>svcExecutions := put ?k ex (svcExecutions ?s), svcSandboxes := put sid sb' (svcSandboxes ?s)\<rparr>"
  let ?y = "x\<lparr>sysService := ?s1, sysIssued := eid # sysIssued x, sysQueued := (sid, eid) # sysQueued x\<rparr>"
  have svc: "svc_inv ?s" using sys_invD(1) [OF inv] .
  have f: "exSandboxID ex = sid" "exID ex = eid" "exStatus ex = QUEUED" "\<not> exCancelRequested ex"
    by (simp_all add: created(10) new_execution_def)
  have pe: "pe = cloneExecutionLocked ex" "s' = pruneStateLocked (clk 2) (clk 0) ?s1" using created(12) eq by simp_all
  have fr: "fresh_id eid x" using i created(3) by simp
  have none: "get (svcExecutions ?s) ?k = None" using fresh_execution_key [OF inv fr] .
  have ids: "id_ok sid" "id_ok eid" "sid \<in> set (sysIssued x)" "eid \<notin> set (sysIssued x)"
    using svc_inv_sandbox(3) [OF svc created(5)] fr sys_invD(2) [OF inv] created(5) by (auto simp: fresh_id_def issued_inv_def)
  have "exec_ok ex" unfolding created(10) using ids created(9) by (intro exec_ok_record new_execution_ok)
  then have "svc_inv ?s1" using inv_new_execution [OF svc created(5-8) _ f(1-3) created(11) none] by blast
  moreover have "issued_inv (set (sysIssued ?y)) (sysService ?y)"
    using sys_invD(2) [OF inv] ids f unfolding issued_inv_def by simp
  moreover have "goroutines_inv (sysQueued ?y) (sysRunning ?y) (sysService ?y)"
  proof -
    have new: "(sid, eid) \<notin> set (sysQueued x) \<union> set (sysRunning x)" using sys_invD(5) [OF inv] ids(4) by blast
    have "running_at ?s1 k" if "running_at ?s k" for k using that none unfolding running_at_def by auto
    with sys_invD(3) [OF inv] new f ids show ?thesis unfolding goroutines_inv_def by auto
  qed
  moreover have "pending_inv ?y"
  proof -
    have p: "pending_inv x" using sys_invD(4) [OF inv] .
    have nk: "?k \<notin> set (sysCancels x)"
    proof
      assume "?k \<in> set (sysCancels x)"
      from sys_invD(6) [OF inv this] obtain a b where "?k = executionKey a b" "id_ok a" "b \<in> set (sysIssued x)" by blast
      with ids(1,4) show False using executionKey_id_inj [of sid a eid b] by simp
    qed
    have st: "stoppable ?s1 j = stoppable ?s j" for j using created(5,11) by (simp add: stoppable_def)
    have dl: "sbDownloadInProgress sb' = sbDownloadInProgress sb" by (simp add: created(11))
    show ?thesis
      unfolding pending_inv_def
    proof (intro conjI)
      show "\<forall>k \<in> set (sysCancels ?y). \<forall>ex. get (svcExecutions (sysService ?y)) k = Some ex \<longrightarrow> exCancelRequested ex"
        using p nk unfolding pending_inv_def by auto
      show "\<forall>(j, b) \<in> set (sysTerminations ?y). j \<in> set (sysIssued ?y) \<and> stoppable (sysService ?y) j"
        using p st unfolding pending_inv_def by auto
      show "\<forall>j b. get (svcSandboxes (sysService ?y)) j = Some b \<longrightarrow> sbDownloadInProgress b = (j \<in> set (sysDownloads ?y))"
        using p dl created(5) unfolding pending_inv_def by simp
    qed (use p in \<open>auto simp: pending_inv_def\<close>)
  qed
  ultimately have "sys_inv ?y" using sys_invD(5,6) [OF inv] unfolding sys_inv_def by fastforce
  from sys_inv_prune [OF this, of "clk 2" "clk 0"] show ?thesis
    using f created(3) by (simp add: pe cloneExecutionLocked_def)
qed

lemma quiet_CancelExecution:
  assumes svc: "svc_inv s"
  shows "quiet {} s (fst (CancelExecution clk req sig s))"
proof (cases rule: CancelExecution_cases [of clk req sig s])
  case (queued sid eid ex e)
  have nf: "\<not> final ex" using queued(3) by simp
  note q = quiet_cancel(2) [OF svc queued(2) nf queued(3)]
  note i = inv_cancel(2) [OF svc queued(2) nf queued(3)]
  show ?thesis using queued(4) quiet_trans [OF q quiet_prune [OF i]] unfolding finalize_prune by simp
next
  case (running sid eid ex e)
  then show ?thesis using quiet_cancel(1) [OF svc running(2,3,4)] by simp
qed simp

lemma sys_inv_cancel:
  assumes inv: "sys_inv x" and eq: "CancelExecution clk req sig (sysService x) = (s', r)"
  shows "sys_inv (x\<lparr>sysService := s'\<rparr>)"
    and "req = Some (a, b) \<Longrightarrow> r = Inr (rsp, call) \<Longrightarrow> sys_inv (x\<lparr>sysService := s',
      sysCancels := (if call then [executionKey (trim_space a) (trim_space b)] else []) @ sysCancels x\<rparr>)"
proof -
  let ?s = "sysService x"
  have svc: "svc_inv ?s" "svc_inv s'" using sys_invD(1) [OF inv] inv_CancelExecution [of ?s clk req sig] eq by simp_all
  show y: "sys_inv (x\<lparr>sysService := s'\<rparr>)"
    using sys_inv_quiet [OF inv svc(2)] quiet_CancelExecution [OF svc(1), of clk req sig] eq by simp
  have both: "req = Some (a, b) \<longrightarrow> r = Inr (rsp, True) \<longrightarrow>
      (\<exists>ex. get (svcExecutions s') (executionKey (trim_space a) (trim_space b)) = Some ex \<and> exCancelRequested ex)"
  proof (cases rule: CancelExecution_cases [of clk req sig ?s])
    case (running sid eid ex e)
    have "sid = trim_space a \<and> eid = trim_space b" if "req = Some (a, b)"
      using running(1) that by (auto simp: exec_ids_def split: if_splits)
    then show ?thesis using running(5) eq by auto
  qed (use eq in auto)
  assume "req = Some (a, b)" "r = Inr (rsp, call)"
  with both sys_inv_cancels [OF y, of "if call then [executionKey (trim_space a) (trim_space b)] else []"]
  show "sys_inv (x\<lparr>sysService := s', sysCancels := (if call then [executionKey (trim_space a) (trim_space b)] else []) @ sysCancels x\<rparr>)"
    by (cases call) simp_all
qed

section \<open>Runs\<close>

text \<open>A key names one pair of identifiers, and the two goroutine lists are disjoint.\<close>

lemma goroutine_pair:
  assumes "goroutines_inv Q R s" "svc_inv s" and k: "get (svcExecutions s) (executionKey a b) = Some ex" and a: "id_ok a"
  shows "exSandboxID ex = a" "exID ex = b"
proof -
  note ok = svc_inv_exec [OF assms(2) k]
  have "id_ok (exSandboxID ex)" using ok(2) by (simp add: exec_ok_def exec_ids_ok_def)
  with ok(1) a show "exSandboxID ex = a" "exID ex = b"
    using executionKey_id_inj [of a "exSandboxID ex" b "exID ex"] by simp_all
qed

lemma queued_not_running:
  assumes g: "goroutines_inv Q R s" and svc: "svc_inv s" and q: "(a, b) \<in> set Q"
  shows "\<not> running_at s (executionKey a b)" "id_ok a"
proof -
  show a: "id_ok a" using g q unfolding goroutines_inv_def by auto
  show "\<not> running_at s (executionKey a b)"
  proof
    assume "running_at s (executionKey a b)"
    then obtain ex where ex: "get (svcExecutions s) (executionKey a b) = Some ex" "exStatus ex = RUNNING" by (auto simp: running_at_def)
    with g goroutine_pair [OF g svc ex(1) a] have "(a, b) \<in> set R" unfolding goroutines_inv_def by blast
    with q g show False unfolding goroutines_inv_def by auto
  qed
qed

text \<open>A goroutine leaves the queue without running: its execution is gone or final.\<close>

lemma sys_inv_dequeue:
  assumes inv: "sys_inv x" and q: "(a, b) \<in> set (sysQueued x)"
    and fin: "\<And>ex. get (svcExecutions (sysService x)) (executionKey a b) = Some ex \<Longrightarrow> final ex"
  shows "sys_inv (x\<lparr>sysQueued := remove1 (a, b) (sysQueued x)\<rparr>)"
proof -
  let ?Q = "remove1 (a, b) (sysQueued x)" and ?s = "sysService x"
  have g: "goroutines_inv (sysQueued x) (sysRunning x) ?s" and svc: "svc_inv ?s" using sys_invD [OF inv] by blast+
  have sub: "set ?Q \<subseteq> set (sysQueued x)" by (rule set_remove1_subset)
  have d: "distinct (sysQueued x @ sysRunning x)" using g by (simp add: goroutines_inv_def)
  have "goroutines_inv ?Q (sysRunning x) ?s"
    unfolding goroutines_inv_def
  proof (intro conjI)
    show "distinct (?Q @ sysRunning x)" using d sub by (auto simp: distinct_remove1)
    show "\<forall>(a, b) \<in> set (?Q @ sysRunning x). id_ok a" using g sub unfolding goroutines_inv_def by auto
    show "\<forall>k ex. get (svcExecutions ?s) k = Some ex \<longrightarrow>
        (exStatus ex = QUEUED \<longrightarrow> (exSandboxID ex, exID ex) \<in> set ?Q \<and> \<not> exCancelRequested ex) \<and>
        (exStatus ex = RUNNING \<longrightarrow> (exSandboxID ex, exID ex) \<in> set (sysRunning x))"
    proof (intro allI impI)
      fix k ex assume ex: "get (svcExecutions ?s) k = Some ex"
      have h: "(exStatus ex = QUEUED \<longrightarrow> (exSandboxID ex, exID ex) \<in> set (sysQueued x) \<and> \<not> exCancelRequested ex) \<and>
        (exStatus ex = RUNNING \<longrightarrow> (exSandboxID ex, exID ex) \<in> set (sysRunning x))"
        using g ex unfolding goroutines_inv_def by blast
      have "(exSandboxID ex, exID ex) \<noteq> (a, b)" if "exStatus ex = QUEUED"
        using fin svc_inv_exec(1) [OF svc ex] ex that by auto
      with h d show "(exStatus ex = QUEUED \<longrightarrow> (exSandboxID ex, exID ex) \<in> set ?Q \<and> \<not> exCancelRequested ex) \<and>
        (exStatus ex = RUNNING \<longrightarrow> (exSandboxID ex, exID ex) \<in> set (sysRunning x))"
        by (simp add: set_remove1_eq)
    qed
    show "\<forall>(a, b) \<in> set (sysRunning x). running_at ?s (executionKey a b)" using g unfolding goroutines_inv_def by blast
  qed
  moreover have "pending_inv (x\<lparr>sysQueued := ?Q\<rparr>)" using sys_invD(4) [OF inv] unfolding pending_inv_def by simp
  ultimately show ?thesis using inv sub unfolding sys_inv_def by auto
qed

lemma start_ended_quiet:
  assumes inv: "sys_inv x" and q: "(a, b) \<in> set (sysQueued x)"
    and eq: "runExecution_start env gen clk a b (sysService x) = (s', None)"
  shows "svc_inv s'" "quiet {} (sysService x) s' \<and> (\<forall>ex. get (svcExecutions s') (executionKey a b) = Some ex \<longrightarrow> final ex)"
proof -
  let ?s = "sysService x" and ?k = "executionKey a b"
  have g: "goroutines_inv (sysQueued x) (sysRunning x) ?s" and svc: "svc_inv ?s" using sys_invD [OF inv] by blast+
  note n = queued_not_running [OF g svc q]
  have nc: "exStatus ex = QUEUED \<Longrightarrow> \<not> exCancelRequested ex" if "get (svcExecutions ?s) ?k = Some ex" for ex
    using g that unfolding goroutines_inv_def by blast
  show "svc_inv s'" using inv_runExecution_start [OF svc n nc, where env = env and gen = gen and clk = clk] eq by simp
  show "quiet {} ?s s' \<and> (\<forall>ex. get (svcExecutions s') ?k = Some ex \<longrightarrow> final ex)"
  proof (cases rule: runExecution_start_cases [OF svc n, where env = env and gen = gen and clk = clk, case_names gone no_backend running])
    case gone
    with eq show ?thesis by auto
  next
    case (no_backend ex em)
    let ?f = "finalizeExecutionInternalLocked (\<lambda>i. clk (i + 1)) ?k ex FAILED 1 (exMessage ex) em (clk 0)"
    have fin: "\<not> final ex" using no_backend(2) by simp
    have q1: "quiet {} ?s (?f False ?s)" using no_backend(2) by (intro quiet_finalize [OF svc no_backend(1) fin]) simp_all
    have i1: "svc_inv (?f False ?s)"
      using queued_flags [OF svc_inv_exec(2) [OF svc no_backend(1)] no_backend(2)] svc_inv_exec(2) [OF svc no_backend(1)]
        nc [OF no_backend(1) no_backend(2)]
      by (intro inv_finalizeExecution [OF svc no_backend(1)]) (simp_all add: exec_ok_def)
    have s': "s' = pruneStateLocked (clk (1 + 1)) (if clk 0 = 0 then clk (0 + 1) else clk 0) (?f False ?s)"
      using no_backend(3) eq unfolding finalize_prune by simp
    have q2: "quiet {} (?f False ?s) s'" unfolding s' by (rule quiet_prune [OF i1])
    have "final ex'" if ex': "get (svcExecutions s') ?k = Some ex'" for ex'
    proof -
      obtain ex1 where "get (svcExecutions (?f False ?s)) ?k = Some ex1" "evolves ex1 ex'"
        using quiet_execD [OF q2 ex'] by (elim exE conjE)
      then show ?thesis by (auto simp: finalize_get evolves_def)
    qed
    with quiet_trans [OF q1 q2] show ?thesis by blast
  next
    case (running ex ex' sb ad req)
    with eq show ?thesis by simp
  qed
qed

lemma sys_inv_start_ended:
  assumes inv: "sys_inv x" and q: "(a, b) \<in> set (sysQueued x)"
    and eq: "runExecution_start env gen clk a b (sysService x) = (s', None)"
  shows "sys_inv (x\<lparr>sysService := s', sysQueued := remove1 (a, b) (sysQueued x)\<rparr>)"
proof -
  have "sys_inv (x\<lparr>sysService := s'\<rparr>)" "\<And>ex. get (svcExecutions s') (executionKey a b) = Some ex \<Longrightarrow> final ex"
    using sys_inv_quiet [OF inv] start_ended_quiet [OF inv q eq] by blast+
  with sys_inv_dequeue [of "x\<lparr>sysService := s'\<rparr>" a b] q show ?thesis by simp
qed

text \<open>A queued execution starts to run.\<close>

lemma sys_inv_start_running:
  assumes inv: "sys_inv x" and q: "(a, b) \<in> set (sysQueued x)"
    and eq: "runExecution_start env gen clk a b (sysService x) = (s', Some run)"
  shows "sys_inv (x\<lparr>sysService := s', sysQueued := remove1 (a, b) (sysQueued x), sysRunning := (a, b) # sysRunning x\<rparr>)"
    (is "sys_inv ?y")
proof -
  let ?s = "sysService x" and ?k = "executionKey a b" and ?Q = "remove1 (a, b) (sysQueued x)"
  have g: "goroutines_inv (sysQueued x) (sysRunning x) ?s" and svc: "svc_inv ?s" using sys_invD [OF inv] by blast+
  note n = queued_not_running [OF g svc q]
  have nc: "exStatus ex = QUEUED \<Longrightarrow> \<not> exCancelRequested ex" if "get (svcExecutions ?s) ?k = Some ex" for ex
    using g that unfolding goroutines_inv_def by blast
  have svc': "svc_inv s'" using inv_runExecution_start [OF svc n nc, where env = env and gen = gen and clk = clk] eq by simp
  obtain ex ex' where ex: "get (svcExecutions ?s) ?k = Some ex" "exStatus ex = QUEUED"
    and c: "core ex' = core (ex\<lparr>exCancel := True, exStatus := RUNNING\<rparr>)"
    and s': "s' = ?s\<lparr>svcExecutions := put ?k ex' (svcExecutions ?s)\<rparr>"
  proof (cases rule: runExecution_start_cases [OF svc n, where env = env and gen = gen and clk = clk, case_names gone no_backend running])
    case (running ex ex' sb ad req)
    with eq show thesis by (intro that [of ex ex']) simp_all
  qed (use eq in simp_all)
  have f: "exStatus ex' = RUNNING" "exSandboxID ex' = a" "exID ex' = b" "exCancelRequested ex' = exCancelRequested ex"
    using core_eqD [OF c] goroutine_pair [OF g svc ex(1) n(2)] by simp_all
  have d: "distinct (sysQueued x @ sysRunning x)" using g by (simp add: goroutines_inv_def)
  have ab: "(a, b) \<notin> set ?Q" "(a, b) \<notin> set (sysRunning x)" using d q by auto
  have "goroutines_inv ?Q ((a, b) # sysRunning x) s'"
    unfolding goroutines_inv_def
  proof (intro conjI)
    show "distinct (?Q @ (a, b) # sysRunning x)" using d ab set_remove1_subset [of "(a, b)" "sysQueued x"] by auto
    show "\<forall>(a, b) \<in> set (?Q @ (a, b) # sysRunning x). id_ok a"
      using g n(2) set_remove1_subset [of "(a, b)" "sysQueued x"] unfolding goroutines_inv_def by auto
    show "\<forall>k ex. get (svcExecutions s') k = Some ex \<longrightarrow>
        (exStatus ex = QUEUED \<longrightarrow> (exSandboxID ex, exID ex) \<in> set ?Q \<and> \<not> exCancelRequested ex) \<and>
        (exStatus ex = RUNNING \<longrightarrow> (exSandboxID ex, exID ex) \<in> set ((a, b) # sysRunning x))"
    proof (intro allI impI)
      fix k e assume e: "get (svcExecutions s') k = Some e"
      show "(exStatus e = QUEUED \<longrightarrow> (exSandboxID e, exID e) \<in> set ?Q \<and> \<not> exCancelRequested e) \<and>
        (exStatus e = RUNNING \<longrightarrow> (exSandboxID e, exID e) \<in> set ((a, b) # sysRunning x))"
      proof (cases "k = ?k")
        case True
        with e f show ?thesis by (simp add: s')
      next
        case False
        with e have e': "get (svcExecutions ?s) k = Some e" by (simp add: s')
        with g have "(exStatus e = QUEUED \<longrightarrow> (exSandboxID e, exID e) \<in> set (sysQueued x) \<and> \<not> exCancelRequested e) \<and>
          (exStatus e = RUNNING \<longrightarrow> (exSandboxID e, exID e) \<in> set (sysRunning x))" unfolding goroutines_inv_def by blast
        moreover have "(exSandboxID e, exID e) \<noteq> (a, b)" using svc_inv_exec(1) [OF svc e'] False by auto
        ultimately show ?thesis using d by (simp add: set_remove1_eq)
      qed
    qed
    have "running_at s' k" if "running_at ?s k" for k using that f(1) by (auto simp: running_at_def s')
    with g show "\<forall>(c, d) \<in> set ((a, b) # sysRunning x). running_at s' (executionKey c d)"
      unfolding goroutines_inv_def by (auto simp: running_at_def s' f(1))
  qed
  moreover have "issued_inv (set (sysIssued x)) s'"
  proof -
    have "exID ex' \<in> set (sysIssued x)" using sys_invD(5) [OF inv, of a b] q f by simp
    then show ?thesis using sys_invD(2) [OF inv] unfolding issued_inv_def by (simp add: s')
  qed
  moreover have "pending_inv ?y"
  proof -
    have p: "pending_inv x" using sys_invD(4) [OF inv] .
    have "stoppable s' j = stoppable ?s j" for j by (simp add: stoppable_def s')
    moreover have "\<forall>k \<in> set (sysCancels x). \<forall>e. get (svcExecutions s') k = Some e \<longrightarrow> exCancelRequested e"
      using p ex(1) f(4) unfolding pending_inv_def by (simp add: s')
    ultimately show ?thesis using p unfolding pending_inv_def by (simp add: s')
  qed
  ultimately show ?thesis
    using svc' sys_invD(5,6) [OF inv] q set_remove1_subset [of "(a, b)" "sysQueued x"] unfolding sys_inv_def by fastforce
qed

lemma quiet_executionOutputStream: "quiet K s (executionOutputStream now k c s)"
proof (cases "get (svcExecutions s) k")
  case None
  then show ?thesis
    by (cases c) (simp_all add: executionOutputStream_def recordExecutionOutputChunk_def setExecutionAttachIO_def)
next
  case (Some ex)
  have "quiet K s (s\<lparr>svcExecutions := put k (ex\<lparr>exAttachStdin := w, exAttachResize := r\<rparr>) (svcExecutions s)\<rparr>)" if "\<not> final ex" for w r
    using that by (intro quiet_put_exec [OF Some]) (auto simp: evolves_def)
  moreover have "quiet K s (s\<lparr>svcExecutions := put k ex' (svcExecutions s)\<rparr>)" if "\<not> final ex" "core ex' = core ex" for ex'
    using that by (intro quiet_put_core [OF Some]) auto
  ultimately show ?thesis
    by (cases c) (simp_all add: executionOutputStream_def recordExecutionOutputChunk_def setExecutionAttachIO_def Some)
qed

lemma quiet_detach: "quiet K s (detach now sid eid s)"
  by (cases "get (svcSandboxes s) sid") (simp_all add: detach_def quiet_put_sandbox)

lemma finish_quiet:
  assumes svc: "svc_inv s" and k: "get (svcExecutions s) (executionKey a b) = Some ex" "exStatus ex = RUNNING" and a: "id_ok a"
    and ctx: "ctxErr = Some ContextCanceled \<Longrightarrow> exCancelRequested ex" "ctxErr \<noteq> Some DeadlineExceeded"
  shows "quiet {executionKey a b} s (runExecution_finish clk a b outcome streaming ctxErr s)"
    and "get (svcExecutions (runExecution_finish clk a b outcome streaming ctxErr s)) (executionKey a b) = Some ex' \<Longrightarrow> final ex'"
proof -
  let ?k = "executionKey a b"
  obtain e st c m where f: "core e = core (ex\<lparr>exCancel := False, exAttachStdin := False, exAttachResize := False\<rparr>)" "exec_bounds_ok e"
    "st \<in> {SUCCEEDED, FAILED, CANCELED}" "(st = CANCELED) = exCancelRequested ex"
    "st = CANCELED \<Longrightarrow> c = cancelExitCode (exCancelSignal ex)" "st = SUCCEEDED \<Longrightarrow> c = 0"
    "runExecution_finish clk a b outcome streaming ctxErr s =
       finalizeExecutionInternalLocked (\<lambda>i. clk (i + 5)) ?k e st c m [] (clk 4) True (detach (clk 0) a b s)"
    using runExecution_finish_cases [OF svc k(1) ctx, where clk = clk and outcome = outcome and streaming = streaming] by blast
  let ?f = "finalizeExecutionInternalLocked (\<lambda>i. clk (i + 5)) ?k e st c m [] (clk 4) False"
  let ?d = "detach (clk 0) a b (?f s)"
  have q1: "quiet {?k} s (?f s)"
    using core_eqD [OF f(1)] f(3) k(2) by (intro quiet_finalize [OF svc k(1)]) simp_all
  have "exec_kind_ok e"
    using svc_inv_exec(2) [OF svc k(1)] core_eqD [OF f(1)] by (simp add: exec_ok_def exec_kind_ok_def)
  then have i1: "svc_inv (?f s)"
    using f core_eqD [OF f(1)] by (intro inv_finalizeExecution [OF svc k(1)]) simp_all
  have "get (svcExecutions (?f s)) ?k = Some (finalized (if clk 4 = 0 then clk (0 + 5) else clk 4) st c m [] e)"
    by (simp add: finalize_get)
  then have fin: "get (svcExecutions (?f s)) ?k = Some z \<Longrightarrow> final z" for z using f(3) by auto
  have i2: "svc_inv ?d" using i1 fin a by (intro detach_inv [OF i1]) (auto simp: finalize_get)
  let ?s' = "runExecution_finish clk a b outcome streaming ctxErr s"
  have s': "?s' = pruneStateLocked (clk (1 + 5)) (if clk 4 = 0 then clk (0 + 5) else clk 4) ?d"
    unfolding f(7) finalize_prune finalize_detach by (rule refl)
  have q2: "quiet {?k} (?f s) ?s'"
    unfolding s' by (rule quiet_trans [OF quiet_detach quiet_prune [OF i2]])
  show "quiet {?k} s ?s'" by (rule quiet_trans [OF q1 q2])
  assume "get (svcExecutions ?s') ?k = Some ex'"
  from quiet_execD [OF q2 this] obtain z where "get (svcExecutions (?f s)) ?k = Some z" "evolves z ex'" by blast
  with fin show "final ex'" unfolding evolves_def by metis
qed

lemma sys_inv_finish:
  assumes inv: "sys_inv x" and r: "(a, b) \<in> set (sysRunning x)"
    and ctx: "ctxErr = None \<or> ctxErr = Some ContextCanceled \<and> executionKey a b \<in> set (sysCancels x)"
  shows "sys_inv (x\<lparr>sysService := runExecution_finish clk a b outcome streaming ctxErr (sysService x),
    sysRunning := remove1 (a, b) (sysRunning x)\<rparr>)"
proof -
  let ?s = "sysService x" and ?k = "executionKey a b" and ?R = "remove1 (a, b) (sysRunning x)"
  let ?s' = "runExecution_finish clk a b outcome streaming ctxErr ?s"
  have g: "goroutines_inv (sysQueued x) (sysRunning x) ?s" and svc: "svc_inv ?s" and p: "pending_inv x"
    using sys_invD [OF inv] by blast+
  have a: "id_ok c" if "(c, d) \<in> set (sysRunning x)" for c d using g that unfolding goroutines_inv_def by auto
  have dist: "distinct (sysRunning x)" using g by (simp add: goroutines_inv_def)
  obtain ex where ex: "get (svcExecutions ?s) ?k = Some ex" "exStatus ex = RUNNING"
    using g r unfolding goroutines_inv_def running_at_def by blast
  have ctx': "ctxErr = Some ContextCanceled \<Longrightarrow> exCancelRequested ex" "ctxErr \<noteq> Some DeadlineExceeded"
    using ctx p ex(1) unfolding pending_inv_def by auto
  note q = finish_quiet [OF svc ex a [OF r] ctx', where clk = clk and outcome = outcome and streaming = streaming]
  have svc': "svc_inv ?s'" using inv_runExecution_finish [OF svc ex(1) a [OF r] ctx'] .
  have "goroutines_inv (sysQueued x) ?R ?s'"
  proof (rule quiet_goroutines [OF g q(1)])
    show "distinct ?R" "set ?R \<subseteq> set (sysRunning x)" using dist set_remove1_subset [of "(a, b)" "sysRunning x"] by auto
    fix c d assume cd: "(c, d) \<in> set ?R"
    then have "(c, d) \<noteq> (a, b)" "(c, d) \<in> set (sysRunning x)" using dist by (simp_all add: set_remove1_eq)
    then show "executionKey c d \<notin> {?k}" using executionKey_id_inj [of c a d b] a r by auto
  next
    fix k e assume e: "get (svcExecutions ?s') k = Some e" "exStatus e = RUNNING" "(exSandboxID e, exID e) \<in> set (sysRunning x)"
    have "k = executionKey (exSandboxID e) (exID e)" using svc_inv_exec(1) [OF svc' e(1)] .
    with e(1,2) q(2) have "(exSandboxID e, exID e) \<noteq> (a, b)" by auto
    with e(3) dist show "(exSandboxID e, exID e) \<in> set ?R" by (simp add: set_remove1_eq)
  qed
  moreover have "issued_inv (set (sysIssued x)) ?s'" using quiet_issued [OF sys_invD(2) [OF inv] q(1)] .
  moreover have "pending_inv (x\<lparr>sysService := ?s', sysRunning := ?R\<rparr>)"
    using quiet_pending [OF p q(1)] unfolding pending_inv_def by simp
  ultimately show ?thesis
    using svc' sys_invD(5,6) [OF inv] set_remove1_subset [of "(a, b)" "sysRunning x"] unfolding sys_inv_def by fastforce
qed

section \<open>Reachable states\<close>

lemma sys_inv_initial: "sys_inv (initial cfg backends)"
  by (simp add: sys_inv_def initial_def svc_inv_def sandboxes_inv_def executions_inv_def sessions_inv_def issued_inv_def
      goroutines_inv_def pending_inv_def)

lemma sys_step_inv:
  assumes "sys_step x y" "sys_inv x"
  shows "sys_inv y"
  using assms
proof (cases rule: sys_step.cases)
  case (local s')
  then show ?thesis using sys_inv_quiet local_step_ok sys_invD(1) assms(2) by blast
next
  case (stream sid eid now c)
  have "running_at (sysService x) (executionKey sid eid)"
    using sys_invD(3) [OF assms(2)] stream(2) unfolding goroutines_inv_def by blast
  then show ?thesis
    unfolding stream(1) using assms(2) sys_invD(1) [OF assms(2)]
    by (intro sys_inv_quiet inv_executionOutputStream quiet_executionOutputStream)
next
  case (terminate_refused clk tick treq s' e)
  then show ?thesis using sys_inv_terminate_begin(1) [OF assms(2)] by blast
next
  case (terminate_begin clk tick treq s' sid stopped pers cs)
  then show ?thesis using sys_inv_terminate_begin(2) [OF assms(2)] by blast
next
  case (cancel_refused clk creq sig s' e)
  then show ?thesis using sys_inv_cancel(1) [OF assms(2)] by blast
next
  case (cancel clk a b sig s' rsp call)
  then show ?thesis using sys_inv_cancel(2) [OF assms(2)] by blast
next
  case (create_sandbox gen clk env provision req)
  then show ?thesis using sys_inv_CreateSandbox [OF assms(2)] by blast
next
  case (open_session gen clk random oreq)
  then show ?thesis using sys_inv_OpenInteractiveExecution [OF assms(2)] by blast
next
  case (create_execution gen clk ereq s' pe)
  then show ?thesis using sys_inv_create_execution [OF assms(2)] by blast
qed (use assms(2) in \<open>simp_all add: sys_inv_download_begin sys_inv_download_finish sys_inv_terminate_finish
    sys_inv_start_ended sys_inv_start_running sys_inv_finish\<close>)

lemma reachable_inv: "reachable x \<Longrightarrow> sys_inv x"
  by (induction rule: reachable.induct) (auto intro: sys_inv_initial sys_step_inv)

end
