(* ===== verification/Service_Props.thy ===== *)
theory Service_Props
  imports Service_Safety
begin

text \<open>
  What the control service guarantees: the properties of reachable states and of single operations,
  each with a witness on a small run (one sandbox, one interactive execution).
\<close>

section \<open>A run\<close>

lemma pruned_keys_Nil [simp]: "pruned_keys t l f [] = []"
  by (simp add: pruned_keys_def oldest_first_def)

lemma pruned_keys_few:
  assumes "\<forall>(k, x) \<in> set m. \<not> past_retention t (f x)" "length m \<le> l"
  shows "pruned_keys t l f m = []"
proof -
  have "filter (\<lambda>(k, x). past_retention t (f x)) m = []" using assms(1) by (auto simp: filter_empty_conv)
  moreover have "length (filter (\<lambda>(k, x). \<not> past_retention t (f x)) m) \<le> l"
    using assms(2) length_filter_le le_trans by blast
  ultimately show ?thesis by (simp add: pruned_keys_def)
qed

lemma prune_recent:
  assumes "\<forall>(k, ex) \<in> set (svcExecutions s). final ex \<longrightarrow> \<not> past_retention now (executionTerminalTime ex)"
    "length (svcExecutions s) \<le> maxRetainedFinishedExecutions" "now \<noteq> 0"
    "\<forall>(k, sb) \<in> set (svcSandboxes s). sbStatus sb \<noteq> SANDBOX_STOPPED"
  shows "pruneStateLocked c now s = s"
proof -
  have "removable_sandboxes s = []"
    using assms(4) by (auto simp: removable_sandboxes_def filter_empty_conv)
  moreover have "pruned_keys now maxRetainedFinishedExecutions executionTerminalTime (final_executions s) = []"
    using assms(1,2) le_trans [OF length_filter_le]
    by (intro pruned_keys_few) (auto simp: final_executions_def)
  ultimately show ?thesis
    using assms(3) by (simp add: pruneStateLocked_def pruneExecutionsLocked_eq pruneSandboxesLocked_eq)
qed

definition demo_gen :: "string \<Rightarrow> string + string" where
  "demo_gen pre = Inr (pre @ ''_1'')"

definition demo_clk :: "nat \<Rightarrow> time" where
  "demo_clk i = 100 + int i"

definition demo_env :: host_env where
  "demo_env = \<lparr>heGetenv = (\<lambda>_. []), heHome = Inr ''/root'', heTempDir = ''/tmp'', heEuid = 0,
     heSystemSocket = False, heGOOS = ''linux''\<rparr>"

definition demo_adapter :: adapter where
  "demo_adapter = \<lparr>adStreaming = True, adPersistent = True, adFileDownload = True, adReporter = None\<rparr>"

definition demo_start :: sys where
  "demo_start = initial zeroConfig [(''firecracker'', demo_adapter)]"

lemma demo_start_lists [simp]:
  "sysIssued demo_start = []" "sysQueued demo_start = []" "sysRunning demo_start = []" "reachable demo_start"
  "svcExecutions (sysService demo_start) = []" "svcBackends (sysService demo_start) = [(''firecracker'', demo_adapter)]"
  using reachable.start by (simp_all add: demo_start_def initial_def)

lemma demo_ids [simp]:
  "newSandboxID demo_gen t = ''cr_1''" "newExecutionID demo_gen t = ''exec_1''" "newInteractiveSessionID demo_gen t = ''isess_1''"
  "newRunID demo_gen t = ''run_1''"
  by (simp_all add: newSandboxID_def newExecutionID_def newInteractiveSessionID_def newRunID_def newID_def demo_gen_def
      trim_space_def trim_left_def trim_right_def is_space_def)

lemma demo_id_ok [simp]: "id_ok ''cr_1''" "id_ok ''exec_1''" "id_ok ''isess_1''"
  by code_simp+

definition demo_sandbox_request :: "PbPolicy \<Rightarrow> CreateSandboxRequest" where
  "demo_sandbox_request pb = \<lparr>csPolicy = Some pb, csBackend = ''firecracker'', csLaunchSeconds = None\<rparr>"

definition demo_exec_request :: CreateExecutionRequest where
  "demo_exec_request = \<lparr>ceSandboxID = ''cr_1'', ceCommand = [''--'', ''sh''], ceOptions = Some (0, True), ceKind = KIND_UNSPECIFIED\<rparr>"

lemma demo_firecracker [simp]: "trim_space ''firecracker'' = ''firecracker''" "trim_space ''cr_1'' = ''cr_1''" "trim_space [] = []"
  by code_simp+

lemma demo_sandbox:
  "\<exists>x sb. reachable x \<and> sysService x = (sysService demo_start)\<lparr>svcSandboxes := [(''cr_1'', sb)]\<rparr> \<and>
     sysIssued x = [''cr_1''] \<and> sysQueued x = [] \<and> sysRunning x = [] \<and>
     sbStatus sb = SANDBOX_READY \<and> \<not> sbDownloadInProgress sb \<and> sbActiveExecutionID sb = [] \<and> sbBackend sb = ''firecracker''"
proof -
  obtain p where "Compile demo_raw = Inr p" using demo_compiles by blast
  from yaml.compile_roundtrip [OF this] have p: "FromProto (Some (ToProto p)) = Inr p" .
  let ?s = "sysService demo_start"
  let ?r = "CreateSandbox demo_env demo_gen (\<lambda>_. None) demo_clk (Some (demo_sandbox_request (ToProto p))) ?s"
  have prep: "\<exists>pr. CreateSandbox_prepare demo_env demo_gen demo_clk (Some (demo_sandbox_request (ToProto p))) ?s =
      Inr (True, ''firecracker'', pr) \<and> prSandboxID pr = ''cr_1''"
    by (simp add: CreateSandbox_prepare_def demo_sandbox_request_def p resolveBackendName_def Let_def demo_start_def
        initial_def get_def demo_adapter_def)
  then obtain pr where pr: "CreateSandbox_prepare demo_env demo_gen demo_clk (Some (demo_sandbox_request (ToProto p))) ?s =
      Inr (True, ''firecracker'', pr)" "prSandboxID pr = ''cr_1''" by blast
  let ?sb = "recordSandboxEventLocked (demo_clk 2) SANDBOX_READY ''sandbox created and ready'' (new_sandbox ''firecracker'' pr (demo_clk 0))"
  have fst: "fst ?r = ?s\<lparr>svcSandboxes := [(''cr_1'', ?sb)]\<rparr>"
  proof -
    have "fst ?r = pruneStateLocked (demo_clk 3) (demo_clk 0) (?s\<lparr>svcSandboxes := put ''cr_1'' ?sb (svcSandboxes ?s)\<rparr>)"
      by (simp add: CreateSandbox_def pr Let_def)
    moreover have "?s\<lparr>svcSandboxes := put ''cr_1'' ?sb (svcSandboxes ?s)\<rparr> = ?s\<lparr>svcSandboxes := [(''cr_1'', ?sb)]\<rparr>"
      by (simp add: demo_start_def initial_def put_def)
    moreover have "pruneStateLocked (demo_clk 3) (demo_clk 0) (?s\<lparr>svcSandboxes := [(''cr_1'', ?sb)]\<rparr>) = ?s\<lparr>svcSandboxes := [(''cr_1'', ?sb)]\<rparr>"
      by (rule prune_recent) (simp_all add: demo_start_def initial_def demo_clk_def)
    ultimately show ?thesis by simp
  qed
  have "fresh_id ''cr_1'' demo_start" by (simp add: fresh_id_def demo_start_def initial_def)
  then have "sys_step demo_start (demo_start\<lparr>sysService := fst ?r, sysIssued := newSandboxID demo_gen (demo_clk 1) # sysIssued demo_start\<rparr>)"
    by (intro sys_step.create_sandbox) simp
  from reachable.step [OF _ this] have "reachable (demo_start\<lparr>sysService := fst ?r, sysIssued := [''cr_1'']\<rparr>)" by simp
  moreover have "sbActiveExecutionID ?sb = [] \<and> sbBackend ?sb = ''firecracker'' \<and> \<not> sbDownloadInProgress ?sb"
    by (simp add: new_sandbox_def recordSandboxEventLocked_def Let_def)
  ultimately show ?thesis
    by (intro exI [of _ "demo_start\<lparr>sysService := fst ?r, sysIssued := [''cr_1'']\<rparr>"] exI [of _ ?sb])
      (simp add: fst)
qed

lemma demo_queued:
  "\<exists>x ex. reachable x \<and> get (svcExecutions (sysService x)) (executionKey ''cr_1'' ''exec_1'') = Some ex \<and>
     keys_of (svcExecutions (sysService x)) = [executionKey ''cr_1'' ''exec_1''] \<and>
     exStatus ex = QUEUED \<and> exKind ex = KIND_INTERACTIVE \<and> exSandboxID ex = ''cr_1'' \<and> exID ex = ''exec_1'' \<and>
     svcSessions (sysService x) = [] \<and> svcAttached (sysService x) = [] \<and> sysIssued x = [''exec_1'', ''cr_1''] \<and>
     (\<forall>(k, sb) \<in> set (svcSandboxes (sysService x)). sbStatus sb \<noteq> SANDBOX_STOPPED)"
proof -
  obtain x sb where x: "reachable x" "sysService x = (sysService demo_start)\<lparr>svcSandboxes := [(''cr_1'', sb)]\<rparr>"
    "sysIssued x = [''cr_1'']" "sbStatus sb = SANDBOX_READY" "\<not> sbDownloadInProgress sb" "sbActiveExecutionID sb = []"
    "sbBackend sb = ''firecracker''"
    using demo_sandbox by blast
  let ?s = "sysService x"
  let ?r = "CreateExecution demo_gen demo_clk (Some demo_exec_request) ?s"
  have sb: "get (svcSandboxes ?s) ''cr_1'' = Some sb" by (simp add: x(2) get_def)
  obtain ir idg where img: "(case sbPolicy sb of None \<Rightarrow> ([], []) | Some p \<Rightarrow> (cpImageRef p, cpImageDigest p)) = (ir, idg)"
    by fastforce
  let ?ex0 = "new_execution ''cr_1'' ''exec_1'' ir idg [''sh''] 0 True KIND_INTERACTIVE"
  let ?ex = "recordExecutionEventLocked (demo_clk 0) (exec_event ?ex0 QUEUED (PMessage ''execution queued'') (demo_clk 0)) ?ex0"
  let ?sb' = "sb\<lparr>sbLastExecutionID := ''exec_1'', sbActiveExecutionID := ''exec_1'', sbUpdatedAt := demo_clk 0\<rparr>"
  let ?s1 = "?s\<lparr>svcExecutions := put (executionKey ''cr_1'' ''exec_1'') ?ex (svcExecutions ?s), svcSandboxes := put ''cr_1'' ?sb' (svcSandboxes ?s)\<rparr>"
  have req: "trim_space (ceSandboxID demo_exec_request) = ''cr_1''" "normalizeCommand (ceCommand demo_exec_request) = [''sh'']"
    "resolveExecutionKind (ceKind demo_exec_request) True = Inr KIND_INTERACTIVE" "ceOptions demo_exec_request = Some (0, True)"
    by (simp_all add: demo_exec_request_def normalizeCommand_def resolveExecutionKind_def)
  have be: "get (svcBackends ?s) ''firecracker'' = Some demo_adapter" by (simp add: x(2) get_def)
  have "?r = (pruneStateLocked (demo_clk 2) (demo_clk 0) ?s1, Inr (cloneExecutionLocked ?ex))"
    using x(4-7) by (simp add: CreateExecution_def req sb be img Let_def put_def)
  moreover have "pruneStateLocked (demo_clk 2) (demo_clk 0) ?s1 = ?s1"
    using x(4) by (intro prune_recent)
      (simp_all add: x(2) put_def new_execution_def demo_clk_def maxRetainedFinishedExecutions_def)
  ultimately have r: "?r = (?s1, Inr (cloneExecutionLocked ?ex))" by simp
  let ?y = "x\<lparr>sysService := ?s1, sysIssued := newExecutionID demo_gen (demo_clk 1) # sysIssued x,
    sysQueued := (peSandboxID (cloneExecutionLocked ?ex), peExecutionID (cloneExecutionLocked ?ex)) # sysQueued x\<rparr>"
  have "sys_step x ?y"
    by (rule sys_step.create_execution [OF _ r]) (simp add: fresh_id_def x(3))
  with x(1) have "reachable ?y" by (rule reachable.step)
  then show ?thesis
    by (intro exI [of _ ?y] exI [of _ ?ex]) (simp add: x(2,3,4) new_execution_def demo_start_def initial_def put_def keys_of_def get_def)
qed

text \<open>The execution cancelled before it starts.\<close>

lemma demo_final:
  "\<exists>x ex. reachable x \<and> get (svcExecutions (sysService x)) (executionKey ''cr_1'' ''exec_1'') = Some ex \<and>
     exStatus ex = CANCELED \<and> exCancelSignal ex = 15"
proof -
  let ?k = "executionKey ''cr_1'' ''exec_1''"
  obtain x ex where x: "reachable x" "get (svcExecutions (sysService x)) ?k = Some ex"
    "keys_of (svcExecutions (sysService x)) = [?k]" "exStatus ex = QUEUED"
    "\<forall>(k, sb) \<in> set (svcSandboxes (sysService x)). sbStatus sb \<noteq> SANDBOX_STOPPED"
    using demo_queued by blast
  let ?s = "sysService x" and ?r = "CancelExecution demo_clk (Some (''cr_1'', ''exec_1'')) 15 (sysService x)"
  have E: "svcExecutions ?s = [(?k, ex)]"
    using x(2,3) by (cases "svcExecutions ?s") (auto simp: keys_of_def get_def)
  have ids: "exec_ids (Some (''cr_1'', ''exec_1'')) = Inr (''cr_1'', ''exec_1'')" by (simp add: exec_ids_def)
  obtain e where e: "?r = (finalizeExecutionInternalLocked (\<lambda>i. demo_clk (i + 1)) ?k (cancel_noted (demo_clk 0) e 15 ex) CANCELED
      (cancelExitCode 15) (exMessage ex) ''execution canceled before start'' (demo_clk 0) True ?s,
    Inr (\<lparr>crAccepted = True, crStatus = CANCELED\<rparr>, False))"
    using x(2,4) by (simp add: CancelExecution_def ids Let_def finalizeExecutionLocked_def cancel_noted_def)
  let ?n = "cancel_noted (demo_clk 0) e 15 ex"
  let ?f = "finalizeExecutionInternalLocked (\<lambda>i. demo_clk (i + 1)) ?k ?n CANCELED (cancelExitCode 15) (exMessage ex)
    ''execution canceled before start'' (demo_clk 0)"
  have t: "demo_clk 0 \<noteq> 0" by (simp add: demo_clk_def)
  have ff: "svcExecutions (?f False ?s) = [(?k, finalized (demo_clk 0) CANCELED (cancelExitCode 15) (exMessage ex) ''execution canceled before start'' ?n)]"
    by (simp add: finalizeExecutionInternalLocked_eq clearInteractiveExecutionStateLocked_def Let_def t E put_def)
  have "?f True ?s = pruneStateLocked (demo_clk (1 + 1)) (demo_clk 0) (?f False ?s)"
    using t unfolding finalize_prune by simp
  also have "\<dots> = ?f False ?s"
    using x(5) t by (intro prune_recent)
      (simp_all add: ff [simplified] executionTerminalTime_def past_retention_def retainedStateMaxAge_def maxRetainedFinishedExecutions_def)
  finally have r: "?r = (?f False ?s, Inr (\<lparr>crAccepted = True, crStatus = CANCELED\<rparr>, False))" using e by simp
  let ?ex = "finalized (demo_clk 0) CANCELED (cancelExitCode 15) (exMessage ex) ''execution canceled before start'' ?n"
  let ?y = "x\<lparr>sysService := ?f False ?s, sysCancels := (if False then [executionKey (trim_space ''cr_1'') (trim_space ''exec_1'')] else []) @ sysCancels x\<rparr>"
  have "sys_step x ?y" by (rule sys_step.cancel [OF r])
  with x(1) have "reachable ?y" by (rule reachable.step)
  moreover have "get (svcExecutions (sysService ?y)) ?k = Some ?ex" by (simp add: ff [simplified] get_def)
  ultimately show ?thesis by (intro exI [of _ ?y] exI [of _ ?ex]) (simp add: cancel_noted_def)
qed

text \<open>A session opened for the queued execution, with the token of 24 zero bytes.\<close>

definition demo_random :: "8 word list" where
  "demo_random = [0,0,0, 0,0,0, 0,0,0, 0,0,0, 0,0,0, 0,0,0, 0,0,0, 0,0,0]"

definition demo_token :: string where
  "demo_token = ''AAAAAAAAAAAAAAAAAAAAAAAAAAAAAAAA''"

lemma base64url_zeros: "base64url (0 # 0 # 0 # r) = ''AAAA'' @ base64url r"
proof -
  have "base64url_char 0 = CHR ''A''" by code_simp
  then show ?thesis by simp
qed

lemma demo_token_new: "newSessionToken (Inr demo_random) = Inr demo_token"
  unfolding newSessionToken_def demo_token_def demo_random_def by (simp del: base64url.simps(1) add: base64url_zeros)

lemma demo_session:
  "\<exists>x se. reachable x \<and> svcSessions (sysService x) = [(''isess_1'', se)] \<and> svcAttached (sysService x) = [] \<and>
     session_key se = executionKey ''cr_1'' ''exec_1'' \<and> isToken se = demo_token \<and> isExpiresAt se > demo_clk 1 \<and>
     isExecutionID se = ''exec_1'' \<and>
     (\<exists>ex. get (svcExecutions (sysService x)) (executionKey ''cr_1'' ''exec_1'') = Some ex \<and> exKind ex = KIND_INTERACTIVE \<and>
        \<not> final ex)"
proof -
  let ?k = "executionKey ''cr_1'' ''exec_1''"
  obtain x ex where x: "reachable x" "get (svcExecutions (sysService x)) ?k = Some ex" "exStatus ex = QUEUED"
    "exKind ex = KIND_INTERACTIVE" "svcSessions (sysService x) = []" "svcAttached (sysService x) = []" "sysIssued x = [''exec_1'', ''cr_1'']"
    using demo_queued by blast
  let ?s = "ConfigureInteractiveTransport ''127.0.0.1:4433'' ''cleanroom'' [] (sysService x)"
  let ?x = "x\<lparr>sysService := ?s\<rparr>"
  have rx: "reachable ?x" using x(1) by (rule reachable.step) (intro sys_step.local local_step.configure)
  let ?req = "\<lparr>oiSandboxID = ''cr_1'', oiExecutionID = ''exec_1'', oiInitialCols = 80, oiInitialRows = 24\<rparr>"
  let ?se = "\<lparr>isSessionID = ''isess_1'', isSandboxID = ''cr_1'', isExecutionID = ''exec_1'', isToken = demo_token,
    isExpiresAt = demo_clk 0 + interactiveSessionTokenTTL, isInitialCols = 80, isInitialRows = 24\<rparr>"
  let ?y = "?x\<lparr>sysService := fst (OpenInteractiveExecution demo_gen (Inr demo_random) demo_clk (Some ?req) (sysService ?x)),
    sysIssued := newInteractiveSessionID demo_gen (demo_clk 1) # sysIssued ?x\<rparr>"
  have "sys_step ?x ?y" by (rule sys_step.open_session) (simp add: fresh_id_def x(7))
  with rx have "reachable ?y" by (rule reachable.step)
  moreover have tr: "trim_space ''127.0.0.1:4433'' \<noteq> []" "trim_space (trim_space ''127.0.0.1:4433'') \<noteq> []"
    "trim_space (trim_space ''cleanroom'') \<noteq> []" by code_simp+
  have "fst (OpenInteractiveExecution demo_gen (Inr demo_random) demo_clk (Some ?req) ?s) = ?s\<lparr>svcSessions := [(''isess_1'', ?se)]\<rparr>"
    using x tr by (simp add: OpenInteractiveExecution_def exec_ids_def demo_token_new Let_def ConfigureInteractiveTransport_def
        pruneExpiredInteractiveSessionsLocked_def hasPendingInteractiveSessionLocked_def get_def put_def)
  ultimately show ?thesis using x
    by (intro exI [of _ ?y] exI [of _ ?se]) (simp add: ConfigureInteractiveTransport_def session_key_def demo_clk_def interactiveSessionTokenTTL_def)
qed

section \<open>Steps and the life of an execution\<close>

lemma prune_exec_get:
  "get (svcExecutions (pruneStateLocked c now s)) k = None \<or> get (svcExecutions (pruneStateLocked c now s)) k = get (svcExecutions s) k"
  by (simp add: pruneStateLocked_def Let_def pruneExecutionsLocked_eq pruneSandboxesLocked_eq fold_dropExecution_get)

lemma CreateExecution_old:
  assumes inv: "sys_inv x" and i: "fresh_id (newExecutionID gen (clk 1)) x"
    and eq: "CreateExecution gen clk req (sysService x) = (s', Inr pe)" and ex': "get (svcExecutions s') k = Some ex'"
  shows "get (svcExecutions (sysService x)) k = Some ex' \<or>
    get (svcExecutions (sysService x)) k = None \<and> exID ex' \<notin> set (sysIssued x)"
proof (cases rule: CreateExecution_cases [of gen clk req "sysService x"])
  case (created r sid eid sb ir idg launch tty kind e sb')
  let ?s1 = "(sysService x)\<lparr>svcExecutions := put (executionKey sid eid) e (svcExecutions (sysService x)), svcSandboxes := put sid sb' (svcSandboxes (sysService x))\<rparr>"
  have s': "s' = pruneStateLocked (clk 2) (clk 0) ?s1" using created(12) eq by simp
  have get': "get (svcExecutions ?s1) k = Some ex'"
    using prune_exec_get [of "clk 2" "clk 0" ?s1 k] ex' unfolding s' by auto
  show ?thesis
  proof (cases "k = executionKey sid eid")
    case True
    then have "exID ex' = eid" using get' unfolding created(10) by (auto simp: new_execution_def)
    then show ?thesis using True fresh_execution_key [OF inv i, of sid] i created(3) by (simp add: fresh_id_def)
  qed (use get' in simp)
qed (use eq in simp_all)

text \<open>From one state to the next an execution evolves, or leaves the queue to run.\<close>

lemma sys_step_evolves:
  assumes inv: "sys_inv x" and "sys_step x y"
    and ex: "get (svcExecutions (sysService y)) k = Some ex'"
  shows "(\<exists>ex. get (svcExecutions (sysService x)) k = Some ex \<and> (evolves ex ex' \<or> exStatus ex = QUEUED \<and> exStatus ex' = RUNNING)) \<or>
    get (svcExecutions (sysService x)) k = None \<and> exID ex' \<notin> set (sysIssued x)" (is ?goal)
proof -
  note svc = sys_invD(1) [OF inv]
  have Q: ?goal if "quiet K (sysService x) (sysService y)" for K
    using quiet_execD [OF that ex] by blast
  have S: ?goal if "svcExecutions (sysService y) = svcExecutions (sysService x)"
    using ex that evolves_refl by auto
  show ?thesis
    using assms(2)
  proof (cases rule: sys_step.cases)
    case (local s')
    then show ?thesis using Q local_step_ok [OF local(2) svc] by simp
  next
    case (create_sandbox gen clk env provision req)
    show ?thesis
    proof (cases rule: CreateSandbox_shape [of env gen provision clk req "sysService x"])
      case same
      then show ?thesis using S create_sandbox(1) by simp
    next
      case (new sb)
      let ?s1 = "(sysService x)\<lparr>svcSandboxes := put (newSandboxID gen (clk 1)) sb (svcSandboxes (sysService x))\<rparr>"
      have "sys_inv (x\<lparr>sysService := ?s1, sysIssued := newSandboxID gen (clk 1) # sysIssued x\<rparr>)"
        using create_sandbox(2) new by (intro sys_inv_new_sandbox [OF inv]) (auto simp: fresh_id_def)
      from sys_invD(1) [OF this] have "svc_inv ?s1" by simp
      from quiet_execD [OF quiet_prune [OF this]] ex create_sandbox(1) new(1) show ?thesis by fastforce
    qed
  next
    case (open_session gen clk random oreq)
    have "svcExecutions (sysService y) = svcExecutions (sysService x)"
      by (cases rule: OpenInteractiveExecution_cases [of gen random clk oreq "sysService x"]) (auto simp: open_session(1))
    with S show ?thesis by simp
  next
    case (download_begin dreq s' sid path n)
    have "svcExecutions s' = svcExecutions (sysService x)"
      using download_begin(2) by (cases rule: DownloadSandboxFile_begin_cases [of dreq "sysService x"]) auto
    with S download_begin(1) show ?thesis by simp
  next
    case (download_finish sid)
    have "svcExecutions (DownloadSandboxFile_finish sid (sysService x)) = svcExecutions (sysService x)"
      by (simp add: DownloadSandboxFile_finish_def split: option.split)
    with S download_finish(1) show ?thesis by simp
  next
    case (create_execution gen clk ereq s' pe)
    then show ?thesis using CreateExecution_old [OF inv create_execution(2,3)] ex evolves_refl by fastforce
  next
    case (start_running sid eid env gen clk s' run)
    have g: "goroutines_inv (sysQueued x) (sysRunning x) (sysService x)" using sys_invD(3) [OF inv] .
    show ?thesis
    proof (cases rule: runExecution_start_cases [OF svc queued_not_running [OF g svc start_running(2)],
          where env = env and gen = gen and clk = clk, case_names gone no_backend running])
      case (running e e' sb ad req)
      have "exStatus e' = RUNNING" using core_eqD(5) [OF running(6)] by simp
      then show ?thesis using running start_running ex by (auto split: if_splits)
    qed (use start_running(3) in simp_all)
  next
    case (finish sid eid ctxErr clk outcome streaming)
    have "\<exists>K. quiet K (sysService x) (sysService y)"
    proof -
      have g: "goroutines_inv (sysQueued x) (sysRunning x) (sysService x)" using sys_invD(3) [OF inv] .
      obtain e where e: "get (svcExecutions (sysService x)) (executionKey sid eid) = Some e" "exStatus e = RUNNING" "id_ok sid"
        using g finish(2) unfolding goroutines_inv_def running_at_def by fastforce
      have "ctxErr = Some ContextCanceled \<Longrightarrow> exCancelRequested e" "ctxErr \<noteq> Some DeadlineExceeded"
        using finish(3) sys_invD(4) [OF inv] e(1) unfolding pending_inv_def by auto
      from finish_quiet(1) [OF svc e this] show ?thesis using finish(1) by auto
    qed
    then show ?thesis using Q by blast
  next
    case (terminate_refused clk tick treq s' e)
    then show ?thesis using Q quiet_TerminateSandbox_begin [OF svc, of clk tick treq] by simp
  next
    case (terminate_begin clk tick treq s' sid stopped pers cs)
    then show ?thesis using Q quiet_TerminateSandbox_begin [OF svc, of clk tick treq] by simp
  next
    case (terminate_finish sid pers err clk)
    have "stoppable (sysService x) sid" using sys_invD(4) [OF inv] terminate_finish(2) unfolding pending_inv_def by blast
    then show ?thesis using Q quiet_TerminateSandbox_finish [OF svc] terminate_finish(1) by simp
  next
    case (cancel_refused clk creq sig s' e)
    then show ?thesis using Q quiet_CancelExecution [OF svc, of clk creq sig] by simp
  next
    case (cancel clk a b sig s' rsp call)
    then show ?thesis using Q quiet_CancelExecution [OF svc, of clk "Some (a, b)" sig] by simp
  next
    case (start_ended sid eid env gen clk s')
    then show ?thesis using Q [of "{}"] start_ended_quiet(2) [OF inv start_ended(2,3)] by simp
  next
    case (stream sid eid now c)
    then show ?thesis using Q quiet_executionOutputStream by simp
  qed
qed

text \<open>A running execution ends when its adapter returns.\<close>

lemma running_can_finish:
  assumes inv: "sys_inv x" and R: "(a, b) \<in> set (sysRunning x)" and k: "k = executionKey a b"
  shows "\<exists>y. rtranclp sys_step x y \<and> (\<forall>ex'. get (svcExecutions (sysService y)) k = Some ex' \<longrightarrow> final ex')"
proof -
  have svc: "svc_inv (sysService x)" using sys_invD(1) [OF inv] .
  obtain e where e: "get (svcExecutions (sysService x)) k = Some e" "exStatus e = RUNNING" "id_ok a"
    using sys_invD(3) [OF inv] R k unfolding goroutines_inv_def running_at_def by fastforce
  let ?s' = "runExecution_finish (\<lambda>_. 1) a b (Inl []) True None (sysService x)"
  let ?y = "x\<lparr>sysService := ?s', sysRunning := remove1 (a, b) (sysRunning x)\<rparr>"
  have "sys_step x ?y" using R by (rule sys_step.finish) simp
  moreover have "\<forall>ex'. get (svcExecutions ?s') k = Some ex' \<longrightarrow> final ex'"
    using finish_quiet(2) [OF svc e(1) [unfolded k] e(2,3), of None] k by simp
  ultimately show ?thesis by (intro exI [of _ ?y]) auto
qed

text \<open>Identifiers stay issued, and a key once used belongs to the same execution for ever.\<close>

lemma sys_step_issued: "sys_step x y \<Longrightarrow> set (sysIssued x) \<subseteq> set (sysIssued y)"
  by (induction rule: sys_step.induct) auto

lemma execution_key_id:
  assumes "svc_inv s" "get (svcExecutions s) (executionKey a b) = Some ex" "id_ok a"
  shows "exSandboxID ex = a" "exID ex = b"
proof -
  have "id_ok (exSandboxID ex)" using svc_inv_exec(2) [OF assms(1,2)] by (simp add: exec_ok_def exec_ids_ok_def)
  with svc_inv_exec(1) [OF assms(1,2)] show "exSandboxID ex = a" "exID ex = b"
    using executionKey_id_inj [OF assms(3)] by auto
qed

lemma result_kept:
  assumes "rtranclp sys_step x y" and inv: "sys_inv x" and ex: "get (svcExecutions (sysService x)) k = Some ex" "final ex"
  shows "sys_inv y \<and> exID ex \<in> set (sysIssued y) \<and>
    (\<forall>ex'. get (svcExecutions (sysService y)) k = Some ex' \<longrightarrow> final ex' \<and> result_of ex' = result_of ex)"
  using assms(1)
proof (induction rule: rtranclp_induct)
  case base
  then show ?case using inv ex sys_invD(2) [OF inv] by (auto simp: issued_inv_def)
next
  case (step y z)
  have iz: "sys_inv z" using sys_step_inv step by blast
  have id: "exID ex' = exID ex" if "get (svcExecutions (sysService z)) k = Some ex'" for ex'
  proof -
    note k = svc_inv_exec(1) [OF sys_invD(1) [OF inv] ex(1)]
    have "id_ok (exSandboxID ex)" using svc_inv_exec(2) [OF sys_invD(1) [OF inv] ex(1)] by (simp add: exec_ok_def exec_ids_ok_def)
    with that k show ?thesis using execution_key_id(2) [OF sys_invD(1) [OF iz]] by blast
  qed
  have "final ex' \<and> result_of ex' = result_of ex" if ex': "get (svcExecutions (sysService z)) k = Some ex'" for ex'
    using sys_step_evolves [OF _ step(2) ex'] step(3) id [OF ex'] by (auto simp: evolves_def result_of_def)
  moreover have "exID ex \<in> set (sysIssued z)" using step(3) sys_step_issued [OF step(2)] by blast
  ultimately show ?case using iz by simp
qed

section \<open>Properties of reachable states\<close>

text \<open>C6. In every reachable state, however the handlers interleave, a sandbox has at most one
  execution that is not final, and while it has one no file download is in progress there.\<close>

theorem one_active_execution:
  assumes "reachable x" and "get (svcExecutions (sysService x)) k = Some ex" "\<not> isFinalExecutionStatus (exStatus ex)"
  shows "(\<forall>k' ex'. get (svcExecutions (sysService x)) k' = Some ex' \<and> exSandboxID ex' = exSandboxID ex \<and>
      \<not> isFinalExecutionStatus (exStatus ex') \<longrightarrow> k' = k \<and> ex' = ex) \<and>
    (\<exists>sb. get (svcSandboxes (sysService x)) (exSandboxID ex) = Some sb \<and> sbActiveExecutionID sb = exID ex \<and>
      \<not> sbDownloadInProgress sb)"
proof
  have svc: "svc_inv (sysService x)" using reachable_inv [OF assms(1)] by (rule sys_invD(1))
  show "\<forall>k' ex'. get (svcExecutions (sysService x)) k' = Some ex' \<and> exSandboxID ex' = exSandboxID ex \<and>
      \<not> final ex' \<longrightarrow> k' = k \<and> ex' = ex"
    using svc_inv_one_active [OF svc] assms(2,3) by blast
  show "\<exists>sb. get (svcSandboxes (sysService x)) (exSandboxID ex) = Some sb \<and> sbActiveExecutionID sb = exID ex \<and> \<not> sbDownloadInProgress sb"
    using svc_inv_exec(3) [OF svc assms(2,3)] by (auto simp: active_in_def split: option.splits)
qed

theorem one_active_execution_witness:
  "\<exists>x ex. reachable x \<and> get (svcExecutions (sysService x)) (executionKey ''cr_1'' ''exec_1'') = Some ex \<and>
     (\<exists>sb. get (svcSandboxes (sysService x)) ''cr_1'' = Some sb \<and> sbActiveExecutionID sb = ''exec_1'' \<and> \<not> sbDownloadInProgress sb)"
proof -
  obtain x ex where x: "reachable x" "get (svcExecutions (sysService x)) (executionKey ''cr_1'' ''exec_1'') = Some ex"
    "exStatus ex = QUEUED" "exSandboxID ex = ''cr_1''" "exID ex = ''exec_1''" using demo_queued by blast
  then have "\<not> final ex" by simp
  from one_active_execution [OF x(1,2) this] x show ?thesis by auto
qed



text \<open>C8. A final execution stays as it is for every later state, whatever the handlers and the other
  goroutines do: its status, exit code, message, finish time, retained output and event history
  never change, it is pruned at most, and its identifiers never name another execution.\<close>

theorem final_is_forever:
  assumes "reachable x" and "rtranclp sys_step x y"
    and "get (svcExecutions (sysService x)) k = Some ex" "isFinalExecutionStatus (exStatus ex)"
    and "get (svcExecutions (sysService y)) k = Some ex'"
  shows "exStatus ex' = exStatus ex \<and> exExitCode ex' = exExitCode ex \<and> exMessage ex' = exMessage ex \<and>
    exFinishedAt ex' = exFinishedAt ex \<and> exStdout ex' = exStdout ex \<and> exStderr ex' = exStderr ex \<and>
    exEventHistory ex' = exEventHistory ex"
  using result_kept [OF assms(2) reachable_inv [OF assms(1)] assms(3,4)] assms(5) by (simp add: result_of_def)

theorem final_is_forever_witness:
  "\<exists>x y ex ex'. reachable x \<and> sys_step x y \<and> get (svcExecutions (sysService y)) (executionKey ''cr_1'' ''exec_1'') = Some ex' \<and>
     get (svcExecutions (sysService x)) (executionKey ''cr_1'' ''exec_1'') = Some ex \<and> exStatus ex = CANCELED \<and> exStatus ex' = exStatus ex"
proof -
  let ?k = "executionKey ''cr_1'' ''exec_1''"
  obtain x ex where x: "reachable x" "get (svcExecutions (sysService x)) ?k = Some ex" "exStatus ex = CANCELED"
    using demo_final by blast
  let ?y = "x\<lparr>sysService := ConfigureInteractiveTransport ''127.0.0.1:4433'' ''cleanroom'' [] (sysService x)\<rparr>"
  have step: "sys_step x ?y" by (intro sys_step.local local_step.configure)
  have y: "get (svcExecutions (sysService ?y)) ?k = Some ex" using x(2) by (simp add: ConfigureInteractiveTransport_def)
  have "final ex" using x(3) by simp
  from final_is_forever [OF x(1) r_into_rtranclp [of sys_step, OF step] x(2) this y] x step y show ?thesis by blast
qed

text \<open>C9. The outcome of an execution in a reachable state is truthful: it is canceled exactly when a
  cancellation was requested, with the exit code \<open>128 + signal\<close> of that request; a success has exit code
  zero; it is never reported as timed out; and it has a finish time and a closed \<open>Done\<close> channel exactly
  when it is final.\<close>

theorem final_status_truthful:
  assumes "reachable x" and "get (svcExecutions (sysService x)) k = Some ex"
  shows "(isFinalExecutionStatus (exStatus ex) \<longrightarrow> (exStatus ex = CANCELED \<longleftrightarrow> exCancelRequested ex)) \<and>
    (exStatus ex = CANCELED \<longrightarrow> exExitCode ex = cancelExitCode (exCancelSignal ex)) \<and>
    (exStatus ex = SUCCEEDED \<longrightarrow> exExitCode ex = 0) \<and> exStatus ex \<noteq> TIMED_OUT \<and>
    (exFinishedAt ex \<noteq> None \<longleftrightarrow> isFinalExecutionStatus (exStatus ex)) \<and>
    (exDoneClosed ex \<longleftrightarrow> isFinalExecutionStatus (exStatus ex))"
proof -
  have "exec_ok ex" using svc_inv_exec(2) [OF sys_invD(1) [OF reachable_inv [OF assms(1)]] assms(2)] .
  then show ?thesis by (auto simp: exec_ok_def exec_flags_ok_def exec_outcome_ok_def)
qed

theorem final_status_truthful_witness:
  "\<exists>x ex. reachable x \<and> get (svcExecutions (sysService x)) (executionKey ''cr_1'' ''exec_1'') = Some ex \<and>
     exStatus ex = CANCELED \<and> exCancelRequested ex \<and> exExitCode ex = 143"
proof -
  obtain x ex where x: "reachable x" "get (svcExecutions (sysService x)) (executionKey ''cr_1'' ''exec_1'') = Some ex"
    "exStatus ex = CANCELED" "exCancelSignal ex = 15" using demo_final by blast
  from final_status_truthful [OF x(1,2)] x show ?thesis by (auto simp: cancelExitCode_def)
qed

text \<open>Interactive access is exclusive in every reachable state: a pending session belongs to a live
  interactive execution that no client is attached to, no execution has two pending sessions, and an
  attached client belongs to a live interactive execution.\<close>

theorem interactive_exclusive:
  assumes "reachable x"
  shows "(\<forall>i se. get (svcSessions (sysService x)) i = Some se \<longrightarrow>
      (\<exists>ex. get (svcExecutions (sysService x)) (session_key se) = Some ex \<and> exKind ex = KIND_INTERACTIVE \<and>
         \<not> isFinalExecutionStatus (exStatus ex)) \<and> get (svcAttached (sysService x)) (session_key se) = None) \<and>
    (\<forall>i j se se'. get (svcSessions (sysService x)) i = Some se \<and> get (svcSessions (sysService x)) j = Some se' \<and>
       session_key se = session_key se' \<longrightarrow> i = j) \<and>
    (\<forall>k. get (svcAttached (sysService x)) k \<noteq> None \<longrightarrow>
       (\<exists>ex. get (svcExecutions (sysService x)) k = Some ex \<and> exKind ex = KIND_INTERACTIVE \<and> \<not> isFinalExecutionStatus (exStatus ex)))"
proof -
  have live: "live_interactive E k \<Longrightarrow> \<exists>ex. get E k = Some ex \<and> exKind ex = KIND_INTERACTIVE \<and> \<not> final ex" for E k
    by (auto simp: live_interactive_def split: option.splits)
  have "sessions_inv (svcExecutions (sysService x)) (svcSessions (sysService x)) (svcAttached (sysService x))"
    using sys_invD(1) [OF reachable_inv [OF assms]] by (simp add: svc_inv_def)
  then show ?thesis unfolding sessions_inv_def using live by blast
qed

theorem interactive_exclusive_witness:
  "\<exists>x se. reachable x \<and> get (svcSessions (sysService x)) ''isess_1'' = Some se \<and>
     session_key se = executionKey ''cr_1'' ''exec_1'' \<and>
     (\<exists>ex. get (svcExecutions (sysService x)) (session_key se) = Some ex \<and> exKind ex = KIND_INTERACTIVE)"
proof -
  obtain x se where x: "reachable x" "svcSessions (sysService x) = [(''isess_1'', se)]"
    "session_key se = executionKey ''cr_1'' ''exec_1''" using demo_session by blast
  then have "get (svcSessions (sysService x)) ''isess_1'' = Some se" by (simp add: get_def)
  with interactive_exclusive [OF x(1)] x show ?thesis by blast
qed

end
