(* ===== verification/Service_Ops_Props.thy ===== *)
theory Service_Ops_Props
  imports Service_Props
begin

text \<open>
  What single operations of the control service guarantee: admission of executions, termination of a
  sandbox, single use of interactive sessions, waiting for attached input, retention and output.
\<close>

section \<open>Admission and termination\<close>

lemma reachable_svc_inv: "reachable x \<Longrightarrow> svc_inv (sysService x)"
  using reachable_inv sys_invD(1) by blast

text \<open>The test of \<open>CreateExecution\<close> on the active execution is the test for any execution that is not final.\<close>

lemma active_execution_iff:
  assumes inv: "svc_inv s" and sb: "get (svcSandboxes s) sid = Some sb"
  shows "(trim_space (sbActiveExecutionID sb) \<noteq> [] \<and>
      (case get (svcExecutions s) (executionKey sid (sbActiveExecutionID sb)) of None \<Rightarrow> False | Some ex \<Rightarrow> \<not> final ex)) \<longleftrightarrow>
    (\<exists>k ex. get (svcExecutions s) k = Some ex \<and> exSandboxID ex = sid \<and> \<not> final ex)" (is "?l \<longleftrightarrow> ?r")
proof
  assume ?l
  then obtain ex where ex: "get (svcExecutions s) (executionKey sid (sbActiveExecutionID sb)) = Some ex" "\<not> final ex"
    by (auto split: option.splits)
  from execution_key_id(1) [OF inv ex(1) svc_inv_sandbox(3) [OF inv sb]] ex show ?r by blast
next
  assume ?r
  then obtain k ex where ex: "get (svcExecutions s) k = Some ex" "exSandboxID ex = sid" "\<not> final ex" by blast
  have "active_in ex (svcSandboxes s)" "k = executionKey sid (exID ex)" "id_ok (exID ex)"
    using svc_inv_exec [OF inv ex(1)] ex(2,3) by (auto simp: exec_ok_def exec_ids_ok_def)
  then show ?l using ex sb by (auto simp: active_in_def)
qed

text \<open>C16. \<open>CreateExecution\<close> admits a request exactly when the sandbox is known and ready, its backend is
  registered, the normalised command is not empty, the kind fits the terminal option, no execution of
  the sandbox is still queued or running and no download is in progress there.\<close>

theorem CreateExecution_admits:
  assumes "reachable x"
  shows "(\<exists>pe. snd (CreateExecution gen clk (Some r) (sysService x)) = Inr pe) \<longleftrightarrow>
    normalizeCommand (ceCommand r) \<noteq> [] \<and>
    (\<exists>kind. resolveExecutionKind (ceKind r) (case ceOptions r of None \<Rightarrow> False | Some (_, tty) \<Rightarrow> tty) = Inr kind) \<and>
    (\<exists>sb. get (svcSandboxes (sysService x)) (trim_space (ceSandboxID r)) = Some sb \<and> sbStatus sb = SANDBOX_READY \<and>
       get (svcBackends (sysService x)) (sbBackend sb) \<noteq> None \<and> \<not> sbDownloadInProgress sb) \<and>
    (\<forall>k ex. get (svcExecutions (sysService x)) k = Some ex \<and> exSandboxID ex = trim_space (ceSandboxID r) \<longrightarrow>
       isFinalExecutionStatus (exStatus ex))"
proof -
  let ?s = "sysService x" and ?sid = "trim_space (ceSandboxID r)"
  note inv = reachable_svc_inv [OF assms]
  show ?thesis
  proof (cases "get (svcSandboxes ?s) ?sid")
    case None
    then show ?thesis by (auto simp: CreateExecution_def Let_def split: option.split sum.split prod.split)
  next
    case (Some sb)
    have "?sid \<noteq> []" using svc_inv_sandbox(3) [OF inv Some] by (simp add: id_ok_def)
    moreover obtain l t where o: "(case ceOptions r of None \<Rightarrow> (0, False) | Some lt \<Rightarrow> lt) = (l, t)" by fastforce
    moreover from o have "(case ceOptions r of None \<Rightarrow> False | Some (_, tty) \<Rightarrow> tty) = t" by (auto split: option.splits)
    ultimately show ?thesis
      using active_execution_iff [OF inv Some]
      by (auto simp: CreateExecution_def Let_def Some split: sum.split prod.split)
  qed
qed

theorem CreateExecution_admits_witness:
  "\<exists>x. reachable x \<and> (\<exists>pe. snd (CreateExecution demo_gen demo_clk (Some demo_exec_request) (sysService x)) = Inr pe)"
proof -
  obtain x sb where x: "reachable x" "sysService x = (sysService demo_start)\<lparr>svcSandboxes := [(''cr_1'', sb)]\<rparr>"
    "sbStatus sb = SANDBOX_READY" "\<not> sbDownloadInProgress sb" "sbBackend sb = ''firecracker''"
    using demo_sandbox by blast
  from CreateExecution_admits [OF x(1), of demo_gen demo_clk demo_exec_request] x show ?thesis
    by (intro exI [of _ x]) (simp add: demo_exec_request_def normalizeCommand_def resolveExecutionKind_def get_def)
qed

lemma pruneStateLocked_keeps_sandbox:
  "get (svcSandboxes (pruneStateLocked c now s)) k = None \<or> get (svcSandboxes (pruneStateLocked c now s)) k = get (svcSandboxes s) k"
  by (simp add: pruneStateLocked_def Let_def pruneExecutionsLocked_eq pruneSandboxesLocked_eq fold_dropSandbox_get)

lemma TerminateSandbox_finish_stopped:
  assumes "get (svcSandboxes (fst (TerminateSandbox_finish clk sid None s))) sid = Some sb"
  shows "sbStatus sb = SANDBOX_STOPPED"
proof (cases "get (svcSandboxes s) sid")
  case None
  then show ?thesis using assms pruneStateLocked_keeps_sandbox [of "clk 2" "clk 0" s sid] by (simp add: TerminateSandbox_finish_def Let_def)
next
  case (Some st)
  define s3 where "s3 = (if sbStatus st \<noteq> SANDBOX_STOPPED
    then s\<lparr>svcSandboxes := put sid (closeSandboxDoneLocked (recordSandboxEventLocked (clk 1) SANDBOX_STOPPED ''sandbox terminated''
           (st\<lparr>sbStatus := SANDBOX_STOPPED\<rparr>))) (svcSandboxes s)\<rparr> else s)"
  have "get (svcSandboxes (pruneStateLocked (clk 2) (clk 0) s3)) sid = Some sb"
    using assms Some unfolding TerminateSandbox_finish_def s3_def Let_def by simp
  with pruneStateLocked_keeps_sandbox [of "clk 2" "clk 0" s3 sid] have "get (svcSandboxes s3) sid = Some sb" by auto
  then show ?thesis using Some by (auto simp: s3_def closeSandboxDoneLocked_def Let_def split: if_splits)
qed

text \<open>C11. Once \<open>TerminateSandbox\<close> has announced the termination, every execution of the sandbox is final, or
  running with its cancellation recorded and its context among those the handler cancels; executions
  of other sandboxes are as before; the sandbox admits no new execution; and when the adapter has
  succeeded the sandbox is stopped (or already pruned).\<close>

theorem TerminateSandbox_stops:
  assumes "reachable x" and "TerminateSandbox_begin clk tick (Some raw) (sysService x) = (s', Inr (sid, False, pers, cs))"
  shows "(\<forall>k ex. get (svcExecutions s') k = Some ex \<longrightarrow>
      (if exSandboxID ex = sid
       then isFinalExecutionStatus (exStatus ex) \<or> exStatus ex = RUNNING \<and> exCancelRequested ex \<and> k \<in> set cs
       else get (svcExecutions (sysService x)) k = Some ex)) \<and>
    (\<forall>gen clk' r. trim_space (ceSandboxID r) = sid \<longrightarrow>
       (\<exists>e. CreateExecution gen clk' (Some r) s' = (s', Inl e))) \<and>
    (\<forall>clk' s2 sb. get (svcSandboxes (fst (TerminateSandbox_finish clk' sid None s2))) sid = Some sb \<longrightarrow>
       sbStatus sb = SANDBOX_STOPPED)"
proof (cases rule: TerminateSandbox_begin_cases [of clk tick "Some raw" "sysService x"])
  case (unchanged r)
  from unchanged(2) [of sid False pers cs] unchanged(1) assms(2) show ?thesis by simp
next
  case (stopping raw' sid' sb sb' s1 cs' pers')
  note inv = reachable_svc_inv [OF assms(1)]
  have eq: "sid' = sid" "cs' = cs" "s' = with_sandbox sid sb' s1" using stopping(7) assms(2) by simp_all
  have st: "sbStatus sb' = SANDBOX_STOPPING" by (simp add: stopping(5))
  have d: "distinct (keys_of (svcExecutions (sysService x)))" using svc_inv_gomaps(2) [OF inv] by (simp add: is_gomap_def)
  have A: "if exSandboxID ex = sid then final ex \<or> exStatus ex = RUNNING \<and> exCancelRequested ex \<and> k \<in> set cs
    else get (svcExecutions (sysService x)) k = Some ex" if ex: "get (svcExecutions s') k = Some ex" for k ex
  proof -
    have g: "get (svcExecutions s1) k = Some ex" using ex by (simp add: eq with_sandbox_def)
    then obtain ex0 where ex0: "get (svcExecutions (sysService x)) k = Some ex0"
      using terminate_loop_all(1) [OF inv stopping(6), of k] by (cases "get (svcExecutions (sysService x)) k") auto
    have so: "stopped_exec sid ex0 ex" using terminate_loop_all(2) [OF inv stopping(6) ex0] g eq by simp
    have ok: "exec_ok ex0" using svc_inv_exec(2) [OF inv ex0] .
    have "k \<in> set cs" if "exSandboxID ex0 = sid" "\<not> final ex0" "exStatus ex0 \<noteq> QUEUED"
    proof -
      have "exCancel ex0" using ok that(2,3) by (auto simp: exec_ok_def exec_flags_ok_def)
      from terminate_loop_collects [OF d in_keys [OF ex0] ex0 that this, of tick "clk 1" "[]"] stopping(6) eq
      show ?thesis by simp
    qed
    then show ?thesis using so ex0 ok
      by (cases "exStatus ex0") (auto simp: stopped_exec_def exec_ok_def exec_flags_ok_def isFinalExecutionStatus_def split: if_splits)
  qed
  have B: "\<exists>e. CreateExecution gen clk' (Some r) s' = (s', Inl e)" if "trim_space (ceSandboxID r) = sid" for gen clk' r
    using that st by (auto simp: CreateExecution_def Let_def eq with_sandbox_def split: option.split sum.split prod.split)
  show ?thesis using A B TerminateSandbox_finish_stopped by blast
qed

theorem TerminateSandbox_stops_witness:
  "\<exists>x s' pers cs. reachable x \<and> TerminateSandbox_begin demo_clk (\<lambda>_. demo_clk) (Some ''cr_1'') (sysService x) = (s', Inr (''cr_1'', False, pers, cs)) \<and>
     (\<exists>e. CreateExecution demo_gen demo_clk (Some demo_exec_request) s' = (s', Inl e))"
proof -
  obtain x sb where x: "reachable x" "sysService x = (sysService demo_start)\<lparr>svcSandboxes := [(''cr_1'', sb)]\<rparr>"
    "sbStatus sb = SANDBOX_READY"
    using demo_sandbox by blast
  obtain s' pers cs where b: "TerminateSandbox_begin demo_clk (\<lambda>_. demo_clk) (Some ''cr_1'') (sysService x) = (s', Inr (''cr_1'', False, pers, cs))"
    by (simp add: TerminateSandbox_begin_def Let_def x get_def keys_of_def)
  have "trim_space (ceSandboxID demo_exec_request) = ''cr_1''" by (simp add: demo_exec_request_def)
  with TerminateSandbox_stops [OF x(1) b] b x(1) show ?thesis by blast
qed

section \<open>Interactive sessions\<close>

lemma OpenInteractiveExecution_attached:
  assumes "get (svcAttached s) (executionKey (trim_space (oiSandboxID r)) (trim_space (oiExecutionID r))) \<noteq> None"
  shows "\<exists>e. snd (OpenInteractiveExecution gen random clk (Some r) s) = Inl e"
  using assms by (auto simp: OpenInteractiveExecution_def exec_ids_def Let_def pruneExpiredInteractiveSessionsLocked_def
      split: option.split sum.split)



text \<open>C19. The wait for an attached input ends: however the service changes under it, once the clock has
  passed the registration deadline (or the execution is gone, final or attached) \<open>WriteExecutionStdin\<close>
  has returned.\<close>

theorem WriteExecutionStdin_returns:
  assumes "\<exists>(s, now) \<in> set turns. now > start + attachStdinRegistrationWait \<or>
    (case get (svcExecutions s) (executionKey (trim_space sid) (trim_space eid)) of None \<Rightarrow> True
     | Some ex \<Rightarrow> isFinalExecutionStatus (exStatus ex) \<or> exAttachStdin ex)"
  shows "\<exists>r. WriteExecutionStdin writeFn start turns sid eid bytes = Some r"
proof -
  have "\<exists>r. await_attach att u call deadline a b turns = Some r"
    if "\<exists>(s, now) \<in> set turns. now > deadline \<or> (case get (svcExecutions s) (executionKey a b) of None \<Rightarrow> True | Some ex \<Rightarrow> final ex \<or> att ex)"
    for att u call deadline a b
    using that
  proof (induction turns)
    case (Cons p rest)
    obtain s now where p: "p = (s, now)" by (cases p)
    from Cons.prems have "now > deadline \<or> (case get (svcExecutions s) (executionKey a b) of None \<Rightarrow> True | Some ex \<Rightarrow> final ex \<or> att ex) \<or>
      (\<exists>r. await_attach att u call deadline a b rest = Some r)"
      using Cons.IH by (auto simp: p)
    then show ?case by (auto simp: p split: option.splits)
  qed simp
  from this [OF assms] show ?thesis by (simp add: WriteExecutionStdin_def)
qed

theorem WriteExecutionStdin_returns_witness:
  "\<exists>r. WriteExecutionStdin (\<lambda>_. None) 0 [(sysService demo_start, attachStdinRegistrationWait + 1)] ''cr_1'' ''exec_1'' ''ls'' = Some r"
  by (rule WriteExecutionStdin_returns) simp

section \<open>Retention and output\<close>

lemma fold_dropExecution_list:
  "svcExecutions (fold dropExecutionLocked ks s) = filter (\<lambda>(k, ex). k \<notin> set ks) (svcExecutions s)"
proof (induction ks arbitrary: s)
  case (Cons k ks)
  have "svcExecutions (dropExecutionLocked k s) = filter (\<lambda>(k', ex). k' \<noteq> k) (svcExecutions s)"
    by (auto simp: dropExecutionLocked_def clearInteractiveExecutionStateLocked_def del_def AList.delete_eq Let_def intro: filter_cong)
  then show ?case by (simp add: Cons.IH case_prod_unfold conj_commute)
qed simp

lemma filter_filter_swap: "filter P (filter Q xs) = filter Q (filter P xs)"
  by (simp add: conj_commute)

text \<open>Pruning bounds the finished executions the service keeps: at most 2048 are left, none that is queued
  or running is touched, and whatever is dropped is past the retention age or finished no later than
  every finished execution that is kept (executions without a time are dropped first).\<close>

theorem pruneExecutionsLocked_retention:
  assumes "is_gomap (svcExecutions s)" and "s' = pruneExecutionsLocked now s"
  shows "length (filter (\<lambda>(k, ex). isFinalExecutionStatus (exStatus ex)) (svcExecutions s')) \<le> 2048 \<and>
    (\<forall>k ex. get (svcExecutions s) k = Some ex \<and> get (svcExecutions s') k = None \<longrightarrow>
       isFinalExecutionStatus (exStatus ex) \<and>
       (past_retention now (executionTerminalTime ex) \<or>
        (\<forall>k' ex'. get (svcExecutions s') k' = Some ex' \<and> isFinalExecutionStatus (exStatus ex') \<longrightarrow>
           executionTerminalTime ex = 0 \<or> executionTerminalTime ex' \<noteq> 0 \<and> executionTerminalTime ex \<le> executionTerminalTime ex')))"
proof -
  let ?F = "final_executions s"
  let ?ks = "pruned_keys now maxRetainedFinishedExecutions executionTerminalTime ?F"
  have s': "s' = fold dropExecutionLocked ?ks s" unfolding assms(2) pruneExecutionsLocked_eq ..
  have gF: "is_gomap ?F" unfolding final_executions_def using assms(1) by simp
  have "filter (\<lambda>(k, ex). final ex) (svcExecutions s') = filter (\<lambda>(k, ex). k \<notin> set ?ks) ?F"
    unfolding s' fold_dropExecution_list by (subst filter_filter_swap) (simp only: final_executions_def)
  with pruned_keys_bound [OF gF, of now maxRetainedFinishedExecutions executionTerminalTime]
  have bound: "length (filter (\<lambda>(k, ex). final ex) (svcExecutions s')) \<le> 2048"
    by (simp add: maxRetainedFinishedExecutions_def)
  have "final ex \<and> (past_retention now (executionTerminalTime ex) \<or>
        (\<forall>k' ex'. get (svcExecutions s') k' = Some ex' \<and> final ex' \<longrightarrow>
           executionTerminalTime ex = 0 \<or> executionTerminalTime ex' \<noteq> 0 \<and> executionTerminalTime ex \<le> executionTerminalTime ex'))"
    if ex: "get (svcExecutions s) k = Some ex" "get (svcExecutions s') k = None" for k ex
  proof -
    have k: "k \<in> set ?ks" using ex by (auto simp: s' fold_dropExecution_get split: if_splits)
    then obtain e where e: "get ?F k = Some e" using pruned_keys_subset [of now _ executionTerminalTime ?F] unfolding set_keys_of by blast
    with ex(1) final_executions_get [OF assms(1), of k e] have f: "get ?F k = Some ex" by simp
    have "(executionTerminalTime ex \<noteq> 0, executionTerminalTime ex, k) \<le> (executionTerminalTime ex' \<noteq> 0, executionTerminalTime ex', k')"
      if n: "\<not> past_retention now (executionTerminalTime ex)" and ex': "get (svcExecutions s') k' = Some ex'" "final ex'" for k' ex'
    proof -
      have k': "k' \<notin> set ?ks" "get (svcExecutions s) k' = Some ex'" using ex'(1) by (auto simp: s' fold_dropExecution_get split: if_splits)
      then have "get ?F k' = Some ex'" using ex'(2) final_executions_get [OF assms(1)] by blast
      from pruned_keys_oldest [OF gF k get_Some_in [OF f] get_Some_in [OF this] k'(1) n] show ?thesis .
    qed
    then have "past_retention now (executionTerminalTime ex) \<or>
        (\<forall>k' ex'. get (svcExecutions s') k' = Some ex' \<and> final ex' \<longrightarrow>
           executionTerminalTime ex = 0 \<or> executionTerminalTime ex' \<noteq> 0 \<and> executionTerminalTime ex \<le> executionTerminalTime ex')"
      by (force simp: less_eq_prod_def)
    then show ?thesis using f final_executions_get [OF assms(1), of k ex] by blast
  qed
  with bound show ?thesis by blast
qed

theorem pruneExecutionsLocked_retention_witness:
  "length (filter (\<lambda>(k, ex). isFinalExecutionStatus (exStatus ex)) (svcExecutions (pruneExecutionsLocked 5 (sysService demo_start)))) \<le> 2048"
proof -
  have "is_gomap (svcExecutions (sysService demo_start))" by (simp add: is_gomap_def keys_of_def)
  from pruneExecutionsLocked_retention [OF this refl] show ?thesis by blast
qed

text \<open>The output after \<open>mergeBufferedResultOutputLocked\<close>, one stream at a time.\<close>

lemma append_outputs [simp]:
  "exStdout (appendExecutionStdoutLocked t st c ex) = (if c = [] then exStdout ex else keep_last maxRetainedExecutionOutputBytes (exStdout ex @ c))"
  "exStderr (appendExecutionStdoutLocked t st c ex) = exStderr ex"
  "exStdout (appendExecutionStderrLocked t st c ex) = exStdout ex"
  "exStderr (appendExecutionStderrLocked t st c ex) = (if c = [] then exStderr ex else keep_last maxRetainedExecutionOutputBytes (exStderr ex @ c))"
  "exStdout (replaceExecutionStdoutFromBufferedLocked t st c ex) = (if c = [] then exStdout ex else keep_last maxRetainedExecutionOutputBytes c)"
  "exStderr (replaceExecutionStdoutFromBufferedLocked t st c ex) = exStderr ex"
  "exStdout (replaceExecutionStderrFromBufferedLocked t st c ex) = exStdout ex"
  "exStderr (replaceExecutionStderrFromBufferedLocked t st c ex) = (if c = [] then exStderr ex else keep_last maxRetainedExecutionOutputBytes c)"
  by (simp_all add: appendExecutionStdoutLocked_def appendExecutionStderrLocked_def replaceExecutionStdoutFromBufferedLocked_def
      replaceExecutionStderrFromBufferedLocked_def recordExecutionEventLocked_eq appendRetainedOutput_eq)

lemma merged_stream:
  assumes "length r \<le> n" and "(if streaming then bufferedResultDelta r b n else (b, False)) = (d, rep)"
    and "\<not> streaming \<longrightarrow> r = []" and "b \<noteq> []"
  shows "(if rep then (if d = [] then r else keep_last n d) else if d = [] then r else keep_last n (r @ d)) = keep_last n b"
proof (cases streaming)
  case True
  with assms have e: "bufferedResultDelta r b n = (d, rep)" by simp
  show ?thesis
    using bufferedResultDelta_merge [OF e assms(4,1)] bufferedResultDelta_nonempty [of r b n d] e assms(1) by (cases rep) auto
qed (use assms in auto)

text \<open>Merging the buffered result of a run gives the same retained output as recording that result at once:
  whatever part of it had been streamed before, each stream that the adapter returned ends up as its last
  1 MiB, with nothing doubled and nothing lost.\<close>

theorem mergeBufferedResultOutputLocked_tail:
  assumes "length (exStdout ex) \<le> maxRetainedExecutionOutputBytes" "length (exStderr ex) \<le> maxRetainedExecutionOutputBytes"
    and "\<not> streaming \<longrightarrow> exStdout ex = [] \<and> exStderr ex = []"
  shows "(resStdout result \<noteq> [] \<longrightarrow>
      exStdout (mergeBufferedResultOutputLocked clk result streaming ex) = keep_last maxRetainedExecutionOutputBytes (resStdout result)) \<and>
    (resStderr result \<noteq> [] \<longrightarrow>
      exStderr (mergeBufferedResultOutputLocked clk result streaming ex) = keep_last maxRetainedExecutionOutputBytes (resStderr result)) \<and>
    (resStdout result = [] \<longrightarrow> exStdout (mergeBufferedResultOutputLocked clk result streaming ex) = exStdout ex) \<and>
    (resStderr result = [] \<longrightarrow> exStderr (mergeBufferedResultOutputLocked clk result streaming ex) = exStderr ex)"
proof -
  let ?n = maxRetainedExecutionOutputBytes
  obtain d1 r1 where 1: "(if streaming then bufferedResultDelta (exStdout ex) (resStdout result) ?n else (resStdout result, False)) = (d1, r1)" by fastforce
  obtain d2 r2 where 2: "(if streaming then bufferedResultDelta (exStderr ex) (resStderr result) ?n else (resStderr result, False)) = (d2, r2)" by fastforce
  have out: "exStdout (mergeBufferedResultOutputLocked clk result streaming ex) =
      (if r1 then (if d1 = [] then exStdout ex else keep_last ?n d1) else if d1 = [] then exStdout ex else keep_last ?n (exStdout ex @ d1))"
    "exStderr (mergeBufferedResultOutputLocked clk result streaming ex) =
      (if r2 then (if d2 = [] then exStderr ex else keep_last ?n d2) else if d2 = [] then exStderr ex else keep_last ?n (exStderr ex @ d2))"
    unfolding mergeBufferedResultOutputLocked_def 1 2 Let_def by (cases r1; cases r2; simp)+
  have "resStdout result = [] \<Longrightarrow> d1 = []" "resStderr result = [] \<Longrightarrow> d2 = []" using 1 2 by (auto split: if_splits)
  with out merged_stream [OF assms(1) 1] merged_stream [OF assms(2) 2] assms(3) show ?thesis by simp
qed

theorem mergeBufferedResultOutputLocked_tail_witness:
  "exStdout (mergeBufferedResultOutputLocked demo_clk
     \<lparr>resRunID = [], resExitCode = 0, resLaunchedVM = True, resPlanPath = [], resRunDir = [], resImageRef = [], resImageDigest = [],
      resMessage = [], resStdout = ''hello'', resStderr = []\<rparr> True
     ((new_execution ''cr_1'' ''exec_1'' [] [] [''sh''] 0 False KIND_BATCH)\<lparr>exStdout := ''hel''\<rparr>)) = ''hello''"
  using mergeBufferedResultOutputLocked_tail [of "(new_execution ''cr_1'' ''exec_1'' [] [] [''sh''] 0 False KIND_BATCH)\<lparr>exStdout := ''hel''\<rparr>" True
      "\<lparr>resRunID = [], resExitCode = 0, resLaunchedVM = True, resPlanPath = [], resRunDir = [], resImageRef = [], resImageDigest = [],
      resMessage = [], resStdout = ''hello'', resStderr = []\<rparr>" demo_clk]
  by (simp add: new_execution_def maxRetainedExecutionOutputBytes_def)

text \<open>C17. A subscriber of an execution has a gap-free view: after any events are recorded its channel holds what
  it held followed by exactly those events in their order, or it was closed; and it is not closed as
  long as the events fit its buffer. The retained history is the end of the same sequence.\<close>

theorem subscriber_no_gap:
  assumes "is_gomap (exEventSubscribers ex)" and "get (exEventSubscribers ex) i = Some ch"
    and "length (exEventHistory ex) \<le> maxRetainedExecutionEvents"
    and "ex' = fold (recordExecutionEventLocked now) es ex"
  shows "(\<forall>ch'. get (exEventSubscribers ex') i = Some ch' \<longrightarrow> ch' = ch @ map (stamp_execution now ex) es) \<and>
    (length ch + length es \<le> executionChanCap \<longrightarrow> get (exEventSubscribers ex') i = Some (ch @ map (stamp_execution now ex) es)) \<and>
    exEventHistory ex' = keep_last maxRetainedExecutionEvents (exEventHistory ex @ map (stamp_execution now ex) es)"
  unfolding assms(4)
  using exev.subscriber_complete [OF assms(1,2)] exev.subscriber_kept [OF assms(1,2)] exev.history_fold [OF assms(3)] by blast

theorem subscriber_no_gap_witness:
  "\<exists>ex. get (exEventSubscribers (fold (recordExecutionEventLocked 7) [exec_event ex RUNNING (PStdout ''a'') 5, exec_event ex RUNNING (PStdout ''b'') 6] ex)) 0
     = Some (map (stamp_execution 7 ex) [exec_event ex RUNNING (PStdout ''a'') 5, exec_event ex RUNNING (PStdout ''b'') 6])"
proof -
  let ?ex = "(new_execution ''cr_1'' ''exec_1'' [] [] [''sh''] 0 False KIND_BATCH)\<lparr>exEventSubscribers := [(0, [])]\<rparr>"
  let ?es = "[exec_event ?ex RUNNING (PStdout ''a'') 5, exec_event ?ex RUNNING (PStdout ''b'') 6]"
  have "is_gomap (exEventSubscribers ?ex)" "get (exEventSubscribers ?ex) 0 = Some []" "length (exEventHistory ?ex) \<le> maxRetainedExecutionEvents"
    by (simp_all add: is_gomap_def keys_of_def get_def new_execution_def)
  from subscriber_no_gap [OF this refl, of 7 ?es]
  have "length ([] :: ExecutionStreamEvent list) + length ?es \<le> executionChanCap \<longrightarrow>
    get (exEventSubscribers (fold (recordExecutionEventLocked 7) ?es ?ex)) 0 = Some ([] @ map (stamp_execution 7 ?ex) ?es)"
    by (elim conjE)
  then have "get (exEventSubscribers (fold (recordExecutionEventLocked 7) ?es ?ex)) 0 = Some (map (stamp_execution 7 ?ex) ?es)"
    unfolding append_Nil by (rule mp) (simp add: executionChanCap_def)
  then show ?thesis by (rule exI [of _ ?ex])
qed

text \<open>C18. The memory an execution or a sandbox takes in the service is bounded in every reachable state: the
  output it retains, its history of events and the buffer of every subscriber.\<close>

theorem bounded_state:
  assumes "reachable x"
  shows "(\<forall>k ex. get (svcExecutions (sysService x)) k = Some ex \<longrightarrow>
      length (exStdout ex) \<le> 1048576 \<and> length (exStderr ex) \<le> 1048576 \<and> length (exEventHistory ex) \<le> maxRetainedExecutionEvents \<and>
      (\<forall>i ch. get (exEventSubscribers ex) i = Some ch \<longrightarrow> length ch \<le> executionChanCap)) \<and>
    (\<forall>k sb. get (svcSandboxes (sysService x)) k = Some sb \<longrightarrow> length (sbEventHistory sb) \<le> maxRetainedSandboxEvents \<and>
      (\<forall>i ch. get (sbEventSubscribers sb) i = Some ch \<longrightarrow> length ch \<le> sandboxChanCap))"
proof -
  note inv = reachable_svc_inv [OF assms]
  have E: "length (exStdout ex) \<le> 1048576 \<and> length (exStderr ex) \<le> 1048576 \<and> length (exEventHistory ex) \<le> maxRetainedExecutionEvents \<and>
      (\<forall>i ch. get (exEventSubscribers ex) i = Some ch \<longrightarrow> length ch \<le> executionChanCap)"
    if "get (svcExecutions (sysService x)) k = Some ex" for k ex
    using svc_inv_exec(2) [OF inv that]
    by (simp add: exec_ok_def exec_bounds_ok_def subs_ok_def maxRetainedExecutionOutputBytes_def)
  have B: "length (sbEventHistory sb) \<le> maxRetainedSandboxEvents \<and>
      (\<forall>i ch. get (sbEventSubscribers sb) i = Some ch \<longrightarrow> length ch \<le> sandboxChanCap)"
    if "get (svcSandboxes (sysService x)) k = Some sb" for k sb
    using svc_inv_sandbox(2) [OF inv that] by (simp add: sandbox_ok_def subs_ok_def)
  show ?thesis using E B by blast
qed

theorem bounded_state_witness:
  "\<exists>x ex. reachable x \<and> get (svcExecutions (sysService x)) (executionKey ''cr_1'' ''exec_1'') = Some ex \<and> length (exStdout ex) \<le> 1048576"
proof -
  obtain x ex where x: "reachable x" "get (svcExecutions (sysService x)) (executionKey ''cr_1'' ''exec_1'') = Some ex"
    using demo_queued by blast
  from bounded_state [OF x(1)] x show ?thesis by blast
qed

end
