(* ===== verification/Effect.thy ===== *)
theory Effect
  imports Prelude
begin

text \<open>
  Actions on a state that may fail: Go code that changes a host, a database or a connection and returns an error or a value.
\<close>

type_synonym ('s, 'a) effect = "'s \<Rightarrow> 's \<times> (string + 'a)"

definition ret :: "'a \<Rightarrow> ('s, 'a) effect" where
  "ret x h = (h, Inr x)"

definition throw :: "string \<Rightarrow> ('s, 'a) effect" where
  "throw e h = (h, Inl e)"

definition bind_act :: "('s, 'a) effect \<Rightarrow> ('a \<Rightarrow> ('s, 'b) effect) \<Rightarrow> ('s, 'b) effect" where
  "bind_act m f h = (case m h of (h', Inl e) \<Rightarrow> (h', Inl e) | (h', Inr x) \<Rightarrow> f x h')"

text \<open>The release of what an action took, when the action fails.\<close>

definition on_error :: "('s \<Rightarrow> 's) \<Rightarrow> ('s, 'a) effect \<Rightarrow> ('s, 'a) effect" where
  "on_error release m h = (case m h of (h', Inl e) \<Rightarrow> (release h', Inl e) | (h', Inr x) \<Rightarrow> (h', Inr x))"

text \<open>What runs in every case, as \<open>defer\<close> does.\<close>

definition deferred :: "('s \<Rightarrow> 's) \<Rightarrow> ('s, 'a) effect \<Rightarrow> ('s, 'a) effect" where
  "deferred f m h = (case m h of (h', r) \<Rightarrow> (f h', r))"

definition wrap :: "string \<Rightarrow> ('s, 'a) effect \<Rightarrow> ('s, 'a) effect" where
  "wrap context m h = (case m h of (h', Inl e) \<Rightarrow> (h', Inl (context @ '': '' @ e)) | (h', Inr x) \<Rightarrow> (h', Inr x))"

definition lift_res :: "string + 'a \<Rightarrow> ('s, 'a) effect" where
  "lift_res r h = (h, r)"

section \<open>Outcomes of actions\<close>

lemma bind_act_Inl: "bind_act m f h = (h', Inl e) \<longleftrightarrow> m h = (h', Inl e) \<or> (\<exists>h1 x. m h = (h1, Inr x) \<and> f x h1 = (h', Inl e))"
  by (auto simp: bind_act_def split: prod.splits sum.splits)

lemma bind_act_Inr: "bind_act m f h = (h', Inr y) \<longleftrightarrow> (\<exists>h1 x. m h = (h1, Inr x) \<and> f x h1 = (h', Inr y))"
  by (auto simp: bind_act_def split: prod.splits sum.splits)

lemma on_error_Inl: "on_error c m h = (h', Inl e) \<longleftrightarrow> (\<exists>h1. m h = (h1, Inl e) \<and> h' = c h1)"
  by (auto simp: on_error_def split: prod.splits sum.splits)

lemma on_error_Inr: "on_error c m h = (h', Inr y) \<longleftrightarrow> m h = (h', Inr y)"
  by (auto simp: on_error_def split: prod.splits sum.splits)

lemma wrap_Inl: "wrap ctx m h = (h', Inl e) \<longleftrightarrow> (\<exists>e'. m h = (h', Inl e') \<and> e = ctx @ '': '' @ e')"
  by (auto simp: wrap_def split: prod.splits sum.splits)

lemma wrap_Inr: "wrap ctx m h = (h', Inr y) \<longleftrightarrow> m h = (h', Inr y)"
  by (auto simp: wrap_def split: prod.splits sum.splits)

lemma deferred_out: "deferred f m h = (h', r) \<longleftrightarrow> (\<exists>h1. m h = (h1, r) \<and> h' = f h1)"
  by (auto simp: deferred_def split: prod.splits)

lemma lift_res_out: "lift_res x h = (h', r) \<longleftrightarrow> h' = h \<and> x = r"
  by (auto simp: lift_res_def)

lemma ret_out: "ret x h = (h', r) \<longleftrightarrow> h' = h \<and> r = Inr x"
  by (auto simp: ret_def)

lemmas outcomes = bind_act_Inl bind_act_Inr on_error_Inl on_error_Inr wrap_Inl wrap_Inr

end
