(* ===== verification/Decimal.thy ===== *)
theory Decimal
  imports Prelude
begin

text \<open>Facts on \<open>strconv.Itoa\<close>: the characters of a decimal numeral, and that numerals are distinct.\<close>

definition is_digit :: "char \<Rightarrow> bool" where
  "is_digit c \<longleftrightarrow> c \<in> set ''0123456789''"

lemma digit_char_digit: "d < 10 \<Longrightarrow> is_digit (digit_char d)"
proof -
  assume "d < 10"
  then have "d \<in> set [0..<10]" by simp
  moreover have "\<forall>d \<in> set [0..<10]. is_digit (digit_char d)" by code_simp
  ultimately show ?thesis by blast
qed

lemma digit_char_inj: "a < 10 \<Longrightarrow> b < 10 \<Longrightarrow> digit_char a = digit_char b \<longleftrightarrow> a = b"
proof -
  assume "a < 10" "b < 10"
  then have "of_char (digit_char a) = 48 + a" "of_char (digit_char b) = 48 + b"
    by (simp_all add: digit_char_def of_char_of)
  then show ?thesis by (metis add_left_cancel)
qed

lemma nat_to_string_digits: "c \<in> set (nat_to_string n) \<Longrightarrow> is_digit c"
proof (induction n arbitrary: c rule: nat_to_string.induct)
  case (1 n)
  then show ?case by (subst (asm) (2) nat_to_string.simps) (auto simp: digit_char_digit split: if_splits)
qed

lemma nat_to_string_inj: "nat_to_string m = nat_to_string n \<Longrightarrow> m = n"
proof (induction m arbitrary: n rule: nat_to_string.induct)
  case (1 m)
  have s: "nat_to_string k = (if k < 10 then [digit_char k] else nat_to_string (k div 10) @ [digit_char (k mod 10)])" for k
    by (rule nat_to_string.simps)
  show ?case
  proof (cases "m < 10 \<or> n < 10")
    case True
    then show ?thesis using "1.prems" s [of m] s [of n] digit_char_inj nat_to_string_ne [THEN not_sym] by (auto split: if_splits)
  next
    case False
    then have "nat_to_string (m div 10) = nat_to_string (n div 10)" "digit_char (m mod 10) = digit_char (n mod 10)"
      using "1.prems" s [of m] s [of n] by auto
    then have "m div 10 = n div 10" "m mod 10 = n mod 10"
      using "1.IH" False digit_char_inj [of "m mod 10" "n mod 10"] by simp_all
    then show ?thesis by (metis div_mult_mod_eq)
  qed
qed

lemma minus_not_digit: "\<not> is_digit CHR ''-''"
  by code_simp

lemma itoa_inj [simp]: "itoa i = itoa j \<longleftrightarrow> i = j"
proof
  assume eq: "itoa i = itoa j"
  have d: "CHR ''-'' \<notin> set (nat_to_string n)" for n using nat_to_string_digits minus_not_digit by blast
  then have "nat_to_string n \<noteq> CHR ''-'' # xs" for n xs by (metis list.set_intros(1))
  with eq have "(i < 0 \<and> j < 0 \<and> nat_to_string (nat (- i)) = nat_to_string (nat (- j))) \<or>
    (\<not> i < 0 \<and> \<not> j < 0 \<and> nat_to_string (nat i) = nat_to_string (nat j))"
    unfolding itoa_def by (metis list.inject)
  then show "i = j" using nat_to_string_inj by fastforce
qed simp

lemma itoa_chars: "c \<in> set (itoa i) \<Longrightarrow> is_digit c \<or> c = CHR ''-''"
  using nat_to_string_digits by (auto simp: itoa_def split: if_splits)

lemma itoa_nonneg_chars: "0 \<le> i \<Longrightarrow> c \<in> set (itoa i) \<Longrightarrow> is_digit c"
  using nat_to_string_digits by (auto simp: itoa_def)

lemma itoa_ne [simp]: "itoa i \<noteq> []"
  by (simp add: itoa_def)

end
