(* ===== verification/Firecracker_Net.thy ===== *)
theory Firecracker_Net
  imports Backend Digest Decimal
begin

text \<open>
  The network side of \<open>internal/backend/firecracker\<close>: names and addresses derived from a run
  identifier, boot arguments, privileged commands, and the host firewall that keeps a guest to its
  policy (\<open>setupHostNetworkWithDeps\<close>, \<open>gateway_firewall.go\<close>).

  A privileged command is an effect on a host of some type \<open>'w\<close>: \<open>runCommand\<close> is a function that
  takes the arguments and the host and gives the new host and the error, if any. The name service is
  the argument \<open>lookup\<close>.
\<close>

section \<open>Names, addresses and small conversions\<close>

definition is_alnum :: "char \<Rightarrow> bool" where
  "is_alnum r \<longleftrightarrow> (CHR ''a'' \<le> r \<and> r \<le> CHR ''z'') \<or> (CHR ''A'' \<le> r \<and> r \<le> CHR ''Z'') \<or> (CHR ''0'' \<le> r \<and> r \<le> CHR ''9'')"

definition tapNameFromRunID :: "string \<Rightarrow> string" where
  "tapNameFromRunID runID =
     (let filtered = to_lower (filter is_alnum runID);
          filtered = (if length filtered > 13 then drop (length filtered - 13) filtered else filtered);
          filtered = (if filtered = [] then ''cleanroomtap'' else filtered)
      in ''cr'' @ filtered)"

definition hostGuestIPs :: "string \<Rightarrow> string \<times> string" where
  "hostGuestIPs runID =
     (let sum = sha1_sum runID; o2 = uint (sum ! 0); o3 = uint (sum ! 1);
          o2 = (if o2 = 0 then 1 else o2); o3 = (if o3 = 0 then 1 else o3)
      in (''10.'' @ itoa o2 @ ''.'' @ itoa o3 @ ''.1'', ''10.'' @ itoa o2 @ ''.'' @ itoa o3 @ ''.2''))"

definition guestMACFromRunID :: "string \<Rightarrow> string" where
  "guestMACFromRunID runID =
     (let sum = sha1_sum runID in
      ''02:fc:'' @ hex_byte (sum ! 0) @ '':'' @ hex_byte (sum ! 1) @ '':'' @ hex_byte (sum ! 2) @ '':'' @ hex_byte (sum ! 3))"

text \<open>A \<open>time.Duration\<close> is a number of nanoseconds; \<open>Milliseconds\<close> divides towards zero.\<close>

definition durationMillisCeil :: "int \<Rightarrow> int" where
  "durationMillisCeil d =
     (if d \<le> 0 then 0 else (let ms = d div 1000000 in if ms = 0 then 1 else ms))"

definition randomGuestCID :: "8 word list option \<Rightarrow> 32 word" where
  "randomGuestCID buf =
     (case buf of
        None \<Rightarrow> 3
      | Some b \<Rightarrow>
          (let cid = push_bit 24 (ucast (b ! 0)) OR push_bit 16 (ucast (b ! 1)) OR push_bit 8 (ucast (b ! 2)) OR ucast (b ! 3)
           in cid mod (0xFFFFFFFE - 3) + 3))"

definition sanitizeKernelArgValue :: "string \<Rightarrow> string" where
  "sanitizeKernelArgValue value =
     filter (\<lambda>r. is_alnum r \<or> r = CHR ''.'' \<or> r = CHR ''_'' \<or> r = CHR ''-'') value"

definition dockerServiceBootArgs :: "CompiledPolicy option \<Rightarrow> FirecrackerConfig \<Rightarrow> string" where
  "dockerServiceBootArgs compiled cfg =
     (if \<not> RequiresDockerService compiled then ''cleanroom_service_docker_required=0''
      else
        (let startupSeconds = (if fcDockerStartupSeconds cfg \<le> 0 then 20 else fcDockerStartupSeconds cfg);
             storageDriver = sanitizeKernelArgValue (trim_space (fcDockerStorageDriver cfg));
             storageDriver = (if storageDriver = [] then ''vfs'' else storageDriver);
             iptables = (if fcDockerIPTables cfg then 1 else 0)
         in ''cleanroom_service_docker_required=1 cleanroom_service_docker_startup_timeout='' @ itoa startupSeconds @
            '' cleanroom_service_docker_storage_driver='' @ storageDriver @
            '' cleanroom_service_docker_iptables='' @ itoa iptables))"

section \<open>Privileged commands\<close>

type_synonym command = "string list"
type_synonym 'w runner = "command \<Rightarrow> 'w \<Rightarrow> 'w \<times> string option"

definition defaultPrivilegedHelperPath :: string where
  "defaultPrivilegedHelperPath = ''/usr/local/sbin/cleanroom-root-helper''"

definition resolvePrivilegedExecution :: "FirecrackerConfig \<Rightarrow> string \<times> string" where
  "resolvePrivilegedExecution cfg =
     (let mode = to_lower (trim_space (fcPrivilegedMode cfg)); mode = (if mode = [] then ''sudo'' else mode);
          helperPath = trim_space (fcPrivilegedHelperPath cfg);
          helperPath = (if helperPath = [] then defaultPrivilegedHelperPath else helperPath)
      in (mode, helperPath))"

text \<open>\<open>start\<close> runs a process to its end: the error and what it printed, or \<open>None\<close>.\<close>

definition runCombinedCommand ::
  "(command \<Rightarrow> 'w \<Rightarrow> 'w \<times> (string \<times> string) option) \<Rightarrow> command \<Rightarrow> command \<Rightarrow> 'w \<Rightarrow> 'w \<times> string option" where
  "runCombinedCommand start command errorContext w =
     (case start command w of
        (w', None) \<Rightarrow> (w', None)
      | (w', Some (err, out)) \<Rightarrow>
          (let msg = trim_space out; msg = (if msg = [] then ''no stderr output'' else msg)
           in (w', Some (join '' '' errorContext @ '': '' @ err @ '' ('' @ msg @ '')''))))"

definition runRootCommand ::
  "(command \<Rightarrow> 'w \<Rightarrow> 'w \<times> (string \<times> string) option) \<Rightarrow> FirecrackerConfig \<Rightarrow> 'w runner" where
  "runRootCommand start cfg args w =
     (if args = [] then (w, Some ''missing privileged command'')
      else
        (let (mode, helperPath) = resolvePrivilegedExecution cfg in
         if mode = ''sudo'' then runCombinedCommand start ([''sudo'', ''-n''] @ args) args w
         else if mode = ''helper'' then
           (if trim_space helperPath = [] then (w, Some ''privileged helper mode requires helper path'')
            else runCombinedCommand start ([''sudo'', ''-n'', helperPath] @ args) (''helper'' # args) w)
         else (w, Some (''unsupported privileged command mode '' @ go_quote mode))))"

definition runRootCommandBatch ::
  "(command \<Rightarrow> 'w \<Rightarrow> 'w \<times> (string \<times> string) option) \<Rightarrow> FirecrackerConfig \<Rightarrow> command list \<Rightarrow> 'w \<Rightarrow> 'w" where
  "runRootCommandBatch start cfg commands w =
     fold (\<lambda>args w. if args = [] then w else fst (runRootCommand start cfg args w)) commands w"

section \<open>Policy entries as firewall rules\<close>

record iptablesForwardRule =
  fwProtocol :: string
  fwDestIP :: string
  fwDestPort :: int

text \<open>\<open>net.IP\<close>: four bytes, or sixteen; \<open>To4\<close> also takes an IPv4 address mapped into IPv6.\<close>

type_synonym ip = "8 word list"

definition To4 :: "ip \<Rightarrow> ip option" where
  "To4 a =
     (if length a = 4 then Some a
      else if length a = 16 \<and> take 10 a = replicate 10 0 \<and> a ! 10 = 255 \<and> a ! 11 = 255 then Some (drop 12 a)
      else None)"

definition ipv4_string :: "ip \<Rightarrow> string" where
  "ipv4_string a = join ''.'' (map (\<lambda>b. itoa (uint b)) a)"

type_synonym rule_acc = "iptablesForwardRule list \<times> string list"

definition rule_key :: "string \<Rightarrow> string \<Rightarrow> int \<Rightarrow> string" where
  "rule_key proto ipStr port = proto @ ''|'' @ ipStr @ ''|'' @ itoa port"

definition add_rule :: "string \<Rightarrow> string \<Rightarrow> int \<Rightarrow> rule_acc \<Rightarrow> rule_acc" where
  "add_rule proto ipStr port = (\<lambda>(rules, seen).
     let key = rule_key proto ipStr port in
     if key \<in> set seen then (rules, seen)
     else (rules @ [\<lparr>fwProtocol = proto, fwDestIP = ipStr, fwDestPort = port\<rparr>], key # seen))"

definition add_ip :: "int list \<Rightarrow> ip \<Rightarrow> rule_acc \<Rightarrow> rule_acc" where
  "add_ip ports a acc =
     (case To4 a of
        None \<Rightarrow> acc
      | Some ipv4 \<Rightarrow> fold (\<lambda>port. fold (\<lambda>proto. add_rule proto (ipv4_string ipv4) port) [''tcp'', ''udp'']) ports acc)"

fun resolve_entries :: "(string \<Rightarrow> string + ip list) \<Rightarrow> AllowRule list \<Rightarrow> rule_acc \<Rightarrow> string + rule_acc" where
  "resolve_entries lookup [] acc = Inr acc"
| "resolve_entries lookup (entry # rest) acc =
     (case lookup (arHost entry) of
        Inl e \<Rightarrow> Inl (''resolve policy host '' @ go_quote (arHost entry) @ '': '' @ e)
      | Inr ips \<Rightarrow>
          if ips = [] then Inl (''resolve policy host '' @ go_quote (arHost entry) @ '': no ipv4 addresses'')
          else resolve_entries lookup rest (fold (add_ip (arPorts entry)) ips acc))"

definition resolveForwardRulesWithLookup ::
  "(string \<Rightarrow> string + ip list) \<Rightarrow> AllowRule list \<Rightarrow> string + iptablesForwardRule list" where
  "resolveForwardRulesWithLookup lookup allow = and_then (resolve_entries lookup allow ([], [])) (\<lambda>(rules, seen). Inr rules)"

section \<open>The host network of a sandbox\<close>

record hostNetworkConfig =
  hnTapName :: string
  hnHostIP :: string
  hnGuestIP :: string
  hnPolicyResolveMS :: int

definition return_path_rule :: "string \<Rightarrow> string \<Rightarrow> string \<Rightarrow> string \<Rightarrow> command" where
  "return_path_rule act tapName module flag =
     [''iptables'', act, ''FORWARD'', ''-o'', tapName, ''-m'', module, flag, ''RELATED,ESTABLISHED'', ''-j'', ''ACCEPT'']"

definition installForwardReturnPathRule :: "'w runner \<Rightarrow> string \<Rightarrow> 'w \<Rightarrow> 'w \<times> (string + command)" where
  "installForwardReturnPathRule setupRun tapName w =
     (case setupRun (return_path_rule ''-A'' tapName ''conntrack'' ''--ctstate'') w of
        (w1, None) \<Rightarrow> (w1, Inr (return_path_rule ''-D'' tapName ''conntrack'' ''--ctstate''))
      | (w1, Some _) \<Rightarrow>
          (case setupRun (return_path_rule ''-A'' tapName ''state'' ''--state'') w1 of
             (w2, Some e) \<Rightarrow> (w2, Inl e)
           | (w2, None) \<Rightarrow> (w2, Inr (return_path_rule ''-D'' tapName ''state'' ''--state''))))"

text \<open>
  One step of the set-up: a command with the context of its error and the command that undoes it, if
  one is recorded, or the return path rule with its fallback. \<open>network_steps\<close> lists the steps after
  the tap device in the order of the source; a rule that is added is undone by the same rule with \<open>-D\<close>.
\<close>

datatype net_step = Step command string "command option" | ReturnPath string

definition ipt_step :: "command \<Rightarrow> string \<Rightarrow> net_step" where
  "ipt_step rule context = Step (''iptables'' # ''-A'' # rule) context (Some (''iptables'' # ''-D'' # rule))"

definition forward_step :: "string \<Rightarrow> iptablesForwardRule \<Rightarrow> net_step" where
  "forward_step tapName rule =
     ipt_step [''FORWARD'', ''-i'', tapName, ''-p'', fwProtocol rule, ''-d'', fwDestIP rule, ''--dport'', itoa (fwDestPort rule), ''-j'', ''ACCEPT'']
       (''install allow rule '' @ fwProtocol rule @ '' '' @ fwDestIP rule @ '':'' @ itoa (fwDestPort rule))"

definition dnsServer :: string where
  "dnsServer = ''1.1.1.1''"

definition network_steps :: "string \<Rightarrow> string \<Rightarrow> string \<Rightarrow> int \<Rightarrow> iptablesForwardRule list \<Rightarrow> net_step list" where
  "network_steps tapName hostIP guestIP gatewayPort forwardRules =
     [Step [''ip'', ''addr'', ''add'', hostIP @ ''/24'', ''dev'', tapName] (''assign host ip to '' @ tapName) None,
      Step [''ip'', ''link'', ''set'', ''dev'', tapName, ''up''] (''bring tap '' @ tapName @ '' up'') None,
      Step [''sysctl'', ''-w'', ''net.ipv4.ip_forward=1''] ''enable ipv4 forwarding'' None,
      Step [''sysctl'', ''-w'', ''net.ipv6.conf.'' @ tapName @ ''.disable_ipv6=1''] (''disable ipv6 on '' @ tapName) None,
      ipt_step [''INPUT'', ''-i'', tapName, ''!'', ''-s'', guestIP, ''-j'', ''DROP''] (''install anti-spoof rule for '' @ tapName)] @
     (if gatewayPort > 0 then
        [ipt_step [''INPUT'', ''-i'', tapName, ''-s'', guestIP, ''-p'', ''tcp'', ''--dport'', itoa gatewayPort, ''-j'', ''ACCEPT'']
           (''install gateway accept rule for '' @ tapName)]
      else []) @
     [ipt_step [''INPUT'', ''-i'', tapName, ''-j'', ''DROP''] (''install input deny rule for '' @ tapName),
      Step [''iptables'', ''-t'', ''nat'', ''-A'', ''POSTROUTING'', ''-s'', guestIP @ ''/32'', ''-j'', ''MASQUERADE'']
        (''install nat rule for '' @ guestIP @ ''/32'')
        (Some [''iptables'', ''-t'', ''nat'', ''-D'', ''POSTROUTING'', ''-s'', guestIP @ ''/32'', ''-j'', ''MASQUERADE'']),
      ReturnPath tapName,
      ipt_step [''FORWARD'', ''-i'', tapName, ''-p'', ''udp'', ''-d'', dnsServer, ''--dport'', ''53'', ''-j'', ''ACCEPT'']
        (''install dns udp rule for '' @ tapName),
      ipt_step [''FORWARD'', ''-i'', tapName, ''-p'', ''tcp'', ''-d'', dnsServer, ''--dport'', ''53'', ''-j'', ''ACCEPT'']
        (''install dns tcp rule for '' @ tapName)] @
     map (forward_step tapName) forwardRules @
     [ipt_step [''FORWARD'', ''-i'', tapName, ''-j'', ''DROP''] (''install default deny forward rule for '' @ tapName)]"

fun run_step :: "'w runner \<Rightarrow> net_step \<Rightarrow> 'w \<Rightarrow> 'w \<times> (string + command list)" where
  "run_step setupRun (Step args context undo) w =
     (case setupRun args w of
        (w', Some e) \<Rightarrow> (w', Inl (context @ '': '' @ e))
      | (w', None) \<Rightarrow> (w', Inr (case undo of None \<Rightarrow> [] | Some u \<Rightarrow> [u])))"
| "run_step setupRun (ReturnPath tapName) w =
     (case installForwardReturnPathRule setupRun tapName w of
        (w', Inl e) \<Rightarrow> (w', Inl (''install forward return-path rule for '' @ tapName @ '': '' @ e))
      | (w', Inr undo) \<Rightarrow> (w', Inr [undo]))"

text \<open>\<open>cleanup\<close> runs the recorded commands, the last first.\<close>

fun run_steps ::
  "'w runner \<Rightarrow> (command list \<Rightarrow> 'w \<Rightarrow> 'w) \<Rightarrow> net_step list \<Rightarrow> command list \<Rightarrow> 'w \<Rightarrow> 'w \<times> (string + command list)" where
  "run_steps setupRun batch [] cleanupCmds w = (w, Inr cleanupCmds)"
| "run_steps setupRun batch (s # rest) cleanupCmds w =
     (case run_step setupRun s w of
        (w', Inl e) \<Rightarrow> (batch (rev cleanupCmds) w', Inl e)
      | (w', Inr undo) \<Rightarrow> run_steps setupRun batch rest (cleanupCmds @ undo) w')"

text \<open>
  The answer holds the recorded commands: the closure \<open>cleanup\<close> that the source returns is
  \<open>batch (rev cleanupCmds)\<close>. \<open>took\<close> is the time the name service took. \<open>setupRun\<close> runs a command with the
  caller's context, \<open>batch\<close> runs commands with the clean-up context.
\<close>

definition setupHostNetworkWithDeps ::
  "int \<Rightarrow> int \<Rightarrow> string \<Rightarrow> AllowRule list \<Rightarrow> int \<Rightarrow> (string \<Rightarrow> string + ip list) \<Rightarrow> 'w runner \<Rightarrow> (command list \<Rightarrow> 'w \<Rightarrow> 'w) \<Rightarrow>
   'w \<Rightarrow> 'w \<times> (string + hostNetworkConfig \<times> command list)" where
  "setupHostNetworkWithDeps uid took runID allow gatewayPort lookup setupRun batch w =
     (let tapName = tapNameFromRunID runID; (hostIP, guestIP) = hostGuestIPs runID in
      case resolveForwardRulesWithLookup lookup allow of
        Inl e \<Rightarrow> (w, Inl e)
      | Inr forwardRules \<Rightarrow>
          (case setupRun [''ip'', ''tuntap'', ''add'', ''dev'', tapName, ''mode'', ''tap'', ''user'', itoa uid] w of
             (w1, Some e) \<Rightarrow> (w1, Inl (''create tap device '' @ tapName @ '': '' @ e))
           | (w1, None) \<Rightarrow>
               (case run_steps setupRun batch (network_steps tapName hostIP guestIP gatewayPort forwardRules)
                       [[''ip'', ''link'', ''del'', tapName]] w1 of
                  (w2, Inl e) \<Rightarrow> (w2, Inl e)
                | (w2, Inr cleanupCmds) \<Rightarrow>
                    (w2, Inr (\<lparr>hnTapName = tapName, hnHostIP = hostIP, hnGuestIP = guestIP,
                               hnPolicyResolveMS = durationMillisCeil took\<rparr>, cleanupCmds)))))"

text \<open>
  The clean-up context: it is made during the set-up with a timeout of five seconds, so a command that
  the clean-up wants to start after that does not start (\<open>exec.CommandContext\<close> with a context that is
  done). \<open>elapsed\<close> is the time since the set-up when the clean-up runs.
\<close>

definition cleanup_start ::
  "int \<Rightarrow> (command \<Rightarrow> 'w \<Rightarrow> 'w \<times> (string \<times> string) option) \<Rightarrow> command \<Rightarrow> 'w \<Rightarrow> 'w \<times> (string \<times> string) option" where
  "cleanup_start elapsed start args w =
     (if elapsed \<ge> 5000000000 then (w, Some (''context deadline exceeded'', [])) else start args w)"

section \<open>The gateway port\<close>

definition setupGatewayFirewall :: "int \<Rightarrow> 'w runner \<Rightarrow> 'w \<Rightarrow> 'w \<times> (string + command list)" where
  "setupGatewayFirewall port run w =
     (let portStr = itoa port;
          lo = [''INPUT'', ''-i'', ''lo'', ''-p'', ''tcp'', ''--dport'', portStr, ''-j'', ''ACCEPT''];
          other = [''INPUT'', ''!'', ''-i'', ''cr+'', ''-p'', ''tcp'', ''--dport'', portStr, ''-j'', ''DROP''] in
      case run (''iptables'' # ''-A'' # lo) w of
        (w1, Some e) \<Rightarrow> (w1, Inl (''install gateway loopback rule: '' @ e))
      | (w1, None) \<Rightarrow>
          (case run (''iptables'' # ''-A'' # other) w1 of
             (w2, Some e) \<Rightarrow> (fst (run (''iptables'' # ''-D'' # lo) w2), Inl (''install gateway drop rule: '' @ e))
           | (w2, None) \<Rightarrow> (w2, Inr [''iptables'' # ''-D'' # other, ''iptables'' # ''-D'' # lo])))"

section \<open>Environment for git in the guest\<close>

definition git_hosts :: "AllowRule list \<Rightarrow> string list" where
  "git_hosts allow = map arHost (filter (\<lambda>rule. list_ex (\<lambda>port. port = 443) (arPorts rule)) allow)"

definition gatewayEnvVars :: "CompiledPolicy option \<Rightarrow> string \<Rightarrow> int \<Rightarrow> string list" where
  "gatewayEnvVars policy hostIP gwPort =
     (case policy of
        None \<Rightarrow> []
      | Some p \<Rightarrow>
          (let gitHosts = git_hosts (cpAllow p);
               gatewayAddr = ''http://'' @ hostIP @ '':'' @ itoa gwPort in
           if gitHosts = [] then []
           else (''GIT_CONFIG_COUNT='' @ itoa (int (length gitHosts))) #
             concat (map (\<lambda>(i, host).
               [''GIT_CONFIG_KEY_'' @ itoa (int i) @ ''=url.'' @ gatewayAddr @ ''/git/'' @ host @ ''/.insteadOf'',
                ''GIT_CONFIG_VALUE_'' @ itoa (int i) @ ''=https://'' @ host @ ''/'']) (enumerate 0 gitHosts))))"

end
