(* ===== verification/Json_Value.thy ===== *)
theory Json_Value
  imports Json
begin

text \<open>JSON values and \<open>json.MarshalIndent\<close> with an indentation of two spaces, as \<open>writeJSON\<close> uses it.\<close>

datatype json = JNull | JBool bool | JNum int | JStr string | JArr "json list" | JObj "(string \<times> json) list"

definition json_newline :: "nat \<Rightarrow> string" where
  "json_newline n = CHR 0x0A # replicate (2 * n) CHR '' ''"

fun marshal_indent :: "nat \<Rightarrow> json \<Rightarrow> string" where
  "marshal_indent n JNull = ''null''"
| "marshal_indent n (JBool b) = json_bool b"
| "marshal_indent n (JNum i) = itoa i"
| "marshal_indent n (JStr s) = json_string s"
| "marshal_indent n (JArr xs) =
     (if xs = [] then ''[]''
      else ''['' @ json_newline (n + 1) @ join ('','' @ json_newline (n + 1)) (map (marshal_indent (n + 1)) xs) @ json_newline n @ '']'')"
| "marshal_indent n (JObj fs) =
     (if fs = [] then [CHR 0x7B, CHR 0x7D]
      else CHR 0x7B # json_newline (n + 1) @
        join ('','' @ json_newline (n + 1)) (map (\<lambda>kv. json_string (fst kv) @ '': '' @ marshal_indent (n + 1) (snd kv)) fs) @
        json_newline n @ [CHR 0x7D])"

text \<open>A field with \<open>omitempty\<close>.\<close>

definition omit_empty :: "bool \<Rightarrow> string \<Rightarrow> json \<Rightarrow> (string \<times> json) list" where
  "omit_empty isEmpty k v = (if isEmpty then [] else [(k, v)])"

text \<open>A JSON object decoded into a map, where the last of several equal keys counts, and marshalled again, by key.\<close>

definition raw_map :: "(string \<times> json) list \<Rightarrow> (string, json) gomap" where
  "raw_map fs = fold (\<lambda>(k, v). put k v) fs []"

definition marshal_map :: "(string, json) gomap \<Rightarrow> (string \<times> json) list" where
  "marshal_map m = sort_key fst m"

end
