(* ===== verification/Vsockexec.thy ===== *)
theory Vsockexec
  imports Json_Value Digest
begin

text \<open>
  \<open>internal/vsockexec/protocol.go\<close>: the messages between the host and the guest agent. The wire is a
  sequence of JSON values: a \<open>json.Encoder\<close> writes one, a \<open>json.Decoder\<close> reads the next. Byte slices
  travel as base64 strings.
\<close>

section \<open>Base64\<close>

definition base64_char :: "nat \<Rightarrow> char" where
  "base64_char d =
     (if d < 26 then char_of (65 + d) else if d < 52 then char_of (71 + d)
      else if d < 62 then char_of (d - 4) else if d = 62 then CHR ''+'' else CHR ''/'')"

definition base64_value :: "char \<Rightarrow> nat option" where
  "base64_value c =
     (let n = of_char c :: nat in
      if 65 \<le> n \<and> n \<le> 90 then Some (n - 65) else if 97 \<le> n \<and> n \<le> 122 then Some (n - 71)
      else if 48 \<le> n \<and> n \<le> 57 then Some (n + 4) else if c = CHR ''+'' then Some 62
      else if c = CHR ''/'' then Some 63 else None)"

text \<open>\<open>base64.StdEncoding\<close>, on bytes given as characters.\<close>

fun base64_encode :: "string \<Rightarrow> string" where
  "base64_encode (a # b # c # rest) =
     (let n = of_char a * 65536 + of_char b * 256 + (of_char c :: nat) in
      [base64_char (n div 262144), base64_char (n div 4096 mod 64), base64_char (n div 64 mod 64), base64_char (n mod 64)] @
      base64_encode rest)"
| "base64_encode [a, b] =
     (let n = of_char a * 1024 + of_char b * (4 :: nat) in
      [base64_char (n div 4096), base64_char (n div 64 mod 64), base64_char (n mod 64), CHR ''=''])"
| "base64_encode [a] =
     (let n = of_char a * (16 :: nat) in [base64_char (n div 64), base64_char (n mod 64), CHR ''='', CHR ''=''])"
| "base64_encode [] = []"

text \<open>
  Decoding skips carriage returns and newlines, and takes padding in the last group only. Trailing bits
  of a padded group are dropped, as the decoder does that is not strict.
\<close>

fun base64_groups :: "string \<Rightarrow> string option" where
  "base64_groups [] = Some []"
| "base64_groups (a # b # c # d # rest) =
     (case (base64_value a, base64_value b) of
        (Some x, Some y) \<Rightarrow>
          if c = CHR ''='' then (if d = CHR ''='' \<and> rest = [] then Some [char_of ((x * 64 + y) div 16)] else None)
          else
            (case base64_value c of
               None \<Rightarrow> None
             | Some z \<Rightarrow>
                 if d = CHR ''='' then
                   (if rest = [] then (let n = (x * 64 + y) * 64 + z in Some [char_of (n div 1024), char_of (n div 4 mod 256)]) else None)
                 else
                   (case base64_value d of
                      None \<Rightarrow> None
                    | Some u \<Rightarrow>
                        (let n = ((x * 64 + y) * 64 + z) * 64 + u in
                         map_option (\<lambda>r. [char_of (n div 65536), char_of (n div 256 mod 256), char_of (n mod 256)] @ r) (base64_groups rest))))
      | _ \<Rightarrow> None)"
| "base64_groups _ = None"

definition base64_decode :: "string \<Rightarrow> string option" where
  "base64_decode s = base64_groups (filter (\<lambda>c. c \<noteq> CHR 0x0A \<and> c \<noteq> CHR 0x0D) s)"

section \<open>Messages\<close>

definition DefaultPort :: "32 word" where
  "DefaultPort = 10700"

record ExecRequest =
  erCommand :: "string list"
  erDir :: string
  erEnv :: "string list"
  erEntropySeed :: string
  erTTY :: bool

record ExecResponse =
  epExitCode :: int
  epStdout :: string
  epStderr :: string
  epError :: string

record ExecStreamFrame =
  sfType :: string
  sfData :: string
  sfExitCode :: int
  sfError :: string

record ExecInputFrame =
  ifType :: string
  ifData :: string
  ifCols :: "32 word"
  ifRows :: "32 word"

datatype wire_error = EndOfStream | BadType | BadJSON | MissingCommand | MissingExecutable | UnknownFrame string

definition EncodeRequest :: "ExecRequest \<Rightarrow> json" where
  "EncodeRequest req = JObj (
     [(''command'', JArr (map JStr (erCommand req)))] @
     omit_empty (erDir req = []) ''dir'' (JStr (erDir req)) @
     omit_empty (erEnv req = []) ''env'' (JArr (map JStr (erEnv req))) @
     omit_empty (erEntropySeed req = []) ''entropy_seed'' (JStr (base64_encode (erEntropySeed req))) @
     omit_empty (\<not> erTTY req) ''tty'' (JBool (erTTY req)))"

definition EncodeResponse :: "ExecResponse \<Rightarrow> json" where
  "EncodeResponse res = JObj (
     [(''exit_code'', JNum (epExitCode res))] @
     omit_empty (epStdout res = []) ''stdout'' (JStr (epStdout res)) @
     omit_empty (epStderr res = []) ''stderr'' (JStr (epStderr res)) @
     omit_empty (epError res = []) ''error'' (JStr (epError res)))"

definition EncodeStreamFrame :: "ExecStreamFrame \<Rightarrow> json" where
  "EncodeStreamFrame frame = JObj (
     omit_empty (sfType frame = []) ''type'' (JStr (sfType frame)) @
     omit_empty (sfData frame = []) ''data'' (JStr (base64_encode (sfData frame))) @
     omit_empty (sfExitCode frame = 0) ''exit_code'' (JNum (sfExitCode frame)) @
     omit_empty (sfError frame = []) ''error'' (JStr (sfError frame)))"

definition EncodeInputFrame :: "ExecInputFrame \<Rightarrow> json" where
  "EncodeInputFrame frame = JObj (
     [(''type'', JStr (ifType frame))] @
     omit_empty (ifData frame = []) ''data'' (JStr (base64_encode (ifData frame))) @
     omit_empty (ifCols frame = 0) ''cols'' (JNum (uint (ifCols frame))) @
     omit_empty (ifRows frame = 0) ''rows'' (JNum (uint (ifRows frame))))"

section \<open>Unmarshalling into a field\<close>

text \<open>\<open>null\<close> leaves a field as it is; a value of another type is an error.\<close>

definition into_string :: "json \<Rightarrow> string \<Rightarrow> wire_error + string" where
  "into_string v old = (case v of JStr s \<Rightarrow> Inr s | JNull \<Rightarrow> Inr old | _ \<Rightarrow> Inl BadType)"

definition into_bool :: "json \<Rightarrow> bool \<Rightarrow> wire_error + bool" where
  "into_bool v old = (case v of JBool b \<Rightarrow> Inr b | JNull \<Rightarrow> Inr old | _ \<Rightarrow> Inl BadType)"

definition into_int :: "json \<Rightarrow> int \<Rightarrow> wire_error + int" where
  "into_int v old =
     (case v of JNum i \<Rightarrow> if - (2 ^ 63) \<le> i \<and> i < 2 ^ 63 then Inr i else Inl BadType | JNull \<Rightarrow> Inr old | _ \<Rightarrow> Inl BadType)"

definition into_uint32 :: "json \<Rightarrow> 32 word \<Rightarrow> wire_error + 32 word" where
  "into_uint32 v old =
     (case v of JNum i \<Rightarrow> if 0 \<le> i \<and> i < 2 ^ 32 then Inr (word_of_int i) else Inl BadType | JNull \<Rightarrow> Inr old | _ \<Rightarrow> Inl BadType)"

definition into_bytes :: "json \<Rightarrow> string \<Rightarrow> wire_error + string" where
  "into_bytes v old =
     (case v of
        JStr s \<Rightarrow> (case base64_decode s of None \<Rightarrow> Inl BadType | Some b \<Rightarrow> Inr b)
      | JNull \<Rightarrow> Inr []
      | _ \<Rightarrow> Inl BadType)"

definition into_strings :: "json \<Rightarrow> string list \<Rightarrow> wire_error + string list" where
  "into_strings v old =
     (case v of JArr xs \<Rightarrow> map_res (\<lambda>x. into_string x []) xs | JNull \<Rightarrow> Inr [] | _ \<Rightarrow> Inl BadType)"

text \<open>
  A field of a struct: every key of the object that equals its name up to case (of ASCII letters) is
  stored into it, one after the other.
\<close>

definition field :: "(string \<times> json) list \<Rightarrow> string \<Rightarrow> (json \<Rightarrow> 'a \<Rightarrow> wire_error + 'a) \<Rightarrow> 'a \<Rightarrow> wire_error + 'a" where
  "field fs name into dflt =
     foldl (\<lambda>acc (k, v). if to_lower k = to_lower name then and_then acc (into v) else acc) (Inr dflt) fs"

definition unmarshal_response :: "(string \<times> json) list \<Rightarrow> wire_error + ExecResponse" where
  "unmarshal_response fs =
     and_then (field fs ''exit_code'' into_int 0) (\<lambda>code.
     and_then (field fs ''stdout'' into_string []) (\<lambda>out.
     and_then (field fs ''stderr'' into_string []) (\<lambda>err.
     and_then (field fs ''error'' into_string []) (\<lambda>e.
     Inr \<lparr>epExitCode = code, epStdout = out, epStderr = err, epError = e\<rparr>))))"

section \<open>Decoding\<close>

text \<open>A decoder takes the first value of the stream; a stream that is at its end gives an error.\<close>

definition DecodeRequest :: "json list \<Rightarrow> wire_error + ExecRequest" where
  "DecodeRequest stream =
     (case stream of
        JObj fs # _ \<Rightarrow>
          and_then (field fs ''command'' into_strings []) (\<lambda>command.
          and_then (field fs ''dir'' into_string []) (\<lambda>dir.
          and_then (field fs ''env'' into_strings []) (\<lambda>env.
          and_then (field fs ''entropy_seed'' into_bytes []) (\<lambda>seed.
          and_then (field fs ''tty'' into_bool False) (\<lambda>tty.
            case command of
              [] \<Rightarrow> Inl MissingCommand
            | c # _ \<Rightarrow> if trim_space c = [] then Inl MissingExecutable
                else Inr \<lparr>erCommand = command, erDir = dir, erEnv = env, erEntropySeed = seed, erTTY = tty\<rparr>)))))
      | JNull # _ \<Rightarrow> Inl MissingCommand
      | [] \<Rightarrow> Inl EndOfStream
      | _ \<Rightarrow> Inl BadType)"

definition DecodeResponse :: "json list \<Rightarrow> wire_error + ExecResponse" where
  "DecodeResponse stream =
     (case stream of
        JObj fs # _ \<Rightarrow> unmarshal_response fs
      | JNull # _ \<Rightarrow> unmarshal_response []
      | [] \<Rightarrow> Inl EndOfStream
      | _ \<Rightarrow> Inl BadType)"

definition DecodeInputFrame :: "json list \<Rightarrow> wire_error + ExecInputFrame" where
  "DecodeInputFrame stream =
     (case stream of
        JObj fs # _ \<Rightarrow>
          and_then (field fs ''type'' into_string []) (\<lambda>t.
          and_then (field fs ''data'' into_bytes []) (\<lambda>d.
          and_then (field fs ''cols'' into_uint32 0) (\<lambda>c.
          and_then (field fs ''rows'' into_uint32 0) (\<lambda>r.
          Inr \<lparr>ifType = t, ifData = d, ifCols = c, ifRows = r\<rparr>))))
      | JNull # _ \<Rightarrow> Inr \<lparr>ifType = [], ifData = [], ifCols = 0, ifRows = 0\<rparr>
      | [] \<Rightarrow> Inl EndOfStream
      | _ \<Rightarrow> Inl BadType)"

definition decodeFrameData :: "json option \<Rightarrow> wire_error + string" where
  "decodeFrameData raw =
     (case raw of
        None \<Rightarrow> Inr []
      | Some v \<Rightarrow>
          (case into_bytes v [] of
             Inr b \<Rightarrow> Inr b
           | Inl _ \<Rightarrow>
               and_then (into_string v []) (\<lambda>s.
                 case base64_decode s of Some d \<Rightarrow> Inr d | None \<Rightarrow> Inr s)))"

text \<open>
  The loop of \<open>DecodeStreamResponse\<close>: \<open>calls\<close> collects the calls of the two callbacks in their order
  (\<open>True\<close> for standard output).
\<close>

fun decode_stream :: "ExecResponse \<Rightarrow> (bool \<times> string) list \<Rightarrow> json list \<Rightarrow> (wire_error + ExecResponse) \<times> (bool \<times> string) list" where
  "decode_stream out calls [] = (Inl EndOfStream, calls)"
| "decode_stream out calls (v # rest) =
     (case (case v of JObj fs \<Rightarrow> Inr fs | JNull \<Rightarrow> Inr [] | _ \<Rightarrow> Inl BadType) of
        Inl e \<Rightarrow> (Inl e, calls)
      | Inr fs \<Rightarrow>
          (let raw = raw_map fs in
           case get raw ''type'' of
             None \<Rightarrow> (unmarshal_response (marshal_map raw), calls)
           | Some typeRaw \<Rightarrow>
               (case into_string typeRaw [] of
                  Inl e \<Rightarrow> (Inl e, calls)
                | Inr kind0 \<Rightarrow>
                    (let kind = to_lower (trim_space kind0) in
                     if kind = ''stdout'' \<or> kind = ''stderr'' then
                       (case decodeFrameData (get raw ''data'') of
                          Inl e \<Rightarrow> (Inl e, calls)
                        | Inr chunk \<Rightarrow>
                            if chunk = [] then decode_stream out calls rest
                            else if kind = ''stdout''
                            then decode_stream (out\<lparr>epStdout := epStdout out @ chunk\<rparr>) (calls @ [(True, chunk)]) rest
                            else decode_stream (out\<lparr>epStderr := epStderr out @ chunk\<rparr>) (calls @ [(False, chunk)]) rest)
                     else if kind = ''exit'' then
                       (and_then (case get raw ''exit_code'' of None \<Rightarrow> Inr (epExitCode out) | Some v \<Rightarrow> into_int v (epExitCode out)) (\<lambda>code.
                        and_then (case get raw ''error'' of None \<Rightarrow> Inr (epError out) | Some v \<Rightarrow> into_string v (epError out)) (\<lambda>e.
                        Inr (out\<lparr>epExitCode := code, epError := e\<rparr>))), calls)
                     else (Inl (UnknownFrame kind), calls)))))"

definition DecodeStreamResponse :: "json list \<Rightarrow> (wire_error + ExecResponse) \<times> (bool \<times> string) list" where
  "DecodeStreamResponse stream = decode_stream \<lparr>epExitCode = 0, epStdout = [], epStderr = [], epError = []\<rparr> [] stream"

section \<open>Base64 round trip\<close>

lemma base64_value_char: "d < 64 \<Longrightarrow> base64_value (base64_char d) = Some d"
  by (auto simp: base64_value_def base64_char_def of_char_of Let_def)

lemma base64_char_plain: "d < 64 \<Longrightarrow> base64_char d \<noteq> CHR ''=''" "d < 64 \<Longrightarrow> base64_char d \<noteq> CHR 0x0A" "d < 64 \<Longrightarrow> base64_char d \<noteq> CHR 0x0D"
  using base64_value_char [of d] by (auto simp: base64_value_def)

lemma of_char_256: "(of_char c :: nat) < 256"
  by simp

lemma split_digits:
  fixes n :: nat
  shows "n div 262144 * 64 + n div 4096 mod 64 = n div 4096" "n div 4096 * 64 + n div 64 mod 64 = n div 64" "n div 64 * 64 + n mod 64 = n"
proof -
  have "n div 4096 div 64 = n div 262144" "n div 64 div 64 = n div 4096" by (simp_all add: div_mult2_eq [symmetric])
  then show "n div 262144 * 64 + n div 4096 mod 64 = n div 4096" "n div 4096 * 64 + n div 64 mod 64 = n div 64"
    using div_mult_mod_eq [of "n div 4096" 64] div_mult_mod_eq [of "n div 64" 64] by simp_all
qed simp

lemma base64_groups_encode: "base64_groups (base64_encode s) = Some s"
proof (induction s rule: base64_encode.induct)
  case (1 a b c rest)
  define n where "n = of_char a * 65536 + of_char b * 256 + (of_char c :: nat)"
  have lt: "n < 16777216" using of_char_256 [of a] of_char_256 [of b] of_char_256 [of c] unfolding n_def by linarith
  have d: "n div 262144 < 64" using lt by (simp add: less_mult_imp_div_less)
  have parts: "n div 65536 = of_char a" "n div 256 mod 256 = of_char b" "n mod 256 = of_char c"
  proof -
    have "(x * 65536 + y * 256 + z) div 256 = x * 256 + y" if "z < 256" for x y z :: nat
      by (rule div_nat_eqI) (use that in simp_all)
    then have e: "n div 256 = of_char a * 256 + of_char b" unfolding n_def using of_char_256 [of c] by blast
    moreover have "n div 65536 = n div 256 div 256" by (simp add: div_mult2_eq [symmetric])
    ultimately show "n div 65536 = of_char a" "n div 256 mod 256 = of_char b" using e of_char_256 [of b] by simp_all
    show "n mod 256 = of_char c" using e minus_div_mult_eq_mod [of n 256, symmetric] unfolding n_def by simp
  qed
  have "char_of (n div 256) = b" "char_of n = c" using parts(2,3) by (metis char_of_mod_256 char_of_char)+
  then show ?case using "1.IH" d
    by (simp add: Let_def n_def [symmetric] base64_value_char base64_char_plain split_digits parts)
next
  case (2 a b)
  define n where "n = of_char a * 1024 + of_char b * (4 :: nat)"
  have lt: "n < 262144" using of_char_256 [of a] of_char_256 [of b] unfolding n_def by linarith
  have d: "n div 4096 < 64" using lt by (simp add: less_mult_imp_div_less)
  have parts: "n div 1024 = of_char a" "n div 4 mod 256 = of_char b"
  proof -
    have "n div 4 = of_char a * 256 + of_char b" unfolding n_def by simp
    moreover have "n div 1024 = n div 4 div 256" by (simp add: div_mult2_eq [symmetric])
    ultimately show "n div 1024 = of_char a" "n div 4 mod 256 = of_char b" using of_char_256 [of b] by simp_all
  qed
  have "char_of (n div 4) = b" using parts(2) by (metis char_of_mod_256 char_of_char)
  then show ?case using d by (simp add: Let_def n_def [symmetric] base64_value_char base64_char_plain split_digits parts)
next
  case (3 a)
  define n where "n = of_char a * (16 :: nat)"
  have d: "n div 64 < 64" using of_char_256 [of a] unfolding n_def by (simp add: less_mult_imp_div_less)
  have "n div 16 = of_char a" unfolding n_def by simp
  then show ?case using d by (simp add: Let_def n_def [symmetric] base64_value_char base64_char_plain split_digits)
qed simp

lemma base64_encode_plain: "filter (\<lambda>c. c \<noteq> CHR 0x0A \<and> c \<noteq> CHR 0x0D) (base64_encode s) = base64_encode s"
proof -
  have "\<forall>c \<in> set (base64_encode s). c \<noteq> CHR 0x0A \<and> c \<noteq> CHR 0x0D"
  proof (induction s rule: base64_encode.induct)
    case (1 a b c rest)
    have "of_char a * 65536 + of_char b * 256 + (of_char c :: nat) < 16777216"
      using of_char_256 [of a] of_char_256 [of b] of_char_256 [of c] by linarith
    then have "(of_char a * 65536 + of_char b * 256 + (of_char c :: nat)) div 262144 < 64" by (simp add: less_mult_imp_div_less)
    with 1 show ?case by (simp add: Let_def base64_char_plain)
  next
    case (2 a b)
    have "of_char a * 1024 + of_char b * (4 :: nat) < 262144" using of_char_256 [of a] of_char_256 [of b] by linarith
    then have "(of_char a * 1024 + of_char b * (4 :: nat)) div 4096 < 64" by (simp add: less_mult_imp_div_less)
    then show ?case by (simp add: Let_def base64_char_plain)
  next
    case (3 a)
    have "of_char a * (16 :: nat) div 64 < 64" using of_char_256 [of a] by (simp add: less_mult_imp_div_less)
    then show ?case by (simp add: Let_def base64_char_plain)
  qed simp
  then show ?thesis by (simp add: filter_id_conv)
qed

lemma base64_roundtrip [simp]: "base64_decode (base64_encode s) = Some s"
  by (simp add: base64_decode_def base64_encode_plain base64_groups_encode)

section \<open>Round trips\<close>

lemma into_bytes_encode [simp]: "into_bytes (JStr (base64_encode s)) old = Inr s"
  by (simp add: into_bytes_def)

lemma into_strings_map [simp]: "into_strings (JArr (map JStr xs)) old = Inr xs"
proof -
  have "map_res (\<lambda>x. into_string x []) (map JStr xs) = Inr xs" by (induction xs) (simp_all add: into_string_def)
  then show ?thesis by (simp add: into_strings_def)
qed

lemma kind_plain: "to_lower (trim_space ''stdout'') = ''stdout''" "to_lower (trim_space ''stderr'') = ''stderr''"
  "to_lower (trim_space ''exit'') = ''exit''"
  by code_simp+

lemma frame_raw:
  "sfType f \<noteq> [] \<Longrightarrow> get (raw_map (case EncodeStreamFrame f of JObj fs \<Rightarrow> fs | _ \<Rightarrow> [])) ''type'' = Some (JStr (sfType f))"
  "get (raw_map (case EncodeStreamFrame f of JObj fs \<Rightarrow> fs | _ \<Rightarrow> [])) ''data'' =
     (if sfData f = [] then None else Some (JStr (base64_encode (sfData f))))"
  "get (raw_map (case EncodeStreamFrame f of JObj fs \<Rightarrow> fs | _ \<Rightarrow> [])) ''exit_code'' =
     (if sfExitCode f = 0 then None else Some (JNum (sfExitCode f)))"
  "get (raw_map (case EncodeStreamFrame f of JObj fs \<Rightarrow> fs | _ \<Rightarrow> [])) ''error'' =
     (if sfError f = [] then None else Some (JStr (sfError f)))"
  by (simp_all add: EncodeStreamFrame_def omit_empty_def raw_map_def)

lemma EncodeStreamFrame_obj: "\<exists>fs. EncodeStreamFrame f = JObj fs"
  by (simp add: EncodeStreamFrame_def)

lemma decode_stream_data:
  assumes "sfType f \<in> {''stdout'', ''stderr''}"
  shows "decode_stream out calls (EncodeStreamFrame f # rest) =
    (if sfData f = [] then decode_stream out calls rest
     else if sfType f = ''stdout'' then decode_stream (out\<lparr>epStdout := epStdout out @ sfData f\<rparr>) (calls @ [(True, sfData f)]) rest
     else decode_stream (out\<lparr>epStderr := epStderr out @ sfData f\<rparr>) (calls @ [(False, sfData f)]) rest)"
proof -
  obtain fs where fs: "EncodeStreamFrame f = JObj fs" using EncodeStreamFrame_obj by blast
  have "sfType f \<noteq> []" using assms by auto
  note r = frame_raw(1) [of f, unfolded fs json.case, OF this] frame_raw(2) [of f, unfolded fs json.case]
  show ?thesis
    using assms by (auto simp: fs r Let_def into_string_def kind_plain decodeFrameData_def)
qed

lemma decode_stream_exit:
  assumes "sfType f = ''exit''" "- (2 ^ 63) \<le> sfExitCode f" "sfExitCode f < 2 ^ 63" "epExitCode out = 0" "epError out = []"
  shows "decode_stream out calls (EncodeStreamFrame f # rest) = (Inr (out\<lparr>epExitCode := sfExitCode f, epError := sfError f\<rparr>), calls)"
proof -
  obtain fs where fs: "EncodeStreamFrame f = JObj fs" using EncodeStreamFrame_obj by blast
  have "sfType f \<noteq> []" using assms by auto
  note r = frame_raw(1) [of f, unfolded fs json.case, OF this] frame_raw(3,4) [of f, unfolded fs json.case]
  show ?thesis
    using assms by (auto simp: fs r Let_def into_string_def into_int_def kind_plain)
qed

definition frames_of :: "string \<Rightarrow> ExecStreamFrame list \<Rightarrow> string" where
  "frames_of kind frames = concat (map sfData (filter (\<lambda>f. sfType f = kind) frames))"

lemma decode_stream_frames:
  assumes "\<forall>f \<in> set frames. sfType f \<in> {''stdout'', ''stderr''}"
  shows "decode_stream out calls (map EncodeStreamFrame frames @ rest) =
    decode_stream (out\<lparr>epStdout := epStdout out @ frames_of ''stdout'' frames, epStderr := epStderr out @ frames_of ''stderr'' frames\<rparr>)
      (calls @ map (\<lambda>f. (sfType f = ''stdout'', sfData f)) (filter (\<lambda>f. sfData f \<noteq> []) frames)) rest"
  using assms
proof (induction frames arbitrary: out calls)
  case Nil
  then show ?case by (simp add: frames_of_def)
next
  case (Cons f frames)
  then have f: "sfType f \<in> {''stdout'', ''stderr''}" and IH: "decode_stream out calls (map EncodeStreamFrame frames @ rest) =
    decode_stream (out\<lparr>epStdout := epStdout out @ frames_of ''stdout'' frames, epStderr := epStderr out @ frames_of ''stderr'' frames\<rparr>)
      (calls @ map (\<lambda>f. (sfType f = ''stdout'', sfData f)) (filter (\<lambda>f. sfData f \<noteq> []) frames)) rest" for out calls by auto
  show ?case
    unfolding list.map append_Cons decode_stream_data [OF f]
    using f by (auto simp: IH frames_of_def)
qed

text \<open>C23. The stream of a command comes back as it was sent: from the frames a guest writes, any number of output
  frames and then an exit frame, the host reads the concatenation of each output stream, the exit code and
  the error, and its callbacks have seen every chunk in order; what follows the exit frame is not read.\<close>

theorem stream_roundtrip:
  assumes "\<forall>f \<in> set frames. sfType f \<in> {''stdout'', ''stderr''}" and "sfType e = ''exit''"
    and "- (2 ^ 63) \<le> sfExitCode e" "sfExitCode e < 2 ^ 63"
  shows "DecodeStreamResponse (map EncodeStreamFrame frames @ EncodeStreamFrame e # rest) =
    (Inr \<lparr>epExitCode = sfExitCode e, epStdout = frames_of ''stdout'' frames, epStderr = frames_of ''stderr'' frames, epError = sfError e\<rparr>,
     map (\<lambda>f. (sfType f = ''stdout'', sfData f)) (filter (\<lambda>f. sfData f \<noteq> []) frames))"
  unfolding DecodeStreamResponse_def decode_stream_frames [OF assms(1)]
  by (subst decode_stream_exit [OF assms(2-4)]) simp_all

theorem stream_roundtrip_witness:
  "DecodeStreamResponse (map EncodeStreamFrame [\<lparr>sfType = ''stdout'', sfData = ''hi'', sfExitCode = 0, sfError = []\<rparr>] @
     EncodeStreamFrame \<lparr>sfType = ''exit'', sfData = [], sfExitCode = 3, sfError = ''late''\<rparr> # []) =
   (Inr \<lparr>epExitCode = 3, epStdout = ''hi'', epStderr = [], epError = ''late''\<rparr>, [(True, ''hi'')])"
  by (subst stream_roundtrip) (simp_all add: frames_of_def)

text \<open>What the host sends comes back as it was sent too: an input frame, and a request whose first word is not
  blank.\<close>

theorem input_roundtrip:
  assumes "erCommand req \<noteq> []" "trim_space (hd (erCommand req)) \<noteq> []"
  shows "DecodeInputFrame (EncodeInputFrame frame # rest) = Inr frame \<and> DecodeRequest (EncodeRequest req # rest) = Inr req"
proof
  have u: "uint w < 4294967296" for w :: "32 word" using uint_lt2p [of w] by simp
  have "DecodeInputFrame (EncodeInputFrame frame # rest) =
      Inr \<lparr>ifType = ifType frame, ifData = ifData frame, ifCols = ifCols frame, ifRows = ifRows frame\<rparr>"
    by (simp add: DecodeInputFrame_def EncodeInputFrame_def omit_empty_def field_def into_string_def into_uint32_def to_lower_def lower_char_def u)
  then show "DecodeInputFrame (EncodeInputFrame frame # rest) = Inr frame" by simp
  obtain c cs where c: "erCommand req = c # cs" "trim_space c \<noteq> []" using assms by (cases "erCommand req") auto
  obtain fs where fs: "EncodeRequest req = JObj fs" by (simp add: EncodeRequest_def)
  have f: "field fs ''command'' into_strings [] = Inr (erCommand req)" "field fs ''dir'' into_string [] = Inr (erDir req)"
    "field fs ''env'' into_strings [] = Inr (erEnv req)" "field fs ''entropy_seed'' into_bytes [] = Inr (erEntropySeed req)"
    "field fs ''tty'' into_bool False = Inr (erTTY req)"
    using fs by (auto simp: EncodeRequest_def omit_empty_def field_def into_string_def into_bool_def to_lower_def lower_char_def)
  have "DecodeRequest (EncodeRequest req # rest) =
      Inr \<lparr>erCommand = erCommand req, erDir = erDir req, erEnv = erEnv req, erEntropySeed = erEntropySeed req, erTTY = erTTY req\<rparr>"
    using c by (simp add: DecodeRequest_def fs f)
  then show "DecodeRequest (EncodeRequest req # rest) = Inr req" by simp
qed

theorem input_roundtrip_witness:
  "DecodeRequest [EncodeRequest \<lparr>erCommand = [''sh''], erDir = [], erEnv = [''A=b''], erEntropySeed = ''xyz'', erTTY = True\<rparr>] =
     Inr \<lparr>erCommand = [''sh''], erDir = [], erEnv = [''A=b''], erEntropySeed = ''xyz'', erTTY = True\<rparr>"
proof -
  have "trim_space ''sh'' \<noteq> []" by code_simp
  then show ?thesis
    using input_roundtrip [of "\<lparr>erCommand = [''sh''], erDir = [], erEnv = [''A=b''], erEntropySeed = ''xyz'', erTTY = True\<rparr>"] by simp
qed

end
