(* ===== verification/Firecracker_Host.thy ===== *)
theory Firecracker_Host
  imports Effect Firecracker_Net Gateway_Registry Vsockexec
begin

text \<open>
  What the Firecracker backend does to its host outside the firewall (\<open>backend.go\<close>): files, the prepared
  root file system, and the launch of a sandbox's virtual machine with the release of everything it took
  when a step fails.

  An action changes the host and gives an error or a value. Which calls of the operating system fail is the
  argument \<open>os\<close> (an error for the call, or \<open>None\<close>); privileged processes are started by \<open>start\<close>.
\<close>

section \<open>The host\<close>

record 'n fc_host =
  fhFiles :: "(string, string) gomap"
  fhDirs :: "string list"
  fhNet :: 'n
  fhRegistry :: "Registry option"
  fhVMs :: "string list"

datatype os_call =
    Open string | FStat string | OpenFile string | Chmod string | Clone string string | Seek string | Copy string string | Sync string
  | Stat string | MkdirAll string | WriteFile string | Create string | Rename string string
  | MkdirTemp | CreateTemp | WriteString | ChmodTemp | CloseTemp | StartVM string

type_synonym os = "os_call \<Rightarrow> string option"
type_synonym ('n, 'a) act = "('n fc_host, 'a) effect"

text \<open>A call that fails as \<open>os\<close> says, and otherwise changes the host.\<close>

definition call :: "os \<Rightarrow> os_call \<Rightarrow> ('n fc_host \<Rightarrow> 'n fc_host) \<Rightarrow> ('n, unit) act" where
  "call os c eff h = (case os c of Some e \<Rightarrow> (h, Inl e) | None \<Rightarrow> (eff h, Inr ()))"

definition put_file :: "string \<Rightarrow> string \<Rightarrow> 'n fc_host \<Rightarrow> 'n fc_host" where
  "put_file p content h = h\<lparr>fhFiles := put p content (fhFiles h)\<rparr>"

definition remove_file :: "string \<Rightarrow> 'n fc_host \<Rightarrow> 'n fc_host" where
  "remove_file p h = h\<lparr>fhFiles := del p (fhFiles h)\<rparr>"

definition under :: "string \<Rightarrow> string \<Rightarrow> bool" where
  "under d p \<longleftrightarrow> p = d \<or> has_prefix p (d @ ''/'')"

definition remove_all :: "string \<Rightarrow> 'n fc_host \<Rightarrow> 'n fc_host" where
  "remove_all d h = h\<lparr>fhFiles := filter (\<lambda>(p, _). \<not> under d p) (fhFiles h), fhDirs := filter (\<lambda>p. \<not> under d p) (fhDirs h)\<rparr>"

definition make_dir :: "string \<Rightarrow> 'n fc_host \<Rightarrow> 'n fc_host" where
  "make_dir d h = h\<lparr>fhDirs := List.insert d (fhDirs h)\<rparr>"

definition exists_file :: "string \<Rightarrow> 'n fc_host \<Rightarrow> bool" where
  "exists_file p h \<longleftrightarrow> get (fhFiles h) p \<noteq> None \<or> p \<in> set (fhDirs h)"

text \<open>\<open>os.Stat\<close>: an error other than \<open>ErrNotExist\<close> comes from \<open>os\<close>.\<close>

definition stat :: "os \<Rightarrow> string \<Rightarrow> ('n, bool) act" where
  "stat os p h = (case os (Stat p) of Some e \<Rightarrow> (h, Inl e) | None \<Rightarrow> (h, Inr (exists_file p h)))"

definition must_exist :: "os \<Rightarrow> string \<Rightarrow> ('n, unit) act" where
  "must_exist os p = bind_act (stat os p) (\<lambda>b. if b then ret () else throw (''stat '' @ p @ '': no such file or directory''))"

section \<open>Files\<close>

definition writeJSON :: "os \<Rightarrow> string \<Rightarrow> json \<Rightarrow> ('n, unit) act" where
  "writeJSON os path v = call os (WriteFile path) (put_file path (marshal_indent 0 v @ [CHR 0x0A]))"

text \<open>The destination is created empty before the data is cloned or copied into it.\<close>

definition copyFile :: "os \<Rightarrow> string \<Rightarrow> string \<Rightarrow> ('n, unit) act" where
  "copyFile os src dst =
     bind_act (call os (Open src) id) (\<lambda>_ h.
       case get (fhFiles h) src of
         None \<Rightarrow> throw (''open '' @ src @ '': no such file or directory'') h
       | Some content \<Rightarrow>
           bind_act (call os (FStat src) id) (\<lambda>_.
           bind_act (call os (OpenFile dst) (put_file dst [])) (\<lambda>_.
           bind_act (call os (Chmod dst) id) (\<lambda>_.
           bind_act (if os (Clone dst src) = None then call os (Clone dst src) (put_file dst content)
                     else bind_act (call os (Seek src) id) (\<lambda>_.
                          bind_act (call os (Seek dst) id) (\<lambda>_.
                          call os (Copy dst src) (put_file dst content)))) (\<lambda>_.
           call os (Sync dst) id)))) h)"

section \<open>The image of a sandbox\<close>

record imageArtifact =
  iaRef :: string
  iaDigest :: string
  iaRootFSPath :: string
  iaCacheHit :: bool

text \<open>\<open>manager\<close> is what \<open>getImageManager\<close> gives: an error, or the \<open>Ensure\<close> of the image manager.\<close>

definition ensureImageArtifact :: "string + (string \<Rightarrow> string + imageArtifact) \<Rightarrow> string \<Rightarrow> string + imageArtifact" where
  "ensureImageArtifact manager imageRef =
     (let trimmedRef = trim_space imageRef in
      if trimmedRef = [] then Inl ''sandbox.image.ref is required for launched execution''
      else
        (case manager of
           Inl e \<Rightarrow> Inl (''initialise image manager: '' @ e)
         | Inr ensure \<Rightarrow> map_error (\<lambda>e. ''resolve image '' @ go_quote trimmedRef @ '': '' @ e) (ensure trimmedRef)))"

definition preparedRuntimeRootFSVersion :: string where
  "preparedRuntimeRootFSVersion = ''v1''"

text \<open>The init script of the guest.\<close>

definition guestInitScriptTemplate :: string where
  "guestInitScriptTemplate = concat (map (\<lambda>line. line @ [CHR 0x0A])
     [''#!/bin/sh'',
      ''set -eu'',
      [],
      ''mount -t proc proc /proc 2>/dev/null || true'',
      ''mount -t sysfs sysfs /sys 2>/dev/null || true'',
      ''mount -t devtmpfs devtmpfs /dev 2>/dev/null || true'',
      ''mkdir -p /dev/pts /run /tmp'',
      ''mount -t devpts devpts /dev/pts 2>/dev/null || true'',
      ''mount -t tmpfs tmpfs /run 2>/dev/null || true'',
      ''mount -t tmpfs tmpfs /tmp 2>/dev/null || true'',
      [],
      ''export HOME=/root'',
      ''export PATH=/usr/local/sbin:/usr/local/bin:/usr/sbin:/usr/bin:/sbin:/bin:/root/.local/bin'',
      [],
      ''cmdline='' @ [CHR 0x22] @ ''$(cat /proc/cmdline 2>/dev/null || true)'' @ [CHR 0x22],
      ''arg_value() {'',
      ''  key='' @ [CHR 0x22] @ ''$1'' @ [CHR 0x22],
      ''  for token in $cmdline; do'',
      ''    case '' @ [CHR 0x22] @ ''$token'' @ [CHR 0x22] @ '' in'',
      ''      '' @ [CHR 0x22] @ ''$key'' @ [CHR 0x22] @ ''=*) echo '' @ [CHR 0x22] @ ''${token#*=}'' @ [CHR 0x22] @ ''; return 0 ;;'',
      ''    esac'',
      ''  done'',
      ''  return 1'',
      ''}'',
      [],
      ''GUEST_IP='' @ [CHR 0x22] @ ''$(arg_value cleanroom_guest_ip || true)'' @ [CHR 0x22],
      ''GUEST_GW='' @ [CHR 0x22] @ ''$(arg_value cleanroom_guest_gw || true)'' @ [CHR 0x22],
      ''GUEST_MASK='' @ [CHR 0x22] @ ''$(arg_value cleanroom_guest_mask || true)'' @ [CHR 0x22],
      ''GUEST_DNS='' @ [CHR 0x22] @ ''$(arg_value cleanroom_guest_dns || true)'' @ [CHR 0x22],
      ''GUEST_PORT='' @ [CHR 0x22] @ ''$(arg_value cleanroom_guest_port || true)'' @ [CHR 0x22],
      [],
      ''if command -v ip >/dev/null 2>&1 && [ -n '' @ [CHR 0x22] @ ''$GUEST_IP'' @ [CHR 0x22] @ '' ]; then'',
      ''  [ -n '' @ [CHR 0x22] @ ''$GUEST_MASK'' @ [CHR 0x22] @ '' ] || GUEST_MASK='' @ [CHR 0x22] @ ''24'' @ [CHR 0x22],
      ''  ip link set dev eth0 up 2>/dev/null || true'',
      ''  ip addr flush dev eth0 2>/dev/null || true'',
      ''  ip addr add '' @ [CHR 0x22] @ ''$GUEST_IP/$GUEST_MASK'' @ [CHR 0x22] @ '' dev eth0 2>/dev/null || true'',
      ''  if [ -n '' @ [CHR 0x22] @ ''$GUEST_GW'' @ [CHR 0x22] @ '' ]; then'',
      ''    ip route add default via '' @ [CHR 0x22] @ ''$GUEST_GW'' @ [CHR 0x22] @ '' dev eth0 2>/dev/null || true'',
      ''  fi'',
      ''  if [ -n '' @ [CHR 0x22] @ ''$GUEST_DNS'' @ [CHR 0x22] @ '' ]; then'',
      ''    printf '' @ [CHR 0x27] @ ''nameserver %s'' @ [CHR 0x5C] @ ''n'' @ [CHR 0x27] @ '' '' @ [CHR 0x22] @ ''$GUEST_DNS'' @ [CHR 0x22] @ '' > /etc/resolv.conf 2>/dev/null || true'',
      ''  fi'',
      ''fi'',
      [],
      ''if [ -z '' @ [CHR 0x22] @ ''$GUEST_PORT'' @ [CHR 0x22] @ '' ]; then'',
      ''  GUEST_PORT='' @ [CHR 0x22] @ ''10700'' @ [CHR 0x22],
      ''fi'',
      ''export CLEANROOM_VSOCK_PORT='' @ [CHR 0x22] @ ''$GUEST_PORT'' @ [CHR 0x22],
      [],
      ''DOCKER_REQUIRED='' @ [CHR 0x22] @ ''$(arg_value cleanroom_service_docker_required || true)'' @ [CHR 0x22],
      ''if [ '' @ [CHR 0x22] @ ''$DOCKER_REQUIRED'' @ [CHR 0x22] @ '' = '' @ [CHR 0x22] @ ''1'' @ [CHR 0x22] @ '' ] && command -v dockerd >/dev/null 2>&1; then'',
      ''  DOCKER_STARTUP_TIMEOUT='' @ [CHR 0x22] @ ''$(arg_value cleanroom_service_docker_startup_timeout || true)'' @ [CHR 0x22],
      ''  case '' @ [CHR 0x22] @ ''$DOCKER_STARTUP_TIMEOUT'' @ [CHR 0x22] @ '' in'',
      ''    '' @ [CHR 0x27] @ [CHR 0x27] @ ''|*[!0-9]*) DOCKER_STARTUP_TIMEOUT='' @ [CHR 0x22] @ ''20'' @ [CHR 0x22] @ '' ;;'',
      ''  esac'',
      ''  if [ '' @ [CHR 0x22] @ ''$DOCKER_STARTUP_TIMEOUT'' @ [CHR 0x22] @ '' -le 0 ]; then'',
      ''    DOCKER_STARTUP_TIMEOUT='' @ [CHR 0x22] @ ''20'' @ [CHR 0x22],
      ''  fi'',
      ''  DOCKER_STORAGE_DRIVER='' @ [CHR 0x22] @ ''$(arg_value cleanroom_service_docker_storage_driver || true)'' @ [CHR 0x22],
      ''  if [ -z '' @ [CHR 0x22] @ ''$DOCKER_STORAGE_DRIVER'' @ [CHR 0x22] @ '' ]; then'',
      ''    DOCKER_STORAGE_DRIVER='' @ [CHR 0x22] @ ''vfs'' @ [CHR 0x22],
      ''  fi'',
      ''  DOCKER_IPTABLES='' @ [CHR 0x22] @ ''$(arg_value cleanroom_service_docker_iptables || true)'' @ [CHR 0x22],
      [],
      ''  DOCKER_ARGS='' @ [CHR 0x22] @ ''--host=unix:///var/run/docker.sock --storage-driver=$DOCKER_STORAGE_DRIVER'' @ [CHR 0x22],
      ''  if [ '' @ [CHR 0x22] @ ''$DOCKER_IPTABLES'' @ [CHR 0x22] @ '' = '' @ [CHR 0x22] @ ''0'' @ [CHR 0x22] @ '' ] || [ '' @ [CHR 0x22] @ ''$DOCKER_IPTABLES'' @ [CHR 0x22] @ '' = '' @ [CHR 0x22] @ ''false'' @ [CHR 0x22] @ '' ]; then'',
      ''    DOCKER_ARGS='' @ [CHR 0x22] @ ''$DOCKER_ARGS --iptables=false'' @ [CHR 0x22],
      ''  fi'',
      [],
      ''  mkdir -p /var/log /var/lib/docker /etc/docker /var/run /sys/fs/cgroup'',
      ''  mount -t cgroup2 none /sys/fs/cgroup 2>/dev/null || true'',
      ''  if [ ! -S /var/run/docker.sock ]; then'',
      ''    dockerd $DOCKER_ARGS >/var/log/dockerd.log 2>&1 &'',
      ''  fi'',
      ''  i=0'',
      ''  DOCKER_WAIT_TICKS=$((DOCKER_STARTUP_TIMEOUT * 10))'',
      ''  while [ '' @ [CHR 0x22] @ ''$i'' @ [CHR 0x22] @ '' -lt '' @ [CHR 0x22] @ ''$DOCKER_WAIT_TICKS'' @ [CHR 0x22] @ '' ]; do'',
      ''    if [ -S /var/run/docker.sock ]; then'',
      ''      if command -v docker >/dev/null 2>&1; then'',
      ''        if docker version >/dev/null 2>&1; then'',
      ''          break'',
      ''        fi'',
      ''      else'',
      ''        break'',
      ''      fi'',
      ''    fi'',
      ''    sleep 0.1'',
      ''    i=$((i + 1))'',
      ''  done'',
      ''fi'',
      [],
      ''while true; do'',
      ''  /usr/local/bin/cleanroom-guest-agent || true'',
      ''  sleep 1'',
      ''done''])"

definition runtimeRootFSCacheKey :: "string \<Rightarrow> string \<Rightarrow> string" where
  "runtimeRootFSCacheKey imageDigest guestAgentHash =
     sha256_hex (trim_space imageDigest @ ''|'' @ guestAgentHash @ ''|'' @ preparedRuntimeRootFSVersion @ ''|'' @ guestInitScriptTemplate)"

definition preparedRuntimeRootFSPath :: "string + string \<Rightarrow> string \<Rightarrow> string \<Rightarrow> string + string" where
  "preparedRuntimeRootFSPath cacheBase imageDigest guestAgentHash =
     (case cacheBase of
        Inl e \<Rightarrow> Inl (''resolve cache base directory: '' @ e)
      | Inr base \<Rightarrow>
          Inr (path_join [base, ''firecracker'', ''runtime-rootfs'', runtimeRootFSCacheKey imageDigest guestAgentHash @ ''.ext4'']))"

definition discoverGuestAgentBinary :: "(string \<Rightarrow> string + string) \<Rightarrow> string + string \<Rightarrow> (string \<Rightarrow> bool) \<Rightarrow> string + string" where
  "discoverGuestAgentBinary lookPath executable isFile =
     (case lookPath ''cleanroom-guest-agent'' of
        Inr p \<Rightarrow> Inr p
      | Inl _ \<Rightarrow>
          (let missing = Inl ''cleanroom-guest-agent binary not found in PATH; run `mise run install` first'' in
           case executable of
             Inl _ \<Rightarrow> missing
           | Inr self \<Rightarrow>
               (let candidate = path_join [path_dir self, ''cleanroom-guest-agent''] in
                if isFile candidate then Inr candidate else missing)))"

text \<open>\<open>sync.Once\<close> keeps the first answer, so the answer is a value; \<open>hash\<close> is \<open>hashFileSHA256\<close>.\<close>

definition getGuestAgentBinary :: "string + string \<Rightarrow> (string \<Rightarrow> string + string) \<Rightarrow> string + string \<times> string" where
  "getGuestAgentBinary discovered hash =
     and_then discovered (\<lambda>path. and_then (hash path) (\<lambda>hsh.
       if trim_space path = [] \<or> trim_space hsh = [] then Inl ''failed to resolve cleanroom guest agent binary''
       else Inr (path, hsh)))"

text \<open>A privileged command as an action.\<close>

definition root_act :: "'n runner \<Rightarrow> command \<Rightarrow> ('n, unit) act" where
  "root_act run args h =
     (case run args (fhNet h) of
        (n, None) \<Rightarrow> (h\<lparr>fhNet := n\<rparr>, Inr ())
      | (n, Some e) \<Rightarrow> (h\<lparr>fhNet := n\<rparr>, Inl e))"

definition createGuestInitScript :: "os \<Rightarrow> string \<Rightarrow> ('n, string) act" where
  "createGuestInitScript os name =
     bind_act (wrap ''create guest init script'' (call os CreateTemp (put_file name []))) (\<lambda>_.
     on_error (remove_file name)
       (bind_act (wrap ''write guest init script'' (call os WriteString (put_file name guestInitScriptTemplate))) (\<lambda>_.
        bind_act (wrap ''chmod guest init script'' (call os ChmodTemp id)) (\<lambda>_.
        bind_act (wrap ''close guest init script'' (call os CloseTemp id)) (\<lambda>_.
        ret name)))))"

text \<open>
  \<open>mountDir\<close> and \<open>script\<close> are the temporary names. The deferred calls run in the reverse order: the script
  is removed, the image is unmounted if it still is mounted, the mount point is removed. \<open>run\<close> runs with the
  caller's context, \<open>runBg\<close> with the background context.
\<close>

definition installGuestRuntimeIntoRootFS ::
  "os \<Rightarrow> 'n runner \<Rightarrow> 'n runner \<Rightarrow> string \<Rightarrow> string \<Rightarrow> string \<Rightarrow> string \<Rightarrow> ('n, unit) act" where
  "installGuestRuntimeIntoRootFS os run runBg mountDir script rootFSPath guestAgentPath h =
     (case call os MkdirTemp (make_dir mountDir) h of
        (h0, Inl e) \<Rightarrow> (h0, Inl (''create temporary rootfs mount directory: '' @ e))
      | (h0, Inr _) \<Rightarrow>
          (let (h1, r1) = wrap ''mount rootfs image for runtime preparation'' (root_act run [''mount'', ''-o'', ''loop'', rootFSPath, mountDir]) h0;
               (h2, r2) = (case r1 of
                 Inl e \<Rightarrow> (h1, Inl e)
               | Inr _ \<Rightarrow>
                   on_error (\<lambda>h. fst (root_act runBg [''umount'', mountDir] h))
                     (bind_act (createGuestInitScript os script) (\<lambda>path h.
                        case bind_act (wrap ''prepare runtime directories in mounted rootfs''
                                 (root_act run [''mkdir'', ''-p'', path_join [mountDir, ''usr/local/bin''], path_join [mountDir, ''sbin'']])) (\<lambda>_.
                               bind_act (wrap ''install guest agent into mounted rootfs''
                                 (root_act run [''install'', ''-m'', ''0755'', guestAgentPath, path_join [mountDir, ''usr/local/bin/cleanroom-guest-agent'']])) (\<lambda>_.
                               bind_act (wrap ''install cleanroom init into mounted rootfs''
                                 (root_act run [''install'', ''-m'', ''0755'', path, path_join [mountDir, ''sbin/cleanroom-init'']])) (\<lambda>_.
                               wrap ''unmount prepared rootfs image'' (root_act run [''umount'', mountDir])))) h
                        of (h', r) \<Rightarrow> (remove_file path h', r))) h1)
           in (remove_all mountDir h2, r2)))"

text \<open>\<open>relock\<close> is what other calls did to the host before this one got the lock.\<close>

definition ensurePreparedRuntimeRootFS ::
  "os \<Rightarrow> 'n runner \<Rightarrow> 'n runner \<Rightarrow> string \<Rightarrow> string \<Rightarrow> ('n fc_host \<Rightarrow> 'n fc_host) \<Rightarrow> string + string \<Rightarrow> string + string \<times> string \<Rightarrow>
   int \<Rightarrow> imageArtifact \<Rightarrow> ('n, string) act" where
  "ensurePreparedRuntimeRootFS os run runBg mountDir script relock cacheBase agent nanos img =
     (let sourcePath = trim_space (iaRootFSPath img) in
      if sourcePath = [] then throw ''resolved image rootfs path is empty''
      else
        bind_act (wrap (''resolved image rootfs '' @ go_quote sourcePath) (must_exist os sourcePath)) (\<lambda>_.
        bind_act (lift_res agent) (\<lambda>(guestAgentPath, guestAgentHash).
        bind_act (lift_res (preparedRuntimeRootFSPath cacheBase (iaDigest img) guestAgentHash)) (\<lambda>preparedPath.
        let inspect = wrap (''inspect prepared runtime rootfs '' @ go_quote preparedPath) (stat os preparedPath) in
        bind_act inspect (\<lambda>present.
        if present then ret preparedPath
        else
          (\<lambda>h. bind_act inspect (\<lambda>present.
             if present then ret preparedPath
             else
               (let preparedDir = path_dir preparedPath; tmpPath = preparedPath @ ''.tmp-'' @ itoa nanos in
                bind_act (wrap (''create prepared rootfs cache directory '' @ go_quote preparedDir) (call os (MkdirAll preparedDir) (make_dir preparedDir))) (\<lambda>_.
                bind_act (wrap ''copy rootfs image for runtime preparation'' (copyFile os sourcePath tmpPath)) (\<lambda>_.
                bind_act (on_error (remove_file tmpPath)
                  (installGuestRuntimeIntoRootFS os run runBg mountDir script tmpPath guestAgentPath)) (\<lambda>_ h.
                case os (Rename tmpPath preparedPath) of
                  None \<Rightarrow> (remove_file tmpPath (put_file preparedPath (case get (fhFiles h) tmpPath of None \<Rightarrow> [] | Some c \<Rightarrow> c) h), Inr preparedPath)
                | Some e \<Rightarrow>
                    (let h' = remove_file tmpPath h in
                     if os (Stat preparedPath) = None \<and> exists_file preparedPath h' then (h', Inr preparedPath)
                     else (h', Inl (''store prepared runtime rootfs '' @ go_quote preparedPath @ '': '' @ e)))))))) (relock h)))))))"

section \<open>The configuration of the virtual machine\<close>

record bootSource =
  bsKernelImagePath :: string
  bsBootArgs :: string

record drive =
  dvDriveID :: string
  dvPathOnHost :: string
  dvIsRootDevice :: bool
  dvIsReadOnly :: bool

record machineConfig =
  mcVCPUCount :: int
  mcMemSizeMiB :: int
  mcSMT :: bool

record vsockConfig =
  vcVsockID :: string
  vcGuestCID :: "32 word"
  vcUDSPath :: string

record networkInterface =
  niIfaceID :: string
  niHostDevName :: string
  niGuestMac :: string

record firecrackerConfig =
  fcgBootSource :: bootSource
  fcgDrives :: "drive list"
  fcgMachineConfig :: machineConfig
  fcgVsock :: "vsockConfig option"
  fcgNetworkInterfaces :: "networkInterface list"
  fcgEntropy :: bool

definition config_json :: "firecrackerConfig \<Rightarrow> json" where
  "config_json c = JObj (
     [(''boot-source'', JObj [(''kernel_image_path'', JStr (bsKernelImagePath (fcgBootSource c))), (''boot_args'', JStr (bsBootArgs (fcgBootSource c)))]),
      (''drives'', JArr (map (\<lambda>d. JObj [(''drive_id'', JStr (dvDriveID d)), (''path_on_host'', JStr (dvPathOnHost d)),
         (''is_root_device'', JBool (dvIsRootDevice d)), (''is_read_only'', JBool (dvIsReadOnly d))]) (fcgDrives c))),
      (''machine-config'', JObj [(''vcpu_count'', JNum (mcVCPUCount (fcgMachineConfig c))),
         (''mem_size_mib'', JNum (mcMemSizeMiB (fcgMachineConfig c))), (''smt'', JBool (mcSMT (fcgMachineConfig c)))])] @
     (case fcgVsock c of None \<Rightarrow> []
      | Some v \<Rightarrow> [(''vsock'', JObj [(''vsock_id'', JStr (vcVsockID v)), (''guest_cid'', JNum (uint (vcGuestCID v))), (''uds_path'', JStr (vcUDSPath v))])]) @
     omit_empty (fcgNetworkInterfaces c = []) ''network-interfaces''
       (JArr (map (\<lambda>n. JObj ([(''iface_id'', JStr (niIfaceID n)), (''host_dev_name'', JStr (niHostDevName n))] @
          omit_empty (niGuestMac n = []) ''guest_mac'' (JStr (niGuestMac n)))) (fcgNetworkInterfaces c))) @
     omit_empty (\<not> fcgEntropy c) ''entropy'' (JObj []))"

text \<open>The defaults that both \<open>run\<close> and \<open>launchSandboxVM\<close> fill in; \<open>random\<close> are the bytes for a context identifier.\<close>

definition default_config :: "8 word list option \<Rightarrow> FirecrackerConfig \<Rightarrow> FirecrackerConfig" where
  "default_config random cfg =
     (let cfg = (if fcVCPUs cfg \<le> 0 then cfg\<lparr>fcVCPUs := 1\<rparr> else cfg);
          cfg = (if fcMemoryMiB cfg \<le> 0 then cfg\<lparr>fcMemoryMiB := 512\<rparr> else cfg);
          cfg = (if fcGuestCID cfg = 0 then cfg\<lparr>fcGuestCID := randomGuestCID random\<rparr> else cfg);
          cfg = (if fcGuestPort cfg = 0 then cfg\<lparr>fcGuestPort := DefaultPort\<rparr> else cfg)
      in if fcLaunchSeconds cfg \<le> 0 then cfg\<lparr>fcLaunchSeconds := 30\<rparr> else cfg)"

definition vm_config ::
  "string \<Rightarrow> string \<Rightarrow> string \<Rightarrow> string \<Rightarrow> hostNetworkConfig \<Rightarrow> CompiledPolicy \<Rightarrow> FirecrackerConfig \<Rightarrow> firecrackerConfig" where
  "vm_config runID kernelPath vmRootFSPath vsockPath net compiled cfg =
     \<lparr>fcgBootSource = \<lparr>bsKernelImagePath = kernelPath,
        bsBootArgs = ''console=ttyS0 reboot=k panic=1 pci=off init=/sbin/cleanroom-init random.trust_cpu=on cleanroom_guest_ip='' @ hnGuestIP net @
          '' cleanroom_guest_gw='' @ hnHostIP net @ '' cleanroom_guest_mask=24 cleanroom_guest_dns=1.1.1.1 cleanroom_guest_port='' @
          itoa (uint (fcGuestPort cfg)) @ '' '' @ dockerServiceBootArgs (Some compiled) cfg\<rparr>,
      fcgDrives = [\<lparr>dvDriveID = ''rootfs'', dvPathOnHost = vmRootFSPath, dvIsRootDevice = True, dvIsReadOnly = False\<rparr>],
      fcgMachineConfig = \<lparr>mcVCPUCount = fcVCPUs cfg, mcMemSizeMiB = fcMemoryMiB cfg, mcSMT = False\<rparr>,
      fcgVsock = Some \<lparr>vcVsockID = ''cleanroom-vsock'', vcGuestCID = fcGuestCID cfg, vcUDSPath = vsockPath\<rparr>,
      fcgNetworkInterfaces = [\<lparr>niIfaceID = ''eth0'', niHostDevName = hnTapName net, niGuestMac = guestMACFromRunID runID\<rparr>],
      fcgEntropy = True\<rparr>"

section \<open>Waiting for the guest agent\<close>

text \<open>
  \<open>dialVsockUntilReady\<close>: each turn is the outcome of one dial and, when it failed, what the select found
  first: the process gone (with its error), the context done (with its error), or the ticker. \<open>None\<close> is a
  loop that is still waiting at the end of the list.
\<close>

datatype dial_event = ProcessExited "string option" | CtxDone string | Tick

fun dialVsockUntilReady :: "string \<Rightarrow> (bool \<times> dial_event) list \<Rightarrow> (string + unit) option" where
  "dialVsockUntilReady vsockPath [] = None"
| "dialVsockUntilReady vsockPath ((connected, ev) # rest) =
     (if connected then Some (Inr ())
      else
        (case ev of
           ProcessExited None \<Rightarrow> Some (Inl ''firecracker exited before vsock guest agent became ready'')
         | ProcessExited (Some e) \<Rightarrow> Some (Inl (''firecracker exited before vsock guest agent became ready: '' @ e))
         | CtxDone e \<Rightarrow> Some (Inl (''timed out waiting for vsock guest agent ('' @ vsockPath @ ''): '' @ e))
         | Tick \<Rightarrow> dialVsockUntilReady vsockPath rest))"

section \<open>Launching a sandbox\<close>

record sandboxInstance =
  siSandboxID :: string
  siRunDir :: string
  siConfigPath :: string
  siVsockPath :: string
  siGuestPort :: "32 word"
  siPolicy :: "CompiledPolicy option"
  siImageRef :: string
  siImageDigest :: string
  siCommandTimeout :: int
  siHostIP :: string
  siGuestIP :: string
  siProcess :: "string option"
  siExitErr :: "string option"
  siExitReady :: bool
  siCleanupNetwork :: "command list option"
  siVmRootFSPath :: string

definition setExited :: "string option \<Rightarrow> sandboxInstance \<Rightarrow> sandboxInstance" where
  "setExited err s = (if siExitReady s then s else s\<lparr>siExitErr := err, siExitReady := True\<rparr>)"

definition exitedErrOrNil :: "sandboxInstance \<Rightarrow> string option" where
  "exitedErrOrNil s = (if \<not> siExitReady s then None else case siExitErr s of None \<Rightarrow> Some ''vm exited'' | Some e \<Rightarrow> Some e)"

definition stopVM :: "string option \<Rightarrow> 'n fc_host \<Rightarrow> 'n fc_host" where
  "stopVM process h = (case process of None \<Rightarrow> h | Some p \<Rightarrow> h\<lparr>fhVMs := remove1 p (fhVMs h)\<rparr>)"

definition shutdown :: "(command list \<Rightarrow> 'n \<Rightarrow> 'n) \<Rightarrow> sandboxInstance \<Rightarrow> 'n fc_host \<Rightarrow> 'n fc_host" where
  "shutdown batch s h =
     (let h = stopVM (siProcess s) h;
          h = (case siCleanupNetwork s of None \<Rightarrow> h | Some cl \<Rightarrow> h\<lparr>fhNet := batch (rev cl) (fhNet h)\<rparr>)
      in if trim_space (siRunDir s) \<noteq> [] then remove_all (siRunDir s) h
         else if trim_space (siVmRootFSPath s) \<noteq> [] then remove_file (siVmRootFSPath s) h else h)"

text \<open>
  What a launch asks of its surroundings: the operating system, the path of the binary and of the kernel,
  the image, the directories, the name service, the privileged commands (with the caller's context and, for
  the clean-up, the clean-up context) and the outcome of \<open>dialVsockUntilReady\<close>.
\<close>

record 'n launch_deps =
  ldGOOS :: string
  ldRandom :: "8 word list option"
  ldLookPath :: "string \<Rightarrow> string + string"
  ldKernel :: "string \<Rightarrow> string + string \<times> string"
  ldManager :: "string + (string \<Rightarrow> string + imageArtifact)"
  ldPrepare :: "imageArtifact \<Rightarrow> ('n, string) act"
  ldStateDir :: "string + string"
  ldOS :: os
  ldUid :: int
  ldTook :: int
  ldLookup :: "string \<Rightarrow> string + ip list"
  ldRun :: "'n runner"
  ldCleanup :: "command list \<Rightarrow> 'n \<Rightarrow> 'n"
  ldAbs :: "string \<Rightarrow> string + string"
  ldDial :: "string \<Rightarrow> string + unit"

definition sandboxRuntimeBaseDir :: "string + string \<Rightarrow> string + string" where
  "sandboxRuntimeBaseDir stateDir = and_then stateDir (\<lambda>base. Inr (path_join [base, ''sandboxes'']))"

definition network_act :: "'n launch_deps \<Rightarrow> string \<Rightarrow> AllowRule list \<Rightarrow> int \<Rightarrow> ('n, hostNetworkConfig \<times> command list) act" where
  "network_act d runID allow gwPort h =
     (case setupHostNetworkWithDeps (ldUid d) (ldTook d) runID allow gwPort (ldLookup d) (ldRun d) (ldCleanup d) (fhNet h) of
        (n, r) \<Rightarrow> (h\<lparr>fhNet := n\<rparr>, r))"

definition register_act :: "string \<Rightarrow> string \<Rightarrow> CompiledPolicy \<Rightarrow> ('n, unit) act" where
  "register_act guestIP sandboxID compiled h =
     (case fhRegistry h of
        None \<Rightarrow> (h, Inr ())
      | Some r \<Rightarrow>
          (case Register guestIP sandboxID compiled r of
             Inl _ \<Rightarrow> (h, Inl (''register sandbox in gateway: guest IP '' @ guestIP @ '' already registered''))
           | Inr r' \<Rightarrow> (h\<lparr>fhRegistry := Some r'\<rparr>, Inr ())))"

definition release_registration :: "string \<Rightarrow> 'n fc_host \<Rightarrow> 'n fc_host" where
  "release_registration guestIP h = h\<lparr>fhRegistry := map_option (Release guestIP) (fhRegistry h)\<rparr>"

definition run_cleanup :: "'n launch_deps \<Rightarrow> command list \<Rightarrow> 'n fc_host \<Rightarrow> 'n fc_host" where
  "run_cleanup d cl h = h\<lparr>fhNet := ldCleanup d (rev cl) (fhNet h)\<rparr>"

text \<open>The process is known by its API socket. \<open>os.Create\<close> of the two logs leaves them empty.\<close>

definition start_vm ::
  "'n launch_deps \<Rightarrow> string \<Rightarrow> string \<Rightarrow> json \<Rightarrow> ('n, string) act" where
  "start_vm d runDir cfgPath config =
     (let os = ldOS d; apiSocket = path_join [runDir, ''firecracker.sock''];
          stdoutPath = path_join [runDir, ''firecracker.stdout.log'']; stderrPath = path_join [runDir, ''firecracker.stderr.log''] in
      bind_act (writeJSON os cfgPath config) (\<lambda>_.
      bind_act (call os (Create stdoutPath) (put_file stdoutPath [])) (\<lambda>_.
      bind_act (call os (Create stderrPath) (put_file stderrPath [])) (\<lambda>_.
      bind_act (wrap ''start firecracker'' (call os (StartVM apiSocket) (\<lambda>h. h\<lparr>fhVMs := apiSocket # fhVMs h\<rparr>))) (\<lambda>_.
      ret apiSocket)))))"

text \<open>The checks before any resource is taken: the binary, the kernel, the image and the prepared root file system.\<close>

definition launch_prepare ::
  "'n launch_deps \<Rightarrow> CompiledPolicy \<Rightarrow> FirecrackerConfig \<Rightarrow> ('n, string \<times> imageArtifact \<times> string \<times> string) act" where
  "launch_prepare d compiled cfg =
     (let binary = (if fcBinaryPath cfg = [] then ''firecracker'' else fcBinaryPath cfg) in
      bind_act (lift_res (map_error (\<lambda>e. ''firecracker binary not found ('' @ go_quote binary @ ''): '' @ e) (ldLookPath d binary))) (\<lambda>_.
      bind_act (lift_res (ldKernel d (fcKernelImagePath cfg))) (\<lambda>(kernelPath, notice).
      bind_act (lift_res (ensureImageArtifact (ldManager d) (cpImageRef compiled))) (\<lambda>img.
      bind_act (ldPrepare d img) (\<lambda>prepared.
      bind_act (lift_res (map_error (\<lambda>e. ''resolve sandbox runtime base directory: '' @ e) (sandboxRuntimeBaseDir (ldStateDir d)))) (\<lambda>base.
      ret (kernelPath, img, prepared, base)))))))"

text \<open>From the registered network to the running machine; \<open>cleanupAll\<close> undoes everything taken before.\<close>

definition launch_boot ::
  "'n launch_deps \<Rightarrow> string \<Rightarrow> CompiledPolicy \<Rightarrow> FirecrackerConfig \<Rightarrow> string \<Rightarrow> string \<Rightarrow> string \<Rightarrow> imageArtifact \<Rightarrow>
   hostNetworkConfig \<times> command list \<Rightarrow> ('n, sandboxInstance) act" where
  "launch_boot d sandboxID compiled cfg runDir vmRootFSPath kernelPath img = (\<lambda>(net, cl).
     let vsockPath = path_join [runDir, ''vsock.sock'']; cfgPath = path_join [runDir, ''firecracker-config.json''];
         cleanupAll = (\<lambda>h. remove_file vmRootFSPath (run_cleanup d cl (release_registration (hnGuestIP net) h))) in
     on_error cleanupAll
       (bind_act (start_vm d runDir cfgPath (config_json (vm_config sandboxID kernelPath vmRootFSPath vsockPath net compiled cfg))) (\<lambda>process.
        on_error (stopVM (Some process))
          (bind_act (lift_res (ldDial d vsockPath)) (\<lambda>_.
               ret \<lparr>siSandboxID = sandboxID, siRunDir = runDir, siConfigPath = cfgPath, siVsockPath = vsockPath,
                 siGuestPort = fcGuestPort cfg, siPolicy = Some compiled, siImageRef = iaRef img, siImageDigest = iaDigest img,
                 siCommandTimeout = fcLaunchSeconds cfg, siHostIP = hnHostIP net, siGuestIP = hnGuestIP net,
                 siProcess = Some process, siExitErr = None, siExitReady = False, siCleanupNetwork = Some cl,
                 siVmRootFSPath = vmRootFSPath\<rparr>)))))"

text \<open>The root file system of the sandbox, a copy of the prepared one in its run directory.\<close>

definition launch_rootfs :: "'n launch_deps \<Rightarrow> string \<Rightarrow> string \<Rightarrow> string \<Rightarrow> ('n, unit) act" where
  "launch_rootfs d runDir prepared vmRootFSPath =
     (let os = ldOS d in
      bind_act (call os (MkdirAll runDir) (make_dir runDir)) (\<lambda>_.
      bind_act (lift_res (ldAbs d prepared)) (\<lambda>rootfsPath.
      bind_act (wrap (''rootfs '' @ rootfsPath) (must_exist os rootfsPath)) (\<lambda>_.
      wrap ''prepare persistent rootfs'' (copyFile os rootfsPath vmRootFSPath)))))"

text \<open>The network, the registration in the gateway and the machine, each undone when what follows fails.\<close>

definition launch_network ::
  "'n launch_deps \<Rightarrow> int \<Rightarrow> string \<Rightarrow> CompiledPolicy \<Rightarrow> FirecrackerConfig \<Rightarrow> string \<Rightarrow> string \<Rightarrow> string \<Rightarrow> imageArtifact \<Rightarrow>
   ('n, sandboxInstance) act" where
  "launch_network d gatewayPort sandboxID compiled cfg runDir vmRootFSPath kernelPath img h =
     (let gwPort = (if fhRegistry h = None then 0 else if gatewayPort = 0 then 8170 else gatewayPort) in
      bind_act (on_error (remove_file vmRootFSPath) (wrap ''setup host network'' (network_act d sandboxID (cpAllow compiled) gwPort))) (\<lambda>(net, cl).
      bind_act (on_error (\<lambda>h. remove_file vmRootFSPath (run_cleanup d cl h)) (register_act (hnGuestIP net) sandboxID compiled)) (\<lambda>_.
      launch_boot d sandboxID compiled cfg runDir vmRootFSPath kernelPath img (net, cl))) h)"

definition launchSandboxVM ::
  "'n launch_deps \<Rightarrow> int \<Rightarrow> string \<Rightarrow> CompiledPolicy option \<Rightarrow> FirecrackerConfig \<Rightarrow> ('n, sandboxInstance) act" where
  "launchSandboxVM d gatewayPort sandboxID policy cfg0 =
     (case policy of
        None \<Rightarrow> throw ''missing compiled policy''
      | Some compiled \<Rightarrow>
          if cpNetworkDefault compiled \<noteq> ''deny''
          then throw (''firecracker backend requires deny-by-default policy, got '' @ go_quote (cpNetworkDefault compiled))
          else if ldGOOS d \<noteq> ''linux'' then throw (''firecracker backend is linux-only, current OS is '' @ ldGOOS d)
          else
            (let cfg = default_config (ldRandom d) cfg0 in
             bind_act (launch_prepare d compiled cfg) (\<lambda>(kernelPath, img, prepared, base).
             let runDir = path_join [base, sandboxID]; vmRootFSPath = path_join [runDir, ''rootfs-persistent.ext4''] in
             on_error (remove_all runDir)
               (bind_act (launch_rootfs d runDir prepared vmRootFSPath) (\<lambda>_.
                launch_network d gatewayPort sandboxID compiled cfg runDir vmRootFSPath kernelPath img)))))"

end
