(* ===== verification/Firecracker_Exec.thy ===== *)
theory Firecracker_Exec
  imports Firecracker_Host Backend
begin

text \<open>
  Executing a command in a guest (\<open>internal/backend/firecracker/backend.go\<close>): the exchange with the guest agent
  over the vsock connection, the commands run in a provisioned sandbox, the download of a file and the
  record of observations a run leaves in its directory.
\<close>

section \<open>Durations\<close>

text \<open>A duration is a number of nanoseconds; \<open>Milliseconds\<close> truncates toward zero.\<close>

definition Milliseconds :: "int \<Rightarrow> int" where
  "Milliseconds d = sgn d * (\<bar>d\<bar> div 1000000)"

text \<open>\<open>fmtFrac\<close>: the last \<open>prec\<close> digits as a fraction without trailing zeros, and what is left of the number.\<close>

definition fmtFrac :: "nat \<Rightarrow> nat \<Rightarrow> string \<times> nat" where
  "fmtFrac v prec =
     (let digits = nat_to_string (v mod 10 ^ prec);
          padded = replicate (prec - length digits) CHR ''0'' @ digits;
          shown = rev (dropWhile (\<lambda>c. c = CHR ''0'') (rev padded)) in
      (if shown = [] then [] else CHR ''.'' # shown, v div 10 ^ prec))"

definition Duration_String :: "int \<Rightarrow> string" where
  "Duration_String d =
     (let u = nat \<bar>d\<bar>; sign = (if d < 0 then ''-'' else []) in
      if u = 0 then ''0s''
      else if u < 1000 then sign @ nat_to_string u @ ''ns''
      else if u < 1000000 then (case fmtFrac u 3 of (f, v) \<Rightarrow> sign @ nat_to_string v @ f @ [CHR 0xC2, CHR 0xB5] @ ''s'')
      else if u < 1000000000 then (case fmtFrac u 6 of (f, v) \<Rightarrow> sign @ nat_to_string v @ f @ ''ms'')
      else
        (case fmtFrac u 9 of
           (f, secs) \<Rightarrow>
             (let mins = secs div 60; hours = mins div 60 in
              sign @ (if hours > 0 then nat_to_string hours @ ''h'' else []) @ (if mins > 0 then nat_to_string (mins mod 60) @ ''m'' else []) @
              nat_to_string (secs mod 60) @ f @ ''s'')))"

section \<open>The exchange with the guest agent\<close>

record guestExecTiming =
  gtWaitForAgent :: int
  gtAgentReadyAt :: int
  gtCommandRun :: int

text \<open>
  What the exchange meets: the outcome of \<open>dialVsockUntilReady\<close>, the answer of \<open>SetDeadline\<close> when the context has a
  deadline and the connection takes one, the error of writing the request, the values the guest sends, the error of the context
  once decoding has failed, and the readings of the clock (start, agent ready, command start, end). The texts of
  decoding errors are those of the JSON library.
\<close>

record guest_link =
  glDial :: "string + unit"
  glSetDeadline :: "string option"
  glSendError :: "string option"
  glIncoming :: "json list"
  glCtxErr :: "string option"
  glClock :: "nat \<Rightarrow> int"
  glWireMessage :: "wire_error \<Rightarrow> string"

record guest_outcome =
  goResult :: "string + ExecResponse \<times> guestExecTiming"
  goSent :: "json list"
  goCalls :: "(bool \<times> string) list"

definition stdin_frame :: "string \<Rightarrow> ExecInputFrame" where
  "stdin_frame data = \<lparr>ifType = ''stdin'', ifData = data, ifCols = 0, ifRows = 0\<rparr>"

definition resize_frame :: "32 word \<Rightarrow> 32 word \<Rightarrow> ExecInputFrame" where
  "resize_frame cols rows = \<lparr>ifType = ''resize'', ifData = [], ifCols = cols, ifRows = rows\<rparr>"

definition eof_frame :: ExecInputFrame where
  "eof_frame = \<lparr>ifType = ''eof'', ifData = [], ifCols = 0, ifRows = 0\<rparr>"

text \<open>\<open>goSent\<close> is what the host writes by itself; the frames of an attached caller come between and after.\<close>

definition runGuestCommand :: "guest_link \<Rightarrow> ExecRequest \<Rightarrow> guest_outcome" where
  "runGuestCommand l req =
     (case glDial l of
        Inl e \<Rightarrow> \<lparr>goResult = Inl e, goSent = [], goCalls = []\<rparr>
      | Inr _ \<Rightarrow>
          (let readyAt = glClock l 1; waited = readyAt - glClock l 0 in
           case glSetDeadline l of
             Some e \<Rightarrow> \<lparr>goResult = Inl (''set vsock deadline: '' @ e), goSent = [], goCalls = []\<rparr>
           | None \<Rightarrow>
               (case glSendError l of
                  Some e \<Rightarrow> \<lparr>goResult = Inl (''send guest exec request: '' @ e), goSent = [], goCalls = []\<rparr>
                | None \<Rightarrow>
                    (let sent = EncodeRequest req # (if erTTY req then [] else [EncodeInputFrame eof_frame]) in
                     case DecodeStreamResponse (glIncoming l) of
                       (Inl e, calls) \<Rightarrow>
                         \<lparr>goResult = Inl (case glCtxErr l of
                              Some c \<Rightarrow> ''guest exec canceled while waiting for response: '' @ c
                            | None \<Rightarrow> ''decode guest exec response: '' @ glWireMessage l e),
                          goSent = sent, goCalls = calls\<rparr>
                     | (Inr res, calls) \<Rightarrow>
                         \<lparr>goResult = Inr (res, \<lparr>gtWaitForAgent = waited, gtAgentReadyAt = readyAt,
                                             gtCommandRun = glClock l 3 - glClock l 2\<rparr>),
                          goSent = sent, goCalls = calls\<rparr>))))"

section \<open>Commands in a sandbox\<close>

text \<open>
  \<open>executeInSandbox\<close>: the request with the seed (when the random source gave one) and the environment for the
  gateway, and the seconds the connection may take. \<open>link\<close> is the connection as that timeout leaves it.
\<close>

definition guest_request :: "bool \<Rightarrow> int \<Rightarrow> string option \<Rightarrow> sandboxInstance \<Rightarrow> string list \<Rightarrow> bool \<Rightarrow> ExecRequest" where
  "guest_request hasRegistry gatewayPort seed inst command tty =
     \<lparr>erCommand = command, erDir = [],
      erEnv = (if hasRegistry \<and> siHostIP inst \<noteq> []
               then gatewayEnvVars (siPolicy inst) (siHostIP inst) (if gatewayPort = 0 then 8170 else gatewayPort) else []),
      erEntropySeed = (case seed of None \<Rightarrow> [] | Some s \<Rightarrow> s), erTTY = tty\<rparr>"

definition connect_seconds :: "int \<Rightarrow> sandboxInstance \<Rightarrow> int" where
  "connect_seconds launchSeconds inst =
     (let c = (if launchSeconds \<le> 0 then siCommandTimeout inst else launchSeconds) in if c \<le> 0 then 30 else c)"

definition executeInSandbox ::
  "bool \<Rightarrow> int \<Rightarrow> string option \<Rightarrow> (int \<Rightarrow> string \<Rightarrow> 32 word \<Rightarrow> guest_link) \<Rightarrow> sandboxInstance \<Rightarrow> int \<Rightarrow> string list \<Rightarrow> bool \<Rightarrow> guest_outcome" where
  "executeInSandbox hasRegistry gatewayPort seed link inst launchSeconds command tty =
     runGuestCommand (link (connect_seconds launchSeconds inst) (siVsockPath inst) (siGuestPort inst))
       (guest_request hasRegistry gatewayPort seed inst command tty)"

definition runResultMessage :: "string \<Rightarrow> string" where
  "runResultMessage base = base @ ''; rootfs writes discarded after run''"

section \<open>Observations of a run\<close>

record firecrackerRunObservation =
  roRunID :: string
  roBackend :: string
  roLaunchedVM :: bool
  roImageRef :: string
  roImageDigest :: string
  roImageCacheHit :: bool
  roPhase :: string
  roPlanPath :: string
  roRunDir :: string
  roExitCode :: int
  roGuestError :: string
  roNetworkTap :: string
  roNetworkHostIP :: string
  roNetworkGuestIP :: string
  roPolicyResolveMS :: int
  roRootFSCopyMS :: int
  roFirecrackerStartMS :: int
  roNetworkSetupMS :: int
  roVMReadyMS :: int
  roVsockWaitMS :: int
  roGuestExecMS :: int
  roCleanupMS :: int
  roTotalMS :: int

definition opt_str :: "string \<Rightarrow> string \<Rightarrow> (string \<times> json) list" where
  "opt_str k s = omit_empty (s = []) k (JStr s)"

definition opt_num :: "string \<Rightarrow> int \<Rightarrow> (string \<times> json) list" where
  "opt_num k n = omit_empty (n = 0) k (JNum n)"

definition observation_json :: "firecrackerRunObservation \<Rightarrow> json" where
  "observation_json ob = JObj (
     [(''run_id'', JStr (roRunID ob)), (''backend'', JStr (roBackend ob)), (''launched_vm'', JBool (roLaunchedVM ob))] @
     opt_str ''image_ref'' (roImageRef ob) @ opt_str ''image_digest'' (roImageDigest ob) @
     omit_empty (\<not> roImageCacheHit ob) ''image_cache_hit'' (JBool (roImageCacheHit ob)) @
     [(''phase'', JStr (roPhase ob))] @
     opt_str ''plan_path'' (roPlanPath ob) @ opt_str ''run_dir'' (roRunDir ob) @ opt_num ''exit_code'' (roExitCode ob) @
     opt_str ''guest_error'' (roGuestError ob) @ opt_str ''network_tap'' (roNetworkTap ob) @
     opt_str ''network_host_ip'' (roNetworkHostIP ob) @ opt_str ''network_guest_ip'' (roNetworkGuestIP ob) @
     opt_num ''policy_resolve_ms'' (roPolicyResolveMS ob) @ opt_num ''rootfs_copy_ms'' (roRootFSCopyMS ob) @
     opt_num ''firecracker_start_ms'' (roFirecrackerStartMS ob) @ opt_num ''network_setup_ms'' (roNetworkSetupMS ob) @
     opt_num ''vm_ready_ms'' (roVMReadyMS ob) @ opt_num ''vsock_wait_ms'' (roVsockWaitMS ob) @
     opt_num ''guest_exec_ms'' (roGuestExecMS ob) @ opt_num ''cleanup_ms'' (roCleanupMS ob) @ opt_num ''total_ms'' (roTotalMS ob))"

definition new_observation :: "string \<Rightarrow> bool \<Rightarrow> firecrackerRunObservation" where
  "new_observation runID launched =
     \<lparr>roRunID = runID, roBackend = ''firecracker'', roLaunchedVM = launched, roImageRef = [], roImageDigest = [], roImageCacheHit = False,
      roPhase = [], roPlanPath = [], roRunDir = [], roExitCode = 0, roGuestError = [], roNetworkTap = [], roNetworkHostIP = [],
      roNetworkGuestIP = [], roPolicyResolveMS = 0, roRootFSCopyMS = 0, roFirecrackerStartMS = 0, roNetworkSetupMS = 0, roVMReadyMS = 0,
      roVsockWaitMS = 0, roGuestExecMS = 0, roCleanupMS = 0, roTotalMS = 0\<rparr>"

definition runObservabilityFile :: string where
  "runObservabilityFile = ''run-observability.json''"

text \<open>\<open>writeObservation\<close>, deferred: its error is dropped.\<close>

definition write_observation :: "os \<Rightarrow> string \<Rightarrow> int \<Rightarrow> firecrackerRunObservation \<Rightarrow> 'n fc_host \<Rightarrow> 'n fc_host" where
  "write_observation os runDir took ob h =
     fst (writeJSON os (path_join [runDir, runObservabilityFile]) (observation_json (ob\<lparr>roTotalMS := Milliseconds took\<rparr>)) h)"

end
