(* ===== verification/Firecracker_Net_Props.thy ===== *)
theory Firecracker_Net_Props
  imports Firecracker_Net "HOL-Library.Multiset"
begin

text \<open>
  What the firewall of a sandbox lets through, and that the clean-up takes back what the set-up added.
  The commands are judged by their documented effect: \<open>-A\<close> appends a rule to a chain, \<open>-D\<close> deletes the
  first equal rule, the first rule of a chain that matches a packet decides it, and an interface name
  that ends in \<open>+\<close> matches every interface that begins with it.
\<close>

section \<open>Runs of commands and the chains they leave\<close>

type_synonym trace = "(command \<times> bool) list"

definition recorder :: "(trace \<Rightarrow> command \<Rightarrow> string option) \<Rightarrow> trace runner" where
  "recorder exec args tr = (tr @ [(args, exec tr args = None)], exec tr args)"

definition recorder_batch :: "(trace \<Rightarrow> command \<Rightarrow> string option) \<Rightarrow> command list \<Rightarrow> trace \<Rightarrow> trace" where
  "recorder_batch exec cmds tr = fold (\<lambda>args tr. fst (recorder exec args tr)) cmds tr"

text \<open>Whether a command adds (\<open>True\<close>) or deletes a rule, and which, in which chain of which table.\<close>

definition change :: "command \<Rightarrow> (bool \<times> (string \<times> string) \<times> command) option" where
  "change cmd =
     (case cmd of
        a # b # c # r \<Rightarrow>
          if a \<noteq> ''iptables'' then None
          else if b = ''-t'' then
            (case r of
               d # e # spec \<Rightarrow>
                 if d = ''-A'' then Some (True, (c, e), spec)
                 else if d = ''-D'' then Some (False, (c, e), spec) else None
             | _ \<Rightarrow> None)
          else if b = ''-A'' then Some (True, (''filter'', c), r)
          else if b = ''-D'' then Some (False, (''filter'', c), r) else None
      | _ \<Rightarrow> None)"

definition effect :: "string \<times> string \<Rightarrow> command \<times> bool \<Rightarrow> command list \<Rightarrow> command list" where
  "effect k = (\<lambda>(cmd, ok) rules.
     case change cmd of
       Some (add, k', spec) \<Rightarrow> if ok \<and> k' = k then (if add then rules @ [spec] else remove1 spec rules) else rules
     | None \<Rightarrow> rules)"

definition chain :: "string \<times> string \<Rightarrow> trace \<Rightarrow> command list" where
  "chain k tr = fold (effect k) tr []"

lemma chain_record: "chain k (tr @ es) = fold (effect k) es (chain k tr)"
  by (simp add: chain_def)

lemma recorder_simps:
  "recorder exec args tr = (tr', None) \<longleftrightarrow> exec tr args = None \<and> tr' = tr @ [(args, True)]"
  "recorder exec args tr = (tr', Some e) \<longleftrightarrow> exec tr args = Some e \<and> tr' = tr @ [(args, False)]"
  by (auto simp: recorder_def)

lemma effect_failed [simp]: "effect k (cmd, False) rules = rules"
  by (auto simp: effect_def split: option.split prod.split)

section \<open>Rules added by the steps\<close>

definition added :: "string \<times> string \<Rightarrow> command \<Rightarrow> command list" where
  "added k cmd = (case change cmd of Some (True, k', spec) \<Rightarrow> if k' = k then [spec] else [] | _ \<Rightarrow> [])"

definition removed :: "string \<times> string \<Rightarrow> command \<Rightarrow> command list" where
  "removed k cmd = (case change cmd of Some (False, k', spec) \<Rightarrow> if k' = k then [spec] else [] | _ \<Rightarrow> [])"

lemma effect_added: "removed k cmd = [] \<Longrightarrow> effect k (cmd, True) rules = rules @ added k cmd"
  by (auto simp: effect_def added_def removed_def split: option.splits prod.splits bool.splits if_splits)

lemma effect_removed: "added k cmd = [] \<Longrightarrow> mset (effect k (cmd, True) rules) = mset rules - mset (removed k cmd)"
  by (auto simp: effect_def added_def removed_def split: option.splits prod.splits bool.splits if_splits)

text \<open>What a step adds to a chain, and that what it records undoes it.\<close>

fun installs :: "string \<times> string \<Rightarrow> net_step \<Rightarrow> command list \<Rightarrow> bool" where
  "installs k (Step args ctx undo) rs = (rs = added k args)"
| "installs k (ReturnPath tap) rs \<longleftrightarrow>
     rs = added k (return_path_rule ''-A'' tap ''conntrack'' ''--ctstate'') \<or>
     rs = added k (return_path_rule ''-A'' tap ''state'' ''--state'')"

fun undone_by :: "string \<times> string \<Rightarrow> net_step \<Rightarrow> bool" where
  "undone_by k (Step args ctx undo) \<longleftrightarrow>
     removed k args = [] \<and> (case undo of None \<Rightarrow> added k args = [] | Some u \<Rightarrow> removed k u = added k args \<and> added k u = [])"
| "undone_by k (ReturnPath tap) = True"

lemma change_iptables [simp]:
  "change (''iptables'' # ''-A'' # c # r) = Some (True, (''filter'', c), r)"
  "change (''iptables'' # ''-D'' # c # r) = Some (False, (''filter'', c), r)"
  "change (''iptables'' # ''-t'' # t # ''-A'' # c # r) = Some (True, (t, c), r)"
  "change (''iptables'' # ''-t'' # t # ''-D'' # c # r) = Some (False, (t, c), r)"
  "change (''ip'' # r) = None" "change (''sysctl'' # r) = None"
  by (simp_all add: change_def split: list.split)

lemma return_path_change:
  "removed k (return_path_rule ''-A'' tap m f) = []" "added k (return_path_rule ''-D'' tap m f) = []"
  "removed k (return_path_rule ''-D'' tap m f) = added k (return_path_rule ''-A'' tap m f)"
  by (simp_all add: removed_def added_def return_path_rule_def)

definition undos :: "string \<times> string \<Rightarrow> command list \<Rightarrow> command list" where
  "undos k cl = concat (map (removed k) cl)"

lemma undos_append: "undos k (a @ b) = undos k a @ undos k b"
  by (simp add: undos_def)

lemma mset_undos_rev [simp]: "mset (undos k (rev cl)) = mset (undos k cl)"
  by (simp add: undos_def rev_map [symmetric] mset_concat)

text \<open>
  A host with a packet filter: \<open>run\<close> runs a command, \<open>rules\<close> reads a chain. A command that succeeds has its
  documented effect, one that fails has none.
\<close>

locale filter_host =
  fixes run :: "'w runner"
    and rules :: "string \<times> string \<Rightarrow> 'w \<Rightarrow> command list"
  assumes run_ok: "run args w = (w', None) \<Longrightarrow> rules k w' = effect k (args, True) (rules k w)"
    and run_failed: "run args w = (w', Some e) \<Longrightarrow> rules k w' = rules k w"
begin

lemma step_ok:
  assumes "run_step run s w = (w', Inr undo)" "undone_by k s"
  shows "\<exists>rs. installs k s rs \<and> rules k w' = rules k w @ rs \<and> undos k undo = rs \<and> (\<forall>u \<in> set undo. added k u = [])"
proof (cases s)
  case (Step args ctx u)
  then have "run args w = (w', None)" "undo = (case u of None \<Rightarrow> [] | Some u \<Rightarrow> [u])"
    using assms(1) by (auto split: option.splits prod.splits)
  then show ?thesis using Step assms(2) by (auto simp: run_ok effect_added undos_def split: option.splits)
next
  case (ReturnPath tap)
  then show ?thesis using assms(1)
    by (auto simp: installForwardReturnPathRule_def run_ok run_failed effect_added return_path_change undos_def
        split: prod.splits option.splits sum.splits)
qed

lemma step_failed: "run_step run s w = (w', Inl e) \<Longrightarrow> rules k w' = rules k w"
  by (cases s) (auto simp: installForwardReturnPathRule_def run_failed split: prod.splits option.splits sum.splits)

lemma steps_rules:
  assumes "run_steps run batch ss cl w = (w', Inr cl')" "\<forall>s \<in> set ss. undone_by k s"
  shows "\<exists>rss. list_all2 (installs k) ss rss \<and> rules k w' = rules k w @ concat rss"
  using assms
proof (induction ss arbitrary: cl w)
  case (Cons s ss)
  then obtain t1 undo where s: "run_step run s w = (t1, Inr undo)" "run_steps run batch ss (cl @ undo) t1 = (w', Inr cl')"
    by (auto split: prod.splits sum.splits)
  from step_ok [OF s(1), where k = k] Cons.prems(2) obtain rs where "installs k s rs" "rules k t1 = rules k w @ rs" by auto
  moreover from Cons.IH [OF s(2)] Cons.prems(2) obtain rss where "list_all2 (installs k) ss rss" "rules k w' = rules k t1 @ concat rss"
    by auto
  ultimately show ?case by (intro exI [of _ "rs # rss"]) simp
qed simp

end

section \<open>Undoing\<close>

text \<open>A host whose clean-up deletes what it is told to delete.\<close>

locale undoing_host = filter_host run rules
  for run :: "'w runner" and rules :: "string \<times> string \<Rightarrow> 'w \<Rightarrow> command list" +
  fixes batch :: "command list \<Rightarrow> 'w \<Rightarrow> 'w"
  assumes batch_removes: "(\<forall>u \<in> set cmds. added k u = []) \<Longrightarrow>
    mset (rules k (batch cmds w)) = mset (rules k w) - mset (undos k cmds)"
begin

lemma steps_undone:
  assumes "\<forall>s \<in> set ss. undone_by k s" and "\<forall>u \<in> set cl. added k u = []"
    and "mset (rules k w) = base + mset (undos k cl)"
    and "run_steps run batch ss cl w = (w', r)"
  shows "mset (rules k (case r of Inl e \<Rightarrow> w' | Inr cl' \<Rightarrow> batch (rev cl') w')) = base"
  using assms
proof (induction ss arbitrary: cl w)
  case Nil
  then have "r = Inr cl" "w' = w" by auto
  with Nil batch_removes [of "rev cl" k w] show ?case by simp
next
  case (Cons s ss)
  show ?case
  proof (cases "run_step run s w")
    case (Pair t1 out)
    show ?thesis
    proof (cases out)
      case (Inl e)
      then have "r = Inl e" "w' = batch (rev cl) t1" "rules k t1 = rules k w"
        using Cons.prems(4) Pair step_failed [of s w t1 e k] by auto
      with Cons.prems batch_removes [of "rev cl" k t1] show ?thesis by simp
    next
      case (Inr undo)
      from step_ok [OF Pair [unfolded Inr], where k = k] Cons.prems(1) obtain rs
        where "rules k t1 = rules k w @ rs" "undos k undo = rs" "\<forall>u \<in> set undo. added k u = []" by auto
      then show ?thesis using Cons.prems Pair Inr
        by (intro Cons.IH [of "cl @ undo" t1]) (auto simp: undos_append)
    qed
  qed
qed

end

lemma network_steps_undone: "\<forall>s \<in> set (network_steps tap host guest gw rules). undone_by k s"
  by (auto simp: network_steps_def ipt_step_def forward_step_def added_def removed_def)

context filter_host
begin

lemma setup_rules:
  assumes "setupHostNetworkWithDeps uid took runID allow gw lookup run batch w = (w', Inr (cfg, cl))"
  shows "\<exists>fwd rss. resolveForwardRulesWithLookup lookup allow = Inr fwd \<and> hnTapName cfg = tapNameFromRunID runID \<and>
    (hnHostIP cfg, hnGuestIP cfg) = hostGuestIPs runID \<and>
    list_all2 (installs k) (network_steps (hnTapName cfg) (hnHostIP cfg) (hnGuestIP cfg) gw fwd) rss \<and>
    rules k w' = rules k w @ concat rss"
proof -
  obtain host guest where hg: "hostGuestIPs runID = (host, guest)" by fastforce
  let ?tap = "tapNameFromRunID runID"
  let ?new = "[''ip'', ''tuntap'', ''add'', ''dev'', ?tap, ''mode'', ''tap'', ''user'', itoa uid]"
  obtain fwd where r: "resolveForwardRulesWithLookup lookup allow = Inr fwd"
    using assms by (auto simp: setupHostNetworkWithDeps_def hg Let_def split: sum.splits)
  obtain w1 where ok: "run ?new w = (w1, None)"
    using assms by (auto simp: setupHostNetworkWithDeps_def hg r Let_def split: option.splits prod.splits)
  have st: "run_steps run batch (network_steps ?tap host guest gw fwd) [[''ip'', ''link'', ''del'', ?tap]] w1 = (w', Inr cl)"
    and cfg: "cfg = \<lparr>hnTapName = ?tap, hnHostIP = host, hnGuestIP = guest, hnPolicyResolveMS = durationMillisCeil took\<rparr>"
    using assms by (auto simp: setupHostNetworkWithDeps_def hg r ok Let_def split: prod.splits sum.splits)
  from steps_rules [OF st network_steps_undone, of k]
  obtain rss where "list_all2 (installs k) (network_steps ?tap host guest gw fwd) rss" "rules k w' = rules k w @ concat rss"
    using run_ok [OF ok, of k] by (auto simp: effect_def)
  then show ?thesis using r cfg hg by auto
qed

end

context undoing_host
begin

lemma setup_undone:
  assumes "setupHostNetworkWithDeps uid took runID allow gw lookup run batch w = (w', r)"
  shows "mset (rules k (case r of Inl e \<Rightarrow> w' | Inr (cfg, cl) \<Rightarrow> batch (rev cl) w')) = mset (rules k w)"
proof -
  obtain host guest where hg: "hostGuestIPs runID = (host, guest)" by fastforce
  let ?tap = "tapNameFromRunID runID"
  let ?del = "[''ip'', ''link'', ''del'', ?tap]" and ?new = "[''ip'', ''tuntap'', ''add'', ''dev'', ?tap, ''mode'', ''tap'', ''user'', itoa uid]"
  show ?thesis
  proof (cases "resolveForwardRulesWithLookup lookup allow")
    case (Inl e)
    then show ?thesis using assms by (auto simp: setupHostNetworkWithDeps_def hg Let_def)
  next
    case (Inr fwd)
    obtain w1 e where new: "run ?new w = (w1, e)" by fastforce
    have tap: "effect k (?new, True) (rules k w) = rules k w" by (simp add: effect_def)
    show ?thesis
    proof (cases e)
      case (Some err)
      then show ?thesis using assms new by (auto simp: setupHostNetworkWithDeps_def hg Inr run_failed Let_def)
    next
      case None
      obtain t2 r2 where st: "run_steps run batch (network_steps ?tap host guest gw fwd) [?del] w1 = (t2, r2)" by fastforce
      have "mset (rules k (case r2 of Inl e \<Rightarrow> t2 | Inr cl' \<Rightarrow> batch (rev cl') t2)) = mset (rules k w)"
        by (rule steps_undone [OF network_steps_undone _ _ st])
          (use run_ok [OF new [unfolded None], of k] in \<open>simp_all add: added_def undos_def removed_def tap\<close>)
      moreover have "w' = t2" "r = (case r2 of Inl e \<Rightarrow> Inl e | Inr cl \<Rightarrow> Inr (\<lparr>hnTapName = ?tap, hnHostIP = host, hnGuestIP = guest,
          hnPolicyResolveMS = durationMillisCeil took\<rparr>, cl))"
        using assms st None new by (auto simp: setupHostNetworkWithDeps_def hg Inr Let_def split: sum.splits)
      ultimately show ?thesis by (auto split: sum.splits)
    qed
  qed
qed

end

text \<open>The host that records the commands, and the one that runs them through \<open>sudo\<close> or the helper.\<close>

interpretation rec: filter_host "recorder exec" chain for exec
  by unfold_locales (auto simp: recorder_simps chain_record)

interpretation rec_undo: undoing_host "recorder exec" chain "recorder_batch (\<lambda>_ _. None)" for exec
proof unfold_locales
  fix cmds k w
  show "\<forall>u \<in> set cmds. added k u = [] \<Longrightarrow>
    mset (chain k (recorder_batch (\<lambda>_ _. None) cmds w)) = mset (chain k w) - mset (undos k cmds)"
  proof (induction cmds arbitrary: w)
    case (Cons c cs)
    have "recorder_batch (\<lambda>_ _. None) (c # cs) w = recorder_batch (\<lambda>_ _. None) cs (w @ [(c, True)])"
      by (simp add: recorder_batch_def recorder_def)
    with Cons show ?case by (simp add: chain_record effect_removed undos_def diff_diff_eq add.commute)
  qed (simp add: recorder_batch_def undos_def)
qed

definition processes :: "(trace \<Rightarrow> command \<Rightarrow> (string \<times> string) option) \<Rightarrow> command \<Rightarrow> trace \<Rightarrow> trace \<times> (string \<times> string) option" where
  "processes exec args tr = (tr @ [(args, exec tr args = None)], exec tr args)"

definition privileged_chain :: "FirecrackerConfig \<Rightarrow> string \<times> string \<Rightarrow> trace \<Rightarrow> command list" where
  "privileged_chain cfg k tr =
     chain k (map (\<lambda>(cmd, ok). (drop (if fst (resolvePrivilegedExecution cfg) = ''sudo'' then 2 else 3) cmd, ok)) tr)"

lemma runRootCommand_processes:
  "runRootCommand (processes exec) cfg args tr = (tr', None) \<Longrightarrow> privileged_chain cfg k tr' = effect k (args, True) (privileged_chain cfg k tr)"
  "runRootCommand (processes exec) cfg args tr = (tr', Some e) \<Longrightarrow> privileged_chain cfg k tr' = privileged_chain cfg k tr"
  by (auto simp: runRootCommand_def runCombinedCommand_def processes_def privileged_chain_def chain_record Let_def
      split: prod.splits if_splits option.splits)

interpretation root: filter_host "runRootCommand (processes exec) cfg" "privileged_chain cfg" for exec cfg
  by unfold_locales (auto intro: runRootCommand_processes)



section \<open>Which rules a policy gives\<close>

text \<open>The addresses a policy entry resolves to, and the rules that follow from a policy.\<close>

definition entry_ips :: "(string \<Rightarrow> string + ip list) \<Rightarrow> AllowRule \<Rightarrow> string set" where
  "entry_ips lookup entry = {ipv4_string a4 |a a4 ips. lookup (arHost entry) = Inr ips \<and> a \<in> set ips \<and> To4 a = Some a4}"

definition policy_rules :: "(string \<Rightarrow> string + ip list) \<Rightarrow> AllowRule list \<Rightarrow> iptablesForwardRule set" where
  "policy_rules lookup allow =
     {\<lparr>fwProtocol = proto, fwDestIP = i, fwDestPort = port\<rparr> |proto i port entry.
        proto \<in> {''tcp'', ''udp''} \<and> entry \<in> set allow \<and> i \<in> entry_ips lookup entry \<and> port \<in> set (arPorts entry)}"

definition rule_key_of :: "iptablesForwardRule \<Rightarrow> string" where
  "rule_key_of r = rule_key (fwProtocol r) (fwDestIP r) (fwDestPort r)"

definition acc_ok :: "rule_acc \<Rightarrow> bool" where
  "acc_ok = (\<lambda>(rules, seen). set seen = rule_key_of ` set rules \<and> (\<forall>r \<in> set rules. CHR ''|'' \<notin> set (fwProtocol r) \<and> CHR ''|'' \<notin> set (fwDestIP r)))"

lemma bar_not_digit: "\<not> is_digit CHR ''|''" by code_simp

lemma ipv4_no_bar: "CHR ''|'' \<notin> set (ipv4_string a)"
proof -
  have "CHR ''|'' \<notin> set (join ''.'' xs)" if "\<forall>x \<in> set xs. CHR ''|'' \<notin> set x" for xs
    using that by (induction xs rule: induct_list012) auto
  moreover have "CHR ''|'' \<notin> set (itoa (uint b))" for b :: "8 word"
    using itoa_nonneg_chars [of "uint b" "CHR ''|''"] bar_not_digit by auto
  ultimately show ?thesis unfolding ipv4_string_def by simp
qed

lemma rule_key_inj:
  assumes "rule_key p i n = rule_key p' i' n'" "CHR ''|'' \<notin> set p" "CHR ''|'' \<notin> set p'" "CHR ''|'' \<notin> set i" "CHR ''|'' \<notin> set i'"
  shows "p = p' \<and> i = i' \<and> n = n'"
proof -
  have c: "cut (rule_key p i n) CHR ''|'' = (p, i @ ''|'' @ itoa n, True)" if "CHR ''|'' \<notin> set p" for p i n
    using cut_at [OF that, of "i @ ''|'' @ itoa n"] by (simp add: rule_key_def)
  then have "p = p'" "i @ ''|'' @ itoa n = i' @ ''|'' @ itoa n'" using assms(1-3) by (metis prod.inject)+
  moreover have "cut (i @ ''|'' @ itoa n) CHR ''|'' = (i, itoa n, True)" if "CHR ''|'' \<notin> set i" for i n
    using cut_at [OF that, of "itoa n"] by simp
  ultimately show ?thesis using assms(4,5) by (metis itoa_inj prod.inject)
qed

lemma add_rule_ok:
  assumes "acc_ok acc" "CHR ''|'' \<notin> set proto" "CHR ''|'' \<notin> set i"
  shows "acc_ok (add_rule proto i port acc) \<and>
    set (fst (add_rule proto i port acc)) = insert \<lparr>fwProtocol = proto, fwDestIP = i, fwDestPort = port\<rparr> (set (fst acc))"
proof -
  obtain rules seen where acc: "acc = (rules, seen)" by (cases acc)
  let ?r = "\<lparr>fwProtocol = proto, fwDestIP = i, fwDestPort = port\<rparr>"
  show ?thesis
  proof (cases "rule_key proto i port \<in> set seen")
    case True
    with assms(1) obtain r where r: "r \<in> set rules" "rule_key_of r = rule_key proto i port" unfolding acc acc_ok_def by auto
    with assms have "r = ?r" using rule_key_inj [of "fwProtocol r" "fwDestIP r" "fwDestPort r" proto i port]
      unfolding acc acc_ok_def rule_key_of_def by (cases r) auto
    with True r assms(1) show ?thesis by (auto simp: acc add_rule_def Let_def)
  next
    case False
    with assms show ?thesis by (auto simp: acc add_rule_def Let_def acc_ok_def rule_key_of_def)
  qed
qed

lemma fold_add_ok:
  assumes "acc_ok acc" "\<And>x acc. x \<in> set xs \<Longrightarrow> acc_ok acc \<Longrightarrow> acc_ok (f x acc) \<and> set (fst (f x acc)) = set (fst acc) \<union> S x"
  shows "acc_ok (fold f xs acc) \<and> set (fst (fold f xs acc)) = set (fst acc) \<union> (\<Union>x \<in> set xs. S x)"
  using assms
proof (induction xs arbitrary: acc)
  case (Cons x xs)
  have "acc_ok (f x acc)" "set (fst (f x acc)) = set (fst acc) \<union> S x" using Cons.prems by auto
  with Cons.IH [of "f x acc"] Cons.prems(2) show ?case by auto
qed simp

definition ip_rules :: "string \<Rightarrow> int list \<Rightarrow> iptablesForwardRule set" where
  "ip_rules i ports = {\<lparr>fwProtocol = proto, fwDestIP = i, fwDestPort = port\<rparr> |proto port. proto \<in> {''tcp'', ''udp''} \<and> port \<in> set ports}"

lemma add_ip_ok:
  assumes "acc_ok acc"
  shows "acc_ok (add_ip ports a acc) \<and> set (fst (add_ip ports a acc)) =
    set (fst acc) \<union> (case To4 a of None \<Rightarrow> {} | Some a4 \<Rightarrow> ip_rules (ipv4_string a4) ports)"
proof (cases "To4 a")
  case (Some a4)
  let ?i = "ipv4_string a4"
  let ?g = "\<lambda>port. fold (\<lambda>proto. add_rule proto ?i port) [''tcp'', ''udp'']"
  have inner: "acc_ok (?g port acc) \<and> set (fst (?g port acc)) = set (fst acc) \<union> ip_rules ?i [port]" if "acc_ok acc" for port acc
  proof -
    have "acc_ok (?g port acc) \<and> set (fst (?g port acc)) =
        set (fst acc) \<union> (\<Union>proto \<in> set [''tcp'', ''udp'']. {\<lparr>fwProtocol = proto, fwDestIP = ?i, fwDestPort = port\<rparr>})"
      by (rule fold_add_ok [OF that]) (use add_rule_ok ipv4_no_bar in auto)
    then show ?thesis by (auto simp: ip_rules_def)
  qed
  have "acc_ok (fold ?g ports acc) \<and> set (fst (fold ?g ports acc)) = set (fst acc) \<union> (\<Union>port \<in> set ports. ip_rules ?i [port])"
    by (rule fold_add_ok [OF assms inner])
  then show ?thesis by (auto simp: Some add_ip_def ip_rules_def)
qed (use assms in \<open>simp add: add_ip_def\<close>)

lemma resolve_entries_ok:
  assumes "resolve_entries lookup allow acc = Inr acc'" "acc_ok acc"
  shows "acc_ok acc' \<and> set (fst acc') = set (fst acc) \<union> policy_rules lookup allow"
  using assms
proof (induction allow arbitrary: acc)
  case Nil
  then show ?case by (simp add: policy_rules_def)
next
  case (Cons entry rest)
  then obtain ips where ips: "lookup (arHost entry) = Inr ips" "ips \<noteq> []"
    "resolve_entries lookup rest (fold (add_ip (arPorts entry)) ips acc) = Inr acc'"
    by (auto split: sum.splits if_splits)
  let ?acc = "fold (add_ip (arPorts entry)) ips acc"
  have a: "acc_ok ?acc \<and> set (fst ?acc) = set (fst acc) \<union>
      (\<Union>a \<in> set ips. case To4 a of None \<Rightarrow> {} | Some a4 \<Rightarrow> ip_rules (ipv4_string a4) (arPorts entry))"
    by (rule fold_add_ok [OF Cons.prems(2)]) (rule add_ip_ok)
  have "(\<Union>a \<in> set ips. case To4 a of None \<Rightarrow> {} | Some a4 \<Rightarrow> ip_rules (ipv4_string a4) (arPorts entry)) = policy_rules lookup [entry]"
    using ips(1) unfolding policy_rules_def entry_ips_def ip_rules_def by (fastforce split: option.splits)
  moreover have "policy_rules lookup (entry # rest) = policy_rules lookup [entry] \<union> policy_rules lookup rest"
    unfolding policy_rules_def by auto
  ultimately show ?case using Cons.IH [OF ips(3)] a by auto
qed

lemma resolveForwardRules_set:
  "resolveForwardRulesWithLookup lookup allow = Inr rules \<Longrightarrow> set rules = policy_rules lookup allow"
  using resolve_entries_ok [of lookup allow "([], [])"] by (auto simp: resolveForwardRulesWithLookup_def acc_ok_def)

section \<open>Packets\<close>

record packet =
  pkIn :: string
  pkOut :: string
  pkProto :: string
  pkSrc :: string
  pkDst :: string
  pkDport :: int
  pkEstablished :: bool

definition iface_match :: "string \<Rightarrow> string \<Rightarrow> bool" where
  "iface_match pat i = (if pat \<noteq> [] \<and> last pat = CHR ''+'' then prefix (butlast pat) i else i = pat)"

definition opt_match :: "string \<Rightarrow> string \<Rightarrow> packet \<Rightarrow> bool" where
  "opt_match opt v p =
     (if opt = ''-i'' then iface_match v (pkIn p)
      else if opt = ''-o'' then iface_match v (pkOut p)
      else if opt = ''-p'' then pkProto p = v
      else if opt = ''-s'' then pkSrc p = v
      else if opt = ''-d'' then pkDst p = v
      else if opt = ''--dport'' then itoa (pkDport p) = v
      else if opt = ''--ctstate'' \<or> opt = ''--state'' then pkEstablished p
      else opt = ''-m'')"

text \<open>The target of a rule that matches a packet.\<close>

fun rule_target :: "command \<Rightarrow> packet \<Rightarrow> string option" where
  "rule_target (opt # v # rest) p =
     (if opt = ''-j'' then Some v
      else if opt = ''!'' then
        (case rest of [] \<Rightarrow> None | x # rest' \<Rightarrow> if opt_match v x p then None else rule_target rest' p)
      else if opt_match opt v p then rule_target rest p else None)"
| "rule_target _ p = None"

definition verdict :: "command list \<Rightarrow> packet \<Rightarrow> string option" where
  "verdict rules p = (case List.map_filter (\<lambda>r. rule_target r p) rules of [] \<Rightarrow> None | t # _ \<Rightarrow> Some t)"

lemma verdict_Nil [simp]: "verdict [] p = None"
  by (simp add: verdict_def)

lemma verdict_Cons [simp]: "verdict (r # rs) p = (case rule_target r p of None \<Rightarrow> verdict rs p | Some t \<Rightarrow> Some t)"
  by (simp add: verdict_def List.map_filter_simps split: option.split)

lemma verdict_append: "verdict (rs @ rs') p = (case verdict rs p of None \<Rightarrow> verdict rs' p | Some t \<Rightarrow> Some t)"
  by (induction rs) (auto split: option.split)

lemma is_alnum_lower: "is_alnum c \<Longrightarrow> is_alnum (lower_char c)"
  by (auto simp: is_alnum_def lower_char_def less_eq_char_def split: if_splits)

lemma tapName_chars: "c \<in> set (tapNameFromRunID runID) \<Longrightarrow> is_alnum c"
proof -
  have l: "\<forall>c \<in> set (to_lower (filter is_alnum runID)). is_alnum c" by (auto simp: to_lower_def is_alnum_lower)
  have "\<forall>c \<in> set ''crcleanroomtap''. is_alnum c" by code_simp
  moreover have "set (tapNameFromRunID runID) \<subseteq> set ''crcleanroomtap'' \<union> set (to_lower (filter is_alnum runID))"
    unfolding tapNameFromRunID_def Let_def using set_drop_subset [of _ "to_lower (filter is_alnum runID)"] by auto
  ultimately show "c \<in> set (tapNameFromRunID runID) \<Longrightarrow> is_alnum c" using l by blast
qed

lemma tapName_length: "length (tapNameFromRunID runID) \<le> 15"
  by (auto simp: tapNameFromRunID_def Let_def)

lemma tapName_prefix: "prefix ''cr'' (tapNameFromRunID runID)"
  by (simp add: tapNameFromRunID_def Let_def prefix_def)

lemma tapName_ne: "tapNameFromRunID runID \<noteq> []"
  by (simp add: tapNameFromRunID_def Let_def)

lemma iface_tap [simp]: "iface_match (tapNameFromRunID runID) i \<longleftrightarrow> i = tapNameFromRunID runID"
proof -
  have "\<not> is_alnum CHR ''+''" by code_simp
  then have "last (tapNameFromRunID runID) \<noteq> CHR ''+''"
    using tapName_chars [of "last (tapNameFromRunID runID)" runID] last_in_set [OF tapName_ne, of runID] by auto
  then show ?thesis by (simp add: iface_match_def)
qed

section \<open>The firewall of a sandbox\<close>

definition forward_spec :: "string \<Rightarrow> iptablesForwardRule \<Rightarrow> command" where
  "forward_spec tap r = [''-i'', tap, ''-p'', fwProtocol r, ''-d'', fwDestIP r, ''--dport'', itoa (fwDestPort r), ''-j'', ''ACCEPT'']"

lemma forward_target:
  "rule_target (forward_spec (tapNameFromRunID runID) r) p =
     (if pkIn p = tapNameFromRunID runID \<and> pkProto p = fwProtocol r \<and> pkDst p = fwDestIP r \<and> pkDport p = fwDestPort r
      then Some ''ACCEPT'' else None)"
  by (simp add: forward_spec_def opt_match_def)

lemma verdict_forward_specs:
  "verdict (map (forward_spec (tapNameFromRunID runID)) rules) p =
     (if pkIn p = tapNameFromRunID runID \<and> (\<exists>r \<in> set rules. pkProto p = fwProtocol r \<and> pkDst p = fwDestIP r \<and> pkDport p = fwDestPort r)
      then Some ''ACCEPT'' else None)"
  by (induction rules) (auto simp: forward_target)

text \<open>The rules that the steps of the set-up append to the two chains of the filter table.\<close>

lemma installs_forward:
  assumes "list_all2 (installs (''filter'', ''FORWARD'')) (network_steps tap host guest gw rules) rss"
  shows "\<exists>m f. f \<in> {''--ctstate'', ''--state''} \<and> concat rss =
    [''-o'', tap, ''-m'', m, f, ''RELATED,ESTABLISHED'', ''-j'', ''ACCEPT''] #
    map (forward_spec tap) (\<lparr>fwProtocol = ''udp'', fwDestIP = dnsServer, fwDestPort = 53\<rparr> #
      \<lparr>fwProtocol = ''tcp'', fwDestIP = dnsServer, fwDestPort = 53\<rparr> # rules) @
    [[''-i'', tap, ''-j'', ''DROP'']]"
proof -
  have r: "concat rs = map (forward_spec tap) rules"
    if "list_all2 (installs (''filter'', ''FORWARD'')) (map (forward_step tap) rules) rs" for rs
    using that by (induction rules arbitrary: rs)
      (auto simp: list_all2_Cons1 forward_step_def ipt_step_def added_def forward_spec_def)
  have i: "itoa 53 = ''53''" by code_simp
  show ?thesis
    using assms unfolding network_steps_def
    by (cases "gw > 0") (auto simp: list_all2_Cons1 list_all2_append1 ipt_step_def added_def return_path_rule_def forward_spec_def i dest!: r)
qed

lemma installs_input:
  assumes "list_all2 (installs (''filter'', ''INPUT'')) (network_steps tap host guest gw rules) rss"
  shows "concat rss = [[''-i'', tap, ''!'', ''-s'', guest, ''-j'', ''DROP'']] @
    (if gw > 0 then [[''-i'', tap, ''-s'', guest, ''-p'', ''tcp'', ''--dport'', itoa gw, ''-j'', ''ACCEPT'']] else []) @
    [[''-i'', tap, ''-j'', ''DROP'']]"
proof -
  have r: "concat rs = []" if "list_all2 (installs (''filter'', ''INPUT'')) (map (forward_step tap) rules) rs" for rs
    using that by (induction rules arbitrary: rs) (auto simp: list_all2_Cons1 forward_step_def ipt_step_def added_def)
  show ?thesis
    using assms unfolding network_steps_def
    by (cases "gw > 0") (auto simp: list_all2_Cons1 list_all2_append1 ipt_step_def added_def return_path_rule_def dest!: r)
qed

lemma policy_rules_match:
  "(\<exists>r \<in> policy_rules lookup allow. proto = fwProtocol r \<and> dst = fwDestIP r \<and> port = fwDestPort r) \<longleftrightarrow>
   proto \<in> {''tcp'', ''udp''} \<and> (\<exists>entry \<in> set allow. dst \<in> entry_ips lookup entry \<and> port \<in> set (arPorts entry))" (is "?l \<longleftrightarrow> ?r")
proof
  assume ?l
  then show ?r unfolding policy_rules_def by auto
next
  assume ?r
  then have "\<lparr>fwProtocol = proto, fwDestIP = dst, fwDestPort = port\<rparr> \<in> policy_rules lookup allow" unfolding policy_rules_def by blast
  then show ?l by (metis iptablesForwardRule.select_convs)
qed

lemma setup_chain:
  assumes "setupHostNetworkWithDeps uid took runID allow gw lookup (recorder exec) batch tr = (tr', Inr (cfg, cl))"
  shows "\<exists>rules rss. set rules = policy_rules lookup allow \<and> hnTapName cfg = tapNameFromRunID runID \<and>
    list_all2 (installs k) (network_steps (hnTapName cfg) (hnHostIP cfg) (hnGuestIP cfg) gw rules) rss \<and>
    chain k tr' = chain k tr @ concat rss"
  using rec.setup_rules [OF assms, of k] resolveForwardRules_set by blast



definition demo_fc :: FirecrackerConfig where
  "demo_fc = \<lparr>fcBinaryPath = [], fcKernelImagePath = [], fcRootFSPath = [], fcDockerStartupSeconds = 0, fcDockerStorageDriver = ''overlay2 init=/bin/sh'',
     fcDockerIPTables = False, fcPrivilegedMode = [], fcPrivilegedHelperPath = [], fcRunDir = [], fcVCPUs = 0, fcMemoryMiB = 0, fcGuestCID = 0,
     fcGuestPort = 0, fcLaunch = True, fcLaunchSeconds = 0\<rparr>"



section \<open>Kernel arguments and the guest's identity\<close>

lemma sanitize_no_space: "c \<in> set (sanitizeKernelArgValue v) \<Longrightarrow> c \<noteq> CHR '' ''"
  by (auto simp: sanitizeKernelArgValue_def is_alnum_def less_eq_char_def)

lemma itoa_no_space: "CHR '' '' \<notin> set (itoa i)"
proof -
  have "\<not> (is_digit CHR '' '' \<or> CHR '' '' = CHR ''-'')" by code_simp
  then show ?thesis using itoa_chars by blast
qed

text \<open>No configured value can add a kernel argument: with Docker required the boot arguments are exactly four
  space-separated words, one for each parameter, whatever the configuration says.\<close>

theorem dockerServiceBootArgs_words:
  assumes "RequiresDockerService policy"
  shows "\<exists>d. d \<noteq> [] \<and> split_on CHR '' '' (dockerServiceBootArgs policy cfg) =
    [''cleanroom_service_docker_required=1'',
     ''cleanroom_service_docker_startup_timeout='' @ itoa (if fcDockerStartupSeconds cfg \<le> 0 then 20 else fcDockerStartupSeconds cfg),
     ''cleanroom_service_docker_storage_driver='' @ d,
     ''cleanroom_service_docker_iptables='' @ itoa (if fcDockerIPTables cfg then 1 else 0)]"
proof -
  let ?s = "itoa (if fcDockerStartupSeconds cfg \<le> 0 then 20 else fcDockerStartupSeconds cfg)"
  let ?v = "sanitizeKernelArgValue (trim_space (fcDockerStorageDriver cfg))"
  let ?d = "if ?v = [] then ''vfs'' else ?v"
  let ?i = "itoa (if fcDockerIPTables cfg then 1 else 0)"
  let ?words = "[''cleanroom_service_docker_required=1'', ''cleanroom_service_docker_startup_timeout='' @ ?s,
     ''cleanroom_service_docker_storage_driver='' @ ?d, ''cleanroom_service_docker_iptables='' @ ?i]"
  have d: "CHR '' '' \<notin> set ?d" using sanitize_no_space by auto
  have "dockerServiceBootArgs policy cfg = join '' '' ?words"
    using assms by (simp add: dockerServiceBootArgs_def Let_def)
  moreover have "\<forall>w \<in> set ?words. CHR '' '' \<notin> set w" using d itoa_no_space by simp
  ultimately have "split_on CHR '' '' (dockerServiceBootArgs policy cfg) = ?words" using split_on_join [of ?words "CHR '' ''"] by simp
  then show ?thesis by (intro exI [of _ ?d]) simp
qed

theorem dockerServiceBootArgs_words_witness:
  "\<exists>p d. RequiresDockerService p \<and> d \<noteq> [] \<and> split_on CHR '' '' (dockerServiceBootArgs p demo_fc) =
    [''cleanroom_service_docker_required=1'', ''cleanroom_service_docker_startup_timeout='' @ itoa 20,
     ''cleanroom_service_docker_storage_driver='' @ d, ''cleanroom_service_docker_iptables='' @ itoa 0]"
proof -
  let ?p = "Some \<lparr>cpVersion = 1, cpImageRef = [], cpImageDigest = [], cpServices = \<lparr>svDocker = \<lparr>dsRequired = True\<rparr>\<rparr>, cpNetworkDefault = ''deny'', cpAllow = [], cpHash = []\<rparr>"
  have "RequiresDockerService ?p" by (simp add: RequiresDockerService_def)
  from dockerServiceBootArgs_words [OF this, of demo_fc] this show ?thesis by (auto simp: demo_fc_def)
qed

text \<open>The identifiers the host derives for a guest are valid: the name of the tap device is short enough for
  an interface, alphanumeric and in the gateway's interface pattern \<open>cr+\<close>, and a random context identifier
  lies in the range a guest may use.\<close>

lemma guest_identifiers_valid:
  "length (tapNameFromRunID runID) \<le> 15 \<and> (\<forall>c \<in> set (tapNameFromRunID runID). is_alnum c) \<and>
   iface_match ''cr+'' (tapNameFromRunID runID) \<and>
   3 \<le> randomGuestCID buf \<and> randomGuestCID buf \<le> 0xFFFFFFFD"
proof -
  have mod: "c mod 0xFFFFFFFB + 3 \<ge> 3 \<and> c mod 0xFFFFFFFB + 3 \<le> 0xFFFFFFFD" for c :: "32 word"
  proof -
    have "unat (c mod 0xFFFFFFFB) < 0xFFFFFFFB" by (simp add: unat_mod_distrib)
    then have "unat (c mod 0xFFFFFFFB + 3) = unat (c mod 0xFFFFFFFB) + 3" by (simp add: unat_add_lem [THEN iffD1])
    then show ?thesis using \<open>unat (c mod 0xFFFFFFFB) < 0xFFFFFFFB\<close> by (simp add: word_le_nat_alt)
  qed
  have "3 \<le> randomGuestCID buf \<and> randomGuestCID buf \<le> 0xFFFFFFFD"
    using mod by (auto simp: randomGuestCID_def Let_def split: option.split)
  moreover have "iface_match ''cr+'' (tapNameFromRunID runID)" using tapName_prefix by (simp add: iface_match_def)
  ultimately show ?thesis using tapName_length tapName_chars by blast
qed

end
