(* ===== verification/Firecracker_Launch.thy ===== *)
theory Firecracker_Launch
  imports Firecracker_Host Firecracker_Net_Props
begin

text \<open>
  That a launch which fails gives back what it took (rules of the firewall, the registration in the gateway,
  the virtual machine, the run directory), and what a launch which succeeds has set up.
\<close>

section \<open>Actions on files\<close>

text \<open>Actions on files leave the registry, the machines and the privileged state alone.\<close>

definition devices :: "'n fc_host \<Rightarrow> Registry option \<times> string list \<times> 'n" where
  "devices h = (fhRegistry h, fhVMs h, fhNet h)"

definition files_only :: "('n, 'a) act \<Rightarrow> bool" where
  "files_only m \<longleftrightarrow> (\<forall>h. devices (fst (m h)) = devices h)"

lemma files_onlyD: "files_only m \<Longrightarrow> m h = (h', r) \<Longrightarrow> devices h' = devices h"
  unfolding files_only_def by (metis fst_conv)

lemma devices_files [simp]:
  "devices (put_file p c h) = devices h" "devices (remove_file p h) = devices h" "devices (remove_all d h) = devices h"
  "devices (make_dir d h) = devices h"
  by (simp_all add: devices_def put_file_def remove_file_def remove_all_def make_dir_def)

lemma files_only_basic [simp]: "files_only (ret x)" "files_only (throw e)" "files_only (lift_res r)" "files_only (stat os p)"
  by (simp_all add: files_only_def ret_def throw_def lift_res_def stat_def split: option.split)

lemma files_only_call [simp]: "(\<And>h. devices (eff h) = devices h) \<Longrightarrow> files_only (call os c eff)"
  by (simp add: files_only_def call_def split: option.split)

lemma files_only_bind [simp]: "files_only m \<Longrightarrow> (\<And>x. files_only (f x)) \<Longrightarrow> files_only (bind_act m f)"
  unfolding files_only_def bind_act_def by (auto split: prod.splits sum.splits) (metis fst_conv)+

lemma files_only_on_error [simp]: "files_only m \<Longrightarrow> (\<And>h. devices (c h) = devices h) \<Longrightarrow> files_only (on_error c m)"
  unfolding files_only_def on_error_def by (auto split: prod.splits sum.splits) (metis fst_conv)+

lemma files_only_wrap [simp]: "files_only m \<Longrightarrow> files_only (wrap c m)"
  unfolding files_only_def wrap_def by (auto split: prod.splits sum.splits) (metis fst_conv)+

lemma files_only_if [simp]: "files_only a \<Longrightarrow> files_only b \<Longrightarrow> files_only (if c then a else b)"
  by simp

lemma files_only_must_exist [simp]: "files_only (must_exist os p)"
  unfolding must_exist_def by simp

lemma files_only_writeJSON [simp]: "files_only (writeJSON os p v)"
  unfolding writeJSON_def by simp

lemma files_only_case_get: "(\<And>c. files_only (g c)) \<Longrightarrow> files_only (\<lambda>h. case get (fhFiles h) p of None \<Rightarrow> throw e h | Some c \<Rightarrow> g c h)"
  by (simp add: files_only_def throw_def split: option.split)

lemma files_only_copyFile [simp]: "files_only (copyFile os src dst)"
  unfolding copyFile_def
  by (intro files_only_bind files_only_case_get files_only_if) simp_all

section \<open>Preparing the root file system\<close>

text \<open>Commands other than \<open>iptables\<close> change no chain.\<close>

definition keeps_rules :: "(string \<times> string \<Rightarrow> 'n \<Rightarrow> command list) \<Rightarrow> ('n, 'a) act \<Rightarrow> bool" where
  "keeps_rules rules m \<longleftrightarrow>
     (\<forall>h. fhRegistry (fst (m h)) = fhRegistry h \<and> fhVMs (fst (m h)) = fhVMs h \<and> (\<forall>k. rules k (fhNet (fst (m h))) = rules k (fhNet h)))"

lemma keeps_rulesD:
  "keeps_rules rules m \<Longrightarrow> m h = (h', r) \<Longrightarrow> fhRegistry h' = fhRegistry h \<and> fhVMs h' = fhVMs h \<and> (\<forall>k. rules k (fhNet h') = rules k (fhNet h))"
  unfolding keeps_rules_def by (metis fst_conv)

lemma keeps_rules_at: "keeps_rules rules m \<Longrightarrow> m h = (h', r) \<Longrightarrow> rules k (fhNet h') = rules k (fhNet h)"
  by (drule (1) keeps_rulesD) blast

lemma keeps_files_only [intro]: "files_only m \<Longrightarrow> keeps_rules rules m"
  unfolding files_only_def keeps_rules_def devices_def by auto

lemma keeps_bind: "keeps_rules rules m \<Longrightarrow> (\<And>x. keeps_rules rules (f x)) \<Longrightarrow> keeps_rules rules (bind_act m f)"
  unfolding keeps_rules_def bind_act_def by (auto split: prod.splits sum.splits) (metis fst_conv)+

lemma keeps_wrap: "keeps_rules rules m \<Longrightarrow> keeps_rules rules (wrap c m)"
  unfolding keeps_rules_def wrap_def by (auto split: prod.splits sum.splits) (metis fst_conv)+

lemma keeps_on_error:
  "keeps_rules rules m \<Longrightarrow> keeps_rules rules (\<lambda>h. (c h, Inr ())) \<Longrightarrow> keeps_rules rules (on_error c m)"
  unfolding keeps_rules_def on_error_def by (auto split: prod.splits sum.splits) (metis fst_conv)+

context filter_host
begin

lemma keeps_root:
  assumes "\<And>k. added k args = []" "\<And>k. removed k args = []"
  shows "keeps_rules rules (root_act run args)"
proof -
  have "rules k n' = rules k n" if "run args n = (n', r)" for k n n' r
    using that run_ok [of args n n' k] run_failed [of args n n' _ k] effect_added [OF assms(2)] assms(1) by (cases r) auto
  then show ?thesis
    unfolding keeps_rules_def root_act_def by (auto split: prod.splits option.splits)
qed

end

lemma mount_unchanged:
  "c \<in> {''mount'', ''umount'', ''mkdir'', ''install''} \<Longrightarrow> added k (c # r) = []"
  "c \<in> {''mount'', ''umount'', ''mkdir'', ''install''} \<Longrightarrow> removed k (c # r) = []"
  by (auto simp: added_def removed_def change_def split: list.splits)

lemma keeps_after_remove:
  "keeps_rules rules m \<Longrightarrow> keeps_rules rules (\<lambda>h. case m h of (h', r) \<Rightarrow> (remove_file p h', r))"
  unfolding keeps_rules_def remove_file_def by (auto split: prod.splits) (metis fst_conv)+

context filter_host
begin

lemma keeps_install:
  assumes bg: "filter_host runBg rules"
  shows "keeps_rules rules (installGuestRuntimeIntoRootFS os run runBg mountDir script rootFS agent)"
proof -
  note K = keeps_root [OF mount_unchanged]
  let ?inner = "\<lambda>path h. case bind_act (wrap ''prepare runtime directories in mounted rootfs''
       (root_act run [''mkdir'', ''-p'', path_join [mountDir, ''usr/local/bin''], path_join [mountDir, ''sbin'']])) (\<lambda>_.
     bind_act (wrap ''install guest agent into mounted rootfs''
       (root_act run [''install'', ''-m'', ''0755'', agent, path_join [mountDir, ''usr/local/bin/cleanroom-guest-agent'']])) (\<lambda>_.
     bind_act (wrap ''install cleanroom init into mounted rootfs''
       (root_act run [''install'', ''-m'', ''0755'', path, path_join [mountDir, ''sbin/cleanroom-init'']])) (\<lambda>_.
     wrap ''unmount prepared rootfs image'' (root_act run [''umount'', mountDir])))) h of (h', r) \<Rightarrow> (remove_file path h', r)"
  have inner: "keeps_rules rules (?inner path)" for path
    by (intro keeps_after_remove keeps_bind keeps_wrap K) simp_all
  have umount: "keeps_rules rules (root_act runBg [''umount'', mountDir])"
    by (rule filter_host.keeps_root [OF bg mount_unchanged]) simp_all
  have script: "keeps_rules rules (createGuestInitScript os script)"
    unfolding createGuestInitScript_def by (intro keeps_files_only) simp
  have body: "keeps_rules rules (on_error (\<lambda>h. fst (root_act runBg [''umount'', mountDir] h)) (bind_act (createGuestInitScript os script) ?inner))"
    using umount by (intro keeps_on_error keeps_bind script inner) (simp add: keeps_rules_def)
  have mount: "keeps_rules rules (wrap ''mount rootfs image for runtime preparation'' (root_act run [''mount'', ''-o'', ''loop'', rootFS, mountDir]))"
    by (intro keeps_wrap K) simp_all
  have rm: "fhRegistry (remove_all mountDir h) = fhRegistry h" "fhVMs (remove_all mountDir h) = fhVMs h" "fhNet (remove_all mountDir h) = fhNet h"
    and mk: "fhRegistry (make_dir mountDir h) = fhRegistry h" "fhVMs (make_dir mountDir h) = fhVMs h" "fhNet (make_dir mountDir h) = fhNet h"
    for h :: "'w fc_host" by (simp_all add: remove_all_def make_dir_def)
  show ?thesis
    unfolding keeps_rules_def
  proof
    fix h :: "'w fc_host"
    let ?I = "installGuestRuntimeIntoRootFS os run runBg mountDir script rootFS agent h"
    show "fhRegistry (fst ?I) = fhRegistry h \<and> fhVMs (fst ?I) = fhVMs h \<and> (\<forall>k. rules k (fhNet (fst ?I)) = rules k (fhNet h))"
    proof (cases "os MkdirTemp")
      case (Some e)
      then show ?thesis by (simp add: installGuestRuntimeIntoRootFS_def call_def)
    next
      case None
      obtain h1 r1 where m: "wrap ''mount rootfs image for runtime preparation'' (root_act run [''mount'', ''-o'', ''loop'', rootFS, mountDir]) (make_dir mountDir h) = (h1, r1)"
        by fastforce
      obtain h2 r2 where b: "(case r1 of Inl e \<Rightarrow> (h1, Inl e) | Inr _ \<Rightarrow>
          on_error (\<lambda>h. fst (root_act runBg [''umount'', mountDir] h)) (bind_act (createGuestInitScript os script) ?inner) h1) = (h2, r2)"
        by fastforce
      have I: "?I = (remove_all mountDir h2, r2)"
        unfolding installGuestRuntimeIntoRootFS_def call_def None option.case prod.case sum.case m Let_def b ..
      have "fhRegistry h2 = fhRegistry h1 \<and> fhVMs h2 = fhVMs h1 \<and> (\<forall>k. rules k (fhNet h2) = rules k (fhNet h1))"
        using b keeps_rulesD [OF body] by (cases r1) auto
      with keeps_rulesD [OF mount m] show ?thesis by (simp add: I rm mk)
    qed
  qed
qed

end

lemma keeps_rename:
  "keeps_rules rules (\<lambda>h. case os (Rename t p) of
     None \<Rightarrow> (remove_file t (put_file p (case get (fhFiles h) t of None \<Rightarrow> [] | Some c \<Rightarrow> c) h), Inr p)
   | Some e \<Rightarrow> (let h' = remove_file t h in
       if os (Stat p) = None \<and> exists_file p h' then (h', Inr p) else (h', Inl (msg e))))"
  by (auto simp: keeps_rules_def remove_file_def put_file_def Let_def split: option.split)

lemma keeps_remove [simp]: "keeps_rules rules (\<lambda>h. (remove_file p h, Inr ()))"
  by (simp add: keeps_rules_def remove_file_def)

lemma keeps_simple [simp, intro]: "keeps_rules rules (ret x)" "keeps_rules rules (throw e)" "keeps_rules rules (lift_res r)"
  "keeps_rules rules (stat os p)" "keeps_rules rules (must_exist os p)" "keeps_rules rules (copyFile os a b)"
  "keeps_rules rules (call os c (make_dir d))"
  by (rule keeps_files_only, simp)+

lemma keeps_if: "keeps_rules rules a \<Longrightarrow> keeps_rules rules b \<Longrightarrow> keeps_rules rules (if c then a else b)"
  by simp

context filter_host
begin

lemma keeps_prepare:
  assumes bg: "filter_host runBg rules"
  shows "keeps_rules rules (ensurePreparedRuntimeRootFS os run runBg mountDir script id cacheBase agent nanos img)"
  unfolding ensurePreparedRuntimeRootFS_def Let_def id_apply split_def
  by (intro keeps_if keeps_bind keeps_wrap keeps_on_error keeps_install [OF bg] keeps_rename [unfolded Let_def] keeps_simple keeps_remove)

end

section \<open>Booting the machine\<close>

lemma call_StartVM_Inr:
  "call os c eff h = (h', Inr y) \<longleftrightarrow> os c = None \<and> h' = eff h" "call os c eff h = (h', Inl e) \<longleftrightarrow> os c = Some e \<and> h' = h"
  by (auto simp: call_def split: option.splits)

lemma start_vm_ok:
  assumes "start_vm d runDir cfgPath config h = (h', Inr process)"
  shows "fhRegistry h' = fhRegistry h" "fhNet h' = fhNet h" "fhVMs h' = process # fhVMs h"
proof -
  let ?os = "ldOS d" and ?out = "path_join [runDir, ''firecracker.stdout.log'']" and ?err = "path_join [runDir, ''firecracker.stderr.log'']"
  have f: "files_only (bind_act (writeJSON ?os cfgPath config) (\<lambda>_. bind_act (call ?os (Create ?out) (put_file ?out [])) (\<lambda>_. call ?os (Create ?err) (put_file ?err []))))"
    by simp
  obtain h3 u where h3: "bind_act (writeJSON ?os cfgPath config) (\<lambda>_. bind_act (call ?os (Create ?out) (put_file ?out [])) (\<lambda>_. call ?os (Create ?err) (put_file ?err []))) h = (h3, Inr u)"
    and h': "h' = h3\<lparr>fhVMs := process # fhVMs h3\<rparr>"
    using assms by (auto simp: start_vm_def Let_def outcomes call_StartVM_Inr ret_def)
  from files_onlyD [OF f h3] show "fhRegistry h' = fhRegistry h" "fhNet h' = fhNet h" "fhVMs h' = process # fhVMs h"
    by (simp_all add: h' devices_def)
qed

lemma start_vm_failed:
  assumes "start_vm d runDir cfgPath config h = (h', Inl e)"
  shows "devices h' = devices h"
proof -
  let ?os = "ldOS d" and ?out = "path_join [runDir, ''firecracker.stdout.log'']" and ?err = "path_join [runDir, ''firecracker.stderr.log'']"
  have w: "writeJSON ?os cfgPath config h0 = (h1, r) \<Longrightarrow> devices h1 = devices h0" for h0 h1 :: "'a fc_host" and r
    using files_onlyD [OF files_only_writeJSON] .
  have c: "call ?os (Create p) (put_file p []) h0 = (h1, r) \<Longrightarrow> devices h1 = devices h0" for h0 h1 :: "'a fc_host" and p and r :: "string + unit"
    by (erule files_onlyD [rotated]) simp
  show ?thesis
    using assms unfolding start_vm_def Let_def
    by (auto simp: outcomes ret_def call_StartVM_Inr(2) [of _ "StartVM _"] dest!: w c)
qed

lemma launch_boot_failed:
  assumes "launch_boot d sid compiled cfg runDir rootfs kernelPath img (net, cl) h = (h', Inl e)"
  shows "fhVMs h' = fhVMs h" "fhRegistry h' = map_option (Release (hnGuestIP net)) (fhRegistry h)"
    "fhNet h' = ldCleanup d (rev cl) (fhNet h)"
proof -
  let ?start = "start_vm d runDir (path_join [runDir, ''firecracker-config.json''])
    (config_json (vm_config sid kernelPath rootfs (path_join [runDir, ''vsock.sock'']) net compiled cfg)) h"
  obtain h1 where h': "h' = remove_file rootfs (run_cleanup d cl (release_registration (hnGuestIP net) h1))"
    and or: "?start = (h1, Inl e) \<or> (\<exists>h2 p. ?start = (h2, Inr p) \<and> h1 = stopVM (Some p) h2)"
    using assms unfolding launch_boot_def Let_def prod.case by (auto simp: outcomes lift_res_def ret_def)
  from or have h1: "devices h1 = devices h"
  proof
    assume "\<exists>h2 p. ?start = (h2, Inr p) \<and> h1 = stopVM (Some p) h2"
    then obtain h2 p where "?start = (h2, Inr p)" "h1 = stopVM (Some p) h2" by blast
    with start_vm_ok [OF this(1)] show ?thesis by (simp add: stopVM_def devices_def)
  qed (rule start_vm_failed)
  from h1 show "fhVMs h' = fhVMs h" "fhRegistry h' = map_option (Release (hnGuestIP net)) (fhRegistry h)"
    "fhNet h' = ldCleanup d (rev cl) (fhNet h)"
    by (simp_all add: h' remove_file_def run_cleanup_def release_registration_def devices_def)
qed

lemma launch_boot_ok:
  assumes "launch_boot d sid compiled cfg runDir rootfs kernelPath img (net, cl) h = (h', Inr i)"
  shows "fhRegistry h' = fhRegistry h" "fhNet h' = fhNet h" "\<exists>p. siProcess i = Some p \<and> fhVMs h' = p # fhVMs h"
    "siSandboxID i = sid" "siGuestIP i = hnGuestIP net" "siCleanupNetwork i = Some cl" "siRunDir i = runDir" "siPolicy i = Some compiled"
    "siExitReady i = False"
  using assms unfolding launch_boot_def Let_def prod.case
  by (auto simp: outcomes lift_res_def ret_def dest: start_vm_ok)

section \<open>The launch as a whole\<close>

lemma register_act_cases:
  assumes "register_act ip sid compiled h = (h', r)"
  shows "(\<exists>e. r = Inl e \<and> h' = h) \<or>
    (r = Inr () \<and> fhVMs h' = fhVMs h \<and> fhNet h' = fhNet h \<and>
     (case fhRegistry h of None \<Rightarrow> fhRegistry h' = None
      | Some g \<Rightarrow> \<exists>g'. fhRegistry h' = Some g' \<and> Register ip sid compiled g = Inr g'))"
  using assms by (auto simp: register_act_def split: option.splits sum.splits)

text \<open>The registry resolves guest addresses as before.\<close>

definition same_registry :: "Registry option \<Rightarrow> Registry option \<Rightarrow> bool" where
  "same_registry a b = (case (a, b) of (None, None) \<Rightarrow> True | (Some r, Some r') \<Rightarrow> Lookup r' = Lookup r | _ \<Rightarrow> False)"

lemma same_registry_refl [simp]: "same_registry a a"
  by (simp add: same_registry_def split: option.split)

lemma same_registry_trans: "same_registry a b \<Longrightarrow> same_registry b c \<Longrightarrow> same_registry a c"
  by (simp add: same_registry_def split: option.splits)

context undoing_host
begin

lemma launch_network_failed:
  assumes "launch_network d gp sid compiled cfg runDir rootfs kernelPath img h = (h', Inl e)"
    and "ldRun d = run" "ldCleanup d = batch"
  shows "fhVMs h' = fhVMs h \<and> same_registry (fhRegistry h) (fhRegistry h') \<and> mset (rules k (fhNet h')) = mset (rules k (fhNet h))"
proof -
  define gw where "gw = (if fhRegistry h = None then 0 else if gp = 0 then 8170 else gp)"
  obtain n nr where net: "setupHostNetworkWithDeps (ldUid d) (ldTook d) sid (cpAllow compiled) gw (ldLookup d) run batch (fhNet h) = (n, nr)" by fastforce
  have undone: "mset (rules k (case nr of Inl e \<Rightarrow> n | Inr (cfg, cl) \<Rightarrow> batch (rev cl) n)) = mset (rules k (fhNet h))" by (rule setup_undone [OF net])
  have na: "network_act d sid (cpAllow compiled) gw h = (h\<lparr>fhNet := n\<rparr>, nr)" by (simp add: network_act_def assms net)
  show ?thesis
  proof (cases nr)
    case (Inl err)
    then have "h' = remove_file rootfs (h\<lparr>fhNet := n\<rparr>)"
      using assms(1) unfolding launch_network_def gw_def [symmetric] Let_def
      by (auto simp: bind_act_def on_error_def wrap_def na)
    then show ?thesis using undone Inl by (simp add: remove_file_def)
  next
    case (Inr nc)
    obtain net' cl where nc: "nc = (net', cl)" by (cases nc)
    let ?h1 = "h\<lparr>fhNet := n\<rparr>"
    obtain h2 rr where reg: "register_act (hnGuestIP net') sid compiled ?h1 = (h2, rr)" by fastforce
    have u: "mset (rules k (batch (rev cl) n)) = mset (rules k (fhNet h))" using undone by (simp add: Inr nc)
    show ?thesis
    proof (cases rr)
      case (Inl err)
      then have "h2 = ?h1" using register_act_cases [OF reg] by auto
      moreover have "h' = remove_file rootfs (run_cleanup d cl h2)"
        using assms(1) unfolding launch_network_def gw_def [symmetric] Let_def
        by (auto simp: bind_act_def on_error_def wrap_def na Inr nc reg Inl)
      ultimately show ?thesis using u by (simp add: remove_file_def run_cleanup_def assms(3))
    next
      case (Inr x)
      have boot: "launch_boot d sid compiled cfg runDir rootfs kernelPath img (net', cl) h2 = (h', Inl e)"
        using assms(1) unfolding launch_network_def gw_def [symmetric] Let_def
        by (auto simp: bind_act_def on_error_def wrap_def na \<open>nr = Inr nc\<close> nc reg Inr split: prod.splits sum.splits)
      have r2: "fhVMs h2 = fhVMs h" "fhNet h2 = n" "case fhRegistry h of None \<Rightarrow> fhRegistry h2 = None
          | Some g \<Rightarrow> \<exists>g'. fhRegistry h2 = Some g' \<and> Register (hnGuestIP net') sid compiled g = Inr g'"
        using register_act_cases [OF reg] Inr by simp_all
      have "same_registry (fhRegistry h) (fhRegistry h')"
        using r2(3) ip.register_release launch_boot_failed(2) [OF boot]
        by (auto simp: same_registry_def split: option.splits)
      then show ?thesis using launch_boot_failed [OF boot] r2 u by (simp add: assms(3))
    qed
  qed
qed

lemma launch_network_ok:
  assumes "launch_network d gp sid compiled cfg runDir rootfs kernelPath img h = (h', Inr i)"
    and "ldRun d = run" "ldCleanup d = batch"
  shows "\<exists>p cl. siProcess i = Some p \<and> fhVMs h' = p # fhVMs h \<and> siCleanupNetwork i = Some cl \<and> siRunDir i = runDir \<and>
    siSandboxID i = sid \<and> siExitReady i = False \<and> mset (rules k (batch (rev cl) (fhNet h'))) = mset (rules k (fhNet h)) \<and>
    (case fhRegistry h of None \<Rightarrow> fhRegistry h' = None
     | Some g \<Rightarrow> \<exists>g'. fhRegistry h' = Some g' \<and> Register (siGuestIP i) sid compiled g = Inr g')"
proof -
  define gw where "gw = (if fhRegistry h = None then 0 else if gp = 0 then 8170 else gp)"
  obtain n nr where net: "setupHostNetworkWithDeps (ldUid d) (ldTook d) sid (cpAllow compiled) gw (ldLookup d) run batch (fhNet h) = (n, nr)" by fastforce
  have undone: "mset (rules k (case nr of Inl e \<Rightarrow> n | Inr (cfg, cl) \<Rightarrow> batch (rev cl) n)) = mset (rules k (fhNet h))" by (rule setup_undone [OF net])
  have na: "network_act d sid (cpAllow compiled) gw h = (h\<lparr>fhNet := n\<rparr>, nr)" by (simp add: network_act_def assms net)
  obtain net' cl h2 where nr: "nr = Inr (net', cl)" and reg: "register_act (hnGuestIP net') sid compiled (h\<lparr>fhNet := n\<rparr>) = (h2, Inr ())"
    and boot: "launch_boot d sid compiled cfg runDir rootfs kernelPath img (net', cl) h2 = (h', Inr i)"
    using assms(1) unfolding launch_network_def gw_def [symmetric] Let_def by (auto simp: outcomes na)
  have r2: "fhVMs h2 = fhVMs h" "fhNet h2 = n" "case fhRegistry h of None \<Rightarrow> fhRegistry h2 = None
      | Some g \<Rightarrow> \<exists>g'. fhRegistry h2 = Some g' \<and> Register (hnGuestIP net') sid compiled g = Inr g'"
    using register_act_cases [OF reg] by simp_all
  show ?thesis using launch_boot_ok [OF boot] r2 undone by (auto simp: nr split: option.splits)
qed

end

lemma exists_file_remove_all [simp]: "exists_file p (remove_all d h) \<longleftrightarrow> exists_file p h \<and> \<not> under d p"
proof -
  have "map_of (filter (\<lambda>(q, _). \<not> under d q) fs) p = (if under d p then None else map_of fs p)" for fs :: "(string \<times> string) list"
    by (induction fs) auto
  then show ?thesis by (auto simp: exists_file_def remove_all_def get_def)
qed

lemma launch_rootfs_files [simp]: "files_only (launch_rootfs d runDir prepared vmRootFSPath)"
  by (simp add: launch_rootfs_def Let_def)

lemma keeps_launch_prepare:
  "(\<And>img. keeps_rules rules (ldPrepare d img)) \<Longrightarrow> keeps_rules rules (launch_prepare d compiled cfg)"
  unfolding launch_prepare_def Let_def split_def by (intro keeps_bind keeps_simple)

text \<open>The steps a launch went through, by its outcome.\<close>

lemma launchSandboxVM_Inl:
  assumes "launchSandboxVM d gp sid policy cfg h = (h', Inl e)"
  obtains (refused) "h' = h"
  | (prepare) compiled where "policy = Some compiled" "launch_prepare d compiled (default_config (ldRandom d) cfg) h = (h', Inl e)"
  | (rootfs) compiled h1 h2 kp img prepared base where "policy = Some compiled"
      "launch_prepare d compiled (default_config (ldRandom d) cfg) h = (h1, Inr (kp, img, prepared, base))"
      "devices h2 = devices h1" "h' = remove_all (path_join [base, sid]) h2"
  | (network) compiled h1 h2 h3 kp img prepared base vmfs where "policy = Some compiled"
      "launch_prepare d compiled (default_config (ldRandom d) cfg) h = (h1, Inr (kp, img, prepared, base))"
      "devices h2 = devices h1" "h' = remove_all (path_join [base, sid]) h3"
      "launch_network d gp sid compiled (default_config (ldRandom d) cfg) (path_join [base, sid]) vmfs kp img h2 = (h3, Inl e)"
proof (cases policy)
  case None
  then show ?thesis using assms that(1) by (simp add: launchSandboxVM_def throw_def)
next
  case (Some compiled)
  show ?thesis
  proof (cases "cpNetworkDefault compiled \<noteq> ''deny'' \<or> ldGOOS d \<noteq> ''linux''")
    case True
    then show ?thesis using assms that(1) by (auto simp: launchSandboxVM_def Some throw_def split: if_splits)
  next
    case False
    with Some assms that(2,3,4) show ?thesis
      unfolding launchSandboxVM_def Let_def
      by (fastforce simp: outcomes dest: files_onlyD [OF launch_rootfs_files])
  qed
qed

lemma launchSandboxVM_Inr:
  assumes "launchSandboxVM d gp sid policy cfg h = (h', Inr i)"
  obtains compiled h1 h2 kp img prepared base vmfs where "policy = Some compiled" "cpNetworkDefault compiled = ''deny''" "ldGOOS d = ''linux''"
      "launch_prepare d compiled (default_config (ldRandom d) cfg) h = (h1, Inr (kp, img, prepared, base))" "devices h2 = devices h1"
      "launch_network d gp sid compiled (default_config (ldRandom d) cfg) (path_join [base, sid]) vmfs kp img h2 = (h', Inr i)"
  using assms that unfolding launchSandboxVM_def Let_def
  by (cases policy) (fastforce simp: outcomes throw_def dest: files_onlyD [OF launch_rootfs_files] split: if_splits)+

context undoing_host
begin

lemma launch_failed:
  assumes "launchSandboxVM d gp sid policy cfg h = (h', Inl e)" "ldRun d = run" "ldCleanup d = batch"
    and prep: "\<And>img. keeps_rules rules (ldPrepare d img)"
  shows "fhVMs h' = fhVMs h \<and> same_registry (fhRegistry h) (fhRegistry h') \<and> mset (rules k (fhNet h')) = mset (rules k (fhNet h))"
  using assms(1)
proof (cases rule: launchSandboxVM_Inl)
  case (network compiled h1 h2 h3 kp img prepared base vmfs)
  note K = keeps_launch_prepare [of rules, OF prep]
  from network keeps_rulesD [OF K network(2)] keeps_rules_at [OF K network(2), of k] launch_network_failed [OF network(5) assms(2,3), of k]
  show ?thesis by (simp add: devices_def remove_all_def)
qed (auto simp: devices_def remove_all_def dest: keeps_rulesD [OF keeps_launch_prepare [of rules, OF prep]]
    intro!: arg_cong [where f = mset] intro: keeps_rules_at [OF keeps_launch_prepare [of rules, OF prep]])

lemma launch_ok:
  assumes "launchSandboxVM d gp sid policy cfg h = (h', Inr i)" "ldRun d = run" "ldCleanup d = batch"
    and prep: "\<And>img. keeps_rules rules (ldPrepare d img)"
  shows "\<exists>p cl compiled. policy = Some compiled \<and> siProcess i = Some p \<and> fhVMs h' = p # fhVMs h \<and> siCleanupNetwork i = Some cl \<and>
    siSandboxID i = sid \<and> siExitReady i = False \<and> mset (rules k (batch (rev cl) (fhNet h'))) = mset (rules k (fhNet h)) \<and>
    (case fhRegistry h of None \<Rightarrow> fhRegistry h' = None
     | Some g \<Rightarrow> \<exists>g'. fhRegistry h' = Some g' \<and> Register (siGuestIP i) sid compiled g = Inr g')"
  using assms(1)
proof (cases rule: launchSandboxVM_Inr)
  case (1 compiled h1 h2 kp img prepared base vmfs)
  note K = keeps_launch_prepare [of rules, OF prep]
  from 1 keeps_rulesD [OF K 1(4)] keeps_rules_at [OF K 1(4), of k] launch_network_ok [OF 1(6) assms(2,3), of k]
  show ?thesis by (auto simp: devices_def)
qed

end

section \<open>Properties\<close>

lemma keeps_prepare_recorder:
  "keeps_rules chain (ensurePreparedRuntimeRootFS os (recorder exec) (recorder exec') mountDir script id cacheBase agent nanos img)"
  by (rule rec.keeps_prepare [OF rec.filter_host_axioms])

text \<open>A host on which every call succeeds; \<open>r\<close> is the answer of the guest agent.\<close>

definition demo_prepared :: string where
  "demo_prepared = path_join [''/c'', ''firecracker'', ''runtime-rootfs'', runtimeRootFSCacheKey ''d'' ''h'' @ ''.ext4'']"

definition demo_deps :: "string + unit \<Rightarrow> trace launch_deps" where
  "demo_deps r =
     \<lparr>ldGOOS = ''linux'', ldRandom = None, ldLookPath = Inr, ldKernel = (\<lambda>_. Inr (''/k'', [])),
      ldManager = Inr (\<lambda>ref. Inr \<lparr>iaRef = ref, iaDigest = ''d'', iaRootFSPath = ''/img'', iaCacheHit = True\<rparr>),
      ldPrepare = ensurePreparedRuntimeRootFS (\<lambda>_. None) (recorder (\<lambda>_ _. None)) (recorder (\<lambda>_ _. None)) ''/m'' ''/s'' id (Inr ''/c'') (Inr (''/a'', ''h'')) 0,
      ldStateDir = Inr ''/state'', ldOS = (\<lambda>_. None), ldUid = 0, ldTook = 0, ldLookup = (\<lambda>_. Inr []),
      ldRun = recorder (\<lambda>_ _. None), ldCleanup = recorder_batch (\<lambda>_ _. None), ldAbs = Inr, ldDial = (\<lambda>_. r)\<rparr>"

definition demo_policy :: CompiledPolicy where
  "demo_policy = \<lparr>cpVersion = 1, cpImageRef = ''i'', cpImageDigest = ''d'', cpServices = \<lparr>svDocker = \<lparr>dsRequired = False\<rparr>\<rparr>,
     cpNetworkDefault = ''deny'', cpAllow = [], cpHash = []\<rparr>"

definition demo_host :: "trace fc_host" where
  "demo_host = \<lparr>fhFiles = [(''/img'', ''x''), (demo_prepared, ''x'')], fhDirs = [], fhNet = [],
     fhRegistry = Some \<lparr>byGuestIP = [], byScopeToken = []\<rparr>, fhVMs = []\<rparr>"

definition demo_config :: FirecrackerConfig where
  "demo_config = \<lparr>fcBinaryPath = [], fcKernelImagePath = [], fcRootFSPath = [], fcDockerStartupSeconds = 0, fcDockerStorageDriver = [],
     fcDockerIPTables = False, fcPrivilegedMode = [], fcPrivilegedHelperPath = [], fcRunDir = [], fcVCPUs = 0, fcMemoryMiB = 0,
     fcGuestCID = 0, fcGuestPort = 0, fcLaunch = True, fcLaunchSeconds = 0\<rparr>"

lemma demo_sel [simp]:
  "ldGOOS (demo_deps r) = ''linux''" "ldOS (demo_deps r) = (\<lambda>_. None)" "ldUid (demo_deps r) = 0" "ldTook (demo_deps r) = 0"
  "ldLookup (demo_deps r) = (\<lambda>_. Inr [])" "ldRun (demo_deps r) = recorder (\<lambda>_ _. None)" "ldCleanup (demo_deps r) = recorder_batch (\<lambda>_ _. None)"
  "ldAbs (demo_deps r) = Inr" "ldDial (demo_deps r) = (\<lambda>_. r)" "cpNetworkDefault demo_policy = ''deny''" "cpAllow demo_policy = []"
  "fhNet demo_host = []" "fhRegistry demo_host = Some \<lparr>byGuestIP = [], byScopeToken = []\<rparr>" "get (fhFiles demo_host) demo_prepared = Some ''x''"
  by (simp_all add: demo_deps_def demo_policy_def demo_host_def get_def)

lemma demo_launch_prepare:
  "launch_prepare (demo_deps r) demo_policy cfg demo_host =
     (demo_host, Inr (''/k'', \<lparr>iaRef = ''i'', iaDigest = ''d'', iaRootFSPath = ''/img'', iaCacheHit = True\<rparr>, demo_prepared, ''/state/sandboxes''))"
proof -
  have p: "preparedRuntimeRootFSPath (Inr ''/c'') ''d'' ''h'' = Inr demo_prepared"
    by (simp add: preparedRuntimeRootFSPath_def demo_prepared_def)
  have t: "trim_space ''i'' = ''i''" "trim_space ''/img'' = ''/img''" "path_join [''/state'', ''sandboxes''] = ''/state/sandboxes''"
    by code_simp+
  show ?thesis
    by (simp add: launch_prepare_def demo_deps_def demo_policy_def ensureImageArtifact_def t sandboxRuntimeBaseDir_def lift_res_def
        bind_act_def ret_def wrap_def must_exist_def stat_def exists_file_def demo_host_def ensurePreparedRuntimeRootFS_def p get_def Let_def)
qed

lemma demo_launch:
  "\<exists>h' i. launchSandboxVM (demo_deps (Inr ())) 0 ''s1'' (Some demo_policy) cfg demo_host = (h', Inr i) \<and> siRunDir i = ''/state/sandboxes/s1''"
  "\<exists>h'. launchSandboxVM (demo_deps (Inl e)) 0 ''s1'' (Some demo_policy) cfg demo_host = (h', Inl e)"
proof -
  obtain host guest where hg: "hostGuestIPs ''s1'' = (host, guest)" by fastforce
  have net: "\<exists>n net cl. setupHostNetworkWithDeps 0 0 ''s1'' [] 8170 (\<lambda>_. Inr []) (recorder (\<lambda>_ _. None)) (recorder_batch (\<lambda>_ _. None)) [] = (n, Inr (net, cl))"
    by (auto simp: setupHostNetworkWithDeps_def hg resolveForwardRulesWithLookup_def recorder_def network_steps_def ipt_step_def Let_def
        installForwardReturnPathRule_def)
  have j: "path_join [''/state/sandboxes'', ''s1''] = ''/state/sandboxes/s1''" by code_simp
  note all = launchSandboxVM_def demo_launch_prepare Let_def j bind_act_def on_error_def wrap_def launch_rootfs_def must_exist_def stat_def
    copyFile_def call_def lift_res_def launch_network_def network_act_def exists_file_def put_file_def make_dir_def register_act_def launch_boot_def start_vm_def writeJSON_def ret_def
    Register_def
  show "\<exists>h' i. launchSandboxVM (demo_deps (Inr ())) 0 ''s1'' (Some demo_policy) cfg demo_host = (h', Inr i) \<and> siRunDir i = ''/state/sandboxes/s1''"
    using net by (auto simp: all)
  show "\<exists>h'. launchSandboxVM (demo_deps (Inl e)) 0 ''s1'' (Some demo_policy) cfg demo_host = (h', Inl e)"
    using net by (auto simp: all)
qed



text \<open>A launch that succeeds leaves one machine more running, and the guest's address resolves in the gateway to this sandbox
  with this policy; ending the sandbox as \<open>TerminateSandbox\<close> does (release of the address, then \<open>shutdown\<close>)
  stops that machine, restores the gateway and, when the commands of the clean-up succeed, the firewall, and nothing is left under
  the run directory.\<close>

theorem launch_then_shutdown:
  assumes "launchSandboxVM d gatewayPort sid policy cfg h = (h', Inr i)"
    and "ldRun d = recorder exec" "ldCleanup d = recorder_batch (\<lambda>_ _. None)"
    and "ldPrepare d = ensurePreparedRuntimeRootFS (ldOS d) (recorder exec) (recorder exec') mountDir script id cacheBase agent nanos"
    and "trim_space (siRunDir i) \<noteq> []"
    and h2: "h2 = shutdown (recorder_batch (\<lambda>_ _. None)) i (release_registration (siGuestIP i) h')"
  shows "(\<exists>p. siProcess i = Some p \<and> fhVMs h' = p # fhVMs h) \<and> exitedErrOrNil i = None \<and>
    (\<forall>g. fhRegistry h = Some g \<longrightarrow> (\<exists>g' s. fhRegistry h' = Some g' \<and> Lookup g' (siGuestIP i) = Some s \<and>
       ssSandboxID s = sid \<and> Some (ssPolicy s) = policy)) \<and>
    fhVMs h2 = fhVMs h \<and> same_registry (fhRegistry h) (fhRegistry h2) \<and> mset (chain k (fhNet h2)) = mset (chain k (fhNet h)) \<and>
    (\<forall>q. under (siRunDir i) q \<longrightarrow> \<not> exists_file q h2)"
proof -
  have "keeps_rules chain (ldPrepare d img)" for img by (simp add: assms(4) keeps_prepare_recorder)
  from rec_undo.launch_ok [OF assms(1-3) this, of k] obtain p cl compiled where
    ok: "policy = Some compiled" "siProcess i = Some p" "fhVMs h' = p # fhVMs h" "siCleanupNetwork i = Some cl" "siExitReady i = False"
      "mset (chain k (recorder_batch (\<lambda>_ _. None) (rev cl) (fhNet h'))) = mset (chain k (fhNet h))"
    and reg: "case fhRegistry h of None \<Rightarrow> fhRegistry h' = None
     | Some g \<Rightarrow> \<exists>g'. fhRegistry h' = Some g' \<and> Register (siGuestIP i) sid compiled g = Inr g'" by auto
  have h2': "h2 = remove_all (siRunDir i) (h'\<lparr>fhRegistry := map_option (Release (siGuestIP i)) (fhRegistry h'), fhVMs := fhVMs h,
      fhNet := recorder_batch (\<lambda>_ _. None) (rev cl) (fhNet h')\<rparr>)"
    using assms(5) ok by (simp add: h2 shutdown_def stopVM_def release_registration_def Let_def)
  have "same_registry (fhRegistry h) (map_option (Release (siGuestIP i)) (fhRegistry h'))"
    using reg ip.register_release by (auto simp: same_registry_def split: option.splits)
  moreover have "fhRegistry h = Some g \<Longrightarrow> \<exists>g' s. fhRegistry h' = Some g' \<and> Lookup g' (siGuestIP i) = Some s \<and>
       ssSandboxID s = sid \<and> Some (ssPolicy s) = policy" for g
    using reg ip.register_resolve [OF TrueI] ok(1) by fastforce
  ultimately show ?thesis
    using ok unfolding h2' by (simp add: exitedErrOrNil_def) (simp add: remove_all_def)
qed

theorem launch_then_shutdown_witness:
  "\<exists>h' i h2. launchSandboxVM (demo_deps (Inr ())) 0 ''s1'' (Some demo_policy) demo_config demo_host = (h', Inr i) \<and>
    h2 = shutdown (recorder_batch (\<lambda>_ _. None)) i (release_registration (siGuestIP i) h') \<and>
    fhVMs h' \<noteq> [] \<and> fhVMs h2 = [] \<and> mset (chain (''filter'', ''FORWARD'') (fhNet h2)) = {#}"
proof -
  obtain h' i where l: "launchSandboxVM (demo_deps (Inr ())) 0 ''s1'' (Some demo_policy) demo_config demo_host = (h', Inr i)"
    and i: "siRunDir i = ''/state/sandboxes/s1''"
    using demo_launch(1) by blast
  have t: "trim_space (siRunDir i) \<noteq> []" unfolding i by code_simp
  have p: "ldPrepare (demo_deps (Inr ())) = ensurePreparedRuntimeRootFS (ldOS (demo_deps (Inr ()))) (recorder (\<lambda>_ _. None)) (recorder (\<lambda>_ _. None))
      ''/m'' ''/s'' id (Inr ''/c'') (Inr (''/a'', ''h'')) 0"
    by (simp add: demo_deps_def)
  from launch_then_shutdown [OF l _ _ p t refl, where k = "(''filter'', ''FORWARD'')"] l show ?thesis
    by (auto simp: demo_host_def chain_def)
qed

end
