(* ===== verification/Firecracker_Adapter.thy ===== *)
theory Firecracker_Adapter
  imports Firecracker_Exec Firecracker_Launch
begin

text \<open>
  The adapter of \<open>internal/backend/firecracker/backend.go\<close> for persistent sandboxes: the instances it keeps, those that are
  being provisioned, and the operations the control service calls. \<open>ProvisionSandbox\<close> takes the lock twice with the
  launch in between, so it is two steps of the adapter with the launch of the host between them.
\<close>

section \<open>State and operations\<close>

record 'n Adapter =
  adSandboxes :: "(string, sandboxInstance) gomap"
  adProvisioning :: "(string, unit) gomap"
  adGatewayPort :: int
  adHost :: "'n fc_host"

definition Capabilities :: "(string, bool) gomap" where
  "Capabilities = [(''network.default_deny'', True), (''network.allowlist_egress'', True), (''network.guest_interface'', True)]"

definition ProvisionSandbox_begin :: "ProvisionRequest \<Rightarrow> 'n Adapter \<Rightarrow> 'n Adapter \<times> (string + string)" where
  "ProvisionSandbox_begin req a =
     (let sandboxID = trim_space (prSandboxID req) in
      if sandboxID = [] then (a, Inl ''missing sandbox_id'')
      else if prPolicy req = None then (a, Inl ''missing compiled policy'')
      else if get (adSandboxes a) sandboxID \<noteq> None then (a, Inl (''sandbox '' @ go_quote sandboxID @ '' already provisioned''))
      else if get (adProvisioning a) sandboxID \<noteq> None then (a, Inl (''sandbox '' @ go_quote sandboxID @ '' is already provisioning''))
      else (a\<lparr>adProvisioning := put sandboxID () (adProvisioning a)\<rparr>, Inr sandboxID))"

definition ProvisionSandbox_finish ::
  "(command list \<Rightarrow> 'n \<Rightarrow> 'n) \<Rightarrow> string \<Rightarrow> string + sandboxInstance \<Rightarrow> 'n Adapter \<Rightarrow> 'n Adapter \<times> (string + unit)" where
  "ProvisionSandbox_finish batch sandboxID launched a =
     (let a' = a\<lparr>adProvisioning := del sandboxID (adProvisioning a)\<rparr> in
      case launched of
        Inl e \<Rightarrow> (a', Inl e)
      | Inr inst \<Rightarrow>
          if get (adSandboxes a') sandboxID \<noteq> None
          then (a'\<lparr>adHost := shutdown batch inst (adHost a')\<rparr>, Inl (''sandbox '' @ go_quote sandboxID @ '' already provisioned''))
          else (a'\<lparr>adSandboxes := put sandboxID inst (adSandboxes a')\<rparr>, Inr ()))"

text \<open>The launch works on the host alone.\<close>

definition on_host :: "('n, 'a) act \<Rightarrow> 'n Adapter \<Rightarrow> 'n Adapter \<times> (string + 'a)" where
  "on_host m a = (case m (adHost a) of (h, r) \<Rightarrow> (a\<lparr>adHost := h\<rparr>, r))"

definition Adapter_ProvisionSandbox :: "'n launch_deps \<Rightarrow> ProvisionRequest \<Rightarrow> 'n Adapter \<Rightarrow> 'n Adapter \<times> (string + unit)" where
  "Adapter_ProvisionSandbox d req a =
     (case ProvisionSandbox_begin req a of
        (a1, Inl e) \<Rightarrow> (a1, Inl e)
      | (a1, Inr sandboxID) \<Rightarrow>
          (case on_host (launchSandboxVM d (adGatewayPort a1) sandboxID (prPolicy req) (prConfig req)) a1 of
             (a2, launched) \<Rightarrow> ProvisionSandbox_finish (ldCleanup d) sandboxID launched a2))"

definition running_instance :: "string \<Rightarrow> 'n Adapter \<Rightarrow> string + sandboxInstance" where
  "running_instance sandboxID a =
     (case get (adSandboxes a) sandboxID of
        None \<Rightarrow> Inl (''unknown sandbox '' @ go_quote sandboxID)
      | Some inst \<Rightarrow>
          (case exitedErrOrNil inst of
             Some e \<Rightarrow> Inl (''sandbox '' @ go_quote sandboxID @ '' is not running: '' @ e)
           | None \<Rightarrow> Inr inst))"

text \<open>The surroundings of a command in a sandbox; \<open>edTook\<close> is the time from the start of the run to its end.\<close>

record exec_deps =
  edOS :: os
  edRunBase :: "string + string"
  edSeed :: "string option"
  edLink :: "int \<Rightarrow> string \<Rightarrow> 32 word \<Rightarrow> guest_link"
  edTook :: int

definition execute :: "exec_deps \<Rightarrow> 'n Adapter \<Rightarrow> sandboxInstance \<Rightarrow> int \<Rightarrow> string list \<Rightarrow> bool \<Rightarrow> guest_outcome" where
  "execute d a = executeInSandbox (fhRegistry (adHost a) \<noteq> None) (adGatewayPort a) (edSeed d) (edLink d)"

definition run_dir :: "exec_deps \<Rightarrow> RunRequest \<Rightarrow> string" where
  "run_dir d req =
     (let runDir = trim_space (fcRunDir (rrConfig req)) in
      if runDir = [] then (case edRunBase d of Inl _ \<Rightarrow> [] | Inr baseDir \<Rightarrow> path_join [baseDir, rrRunID req]) else runDir)"

definition RunInSandbox :: "exec_deps \<Rightarrow> RunRequest \<Rightarrow> 'n Adapter \<Rightarrow> 'n Adapter \<times> (string + RunResult)" where
  "RunInSandbox d req a =
     (let sandboxID = trim_space (rrSandboxID req) in
      if sandboxID = [] then (a, Inl ''missing sandbox_id'')
      else if rrCommand req = [] then (a, Inl ''missing command'')
      else if trim_space (rrRunID req) = [] then (a, Inl ''missing run_id'')
      else
        (case running_instance sandboxID a of
           Inl e \<Rightarrow> (a, Inl e)
         | Inr inst \<Rightarrow>
             (let runDir = run_dir d req; h = adHost a;
                  ob = (new_observation (rrRunID req) False)\<lparr>roImageRef := siImageRef inst, roImageDigest := siImageDigest inst,
                         roPlanPath := siConfigPath inst, roRunDir := runDir\<rparr>;
                  finish = (\<lambda>ob h. a\<lparr>adHost := if runDir = [] then h else write_observation (edOS d) runDir (edTook d) ob h\<rparr>) in
              case (if runDir = [] then (h, Inr ()) else wrap ''create run directory'' (call (edOS d) (MkdirAll runDir) (make_dir runDir)) h) of
                (h1, Inl e) \<Rightarrow> (finish ob h1, Inl e)
              | (h1, Inr _) \<Rightarrow>
                  (case goResult (execute d a inst (fcLaunchSeconds (rrConfig req)) (rrCommand req) (rrTTY req)) of
                     Inl e \<Rightarrow> (finish (ob\<lparr>roExitCode := 1, roGuestError := e\<rparr>) h1, Inl e)
                   | Inr (res, timing) \<Rightarrow>
                       (finish (ob\<lparr>roExitCode := epExitCode res, roGuestError := epError res,
                                   roGuestExecMS := Milliseconds (gtCommandRun timing), roVsockWaitMS := Milliseconds (gtWaitForAgent timing)\<rparr>) h1,
                        Inr \<lparr>resRunID = rrRunID req, resExitCode = epExitCode res, resLaunchedVM = False, resPlanPath = siConfigPath inst,
                             resRunDir = runDir, resImageRef = siImageRef inst, resImageDigest = siImageDigest inst,
                             resMessage = (if epError res \<noteq> []
                               then runResultMessage (''guest command execution completed with guest-side error detail: '' @ epError res)
                               else runResultMessage ''guest command execution complete''),
                             resStdout = epStdout res, resStderr = epStderr res\<rparr>)))))"

definition adapterDownloadMaxBytes :: int where
  "adapterDownloadMaxBytes = 10 * 1024 * 1024"

definition download_limit :: "int \<Rightarrow> int" where
  "download_limit maxBytes = (if maxBytes = 2 ^ 63 - 1 then maxBytes else maxBytes + 1)"

definition Adapter_DownloadSandboxFile :: "exec_deps \<Rightarrow> string \<Rightarrow> string \<Rightarrow> int \<Rightarrow> 'n Adapter \<Rightarrow> string + string" where
  "Adapter_DownloadSandboxFile d sandboxID0 path maxBytes0 a =
     (let sandboxID = trim_space sandboxID0 in
      if sandboxID = [] then Inl ''missing sandbox_id''
      else if path = [] then Inl ''missing path''
      else if \<not> has_prefix path ''/'' then Inl ''invalid path: must be absolute''
      else
        (let maxBytes = (if maxBytes0 \<le> 0 then adapterDownloadMaxBytes else maxBytes0) in
         and_then (running_instance sandboxID a) (\<lambda>inst.
           let out = execute d a inst 0 [''head'', ''-c'', itoa (download_limit maxBytes), ''--'', path] False in
           and_then (goResult out) (\<lambda>(res, _).
             if epExitCode res \<noteq> 0
             then Inl (let msg = trim_space (epStderr res); msg = (if msg = [] then trim_space (epError res) else msg) in
                       if msg = [] then ''read file command failed'' else msg)
             else
               (let data0 = concat (map snd (filter fst (goCalls out)));
                    data = (if data0 = [] \<and> epStdout res \<noteq> [] then epStdout res else data0) in
                if int (length data) > maxBytes then Inl (''file '' @ go_quote path @ '' exceeds max_bytes='' @ itoa maxBytes)
                else Inr data)))))"

definition Adapter_TerminateSandbox :: "(command list \<Rightarrow> 'n \<Rightarrow> 'n) \<Rightarrow> string \<Rightarrow> 'n Adapter \<Rightarrow> 'n Adapter \<times> (string + unit)" where
  "Adapter_TerminateSandbox batch sandboxID0 a =
     (let sandboxID = trim_space sandboxID0 in
      if sandboxID = [] then (a, Inl ''missing sandbox_id'')
      else
        (case get (adSandboxes a) sandboxID of
           None \<Rightarrow> (a, Inr ())
         | Some inst \<Rightarrow>
             (let h = adHost a; h = (if siGuestIP inst \<noteq> [] then release_registration (siGuestIP inst) h else h) in
              (a\<lparr>adSandboxes := del sandboxID (adSandboxes a), adHost := shutdown batch inst h\<rparr>, Inr ()))))"

text \<open>The goroutine that waits for the process of an instance.\<close>

definition vm_exited :: "string \<Rightarrow> string option \<Rightarrow> 'n Adapter \<Rightarrow> 'n Adapter" where
  "vm_exited sandboxID err a =
     (case get (adSandboxes a) sandboxID of
        None \<Rightarrow> a
      | Some inst \<Rightarrow>
          a\<lparr>adSandboxes := put sandboxID (setExited err inst) (adSandboxes a),
            adHost := stopVM (siProcess inst) (adHost a)\<rparr>)"

end
