(* ===== verification/Firecracker_Lifecycle.thy ===== *)
theory Firecracker_Lifecycle
  imports Firecracker_Adapter
begin

text \<open>
  The sandboxes of the adapter over any interleaving of its operations: provisioning in its three parts, ends of sandboxes, exits of
  machines and commands. What the gateway resolves and what the firewall holds is at any time exactly what the sandboxes the
  adapter knows, or has just launched, account for.
\<close>

section \<open>What a launch adds to the firewall\<close>

context filter_host
begin

lemma steps_undos:
  assumes "run_steps run batch ss cl w = (w', Inr cl')" "\<forall>s \<in> set ss. undone_by k s" "\<forall>u \<in> set cl. added k u = []"
  shows "mset (rules k w') + mset (undos k cl) = mset (rules k w) + mset (undos k cl') \<and> (\<forall>u \<in> set cl'. added k u = [])"
  using assms
proof (induction ss arbitrary: cl w)
  case (Cons s ss)
  then obtain t1 undo where s: "run_step run s w = (t1, Inr undo)" "run_steps run batch ss (cl @ undo) t1 = (w', Inr cl')"
    by (auto split: prod.splits sum.splits)
  from step_ok [OF s(1), where k = k] Cons.prems(2) obtain rs where rs: "rules k t1 = rules k w @ rs" "undos k undo = rs" "\<forall>u \<in> set undo. added k u = []" by auto
  have "\<forall>s \<in> set ss. undone_by k s" "\<forall>u \<in> set (cl @ undo). added k u = []" using Cons.prems(2,3) rs(3) by auto
  from Cons.IH [OF s(2) this] rs(1,2) show ?case by (simp add: undos_append)
qed simp

lemma setup_undos:
  assumes "setupHostNetworkWithDeps uid took runID allow gw lookup run batch w = (w', Inr (cfg, cl))"
  shows "mset (rules k w') = mset (rules k w) + mset (undos k cl) \<and> (\<forall>u \<in> set cl. added k u = []) \<and> hnGuestIP cfg = snd (hostGuestIPs runID)"
proof -
  obtain host guest where hg: "hostGuestIPs runID = (host, guest)" by fastforce
  let ?tap = "tapNameFromRunID runID"
  let ?new = "[''ip'', ''tuntap'', ''add'', ''dev'', ?tap, ''mode'', ''tap'', ''user'', itoa uid]"
  obtain fwd where r: "resolveForwardRulesWithLookup lookup allow = Inr fwd"
    using assms by (auto simp: setupHostNetworkWithDeps_def hg Let_def split: sum.splits)
  obtain w1 where ok: "run ?new w = (w1, None)"
    using assms by (auto simp: setupHostNetworkWithDeps_def hg r Let_def split: option.splits prod.splits)
  have st: "run_steps run batch (network_steps ?tap host guest gw fwd) [[''ip'', ''link'', ''del'', ?tap]] w1 = (w', Inr cl)"
    and g: "hnGuestIP cfg = guest"
    using assms by (auto simp: setupHostNetworkWithDeps_def hg r ok Let_def split: prod.splits sum.splits)
  have "rules k w1 = rules k w" using run_ok [OF ok, of k] by (simp add: effect_def)
  with steps_undos [OF st network_steps_undone, of k] show ?thesis by (simp add: undos_def added_def removed_def hg g)
qed

lemma launch_network_adds:
  assumes "launch_network d gp sid compiled cfg runDir rootfs kernelPath img h = (h', Inr i)" "ldRun d = run"
  shows "\<exists>cl. siCleanupNetwork i = Some cl \<and> siPolicy i = Some compiled \<and> siSandboxID i = sid \<and> siGuestIP i = snd (hostGuestIPs sid) \<and>
    (\<forall>u \<in> set cl. added k u = []) \<and> mset (rules k (fhNet h')) = mset (rules k (fhNet h)) + mset (undos k cl) \<and>
    (case fhRegistry h of None \<Rightarrow> fhRegistry h' = None
     | Some g \<Rightarrow> \<exists>g'. fhRegistry h' = Some g' \<and> Register (siGuestIP i) sid compiled g = Inr g')"
proof -
  define gw where "gw = (if fhRegistry h = None then 0 else if gp = 0 then 8170 else gp)"
  obtain n nr where net: "setupHostNetworkWithDeps (ldUid d) (ldTook d) sid (cpAllow compiled) gw (ldLookup d) run (ldCleanup d) (fhNet h) = (n, nr)" by fastforce
  have na: "network_act d sid (cpAllow compiled) gw h = (h\<lparr>fhNet := n\<rparr>, nr)" by (simp add: network_act_def assms net)
  obtain net' cl h2 where nr: "nr = Inr (net', cl)" and reg: "register_act (hnGuestIP net') sid compiled (h\<lparr>fhNet := n\<rparr>) = (h2, Inr ())"
    and boot: "launch_boot d sid compiled cfg runDir rootfs kernelPath img (net', cl) h2 = (h', Inr i)"
    using assms(1) unfolding launch_network_def gw_def [symmetric] Let_def by (auto simp: outcomes na)
  have r2: "fhNet h2 = n" "case fhRegistry h of None \<Rightarrow> fhRegistry h2 = None
      | Some g \<Rightarrow> \<exists>g'. fhRegistry h2 = Some g' \<and> Register (hnGuestIP net') sid compiled g = Inr g'"
    using register_act_cases [OF reg] by simp_all
  from setup_undos [OF net [unfolded nr], of k] launch_boot_ok [OF boot] r2 show ?thesis by (auto split: option.splits)
qed

lemma launch_adds:
  assumes "launchSandboxVM d gp sid policy cfg h = (h', Inr i)" "ldRun d = run"
    and prep: "\<And>img. keeps_rules rules (ldPrepare d img)"
  shows "\<exists>cl compiled. policy = Some compiled \<and> siCleanupNetwork i = Some cl \<and> siPolicy i = policy \<and> siSandboxID i = sid \<and>
    siGuestIP i = snd (hostGuestIPs sid) \<and>
    (\<forall>u \<in> set cl. added k u = []) \<and> mset (rules k (fhNet h')) = mset (rules k (fhNet h)) + mset (undos k cl) \<and>
    (case fhRegistry h of None \<Rightarrow> fhRegistry h' = None
     | Some g \<Rightarrow> \<exists>g'. fhRegistry h' = Some g' \<and> Register (siGuestIP i) sid compiled g = Inr g')"
  using assms(1)
proof (cases rule: launchSandboxVM_Inr)
  case (1 compiled h1 h2 kp img prepared base vmfs)
  note K = keeps_launch_prepare [of rules, OF prep]
  from 1 keeps_rulesD [OF K 1(4)] keeps_rules_at [OF K 1(4), of k] launch_network_adds [OF 1(6) assms(2), of k]
  show ?thesis by (auto simp: devices_def)
qed

end

lemma guest_ip_ne: "snd (hostGuestIPs sid) \<noteq> []"
  by (simp add: hostGuestIPs_def Let_def)

section \<open>The account of the sandboxes\<close>

text \<open>\<open>L\<close> holds the sandboxes that own resources, with their identifiers.\<close>

type_synonym ledger = "(string \<times> sandboxInstance) multiset"

definition owners :: "string \<Rightarrow> ledger \<Rightarrow> ledger" where
  "owners ip L = filter_mset (\<lambda>p. siGuestIP (snd p) = ip) L"

definition resolves :: "Registry \<Rightarrow> ledger \<Rightarrow> string \<Rightarrow> bool" where
  "resolves g L ip \<longleftrightarrow>
     (case Lookup g ip of
        None \<Rightarrow> owners ip L = {#}
      | Some s \<Rightarrow> \<exists>i. owners ip L = {#(ssSandboxID s, i)#} \<and> siPolicy i = Some (ssPolicy s))"

definition cleanup_of :: "sandboxInstance \<Rightarrow> command list" where
  "cleanup_of i = (case siCleanupNetwork i of None \<Rightarrow> [] | Some cl \<Rightarrow> cl)"

definition account :: "string \<times> string \<Rightarrow> command multiset \<Rightarrow> ledger \<Rightarrow> trace fc_host \<Rightarrow> bool" where
  "account k base L h \<longleftrightarrow>
     (\<exists>g. fhRegistry h = Some g \<and> (\<forall>ip. resolves g L ip)) \<and>
     mset (chain k (fhNet h)) = base + (\<Sum>p \<in># L. mset (undos k (cleanup_of (snd p)))) \<and>
     (\<forall>p \<in># L. siGuestIP (snd p) \<noteq> [] \<and> (\<forall>u \<in> set (cleanup_of (snd p)). added k u = []))"

lemma account_devices: "account k base L h \<Longrightarrow> fhRegistry h' = fhRegistry h \<Longrightarrow> chain k (fhNet h') = chain k (fhNet h) \<Longrightarrow> account k base L h'"
  by (simp add: account_def)

lemma resolves_cong: "Lookup g' = Lookup g \<Longrightarrow> resolves g' = resolves g"
  by (simp add: resolves_def fun_eq_iff)

lemma resolves_add:
  assumes "\<forall>ip. resolves g L ip" "Register (siGuestIP i) sid p g = Inr g'" "siPolicy i = Some p"
  shows "resolves g' (add_mset (sid, i) L) ip"
proof (cases "ip = siGuestIP i")
  case True
  have "Lookup g ip = None" using assms(2) True ip.register_ok [of ip sid p g] by auto
  moreover obtain s where "Lookup g' ip = Some s" "ssSandboxID s = sid" "ssPolicy s = p"
    using ip.register_resolve [OF TrueI assms(2)] True by auto
  ultimately show ?thesis using assms(1) [rule_format, of ip] assms(3) True by (auto simp: resolves_def owners_def)
next
  case False
  then have "Lookup g' ip = Lookup g ip" using ip.register_frame [OF TrueI assms(2)] by simp
  then show ?thesis using assms(1) [rule_format, of ip] False by (auto simp: resolves_def owners_def split: option.splits)
qed

lemma resolves_remove:
  assumes "\<forall>ip. resolves g (add_mset (sid, i) L) ip"
  shows "resolves (Release (siGuestIP i) g) L ip"
proof (cases "ip = siGuestIP i")
  case True
  then have "owners ip L = {#}" using assms [rule_format, of ip] by (auto simp: resolves_def owners_def split: option.splits)
  then show ?thesis using True by (simp add: resolves_def ip.release_resolve)
next
  case False
  then show ?thesis using assms [rule_format, of ip] by (auto simp: resolves_def ip.release_resolve owners_def split: option.splits)
qed

text \<open>An end of a sandbox settles its account.\<close>

lemma account_end:
  assumes "account k base (add_mset (sid, i) L) h"
    and "h' = shutdown (recorder_batch (\<lambda>_ _. None)) i (release_registration (siGuestIP i) h)"
  shows "account k base L h'"
proof -
  obtain g where g: "fhRegistry h = Some g" "\<forall>ip. resolves g (add_mset (sid, i) L) ip" using assms(1) by (auto simp: account_def)
  have r: "fhRegistry h' = Some (Release (siGuestIP i) g)"
    and n: "fhNet h' = (case siCleanupNetwork i of None \<Rightarrow> fhNet h | Some cl \<Rightarrow> recorder_batch (\<lambda>_ _. None) (rev cl) (fhNet h))"
    by (simp_all add: assms(2) shutdown_def stopVM_def release_registration_def remove_all_def remove_file_def Let_def g(1) split: option.split)
  have a: "\<forall>u \<in> set (cleanup_of i). added k u = []"
    and c: "mset (chain k (fhNet h)) = base + (mset (undos k (cleanup_of i)) + (\<Sum>p \<in># L. mset (undos k (cleanup_of (snd p)))))"
    using assms(1) by (simp_all add: account_def)
  have "mset (chain k (fhNet h')) = mset (chain k (fhNet h)) - mset (undos k (cleanup_of i))"
  proof (cases "siCleanupNetwork i")
    case None
    then show ?thesis by (simp add: n cleanup_of_def undos_def)
  next
    case (Some cl)
    then show ?thesis using rec_undo.batch_removes [of "rev cl" k "fhNet h"] a by (simp add: n cleanup_of_def)
  qed
  then have "mset (chain k (fhNet h')) = base + (\<Sum>p \<in># L. mset (undos k (cleanup_of (snd p))))" by (simp add: c)
  moreover have "\<forall>p \<in># L. siGuestIP (snd p) \<noteq> [] \<and> (\<forall>u \<in> set (cleanup_of (snd p)). added k u = [])"
    using assms(1) by (simp add: account_def)
  ultimately show ?thesis using r resolves_remove [OF g(2)] by (simp add: account_def) blast
qed

lemma account_launch:
  assumes "account k base L h" "launchSandboxVM d gp sid policy cfg h = (h', r)"
    and "ldRun d = recorder exec" "ldCleanup d = recorder_batch (\<lambda>_ _. None)"
    and prep: "\<And>img. keeps_rules chain (ldPrepare d img)"
  shows "account k base (case r of Inl _ \<Rightarrow> L | Inr i \<Rightarrow> add_mset (sid, i) L) h'"
proof (cases r)
  case (Inl e)
  note f = rec_undo.launch_failed [OF assms(2) [unfolded Inl] assms(3,4) prep, of k]
  from assms(1) obtain g where g: "fhRegistry h = Some g" "\<forall>ip. resolves g L ip" by (auto simp: account_def)
  from f g(1) obtain g' where g': "fhRegistry h' = Some g'" "Lookup g' = Lookup g" by (auto simp: same_registry_def split: option.splits)
  from assms(1) f g g' resolves_cong [OF g'(2)] show ?thesis by (simp add: Inl account_def) blast
next
  case (Inr i)
  from assms(1) obtain g where g: "fhRegistry h = Some g" "\<forall>ip. resolves g L ip" by (auto simp: account_def)
  from rec.launch_adds [OF assms(2) [unfolded Inr] assms(3) prep, of k] g(1) obtain cl compiled g' where
    i: "siCleanupNetwork i = Some cl" "siPolicy i = Some compiled" "siGuestIP i = snd (hostGuestIPs sid)" "\<forall>u \<in> set cl. added k u = []"
      "mset (chain k (fhNet h')) = mset (chain k (fhNet h)) + mset (undos k cl)"
    and g': "fhRegistry h' = Some g'" "Register (siGuestIP i) sid compiled g = Inr g'" by auto
  have "cleanup_of i = cl" by (simp add: cleanup_of_def i)
  then show ?thesis
    using assms(1) i g' resolves_add [OF g(2) g'(2) i(2)] guest_ip_ne [of sid] by (simp add: Inr account_def) blast
qed

section \<open>Interleavings\<close>

text \<open>
  The calls of \<open>ProvisionSandbox\<close> that have marked their sandbox (\<open>fsStarting\<close>) and those whose launch has returned
  (\<open>fsLaunched\<close>, \<open>fsFailed\<close>).
\<close>

record fsys =
  fsAdapter :: "trace Adapter"
  fsStarting :: "(string, ProvisionRequest) gomap"
  fsLaunched :: "(string, sandboxInstance) gomap"
  fsFailed :: "(string, string) gomap"

definition no_errors :: "command list \<Rightarrow> trace \<Rightarrow> trace" where
  "no_errors = recorder_batch (\<lambda>_ _. None)"

inductive fc_step :: "fsys \<Rightarrow> fsys \<Rightarrow> bool" where
  begin_ok: "ProvisionSandbox_begin req (fsAdapter s) = (a, Inr sid) \<Longrightarrow>
    fc_step s (s\<lparr>fsAdapter := a, fsStarting := put sid req (fsStarting s)\<rparr>)"
| begin_refused: "ProvisionSandbox_begin req (fsAdapter s) = (a, Inl e) \<Longrightarrow> fc_step s (s\<lparr>fsAdapter := a\<rparr>)"
| launch_ok: "get (fsStarting s) sid = Some req \<Longrightarrow> ldRun d = recorder exec \<Longrightarrow> ldCleanup d = no_errors \<Longrightarrow>
    ldPrepare d = ensurePreparedRuntimeRootFS (ldOS d) (recorder exec) (recorder exec') mountDir script id cacheBase agent nanos \<Longrightarrow>
    on_host (launchSandboxVM d (adGatewayPort (fsAdapter s)) sid (prPolicy req) (prConfig req)) (fsAdapter s) = (a, Inr i) \<Longrightarrow>
    fc_step s (s\<lparr>fsAdapter := a, fsStarting := del sid (fsStarting s), fsLaunched := put sid i (fsLaunched s)\<rparr>)"
| launch_failed: "get (fsStarting s) sid = Some req \<Longrightarrow> ldRun d = recorder exec \<Longrightarrow> ldCleanup d = no_errors \<Longrightarrow>
    ldPrepare d = ensurePreparedRuntimeRootFS (ldOS d) (recorder exec) (recorder exec') mountDir script id cacheBase agent nanos \<Longrightarrow>
    on_host (launchSandboxVM d (adGatewayPort (fsAdapter s)) sid (prPolicy req) (prConfig req)) (fsAdapter s) = (a, Inl e) \<Longrightarrow>
    fc_step s (s\<lparr>fsAdapter := a, fsStarting := del sid (fsStarting s), fsFailed := put sid e (fsFailed s)\<rparr>)"
| finish_ok: "get (fsLaunched s) sid = Some i \<Longrightarrow> ProvisionSandbox_finish no_errors sid (Inr i) (fsAdapter s) = (a, r) \<Longrightarrow>
    fc_step s (s\<lparr>fsAdapter := a, fsLaunched := del sid (fsLaunched s)\<rparr>)"
| finish_failed: "get (fsFailed s) sid = Some e \<Longrightarrow> ProvisionSandbox_finish no_errors sid (Inl e) (fsAdapter s) = (a, r) \<Longrightarrow>
    fc_step s (s\<lparr>fsAdapter := a, fsFailed := del sid (fsFailed s)\<rparr>)"
| terminate: "Adapter_TerminateSandbox no_errors sid (fsAdapter s) = (a, r) \<Longrightarrow> fc_step s (s\<lparr>fsAdapter := a\<rparr>)"
| exits: "fc_step s (s\<lparr>fsAdapter := vm_exited sid err (fsAdapter s)\<rparr>)"
| runs: "RunInSandbox ed req (fsAdapter s) = (a, r') \<Longrightarrow> fc_step s (s\<lparr>fsAdapter := a\<rparr>)"

definition initial_host :: "trace \<Rightarrow> (string, string) gomap \<Rightarrow> string list \<Rightarrow> trace fc_host" where
  "initial_host tr files dirs = \<lparr>fhFiles = files, fhDirs = dirs, fhNet = tr, fhRegistry = Some NewRegistry, fhVMs = []\<rparr>"

definition fsys_init :: "int \<Rightarrow> trace fc_host \<Rightarrow> fsys" where
  "fsys_init port h = \<lparr>fsAdapter = \<lparr>adSandboxes = [], adProvisioning = [], adGatewayPort = port, adHost = h\<rparr>,
     fsStarting = [], fsLaunched = [], fsFailed = []\<rparr>"

section \<open>The invariant\<close>

definition jobs_ok :: "fsys \<Rightarrow> string \<Rightarrow> bool" where
  "jobs_ok s sid \<longleftrightarrow>
     (get (adProvisioning (fsAdapter s)) sid = None \<longrightarrow>
        get (fsStarting s) sid = None \<and> get (fsLaunched s) sid = None \<and> get (fsFailed s) sid = None) \<and>
     (get (adProvisioning (fsAdapter s)) sid \<noteq> None \<longrightarrow> get (adSandboxes (fsAdapter s)) sid = None) \<and>
     (get (fsStarting s) sid \<noteq> None \<longrightarrow> get (fsLaunched s) sid = None \<and> get (fsFailed s) sid = None) \<and>
     (get (fsLaunched s) sid \<noteq> None \<longrightarrow> get (fsFailed s) sid = None)"

definition ledger_of :: "fsys \<Rightarrow> ledger" where
  "ledger_of s = mset (adSandboxes (fsAdapter s)) + mset (fsLaunched s)"

definition fc_inv :: "string \<times> string \<Rightarrow> command multiset \<Rightarrow> fsys \<Rightarrow> bool" where
  "fc_inv k base s \<longleftrightarrow>
     is_gomap (adSandboxes (fsAdapter s)) \<and> is_gomap (fsLaunched s) \<and> (\<forall>sid. jobs_ok s sid) \<and>
     account k base (ledger_of s) (adHost (fsAdapter s))"

lemma mset_put_fresh: "get m k = None \<Longrightarrow> mset (put k v m) = add_mset (k, v) (mset m)"
  unfolding put_def get_def by (induction m) auto

lemma mset_del: "is_gomap m \<Longrightarrow> get m k = Some v \<Longrightarrow> mset m = add_mset (k, v) (mset (del k m))"
proof (induction m)
  case (Cons a m)
  obtain k' v' where a: "a = (k', v')" by (cases a)
  show ?case
  proof (cases "k' = k")
    case True
    then have "get m k = None" using Cons.prems(1) by (auto simp: a is_gomap_def keys_of_def get_def map_of_eq_None_iff)
    then have "AList.delete k m = m" by (simp add: get_def map_of_eq_None_iff delete_id)
    then show ?thesis using Cons.prems True by (simp add: a del_def get_def)
  next
    case False
    then show ?thesis using Cons by (simp add: a del_def get_def is_gomap_def keys_of_def)
  qed
qed (simp add: get_def)

lemma mset_put_old:
  assumes "is_gomap m" "get m k = Some v"
  shows "mset (put k v' m) = add_mset (k, v') (mset (del k m))"
proof -
  have "del k (put k v' m) = del k m" by (simp add: del_def put_def delete_update_same)
  then show ?thesis using mset_del [of "put k v' m" k v'] assms(1) by simp
qed


lemma keeps_devices:
  "devices (write_observation os rd t ob h) = devices h"
  using files_onlyD [OF files_only_writeJSON] unfolding write_observation_def by (metis prod.collapse)

lemma RunInSandbox_keeps:
  assumes "RunInSandbox ed req a = (a', r)"
  shows "adSandboxes a' = adSandboxes a \<and> adProvisioning a' = adProvisioning a \<and> devices (adHost a') = devices (adHost a)"
proof -
  have f: "files_only (wrap ''create run directory'' (call (edOS ed) (MkdirAll rd) (make_dir rd)))" for rd by simp
  show ?thesis
    using assms unfolding RunInSandbox_def Let_def
    by (auto simp: keeps_devices split: if_splits sum.splits prod.splits dest!: files_onlyD [OF f])
qed

lemma fc_inv_init: "fc_inv k (mset (chain k tr)) (fsys_init port (initial_host tr files dirs))"
  by (auto simp: fc_inv_def fsys_init_def initial_host_def jobs_ok_def ledger_of_def account_def resolves_def owners_def NewRegistry_def Lookup_def)

lemma terminate_keeps:
  assumes "Adapter_TerminateSandbox no_errors sid (fsAdapter s) = (a, r)" "fc_inv k base s"
  shows "fc_inv k base (s\<lparr>fsAdapter := a\<rparr>)"
proof (cases "get (adSandboxes (fsAdapter s)) (trim_space sid)")
  case None
  then have "a = fsAdapter s" using assms(1) by (auto simp: Adapter_TerminateSandbox_def Let_def split: if_splits)
  then show ?thesis using assms(2) by simp
next
  case (Some i)
  show ?thesis
  proof (cases "trim_space sid = []")
    case True
    then have "a = fsAdapter s" using assms(1) by (auto simp: Adapter_TerminateSandbox_def Let_def)
    then show ?thesis using assms(2) by simp
  next
    case False
    let ?m = "adSandboxes (fsAdapter s)" and ?h = "adHost (fsAdapter s)"
    have m: "is_gomap ?m" using assms(2) by (simp add: fc_inv_def)
    have acc: "account k base (add_mset (trim_space sid, i) (mset (del (trim_space sid) ?m) + mset (fsLaunched s))) ?h"
      using assms(2) mset_del [OF m Some] by (simp add: fc_inv_def ledger_of_def)
    then have "siGuestIP i \<noteq> []" by (simp add: account_def)
    then have a: "a = (fsAdapter s)\<lparr>adSandboxes := del (trim_space sid) ?m, adHost := shutdown no_errors i (release_registration (siGuestIP i) ?h)\<rparr>"
      using assms(1) False Some by (auto simp: Adapter_TerminateSandbox_def Let_def)
    have "account k base (mset (del (trim_space sid) ?m) + mset (fsLaunched s)) (adHost a)"
      using account_end [OF acc] by (simp add: a no_errors_def)
    then show ?thesis using assms(2) m by (auto simp: fc_inv_def ledger_of_def a jobs_ok_def)
  qed
qed

lemma account_swap:
  assumes "account k base (add_mset (sid, i) L) h" "siGuestIP j = siGuestIP i" "siPolicy j = siPolicy i" "siCleanupNetwork j = siCleanupNetwork i"
  shows "account k base (add_mset (sid, j) L) h"
proof -
  have "resolves g (add_mset (sid, j) L) ip" if "resolves g (add_mset (sid, i) L) ip" for g ip
    using that assms(2,3) by (auto simp: resolves_def owners_def split: option.splits if_splits)
  moreover have "cleanup_of j = cleanup_of i" by (simp add: cleanup_of_def assms(4))
  ultimately show ?thesis using assms(1,2) by (auto simp: account_def)
qed

lemma exits_keeps:
  assumes "fc_inv k base s"
  shows "fc_inv k base (s\<lparr>fsAdapter := vm_exited sid err (fsAdapter s)\<rparr>)"
proof (cases "get (adSandboxes (fsAdapter s)) sid")
  case None
  then show ?thesis using assms by (simp add: vm_exited_def)
next
  case (Some i)
  let ?m = "adSandboxes (fsAdapter s)" and ?h = "adHost (fsAdapter s)"
  have m: "is_gomap ?m" using assms by (simp add: fc_inv_def)
  have acc: "account k base (add_mset (sid, i) (mset (del sid ?m) + mset (fsLaunched s))) ?h"
    using assms mset_del [OF m Some] by (simp add: fc_inv_def ledger_of_def)
  have "account k base (add_mset (sid, setExited err i) (mset (del sid ?m) + mset (fsLaunched s))) (stopVM (siProcess i) ?h)"
    by (rule account_devices [OF account_swap [OF acc]]) (simp_all add: setExited_def stopVM_def split: option.split)
  then show ?thesis
    using assms m mset_put_old [OF m Some] by (auto simp: vm_exited_def Some fc_inv_def ledger_of_def jobs_ok_def)
qed

lemma fc_inv_step:
  assumes "fc_step s s'" "fc_inv k base s"
  shows "fc_inv k base s'"
  using assms
proof (cases rule: fc_step.cases)
  case (begin_ok req a sid)
  then show ?thesis using assms(2)
    by (auto simp: fc_inv_def ProvisionSandbox_begin_def Let_def jobs_ok_def ledger_of_def split: if_splits)
next
  case (begin_refused req a e)
  then have "a = fsAdapter s" by (auto simp: ProvisionSandbox_begin_def Let_def split: if_splits)
  then show ?thesis using begin_refused assms(2) by simp
next
  case (launch_ok sid req d exec exec' mountDir script cacheBase agent nanos a i)
  obtain h where h: "launchSandboxVM d (adGatewayPort (fsAdapter s)) sid (prPolicy req) (prConfig req) (adHost (fsAdapter s)) = (h, Inr i)"
    and a: "a = (fsAdapter s)\<lparr>adHost := h\<rparr>"
    using launch_ok(6) by (auto simp: on_host_def split: prod.splits)
  have "keeps_rules chain (ldPrepare d img)" for img by (simp add: launch_ok(5) keeps_prepare_recorder)
  then have "account k base (add_mset (sid, i) (ledger_of s)) h"
    using account_launch [OF _ h launch_ok(3) launch_ok(4) [unfolded no_errors_def]] assms(2) by (fastforce simp: fc_inv_def)
  moreover have j: "\<forall>x. jobs_ok s x" using assms(2) by (simp add: fc_inv_def)
  moreover have "get (fsLaunched s) sid = None" using j launch_ok(2) by (auto simp: jobs_ok_def)
  ultimately show ?thesis
    using assms(2) launch_ok(2) by (auto simp: launch_ok(1) a fc_inv_def ledger_of_def mset_put_fresh jobs_ok_def)
next
  case (launch_failed sid req d exec exec' mountDir script cacheBase agent nanos a e)
  obtain h where h: "launchSandboxVM d (adGatewayPort (fsAdapter s)) sid (prPolicy req) (prConfig req) (adHost (fsAdapter s)) = (h, Inl e)"
    and a: "a = (fsAdapter s)\<lparr>adHost := h\<rparr>"
    using launch_failed(6) by (auto simp: on_host_def split: prod.splits)
  have "keeps_rules chain (ldPrepare d img)" for img by (simp add: launch_failed(5) keeps_prepare_recorder)
  then have "account k base (ledger_of s) h"
    using account_launch [OF _ h launch_failed(3) launch_failed(4) [unfolded no_errors_def]] assms(2) by (fastforce simp: fc_inv_def)
  then show ?thesis
    using assms(2) launch_failed(2) by (auto simp: launch_failed(1) a fc_inv_def ledger_of_def jobs_ok_def)
next
  case (finish_ok sid i a r)
  have j: "jobs_ok s x" for x using assms(2) by (simp add: fc_inv_def)
  have "get (adSandboxes (fsAdapter s)) sid = None" using j [of sid] finish_ok(2) by (auto simp: jobs_ok_def)
  moreover from this have a: "a = (fsAdapter s)\<lparr>adProvisioning := del sid (adProvisioning (fsAdapter s)), adSandboxes := put sid i (adSandboxes (fsAdapter s))\<rparr>"
    using finish_ok(3) by (auto simp: ProvisionSandbox_finish_def Let_def)
  ultimately have "ledger_of s' = ledger_of s"
    using assms(2) mset_del [of "fsLaunched s" sid i] finish_ok(2) by (simp add: finish_ok(1) ledger_of_def a mset_put_fresh fc_inv_def)
  moreover have "jobs_ok s' x" for x using j [of x] finish_ok(2) by (auto simp: finish_ok(1) a jobs_ok_def)
  ultimately show ?thesis using assms(2) by (simp add: fc_inv_def) (simp add: finish_ok(1) a)
next
  case (finish_failed sid e a r)
  have j: "jobs_ok s x" for x using assms(2) by (simp add: fc_inv_def)
  have a: "a = (fsAdapter s)\<lparr>adProvisioning := del sid (adProvisioning (fsAdapter s))\<rparr>"
    using finish_failed(3) by (auto simp: ProvisionSandbox_finish_def Let_def)
  have "jobs_ok s' x" for x using j [of x] finish_failed(2) by (auto simp: finish_failed(1) a jobs_ok_def)
  then show ?thesis using assms(2) by (simp add: fc_inv_def) (simp add: finish_failed(1) a ledger_of_def)
next
  case (terminate sid a r)
  then show ?thesis using assms(2) terminate_keeps by blast
next
  case (exits sid err)
  then show ?thesis using assms(2) exits_keeps by blast
next
  case (runs ed req a r')
  from RunInSandbox_keeps [OF runs(2)] assms(2) show ?thesis
    by (auto simp: runs(1) fc_inv_def jobs_ok_def ledger_of_def devices_def elim!: account_devices)
qed

lemma fc_inv_reach: "fc_step\<^sup>*\<^sup>* (fsys_init port (initial_host tr files dirs)) s \<Longrightarrow> fc_inv k (mset (chain k tr)) s"
  by (induction rule: rtranclp_induct) (auto intro: fc_inv_init fc_inv_step)

section \<open>Properties\<close>


definition demo_request :: ProvisionRequest where
  "demo_request = \<lparr>prSandboxID = ''s1'', prPolicy = Some demo_policy, prConfig = demo_config\<rparr>"


end
