(* ===== verification/Firecracker_Run.thy ===== *)
theory Firecracker_Run
  imports Firecracker_Lifecycle
begin

text \<open>
  The single run of \<open>internal/backend/firecracker/backend.go\<close>, for backends without a persistent sandbox: one machine for one
  command, taken down when the command is over, with a record of observations; and \<open>Doctor\<close>, the checks of a host.
\<close>

section \<open>Actions that observe\<close>

text \<open>An action on the host and on the observations of the run.\<close>

type_synonym ('n, 'a) oact = "('n fc_host \<times> firecrackerRunObservation, 'a) effect"

definition on_run_host :: "('n, 'a) act \<Rightarrow> ('n, 'a) oact" where
  "on_run_host m = (\<lambda>(h, ob). case m h of (h', r) \<Rightarrow> ((h', ob), r))"

definition observe :: "(firecrackerRunObservation \<Rightarrow> firecrackerRunObservation) \<Rightarrow> ('n, unit) oact" where
  "observe f = (\<lambda>(h, ob). ((h, f ob), Inr ()))"

text \<open>An action whose duration is observed whether it fails or not.\<close>

definition timed :: "(firecrackerRunObservation \<Rightarrow> firecrackerRunObservation) \<Rightarrow> ('n, 'a) oact \<Rightarrow> ('n, 'a) oact" where
  "timed f = deferred (\<lambda>(h, ob). (h, f ob))"

section \<open>The run\<close>

text \<open>
  What a run asks beyond a launch: the directory of runs, the durations it measures, the seed, and the link to the guest once
  the machine runs (for a number of seconds it may take to come up).
\<close>

record 'n run_deps =
  rdLaunch :: "'n launch_deps"
  rdRunBase :: "string + string"
  rdSeed :: "string option"
  rdLink :: "int \<Rightarrow> string \<Rightarrow> 32 word \<Rightarrow> guest_link"
  rdStartedAt :: int
  rdCopyTook :: int
  rdNetworkTook :: int
  rdStartTook :: int
  rdCleanupTook :: int
  rdTotalTook :: int

text \<open>The run directory and the execution plan.\<close>

definition single_run_dir :: "string + string \<Rightarrow> RunRequest \<Rightarrow> string + string" where
  "single_run_dir runBase req =
     (if fcRunDir (rrConfig req) = []
      then and_then (map_error (\<lambda>e. ''resolve run base directory: '' @ e) runBase) (\<lambda>baseDir. Inr (path_join [baseDir, rrRunID req]))
      else Inr (fcRunDir (rrConfig req)))"

definition plan_json :: "string \<Rightarrow> json" where
  "plan_json cmdPath = JObj [(''backend'', JStr ''firecracker''), (''command_path'', JStr cmdPath), (''mode'', JStr ''plan-only'')]"

definition run_plan :: "os \<Rightarrow> RunRequest \<Rightarrow> CompiledPolicy \<Rightarrow> string \<Rightarrow> string \<Rightarrow> ('n, RunResult) oact" where
  "run_plan os req compiled runDir cmdPath =
     (let planPath = path_join [runDir, ''plan.json''] in
      bind_act (observe (\<lambda>ob. ob\<lparr>roPhase := ''plan''\<rparr>)) (\<lambda>_.
      bind_act (on_run_host (writeJSON os planPath (plan_json cmdPath))) (\<lambda>_.
      bind_act (observe (\<lambda>ob. ob\<lparr>roPlanPath := planPath, roRunDir := runDir\<rparr>)) (\<lambda>_.
      ret \<lparr>resRunID = rrRunID req, resExitCode = 0, resLaunchedVM = False, resPlanPath = planPath, resRunDir = runDir,
           resImageRef = cpImageRef compiled, resImageDigest = cpImageDigest compiled,
           resMessage = ''firecracker execution plan generated; command not executed'', resStdout = [], resStderr = []\<rparr>))))"

text \<open>The binary, the kernel, the image and the prepared root file system.\<close>

definition run_prepare :: "'n run_deps \<Rightarrow> CompiledPolicy \<Rightarrow> FirecrackerConfig \<Rightarrow> ('n, string \<times> imageArtifact \<times> string) oact" where
  "run_prepare d compiled cfg =
     (let l = rdLaunch d; binary = (if fcBinaryPath cfg = [] then ''firecracker'' else fcBinaryPath cfg) in
      bind_act (on_run_host (lift_res (map_error (\<lambda>e. ''firecracker binary not found ('' @ go_quote binary @ ''): '' @ e) (ldLookPath l binary)))) (\<lambda>_.
      bind_act (observe (\<lambda>ob. ob\<lparr>roPhase := ''launch''\<rparr>)) (\<lambda>_.
      bind_act (on_run_host (lift_res (ldKernel l (fcKernelImagePath cfg)))) (\<lambda>(kernelPath, notice).
      bind_act (on_run_host (lift_res (ensureImageArtifact (ldManager l) (cpImageRef compiled)))) (\<lambda>img.
      bind_act (observe (\<lambda>ob. ob\<lparr>roImageRef := iaRef img, roImageDigest := iaDigest img, roImageCacheHit := iaCacheHit img\<rparr>)) (\<lambda>_.
      bind_act (on_run_host (ldPrepare l img)) (\<lambda>prepared.
      bind_act (on_run_host (lift_res (ldAbs l prepared))) (\<lambda>rootfsPath.
      bind_act (on_run_host (wrap (''rootfs '' @ rootfsPath) (must_exist (ldOS l) rootfsPath))) (\<lambda>_.
      ret (kernelPath, img, rootfsPath))))))))))"

text \<open>The command in the running machine, and what the caller and the record get of it.\<close>

definition run_guest ::
  "'n run_deps \<Rightarrow> RunRequest \<Rightarrow> FirecrackerConfig \<Rightarrow> imageArtifact \<Rightarrow> string \<Rightarrow> string \<Rightarrow> string \<Rightarrow> ('n, RunResult) oact" where
  "run_guest d req cfg img runDir vsockPath cfgPath =
     bind_act (on_run_host (lift_res (goResult (runGuestCommand (rdLink d (fcLaunchSeconds cfg) vsockPath (fcGuestPort cfg))
        \<lparr>erCommand = rrCommand req, erDir = [], erEnv = [], erEntropySeed = (case rdSeed d of None \<Rightarrow> [] | Some s \<Rightarrow> s), erTTY = rrTTY req\<rparr>)))) (\<lambda>(res, t).
     let ready = max 0 (gtAgentReadyAt t - rdStartedAt d);
         message = (if epError res \<noteq> []
           then runResultMessage (''firecracker launch and guest command execution completed with guest-side error detail: '' @ epError res)
           else runResultMessage ''firecracker launch and guest command execution complete'');
         summary = ''timings boot='' @ Duration_String ready @ '' vsock_wait='' @ Duration_String (gtWaitForAgent t) @ '' exec='' @ Duration_String (gtCommandRun t) in
     bind_act (observe (\<lambda>ob. ob\<lparr>roVMReadyMS := Milliseconds ready, roVsockWaitMS := Milliseconds (gtWaitForAgent t), roGuestExecMS := Milliseconds (gtCommandRun t),
       roPlanPath := cfgPath, roRunDir := runDir, roExitCode := epExitCode res, roGuestError := epError res\<rparr>)) (\<lambda>_.
     ret \<lparr>resRunID = rrRunID req, resExitCode = epExitCode res, resLaunchedVM = True, resPlanPath = cfgPath, resRunDir = runDir,
          resImageRef = iaRef img, resImageDigest = iaDigest img, resMessage = message @ ''; '' @ summary, resStdout = epStdout res,
          resStderr = (if epError res \<noteq> [] \<and> trim_space (epStderr res) = [] then epError res @ [CHR 0x0A] else epStderr res)\<rparr>))"

text \<open>The machine: its configuration, its logs, its start; it is stopped when the command is over.\<close>

definition run_machine ::
  "'n run_deps \<Rightarrow> RunRequest \<Rightarrow> CompiledPolicy \<Rightarrow> FirecrackerConfig \<Rightarrow> imageArtifact \<Rightarrow> string \<Rightarrow> string \<Rightarrow> string \<Rightarrow> hostNetworkConfig \<Rightarrow> ('n, RunResult) oact" where
  "run_machine d req compiled cfg img kernelPath runDir vmRootFSPath net =
     (let os = ldOS (rdLaunch d); vsockPath = path_join [runDir, ''vsock.sock'']; cfgPath = path_join [runDir, ''firecracker-config.json''];
          apiSocket = path_join [runDir, ''firecracker.sock'']; stdoutPath = path_join [runDir, ''firecracker.stdout.log''];
          stderrPath = path_join [runDir, ''firecracker.stderr.log''] in
      bind_act (on_run_host (writeJSON os cfgPath (config_json (vm_config (rrRunID req) kernelPath vmRootFSPath vsockPath net compiled cfg)))) (\<lambda>_.
      bind_act (on_run_host (call os (Create stdoutPath) (put_file stdoutPath []))) (\<lambda>_.
      bind_act (on_run_host (call os (Create stderrPath) (put_file stderrPath []))) (\<lambda>_.
      bind_act (timed (\<lambda>ob. ob\<lparr>roFirecrackerStartMS := durationMillisCeil (rdStartTook d)\<rparr>)
        (on_run_host (wrap ''start firecracker'' (call os (StartVM apiSocket) (\<lambda>h. h\<lparr>fhVMs := apiSocket # fhVMs h\<rparr>))))) (\<lambda>_.
      deferred (\<lambda>(h, ob). (stopVM (Some apiSocket) h, ob))
        (run_guest d req cfg img runDir vsockPath cfgPath))))))"

text \<open>The root file system of the run and its network, both taken back at the end.\<close>

definition run_launch ::
  "'n run_deps \<Rightarrow> RunRequest \<Rightarrow> CompiledPolicy \<Rightarrow> FirecrackerConfig \<Rightarrow> string \<Rightarrow> ('n, RunResult) oact" where
  "run_launch d req compiled cfg runDir =
     (let l = rdLaunch d; vmRootFSPath = path_join [runDir, ''rootfs-ephemeral.ext4''] in
      bind_act (run_prepare d compiled cfg) (\<lambda>(kernelPath, img, rootfsPath).
      deferred (\<lambda>(h, ob). (remove_file vmRootFSPath h, ob))
       (bind_act (timed (\<lambda>ob. ob\<lparr>roRootFSCopyMS := durationMillisCeil (rdCopyTook d)\<rparr>)
          (on_run_host (wrap ''prepare per-run rootfs'' (copyFile (ldOS l) rootfsPath vmRootFSPath)))) (\<lambda>_.
        bind_act (on_run_host (wrap ''setup host network'' (network_act l (rrRunID req) (cpAllow compiled) 0))) (\<lambda>(net, cl).
        bind_act (observe (\<lambda>ob. ob\<lparr>roNetworkSetupMS := Milliseconds (rdNetworkTook d), roPolicyResolveMS := hnPolicyResolveMS net,
          roNetworkTap := hnTapName net, roNetworkGuestIP := hnGuestIP net, roNetworkHostIP := hnHostIP net\<rparr>)) (\<lambda>_.
        deferred (\<lambda>(h, ob). (run_cleanup l cl h, ob\<lparr>roCleanupMS := Milliseconds (rdCleanupTook d)\<rparr>))
          (run_machine d req compiled cfg img kernelPath runDir vmRootFSPath net)))))))"

definition run_in_dir :: "'n run_deps \<Rightarrow> RunRequest \<Rightarrow> CompiledPolicy \<Rightarrow> string \<Rightarrow> ('n, RunResult) oact" where
  "run_in_dir d req compiled runDir =
     (let os = ldOS (rdLaunch d); cfg = default_config (ldRandom (rdLaunch d)) (rrConfig req); cmdPath = path_join [runDir, ''requested-command.json''] in
      deferred (\<lambda>(h, ob). (write_observation os runDir (rdTotalTook d) ob h, ob))
        (bind_act (on_run_host (writeJSON os cmdPath (JArr (map JStr (rrCommand req))))) (\<lambda>_.
         if \<not> fcLaunch (rrConfig req) then run_plan os req compiled runDir cmdPath else run_launch d req compiled cfg runDir)))"

definition Adapter_run :: "'n run_deps \<Rightarrow> RunRequest \<Rightarrow> ('n, RunResult) act" where
  "Adapter_run d req h =
     (let l = rdLaunch d in
      case rrPolicy req of
        None \<Rightarrow> (h, Inl ''missing compiled policy'')
      | Some compiled \<Rightarrow>
          if cpNetworkDefault compiled \<noteq> ''deny''
          then (h, Inl (''firecracker backend requires deny-by-default policy, got '' @ go_quote (cpNetworkDefault compiled)))
          else if rrCommand req = [] then (h, Inl ''missing command'')
          else if ldGOOS l \<noteq> ''linux'' then (h, Inl (''firecracker backend is linux-only, current OS is '' @ ldGOOS l))
          else
            bind_act (lift_res (single_run_dir (rdRunBase d) req)) (\<lambda>runDir.
            bind_act (call (ldOS l) (MkdirAll runDir) (make_dir runDir)) (\<lambda>_ h.
            case run_in_dir d req compiled runDir
                (h, (new_observation (rrRunID req) (fcLaunch (rrConfig req)))\<lparr>roExitCode := 1, roImageRef := cpImageRef compiled, roImageDigest := cpImageDigest compiled\<rparr>) of
              ((h', _), r) \<Rightarrow> (h', r))) h)"

section \<open>Doctor\<close>

record DoctorCheck =
  dcName :: string
  dcStatus :: string
  dcMessage :: string

text \<open>
  What the checks see of the host: binaries on the path, access to files (an error or none), the managed kernel (identifier and path),
  the guest agent, \<open>mkfs.ext4\<close> and privileged commands.
\<close>

record doctor_env =
  deGOOS :: string
  deLookPath :: "string \<Rightarrow> bool"
  deStat :: "string \<Rightarrow> string option"
  deOpenKvm :: "string option"
  deManagedKernel :: "(string \<times> string) option"
  deAgent :: "string + string \<times> string"
  deMkfs :: "string + string"
  deRoot :: "string list \<Rightarrow> string option"

definition check :: "string \<Rightarrow> string \<Rightarrow> string \<Rightarrow> DoctorCheck" where
  "check name status message = \<lparr>dcName = name, dcStatus = status, dcMessage = message\<rparr>"

definition kernel_check :: "doctor_env \<Rightarrow> string \<Rightarrow> DoctorCheck" where
  "kernel_check env configured0 =
     (let configured = trim_space configured0 in
      if configured = [] then
        (case deManagedKernel env of
           Some (spec, path) \<Rightarrow> check ''kernel_image'' ''pass'' (''kernel image will be auto-managed ('' @ spec @ '' -> '' @ path @ '')'')
         | None \<Rightarrow> check ''kernel_image'' ''warn'' ''kernel image not configured and no managed kernel asset is available for this host'')
      else
        (case deStat env configured of
           Some e \<Rightarrow>
             (case deManagedKernel env of
                Some (spec, path) \<Rightarrow> check ''kernel_image'' ''warn''
                  (''configured kernel image is not accessible ('' @ e @ ''); runtime will use managed kernel ('' @ spec @ '' -> '' @ path @ '')'')
              | None \<Rightarrow> check ''kernel_image'' ''fail'' (''kernel image not accessible: '' @ e))
         | None \<Rightarrow> check ''kernel_image'' ''pass'' (''kernel image configured: '' @ configured)))"

definition policy_checks :: "doctor_env \<Rightarrow> CompiledPolicy option \<Rightarrow> DoctorCheck" where
  "policy_checks env policy =
     (case policy of
        None \<Rightarrow> check ''sandbox_image_ref'' ''warn'' ''policy not loaded; cannot validate sandbox.image.ref''
      | Some p \<Rightarrow>
          if trim_space (cpImageRef p) = [] then check ''sandbox_image_ref'' ''fail'' ''sandbox.image.ref is required for launched execution''
          else check ''sandbox_image_ref'' ''pass'' (''sandbox image ref configured: '' @ cpImageRef p))"

definition host_checks :: "doctor_env \<Rightarrow> FirecrackerConfig \<Rightarrow> DoctorCheck list" where
  "host_checks env cfg =
     (let binary = (if fcBinaryPath cfg = [] then ''firecracker'' else fcBinaryPath cfg) in
      [if deGOOS env = ''linux'' then check ''os'' ''pass'' ''linux host detected''
       else check ''os'' ''fail'' (''linux required, current OS is '' @ deGOOS env),
       if deLookPath env binary then check ''binary'' ''pass'' (''found firecracker binary '' @ go_quote binary)
       else check ''binary'' ''fail'' (''firecracker binary '' @ go_quote binary @ '' not found in PATH''),
       case deStat env ''/dev/kvm'' of
         Some _ \<Rightarrow> check ''kvm'' ''fail'' ''missing /dev/kvm''
       | None \<Rightarrow>
           (case deOpenKvm env of
              Some e \<Rightarrow> check ''kvm'' ''fail'' (''cannot open /dev/kvm read-write: '' @ e)
            | None \<Rightarrow> check ''kvm'' ''pass'' ''/dev/kvm is accessible''),
       kernel_check env (fcKernelImagePath cfg),
       case deAgent env of
         Inl e \<Rightarrow> check ''guest_agent_binary'' ''fail'' e
       | Inr (path, _) \<Rightarrow> check ''guest_agent_binary'' ''pass'' (''found cleanroom guest agent '' @ go_quote path)])"

definition network_checks :: "doctor_env \<Rightarrow> FirecrackerConfig \<Rightarrow> DoctorCheck list" where
  "network_checks env cfg =
     (let (mode, helper) = resolvePrivilegedExecution cfg in
      [check ''network_privileged_mode'' ''pass'' (''using privileged command mode '' @ go_quote mode)] @
      map (\<lambda>cmd. if deLookPath env cmd then check (''network_cmd_'' @ cmd) ''pass'' (''found host command '' @ go_quote cmd)
                 else check (''network_cmd_'' @ cmd) ''fail'' (''missing required host command '' @ go_quote cmd))
        [''ip'', ''iptables'', ''sysctl'', ''sudo''] @
      (if mode = ''helper'' then
         [case deStat env helper of
            Some e \<Rightarrow> check ''network_helper'' ''fail'' (''privileged helper '' @ go_quote helper @ '' is not accessible: '' @ e)
          | None \<Rightarrow> check ''network_helper'' ''pass'' (''using privileged helper '' @ go_quote helper)]
       else []) @
      [case deRoot env [''true''] of
         Some e \<Rightarrow> check ''network_privileged_probe'' ''warn'' (''privileged command probe failed: '' @ e)
       | None \<Rightarrow> check ''network_privileged_probe'' ''pass'' ''privileged command probe succeeded'',
       case deRoot env [''ip'', ''link'', ''show''] of
         Some e \<Rightarrow> check ''network_privileged_ip'' ''warn'' (''privileged ip link show failed: '' @ e)
       | None \<Rightarrow> check ''network_privileged_ip'' ''pass'' ''privileged ip command execution succeeded''])"

definition Doctor :: "doctor_env \<Rightarrow> CompiledPolicy option \<Rightarrow> FirecrackerConfig \<Rightarrow> DoctorCheck list" where
  "Doctor env policy cfg =
     host_checks env cfg @
     [policy_checks env policy,
      case deMkfs env of
        Inl e \<Rightarrow> check ''mkfs_ext4'' (if deGOOS env = ''darwin'' then ''warn'' else ''fail'') (''mkfs.ext4 not available: '' @ e)
      | Inr path \<Rightarrow> check ''mkfs_ext4'' ''pass'' (''found mkfs.ext4 ('' @ path @ '') for OCI rootfs materialisation''),
      if fcGuestPort cfg = 0 then check ''vsock_port'' ''pass'' (''using default guest vsock port '' @ itoa (uint DefaultPort))
      else check ''vsock_port'' ''pass'' (''configured guest vsock port '' @ itoa (uint (fcGuestPort cfg))),
      case policy of
        None \<Rightarrow> check ''network_policy_rules'' ''warn'' ''policy not loaded; cannot verify network allow entries''
      | Some p \<Rightarrow> check ''network_policy_rules'' ''pass'' (''loaded '' @ itoa (int (length (cpAllow p))) @ '' policy allow entries'')] @
     network_checks env cfg"

section \<open>What a run leaves\<close>

definition same_host :: "string \<times> string \<Rightarrow> trace fc_host \<Rightarrow> trace fc_host \<Rightarrow> bool" where
  "same_host k h h' \<longleftrightarrow> fhRegistry h' = fhRegistry h \<and> fhVMs h' = fhVMs h \<and> mset (chain k (fhNet h')) = mset (chain k (fhNet h))"

lemma same_host_refl [simp]: "same_host k h h"
  by (simp add: same_host_def)

lemma same_host_trans [trans]: "same_host k a b \<Longrightarrow> same_host k b c \<Longrightarrow> same_host k a c"
  by (simp add: same_host_def)

lemma same_host_devices: "devices h' = devices h \<Longrightarrow> same_host k h h'"
  by (simp add: same_host_def devices_def)

definition neutral :: "string \<times> string \<Rightarrow> (trace, 'a) oact \<Rightarrow> bool" where
  "neutral k m \<longleftrightarrow> (\<forall>s. same_host k (fst s) (fst (fst (m s))))"

lemma neutralI: "(\<And>h ob h' ob' r. m (h, ob) = ((h', ob'), r) \<Longrightarrow> same_host k h h') \<Longrightarrow> neutral k m"
  unfolding neutral_def by (metis prod.collapse)

lemma neutralD: "neutral k m \<Longrightarrow> m s = (s', r) \<Longrightarrow> same_host k (fst s) (fst s')"
  unfolding neutral_def by (metis fst_conv)

lemma neutral_simple: "neutral k (ret x)" "neutral k (observe f)"
  by (auto intro!: neutralI simp: ret_def observe_def)

lemma neutral_host: "keeps_rules chain m \<Longrightarrow> neutral k (on_run_host m)"
  by (rule neutralI) (auto simp: on_run_host_def same_host_def split: prod.splits dest: keeps_rulesD keeps_rules_at [where k = k])

lemma neutral_bind:
  assumes "neutral k m" "\<And>x. neutral k (f x)"
  shows "neutral k (bind_act m f)"
proof (rule neutralI)
  fix h ob h' ob' r
  assume b: "bind_act m f (h, ob) = ((h', ob'), r)"
  obtain s1 r1 where m: "m (h, ob) = (s1, r1)" by fastforce
  have 1: "same_host k h (fst s1)" using neutralD [OF assms(1) m] by simp
  show "same_host k h h'"
  proof (cases r1)
    case (Inl e)
    then show ?thesis using b m 1 by (auto simp: bind_act_def)
  next
    case (Inr x)
    then have "f x s1 = ((h', ob'), r)" using b m by (simp add: bind_act_def)
    then show ?thesis using 1 neutralD [OF assms(2)] same_host_trans by fastforce
  qed
qed

lemma neutral_deferred:
  assumes "neutral k m" "\<And>h ob. same_host k h (fst (f (h, ob)))"
  shows "neutral k (deferred f m)"
proof (rule neutralI)
  fix h ob h' ob' r
  assume b: "deferred f m (h, ob) = ((h', ob'), r)"
  obtain s1 r1 where m: "m (h, ob) = (s1, r1)" by fastforce
  have "h' = fst (f s1)" using b m by (auto simp: deferred_def)
  moreover have "same_host k (fst s1) (fst (f s1))" using assms(2) [of "fst s1" "snd s1"] by simp
  ultimately show "same_host k h h'" using neutralD [OF assms(1) m] same_host_trans by fastforce
qed

lemma neutral_timed: "neutral k m \<Longrightarrow> neutral k (timed f m)"
  unfolding timed_def by (rule neutral_deferred) auto

lemmas neutral_rules = neutral_simple neutral_bind neutral_timed neutral_host keeps_files_only

lemma neutral_run_plan: "neutral k (run_plan os req compiled runDir cmdPath)"
  unfolding run_plan_def Let_def by (intro neutral_rules files_only_writeJSON)

lemma neutral_run_prepare:
  "(\<And>img. keeps_rules chain (ldPrepare (rdLaunch d) img)) \<Longrightarrow> neutral k (run_prepare d compiled cfg)"
  unfolding run_prepare_def Let_def split_def
  by (intro neutral_simple neutral_bind neutral_host keeps_simple keeps_wrap)

lemma neutral_run_guest: "neutral k (run_guest d req cfg img runDir vsockPath cfgPath)"
  unfolding run_guest_def Let_def split_def by (intro neutral_simple neutral_bind neutral_host keeps_simple)

text \<open>The machine of a run is started and stopped.\<close>

lemma neutral_machine:
  assumes "neutral k m"
  shows "neutral k (bind_act (timed g (on_run_host (wrap c (call os (StartVM p) (\<lambda>h. h\<lparr>fhVMs := p # fhVMs h\<rparr>)))))
    (\<lambda>_. deferred (\<lambda>(h, ob). (stopVM (Some p) h, ob)) m))"
proof (rule neutralI)
  fix h ob h' ob' r
  assume b: "bind_act (timed g (on_run_host (wrap c (call os (StartVM p) (\<lambda>h. h\<lparr>fhVMs := p # fhVMs h\<rparr>)))))
    (\<lambda>_. deferred (\<lambda>(h, ob). (stopVM (Some p) h, ob)) m) (h, ob) = ((h', ob'), r)"
  show "same_host k h h'"
  proof (cases "os (StartVM p)")
    case (Some e)
    then show ?thesis using b by (auto simp: bind_act_def timed_def deferred_def on_run_host_def wrap_def call_def)
  next
    case None
    obtain h2 ob2 r2 where m: "m (h\<lparr>fhVMs := p # fhVMs h\<rparr>, g ob) = ((h2, ob2), r2)" by (metis prod.exhaust)
    have "h' = stopVM (Some p) h2"
      using b by (auto simp: bind_act_def timed_def deferred_def on_run_host_def wrap_def call_def None m)
    with neutralD [OF assms m] show ?thesis by (simp add: same_host_def stopVM_def)
  qed
qed

lemma neutral_run_machine: "neutral k (run_machine d req compiled cfg img kernelPath runDir vmRootFSPath net)"
proof -
  have c: "files_only (call os (Create q) (put_file q []))" for os q by simp
  show ?thesis
    unfolding run_machine_def Let_def by (intro neutral_bind neutral_host keeps_files_only files_only_writeJSON c neutral_machine neutral_run_guest)
qed

text \<open>The network of a run is set up and cleaned up.\<close>

lemma neutral_network:
  assumes m: "\<And>net. neutral k (m net)" and d: "ldRun l = recorder exec" "ldCleanup l = recorder_batch (\<lambda>_ _. None)"
  shows "neutral k (bind_act (on_run_host (wrap c (network_act l runID allow gw))) (\<lambda>(net, cl).
    bind_act (observe (f net)) (\<lambda>_. deferred (\<lambda>(h, ob). (run_cleanup l cl h, g ob)) (m net))))"
proof (rule neutralI)
  fix h ob h' ob' r
  assume b: "bind_act (on_run_host (wrap c (network_act l runID allow gw))) (\<lambda>(net, cl).
    bind_act (observe (f net)) (\<lambda>_. deferred (\<lambda>(h, ob). (run_cleanup l cl h, g ob)) (m net))) (h, ob) = ((h', ob'), r)"
  obtain n nr where net: "setupHostNetworkWithDeps (ldUid l) (ldTook l) runID allow gw (ldLookup l) (recorder exec) (recorder_batch (\<lambda>_ _. None)) (fhNet h) = (n, nr)" by fastforce
  have na: "network_act l runID allow gw h = (h\<lparr>fhNet := n\<rparr>, nr)" by (simp add: network_act_def d net)
  show "same_host k h h'"
  proof (cases nr)
    case (Inl e)
    then have "h' = h\<lparr>fhNet := n\<rparr>" using b by (auto simp: bind_act_def on_run_host_def wrap_def na)
    then show ?thesis using rec_undo.setup_undone [OF net, of k] Inl by (simp add: same_host_def)
  next
    case (Inr nc)
    obtain net' cl where nc: "nc = (net', cl)" by (cases nc)
    obtain h2 ob2 r2 where m2: "m net' (h\<lparr>fhNet := n\<rparr>, f net' ob) = ((h2, ob2), r2)" by (metis prod.exhaust)
    have "h' = run_cleanup l cl h2"
      using b by (auto simp: bind_act_def on_run_host_def wrap_def na Inr nc observe_def deferred_def m2)
    moreover have "mset (chain k n) = mset (chain k (fhNet h)) + mset (undos k cl)" "\<forall>u \<in> set (rev cl). added k u = []"
      using rec.setup_undos [OF net [unfolded Inr nc], of k] by auto
    moreover have "mset (chain k (fhNet h2)) = mset (chain k n)" "fhRegistry h2 = fhRegistry h" "fhVMs h2 = fhVMs h"
      using neutralD [OF m m2] by (simp_all add: same_host_def)
    ultimately show ?thesis
      using rec_undo.batch_removes [of "rev cl" k "fhNet h2"] by (simp add: same_host_def run_cleanup_def d(2))
  qed
qed

lemma neutral_run_launch:
  assumes "ldRun (rdLaunch d) = recorder exec" "ldCleanup (rdLaunch d) = recorder_batch (\<lambda>_ _. None)"
    and "\<And>img. keeps_rules chain (ldPrepare (rdLaunch d) img)"
  shows "neutral k (run_launch d req compiled cfg runDir)"
proof -
  have r: "same_host k h (fst (case (h, ob) of (h, ob) \<Rightarrow> (remove_file p h, ob)))" for h p and ob :: firecrackerRunObservation
    by (simp add: same_host_devices)
  have k: "keeps_rules chain (wrap c (copyFile os a b))" for c os a b by (intro keeps_wrap keeps_simple)
  have n: "neutral k (bind_act (on_run_host (wrap c (network_act (rdLaunch d) runID allow gw))) (\<lambda>(net, cl).
      bind_act (observe (f net)) (\<lambda>_. deferred (\<lambda>(h, ob). (run_cleanup (rdLaunch d) cl h, g ob)) (run_machine d req compiled cfg img kp runDir p net))))"
    for c runID allow gw f g img kp p
    by (rule neutral_network [OF neutral_run_machine assms(1,2)])
  have body: "neutral k (case x of (kernelPath, img, rootfsPath) \<Rightarrow> deferred (\<lambda>(h, ob). (remove_file p h, ob))
      (bind_act (timed t (on_run_host (wrap c (copyFile os rootfsPath p)))) (\<lambda>_.
        bind_act (on_run_host (wrap c' (network_act (rdLaunch d) (rrRunID req) (cpAllow compiled) 0))) (\<lambda>(net, cl).
        bind_act (observe (f net)) (\<lambda>_. deferred (\<lambda>(h, ob). (run_cleanup (rdLaunch d) cl h, g ob)) (run_machine d req compiled cfg img kernelPath runDir p net))))))"
    for x p t c c' os f g
  proof -
    obtain kernelPath img rootfsPath where x: "x = (kernelPath, img, rootfsPath)" by (cases x)
    show ?thesis unfolding x prod.case by (intro neutral_deferred neutral_bind neutral_timed neutral_host k n r)
  qed
  show ?thesis unfolding run_launch_def Let_def by (rule neutral_bind [OF neutral_run_prepare [OF assms(3)] body])
qed

lemma neutral_run_in_dir:
  assumes "ldRun (rdLaunch d) = recorder exec" "ldCleanup (rdLaunch d) = recorder_batch (\<lambda>_ _. None)"
    and "\<And>img. keeps_rules chain (ldPrepare (rdLaunch d) img)"
  shows "neutral k (run_in_dir d req compiled runDir)"
proof -
  have w: "same_host k h (fst (case (h, ob) of (h, ob) \<Rightarrow> (write_observation os p t ob h, ob)))" for h os p t ob
    by (simp add: same_host_devices keeps_devices)
  have i: "neutral k (if b then m else m')" if "neutral k m" "neutral k m'" for b and m m' :: "(trace, RunResult) oact" using that by simp
  show ?thesis
    unfolding run_in_dir_def Let_def
    by (intro neutral_deferred neutral_bind neutral_host keeps_files_only files_only_writeJSON i neutral_run_plan neutral_run_launch [OF assms] w)
qed

section \<open>Properties\<close>


definition demo_run :: "trace run_deps" where
  "demo_run = \<lparr>rdLaunch = demo_deps (Inr ()), rdRunBase = Inr ''/runs'', rdSeed = None,
     rdLink = (\<lambda>_ _ _. \<lparr>glDial = Inl ''timeout'', glSetDeadline = None, glSendError = None, glIncoming = [], glCtxErr = None, glClock = int, glWireMessage = (\<lambda>_. [])\<rparr>),
     rdStartedAt = 0, rdCopyTook = 0, rdNetworkTook = 0, rdStartTook = 0, rdCleanupTook = 0, rdTotalTook = 0\<rparr>"


end
