(* ===== verification/Firecracker_Exec_Props.thy ===== *)
theory Firecracker_Exec_Props
  imports Firecracker_Adapter
begin

text \<open>Commands and downloads in a sandbox, from the frames the guest sends to what the adapter returns.\<close>

section \<open>A guest that answers\<close>

text \<open>A link over which the guest sends output frames and then its exit frame.\<close>

definition answers :: "guest_link \<Rightarrow> ExecStreamFrame list \<Rightarrow> ExecStreamFrame \<Rightarrow> bool" where
  "answers l frames e \<longleftrightarrow>
     glDial l = Inr () \<and> glSetDeadline l = None \<and> glSendError l = None \<and>
     list_all (\<lambda>f. sfType f = ''stdout'' \<or> sfType f = ''stderr'') frames \<and> sfType e = ''exit'' \<and>
     - (2 ^ 63) \<le> sfExitCode e \<and> sfExitCode e < 2 ^ 63 \<and> take (length frames + 1) (glIncoming l) = map EncodeStreamFrame frames @ [EncodeStreamFrame e]"

definition output_of :: "ExecStreamFrame list \<Rightarrow> ExecStreamFrame \<Rightarrow> ExecResponse" where
  "output_of frames e =
     \<lparr>epExitCode = sfExitCode e, epStdout = frames_of ''stdout'' frames, epStderr = frames_of ''stderr'' frames, epError = sfError e\<rparr>"

lemma runGuestCommand_answers:
  assumes "answers l frames e"
  shows "goResult (runGuestCommand l req) =
      Inr (output_of frames e, \<lparr>gtWaitForAgent = glClock l 1 - glClock l 0, gtAgentReadyAt = glClock l 1, gtCommandRun = glClock l 3 - glClock l 2\<rparr>)"
    and "goCalls (runGuestCommand l req) = map (\<lambda>f. (sfType f = ''stdout'', sfData f)) (filter (\<lambda>f. sfData f \<noteq> []) frames)"
proof -
  have f: "\<forall>f \<in> set frames. sfType f \<in> {''stdout'', ''stderr''}" using assms by (auto simp: answers_def list_all_iff)
  have "take (length frames + 1) (glIncoming l) = map EncodeStreamFrame frames @ [EncodeStreamFrame e]" using assms by (simp only: answers_def)
  then obtain rest where inc: "glIncoming l = map EncodeStreamFrame frames @ EncodeStreamFrame e # rest"
    using append_take_drop_id [of "length frames + 1" "glIncoming l"] by (metis append.assoc append_Cons append_Nil)
  have "DecodeStreamResponse (glIncoming l) = (Inr (output_of frames e), map (\<lambda>f. (sfType f = ''stdout'', sfData f)) (filter (\<lambda>f. sfData f \<noteq> []) frames))"
    using assms unfolding inc DecodeStreamResponse_def decode_stream_frames [OF f]
    by (subst decode_stream_exit) (simp_all add: answers_def output_of_def)
  then show "goResult (runGuestCommand l req) =
      Inr (output_of frames e, \<lparr>gtWaitForAgent = glClock l 1 - glClock l 0, gtAgentReadyAt = glClock l 1, gtCommandRun = glClock l 3 - glClock l 2\<rparr>)"
    and "goCalls (runGuestCommand l req) = map (\<lambda>f. (sfType f = ''stdout'', sfData f)) (filter (\<lambda>f. sfData f \<noteq> []) frames)"
    using assms by (simp_all add: runGuestCommand_def answers_def Let_def)
qed

lemma stdout_calls: "concat (map snd (filter fst (map (\<lambda>f. (sfType f = ''stdout'', sfData f)) (filter (\<lambda>f. sfData f \<noteq> []) frames)))) = frames_of ''stdout'' frames"
  by (induction frames) (auto simp: frames_of_def)

section \<open>Properties\<close>

text \<open>A download gives the file or an error, never a part of it: when the guest runs the requested \<open>head -c\<close> and sends
  what it reads of a file with content \<open>content\<close>, in frames of any size, the result is the content when it has at most
  \<open>maxBytes\<close> bytes (ten mebibytes when none are given) and an error otherwise. The extra byte asked for does not overflow at the
  largest \<open>maxBytes\<close>.\<close>

theorem download_whole_file:
  assumes "trim_space sid \<noteq> []" "has_prefix path ''/''" "running_instance (trim_space sid) a = Inr inst"
    and lim: "lim = (if maxBytes \<le> 0 then adapterDownloadMaxBytes else maxBytes)" and "maxBytes < 2 ^ 63" "int (length content) < 2 ^ 63"
    and "answers (edLink d (connect_seconds 0 inst) (siVsockPath inst) (siGuestPort inst)) frames e" "sfExitCode e = 0"
    and head: "frames_of ''stdout'' frames = take (nat (download_limit lim)) content"
  shows "Adapter_DownloadSandboxFile d sid path maxBytes a =
      (if int (length content) \<le> lim then Inr content else Inl (''file '' @ go_quote path @ '' exceeds max_bytes='' @ itoa lim)) \<and>
    download_limit lim < 2 ^ 63"
proof -
  have l: "0 < lim" "lim < 2 ^ 63" using assms(5) by (auto simp: lim adapterDownloadMaxBytes_def)
  have p: "path \<noteq> []" using assms(2) by (auto simp: has_prefix_def)
  let ?out = "execute d a inst 0 [''head'', ''-c'', itoa (download_limit lim), ''--'', path] False"
  obtain t where r: "goResult ?out = Inr (output_of frames e, t)"
    unfolding execute_def executeInSandbox_def runGuestCommand_answers [OF assms(7)] by simp
  have c: "concat (map snd (filter fst (goCalls ?out))) = frames_of ''stdout'' frames"
    unfolding execute_def executeInSandbox_def runGuestCommand_answers [OF assms(7)] stdout_calls ..
  have data: "int (length (take (nat (download_limit lim)) content)) \<le> lim \<longleftrightarrow> int (length content) \<le> lim"
    using l assms(6) by (auto simp: download_limit_def min_def)
  have whole: "int (length content) \<le> lim \<Longrightarrow> take (nat (download_limit lim)) content = content"
    using l assms(6) by (auto simp: download_limit_def)
  have "Adapter_DownloadSandboxFile d sid path maxBytes a =
      (let out = take (nat (download_limit lim)) content in
       if int (length out) > lim then Inl (''file '' @ go_quote path @ '' exceeds max_bytes='' @ itoa lim) else Inr out)"
    unfolding Adapter_DownloadSandboxFile_def Let_def lim [symmetric] by (simp add: assms(1,2,3,8) p r c output_of_def head)
  moreover have "download_limit lim < 2 ^ 63" using l by (simp add: download_limit_def)
  ultimately show ?thesis using data whole unfolding Let_def by (smt (verit, best))
qed

definition demo_instance :: sandboxInstance where
  "demo_instance = \<lparr>siSandboxID = ''s1'', siRunDir = ''/r'', siConfigPath = ''/r/c'', siVsockPath = ''/r/v'', siGuestPort = 10700, siPolicy = Some demo_policy,
     siImageRef = ''i'', siImageDigest = ''d'', siCommandTimeout = 0, siHostIP = [], siGuestIP = ''10.1.1.2'', siProcess = Some ''p'',
     siExitErr = None, siExitReady = False, siCleanupNetwork = None, siVmRootFSPath = []\<rparr>"

definition demo_adapter :: "trace Adapter" where
  "demo_adapter = \<lparr>adSandboxes = [(''s1'', demo_instance)], adProvisioning = [], adGatewayPort = 0, adHost = demo_host\<rparr>"

definition demo_frame :: "string \<Rightarrow> string \<Rightarrow> int \<Rightarrow> ExecStreamFrame" where
  "demo_frame kind data code = \<lparr>sfType = kind, sfData = data, sfExitCode = code, sfError = []\<rparr>"

definition demo_exec :: "ExecStreamFrame list \<Rightarrow> ExecStreamFrame \<Rightarrow> exec_deps" where
  "demo_exec frames e = \<lparr>edOS = (\<lambda>_. None), edRunBase = Inr ''/runs'', edSeed = None,
     edLink = (\<lambda>_ _ _. \<lparr>glDial = Inr (), glSetDeadline = None, glSendError = None, glIncoming = map EncodeStreamFrame frames @ [EncodeStreamFrame e],
       glCtxErr = None, glClock = int, glWireMessage = (\<lambda>_. [])\<rparr>), edTook = 0\<rparr>"

lemma demo_running: "running_instance (trim_space ''s1'') demo_adapter = Inr demo_instance"
proof -
  have "trim_space ''s1'' = ''s1''" by code_simp
  then show ?thesis by (simp add: running_instance_def demo_adapter_def get_def exitedErrOrNil_def demo_instance_def)
qed

theorem download_whole_file_witness:
  "Adapter_DownloadSandboxFile (demo_exec [demo_frame ''stdout'' ''ab'' 0, demo_frame ''stdout'' ''c'' 0] (demo_frame ''exit'' [] 0)) ''s1'' ''/f'' 2 demo_adapter =
     Inl (''file '' @ go_quote ''/f'' @ '' exceeds max_bytes='' @ itoa 2)"
proof -
  let ?f = "[demo_frame ''stdout'' ''ab'' 0, demo_frame ''stdout'' ''c'' 0]" and ?e = "demo_frame ''exit'' [] 0"
  have t: "trim_space ''s1'' \<noteq> []" "has_prefix ''/f'' ''/''" by code_simp+
  have "answers (edLink (demo_exec ?f ?e) s v p) ?f ?e" for s v p
    by (simp add: answers_def demo_exec_def demo_frame_def)
  from download_whole_file [where content = "''abcd''" and maxBytes = 2, OF t demo_running refl _ _ this] show ?thesis
    by (simp add: demo_frame_def frames_of_def download_limit_def)
qed



end
