(* ===== verification/Imagemgr_Tar.thy ===== *)
theory Imagemgr_Tar
  imports Paths
begin

text \<open>
  \<open>internal/imagemgr/materialize.go\<close>: the extraction of an image's tar stream into a fresh directory, and the size of the file system made
  of it. Paths below the extraction root are lists of segments relative to it; \<open>root\<close> is the list of segments of the root itself.
  A file is an inode, so that hard links share content.

  A system call on a path below the root reaches another place when it passes through a symbolic link. The model
  records such a call in \<open>tfEscaped\<close> instead of giving it an effect.
\<close>

section \<open>The extraction directory\<close>

datatype node = Dir | File nat | Link string

record tar_fs =
  tfNodes :: "(string list, node) gomap"
  tfInodes :: "(nat, string) gomap"
  tfNext :: nat
  tfEscaped :: bool

datatype tar_call = Lstat "string list" | TMkdirAll "string list" | TOpen "string list" | TCopy "string list" | TClose "string list"
  | TRemove "string list" | TSymlink "string list" | TLink "string list" "string list"

type_synonym tar_os = "tar_call \<Rightarrow> string option"

definition is_link :: "tar_fs \<Rightarrow> string list \<Rightarrow> bool" where
  "is_link fs p \<longleftrightarrow> (case get (tfNodes fs) p of Some (Link _) \<Rightarrow> True | _ \<Rightarrow> False)"

text \<open>Whether resolving a path follows a link: one of its parents, or also the path itself.\<close>

definition through_link :: "tar_fs \<Rightarrow> string list \<Rightarrow> bool" where
  "through_link fs p \<longleftrightarrow> list_ex (\<lambda>n. is_link fs (take n p)) [0..<length p]"

definition follows_link :: "tar_fs \<Rightarrow> string list \<Rightarrow> bool" where
  "follows_link fs p \<longleftrightarrow> through_link fs p \<or> is_link fs p"

definition escape :: "tar_fs \<Rightarrow> tar_fs" where
  "escape fs = fs\<lparr>tfEscaped := True\<rparr>"

text \<open>\<open>os.MkdirAll\<close>: every missing directory of the path.\<close>

definition mkdir_all :: "tar_os \<Rightarrow> string list \<Rightarrow> tar_fs \<Rightarrow> tar_fs \<times> string option" where
  "mkdir_all os p fs =
     (if follows_link fs p then (escape fs, None)
      else
        (case os (TMkdirAll p) of
           Some e \<Rightarrow> (fs, Some e)
         | None \<Rightarrow>
             if list_ex (\<lambda>n. case get (tfNodes fs) (take n p) of Some (File _) \<Rightarrow> True | _ \<Rightarrow> False) [0..<length p + 1]
             then (fs, Some ''not a directory'')
             else (fs\<lparr>tfNodes := fold (\<lambda>n m. if get m (take n p) = None then put (take n p) Dir m else m) [0..<length p + 1] (tfNodes fs)\<rparr>, None)))"

text \<open>\<open>os.OpenFile\<close> with create and truncate, and the copy of the content into it.\<close>

definition open_trunc :: "tar_os \<Rightarrow> string list \<Rightarrow> tar_fs \<Rightarrow> tar_fs \<times> (string + nat)" where
  "open_trunc os p fs =
     (if follows_link fs p then (escape fs, Inl [])
      else
        (case os (TOpen p) of
           Some e \<Rightarrow> (fs, Inl e)
         | None \<Rightarrow>
             (case get (tfNodes fs) p of
                Some (File i) \<Rightarrow> (fs\<lparr>tfInodes := put i [] (tfInodes fs)\<rparr>, Inr i)
              | Some _ \<Rightarrow> (fs, Inl ''is a directory'')
              | None \<Rightarrow>
                  if p = [] \<or> get (tfNodes fs) (butlast p) \<noteq> Some Dir then (fs, Inl ''no such file or directory'')
                  else (fs\<lparr>tfNodes := put p (File (tfNext fs)) (tfNodes fs), tfInodes := put (tfNext fs) [] (tfInodes fs),
                           tfNext := tfNext fs + 1\<rparr>, Inr (tfNext fs)))))"

definition write_inode :: "nat \<Rightarrow> string \<Rightarrow> tar_fs \<Rightarrow> tar_fs" where
  "write_inode i content fs = fs\<lparr>tfInodes := put i content (tfInodes fs)\<rparr>"

text \<open>\<open>os.Remove\<close>, where a missing path is no error for the caller; a directory has to be empty.\<close>

definition remove_path :: "tar_os \<Rightarrow> string list \<Rightarrow> tar_fs \<Rightarrow> tar_fs \<times> string option" where
  "remove_path os p fs =
     (if through_link fs p then (escape fs, None)
      else
        (case get (tfNodes fs) p of
           None \<Rightarrow> (fs, None)
         | Some nd \<Rightarrow>
             (case os (TRemove p) of
                Some e \<Rightarrow> (fs, Some e)
              | None \<Rightarrow>
                  if nd = Dir \<and> list_ex (\<lambda>(q, _). q \<noteq> p \<and> take (length p) q = p) (tfNodes fs) then (fs, Some ''directory not empty'')
                  else (fs\<lparr>tfNodes := del p (tfNodes fs)\<rparr>, None))))"

text \<open>\<open>os.Symlink\<close>, where an existing path is no error for the caller, and \<open>os.Link\<close>.\<close>

definition make_symlink :: "tar_os \<Rightarrow> string \<Rightarrow> string list \<Rightarrow> tar_fs \<Rightarrow> tar_fs \<times> string option" where
  "make_symlink os t p fs =
     (if through_link fs p then (escape fs, None)
      else if get (tfNodes fs) p \<noteq> None then (fs, None)
      else
        (case os (TSymlink p) of
           Some e \<Rightarrow> (fs, Some e)
         | None \<Rightarrow> (fs\<lparr>tfNodes := put p (Link t) (tfNodes fs)\<rparr>, None)))"

definition make_link :: "tar_os \<Rightarrow> string list \<Rightarrow> string list \<Rightarrow> tar_fs \<Rightarrow> tar_fs \<times> string option" where
  "make_link os old new fs =
     (if through_link fs old \<or> through_link fs new then (escape fs, None)
      else
        (case os (TLink old new) of
           Some e \<Rightarrow> (fs, Some e)
         | None \<Rightarrow>
             (case get (tfNodes fs) old of
                None \<Rightarrow> (fs, Some ''no such file or directory'')
              | Some Dir \<Rightarrow> (fs, Some ''operation not permitted'')
              | Some nd \<Rightarrow>
                  if get (tfNodes fs) new \<noteq> None then (fs, Some ''file exists'')
                  else (fs\<lparr>tfNodes := put new nd (tfNodes fs)\<rparr>, None))))"

section \<open>Checks of paths\<close>

definition full_path :: "string list \<Rightarrow> string list \<Rightarrow> string" where
  "full_path root p = render_path True (root @ p)"

text \<open>\<open>safeJoin\<close>, with its result relative to the root. (A clean relative path that does not begin with two dots stays below the root.)\<close>

definition safeJoin :: "string \<Rightarrow> string + string list" where
  "safeJoin name =
     (let clean = Clean name in
      if clean = ''.'' then Inr []
      else if IsAbs clean \<or> has_prefix clean ''..'' then Inl (''refusing tar entry with unsafe path '' @ go_quote name)
      else Inr (split_on slash clean))"

text \<open>\<open>filepath.Dir\<close> of a path below the root: the parent of the root itself is outside.\<close>

definition parent_of :: "string list \<Rightarrow> string list option" where
  "parent_of p = (if p = [] then None else Some (butlast p))"

fun walk_no_symlink :: "tar_os \<Rightarrow> string list \<Rightarrow> tar_fs \<Rightarrow> bool \<Rightarrow> string list \<Rightarrow> string list \<Rightarrow> string + unit" where
  "walk_no_symlink os root fs allowMissingLeaf current [] = Inr ()"
| "walk_no_symlink os root fs allowMissingLeaf current (part # parts) =
     (if part = [] \<or> part = ''.'' then walk_no_symlink os root fs allowMissingLeaf current parts
      else
        (let current' = current @ [part] in
         case os (Lstat current') of
           Some e \<Rightarrow> Inl (''inspect path '' @ go_quote (full_path root current') @ '': '' @ e)
         | None \<Rightarrow>
             (case get (tfNodes fs) current' of
                None \<Rightarrow>
                  if parts = [] \<and> allowMissingLeaf then Inr ()
                  else walk_no_symlink os root fs allowMissingLeaf current' parts
              | Some (Link _) \<Rightarrow>
                  Inl (''refusing archive entry that traverses symlink path component '' @ go_quote (full_path root current'))
              | Some _ \<Rightarrow> walk_no_symlink os root fs allowMissingLeaf current' parts)))"

definition ensureNoSymlinkPath :: "tar_os \<Rightarrow> string list \<Rightarrow> string list option \<Rightarrow> bool \<Rightarrow> tar_fs \<Rightarrow> string + unit" where
  "ensureNoSymlinkPath os root target allowMissingLeaf fs =
     (case target of
        None \<Rightarrow> Inl (''refusing path outside extraction root '' @ go_quote (full_path (butlast root) []))
      | Some p \<Rightarrow> walk_no_symlink os root fs allowMissingLeaf [] p)"

text \<open>Where a link leads, read from its own directory; an absolute target is taken from the extraction root.\<close>

definition link_resolved :: "string list \<Rightarrow> string list \<Rightarrow> string \<Rightarrow> string list" where
  "link_resolved root p linkName =
     (if IsAbs linkName then root @ clean_segments True (split_on slash linkName)
      else clean_segments True (root @ butlast p @ split_on slash linkName))"

definition inside :: "string list \<Rightarrow> string list \<Rightarrow> bool" where
  "inside root q \<longleftrightarrow> take (length root) q = root"

definition validateSymlinkTarget :: "string list \<Rightarrow> string list \<Rightarrow> string \<Rightarrow> string + unit" where
  "validateSymlinkTarget root p linkName =
     (if trim_space linkName = [] then Inl (''refusing symlink '' @ go_quote (full_path root p) @ '' with empty target'')
      else if \<not> inside root (link_resolved root p linkName)
      then Inl (''refusing symlink '' @ go_quote (full_path root p) @ '' -> '' @ go_quote linkName @ '' that resolves outside extraction root'')
      else Inr ())"

section \<open>Extraction\<close>

datatype typeflag = TypeDir | TypeReg | TypeSymlink | TypeLink | OtherType

text \<open>An entry: its header, the data \<open>io.Copy\<close> reads and the error it may end with.\<close>

record tar_entry =
  teName :: string
  teTypeflag :: typeflag
  teLinkname :: string
  teData :: string
  teReadError :: "string option"

definition guard_ok :: "string + unit \<Rightarrow> (tar_fs \<Rightarrow> tar_fs \<times> string option) \<Rightarrow> tar_fs \<Rightarrow> tar_fs \<times> string option" where
  "guard_ok r f fs = (case r of Inl e \<Rightarrow> (fs, Some e) | Inr _ \<Rightarrow> f fs)"

definition then_call :: "string \<Rightarrow> tar_fs \<times> string option \<Rightarrow> (tar_fs \<Rightarrow> tar_fs \<times> string option) \<Rightarrow> tar_fs \<times> string option" where
  "then_call context r f = (case r of (fs, Some e) \<Rightarrow> (fs, Some (context @ '': '' @ e)) | (fs, None) \<Rightarrow> f fs)"

definition extract_dir :: "tar_os \<Rightarrow> string list \<Rightarrow> string list \<Rightarrow> tar_fs \<Rightarrow> tar_fs \<times> string option" where
  "extract_dir os root p fs =
     guard_ok (ensureNoSymlinkPath os root (Some p) True fs)
       (\<lambda>fs. then_call (''create directory '' @ go_quote (full_path root p) @ '' from tar stream'') (mkdir_all os p fs) (\<lambda>fs. (fs, None))) fs"

definition extract_file :: "tar_os \<Rightarrow> string list \<Rightarrow> tar_entry \<Rightarrow> string list \<Rightarrow> tar_fs \<Rightarrow> tar_fs \<times> string option" where
  "extract_file os root hdr p fs =
     (let q = go_quote (full_path root p) in
      guard_ok (ensureNoSymlinkPath os root (parent_of p) True fs) (\<lambda>fs.
      then_call (''create parent directory for '' @ q) (mkdir_all os (butlast p) fs) (\<lambda>fs.
      guard_ok (ensureNoSymlinkPath os root (Some p) True fs) (\<lambda>fs.
      case open_trunc os p fs of
        (fs, Inl e) \<Rightarrow> (fs, Some (''create file '' @ q @ '' from tar stream: '' @ e))
      | (fs, Inr i) \<Rightarrow>
          (case (case os (TCopy p) of Some e \<Rightarrow> Some e | None \<Rightarrow> teReadError hdr) of
             Some e \<Rightarrow> (write_inode i (teData hdr) fs, Some (''write file '' @ q @ '' from tar stream: '' @ e))
           | None \<Rightarrow>
               (write_inode i (teData hdr) fs,
                map_option (\<lambda>e. ''close file '' @ q @ '' from tar stream: '' @ e) (os (TClose p))))) fs)) fs)"

definition extract_symlink :: "tar_os \<Rightarrow> string list \<Rightarrow> string \<Rightarrow> string list \<Rightarrow> tar_fs \<Rightarrow> tar_fs \<times> string option" where
  "extract_symlink os root linkName p fs =
     (let q = go_quote (full_path root p) in
      guard_ok (ensureNoSymlinkPath os root (parent_of p) True fs) (\<lambda>fs.
      then_call (''create parent directory for symlink '' @ q) (mkdir_all os (butlast p) fs) (\<lambda>fs.
      guard_ok (validateSymlinkTarget root p linkName) (\<lambda>fs.
      then_call (''remove existing symlink path '' @ q) (remove_path os p fs) (\<lambda>fs.
      then_call (''create symlink '' @ q @ '' -> '' @ go_quote linkName @ '' from tar stream'') (make_symlink os linkName p fs) (\<lambda>fs. (fs, None)))) fs)) fs)"

definition extract_link :: "tar_os \<Rightarrow> string list \<Rightarrow> string \<Rightarrow> string list \<Rightarrow> tar_fs \<Rightarrow> tar_fs \<times> string option" where
  "extract_link os root linkName p fs =
     (let q = go_quote (full_path root p) in
      case safeJoin linkName of
        Inl e \<Rightarrow> (fs, Some e)
      | Inr linkTarget \<Rightarrow>
          guard_ok (ensureNoSymlinkPath os root (Some linkTarget) False fs) (\<lambda>fs.
          guard_ok (ensureNoSymlinkPath os root (parent_of p) True fs) (\<lambda>fs.
          then_call (''create parent directory for hard link '' @ q) (mkdir_all os (butlast p) fs) (\<lambda>fs.
          guard_ok (ensureNoSymlinkPath os root (Some p) True fs) (\<lambda>fs.
          then_call (''remove existing hardlink path '' @ q) (remove_path os p fs) (\<lambda>fs.
          then_call (''create hard link '' @ q @ '' -> '' @ go_quote (full_path root linkTarget) @ '' from tar stream'')
            (make_link os linkTarget p fs) (\<lambda>fs. (fs, None)))) fs)) fs) fs)"

definition extract_entry :: "tar_os \<Rightarrow> string list \<Rightarrow> tar_entry \<Rightarrow> tar_fs \<Rightarrow> tar_fs \<times> string option" where
  "extract_entry os root hdr fs =
     (case safeJoin (teName hdr) of
        Inl e \<Rightarrow> (fs, Some e)
      | Inr p \<Rightarrow>
          (case teTypeflag hdr of
             TypeDir \<Rightarrow> extract_dir os root p fs
           | TypeReg \<Rightarrow> extract_file os root hdr p fs
           | TypeSymlink \<Rightarrow> extract_symlink os root (teLinkname hdr) p fs
           | TypeLink \<Rightarrow> extract_link os root (teLinkname hdr) p fs
           | OtherType \<Rightarrow> (fs, None)))"

text \<open>The stream: entries, and possibly an error of the reader in their place.\<close>

fun extractTar :: "tar_os \<Rightarrow> string list \<Rightarrow> (string + tar_entry) list \<Rightarrow> tar_fs \<Rightarrow> tar_fs \<times> string option" where
  "extractTar os root [] fs = (fs, None)"
| "extractTar os root (Inl e # rest) fs = (fs, Some (''read rootfs tar stream: '' @ e))"
| "extractTar os root (Inr hdr # rest) fs =
     (case extract_entry os root hdr fs of
        (fs', Some e) \<Rightarrow> (fs', Some e)
      | (fs', None) \<Rightarrow> extractTar os root rest fs')"

section \<open>The file system image\<close>

definition fresh_fs :: tar_fs where
  "fresh_fs = \<lparr>tfNodes = [([], Dir)], tfInodes = [], tfNext = 0, tfEscaped = False\<rparr>"

text \<open>The size \<open>Info\<close> gives for an entry: a directory is skipped, a link counts the length of its target.\<close>

definition entry_size :: "tar_fs \<Rightarrow> node \<Rightarrow> int" where
  "entry_size fs nd =
     (case nd of
        Dir \<Rightarrow> 0
      | File i \<Rightarrow> (case get (tfInodes fs) i of None \<Rightarrow> 0 | Some c \<Rightarrow> int (length c))
      | Link t \<Rightarrow> int (length t))"

definition dirSize :: "string option \<Rightarrow> tar_fs \<Rightarrow> string + int" where
  "dirSize walkErr fs = (case walkErr of Some e \<Rightarrow> Inl e | None \<Rightarrow> Inr (foldl (\<lambda>n (_, nd). to_int64 (n + entry_size fs nd)) 0 (tfNodes fs)))"

definition minimumRootFSSizeBytes :: int where
  "minimumRootFSSizeBytes = 512 * 2 ^ 20"

definition rootFSHeadroomBytes :: int where
  "rootFSHeadroomBytes = 128 * 2 ^ 20"

definition rootFSAlignBytes :: int where
  "rootFSAlignBytes = 4 * 2 ^ 20"

text \<open>On \<open>int64\<close>; the quotient and the remainder of numbers that are not negative.\<close>

definition computeRootFSImageSize :: "int \<Rightarrow> int" where
  "computeRootFSImageSize contentBytes =
     (let t = to_int64 (to_int64 (contentBytes + contentBytes div 2) + rootFSHeadroomBytes);
          target = (if t < minimumRootFSSizeBytes then minimumRootFSSizeBytes else t);
          remainder = target mod rootFSAlignBytes
      in if remainder = 0 then target else to_int64 (target + (rootFSAlignBytes - remainder)))"

fun required_dirs :: "tar_os \<Rightarrow> string list \<Rightarrow> tar_fs \<Rightarrow> tar_fs \<times> string option" where
  "required_dirs os [] fs = (fs, None)"
| "required_dirs os (d # ds) fs =
     (case mkdir_all os [d] fs of
        (fs', Some e) \<Rightarrow> (fs', Some (''prepare rootfs directory '' @ go_quote d @ '': '' @ e))
      | (fs', None) \<Rightarrow> required_dirs os ds fs')"

text \<open>
  \<open>materializeExt4\<close>. The temporary directory and the output file belong to the caller's file system: the answers of its calls are
  \<open>moTemp\<close> (with the segments of the directory), \<open>moOutputDir\<close>, \<open>moCreate\<close>, \<open>moTruncate\<close>, \<open>moClose\<close>, \<open>moStat\<close>; \<open>moMkfs\<close> is the outcome of
  the program on the extracted directory and the size of the file: an error with its text and the output, or none.
\<close>

record materialize_os =
  moTemp :: "string + string list"
  moRootDir :: "string option"
  moTar :: tar_os
  moWalk :: "string option"
  moOutputDir :: "string option"
  moCreate :: "string option"
  moTruncate :: "string option"
  moClose :: "string option"
  moMkfs :: "tar_fs \<Rightarrow> int \<Rightarrow> (bool \<times> string \<times> string) option"
  moStat :: "int \<Rightarrow> string + int"

definition check_call :: "string \<Rightarrow> string option \<Rightarrow> string + unit" where
  "check_call context r = (case r of None \<Rightarrow> Inr () | Some e \<Rightarrow> Inl (context @ '': '' @ e))"

definition mkfs_result :: "string \<Rightarrow> string \<Rightarrow> string \<Rightarrow> (bool \<times> string \<times> string) option \<Rightarrow> string + unit" where
  "mkfs_result goos mkfsBinary outputPath r =
     (case r of
        None \<Rightarrow> Inr ()
      | Some (notFound, e, output) \<Rightarrow>
          Inl (''run '' @ mkfsBinary @ '' for '' @ go_quote outputPath @ '': '' @ e @
               (if goos = ''darwin'' \<and> notFound then ''; install it with `brew install e2fsprogs`'' else '': '' @ trim_space output)))"

definition materializeExt4 ::
  "string \<Rightarrow> materialize_os \<Rightarrow> string \<Rightarrow> (string + tar_entry) list \<Rightarrow> string \<Rightarrow> string + int" where
  "materializeExt4 goos m mkfsBinary stream outputPath =
     and_then (map_error (\<lambda>e. ''create temporary rootfs materialisation directory: '' @ e) (moTemp m)) (\<lambda>workDir.
     and_then (check_call ''create temporary rootfs extraction directory'' (moRootDir m)) (\<lambda>_.
     case extractTar (moTar m) (workDir @ [''rootfs'']) stream fresh_fs of
       (fs, Some e) \<Rightarrow> Inl e
     | (fs, None) \<Rightarrow>
         (case required_dirs (moTar m) [''dev'', ''proc'', ''run'', ''sys'', ''tmp''] fs of
            (fs', Some e) \<Rightarrow> Inl e
          | (fs', None) \<Rightarrow>
              and_then (map_error (\<lambda>e. ''calculate extracted rootfs size: '' @ e) (dirSize (moWalk m) fs')) (\<lambda>contentBytes.
              let targetSize = computeRootFSImageSize contentBytes; q = go_quote outputPath in
              and_then (check_call (''create output directory for '' @ q) (moOutputDir m)) (\<lambda>_.
              and_then (check_call (''create rootfs output file '' @ q) (moCreate m)) (\<lambda>_.
              and_then (check_call (''truncate rootfs output '' @ q @ '' to '' @ itoa targetSize @ '' bytes'') (moTruncate m)) (\<lambda>_.
              and_then (check_call (''close rootfs output file '' @ q) (moClose m)) (\<lambda>_.
              and_then (mkfs_result goos mkfsBinary outputPath (moMkfs m fs' targetSize)) (\<lambda>_.
              map_error (\<lambda>e. ''stat materialised rootfs image '' @ q @ '': '' @ e) (moStat m targetSize))))))))))"

section \<open>Names that are accepted\<close>

lemma safeJoin_plain:
  assumes "safeJoin name = Inr p"
  shows "\<forall>s \<in> set p. plain_seg s"
proof (cases "Clean name = ''.''")
  case True
  then show ?thesis using assms by (simp add: safeJoin_def)
next
  case False
  let ?r = "rooted_path name" and ?segs = "clean_segments (rooted_path name) (split_on slash name)"
  have n: "\<not> IsAbs (Clean name)" "\<not> has_prefix (Clean name) ''..''" and p: "p = split_on slash (Clean name)"
    using assms False by (auto simp: safeJoin_def Let_def split: if_splits)
  have r: "\<not> ?r" using n(1) by (auto simp: Clean_def render_path_def IsAbs_def rooted_path_def has_prefix_def)
  have ne: "?segs \<noteq> []" using False r by (auto simp: Clean_def render_path_def)
  have c: "Clean name = join ''/'' ?segs" using r ne by (simp add: Clean_def render_path_def)
  have "\<forall>s \<in> set (split_on slash name). slash \<notin> set s" by (auto simp: split_on_no_sep)
  note cases = clean_segment_cases [OF this, of _ ?r] and stack = clean_stack_segments [OF this, of ?r]
  have "slash \<notin> set s" if "s \<in> set ?segs" for s using cases [OF that] by (auto simp: plain_seg_def)
  then have "p = ?segs" unfolding p c using ne by (intro split_on_join) auto
  moreover obtain ps k where st: "rev ?segs = ps @ replicate k ''..''" "\<forall>q \<in> set ps. plain_seg q" using stack by (auto simp: clean_stack_def)
  have "k = 0"
  proof (rule ccontr)
    assume "k \<noteq> 0"
    then have "last (rev ?segs) = ''..''" unfolding st(1) by (cases k) (auto simp: replicate_append_same [symmetric] simp del: replicate_Suc replicate_append_same)
    then have "hd ?segs = ''..''" using ne by (simp add: last_rev)
    then obtain rest where "?segs = ''..'' # rest" using ne by (cases ?segs) auto
    then have "has_prefix (Clean name) ''..''" unfolding c by (cases rest) (auto simp: has_prefix_def)
    then show False using n(2) by simp
  qed
  ultimately show ?thesis using st by (metis append_Nil2 replicate_0 set_rev)
qed

section \<open>Links are not followed\<close>

text \<open>\<open>fs'\<close> has no link that \<open>fs\<close> does not have.\<close>

definition no_new_links :: "tar_fs \<Rightarrow> tar_fs \<Rightarrow> bool" where
  "no_new_links fs fs' \<longleftrightarrow> (\<forall>q. is_link fs' q \<longrightarrow> is_link fs q)"

lemma no_new_links_through: "no_new_links fs fs' \<Longrightarrow> \<not> through_link fs p \<Longrightarrow> \<not> through_link fs' p"
  by (auto simp: no_new_links_def through_link_def list_ex_iff)

lemma no_new_links_follows: "no_new_links fs fs' \<Longrightarrow> \<not> follows_link fs p \<Longrightarrow> \<not> follows_link fs' p"
  using no_new_links_through by (auto simp: follows_link_def no_new_links_def)

lemma follows_link_iff: "follows_link fs p \<longleftrightarrow> (\<exists>n \<le> length p. is_link fs (take n p))"
proof -
  have "follows_link fs p \<longleftrightarrow> (\<exists>n < length p. is_link fs (take n p)) \<or> is_link fs (take (length p) p)"
    by (auto simp: follows_link_def through_link_def list_ex_iff)
  then show ?thesis using nat_less_le by (auto simp del: take_all take_all_iff)
qed

lemma through_parent:
  assumes "p \<noteq> []"
  shows "through_link fs p \<longleftrightarrow> follows_link fs (butlast p)"
proof -
  have "through_link fs p \<longleftrightarrow> (\<exists>n \<le> length p - 1. is_link fs (take n p))"
  proof -
    have "{0..<length p} = {..length p - 1}" using assms by (cases p) auto
    then show ?thesis unfolding through_link_def list_ex_iff set_upt by auto
  qed
  moreover have "take n (butlast p) = take n p" if "n \<le> length p - 1" for n using that by (simp add: butlast_conv_take min_def)
  ultimately show ?thesis unfolding follows_link_iff length_butlast by metis
qed

lemma walk_no_symlink_ok:
  assumes "walk_no_symlink os root fs a cur parts = Inr ()" "\<forall>s \<in> set parts. plain_seg s"
  shows "\<forall>n. 0 < n \<and> n \<le> length parts \<longrightarrow> \<not> is_link fs (cur @ take n parts)"
  using assms
proof (induction parts arbitrary: cur)
  case (Cons part parts)
  have pl: "part \<noteq> []" "part \<noteq> ''.''" using Cons.prems(2) by (auto simp: plain_seg_def)
  have os: "os (Lstat (cur @ [part])) = None" using Cons.prems(1) pl by (auto simp: Let_def split: option.splits)
  have here: "\<not> is_link fs (cur @ [part])"
    using Cons.prems(1) pl os by (auto simp: is_link_def Let_def split: option.splits node.splits)
  have rest: "walk_no_symlink os root fs a (cur @ [part]) parts = Inr () \<or> parts = []"
    using Cons.prems(1) pl os by (auto simp: Let_def split: option.splits node.splits if_splits)
  show ?case
  proof (intro allI impI)
    fix n assume n: "0 < n \<and> n \<le> length (part # parts)"
    show "\<not> is_link fs (cur @ take n (part # parts))"
    proof (cases "n = 1")
      case True
      then show ?thesis using here by simp
    next
      case False
      then obtain m where m: "n = Suc m" "0 < m" "m \<le> length parts" using n by (cases n) auto
      then have "parts \<noteq> []" by auto
      then have "\<not> is_link fs ((cur @ [part]) @ take m parts)" using rest Cons.IH [of "cur @ [part]"] Cons.prems(2) m by auto
      then show ?thesis using m by simp
    qed
  qed
qed simp

lemma ensureNoSymlinkPath_ok:
  assumes "ensureNoSymlinkPath os root (Some p) a fs = Inr ()" "\<forall>s \<in> set p. plain_seg s" "\<not> is_link fs []"
  shows "\<not> follows_link fs p"
proof -
  have w: "\<forall>n. 0 < n \<and> n \<le> length p \<longrightarrow> \<not> is_link fs (take n p)"
    using walk_no_symlink_ok [of os root fs a "[]" p] assms(1,2) by (simp add: ensureNoSymlinkPath_def)
  have "\<not> is_link fs (take n p)" if "n \<le> length p" for n using w assms(3) that by (cases "n = 0") auto
  then show ?thesis by (auto simp: follows_link_iff)
qed

section \<open>The invariant of an extraction\<close>

text \<open>No call has left the directory, the root is a directory, names are plain, and every link leads, read from its own place, to a path below the root.\<close>

definition node_ok :: "string list \<Rightarrow> string list \<Rightarrow> node \<Rightarrow> bool" where
  "node_ok root p nd \<longleftrightarrow> list_all plain_seg p \<and> (case nd of Link t \<Rightarrow> p \<noteq> [] \<and> inside root (link_resolved root p t) | _ \<Rightarrow> True)"

lemma node_ok_simps [simp]:
  "node_ok root p Dir \<longleftrightarrow> (\<forall>s \<in> set p. plain_seg s)" "node_ok root p (File i) \<longleftrightarrow> (\<forall>s \<in> set p. plain_seg s)"
  "node_ok root p (Link t) \<longleftrightarrow> (\<forall>s \<in> set p. plain_seg s) \<and> p \<noteq> [] \<and> inside root (link_resolved root p t)"
  by (auto simp: node_ok_def list_all_iff)

definition confined :: "string list \<Rightarrow> tar_fs \<Rightarrow> bool" where
  "confined root fs \<longleftrightarrow>
     \<not> tfEscaped fs \<and> get (tfNodes fs) [] = Some Dir \<and>
     (\<forall>p nd. get (tfNodes fs) p = Some nd \<longrightarrow> node_ok root p nd)"

lemma confined_root: "confined root fs \<Longrightarrow> \<not> is_link fs []"
  by (simp add: confined_def is_link_def)

lemma get_fold_dirs:
  "get (fold (\<lambda>n m. if get m (take n p) = None then put (take n p) Dir m else m) ns m) q =
     (case get m q of Some nd \<Rightarrow> Some nd | None \<Rightarrow> if \<exists>n \<in> set ns. q = take n p then Some Dir else None)"
  by (induction ns arbitrary: m) (auto split: option.splits)

lemma mkdir_all_ok:
  assumes "confined root fs" "\<not> follows_link fs p" "\<forall>s \<in> set p. plain_seg s" "mkdir_all os p fs = (fs', r)"
  shows "confined root fs' \<and> no_new_links fs fs'"
proof (cases "fs' = fs")
  case True
  then show ?thesis using assms(1) by (simp add: no_new_links_def)
next
  case False
  have t: "\<forall>s \<in> set (take n p). plain_seg s" for n using assms(3) by (auto dest: in_set_takeD)
  have fs': "fs' = fs\<lparr>tfNodes := fold (\<lambda>n m. if get m (take n p) = None then put (take n p) Dir m else m) [0..<length p + 1] (tfNodes fs)\<rparr>"
    using assms(2,4) False by (auto simp: mkdir_all_def split: option.splits if_splits)
  have g: "get (tfNodes fs') q = (case get (tfNodes fs) q of Some nd \<Rightarrow> Some nd | None \<Rightarrow> if \<exists>n \<in> {0..<length p + 1}. q = take n p then Some Dir else None)" for q
    using get_fold_dirs [of p "[0..<length p + 1]" "tfNodes fs" q] unfolding fs' set_upt by (simp del: upt_Suc)
  have "confined root fs'"
    using assms(1) t unfolding confined_def g by (auto simp: fs' split: option.splits if_splits)
  moreover have "no_new_links fs fs'" by (auto simp: no_new_links_def is_link_def g split: option.splits if_splits)
  ultimately show ?thesis ..
qed


lemma open_trunc_ok:
  assumes "confined root fs" "\<not> follows_link fs p" "\<forall>s \<in> set p. plain_seg s" "open_trunc os p fs = (fs', r)"
  shows "confined root fs'"
  using assms by (auto simp: open_trunc_def confined_def split: option.splits node.splits if_splits)

lemma write_inode_ok: "confined root (write_inode i c fs) = confined root fs"
  by (simp add: confined_def write_inode_def)

lemma remove_path_ok:
  assumes "confined root fs" "\<not> through_link fs p" "p \<noteq> []" "remove_path os p fs = (fs', r)"
  shows "confined root fs' \<and> no_new_links fs fs'"
  using assms by (auto simp: remove_path_def confined_def no_new_links_def is_link_def split: option.splits node.splits if_splits)

lemma make_symlink_ok:
  assumes "confined root fs" "\<not> through_link fs p" "p \<noteq> []" "\<forall>s \<in> set p. plain_seg s" "inside root (link_resolved root p t)"
    "make_symlink os t p fs = (fs', r)"
  shows "confined root fs'"
  using assms by (auto simp: make_symlink_def confined_def split: option.splits node.splits if_splits)

lemma make_link_ok:
  assumes "confined root fs" "\<not> follows_link fs old" "\<not> through_link fs p" "p \<noteq> []" "\<forall>s \<in> set p. plain_seg s" "make_link os old p fs = (fs', r)"
  shows "confined root fs'"
  using assms by (auto simp: make_link_def confined_def follows_link_def is_link_def split: option.splits node.splits if_splits)

lemma plain_butlast: "\<forall>s \<in> set p. plain_seg s \<Longrightarrow> \<forall>s \<in> set (butlast p). plain_seg s"
  by (auto dest: in_set_butlastD)

text \<open>The steps an entry goes through.\<close>

lemma guard_okD: "guard_ok r f fs = (fs', e) \<Longrightarrow> (\<exists>x. r = Inl x \<and> fs' = fs) \<or> (r = Inr () \<and> f fs = (fs', e))"
  by (cases r) (auto simp: guard_ok_def)

lemma then_callD: "then_call c r f = (fs', e) \<Longrightarrow> (\<exists>x. r = (fs', Some x)) \<or> (\<exists>fs1. r = (fs1, None) \<and> f fs1 = (fs', e))"
  by (cases r) (auto simp: then_call_def split: option.splits)

lemma parent_checked:
  assumes "ensureNoSymlinkPath os root (parent_of p) a fs = Inr ()" "\<forall>s \<in> set p. plain_seg s" "confined root fs"
  shows "p \<noteq> []" "\<not> follows_link fs (butlast p)" "\<not> through_link fs p"
proof -
  show "p \<noteq> []" using assms(1) by (auto simp: parent_of_def ensureNoSymlinkPath_def)
  then show f: "\<not> follows_link fs (butlast p)"
    using ensureNoSymlinkPath_ok [of os root "butlast p" a fs] assms plain_butlast confined_root by (auto simp: parent_of_def)
  then show "\<not> through_link fs p" using through_parent [OF \<open>p \<noteq> []\<close>] by simp
qed

lemma extract_dir_ok:
  assumes "confined root fs" "\<forall>s \<in> set p. plain_seg s" "extract_dir os root p fs = (fs', r)"
  shows "confined root fs'"
proof (cases "ensureNoSymlinkPath os root (Some p) True fs")
  case (Inl e)
  then show ?thesis using assms(1,3) by (simp add: extract_dir_def guard_ok_def)
next
  case (Inr u)
  obtain fs1 e1 where m: "mkdir_all os p fs = (fs1, e1)" by fastforce
  have "fs' = fs1" using assms(3) Inr by (auto simp: extract_dir_def guard_ok_def then_call_def m split: option.splits)
  then show ?thesis using mkdir_all_ok [OF assms(1) _ assms(2) m] ensureNoSymlinkPath_ok [OF _ assms(2) confined_root [OF assms(1)]] Inr by auto
qed

lemma mkdir_parent:
  assumes "confined root fs" "\<forall>s \<in> set p. plain_seg s" "ensureNoSymlinkPath os root (parent_of p) True fs = Inr ()" "mkdir_all os (butlast p) fs = (fs1, e)"
  shows "confined root fs1" "no_new_links fs fs1" "\<not> through_link fs1 p"
  using mkdir_all_ok [OF assms(1) parent_checked(2) [OF assms(3,2,1)] plain_butlast [OF assms(2)] assms(4)]
    no_new_links_through parent_checked(3) [OF assms(3,2,1)] by blast+

lemma extract_file_ok:
  assumes "confined root fs" "\<forall>s \<in> set p. plain_seg s" "extract_file os root hdr p fs = (fs', r)"
  shows "confined root fs'"
proof -
  from guard_okD [OF assms(3) [unfolded extract_file_def Let_def]] show ?thesis
  proof (elim disjE exE conjE)
    assume g: "ensureNoSymlinkPath os root (parent_of p) True fs = Inr ()"
    obtain fs1 e1 where m: "mkdir_all os (butlast p) fs = (fs1, e1)" by fastforce
    note mk = mkdir_parent [OF assms(1,2) g m]
    show ?thesis
    proof (cases "e1 = None \<and> ensureNoSymlinkPath os root (Some p) True fs1 = Inr ()")
      case False
      then have "fs' = fs1"
        using assms(3) g by (auto simp: extract_file_def Let_def guard_ok_def then_call_def m split: option.splits sum.splits)
      then show ?thesis using mk by simp
    next
      case True
      obtain fs2 o2 where o: "open_trunc os p fs1 = (fs2, o2)" by fastforce
      have "fs' = fs2 \<or> (\<exists>i. fs' = write_inode i (teData hdr) fs2)"
        using assms(3) g True by (auto simp: extract_file_def Let_def guard_ok_def then_call_def m o split: option.splits sum.splits)
      moreover have "confined root fs2"
        using open_trunc_ok [OF mk(1) _ assms(2) o] ensureNoSymlinkPath_ok [OF _ assms(2) confined_root [OF mk(1)]] True by blast
      ultimately show ?thesis by (auto simp: write_inode_ok)
    qed
  qed (simp_all add: assms(1))
qed

lemma extract_symlink_ok:
  assumes "confined root fs" "\<forall>s \<in> set p. plain_seg s" "extract_symlink os root t p fs = (fs', r)"
  shows "confined root fs'"
proof (cases "ensureNoSymlinkPath os root (parent_of p) True fs")
  case (Inl e)
  then show ?thesis using assms(1,3) by (simp add: extract_symlink_def guard_ok_def)
next
  case (Inr u)
  then have g: "ensureNoSymlinkPath os root (parent_of p) True fs = Inr ()" by simp
  obtain fs1 e1 where m: "mkdir_all os (butlast p) fs = (fs1, e1)" by fastforce
  note mk = mkdir_parent [OF assms(1,2) g m] and ne = parent_checked(1) [OF g assms(2,1)]
  obtain fs2 e2 where rm: "remove_path os p fs1 = (fs2, e2)" by fastforce
  obtain fs3 e3 where sy: "make_symlink os t p fs2 = (fs3, e3)" by fastforce
  note r2 = remove_path_ok [OF mk(1,3) ne rm]
  have "\<not> through_link fs2 p" using no_new_links_through mk(3) r2 by blast
  then have c3: "confined root fs3" if "inside root (link_resolved root p t)" using make_symlink_ok [OF _ _ ne assms(2) that sy] r2 by blast
  have "fs' = fs1 \<or> fs' = fs2 \<or> (fs' = fs3 \<and> validateSymlinkTarget root p t = Inr ())"
    using assms(3) by (auto simp: extract_symlink_def Let_def guard_ok_def then_call_def g m rm sy split: option.splits sum.splits)
  then show ?thesis using mk(1) r2 c3 by (auto simp: validateSymlinkTarget_def split: if_splits)
qed

lemma extract_link_ok:
  assumes "confined root fs" "\<forall>s \<in> set p. plain_seg s" "extract_link os root t p fs = (fs', r)"
  shows "confined root fs'"
proof (cases "safeJoin t")
  case (Inl e)
  then show ?thesis using assms(1,3) by (simp add: extract_link_def)
next
  case (Inr old)
  show ?thesis
  proof (cases "ensureNoSymlinkPath os root (Some old) False fs = Inr () \<and> ensureNoSymlinkPath os root (parent_of p) True fs = Inr ()")
    case False
    then have "fs' = fs" using assms(3) Inr by (auto simp: extract_link_def Let_def guard_ok_def split: sum.splits)
    then show ?thesis using assms(1) by simp
  next
    case True
    then have g: "ensureNoSymlinkPath os root (parent_of p) True fs = Inr ()" and go: "ensureNoSymlinkPath os root (Some old) False fs = Inr ()" by auto
    obtain fs1 e1 where m: "mkdir_all os (butlast p) fs = (fs1, e1)" by fastforce
    note mk = mkdir_parent [OF assms(1,2) g m] and ne = parent_checked(1) [OF g assms(2,1)]
    obtain fs2 e2 where rm: "remove_path os p fs1 = (fs2, e2)" by fastforce
    obtain fs3 e3 where ln: "make_link os old p fs2 = (fs3, e3)" by fastforce
    note r2 = remove_path_ok [OF mk(1,3) ne rm]
    have f: "\<not> follows_link fs2 old"
      using ensureNoSymlinkPath_ok [OF go safeJoin_plain [OF Inr] confined_root [OF assms(1)]] no_new_links_follows mk(2) r2 by blast
    have "\<not> through_link fs2 p" using no_new_links_through mk(3) r2 by blast
    then have "confined root fs3" using make_link_ok [OF _ f _ ne assms(2) ln] r2 by blast
    moreover have "fs' = fs1 \<or> fs' = fs2 \<or> fs' = fs3"
      using assms(3) by (auto simp: extract_link_def Inr Let_def guard_ok_def then_call_def g go m rm ln split: option.splits sum.splits)
    ultimately show ?thesis using mk(1) r2 by blast
  qed
qed

lemma extract_entry_ok: "confined root fs \<Longrightarrow> extract_entry os root hdr fs = (fs', r) \<Longrightarrow> confined root fs'"
  by (auto simp: extract_entry_def split: sum.splits typeflag.splits
      intro: extract_dir_ok extract_file_ok extract_symlink_ok extract_link_ok dest!: safeJoin_plain)

lemma extractTar_ok: "confined root fs \<Longrightarrow> confined root (fst (extractTar os root stream fs))"
  by (induction os root stream fs rule: extractTar.induct) (auto split: prod.splits option.splits dest: extract_entry_ok)

lemma confined_fresh: "confined root fresh_fs"
  by (simp add: confined_def fresh_fs_def get_def)

section \<open>Properties\<close>

text \<open>C1. An image cannot write outside the directory it is extracted into: whatever the entries of the tar stream, in whatever order,
  no system call of the extraction passes through a symbolic link, every name that was created consists of plain segments below the root, and
  every symbolic link that was created leads, read from its own place, to a path below the root.\<close>

theorem extractTar_confined:
  "\<not> tfEscaped (fst (extractTar os root stream fresh_fs)) \<and>
   (\<forall>p nd. get (tfNodes (fst (extractTar os root stream fresh_fs))) p = Some nd \<longrightarrow>
      list_all plain_seg p \<and> (\<forall>t. nd = Link t \<longrightarrow> inside root (link_resolved root p t)))"
proof -
  have "confined root (fst (extractTar os root stream fresh_fs))" by (rule extractTar_ok [OF confined_fresh])
  then have "\<not> tfEscaped (fst (extractTar os root stream fresh_fs))"
    and n: "\<And>p nd. get (tfNodes (fst (extractTar os root stream fresh_fs))) p = Some nd \<Longrightarrow> node_ok root p nd"
    by (simp_all add: confined_def)
  then show ?thesis by (auto simp: node_ok_def dest!: n)
qed

definition demo_stream :: "(string + tar_entry) list" where
  "demo_stream = [Inr \<lparr>teName = ''a/'', teTypeflag = TypeDir, teLinkname = [], teData = [], teReadError = None\<rparr>,
     Inr \<lparr>teName = ''a/l'', teTypeflag = TypeSymlink, teLinkname = ''/etc'', teData = [], teReadError = None\<rparr>,
     Inr \<lparr>teName = ''a/l/passwd'', teTypeflag = TypeReg, teLinkname = [], teData = ''x'', teReadError = None\<rparr>]"

theorem extractTar_confined_witness:
  "\<not> tfEscaped (fst (extractTar (\<lambda>_. None) [''w''] demo_stream fresh_fs)) \<and>
   get (tfNodes (fst (extractTar (\<lambda>_. None) [''w''] demo_stream fresh_fs))) [''a'', ''l''] = Some (Link ''/etc'') \<and>
   inside [''w''] (link_resolved [''w''] [''a'', ''l''] ''/etc'') \<and>
   snd (extractTar (\<lambda>_. None) [''w''] demo_stream fresh_fs) \<noteq> None"
proof -
  have g: "get (tfNodes (fst (extractTar (\<lambda>_. None) [''w''] demo_stream fresh_fs))) [''a'', ''l''] = Some (Link ''/etc'')"
    "snd (extractTar (\<lambda>_. None) [''w''] demo_stream fresh_fs) \<noteq> None"
    by code_simp+
  with extractTar_confined [of "\<lambda>_. None" "[''w'']" demo_stream] show ?thesis by blast
qed

text \<open>The size of the image file leaves room: for contents of up to \<open>2 ^ 62\<close> bytes it is a multiple of four mebibytes, at least
  512 mebibytes and at least one and a half times the content plus 128 mebibytes, at most four mebibytes more than the larger of the two,
  and no intermediate sum overflows.\<close>

theorem computeRootFSImageSize_bounds:
  assumes "0 \<le> c" "c \<le> 2 ^ 62" and want: "want = max (c + c div 2 + rootFSHeadroomBytes) minimumRootFSSizeBytes"
  shows "want \<le> computeRootFSImageSize c \<and> computeRootFSImageSize c < want + rootFSAlignBytes \<and>
    computeRootFSImageSize c mod rootFSAlignBytes = 0 \<and> computeRootFSImageSize c < 2 ^ 63"
proof -
  note k = rootFSHeadroomBytes_def minimumRootFSSizeBytes_def rootFSAlignBytes_def
  have b: "c + c div 2 + rootFSHeadroomBytes < 2 ^ 63 - rootFSAlignBytes" using assms(1,2) by (simp add: k)
  have t: "to_int64 (to_int64 (c + c div 2) + rootFSHeadroomBytes) = c + c div 2 + rootFSHeadroomBytes"
    using assms(1) b by (subst (2) to_int64_id) (auto simp: k to_int64_id)
  have w: "(if c + c div 2 + rootFSHeadroomBytes < minimumRootFSSizeBytes then minimumRootFSSizeBytes else c + c div 2 + rootFSHeadroomBytes) = want"
    by (simp add: want)
  have wb: "0 \<le> want" "want < 2 ^ 63 - rootFSAlignBytes" using b by (auto simp: want k)
  let ?r = "want mod rootFSAlignBytes"
  have r: "0 \<le> ?r" "?r < rootFSAlignBytes" by (simp_all add: k)
  have size: "computeRootFSImageSize c = (if ?r = 0 then want else want + (rootFSAlignBytes - ?r))"
    using wb r unfolding computeRootFSImageSize_def Let_def t w by (auto simp: to_int64_id)
  have "(want + (rootFSAlignBytes - ?r)) mod rootFSAlignBytes = 0"
    by (metis add.commute add_diff_eq minus_mod_eq_mult_div mod_add_self2 mod_mult_self1_is_0 diff_add_eq)
  then show ?thesis using size wb r by auto
qed

theorem computeRootFSImageSize_bounds_witness: "computeRootFSImageSize 1000000001 mod rootFSAlignBytes = 0"
  using computeRootFSImageSize_bounds [of 1000000001] by simp

end
