(* ===== verification/Imagemgr.thy ===== *)
theory Imagemgr
  imports Imagemgr_Tar Effect Ociref Vsockexec "HOL-Library.Product_Lexorder"
begin

text \<open>
  \<open>internal/imagemgr/imagemgr.go\<close> and \<open>registry.go\<close>: the cache of image root file systems. The state is the table \<open>images\<close> of the metadata
  database (rows in the order of their row identifiers, one for a digest) and the files of the cache directory. Every
  operation holds the manager's lock, so it is one action. Which calls of the database and of the operating system fail is an argument.
  Times are nanoseconds since the epoch; the database keeps seconds.
\<close>

section \<open>Data\<close>

record OCIConfig =
  ocEntrypoint :: "string list"
  ocCmd :: "string list"
  ocEnv :: "string list"
  ocWorkdir :: string
  ocUser :: string

record Record =
  recDigest :: string
  recRef :: string
  recRootFSPath :: string
  recSizeBytes :: int
  recCreatedAt :: int
  recLastUsedAt :: int
  recSource :: string
  recOCIConfig :: OCIConfig

record EnsureResult =
  enRecord :: Record
  enCacheHit :: bool

text \<open>A row; the three JSON columns hold a value, or blank text (\<open>None\<close>).\<close>

record image_row =
  rwDigest :: string
  rwRef :: string
  rwRootFSPath :: string
  rwSizeBytes :: int
  rwCreatedAtUnix :: int
  rwLastUsedAtUnix :: int
  rwSource :: string
  rwEntrypoint :: "json option"
  rwCmd :: "json option"
  rwEnv :: "json option"
  rwWorkdir :: string
  rwUser :: string

record image_store =
  imRows :: "(string, image_row) gomap"
  imFiles :: "(string, string) gomap"

datatype db_call = OpenDB | InitSchema | SelectDigest string | DeleteDigest string | UpsertDigest string | SelectAll | SelectRef string
  | RowsErr

datatype img_call = IStat string | IRemove string | ICreateTemp | ICloseTemp | IRename string string

text \<open>
  The manager's configuration and surroundings. \<open>mePull\<close> gives the tar stream and the configuration of an image; \<open>meMaterialize\<close> gives what it
  wrote to the output file and its result.
\<close>

record image_env =
  meCacheDir :: string
  meDBPath :: string
  meNow :: int
  meDB :: "db_call \<Rightarrow> string option"
  meOS :: "img_call \<Rightarrow> string option"
  meTemp :: string
  mePull :: "string \<Rightarrow> string + string \<times> OCIConfig"
  meMaterialize :: "string \<Rightarrow> string \<times> (string + int)"

definition no_config :: OCIConfig where
  "no_config = \<lparr>ocEntrypoint = [], ocCmd = [], ocEnv = [], ocWorkdir = [], ocUser = []\<rparr>"

section \<open>Rows\<close>

text \<open>A nil slice is marshalled as \<open>null\<close>; the manager has no other empty slices.\<close>

definition marshalStringSlice :: "string list \<Rightarrow> json" where
  "marshalStringSlice values = (if values = [] then JNull else JArr (map JStr values))"

definition unmarshalStringSlice :: "json option \<Rightarrow> string + string list" where
  "unmarshalStringSlice raw =
     (case raw of
        None \<Rightarrow> Inr []
      | Some v \<Rightarrow> map_error (\<lambda>_. ''parse OCI config string slice: json: cannot unmarshal value into Go value of type []string'') (into_strings v []))"

definition unix_seconds :: "int \<Rightarrow> int" where
  "unix_seconds t = t div 1000000000"

definition row_of :: "Record \<Rightarrow> image_row" where
  "row_of r =
     \<lparr>rwDigest = recDigest r, rwRef = recRef r, rwRootFSPath = recRootFSPath r, rwSizeBytes = recSizeBytes r,
      rwCreatedAtUnix = unix_seconds (recCreatedAt r), rwLastUsedAtUnix = unix_seconds (recLastUsedAt r), rwSource = recSource r,
      rwEntrypoint = Some (marshalStringSlice (ocEntrypoint (recOCIConfig r))), rwCmd = Some (marshalStringSlice (ocCmd (recOCIConfig r))),
      rwEnv = Some (marshalStringSlice (ocEnv (recOCIConfig r))), rwWorkdir = ocWorkdir (recOCIConfig r), rwUser = ocUser (recOCIConfig r)\<rparr>"

definition scanRecord :: "image_row \<Rightarrow> string + Record" where
  "scanRecord row =
     and_then (unmarshalStringSlice (rwEntrypoint row)) (\<lambda>entrypoint.
     and_then (unmarshalStringSlice (rwCmd row)) (\<lambda>cmd.
     and_then (unmarshalStringSlice (rwEnv row)) (\<lambda>env.
     Inr \<lparr>recDigest = rwDigest row, recRef = rwRef row, recRootFSPath = rwRootFSPath row, recSizeBytes = rwSizeBytes row,
          recCreatedAt = rwCreatedAtUnix row * 1000000000, recLastUsedAt = rwLastUsedAtUnix row * 1000000000, recSource = rwSource row,
          recOCIConfig = \<lparr>ocEntrypoint = entrypoint, ocCmd = cmd, ocEnv = env, ocWorkdir = rwWorkdir row, ocUser = rwUser row\<rparr>\<rparr>)))"

section \<open>The database\<close>

definition db_call :: "image_env \<Rightarrow> db_call \<Rightarrow> (image_store \<Rightarrow> image_store) \<Rightarrow> (image_store, unit) effect" where
  "db_call env c eff s = (case meDB env c of Some e \<Rightarrow> (s, Inl e) | None \<Rightarrow> (eff s, Inr ()))"

definition open_db :: "image_env \<Rightarrow> (image_store, unit) effect" where
  "open_db env = wrap (''open image metadata database '' @ go_quote (meDBPath env)) (db_call env OpenDB id)"

definition initDB :: "image_env \<Rightarrow> (image_store, unit) effect" where
  "initDB env = bind_act (open_db env) (\<lambda>_. wrap ''initialise image metadata schema'' (db_call env InitSchema id))"

definition ready_db :: "image_env \<Rightarrow> (image_store, unit) effect" where
  "ready_db env = bind_act (initDB env) (\<lambda>_. open_db env)"

definition queryRecordByDigest :: "image_env \<Rightarrow> string \<Rightarrow> (image_store, Record option) effect" where
  "queryRecordByDigest env digest =
     bind_act (db_call env (SelectDigest digest) id) (\<lambda>_ s.
       case get (imRows s) digest of
         None \<Rightarrow> (s, Inr None)
       | Some row \<Rightarrow> (s, map_sum id Some (scanRecord row)))"

definition lookupByDigest :: "image_env \<Rightarrow> string \<Rightarrow> (image_store, Record option) effect" where
  "lookupByDigest env digest = bind_act (ready_db env) (\<lambda>_. queryRecordByDigest env digest)"

definition deleteByDigest :: "image_env \<Rightarrow> string \<Rightarrow> (image_store, unit) effect" where
  "deleteByDigest env digest =
     bind_act (ready_db env) (\<lambda>_.
     wrap (''delete image metadata for digest '' @ digest) (db_call env (DeleteDigest digest) (\<lambda>s. s\<lparr>imRows := del digest (imRows s)\<rparr>)))"

definition upsertRecord :: "image_env \<Rightarrow> Record \<Rightarrow> (image_store, unit) effect" where
  "upsertRecord env r =
     bind_act (ready_db env) (\<lambda>_.
     wrap (''upsert image metadata for '' @ recDigest r)
       (db_call env (UpsertDigest (recDigest r)) (\<lambda>s. s\<lparr>imRows := put (recDigest r) (row_of r) (imRows s)\<rparr>)))"

section \<open>Selectors\<close>

definition isHexDigest :: "string \<Rightarrow> bool" where
  "isHexDigest raw = list_all (\<lambda>ch. \<not> ((ch < CHR ''0'' \<or> ch > CHR ''9'') \<and> (ch < CHR ''a'' \<or> ch > CHR ''f''))) raw"

definition normalizeDigestSelector :: "string \<Rightarrow> string option" where
  "normalizeDigestSelector selector =
     (let trimmed = trim_space (to_lower selector) in
      if trimmed = [] then None
      else if has_prefix trimmed ''sha256:'' then
        (let digest = trim_prefix trimmed ''sha256:'' in
         if length digest = 64 \<and> isHexDigest digest then Some (''sha256:'' @ digest) else None)
      else if length trimmed = 64 \<and> isHexDigest trimmed then Some (''sha256:'' @ trimmed)
      else None)"

definition queryRecordsBySelector :: "image_env \<Rightarrow> string \<Rightarrow> (image_store, Record list) effect" where
  "queryRecordsBySelector env selector =
     (let one = (\<lambda>digest. bind_act (queryRecordByDigest env digest) (\<lambda>r. ret (case r of None \<Rightarrow> [] | Some x \<Rightarrow> [x]))) in
      case ParseDigestReference selector of
        Inr parsedRef \<Rightarrow> one (Digest parsedRef)
      | Inl _ \<Rightarrow>
          (case normalizeDigestSelector selector of
             Some digest \<Rightarrow> one digest
           | None \<Rightarrow>
               bind_act (wrap (''query images by ref '' @ go_quote selector) (db_call env (SelectRef selector) id)) (\<lambda>_ s.
               bind_act (lift_res (map_res scanRecord (filter (\<lambda>row. rwRef row = selector) (map snd (imRows s))))) (\<lambda>out.
               bind_act (wrap (''iterate images for ref '' @ go_quote selector) (db_call env RowsErr id)) (\<lambda>_.
               ret out)) s)))"

section \<open>Files\<close>

definition artifact_path :: "image_env \<Rightarrow> string \<Rightarrow> string" where
  "artifact_path env digest = path_join [meCacheDir env, trim_prefix digest ''sha256:'' @ ''.ext4'']"

text \<open>The temporary file of \<open>os.CreateTemp\<close>; \<open>meTemp\<close> is the random part of its name.\<close>

definition temp_path :: "image_env \<Rightarrow> string \<Rightarrow> string" where
  "temp_path env digest = path_join [meCacheDir env, trim_prefix digest ''sha256:'' @ ''.tmp-'' @ meTemp env @ ''.ext4'']"

definition img_call :: "image_env \<Rightarrow> img_call \<Rightarrow> (image_store \<Rightarrow> image_store) \<Rightarrow> (image_store, unit) effect" where
  "img_call env c eff s = (case meOS env c of Some e \<Rightarrow> (s, Inl e) | None \<Rightarrow> (eff s, Inr ()))"

definition store_file :: "string \<Rightarrow> string \<Rightarrow> image_store \<Rightarrow> image_store" where
  "store_file p c s = s\<lparr>imFiles := put p c (imFiles s)\<rparr>"

definition drop_file :: "string \<Rightarrow> image_store \<Rightarrow> image_store" where
  "drop_file p s = s\<lparr>imFiles := del p (imFiles s)\<rparr>"

definition rename_file :: "string \<Rightarrow> string \<Rightarrow> image_store \<Rightarrow> image_store" where
  "rename_file p q s =
     (case get (imFiles s) p of None \<Rightarrow> s | Some c \<Rightarrow> s\<lparr>imFiles := put q c (del p (imFiles s))\<rparr>)"

text \<open>\<open>os.Remove\<close> with its error ignored: the file stays when the call fails.\<close>

definition try_remove :: "image_env \<Rightarrow> string \<Rightarrow> image_store \<Rightarrow> image_store" where
  "try_remove env p s = (if meOS env (IRemove p) = None then drop_file p s else s)"

section \<open>Operations\<close>

record persistFromTarRequest =
  ptRef :: string
  ptDigest :: string
  ptTarStream :: string
  ptOCIConfig :: OCIConfig
  ptSource :: string
  ptCreatedAt :: int
  ptLastUsedAt :: int

text \<open>The zero \<open>time.Time\<close>, the first of January of year 1.\<close>

definition zero_time :: int where
  "zero_time = - 62135596800 * 1000000000"

definition persist_times :: "image_env \<Rightarrow> persistFromTarRequest \<Rightarrow> int \<times> int" where
  "persist_times env req =
     (let created = (if ptCreatedAt req = zero_time then meNow env else ptCreatedAt req)
      in (created, if ptLastUsedAt req = zero_time then created else ptLastUsedAt req))"

text \<open>The part after the temporary file is closed.\<close>

definition persist_body :: "image_env \<Rightarrow> persistFromTarRequest \<Rightarrow> int \<Rightarrow> int \<Rightarrow> (image_store, Record) effect" where
  "persist_body env req created lastUsed =
     (let digest = ptDigest req; outputPath = artifact_path env digest; tmpPath = temp_path env digest in
      bind_act (\<lambda>s. case meMaterialize env (ptTarStream req) of (content, r) \<Rightarrow> (store_file tmpPath content s, r)) (\<lambda>sizeBytes.
        bind_act (wrap (''move image artifact to cache '' @ go_quote outputPath) (img_call env (IRename tmpPath outputPath) (rename_file tmpPath outputPath))) (\<lambda>_.
        let r = \<lparr>recDigest = digest, recRef = ptRef req, recRootFSPath = outputPath, recSizeBytes = sizeBytes, recCreatedAt = created,
                 recLastUsedAt = lastUsed, recSource = ptSource req, recOCIConfig = ptOCIConfig req\<rparr> in
        bind_act (on_error (try_remove env outputPath) (upsertRecord env r)) (\<lambda>_. ret r))))"

definition persist_artifact :: "image_env \<Rightarrow> persistFromTarRequest \<Rightarrow> int \<Rightarrow> int \<Rightarrow> (image_store, Record) effect" where
  "persist_artifact env req created lastUsed =
     (let digest = ptDigest req; tmpPath = temp_path env digest in
      bind_act (wrap (''create temporary image artifact for '' @ go_quote digest) (img_call env ICreateTemp (store_file tmpPath []))) (\<lambda>_.
      bind_act (on_error (try_remove env tmpPath) (wrap (''close temporary image artifact file '' @ go_quote tmpPath) (img_call env ICloseTemp id))) (\<lambda>_.
      deferred (try_remove env tmpPath) (persist_body env req created lastUsed))))"

definition persistFromTarStream :: "image_env \<Rightarrow> persistFromTarRequest \<Rightarrow> (image_store, Record) effect" where
  "persistFromTarStream env req =
     (case persist_times env req of
        (created, lastUsed) \<Rightarrow>
          bind_act (lookupByDigest env (ptDigest req)) (\<lambda>existing.
          persist_artifact env req (case existing of None \<Rightarrow> created | Some r \<Rightarrow> recCreatedAt r) lastUsed))"

definition ensure_miss :: "image_env \<Rightarrow> DigestReference \<Rightarrow> (image_store, EnsureResult) effect" where
  "ensure_miss env ref =
     bind_act (lift_res (mePull env (drOriginal ref))) (\<lambda>(tar, config).
     bind_act (persistFromTarStream env
       \<lparr>ptRef = drOriginal ref, ptDigest = Digest ref, ptTarStream = tar, ptOCIConfig = config, ptSource = ''registry'',
        ptCreatedAt = meNow env, ptLastUsedAt = meNow env\<rparr>) (\<lambda>r.
     ret \<lparr>enRecord = r, enCacheHit = False\<rparr>))"

definition ensure_found :: "image_env \<Rightarrow> DigestReference \<Rightarrow> Record \<Rightarrow> (image_store, EnsureResult) effect" where
  "ensure_found env ref r s =
     (case meOS env (IStat (recRootFSPath r)) of
        Some e \<Rightarrow> (s, Inl (''stat cached rootfs '' @ go_quote (recRootFSPath r) @ '': '' @ e))
      | None \<Rightarrow>
          if get (imFiles s) (recRootFSPath r) \<noteq> None
          then
            (let r' = r\<lparr>recRef := drOriginal ref, recLastUsedAt := meNow env\<rparr> in
             bind_act (upsertRecord env r') (\<lambda>_. ret \<lparr>enRecord = r', enCacheHit = True\<rparr>) s)
          else bind_act (deleteByDigest env (recDigest r)) (\<lambda>_. ensure_miss env ref) s)"

definition Ensure :: "image_env \<Rightarrow> (ref_error \<Rightarrow> string) \<Rightarrow> string \<Rightarrow> (image_store, EnsureResult) effect" where
  "Ensure env refText ref =
     bind_act (lift_res (map_error refText (ParseDigestReference ref))) (\<lambda>parsedRef.
     bind_act (lookupByDigest env (Digest parsedRef)) (\<lambda>found.
     case found of None \<Rightarrow> ensure_miss env parsedRef | Some r \<Rightarrow> ensure_found env parsedRef r))"

definition Pull :: "image_env \<Rightarrow> (ref_error \<Rightarrow> string) \<Rightarrow> string \<Rightarrow> (image_store, EnsureResult) effect" where
  "Pull = Ensure"

text \<open>
  \<open>openImportStream\<close>: \<open>-\<close> or nothing is standard input. \<open>reader\<close> gives the content of a file or an error, \<open>gunzip\<close> the content of a gzip stream;
  \<open>peek\<close> is the error of the first read, other than the end of the stream.
\<close>

definition openImportStream ::
  "(string \<Rightarrow> string + string) \<Rightarrow> (string \<Rightarrow> string + string) \<Rightarrow> string option \<Rightarrow> string \<Rightarrow> string option \<Rightarrow> string + string" where
  "openImportStream reader gunzip peek tarPath stdin =
     (let selectedPath = (if trim_space tarPath = [] then ''-'' else trim_space tarPath) in
      and_then
        (if selectedPath = ''-''
         then (case stdin of None \<Rightarrow> Inl ''stdin import requested but stdin reader is nil'' | Some c \<Rightarrow> Inr c)
         else map_error (\<lambda>e. ''open import tar stream '' @ go_quote selectedPath @ '': '' @ e) (reader selectedPath)) (\<lambda>content.
      case peek of
        Some e \<Rightarrow> Inl (''peek import stream '' @ go_quote selectedPath @ '': '' @ e)
      | None \<Rightarrow>
          if take 2 content = [CHR 0x1F, CHR 0x8B]
          then map_error (\<lambda>e. ''open gzip import stream '' @ go_quote selectedPath @ '': '' @ e) (gunzip content)
          else Inr content))"

definition Import :: "image_env \<Rightarrow> (ref_error \<Rightarrow> string) \<Rightarrow> string \<Rightarrow> string + string \<Rightarrow> (image_store, Record) effect" where
  "Import env refText ref stream =
     bind_act (lift_res (map_error refText (ParseDigestReference ref))) (\<lambda>parsedRef.
     bind_act (lift_res stream) (\<lambda>tar.
     persistFromTarStream env
       \<lparr>ptRef = drOriginal parsedRef, ptDigest = Digest parsedRef, ptTarStream = tar, ptOCIConfig = no_config, ptSource = ''import'',
        ptCreatedAt = meNow env, ptLastUsedAt = meNow env\<rparr>))"

definition list_order :: "image_row \<Rightarrow> int \<times> int \<times> string" where
  "list_order row = (- rwLastUsedAtUnix row, - rwCreatedAtUnix row, rwDigest row)"

definition ListImages :: "image_env \<Rightarrow> (image_store, Record list) effect" where
  "ListImages env =
     bind_act (ready_db env) (\<lambda>_.
     bind_act (wrap ''query cached images'' (db_call env SelectAll id)) (\<lambda>_ s.
     bind_act (lift_res (map_res scanRecord (sort_key list_order (map snd (imRows s))))) (\<lambda>items.
     bind_act (wrap ''iterate cached images'' (db_call env RowsErr id)) (\<lambda>_. ret items)) s))"

fun remove_files :: "image_env \<Rightarrow> Record list \<Rightarrow> (image_store, unit) effect" where
  "remove_files env [] = ret ()"
| "remove_files env (r # rs) =
     bind_act (wrap (''remove cached rootfs '' @ go_quote (recRootFSPath r))
       (\<lambda>s. if get (imFiles s) (recRootFSPath r) = None then (s, Inr ()) else img_call env (IRemove (recRootFSPath r)) (drop_file (recRootFSPath r)) s)) (\<lambda>_.
     remove_files env rs)"

fun remove_rows :: "image_env \<Rightarrow> Record list \<Rightarrow> (image_store, unit) effect" where
  "remove_rows env [] = ret ()"
| "remove_rows env (r # rs) =
     bind_act (wrap (''delete cached image metadata for '' @ recDigest r)
       (db_call env (DeleteDigest (recDigest r)) (\<lambda>s. s\<lparr>imRows := del (recDigest r) (imRows s)\<rparr>))) (\<lambda>_. remove_rows env rs)"

definition Remove :: "image_env \<Rightarrow> string \<Rightarrow> (image_store, Record list) effect" where
  "Remove env selector =
     (let sel = trim_space selector in
      if sel = [] then throw ''image selector cannot be empty''
      else
        bind_act (ready_db env) (\<lambda>_.
        bind_act (queryRecordsBySelector env sel) (\<lambda>records.
        if records = [] then ret []
        else
          bind_act (remove_files env records) (\<lambda>_.
          bind_act (remove_rows env records) (\<lambda>_. ret records)))))"

section \<open>Construction and registry\<close>

text \<open>\<open>New\<close>: the two paths (given or the defaults of the host), their directories, the program and the schema.\<close>

definition manager_paths ::
  "string + string \<Rightarrow> string + string \<Rightarrow> (string \<Rightarrow> string option) \<Rightarrow> string \<Rightarrow> string \<Rightarrow> string + string \<times> string" where
  "manager_paths defaultCache defaultDB mkdir cacheDir0 dbPath0 =
     and_then (if trim_space cacheDir0 = [] then map_error (\<lambda>e. ''resolve image cache directory: '' @ e) defaultCache else Inr (trim_space cacheDir0)) (\<lambda>cacheDir.
     and_then (check_call (''create image cache directory '' @ go_quote cacheDir) (mkdir cacheDir)) (\<lambda>_.
     and_then (if trim_space dbPath0 = [] then map_error (\<lambda>e. ''resolve image metadata database path: '' @ e) defaultDB else Inr (trim_space dbPath0)) (\<lambda>dbPath.
     and_then (check_call (''create image metadata directory for '' @ go_quote dbPath) (mkdir (path_dir dbPath))) (\<lambda>_.
     Inr (cacheDir, dbPath)))))"

definition New ::
  "string + string \<Rightarrow> string + string \<Rightarrow> string + string \<Rightarrow> (string \<Rightarrow> string option) \<Rightarrow> string \<Rightarrow> string \<Rightarrow> string \<Rightarrow>
   image_env \<Rightarrow> (image_store, image_env \<times> string) effect" where
  "New defaultCache defaultDB resolvedMkfs mkdir cacheDir0 dbPath0 mkfs0 env0 =
     bind_act (lift_res (manager_paths defaultCache defaultDB mkdir cacheDir0 dbPath0)) (\<lambda>(cacheDir, dbPath).
     let env = env0\<lparr>meCacheDir := cacheDir, meDBPath := dbPath\<rparr>;
         mkfs = (if trim_space mkfs0 \<noteq> [] then trim_space mkfs0 else case resolvedMkfs of Inr p \<Rightarrow> p | Inl _ \<Rightarrow> ''mkfs.ext4'') in
     bind_act (initDB env) (\<lambda>_. ret (env, mkfs)))"

record Platform =
  plOS :: string
  plArchitecture :: string
  plVariant :: string

definition linuxPlatformForArch :: "string \<Rightarrow> Platform" where
  "linuxPlatformForArch goArch =
     (if goArch = ''amd64'' then \<lparr>plOS = ''linux'', plArchitecture = ''amd64'', plVariant = []\<rparr>
      else if goArch = ''arm64'' then \<lparr>plOS = ''linux'', plArchitecture = ''arm64'', plVariant = ''v8''\<rparr>
      else \<lparr>plOS = ''linux'', plArchitecture = goArch, plVariant = []\<rparr>)"

text \<open>The container registry library is an argument: it parses a reference, fetches an image for a platform, reads its configuration and flattens it.\<close>

definition pullImageFromRegistry ::
  "(string \<Rightarrow> string + 'ref) \<Rightarrow> ('ref \<Rightarrow> Platform \<Rightarrow> string + 'img) \<Rightarrow> ('img \<Rightarrow> string + OCIConfig) \<Rightarrow> ('img \<Rightarrow> string) \<Rightarrow> string \<Rightarrow> string \<Rightarrow>
   string + string \<times> OCIConfig" where
  "pullImageFromRegistry newDigest remoteImage configFile extract goArch ref =
     and_then (map_error (\<lambda>e. ''parse digest reference '' @ go_quote ref @ '': '' @ e) (newDigest ref)) (\<lambda>digestRef.
     and_then (map_error (\<lambda>e. ''pull OCI image '' @ go_quote ref @ '': '' @ e) (remoteImage digestRef (linuxPlatformForArch goArch))) (\<lambda>img.
     and_then (map_error (\<lambda>e. ''read OCI config for '' @ go_quote ref @ '': '' @ e) (configFile img)) (\<lambda>cfg.
     Inr (extract img, cfg))))"

end
