(* ===== verification/Imagemgr_Props.thy ===== *)
theory Imagemgr_Props
  imports Imagemgr
begin

text \<open>
  The image cache as a content-addressed store: rows survive the database up to whole seconds, every operation keeps the rows tied to
  the files of their digests, and \<open>Ensure\<close>, \<open>Import\<close> and \<open>Remove\<close> refine updates of one map from digests to artifacts.
\<close>

section \<open>Rows\<close>

lemma unmarshal_marshal [simp]: "unmarshalStringSlice (Some (marshalStringSlice xs)) = Inr xs"
proof (cases xs)
  case Nil
  then show ?thesis by (simp add: unmarshalStringSlice_def marshalStringSlice_def into_strings_def)
next
  case (Cons x ys)
  then show ?thesis
    using into_strings_map [of xs "[]"] by (simp add: unmarshalStringSlice_def marshalStringSlice_def)
qed

definition whole_seconds :: "int \<Rightarrow> int" where
  "whole_seconds t = t - t mod 1000000000"

text \<open>A record read back from its row is the record that was written, with both times cut to whole seconds: no field is
  lost and none is confused with another.\<close>

theorem scanRecord_row_of:
  "scanRecord (row_of r) =
     Inr (r\<lparr>recCreatedAt := whole_seconds (recCreatedAt r), recLastUsedAt := whole_seconds (recLastUsedAt r)\<rparr>)"
  by (simp add: scanRecord_def row_of_def whole_seconds_def unix_seconds_def minus_mod_eq_div_mult)

lemma scan_row: "\<exists>r'. scanRecord (row_of r) = Inr r' \<and> recDigest r' = recDigest r \<and> recRootFSPath r' = recRootFSPath r"
  by (simp add: scanRecord_def row_of_def)

section \<open>Paths of the cache\<close>

definition pinned_digest :: "string \<Rightarrow> bool" where
  "pinned_digest d = (\<exists>hex. d = ''sha256:'' @ hex \<and> sha256HexPattern hex)"

lemma pinned_Digest: "ParseDigestReference raw = Inr p \<Longrightarrow> pinned_digest (Digest p)"
  using ParseDigestReference_InrD(4,5) by (auto simp: pinned_digest_def Digest_def)

lemma hex_no_slash: "is_hex_char c \<Longrightarrow> c \<noteq> slash" "is_hex_char c \<Longrightarrow> c \<noteq> CHR ''.''"
  by (auto simp: is_hex_char_def less_eq_char_def)

lemma trim_pinned: "trim_prefix (''sha256:'' @ hex) ''sha256:'' = hex"
  by (simp add: trim_prefix_def has_prefix_def)

lemma artifact_name:
  assumes "sha256HexPattern hex" "slash \<notin> set suf"
  shows "plain_seg (hex @ CHR ''.'' # suf)"
proof -
  have "slash \<notin> set hex" using assms(1) hex_no_slash(1) by (fastforce simp: sha256HexPattern_def list_all_iff)
  moreover have "hex @ CHR ''.'' # suf \<noteq> s" if "length s \<le> 2" for s :: string using assms(1) that by (auto simp: sha256HexPattern_def)
  from this [of "''.''"] this [of "''..''"] have "hex @ CHR ''.'' # suf \<noteq> ''.''" "hex @ CHR ''.'' # suf \<noteq> ''..''" by simp_all
  ultimately show ?thesis using assms(2) unfolding plain_seg_def by simp
qed

lemma artifact_path_inj:
  assumes "artifact_path env d = artifact_path env d'" "pinned_digest d" "pinned_digest d'"
  shows "d = d'"
proof -
  obtain h h' where h: "d = ''sha256:'' @ h" "sha256HexPattern h" "d' = ''sha256:'' @ h'" "sha256HexPattern h'"
    using assms(2,3) by (auto simp: pinned_digest_def)
  have "path_join [meCacheDir env, h @ ''.ext4''] = path_join [meCacheDir env, h' @ ''.ext4'']"
    using assms(1) unfolding artifact_path_def h(1,3) trim_pinned .
  then have "h @ ''.ext4'' = h' @ ''.ext4''" by (rule path_join_inj) (rule artifact_name [OF h(2)], simp, rule artifact_name [OF h(4)], simp)
  then show ?thesis by (simp add: h)
qed

lemma temp_not_artifact:
  assumes "pinned_digest d" "pinned_digest d'" "slash \<notin> set (meTemp env)"
  shows "temp_path env d \<noteq> artifact_path env d'"
proof
  assume eq: "temp_path env d = artifact_path env d'"
  obtain h h' where h: "d = ''sha256:'' @ h" "sha256HexPattern h" "d' = ''sha256:'' @ h'" "sha256HexPattern h'"
    using assms(1,2) by (auto simp: pinned_digest_def)
  have tmp: "plain_seg (h @ ''.tmp-'' @ meTemp env @ ''.ext4'')"
    using artifact_name [OF h(2), of "''tmp-'' @ meTemp env @ ''.ext4''"] assms(3) by simp
  have "path_join [meCacheDir env, h @ ''.tmp-'' @ meTemp env @ ''.ext4''] = path_join [meCacheDir env, h' @ ''.ext4'']"
    using eq unfolding artifact_path_def temp_path_def h(1,3) trim_pinned .
  then have "h @ ''.tmp-'' @ meTemp env @ ''.ext4'' = h' @ ''.ext4''" by (rule path_join_inj) (rule tmp, rule artifact_name [OF h(4)], simp)
  then have "length (h @ ''.tmp-'' @ meTemp env @ ''.ext4'') = length (h' @ ''.ext4'')" by (rule arg_cong)
  then show False using h(2,4) by (simp add: sha256HexPattern_def)
qed

section \<open>Outcomes of the database and file calls\<close>

lemma db_call_out:
  "db_call env c eff s = (s', Inl e) \<longleftrightarrow> meDB env c = Some e \<and> s' = s"
  "db_call env c eff s = (s', Inr u) \<longleftrightarrow> meDB env c = None \<and> s' = eff s"
  by (auto simp: db_call_def split: option.splits)

lemma img_call_out:
  "img_call env c eff s = (s', Inl e) \<longleftrightarrow> meOS env c = Some e \<and> s' = s"
  "img_call env c eff s = (s', Inr u) \<longleftrightarrow> meOS env c = None \<and> s' = eff s"
  by (auto simp: img_call_def split: option.splits)

lemma map_sum_Inr: "map_sum f g x = Inr y \<longleftrightarrow> (\<exists>z. x = Inr z \<and> y = g z)"
  by (cases x) auto

lemma ready_db_state: "ready_db env s = (s', r) \<Longrightarrow> s' = s"
  by (cases r) (auto simp: ready_db_def initDB_def open_db_def outcomes db_call_out)

lemma queryRecordByDigest_state: "queryRecordByDigest env d s = (s', r) \<Longrightarrow> s' = s"
  by (cases r) (auto simp: queryRecordByDigest_def outcomes db_call_out split: option.splits)

lemma queryRecordByDigest_Inr:
  "queryRecordByDigest env d s = (s', Inr x) \<Longrightarrow>
    (case get (imRows s) d of None \<Rightarrow> x = None | Some row \<Rightarrow> \<exists>r. scanRecord row = Inr r \<and> x = Some r)"
  by (auto simp: queryRecordByDigest_def outcomes db_call_out map_sum_Inr split: option.splits)

lemma lookupByDigest_state: "lookupByDigest env d s = (s', r) \<Longrightarrow> s' = s"
  by (cases r) (auto simp: lookupByDigest_def outcomes dest: ready_db_state queryRecordByDigest_state)

lemma lookupByDigest_Inr:
  assumes "lookupByDigest env d s = (s', Inr x)"
  shows "case get (imRows s) d of None \<Rightarrow> x = None | Some row \<Rightarrow> \<exists>r. scanRecord row = Inr r \<and> x = Some r"
proof -
  obtain u where "ready_db env s = (s, Inr u)" "queryRecordByDigest env d s = (s', Inr x)"
    using assms by (auto simp: lookupByDigest_def outcomes dest: ready_db_state)
  then show ?thesis by (intro queryRecordByDigest_Inr)
qed

lemma upsertRecord_out:
  "upsertRecord env r s = (s', Inl e) \<Longrightarrow> s' = s"
  "upsertRecord env r s = (s', Inr u) \<Longrightarrow> s' = s\<lparr>imRows := put (recDigest r) (row_of r) (imRows s)\<rparr>"
  by (auto simp: upsertRecord_def outcomes db_call_out dest: ready_db_state)

lemma deleteByDigest_out:
  "deleteByDigest env d s = (s', Inl e) \<Longrightarrow> s' = s"
  "deleteByDigest env d s = (s', Inr u) \<Longrightarrow> s' = s\<lparr>imRows := del d (imRows s)\<rparr>"
  by (auto simp: deleteByDigest_def outcomes db_call_out dest: ready_db_state)

section \<open>The cache and its invariant\<close>

text \<open>
  What the cache holds: the artifact of a digest that has a row and whose file exists. A store is well formed if every row is that of a
  record of its digest, at the artifact path of the digest.
\<close>

definition cached :: "image_store \<Rightarrow> string \<Rightarrow> string option" where
  "cached s d = (case get (imRows s) d of None \<Rightarrow> None | Some row \<Rightarrow> get (imFiles s) (rwRootFSPath row))"

definition row_ok :: "image_env \<Rightarrow> string \<Rightarrow> image_row \<Rightarrow> bool" where
  "row_ok env d row = (pinned_digest d \<and> (\<exists>r. row = row_of r \<and> recDigest r = d \<and> recRootFSPath r = artifact_path env d))"

definition cache_ok :: "image_env \<Rightarrow> image_store \<Rightarrow> bool" where
  "cache_ok env s = (is_gomap (imRows s) \<and> is_gomap (imFiles s) \<and> (\<forall>d row. get (imRows s) d = Some row \<longrightarrow> row_ok env d row))"

lemma row_ok_path: "row_ok env d row \<Longrightarrow> rwRootFSPath row = artifact_path env d \<and> rwDigest row = d \<and> pinned_digest d"
  by (auto simp: row_ok_def row_of_def)

lemma row_ok_scan:
  assumes "row_ok env d row" "scanRecord row = Inr r"
  shows "recDigest r = d" "recRootFSPath r = artifact_path env d" "\<And>f t. row_ok env d (row_of (r\<lparr>recRef := f, recLastUsedAt := t\<rparr>))"
proof -
  obtain r0 where r0: "row = row_of r0" "recDigest r0 = d" "recRootFSPath r0 = artifact_path env d" "pinned_digest d"
    using assms(1) by (auto simp: row_ok_def)
  then show "recDigest r = d" "recRootFSPath r = artifact_path env d" using scan_row [of r0] assms(2) by auto
  then show "row_ok env d (row_of (r\<lparr>recRef := f, recLastUsedAt := t\<rparr>))" for f t
    unfolding row_ok_def using r0(4) by (intro conjI exI [of _ "r\<lparr>recRef := f, recLastUsedAt := t\<rparr>"]) simp_all
qed

lemma cache_ok_row: "cache_ok env s \<Longrightarrow> get (imRows s) d = Some row \<Longrightarrow> row_ok env d row"
  by (simp add: cache_ok_def)

lemma cached_eq:
  "cache_ok env s \<Longrightarrow> cached s d = (if get (imRows s) d = None then None else get (imFiles s) (artifact_path env d))"
  using cache_ok_row [of env s d] row_ok_path [of env d] by (auto simp: cached_def split: option.splits)

lemma cache_ok_put:
  assumes "cache_ok env s" "row_ok env d row" "is_gomap (imFiles s')" "imRows s' = put d row (imRows s)"
  shows "cache_ok env s'"
  using assms by (auto simp: cache_ok_def)

lemma cache_ok_same_rows: "cache_ok env s \<Longrightarrow> is_gomap (imFiles s') \<Longrightarrow> imRows s' = imRows s \<Longrightarrow> cache_ok env s'"
  by (simp add: cache_ok_def)

lemma cache_ok_del: "cache_ok env s \<Longrightarrow> cache_ok env (s\<lparr>imRows := del d (imRows s)\<rparr>)"
  by (auto simp: cache_ok_def)

section \<open>Persisting an artifact\<close>

text \<open>The files that an action may touch.\<close>

definition touches :: "string set \<Rightarrow> image_store \<Rightarrow> image_store \<Rightarrow> bool" where
  "touches ps s s' = ((is_gomap (imFiles s) \<longrightarrow> is_gomap (imFiles s')) \<and> (\<forall>p. p \<notin> ps \<longrightarrow> get (imFiles s') p = get (imFiles s) p))"

lemma touches_refl [simp]: "touches ps s s"
  by (simp add: touches_def)

lemma touches_trans: "touches ps s s' \<Longrightarrow> touches ps s' s'' \<Longrightarrow> touches ps s s''"
  by (simp add: touches_def)

lemma touches_store: "p \<in> ps \<Longrightarrow> touches ps s (store_file p c s)"
  by (auto simp: touches_def store_file_def)

lemma touches_remove: "p \<in> ps \<Longrightarrow> touches ps s (try_remove env p s)"
  by (auto simp: touches_def try_remove_def drop_file_def)

lemma touches_rename: "p \<in> ps \<Longrightarrow> q \<in> ps \<Longrightarrow> touches ps s (rename_file p q s)"
  by (auto simp: touches_def rename_file_def split: option.splits)

lemma rows_of_files [simp]:
  "imRows (store_file p c s) = imRows s" "imRows (try_remove env p s) = imRows s" "imRows (rename_file p q s) = imRows s"
  "imRows (drop_file p s) = imRows s"
  by (simp_all add: store_file_def try_remove_def rename_file_def drop_file_def split: option.splits)

lemma rename_stored: "p \<noteq> q \<Longrightarrow> get (imFiles (rename_file p q (store_file p c s))) q = Some c"
  by (simp add: rename_file_def store_file_def)

lemma try_remove_other: "p \<noteq> q \<Longrightarrow> get (imFiles (try_remove env p s)) q = get (imFiles s) q"
  by (simp add: try_remove_def drop_file_def)

lemma persist_body_Inr:
  assumes "persist_body env req created lastUsed s = (s', Inr r)" "temp_path env (ptDigest req) \<noteq> artifact_path env (ptDigest req)"
  shows "\<exists>content size. meMaterialize env (ptTarStream req) = (content, Inr size) \<and>
    r = \<lparr>recDigest = ptDigest req, recRef = ptRef req, recRootFSPath = artifact_path env (ptDigest req), recSizeBytes = size,
         recCreatedAt = created, recLastUsedAt = lastUsed, recSource = ptSource req, recOCIConfig = ptOCIConfig req\<rparr> \<and>
    imRows s' = put (ptDigest req) (row_of r) (imRows s) \<and> get (imFiles s') (artifact_path env (ptDigest req)) = Some content \<and>
    touches {temp_path env (ptDigest req), artifact_path env (ptDigest req)} s s'"
proof -
  obtain content size where m: "meMaterialize env (ptTarStream req) = (content, Inr size)"
    using assms(1) by (auto simp: persist_body_def Let_def outcomes split: prod.splits)
  let ?s1 = "rename_file (temp_path env (ptDigest req)) (artifact_path env (ptDigest req)) (store_file (temp_path env (ptDigest req)) content s)"
  have "r = \<lparr>recDigest = ptDigest req, recRef = ptRef req, recRootFSPath = artifact_path env (ptDigest req), recSizeBytes = size,
         recCreatedAt = created, recLastUsedAt = lastUsed, recSource = ptSource req, recOCIConfig = ptOCIConfig req\<rparr>"
    "s' = ?s1\<lparr>imRows := put (ptDigest req) (row_of r) (imRows ?s1)\<rparr>"
    using assms(1) by (auto simp: persist_body_def Let_def outcomes ret_out img_call_out m dest!: upsertRecord_out(2))
  moreover have "touches {temp_path env (ptDigest req), artifact_path env (ptDigest req)} s ?s1"
    by (intro touches_trans [OF touches_store touches_rename]) simp_all
  ultimately show ?thesis using m rename_stored [OF assms(2)] by (simp add: touches_def)
qed

lemma persist_body_Inl:
  assumes "persist_body env req created lastUsed s = (s', Inl e)"
  shows "imRows s' = imRows s \<and> touches {temp_path env (ptDigest req), artifact_path env (ptDigest req)} s s'"
proof -
  obtain content res where m: "meMaterialize env (ptTarStream req) = (content, res)" by fastforce
  let ?t = "temp_path env (ptDigest req)" and ?o = "artifact_path env (ptDigest req)"
  let ?s0 = "store_file ?t content s"
  have "s' = ?s0 \<or> s' = rename_file ?t ?o ?s0 \<or> s' = try_remove env ?o (rename_file ?t ?o ?s0)"
    using assms by (auto simp: persist_body_def Let_def outcomes ret_out img_call_out m dest!: upsertRecord_out(1))
  moreover have "touches {?t, ?o} s ?s0" "touches {?t, ?o} ?s0 (rename_file ?t ?o ?s0)" for u
    by (simp_all add: touches_store touches_rename)
  moreover have "touches {?t, ?o} u (try_remove env ?o u)" for u by (simp add: touches_remove)
  ultimately show ?thesis using touches_trans by (elim disjE) (auto intro: touches_trans)
qed

text \<open>What a successful persist leaves: the record of the request, its row, the materialized content at the artifact path, every other artifact as it was.\<close>

definition persisted :: "image_env \<Rightarrow> persistFromTarRequest \<Rightarrow> image_store \<Rightarrow> image_store \<Rightarrow> Record \<Rightarrow> bool" where
  "persisted env req s s' r =
     (\<exists>content size created.
        meMaterialize env (ptTarStream req) = (content, Inr size) \<and> recDigest r = ptDigest req \<and> recRef r = ptRef req \<and>
        recRootFSPath r = artifact_path env (ptDigest req) \<and> recSizeBytes r = size \<and> recOCIConfig r = ptOCIConfig req \<and> recSource r = ptSource req \<and>
        recCreatedAt r = created \<and> imRows s' = put (ptDigest req) (row_of r) (imRows s) \<and>
        get (imFiles s') (artifact_path env (ptDigest req)) = Some content)"

lemma persist_artifact_Inr:
  assumes "persist_artifact env req created lastUsed s = (s', Inr r)" "temp_path env (ptDigest req) \<noteq> artifact_path env (ptDigest req)"
  shows "persisted env req s s' r" "touches {temp_path env (ptDigest req), artifact_path env (ptDigest req)} s s'"
proof -
  let ?t = "temp_path env (ptDigest req)" and ?o = "artifact_path env (ptDigest req)"
  obtain s1 where b: "persist_body env req created lastUsed (store_file ?t [] s) = (s1, Inr r)" and s': "s' = try_remove env ?t s1"
    using assms(1) by (auto simp: persist_artifact_def Let_def outcomes deferred_out img_call_out)
  note body = persist_body_Inr [OF b assms(2)]
  then show "persisted env req s s' r"
    using try_remove_other [OF assms(2)] by (auto simp: persisted_def s')
  have "touches {?t, ?o} (store_file ?t [] s) s1" using body by blast
  then show "touches {?t, ?o} s s'" unfolding s'
    by (intro touches_trans [OF touches_trans [OF touches_store] touches_remove]) simp_all
qed

lemma persist_artifact_Inl:
  assumes "persist_artifact env req created lastUsed s = (s', Inl e)"
  shows "imRows s' = imRows s \<and> touches {temp_path env (ptDigest req), artifact_path env (ptDigest req)} s s'"
proof -
  let ?t = "temp_path env (ptDigest req)" and ?o = "artifact_path env (ptDigest req)"
  have st: "touches {?t, ?o} u (store_file ?t c u)" "touches {?t, ?o} u (try_remove env ?t u)" for u c
    by (simp_all add: touches_store touches_remove)
  consider "s' = s" | "s' = try_remove env ?t (store_file ?t [] s)"
    | s1 where "persist_body env req created lastUsed (store_file ?t [] s) = (s1, Inl e)" "s' = try_remove env ?t s1"
    using assms by (auto simp: persist_artifact_def Let_def outcomes deferred_out img_call_out)
  then show ?thesis
  proof cases
    case 3
    have "touches {?t, ?o} s s1" using touches_trans [OF st(1)] persist_body_Inl [OF 3(1)] by blast
    then show ?thesis using touches_trans [OF _ st(2)] persist_body_Inl [OF 3(1)] 3(2) by simp
  qed (use touches_trans [OF st(1) st(2)] in simp_all)
qed

lemma persistFromTarStream_Inr:
  assumes "persistFromTarStream env req s = (s', Inr r)" "temp_path env (ptDigest req) \<noteq> artifact_path env (ptDigest req)"
  shows "persisted env req s s' r \<and> touches {temp_path env (ptDigest req), artifact_path env (ptDigest req)} s s'"
proof -
  obtain created lastUsed s1 where "lookupByDigest env (ptDigest req) s = (s1, Inr lastUsed)" "persist_artifact env req created (snd (persist_times env req)) s1 = (s', Inr r)"
    using assms(1) by (auto simp: persistFromTarStream_def outcomes split: prod.splits)
  then show ?thesis using persist_artifact_Inr [OF _ assms(2)] lookupByDigest_state by blast
qed

lemma persistFromTarStream_Inl:
  assumes "persistFromTarStream env req s = (s', Inl e)"
  shows "imRows s' = imRows s \<and> touches {temp_path env (ptDigest req), artifact_path env (ptDigest req)} s s'"
proof -
  obtain created lastUsed where pt: "persist_times env req = (created, lastUsed)" by fastforce
  have "lookupByDigest env (ptDigest req) s = (s', Inl e) \<or>
      (\<exists>s1 x c. lookupByDigest env (ptDigest req) s = (s1, Inr x) \<and> persist_artifact env req c lastUsed s1 = (s', Inl e))"
    using assms by (auto simp: persistFromTarStream_def outcomes pt)
  then show ?thesis using persist_artifact_Inl lookupByDigest_state touches_refl by metis
qed

section \<open>The operations on the cache\<close>

lemma touched_artifact:
  assumes "touches {temp_path env d, artifact_path env d} s s'" "pinned_digest d" "pinned_digest d'" "d' \<noteq> d" "slash \<notin> set (meTemp env)"
  shows "get (imFiles s') (artifact_path env d') = get (imFiles s) (artifact_path env d')"
proof -
  have "artifact_path env d' \<noteq> artifact_path env d" "artifact_path env d' \<noteq> temp_path env d"
    using artifact_path_inj [OF _ assms(3,2)] temp_not_artifact [OF assms(2,3,5)] assms(4) by auto
  then show ?thesis using assms(1) by (simp add: touches_def)
qed

lemma persisted_ok:
  assumes ok: "cache_ok env s" and p: "persisted env req s s' r" and d: "pinned_digest (ptDigest req)" and t: "slash \<notin> set (meTemp env)"
    and touch: "touches {temp_path env (ptDigest req), artifact_path env (ptDigest req)} s s'"
  shows "cache_ok env s'" "\<exists>content size. meMaterialize env (ptTarStream req) = (content, Inr size) \<and> cached s' = (cached s)(ptDigest req \<mapsto> content)"
proof -
  obtain content size where c: "meMaterialize env (ptTarStream req) = (content, Inr size)"
      "recDigest r = ptDigest req" "recRootFSPath r = artifact_path env (ptDigest req)"
      "imRows s' = put (ptDigest req) (row_of r) (imRows s)" "get (imFiles s') (artifact_path env (ptDigest req)) = Some content"
    using p by (auto simp: persisted_def)
  have "row_ok env (ptDigest req) (row_of r)" using c(2,3) d by (auto simp: row_ok_def)
  moreover have "is_gomap (imFiles s')" using ok touch by (simp add: cache_ok_def touches_def)
  ultimately show ok': "cache_ok env s'" using cache_ok_put [OF ok _ _ c(4)] by blast
  have "cached s' d = ((cached s)(ptDigest req \<mapsto> content)) d" for d
  proof (cases "d = ptDigest req \<or> get (imRows s) d = None")
    case False
    then have "pinned_digest d" using cache_ok_row [OF ok] by (auto simp: row_ok_def)
    with False show ?thesis using touched_artifact [OF touch assms(3) _ _ t] by (auto simp: cached_eq [OF ok] cached_eq [OF ok'] c(4))
  qed (auto simp: cached_eq [OF ok] cached_eq [OF ok'] c(4,5))
  then show "\<exists>content size. meMaterialize env (ptTarStream req) = (content, Inr size) \<and> cached s' = (cached s)(ptDigest req \<mapsto> content)"
    using c(1) by blast
qed

text \<open>A failed persist changes no row and no artifact but that of its digest.\<close>

lemma unpersisted_ok:
  assumes ok: "cache_ok env s" and rows: "imRows s' = imRows s" and d: "pinned_digest d" and t: "slash \<notin> set (meTemp env)"
    and touch: "touches {temp_path env d, artifact_path env d} s s'"
  shows "cache_ok env s'" "d' \<noteq> d \<or> get (imRows s) d = None \<Longrightarrow> cached s' d' = cached s d'"
proof -
  have "is_gomap (imFiles s')" using ok touch by (simp add: cache_ok_def touches_def)
  then show ok': "cache_ok env s'" using cache_ok_same_rows [OF ok _ rows] by blast
  assume a: "d' \<noteq> d \<or> get (imRows s) d = None"
  show "cached s' d' = cached s d'"
  proof (cases "get (imRows s) d' = None")
    case False
    then have "d' \<noteq> d" "pinned_digest d'" using a cache_ok_row [OF ok] by (auto simp: row_ok_def)
    then show ?thesis using touched_artifact [OF touch d _ _ t] by (simp add: cached_eq [OF ok] cached_eq [OF ok'] rows)
  qed (simp add: cached_eq [OF ok] cached_eq [OF ok'] rows)
qed

text \<open>What a request for a digest leaves: the result names the artifact, the cache maps the digest to it, a hit changes no file and a miss stores what was pulled.\<close>

definition ensured :: "image_env \<Rightarrow> DigestReference \<Rightarrow> image_store \<Rightarrow> image_store \<Rightarrow> EnsureResult \<Rightarrow> bool" where
  "ensured env p s s' r =
     (recDigest (enRecord r) = Digest p \<and> recRef (enRecord r) = drOriginal p \<and> recRootFSPath (enRecord r) = artifact_path env (Digest p) \<and>
      (enCacheHit r \<longleftrightarrow> cached s (Digest p) \<noteq> None) \<and>
      (\<exists>content. get (imFiles s') (recRootFSPath (enRecord r)) = Some content \<and> cached s' = (cached s)(Digest p \<mapsto> content) \<and>
         (if enCacheHit r then imFiles s' = imFiles s
          else \<exists>tar config size. mePull env (drOriginal p) = Inr (tar, config) \<and> meMaterialize env tar = (content, Inr size) \<and>
                 recOCIConfig (enRecord r) = config \<and> recSizeBytes (enRecord r) = size)))"

lemma ensure_miss_Inr:
  assumes ok: "cache_ok env s" and d: "pinned_digest (Digest p)" and t: "slash \<notin> set (meTemp env)" and none: "cached s (Digest p) = None"
    and run: "ensure_miss env p s = (s', Inr r)"
  shows "cache_ok env s' \<and> ensured env p s s' r"
proof -
  obtain tar config rec where pull: "mePull env (drOriginal p) = Inr (tar, config)" and r: "r = \<lparr>enRecord = rec, enCacheHit = False\<rparr>" and
    persist: "persistFromTarStream env \<lparr>ptRef = drOriginal p, ptDigest = Digest p, ptTarStream = tar, ptOCIConfig = config, ptSource = ''registry'',
        ptCreatedAt = meNow env, ptLastUsedAt = meNow env\<rparr> s = (s', Inr rec)" (is "persistFromTarStream env ?req s = _")
    using run by (auto simp: ensure_miss_def outcomes lift_res_out ret_out)
  have d': "pinned_digest (ptDigest ?req)" using d by simp
  from persistFromTarStream_Inr [OF persist temp_not_artifact [OF d' d' t]]
  have p: "persisted env ?req s s' rec" and touch: "touches {temp_path env (ptDigest ?req), artifact_path env (ptDigest ?req)} s s'" by blast+
  obtain content size where c: "meMaterialize env tar = (content, Inr size)" "cached s' = (cached s)(Digest p \<mapsto> content)"
    using persisted_ok(2) [OF ok p d' t touch] by auto
  show ?thesis
    using persisted_ok(1) [OF ok p d' t touch] c none pull p by (auto simp: ensured_def persisted_def r)
qed

lemma ensure_miss_Inl:
  assumes ok: "cache_ok env s" and d: "pinned_digest (Digest p)" and t: "slash \<notin> set (meTemp env)" and none: "get (imRows s) (Digest p) = None"
    and run: "ensure_miss env p s = (s', Inl e)"
  shows "cache_ok env s' \<and> cached s' = cached s"
proof -
  consider "s' = s" | tar config where "persistFromTarStream env \<lparr>ptRef = drOriginal p, ptDigest = Digest p, ptTarStream = tar, ptOCIConfig = config,
      ptSource = ''registry'', ptCreatedAt = meNow env, ptLastUsedAt = meNow env\<rparr> s = (s', Inl e)"
    using run by (auto simp: ensure_miss_def outcomes lift_res_out ret_out)
  then show ?thesis
  proof cases
    case 2
    note u = persistFromTarStream_Inl [OF 2, simplified]
    show ?thesis using unpersisted_ok [OF ok _ d t] u none by (auto intro: ext)
  qed (use ok in simp)
qed

lemma cached_del_missing:
  assumes "cache_ok env s" "cached s d = None"
  shows "cached (s\<lparr>imRows := del d (imRows s)\<rparr>) = cached s"
  using assms by (auto simp: cached_def fun_eq_iff split: option.splits)

lemma ensure_found_hit:
  assumes ok: "cache_ok env s" and row: "get (imRows s) (Digest p) = Some row" and scan: "scanRecord row = Inr r" and c: "cached s (Digest p) = Some content"
    and run: "ensure_found env p r s = (s', res)"
  shows "cache_ok env s' \<and> (case res of Inl _ \<Rightarrow> cached s' = cached s | Inr x \<Rightarrow> ensured env p s s' x)"
proof -
  let ?r' = "r\<lparr>recRef := drOriginal p, recLastUsedAt := meNow env\<rparr>"
  note r = row_ok_scan [OF cache_ok_row [OF ok row] scan]
  have f: "get (imFiles s) (recRootFSPath r) = Some content" using c row by (simp add: cached_eq [OF ok] r(2))
  consider e where "s' = s" "res = Inl e" | u where "upsertRecord env ?r' s = (s', Inr u)" "res = Inr \<lparr>enRecord = ?r', enCacheHit = True\<rparr>"
    using run f by (cases res) (auto simp: ensure_found_def Let_def outcomes ret_out dest: upsertRecord_out(1) split: option.splits)
  then show ?thesis
  proof cases
    case 2
    have s': "s' = s\<lparr>imRows := put (Digest p) (row_of ?r') (imRows s)\<rparr>" using upsertRecord_out(2) [OF 2(1)] r(1) by simp
    have ok': "cache_ok env s'" using cache_ok_put [OF ok r(3) [of "meNow env" "drOriginal p"], of s'] ok by (simp add: s' cache_ok_def)
    have "cached s' d = ((cached s)(Digest p \<mapsto> content)) d" for d
      using f cached_eq [OF ok, of d] cached_eq [OF ok', of d] by (auto simp: s' r(2))
    then show ?thesis using ok' f r(1,2) c by (auto simp: 2(2) ensured_def s')
  qed (use ok in simp)
qed

lemma ensure_found_stale:
  assumes ok: "cache_ok env s" and row: "get (imRows s) (Digest p) = Some row" and scan: "scanRecord row = Inr r" and c: "cached s (Digest p) = None"
    and d: "pinned_digest (Digest p)" and t: "slash \<notin> set (meTemp env)" and run: "ensure_found env p r s = (s', res)"
  shows "cache_ok env s' \<and> (case res of Inl _ \<Rightarrow> cached s' = cached s | Inr x \<Rightarrow> ensured env p s s' x)"
proof -
  note r = row_ok_scan [OF cache_ok_row [OF ok row] scan]
  have f: "get (imFiles s) (recRootFSPath r) = None" using c row by (simp add: cached_eq [OF ok] r(2))
  let ?s1 = "s\<lparr>imRows := del (Digest p) (imRows s)\<rparr>"
  note ok1 = cache_ok_del [OF ok, of "Digest p"] and same = cached_del_missing [OF ok c]
  consider e where "s' = s" "res = Inl e" | "ensure_miss env p ?s1 = (s', res)"
    using run f r(1) by (cases res) (auto simp: ensure_found_def outcomes dest: deleteByDigest_out split: option.splits)
  then show ?thesis
  proof cases
    case 2
    show ?thesis
    proof (cases res)
      case (Inl e)
      then show ?thesis using ensure_miss_Inl [OF ok1 d t, of s' e] 2 same by simp
    next
      case (Inr x)
      then show ?thesis using ensure_miss_Inr [OF ok1 d t, of s' x] 2 same c by (auto simp: ensured_def)
    qed
  qed (use ok in simp)
qed

text \<open>C2. \<open>Ensure\<close> refines an update of the content-addressed cache. A failure leaves every cached artifact as it was. On success the
  returned record is that of the parsed digest, the file it names exists and holds the artifact to which the cache now maps the digest;
  it was a hit exactly when the digest was cached, a hit changes no file, a miss stores what was pulled and materialized, and no
  other digest is affected. The invariant of the cache is kept in every case.\<close>

theorem Ensure_refines:
  assumes "cache_ok env s" and "slash \<notin> set (meTemp env)" and "Ensure env refText ref s = (s', res)"
  shows "cache_ok env s' \<and>
    (case res of Inl _ \<Rightarrow> cached s' = cached s | Inr r \<Rightarrow> \<exists>p. ParseDigestReference ref = Inr p \<and> ensured env p s s' r)"
proof (cases "ParseDigestReference ref")
  case (Inl e)
  then show ?thesis using assms(1,3) by (cases res) (auto simp: Ensure_def outcomes lift_res_out)
next
  case (Inr p)
  note d = pinned_Digest [OF Inr]
  have run: "bind_act (lookupByDigest env (Digest p)) (\<lambda>found. case found of None \<Rightarrow> ensure_miss env p | Some r \<Rightarrow> ensure_found env p r) s = (s', res)"
    using assms(3) by (simp add: Ensure_def bind_act_def lift_res_def Inr)
  consider e where "s' = s" "res = Inl e" | "get (imRows s) (Digest p) = None" "ensure_miss env p s = (s', res)"
    | row r where "get (imRows s) (Digest p) = Some row" "scanRecord row = Inr r" "ensure_found env p r s = (s', res)"
  proof -
    obtain s1 found where l: "lookupByDigest env (Digest p) s = (s1, found)" by fastforce
    then have "s1 = s" by (rule lookupByDigest_state)
    then show thesis using that run l lookupByDigest_Inr [of env "Digest p" s] by (cases found) (auto simp: bind_act_def split: option.splits)
  qed
  then show ?thesis
  proof cases
    case 2
    then have "cached s (Digest p) = None" by (simp add: cached_def)
    then show ?thesis
      using ensure_miss_Inl [OF assms(1) d assms(2) 2(1)] ensure_miss_Inr [OF assms(1) d assms(2)] 2(2) Inr by (cases res) auto
  next
    case 3
    show ?thesis
    proof (cases "cached s (Digest p)")
      case None
      then show ?thesis using ensure_found_stale [OF assms(1) 3(1,2) None d assms(2) 3(3)] Inr by (cases res) auto
    next
      case (Some content)
      then show ?thesis using ensure_found_hit [OF assms(1) 3(1,2) Some 3(3)] Inr by (cases res) auto
    qed
  qed (use assms(1) in simp)
qed

text \<open>\<open>Import\<close> stores the materialized stream under the digest of the reference and touches no other digest, whether it
  succeeds or not; the record it returns says where the artifact is.\<close>

theorem Import_refines:
  assumes "cache_ok env s" and "slash \<notin> set (meTemp env)" and "Import env refText ref stream s = (s', res)"
  shows "cache_ok env s' \<and>
    (case res of
       Inl _ \<Rightarrow> \<forall>d. (\<forall>p. ParseDigestReference ref = Inr p \<longrightarrow> d \<noteq> Digest p) \<longrightarrow> cached s' d = cached s d
     | Inr r \<Rightarrow> \<exists>p tar content. ParseDigestReference ref = Inr p \<and> stream = Inr tar \<and> meMaterialize env tar = (content, Inr (recSizeBytes r)) \<and>
         recDigest r = Digest p \<and> get (imFiles s') (recRootFSPath r) = Some content \<and> cached s' = (cached s)(Digest p \<mapsto> content))"
proof (cases "ParseDigestReference ref")
  case (Inl e)
  then show ?thesis using assms(1,3) by (cases res) (auto simp: Import_def outcomes lift_res_out)
next
  case (Inr p)
  note d = pinned_Digest [OF Inr]
  show ?thesis
  proof (cases stream)
    case (Inl e)
    then show ?thesis using assms(1,3) Inr by (cases res) (auto simp: Import_def outcomes lift_res_out)
  next
    case tar: (Inr tar)
    let ?req = "\<lparr>ptRef = drOriginal p, ptDigest = Digest p, ptTarStream = tar, ptOCIConfig = no_config, ptSource = ''import'',
        ptCreatedAt = meNow env, ptLastUsedAt = meNow env\<rparr>"
    have run: "persistFromTarStream env ?req s = (s', res)" using assms(3) by (simp add: Import_def bind_act_def lift_res_def Inr tar)
    have d': "pinned_digest (ptDigest ?req)" using d by simp
    show ?thesis
    proof (cases res)
      case (Inl e)
      have u: "imRows s' = imRows s" "touches {temp_path env (Digest p), artifact_path env (Digest p)} s s'"
        using persistFromTarStream_Inl [OF run [unfolded Inl]] by simp_all
      show ?thesis using unpersisted_ok [OF assms(1) u(1) d assms(2) u(2)] Inr Inl by simp
    next
      case res: (Inr r)
      from persistFromTarStream_Inr [OF run [unfolded res] temp_not_artifact [OF d' d' assms(2)]]
      have p: "persisted env ?req s s' r" and touch: "touches {temp_path env (ptDigest ?req), artifact_path env (ptDigest ?req)} s s'" by blast+
      obtain content size where c: "meMaterialize env tar = (content, Inr size)" "cached s' = (cached s)(Digest p \<mapsto> content)"
        using persisted_ok(2) [OF assms(1) p d' assms(2) touch] by auto
      have "recDigest r = Digest p" "recSizeBytes r = size" "get (imFiles s') (recRootFSPath r) = Some content"
        using p c(1) by (auto simp: persisted_def)
      with c show ?thesis
        using persisted_ok(1) [OF assms(1) p d' assms(2) touch] Inr tar res by simp
    qed
  qed
qed

section \<open>Removal\<close>

text \<open>The digests that a selector names.\<close>

definition selected :: "string \<Rightarrow> string \<Rightarrow> image_row \<Rightarrow> bool" where
  "selected sel d row =
     (case ParseDigestReference sel of
        Inr p \<Rightarrow> d = Digest p
      | Inl _ \<Rightarrow> (case normalizeDigestSelector sel of Some d' \<Rightarrow> d = d' | None \<Rightarrow> rwRef row = sel))"

lemma at_most_trans: "x \<in> {None, y} \<Longrightarrow> y \<in> {None, z} \<Longrightarrow> x \<in> {None, z}"
  by blast

lemma remove_files_out:
  assumes "remove_files env rs s = (s', res)"
  shows "imRows s' = imRows s" "touches (recRootFSPath ` set rs) s s'" "\<forall>p. get (imFiles s') p \<in> {None, get (imFiles s) p}"
    "res = Inr u \<Longrightarrow> \<forall>r \<in> set rs. get (imFiles s') (recRootFSPath r) = None"
proof -
  have "imRows s' = imRows s \<and> touches (recRootFSPath ` set rs) s s' \<and> (\<forall>p. get (imFiles s') p \<in> {None, get (imFiles s) p}) \<and>
    (res = Inr u \<longrightarrow> (\<forall>r \<in> set rs. get (imFiles s') (recRootFSPath r) = None))"
    using assms
  proof (induction rs arbitrary: s)
    case Nil
    then show ?case by (simp add: ret_def)
  next
    case (Cons r rs)
    let ?p = "recRootFSPath r"
    consider e where "s' = s" "res = Inl e" | s1 where "remove_files env rs s1 = (s', res)" "s1 = s \<and> get (imFiles s) ?p = None \<or> s1 = drop_file ?p s"
      using Cons.prems by (cases res) (auto simp: outcomes img_call_out split: if_splits)
    then show ?case
    proof cases
      case 2
      note IH = Cons.IH [OF 2(1)]
      have s1: "imRows s1 = imRows s" "get (imFiles s1) ?p = None" "\<forall>q. q \<noteq> ?p \<longrightarrow> get (imFiles s1) q = get (imFiles s) q"
        "is_gomap (imFiles s) \<longrightarrow> is_gomap (imFiles s1)"
        using 2(2) by (auto simp: drop_file_def)
      have "\<forall>q. get (imFiles s1) q \<in> {None, get (imFiles s) q}" using s1(2,3) by (metis insertCI)
      with IH have "\<forall>q. get (imFiles s') q \<in> {None, get (imFiles s) q}" by (metis insert_iff singletonD)
      moreover have "get (imFiles s') ?p = None" using IH s1(2) by (metis insert_iff singletonD)
      moreover have "touches (recRootFSPath ` set (r # rs)) s s'" using IH s1(3,4) by (simp add: touches_def)
      ultimately show ?thesis using IH s1(1) by simp
    qed (simp)
  qed
  then show "imRows s' = imRows s" "touches (recRootFSPath ` set rs) s s'" "\<forall>p. get (imFiles s') p \<in> {None, get (imFiles s) p}"
    "res = Inr u \<Longrightarrow> \<forall>r \<in> set rs. get (imFiles s') (recRootFSPath r) = None" by blast+
qed

lemma remove_rows_out:
  assumes "remove_rows env rs s = (s', res)"
  shows "imFiles s' = imFiles s" "\<forall>d. get (imRows s') d \<in> {None, get (imRows s) d}" "cache_ok env s \<Longrightarrow> cache_ok env s'"
    "d \<notin> recDigest ` set rs \<Longrightarrow> get (imRows s') d = get (imRows s) d"
    "res = Inr u \<Longrightarrow> d \<in> recDigest ` set rs \<Longrightarrow> get (imRows s') d = None"
proof -
  have "imFiles s' = imFiles s \<and> (\<forall>d. get (imRows s') d \<in> {None, get (imRows s) d}) \<and> (cache_ok env s \<longrightarrow> cache_ok env s') \<and>
    (d \<notin> recDigest ` set rs \<longrightarrow> get (imRows s') d = get (imRows s) d) \<and> (res = Inr u \<longrightarrow> d \<in> recDigest ` set rs \<longrightarrow> get (imRows s') d = None)"
    using assms
  proof (induction rs arbitrary: s)
    case Nil
    then show ?case by (simp add: ret_def)
  next
    case (Cons r rs)
    let ?s1 = "s\<lparr>imRows := del (recDigest r) (imRows s)\<rparr>"
    consider e where "s' = s" "res = Inl e" | "remove_rows env rs ?s1 = (s', res)"
      using Cons.prems by (cases res) (auto simp: outcomes db_call_out)
    then show ?case
    proof cases
      case 2
      note IH = Cons.IH [OF 2]
      have "get (imRows s') d \<in> {None, get (imRows ?s1) d}" for d using IH by blast
      then have "get (imRows s') d \<in> {None, get (imRows s) d}" for d by (rule at_most_trans) simp
      then show ?thesis using IH cache_ok_del by auto
    qed simp
  qed
  then show "imFiles s' = imFiles s" "\<forall>d. get (imRows s') d \<in> {None, get (imRows s) d}" "cache_ok env s \<Longrightarrow> cache_ok env s'"
    "d \<notin> recDigest ` set rs \<Longrightarrow> get (imRows s') d = get (imRows s) d"
    "res = Inr u \<Longrightarrow> d \<in> recDigest ` set rs \<Longrightarrow> get (imRows s') d = None" by blast+
qed

definition selected_digests :: "image_store \<Rightarrow> string \<Rightarrow> string set" where
  "selected_digests s sel = {d. \<exists>row. get (imRows s) d = Some row \<and> selected sel d row}"

lemma query_one:
  assumes "cache_ok env s" "bind_act (queryRecordByDigest env d) (\<lambda>r. ret (case r of None \<Rightarrow> [] | Some x \<Rightarrow> [x])) s = (s', res)"
  shows "s' = s" "res = Inr rs \<Longrightarrow> recDigest ` set rs = {d'. d' = d \<and> get (imRows s) d' \<noteq> None} \<and> (\<forall>r \<in> set rs. recRootFSPath r = artifact_path env (recDigest r))"
proof -
  obtain s1 q where q: "queryRecordByDigest env d s = (s1, q)" by fastforce
  then have s1: "s1 = s" by (rule queryRecordByDigest_state)
  show "s' = s" using assms(2) q s1 by (cases q) (auto simp: bind_act_def ret_def)
  show "recDigest ` set rs = {d'. d' = d \<and> get (imRows s) d' \<noteq> None} \<and> (\<forall>r \<in> set rs. recRootFSPath r = artifact_path env (recDigest r))"
    if "res = Inr rs"
  proof (cases q)
    case (Inr x)
    then have rs: "rs = (case x of None \<Rightarrow> [] | Some y \<Rightarrow> [y])" using assms(2) q s1 that by (simp add: bind_act_def ret_def)
    show ?thesis
    proof (cases "get (imRows s) d")
      case (Some row)
      then show ?thesis
        using queryRecordByDigest_Inr [OF q [unfolded Inr]] rs row_ok_scan(1,2) [OF cache_ok_row [OF assms(1) Some]] by auto
    qed (use queryRecordByDigest_Inr [OF q [unfolded Inr]] rs in auto)
  qed (use assms(2) q s1 that in \<open>simp add: bind_act_def\<close>)
qed

lemma scan_rows_by_ref:
  assumes ok: "cache_ok env s" and scan: "map_res scanRecord (filter (\<lambda>row. rwRef row = sel) (map snd (imRows s))) = Inr rs"
  shows "recDigest ` set rs = {d. \<exists>row. get (imRows s) d = Some row \<and> rwRef row = sel} \<and>
    (\<forall>r \<in> set rs. recRootFSPath r = artifact_path env (recDigest r))"
proof -
  have get: "(d, row) \<in> set (imRows s) \<longleftrightarrow> get (imRows s) d = Some row" for d row
    using ok in_get_Some get_Some_in by (fastforce simp: cache_ok_def)
  have 1: "\<exists>d row. get (imRows s) d = Some row \<and> rwRef row = sel \<and> recDigest r = d \<and> recRootFSPath r = artifact_path env d" if r: "r \<in> set rs" for r
  proof -
    obtain d row where d: "(d, row) \<in> set (imRows s)" "rwRef row = sel" "scanRecord row = Inr r"
      using map_res_set [OF scan r] by auto
    then show ?thesis using row_ok_scan(1,2) [OF cache_ok_row [OF ok]] get by blast
  qed
  have 2: "d \<in> recDigest ` set rs" if "get (imRows s) d = Some row" "rwRef row = sel" for d row
  proof -
    have "row \<in> set (filter (\<lambda>row. rwRef row = sel) (map snd (imRows s)))" using that get by force
    then obtain r where "r \<in> set rs" "scanRecord row = Inr r" using map_res_set2 [OF scan] by blast
    then show ?thesis using row_ok_scan(1) [OF cache_ok_row [OF ok that(1)]] by blast
  qed
  show ?thesis using 1 2 by blast
qed

lemma queryRecordsBySelector_out:
  assumes ok: "cache_ok env s" and run: "queryRecordsBySelector env sel s = (s', res)"
  shows "s' = s" "res = Inr rs \<Longrightarrow> recDigest ` set rs = selected_digests s sel \<and> (\<forall>r \<in> set rs. recRootFSPath r = artifact_path env (recDigest r))"
proof -
  consider d where "bind_act (queryRecordByDigest env d) (\<lambda>r. ret (case r of None \<Rightarrow> [] | Some x \<Rightarrow> [x])) s = (s', res)"
      "\<forall>d' row. selected sel d' row \<longleftrightarrow> d' = d"
    | "ParseDigestReference sel \<in> range Inl" "normalizeDigestSelector sel = None"
    using run by (cases "ParseDigestReference sel"; cases "normalizeDigestSelector sel") (auto simp: queryRecordsBySelector_def selected_def Let_def)
  then have "s' = s \<and> (res = Inr rs \<longrightarrow> recDigest ` set rs = selected_digests s sel \<and> (\<forall>r \<in> set rs. recRootFSPath r = artifact_path env (recDigest r)))"
  proof cases
    case 1
    then show ?thesis using query_one(1) [OF ok 1(1)] query_one(2) [OF ok 1(1), of rs] by (auto simp: selected_digests_def)
  next
    case 2
    then have sel: "selected_digests s sel = {d. \<exists>row. get (imRows s) d = Some row \<and> rwRef row = sel}"
      by (auto simp: selected_digests_def selected_def)
    have "s' = s" using run 2 by (cases res) (auto simp: queryRecordsBySelector_def Let_def outcomes db_call_out lift_res_out ret_out)
    moreover have "map_res scanRecord (filter (\<lambda>row. rwRef row = sel) (map snd (imRows s))) = Inr rs" if "res = Inr rs"
      using run 2 that by (auto simp: queryRecordsBySelector_def Let_def outcomes db_call_out lift_res_out ret_out)
    ultimately show ?thesis using scan_rows_by_ref [OF ok, of sel rs] sel by auto
  qed
  then show "s' = s" "res = Inr rs \<Longrightarrow> recDigest ` set rs = selected_digests s sel \<and> (\<forall>r \<in> set rs. recRootFSPath r = artifact_path env (recDigest r))"
    by blast+
qed

lemma remove_selected:
  assumes ok: "cache_ok env s" and paths: "\<forall>r \<in> set rs. recRootFSPath r = artifact_path env (recDigest r)" "recDigest ` set rs = selected_digests s sel"
    and files: "remove_files env rs s = (s1, res1)"
  shows "cache_ok env s1" "\<forall>d. cached s1 d \<in> {None, cached s d}" "d \<notin> selected_digests s sel \<Longrightarrow> cached s1 d = cached s d"
proof -
  note f = remove_files_out [OF files]
  have "is_gomap (imFiles s1)" using f(2) ok by (simp add: touches_def cache_ok_def)
  then show ok1: "cache_ok env s1" using cache_ok_same_rows [OF ok _ f(1)] by blast
  show "\<forall>d. cached s1 d \<in> {None, cached s d}" using f(3) by (simp add: cached_eq [OF ok] cached_eq [OF ok1] f(1))
  assume d: "d \<notin> selected_digests s sel"
  show "cached s1 d = cached s d"
  proof (cases "get (imRows s) d")
    case (Some row)
    have "artifact_path env d \<notin> recRootFSPath ` set rs"
    proof
      assume "artifact_path env d \<in> recRootFSPath ` set rs"
      then obtain r where r: "r \<in> set rs" "artifact_path env d = artifact_path env (recDigest r)" using paths(1) by auto
      then obtain row' where "get (imRows s) (recDigest r) = Some row'" using paths(2) by (auto simp: selected_digests_def)
      then have "pinned_digest (recDigest r)" "pinned_digest d" using cache_ok_row [OF ok] Some row_ok_path by blast+
      then have "d = recDigest r" using artifact_path_inj [OF r(2)] by blast
      then show False using d r(1) paths(2) by blast
    qed
    then show ?thesis using f(2) by (simp add: touches_def cached_eq [OF ok] cached_eq [OF ok1] f(1))
  qed (simp add: cached_eq [OF ok] cached_eq [OF ok1] f(1))
qed

lemma Remove_cases:
  assumes ok: "cache_ok env s" and run: "Remove env selector s = (s', res)"
  obtains (unchanged) e where "s' = s" "res = Inl e"
    | (none) "selected_digests s (trim_space selector) = {}" "s' = s" "res = Inr []"
    | (removed) rs s1 res1 where "recDigest ` set rs = selected_digests s (trim_space selector)"
        "\<forall>r \<in> set rs. recRootFSPath r = artifact_path env (recDigest r)" "remove_files env rs s = (s1, res1)"
        "case res1 of Inl e \<Rightarrow> s' = s1 \<and> res = Inl e | Inr u \<Rightarrow> \<exists>res2. remove_rows env rs s1 = (s', res2) \<and> res = map_sum id (\<lambda>_. rs) res2"
proof (cases "trim_space selector = []")
  case True
  then show thesis using unchanged run by (auto simp: Remove_def throw_def)
next
  case False
  obtain s1 res1 where db: "ready_db env s = (s1, res1)" by fastforce
  note [simp] = ready_db_state [OF db]
  obtain s2 res2 where q: "queryRecordsBySelector env (trim_space selector) s = (s2, res2)" by fastforce
  note sel = queryRecordsBySelector_out [OF ok q] and [simp] = queryRecordsBySelector_out(1) [OF ok q]
  show thesis
  proof (cases "\<exists>e. res1 = Inl e \<or> res2 = Inl e")
    case True
    then show thesis using unchanged run db q False by (auto simp: Remove_def Let_def bind_act_def split: sum.splits)
  next
    case ok2: False
    then obtain u rs where rs: "res1 = Inr u" "res2 = Inr rs" by (metis sumE)
    note [simp] = sel(2) [OF rs(2), THEN conjunct1, symmetric]
    show thesis
    proof (cases "rs = []")
      case True
      then show thesis using none run db q False rs sel(2) [OF rs(2)] by (simp add: Remove_def Let_def bind_act_def ret_def)
    next
      case ne: False
      obtain s3 res3 where f: "remove_files env rs s = (s3, res3)" by fastforce
      obtain s4 res4 where r: "remove_rows env rs s3 = (s4, res4)" by fastforce
      have "case res3 of Inl e \<Rightarrow> s' = s3 \<and> res = Inl e | Inr u \<Rightarrow> \<exists>res2. remove_rows env rs s3 = (s', res2) \<and> res = map_sum id (\<lambda>_. rs) res2"
        using run db q False rs ne f r by (cases res3; cases res4) (auto simp: Remove_def Let_def bind_act_def ret_def)
      then show thesis using removed [OF _ _ f] sel(2) [OF rs(2)] by blast
    qed
  qed
qed

text \<open>\<open>Remove\<close> removes what the selector names and nothing else. On success the returned records are those of exactly the rows the
  selector names (by pinned reference, by digest, or by stored reference), and afterwards these have neither row nor cached
  artifact while every other digest has both as before. A failure never changes another digest and never puts anything into the cache.\<close>

theorem Remove_refines:
  assumes ok: "cache_ok env s" and run: "Remove env selector s = (s', res)"
  shows "cache_ok env s' \<and> (\<forall>d. d \<notin> selected_digests s (trim_space selector) \<longrightarrow> cached s' d = cached s d) \<and>
    (case res of
       Inl _ \<Rightarrow> \<forall>d. cached s' d \<in> {None, cached s d}
     | Inr rs \<Rightarrow> recDigest ` set rs = selected_digests s (trim_space selector) \<and>
         (\<forall>d. get (imRows s') d = (if d \<in> selected_digests s (trim_space selector) then None else get (imRows s) d)) \<and>
         (\<forall>d \<in> selected_digests s (trim_space selector). cached s' d = None \<and> get (imFiles s') (artifact_path env d) = None))"
proof (rule Remove_cases [OF ok run])
  fix rs s1 res1
  let ?sel = "trim_space selector"
  assume d: "recDigest ` set rs = selected_digests s ?sel" and p: "\<forall>r \<in> set rs. recRootFSPath r = artifact_path env (recDigest r)"
    and f: "remove_files env rs s = (s1, res1)"
    and rest: "case res1 of Inl e \<Rightarrow> s' = s1 \<and> res = Inl e | Inr u \<Rightarrow> \<exists>res2. remove_rows env rs s1 = (s', res2) \<and> res = map_sum id (\<lambda>_. rs) res2"
  note s1 = remove_selected [OF ok p d f]
  show ?thesis
  proof (cases res1)
    case (Inl e)
    then show ?thesis using rest s1 by simp
  next
    case (Inr u)
    then obtain res2 where r: "remove_rows env rs s1 = (s', res2)" "res = map_sum id (\<lambda>_. rs) res2" using rest by auto
    note rows = remove_rows_out [OF r(1)] and ok' = remove_rows_out(3) [OF r(1) s1(1)]
    have gone: "\<forall>d \<in> selected_digests s ?sel. get (imFiles s') (artifact_path env d) = None"
      using remove_files_out(4) [OF f Inr] p rows(1) d by (metis imageE)
    have "cached s' d \<in> {None, cached s1 d}" for d
      using rows(1) rows(2) [rule_format, of d] by (auto simp: cached_eq [OF s1(1)] cached_eq [OF ok'])
    then have "cached s' d \<in> {None, cached s d}" for d by (rule at_most_trans) (use s1(2) in blast)
    moreover have "cached s' d = cached s d" if "d \<notin> selected_digests s ?sel" for d
      using s1(3) [OF that] rows(1) remove_rows_out(4) [OF r(1), of d] that d by (auto simp: cached_eq [OF s1(1)] cached_eq [OF ok'])
    moreover have "get (imRows s') d = (if d \<in> selected_digests s ?sel then None else get (imRows s) d)" if "res2 = Inr v" for d v
      using remove_rows_out(4) [OF r(1), of d] remove_rows_out(5) [OF r(1) that, of d] d remove_files_out(1) [OF f] by simp
    ultimately show ?thesis using ok' gone d r(2) by (cases res2) (simp_all add: cached_eq [OF ok'])
  qed
qed (use ok in simp_all)

section \<open>Examples\<close>

definition ex_hex :: string where
  "ex_hex = replicate 64 CHR ''a''"

definition ex_digest :: string where
  "ex_digest = ''sha256:'' @ ex_hex"

definition ex_image_env :: image_env where
  "ex_image_env =
     \<lparr>meCacheDir = ''/c'', meDBPath = ''/c/db'', meNow = 5000000000, meDB = (\<lambda>_. None), meOS = (\<lambda>_. None), meTemp = ''7'',
      mePull = (\<lambda>_. Inr (''tar'', no_config)), meMaterialize = (\<lambda>t. (t @ ''!'', Inr 4))\<rparr>"

definition ex_empty_store :: image_store where
  "ex_empty_store = \<lparr>imRows = [], imFiles = []\<rparr>"

definition ex_record :: Record where
  "ex_record =
     \<lparr>recDigest = ex_digest, recRef = ''app'', recRootFSPath = artifact_path ex_image_env ex_digest, recSizeBytes = 4, recCreatedAt = 0,
      recLastUsedAt = 0, recSource = ''import'', recOCIConfig = no_config\<rparr>"

definition ex_store :: image_store where
  "ex_store = \<lparr>imRows = [(ex_digest, row_of ex_record)], imFiles = [(artifact_path ex_image_env ex_digest, ''x'')]\<rparr>"

lemma ex_ok: "cache_ok ex_image_env ex_empty_store" "cache_ok ex_image_env ex_store" "slash \<notin> set (meTemp ex_image_env)"
proof -
  have "sha256HexPattern ex_hex" by code_simp
  then have "pinned_digest ex_digest" by (auto simp: pinned_digest_def ex_digest_def)
  then show "cache_ok ex_image_env ex_store" by (auto simp: cache_ok_def ex_store_def row_ok_def get_def is_gomap_def keys_of_def ex_record_def)
qed (simp_all add: cache_ok_def ex_empty_store_def ex_image_env_def)

definition ex_ref :: DigestReference where
  "ex_ref = \<lparr>drOriginal = ''app@'' @ ex_digest, drRepository = ''app'', drDigestAlgorithm = ''sha256'', drDigestHex = ex_hex\<rparr>"

lemma ex_parse: "ParseDigestReference (''app@'' @ ex_digest) = Inr ex_ref"
  by code_simp

lemma ex_values [simp]:
  "Digest ex_ref = ex_digest" "cached ex_empty_store d = None" "mePull ex_image_env p = Inr (''tar'', no_config)"
  "meMaterialize ex_image_env t = (t @ ''!'', Inr 4)"
  by (simp_all add: Digest_def ex_ref_def ex_digest_def cached_def ex_empty_store_def ex_image_env_def)

theorem Ensure_refines_witness:
  "\<exists>s' r. Ensure ex_image_env (\<lambda>_. []) (''app@'' @ ex_digest) ex_empty_store = (s', Inr r) \<and> cache_ok ex_image_env s' \<and>
     \<not> enCacheHit r \<and> cached s' ex_digest = Some ''tar!''"
proof -
  obtain s' res where run: "Ensure ex_image_env (\<lambda>_. []) (''app@'' @ ex_digest) ex_empty_store = (s', res)" by fastforce
  have "\<not> isl (snd (Ensure ex_image_env (\<lambda>_. []) (''app@'' @ ex_digest) ex_empty_store))" by code_simp
  then obtain r where r: "res = Inr r" using run by (cases res) auto
  note t = Ensure_refines [OF ex_ok(1,3) run, unfolded r ex_parse]
  then have "cached s' ex_digest = Some ''tar!''" "\<not> enCacheHit r"
    by (auto simp: ensured_def)
  with t show ?thesis using run r by auto
qed

theorem Import_refines_witness:
  "\<exists>s' r. Import ex_image_env (\<lambda>_. []) (''app@'' @ ex_digest) (Inr ''new'') ex_store = (s', Inr r) \<and> cache_ok ex_image_env s' \<and>
     cached s' ex_digest = Some ''new!''"
proof -
  obtain s' res where run: "Import ex_image_env (\<lambda>_. []) (''app@'' @ ex_digest) (Inr ''new'') ex_store = (s', res)" by fastforce
  have "\<not> isl (snd (Import ex_image_env (\<lambda>_. []) (''app@'' @ ex_digest) (Inr ''new'') ex_store))" by code_simp
  then obtain r where r: "res = Inr r" using run by (cases res) auto
  note t = Import_refines [OF ex_ok(2,3) run, unfolded r ex_parse]
  then have "cached s' ex_digest = Some ''new!''" by auto
  with t show ?thesis using run r by auto
qed

theorem Remove_refines_witness:
  "\<exists>s' rs. Remove ex_image_env '' app '' ex_store = (s', Inr rs) \<and> recDigest ` set rs = {ex_digest} \<and> cached s' ex_digest = None"
proof -
  obtain s' res where run: "Remove ex_image_env '' app '' ex_store = (s', res)" by fastforce
  have "\<not> isl (snd (Remove ex_image_env '' app '' ex_store))" by code_simp
  then obtain rs where rs: "res = Inr rs" using run by (cases res) auto
  have "trim_space '' app '' = ''app''" "ParseDigestReference ''app'' = Inl (RefNotPinned ''app'')" "normalizeDigestSelector ''app'' = None" by code_simp+
  then have sel: "selected_digests ex_store (trim_space '' app '') = {ex_digest}"
    by (auto simp: selected_digests_def selected_def ex_store_def get_def row_of_def ex_record_def split: if_splits)
  show ?thesis using Remove_refines [OF ex_ok(2) run, unfolded rs sel] run rs by auto
qed

end
