(* ===== verification/Interactive.thy ===== *)
theory Interactive
  imports Service_System Vsockexec
begin

text \<open>
  \<open>internal/interactivequic\<close>: the server that carries the terminal of an interactive execution over a QUIC connection, and its client.
  A connection has a control stream of JSON messages, a stream for standard input and one for the terminal's output. The server's
  goroutines of a connection (the main loop, the reader of the control stream, the reader of standard input) are cut where they
  wait, and interleave with each other and with the steps of the control service. What QUIC and the wire deliver are arguments.
\<close>

section \<open>Control messages\<close>

record controlMessage =
  cmType :: string
  cmSessionID :: string
  cmSessionToken :: string
  cmCols :: "32 word"
  cmRows :: "32 word"
  cmSignal :: int
  cmDetach :: bool
  cmExitCode :: int
  cmStatus :: string
  cmError :: string

definition control :: "string \<Rightarrow> controlMessage" where
  "control t =
     \<lparr>cmType = t, cmSessionID = [], cmSessionToken = [], cmCols = 0, cmRows = 0, cmSignal = 0, cmDetach = False, cmExitCode = 0, cmStatus = [],
      cmError = []\<rparr>"

definition controlTypeHello :: string where "controlTypeHello = ''hello''"
definition controlTypeHelloAck :: string where "controlTypeHelloAck = ''hello_ack''"
definition controlTypeResize :: string where "controlTypeResize = ''resize''"
definition controlTypeSignal :: string where "controlTypeSignal = ''signal''"
definition controlTypeStdinEOF :: string where "controlTypeStdinEOF = ''stdin_eof''"
definition controlTypeClose :: string where "controlTypeClose = ''close''"
definition controlTypeExit :: string where "controlTypeExit = ''exit''"
definition controlTypeError :: string where "controlTypeError = ''error''"

lemmas control_types =
  controlTypeHello_def controlTypeHelloAck_def controlTypeResize_def controlTypeSignal_def controlTypeStdinEOF_def controlTypeClose_def
  controlTypeExit_def controlTypeError_def

definition encode_control :: "controlMessage \<Rightarrow> json" where
  "encode_control m = JObj (
     [(''type'', JStr (cmType m))] @
     omit_empty (cmSessionID m = []) ''session_id'' (JStr (cmSessionID m)) @
     omit_empty (cmSessionToken m = []) ''session_token'' (JStr (cmSessionToken m)) @
     omit_empty (cmCols m = 0) ''cols'' (JNum (uint (cmCols m))) @
     omit_empty (cmRows m = 0) ''rows'' (JNum (uint (cmRows m))) @
     omit_empty (cmSignal m = 0) ''signal'' (JNum (cmSignal m)) @
     omit_empty (\<not> cmDetach m) ''detach'' (JBool (cmDetach m)) @
     omit_empty (cmExitCode m = 0) ''exit_code'' (JNum (cmExitCode m)) @
     omit_empty (cmStatus m = []) ''status'' (JStr (cmStatus m)) @
     omit_empty (cmError m = []) ''error'' (JStr (cmError m)))"

definition into_int32 :: "json \<Rightarrow> int \<Rightarrow> wire_error + int" where
  "into_int32 v old =
     (case v of JNum i \<Rightarrow> if - (2 ^ 31) \<le> i \<and> i < 2 ^ 31 then Inr i else Inl BadType | JNull \<Rightarrow> Inr old | _ \<Rightarrow> Inl BadType)"

definition unmarshal_control :: "(string \<times> json) list \<Rightarrow> wire_error + controlMessage" where
  "unmarshal_control fs =
     and_then (field fs ''type'' into_string []) (\<lambda>t.
     and_then (field fs ''session_id'' into_string []) (\<lambda>sid.
     and_then (field fs ''session_token'' into_string []) (\<lambda>tok.
     and_then (field fs ''cols'' into_uint32 0) (\<lambda>cols.
     and_then (field fs ''rows'' into_uint32 0) (\<lambda>rows.
     and_then (field fs ''signal'' into_int32 0) (\<lambda>sig.
     and_then (field fs ''detach'' into_bool False) (\<lambda>det.
     and_then (field fs ''exit_code'' into_int32 0) (\<lambda>code.
     and_then (field fs ''status'' into_string []) (\<lambda>st.
     and_then (field fs ''error'' into_string []) (\<lambda>e.
     Inr \<lparr>cmType = t, cmSessionID = sid, cmSessionToken = tok, cmCols = cols, cmRows = rows, cmSignal = sig, cmDetach = det,
          cmExitCode = code, cmStatus = st, cmError = e\<rparr>))))))))))"

definition decode_control :: "json \<Rightarrow> wire_error + controlMessage" where
  "decode_control v = (case v of JObj fs \<Rightarrow> unmarshal_control fs | JNull \<Rightarrow> unmarshal_control [] | _ \<Rightarrow> Inl BadType)"

section \<open>Errors\<close>

text \<open>Errors as the server tells them apart: the end of a stream, an error of the service, any other with its text.\<close>

datatype iq_err = StreamEOF | OfService svc_error | OtherErr string

definition isIgnorableInteractiveResizeErr :: "svc_error \<Rightarrow> bool" where
  "isIgnorableInteractiveResizeErr e = (e = ResizeUnsupported)"

definition isRetryableInteractiveStdinErr :: "iq_err \<Rightarrow> bool" where
  "isRetryableInteractiveStdinErr e = (e = OfService StdinUnsupported)"

definition shouldFailInteractiveOnStdinErr :: "iq_err option \<Rightarrow> bool" where
  "shouldFailInteractiveOnStdinErr e =
     (case e of None \<Rightarrow> False | Some x \<Rightarrow> x \<noteq> StreamEOF \<and> \<not> isRetryableInteractiveStdinErr x)"

datatype accept_err = AcceptCanceled | AcceptServerClosed | AcceptNetClosed | AcceptOther string

definition isInteractiveAcceptClosedErr :: "accept_err option \<Rightarrow> bool" where
  "isInteractiveAcceptClosedErr e =
     (case e of None \<Rightarrow> False | Some x \<Rightarrow> x = AcceptCanceled \<or> x = AcceptServerClosed \<or> x = AcceptNetClosed)"

text \<open>\<open>serve\<close>: what \<open>Accept\<close> gives, turn by turn, with whether the context is done; the connections that are handled.\<close>

fun serve :: "((accept_err + 'c) \<times> bool) list \<Rightarrow> 'c list" where
  "serve [] = []"
| "serve ((Inl e, ctxDone) # rest) = (if isInteractiveAcceptClosedErr (Some e) \<or> ctxDone then [] else serve rest)"
| "serve ((Inr conn, ctxDone) # rest) = conn # serve rest"

section \<open>A connection of the server\<close>

text \<open>The calls a connection makes on the control service.\<close>

datatype svc_call =
    CallConsume string string
  | CallResize string string "32 word" "32 word"
  | CallSubscribe string string
  | CallStdin string string string
  | CallCancel string string int
  | CallUnsubscribe string string
  | CallRelease string string

text \<open>
  Where the main goroutine is: before the hello, after the session was consumed, before the subscription, in the loop, or at its end
  (\<open>True\<close> when the connection is left to the client to close). The readers are reading, have put an error into their channel, or the
  main loop has taken it.
\<close>

datatype phase = Accepting | Consumed | Opened | Serving | Ended bool

datatype reader = Idle | Reading | Reported "iq_err option" | Silent

record conn =
  cnPhase :: phase
  cnSession :: "InteractiveSession option"
  cnSub :: "int option"
  cnControl :: reader
  cnStdin :: reader
  cnSent :: "controlMessage list"
  cnPTY :: string
  cnEvents :: "ExecutionStreamEvent list"
  cnCalls :: "svc_call list"

definition new_conn :: conn where
  "new_conn = \<lparr>cnPhase = Accepting, cnSession = None, cnSub = None, cnControl = Idle, cnStdin = Idle, cnSent = [], cnPTY = [], cnEvents = [], cnCalls = []\<rparr>"

definition sendControl :: "controlMessage \<Rightarrow> conn \<Rightarrow> conn" where
  "sendControl m c = c\<lparr>cnSent := cnSent c @ [m]\<rparr>"

definition called :: "svc_call \<Rightarrow> conn \<Rightarrow> conn" where
  "called x c = c\<lparr>cnCalls := cnCalls c @ [x]\<rparr>"

definition send_error :: "string \<Rightarrow> conn \<Rightarrow> conn" where
  "send_error e = sendControl ((control controlTypeError)\<lparr>cmError := e\<rparr>)"

text \<open>The deferred calls at the end of \<open>handleConnection\<close>, the last first.\<close>

definition releaseInteractiveExecution :: "Service \<Rightarrow> conn \<Rightarrow> Service \<times> conn" where
  "releaseInteractiveExecution s c =
     (case cnSession c of
        None \<Rightarrow> (s, c)
      | Some se \<Rightarrow> (ReleaseInteractiveExecution (insSandboxID se) (insExecutionID se) s, called (CallRelease (insSandboxID se) (insExecutionID se)) c))"

definition unsubscribe :: "Service \<Rightarrow> conn \<Rightarrow> Service \<times> conn" where
  "unsubscribe s c =
     (case (cnSession c, cnSub c) of
        (Some se, Some i) \<Rightarrow>
          (unsubscribeExecution (trim_space (insSandboxID se)) (trim_space (insExecutionID se)) i s,
           (called (CallUnsubscribe (insSandboxID se) (insExecutionID se)) c)\<lparr>cnSub := None\<rparr>)
      | _ \<Rightarrow> (s, c))"

definition end_conn :: "bool \<Rightarrow> Service \<Rightarrow> conn \<Rightarrow> Service \<times> conn" where
  "end_conn graceful s c =
     (let (s, c) = unsubscribe s c; (s, c) = releaseInteractiveExecution s c in (s, c\<lparr>cnPhase := Ended graceful\<rparr>))"

text \<open>The first control message: \<open>Inl\<close> when it cannot be read; \<open>None\<close> when the control stream cannot be accepted.\<close>

definition conn_hello ::
  "(svc_error \<Rightarrow> string) \<Rightarrow> (nat \<Rightarrow> time) \<Rightarrow> (wire_error + controlMessage) option \<Rightarrow> Service \<Rightarrow> conn \<Rightarrow> Service \<times> conn" where
  "conn_hello errText clk frame s c =
     (case frame of
        None \<Rightarrow> end_conn False s c
      | Some (Inl _) \<Rightarrow> end_conn False s (send_error ''invalid hello frame'' c)
      | Some (Inr hello) \<Rightarrow>
          if cmType hello \<noteq> controlTypeHello then end_conn False s (send_error ''first control frame must be hello'' c)
          else
            (let c = called (CallConsume (cmSessionID hello) (cmSessionToken hello)) c in
             case ConsumeInteractiveSession clk (cmSessionID hello) (cmSessionToken hello) s of
               (s', Inl e) \<Rightarrow> end_conn False s' (send_error (errText e) c)
             | (s', Inr session) \<Rightarrow> (s', c\<lparr>cnSession := Some session, cnPhase := Consumed\<rparr>)))"

text \<open>\<open>applyInitialTTYSize\<close>; \<open>resized\<close> is the answer of \<open>ResizeExecutionTTY\<close>.\<close>

definition applyInitialTTYSize :: "svc_error option \<Rightarrow> conn \<Rightarrow> conn \<times> svc_error option" where
  "applyInitialTTYSize resized c =
     (case cnSession c of
        None \<Rightarrow> (c, None)
      | Some se \<Rightarrow>
          if insInitialCols se = 0 \<or> insInitialRows se = 0 then (c, None)
          else
            (called (CallResize (insSandboxID se) (insExecutionID se) (insInitialCols se) (insInitialRows se)) c,
             case resized of None \<Rightarrow> None | Some e \<Rightarrow> if isIgnorableInteractiveResizeErr e then None else Some e))"

text \<open>The rest of the handshake: the size of the terminal, the acknowledgement and the stream of the terminal.\<close>

definition conn_ready :: "(svc_error \<Rightarrow> string) \<Rightarrow> svc_error option \<Rightarrow> bool \<Rightarrow> bool \<Rightarrow> Service \<Rightarrow> conn \<Rightarrow> Service \<times> conn" where
  "conn_ready errText resized ackSent ptyOpened s c =
     (case applyInitialTTYSize resized c of
        (c, Some e) \<Rightarrow> end_conn False s (send_error (errText e) c)
      | (c, None) \<Rightarrow>
          (let c = sendControl (control controlTypeHelloAck) c in
           if \<not> ackSent then end_conn False s c
           else if \<not> ptyOpened then end_conn False s (send_error ''failed to open pty stream'' c)
           else (s, c\<lparr>cnPhase := Opened\<rparr>)))"

text \<open>\<open>forwardEventToPTY\<close>: whether the event is the exit. What the stream refuses is not reported.\<close>

definition event_bytes :: "ExecutionStreamEvent \<Rightarrow> string" where
  "event_bytes e = (case eePayload e of PStdout b \<Rightarrow> b | PStderr b \<Rightarrow> b | _ \<Rightarrow> [])"

definition event_exit :: "ExecutionStreamEvent \<Rightarrow> (int \<times> ExecutionStatus) option" where
  "event_exit e = (case eePayload e of PExit code st _ \<Rightarrow> Some (code, st) | _ \<Rightarrow> None)"

definition forwardEventToPTY :: "ExecutionStreamEvent \<Rightarrow> conn \<Rightarrow> conn \<times> bool" where
  "forwardEventToPTY e c = (c\<lparr>cnPTY := cnPTY c @ event_bytes e, cnEvents := cnEvents c @ [e]\<rparr>, event_exit e \<noteq> None)"

definition status_name :: "ExecutionStatus \<Rightarrow> string" where
  "status_name st = ''EXECUTION_STATUS_'' @
     (case st of EXECUTION_UNSPECIFIED \<Rightarrow> ''UNSPECIFIED'' | QUEUED \<Rightarrow> ''QUEUED'' | RUNNING \<Rightarrow> ''RUNNING'' | SUCCEEDED \<Rightarrow> ''SUCCEEDED''
      | FAILED \<Rightarrow> ''FAILED'' | CANCELED \<Rightarrow> ''CANCELED'' | TIMED_OUT \<Rightarrow> ''TIMED_OUT'')"

definition exit_message :: "ExecutionStreamEvent \<Rightarrow> controlMessage" where
  "exit_message e =
     (case event_exit e of
        None \<Rightarrow> (control controlTypeExit)\<lparr>cmStatus := status_name EXECUTION_UNSPECIFIED\<rparr>
      | Some (code, st) \<Rightarrow> (control controlTypeExit)\<lparr>cmExitCode := code, cmStatus := status_name st\<rparr>)"

text \<open>One event in the main goroutine: it goes on, or the exit ends the connection gracefully.\<close>

definition conn_event :: "ExecutionStreamEvent \<Rightarrow> Service \<Rightarrow> conn \<Rightarrow> Service \<times> conn" where
  "conn_event e s c =
     (case forwardEventToPTY e c of
        (c, False) \<Rightarrow> (s, c)
      | (c, True) \<Rightarrow> end_conn True s (sendControl (exit_message e) c))"

fun conn_events :: "ExecutionStreamEvent list \<Rightarrow> Service \<Rightarrow> conn \<Rightarrow> Service \<times> conn" where
  "conn_events [] s c = (s, c)"
| "conn_events (e # es) s c =
     (case conn_event e s c of (s, c) \<Rightarrow> if cnPhase c = Ended True then (s, c) else conn_events es s c)"

definition conn_subscribe :: "(svc_error \<Rightarrow> string) \<Rightarrow> Service \<Rightarrow> conn \<Rightarrow> Service \<times> conn" where
  "conn_subscribe errText s c =
     (case cnSession c of
        None \<Rightarrow> (s, c)
      | Some se \<Rightarrow>
          (let c = called (CallSubscribe (insSandboxID se) (insExecutionID se)) c in
           case SubscribeExecutionEvents (insSandboxID se) (insExecutionID se) s of
             (s', Inl e) \<Rightarrow> end_conn False s' (send_error (errText e) c)
           | (s', Inr (history, subID, live)) \<Rightarrow>
               conn_events history s' (c\<lparr>cnSub := Some subID, cnControl := Reading, cnStdin := Reading, cnPhase := Serving\<rparr>)))"

text \<open>
  The main loop takes one of what is ready: an error of a reader, an event of the channel (\<open>None\<close> when it is closed), the end of the
  execution with the events still in the channel, or the end of the server.
\<close>

datatype selected =
    SelControl
  | SelStdin
  | SelUpdate "ExecutionStreamEvent option"
  | SelDone "ExecutionStreamEvent list"
  | SelContext

definition err_text :: "(svc_error \<Rightarrow> string) \<Rightarrow> iq_err \<Rightarrow> string" where
  "err_text errText e = (case e of StreamEOF \<Rightarrow> ''EOF'' | OfService x \<Rightarrow> errText x | OtherErr t \<Rightarrow> t)"

definition conn_select :: "(svc_error \<Rightarrow> string) \<Rightarrow> selected \<Rightarrow> Service \<Rightarrow> conn \<Rightarrow> Service \<times> conn" where
  "conn_select errText sel s c =
     (case sel of
        SelControl \<Rightarrow>
          (case cnControl c of
             Reported e \<Rightarrow>
               (let c = c\<lparr>cnControl := Silent\<rparr> in
                case e of
                  None \<Rightarrow> end_conn False s c
                | Some x \<Rightarrow> if x = StreamEOF then end_conn False s c else end_conn False s (send_error (err_text errText x) c))
           | _ \<Rightarrow> (s, c))
      | SelStdin \<Rightarrow>
          (case cnStdin c of
             Reported e \<Rightarrow>
               (let c = c\<lparr>cnStdin := Silent\<rparr> in
                case e of
                  None \<Rightarrow> (s, c)
                | Some x \<Rightarrow> if shouldFailInteractiveOnStdinErr (Some x) then end_conn False s (send_error (err_text errText x) c) else (s, c))
           | _ \<Rightarrow> (s, c))
      | SelUpdate None \<Rightarrow> end_conn False s c
      | SelUpdate (Some e) \<Rightarrow> conn_event e s c
      | SelDone es \<Rightarrow>
          (case conn_events es s c of (s, c) \<Rightarrow> if cnPhase c = Ended True then (s, c) else end_conn False s c)
      | SelContext \<Rightarrow> end_conn False s c)"

section \<open>The readers\<close>

text \<open>
  One turn of \<open>readControlLoop\<close>: the message or the error of the decoder, the answer of \<open>ResizeExecutionTTY\<close>. The third part of
  the result is the execution whose run was cancelled, if any.
\<close>

definition control_cancel :: "(nat \<Rightarrow> time) \<Rightarrow> InteractiveSession \<Rightarrow> int \<Rightarrow> Service \<Rightarrow> conn \<Rightarrow> Service \<times> conn \<times> (svc_error + string list)" where
  "control_cancel clk se sig s c =
     (let c = called (CallCancel (insSandboxID se) (insExecutionID se) sig) c in
      case CancelExecution clk (Some (insSandboxID se, insExecutionID se)) sig s of
        (s', Inl e) \<Rightarrow> (s', c, Inl e)
      | (s', Inr (rsp, call)) \<Rightarrow>
          (s', c, Inr (if call then [executionKey (trim_space (insSandboxID se)) (trim_space (insExecutionID se))] else [])))"

definition readControl :: "(nat \<Rightarrow> time) \<Rightarrow> iq_err + controlMessage \<Rightarrow> svc_error option \<Rightarrow> Service \<Rightarrow> conn \<Rightarrow> Service \<times> conn \<times> string list" where
  "readControl clk frame resized s c =
     (case cnSession c of
        None \<Rightarrow> (s, c, [])
      | Some se \<Rightarrow>
          (case frame of
             Inl e \<Rightarrow> (s, c\<lparr>cnControl := Reported (Some e)\<rparr>, [])
           | Inr msg \<Rightarrow>
               if cmType msg = controlTypeResize then
                 (let c = called (CallResize (insSandboxID se) (insExecutionID se) (cmCols msg) (cmRows msg)) c in
                  case resized of
                    None \<Rightarrow> (s, c, [])
                  | Some e \<Rightarrow> if isIgnorableInteractiveResizeErr e then (s, c, []) else (s, c\<lparr>cnControl := Reported (Some (OfService e))\<rparr>, []))
               else if cmType msg = controlTypeSignal then
                 (case control_cancel clk se (cmSignal msg) s c of
                    (s, c, Inl e) \<Rightarrow> (s, c\<lparr>cnControl := Reported (Some (OfService e))\<rparr>, [])
                  | (s, c, Inr ks) \<Rightarrow> (s, c, ks))
               else if cmType msg = controlTypeClose then
                 (if cmDetach msg then (s, c\<lparr>cnControl := Reported None\<rparr>, [])
                  else
                    (case control_cancel clk se 2 s c of
                       (s, c, Inl e) \<Rightarrow> (s, c\<lparr>cnControl := Reported (Some (OfService e))\<rparr>, [])
                     | (s, c, Inr ks) \<Rightarrow> (s, c\<lparr>cnControl := Reported None\<rparr>, ks)))
               else if cmType msg = controlTypeStdinEOF then (s, c, [])
               else (s, c\<lparr>cnControl := Reported (Some (OtherErr ''unsupported control frame''))\<rparr>, [])))"

text \<open>
  \<open>writeInteractiveStdinWithRetry\<close>: the answers of \<open>WriteExecutionStdin\<close>, turn by turn, each with whether the server's context is done
  before the next turn. \<open>None\<close> is a loop that is still trying at the end of the list.
\<close>

fun writeInteractiveStdinWithRetry :: "string \<Rightarrow> (svc_error option \<times> bool) list \<Rightarrow> iq_err option option" where
  "writeInteractiveStdinWithRetry payload [] = (if payload = [] then Some None else None)"
| "writeInteractiveStdinWithRetry payload ((answer, ctxDone) # rest) =
     (if payload = [] then Some None
      else
        (case answer of
           None \<Rightarrow> Some None
         | Some e \<Rightarrow>
             if \<not> isRetryableInteractiveStdinErr (OfService e) then Some (Some (OfService e))
             else if ctxDone then Some (Some StreamEOF)
             else writeInteractiveStdinWithRetry payload rest))"

text \<open>One turn of \<open>readStdinLoop\<close>: what a read of the stream gave, and the outcome of the write.\<close>

definition readStdin :: "string \<Rightarrow> iq_err option \<Rightarrow> iq_err option \<Rightarrow> conn \<Rightarrow> conn" where
  "readStdin payload err writeErr c =
     (case cnSession c of
        None \<Rightarrow> c
      | Some se \<Rightarrow>
          (let c = (if payload \<noteq> [] then called (CallStdin (insSandboxID se) (insExecutionID se) payload) c else c) in
           if payload \<noteq> [] \<and> writeErr \<noteq> None then c\<lparr>cnStdin := Reported writeErr\<rparr>
           else if err \<noteq> None then c\<lparr>cnStdin := Reported err\<rparr>
           else c))"

section \<open>The system of a connection and the control service\<close>

definition in_service :: "Service \<Rightarrow> string list \<Rightarrow> sys \<Rightarrow> sys" where
  "in_service s ks x = x\<lparr>sysService := s, sysCancels := ks @ sysCancels x\<rparr>"

inductive iq_step :: "(svc_error \<Rightarrow> string) \<Rightarrow> sys \<times> conn \<Rightarrow> sys \<times> conn \<Rightarrow> bool" for errText where
  service: "sys_step x y \<Longrightarrow> iq_step errText (x, c) (y, c)"
| hello: "cnPhase c = Accepting \<Longrightarrow> conn_hello errText clk frame (sysService x) c = (s', c') \<Longrightarrow>
    iq_step errText (x, c) (in_service s' [] x, c')"
| ready: "cnPhase c = Consumed \<Longrightarrow> conn_ready errText resized ackSent ptyOpened (sysService x) c = (s', c') \<Longrightarrow>
    iq_step errText (x, c) (in_service s' [] x, c')"
| subscribe: "cnPhase c = Opened \<Longrightarrow> conn_subscribe errText (sysService x) c = (s', c') \<Longrightarrow>
    iq_step errText (x, c) (in_service s' [] x, c')"
| select: "cnPhase c = Serving \<Longrightarrow> conn_select errText sel (sysService x) c = (s', c') \<Longrightarrow>
    iq_step errText (x, c) (in_service s' [] x, c')"
| control: "cnControl c = Reading \<Longrightarrow> readControl clk frame resized (sysService x) c = (s', c', ks) \<Longrightarrow>
    iq_step errText (x, c) (in_service s' ks x, c')"
| stdin: "cnStdin c = Reading \<Longrightarrow> writeInteractiveStdinWithRetry payload turns = Some writeErr \<Longrightarrow>
    iq_step errText (x, c) (x, readStdin payload err writeErr c)"

inductive iq_reach :: "(svc_error \<Rightarrow> string) \<Rightarrow> sys \<Rightarrow> conn \<Rightarrow> bool" for errText where
  start: "reachable x \<Longrightarrow> iq_reach errText x new_conn"
| step: "iq_reach errText x c \<Longrightarrow> iq_step errText (x, c) (y, c') \<Longrightarrow> iq_reach errText y c'"

end
