(* ===== verification/Interactive_Props.thy ===== *)
theory Interactive_Props
  imports Interactive Service_Props
begin

text \<open>
  What a connection of the interactive server does: it acts on the execution of the session it consumed and on no other, gives that
  execution back once, and passes the output on in the order of the events, up to the exit. Control messages survive the wire.
\<close>

section \<open>Control messages\<close>

lemma field_Nil [simp]: "field [] name into d = Inr d"
  by (simp add: field_def)

lemma field_Cons: "field ((k, v) # fs) name into d =
    (if to_lower k \<noteq> to_lower name then field fs name into d
     else case into v d of Inr d' \<Rightarrow> field fs name into d' | Inl e \<Rightarrow> field ((k, v) # fs) name into d)"
  by (simp add: field_def split: sum.splits)

lemma field_omit:
  "field (omit_empty b k v @ fs) name into d =
    (if b \<or> to_lower k \<noteq> to_lower name then field fs name into d
     else case into v d of Inr d' \<Rightarrow> field fs name into d' | Inl e \<Rightarrow> field ((k, v) # fs) name into d)"
  by (cases b) (simp_all add: omit_empty_def field_Cons)

lemma field_omit_last:
  "field (omit_empty b k v) name into d =
    (if b \<or> to_lower k \<noteq> to_lower name then Inr d else case into v d of Inr d' \<Rightarrow> Inr d' | Inl e \<Rightarrow> field [(k, v)] name into d)"
  using field_omit [of b k v "[]" name into d] by (simp split: sum.splits)

lemma control_lower:
  "to_lower ''type'' = ''type''" "to_lower ''session_id'' = ''session_id''" "to_lower ''session_token'' = ''session_token''"
  "to_lower ''cols'' = ''cols''" "to_lower ''rows'' = ''rows''" "to_lower ''signal'' = ''signal''" "to_lower ''detach'' = ''detach''"
  "to_lower ''exit_code'' = ''exit_code''" "to_lower ''status'' = ''status''" "to_lower ''error'' = ''error''"
  by code_simp+

definition control_ok :: "controlMessage \<Rightarrow> bool" where
  "control_ok m = (- (2 ^ 31) \<le> cmSignal m \<and> cmSignal m < 2 ^ 31 \<and> - (2 ^ 31) \<le> cmExitCode m \<and> cmExitCode m < 2 ^ 31)"

text \<open>A control message that is sent is read as it was sent, in both directions: all ten fields, omitted or not, come back.\<close>

theorem control_roundtrip:
  assumes "control_ok m"
  shows "decode_control (encode_control m) = Inr m"
proof -
  have nums: "into_int32 (JNum (cmSignal m)) 0 = Inr (cmSignal m)" "into_int32 (JNum (cmExitCode m)) 0 = Inr (cmExitCode m)"
    using assms by (simp_all add: control_ok_def into_int32_def)
  have words: "into_uint32 (JNum (uint w)) 0 = Inr w" for w :: "32 word"
    using uint_lt2p [of w] by (simp add: into_uint32_def)
  have others: "into_string (JStr x) [] = Inr x" "into_bool (JBool b) False = Inr b" for x b
    by (simp_all add: into_string_def into_bool_def)
  obtain fs where fs: "encode_control m = JObj fs" by (simp add: encode_control_def)
  note eval = encode_control_def field_Cons field_omit field_omit_last control_lower nums words others
  have f: "field fs ''type'' into_string [] = Inr (cmType m)" "field fs ''session_id'' into_string [] = Inr (cmSessionID m)"
    "field fs ''session_token'' into_string [] = Inr (cmSessionToken m)" "field fs ''cols'' into_uint32 0 = Inr (cmCols m)"
    "field fs ''rows'' into_uint32 0 = Inr (cmRows m)" "field fs ''signal'' into_int32 0 = Inr (cmSignal m)"
    "field fs ''detach'' into_bool False = Inr (cmDetach m)" "field fs ''exit_code'' into_int32 0 = Inr (cmExitCode m)"
    "field fs ''status'' into_string [] = Inr (cmStatus m)" "field fs ''error'' into_string [] = Inr (cmError m)"
    using fs by (auto simp: eval)
  show ?thesis by (simp add: decode_control_def fs unmarshal_control_def f)
qed

theorem control_roundtrip_witness:
  "decode_control (encode_control ((control controlTypeSignal)\<lparr>cmSignal := 15\<rparr>)) = Inr ((control controlTypeSignal)\<lparr>cmSignal := 15\<rparr>)"
  by (rule control_roundtrip) (simp add: control_ok_def control_def)

section \<open>The end of a connection\<close>

definition end_calls :: "conn \<Rightarrow> svc_call list" where
  "end_calls c =
     (case cnSession c of
        None \<Rightarrow> []
      | Some se \<Rightarrow>
          (if cnSub c = None then [] else [CallUnsubscribe (insSandboxID se) (insExecutionID se)]) @ [CallRelease (insSandboxID se) (insExecutionID se)])"

lemma end_conn_conn:
  "snd (end_conn g s c) =
     c\<lparr>cnPhase := Ended g, cnSub := (if cnSession c = None then cnSub c else None), cnCalls := cnCalls c @ end_calls c\<rparr>"
  by (auto simp: end_conn_def unsubscribe_def releaseInteractiveExecution_def called_def end_calls_def Let_def split: option.splits prod.splits)

lemma end_connD:
  "end_conn g s c = (s', c') \<Longrightarrow> c' = c\<lparr>cnPhase := Ended g, cnSub := (if cnSession c = None then cnSub c else None), cnCalls := cnCalls c @ end_calls c\<rparr>"
  using end_conn_conn [of g s c] by simp

text \<open>The steps of a connection are steps of the control service, so the system stays in its reachable states.\<close>

lemma in_service_local: "reachable x \<Longrightarrow> local_step (sysService x) s' \<Longrightarrow> reachable (in_service s' [] x)"
  using reachable.step [OF _ sys_step.local] by (simp add: in_service_def)

lemma in_service_twice [simp]: "in_service s2 [] (in_service s1 ks x) = in_service s2 ks x"
  by (simp add: in_service_def)

lemma in_service_same [simp]: "in_service (sysService x) [] x = x"
  by (simp add: in_service_def)

lemma in_service_get [simp]: "sysService (in_service s ks x) = s"
  by (simp add: in_service_def)

lemma end_conn_reach:
  assumes "reachable (in_service s ks x)" "end_conn g s c = (s', c')"
  shows "reachable (in_service s' ks x)"
proof -
  obtain s1 c1 where u: "unsubscribe s c = (s1, c1)" by fastforce
  have "s1 = s \<or> (\<exists>a b i. s1 = unsubscribeExecution a b i s)"
    using u by (auto simp: unsubscribe_def split: option.splits)
  then have r1: "reachable (in_service s1 ks x)"
    using in_service_local [OF assms(1), of s1] local_step.unsubscribe_execution [of s] assms(1) by (elim disjE exE) simp_all
  have "s' = s1 \<or> (\<exists>a b. s' = ReleaseInteractiveExecution a b s1)"
    using assms(2) u by (auto simp: end_conn_def releaseInteractiveExecution_def split: option.splits)
  then show ?thesis
    using in_service_local [OF r1, of s'] local_step.release [of s1] r1 by (elim disjE exE) simp_all
qed

lemma conn_event_reach:
  assumes "reachable (in_service s ks x)" "conn_event e s c = (s', c')"
  shows "reachable (in_service s' ks x)"
  using assms end_conn_reach by (auto simp: conn_event_def split: prod.splits bool.splits)

lemma conn_events_reach:
  "reachable (in_service s ks x) \<Longrightarrow> conn_events es s c = (s', c') \<Longrightarrow> reachable (in_service s' ks x)"
proof (induction es arbitrary: s c)
  case (Cons e es)
  obtain s1 c1 where e: "conn_event e s c = (s1, c1)" by fastforce
  note r1 = conn_event_reach [OF Cons.prems(1) e]
  show ?case using Cons.prems(2) Cons.IH [OF r1] r1 by (auto simp: e split: if_splits)
qed simp

lemma conn_hello_reach:
  assumes "reachable x" "conn_hello errText clk frame (sysService x) c = (s', c')"
  shows "reachable (in_service s' [] x)"
proof -
  have r: "reachable (in_service (sysService x) [] x)" using assms(1) by simp
  obtain i t s1 res where cons: "i = (case frame of Some (Inr h) \<Rightarrow> cmSessionID h | _ \<Rightarrow> [])" "t = (case frame of Some (Inr h) \<Rightarrow> cmSessionToken h | _ \<Rightarrow> [])"
    "ConsumeInteractiveSession clk i t (sysService x) = (s1, res)" by (metis surj_pair)
  have "s1 = fst (ConsumeInteractiveSession clk i t (sysService x))" using cons(3) by simp
  then have r1: "reachable (in_service s1 [] x)" using in_service_local [OF assms(1)] local_step.consume by simp
  show ?thesis
    using assms(2) cons end_conn_reach [OF r] end_conn_reach [OF r1] r1
    by (cases res) (auto simp: conn_hello_def Let_def split: option.splits sum.splits if_splits)
qed

lemma conn_ready_reach:
  assumes "reachable x" "conn_ready errText resized ackSent ptyOpened (sysService x) c = (s', c')"
  shows "reachable (in_service s' [] x)"
proof -
  have r: "reachable (in_service (sysService x) [] x)" using assms(1) by simp
  show ?thesis using assms r end_conn_reach [OF r] by (auto simp: conn_ready_def Let_def split: prod.splits option.splits if_splits)
qed

lemma conn_subscribe_reach:
  assumes "reachable x" "conn_subscribe errText (sysService x) c = (s', c')"
  shows "reachable (in_service s' [] x)"
proof (cases "cnSession c")
  case None
  then show ?thesis using assms by (auto simp: conn_subscribe_def)
next
  case (Some se)
  obtain s1 res where sub: "SubscribeExecutionEvents (insSandboxID se) (insExecutionID se) (sysService x) = (s1, res)" by fastforce
  then have "s1 = fst (SubscribeExecutionEvents (insSandboxID se) (insExecutionID se) (sysService x))" by simp
  then have r1: "reachable (in_service s1 [] x)" using in_service_local [OF assms(1)] local_step.subscribe_execution by simp
  show ?thesis
    using assms(2) Some sub end_conn_reach [OF r1] conn_events_reach [OF r1]
    by (cases res) (auto simp: conn_subscribe_def Let_def split: prod.splits)
qed

lemma conn_select_reach:
  assumes "reachable x" "conn_select errText sel (sysService x) c = (s', c')"
  shows "reachable (in_service s' [] x)"
proof -
  have r: "reachable (in_service (sysService x) [] x)" using assms(1) by simp
  show ?thesis
  proof (cases sel)
    case (SelDone es)
    obtain s1 c1 where e: "conn_events es (sysService x) c = (s1, c1)" by fastforce
    note r1 = conn_events_reach [OF r e]
    show ?thesis using assms(2) r1 end_conn_reach [OF r1] by (auto simp: conn_select_def SelDone e split: if_splits)
  qed (use assms r end_conn_reach [OF r] conn_event_reach [OF r] in
      \<open>auto simp: conn_select_def Let_def split: reader.splits option.splits if_splits\<close>)
qed

lemma control_cancel_reach:
  assumes "reachable x" "control_cancel clk se sig (sysService x) c = (s', c', r)"
  shows "reachable (in_service s' (case r of Inl _ \<Rightarrow> [] | Inr ks \<Rightarrow> ks) x)"
proof -
  obtain s1 res where c: "CancelExecution clk (Some (insSandboxID se, insExecutionID se)) sig (sysService x) = (s1, res)" by fastforce
  show ?thesis
  proof (cases res)
    case (Inl e)
    then show ?thesis
      using assms(2) c reachable.step [OF assms(1) sys_step.cancel_refused [OF c [unfolded Inl]]] by (auto simp: control_cancel_def Let_def in_service_def)
  next
    case (Inr q)
    obtain rsp call where q: "q = (rsp, call)" by fastforce
    show ?thesis
      using assms(2) c reachable.step [OF assms(1) sys_step.cancel [OF c [unfolded Inr q]]]
      by (auto simp: control_cancel_def Let_def in_service_def Inr q split: if_splits)
  qed
qed

lemma readControl_reach:
  assumes "reachable x" "readControl clk frame resized (sysService x) c = (s', c', ks)"
  shows "reachable (in_service s' ks x)"
proof (cases "\<exists>se msg. cnSession c = Some se \<and> frame = Inr msg \<and> (cmType msg = controlTypeSignal \<or> cmType msg = controlTypeClose \<and> \<not> cmDetach msg)")
  case True
  then obtain se msg where m: "cnSession c = Some se" "frame = Inr msg" "cmType msg = controlTypeSignal \<or> cmType msg = controlTypeClose \<and> \<not> cmDetach msg" by blast
  obtain sig where sig: "sig = (if cmType msg = controlTypeSignal then cmSignal msg else 2)" by simp
  obtain s1 c1 res where cc: "control_cancel clk se sig (sysService x) c = (s1, c1, res)" by (metis surj_pair)
  have "s' = s1" "ks = (case res of Inl _ \<Rightarrow> [] | Inr ks \<Rightarrow> ks)"
    using assms(2) m sig cc by (auto simp: readControl_def control_types split: sum.splits if_splits)
  then show ?thesis using control_cancel_reach [OF assms(1) cc] by simp
next
  case False
  then have "s' = sysService x \<and> ks = []"
    using assms(2) by (auto simp: readControl_def Let_def split: option.splits sum.splits if_splits)
  then show ?thesis using assms(1) by simp
qed

lemma iq_step_reach: "iq_step errText (x, c) (y, c') \<Longrightarrow> reachable x \<Longrightarrow> reachable y"
  by (erule iq_step.cases)
    (auto intro: reachable.step conn_hello_reach conn_ready_reach conn_subscribe_reach conn_select_reach readControl_reach)

lemma iq_reach_service: "iq_reach errText x c \<Longrightarrow> reachable x"
  by (induction rule: iq_reach.induct) (auto dest: iq_step_reach)

section \<open>The calls of a connection\<close>

text \<open>Whether a call is about the execution of a session, and the calls that give it back.\<close>

fun about :: "InteractiveSession \<Rightarrow> svc_call \<Rightarrow> bool" where
  "about se (CallConsume _ _) = False"
| "about se (CallResize a b _ _) = (a = insSandboxID se \<and> b = insExecutionID se)"
| "about se (CallSubscribe a b) = (a = insSandboxID se \<and> b = insExecutionID se)"
| "about se (CallStdin a b _) = (a = insSandboxID se \<and> b = insExecutionID se)"
| "about se (CallCancel a b _) = (a = insSandboxID se \<and> b = insExecutionID se)"
| "about se (CallUnsubscribe a b) = (a = insSandboxID se \<and> b = insExecutionID se)"
| "about se (CallRelease a b) = (a = insSandboxID se \<and> b = insExecutionID se)"

fun is_release :: "svc_call \<Rightarrow> bool" where
  "is_release (CallRelease _ _) = True"
| "is_release _ = False"

definition ended :: "conn \<Rightarrow> bool" where
  "ended c = (\<exists>g. cnPhase c = Ended g)"

lemma ended_simps [simp]:
  "cnPhase c = Ended g \<Longrightarrow> ended c" "cnPhase c = Accepting \<Longrightarrow> \<not> ended c" "cnPhase c = Consumed \<Longrightarrow> \<not> ended c"
  "cnPhase c = Opened \<Longrightarrow> \<not> ended c" "cnPhase c = Serving \<Longrightarrow> \<not> ended c"
  by (simp_all add: ended_def)

definition calls_ok :: "InteractiveSession \<Rightarrow> bool \<Rightarrow> svc_call list \<Rightarrow> bool" where
  "calls_ok se over calls =
     (\<exists>i t rest. calls = CallConsume i t # rest \<and> (\<forall>x \<in> set rest. about se x) \<and> length (filter is_release rest) = (if over then 1 else 0))"

lemma calls_ok_append: "calls_ok se False calls \<Longrightarrow> about se x \<Longrightarrow> calls_ok se (is_release x) (calls @ [x])"
  by (auto simp: calls_ok_def)

lemma calls_ok_more: "calls_ok se over calls \<Longrightarrow> about se x \<Longrightarrow> \<not> is_release x \<Longrightarrow> calls_ok se over (calls @ [x])"
  by (auto simp: calls_ok_def)

definition refused :: "conn \<Rightarrow> bool" where
  "refused c =
     (cnSub c = None \<and> cnControl c = Idle \<and> cnStdin c = Idle \<and> cnEvents c = [] \<and> cnPTY c = [] \<and>
      (\<forall>m \<in> set (cnSent c). cmType m = controlTypeError) \<and>
      (if cnPhase c = Accepting then cnCalls c = [] \<and> cnSent c = []
       else cnPhase c = Ended False \<and> (cnCalls c = [] \<or> (\<exists>i t. cnCalls c = [CallConsume i t]))))"

definition call_inv :: "conn \<Rightarrow> bool" where
  "call_inv c =
     (case cnSession c of
        None \<Rightarrow> refused c
      | Some se \<Rightarrow> cnPhase c \<noteq> Accepting \<and> calls_ok se (ended c) (cnCalls c))"

lemma call_inv_Some: "cnSession c = Some se \<Longrightarrow> call_inv c \<longleftrightarrow> cnPhase c \<noteq> Accepting \<and> calls_ok se (ended c) (cnCalls c)"
  by (simp add: call_inv_def)

lemma end_calls_ok: "cnSession c = Some se \<Longrightarrow> calls_ok se False (cnCalls c) \<Longrightarrow> calls_ok se True (cnCalls c @ end_calls c)"
  by (auto simp: calls_ok_def end_calls_def)

lemma call_inv_end:
  assumes "cnSession c = Some se" "calls_ok se False (cnCalls c)" "end_conn g s c = (s', c')"
  shows "call_inv c' \<and> cnSession c' = Some se"
  using assms end_calls_ok [OF assms(1,2)] by (simp add: end_connD [OF assms(3)] call_inv_def ended_def)

lemma call_inv_over: "end_conn g s c = (s', c') \<Longrightarrow> cnSession c = Some se \<Longrightarrow> calls_ok se False (cnCalls c) \<Longrightarrow> call_inv c'"
  using call_inv_end by blast

lemma send_error_simps [simp]:
  "cnSession (send_error t c) = cnSession c" "cnCalls (send_error t c) = cnCalls c" "cnPhase (send_error t c) = cnPhase c"
  "cnSub (send_error t c) = cnSub c" "cnControl (send_error t c) = cnControl c" "cnStdin (send_error t c) = cnStdin c"
  "cnEvents (send_error t c) = cnEvents c" "cnPTY (send_error t c) = cnPTY c"
  "cnSent (send_error t c) = cnSent c @ [(control controlTypeError)\<lparr>cmError := t\<rparr>]"
  by (simp_all add: send_error_def sendControl_def)

lemma sendControl_simps [simp]:
  "cnSession (sendControl m c) = cnSession c" "cnCalls (sendControl m c) = cnCalls c" "cnPhase (sendControl m c) = cnPhase c"
  "cnSub (sendControl m c) = cnSub c" "cnControl (sendControl m c) = cnControl c" "cnStdin (sendControl m c) = cnStdin c"
  "cnEvents (sendControl m c) = cnEvents c" "cnPTY (sendControl m c) = cnPTY c" "cnSent (sendControl m c) = cnSent c @ [m]"
  by (simp_all add: sendControl_def)

lemma called_simps [simp]:
  "cnSession (called x c) = cnSession c" "cnCalls (called x c) = cnCalls c @ [x]" "cnPhase (called x c) = cnPhase c"
  "cnSub (called x c) = cnSub c" "cnControl (called x c) = cnControl c" "cnStdin (called x c) = cnStdin c"
  "cnEvents (called x c) = cnEvents c" "cnPTY (called x c) = cnPTY c" "cnSent (called x c) = cnSent c"
  by (simp_all add: called_def)

lemma call_inv_hello:
  assumes "call_inv c" "cnPhase c = Accepting" "conn_hello errText clk frame s c = (s', c')"
  shows "call_inv c'"
proof -
  have n: "cnSession c = None" "refused c" using assms(1,2) by (auto simp: call_inv_def split: option.splits)
  have empty: "cnCalls c = []" "cnSent c = []" using n(2) assms(2) by (simp_all add: refused_def)
  have refuse: "call_inv c'" if "end_conn False s1 c1 = (s', c')" "cnSession c1 = None" "refused (c1\<lparr>cnPhase := Ended False\<rparr>)" for s1 c1
    using that(2,3) end_connD [OF that(1)] by (auto simp: call_inv_def end_calls_def refused_def)
  have ref: "refused (c\<lparr>cnPhase := Ended False\<rparr>)" "refused ((send_error t c)\<lparr>cnPhase := Ended False\<rparr>)"
    "refused ((send_error t (called (CallConsume i k) c))\<lparr>cnPhase := Ended False\<rparr>)" for t i k
    using n(2) assms(2) empty by (auto simp: refused_def control_def)
  show ?thesis
    using assms(2,3) n(1) ref
    by (auto simp: conn_hello_def Let_def call_inv_def calls_ok_def empty split: option.splits sum.splits prod.splits if_splits dest!: refuse)
qed

lemma call_inv_ready:
  assumes "call_inv c" "cnPhase c = Consumed" "conn_ready errText resized ackSent ptyOpened s c = (s', c')"
  shows "call_inv c'"
proof -
  obtain se where se: "cnSession c = Some se" "calls_ok se False (cnCalls c)"
    using assms(1,2) by (auto simp: call_inv_def refused_def split: option.splits)
  obtain c1 e where a: "applyInitialTTYSize resized c = (c1, e)" by fastforce
  have c1: "cnSession c1 = Some se" "calls_ok se False (cnCalls c1)" "cnPhase c1 = Consumed"
    using a se assms(2) by (auto simp: applyInitialTTYSize_def split: if_splits intro!: calls_ok_more)
  show ?thesis
    using assms(3) c1 by (auto simp: conn_ready_def a Let_def call_inv_Some split: option.splits if_splits intro: call_inv_over [where se = se])
qed

lemma conn_event_calls:
  assumes "cnSession c = Some se" "calls_ok se False (cnCalls c)" "cnPhase c = Serving" "conn_event e s c = (s', c')"
  shows "call_inv c' \<and> cnSession c' = Some se \<and> (cnPhase c' = Serving \<or> cnPhase c' = Ended True)"
proof (cases "event_exit e")
  case None
  then show ?thesis using assms by (auto simp: conn_event_def forwardEventToPTY_def call_inv_def)
next
  case (Some x)
  then have e: "end_conn True s (sendControl (exit_message e) (fst (forwardEventToPTY e c))) = (s', c')"
    using assms(4) by (simp add: conn_event_def forwardEventToPTY_def)
  then show ?thesis using call_inv_end [OF _ _ e, of se] assms(1,2) end_connD [OF e] by (simp add: forwardEventToPTY_def)
qed

lemma conn_events_calls:
  assumes "cnSession c = Some se" "calls_ok se False (cnCalls c)" "cnPhase c = Serving" "conn_events es s c = (s', c')"
  shows "call_inv c' \<and> cnSession c' = Some se \<and> (cnPhase c' = Serving \<or> cnPhase c' = Ended True)"
  using assms
proof (induction es arbitrary: s c)
  case Nil
  then show ?case by (auto simp: call_inv_def)
next
  case (Cons e es)
  obtain s1 c1 where e: "conn_event e s c = (s1, c1)" by fastforce
  note c1 = conn_event_calls [OF Cons.prems(1-3) e]
  show ?case
  proof (cases "cnPhase c1 = Ended True")
    case True
    then show ?thesis using Cons.prems(4) c1 by (auto simp: e)
  next
    case False
    then have "calls_ok se False (cnCalls c1)" "cnPhase c1 = Serving" using c1 by (auto simp: call_inv_def)
    then show ?thesis using Cons.IH [of c1 s1] Cons.prems(4) c1 False by (simp add: e)
  qed
qed

lemma call_inv_subscribe:
  assumes "call_inv c" "cnPhase c = Opened" "conn_subscribe errText s c = (s', c')"
  shows "call_inv c'"
proof -
  obtain se where se: "cnSession c = Some se" "calls_ok se False (cnCalls c)"
    using assms(1,2) by (auto simp: call_inv_def refused_def split: option.splits)
  then have more: "calls_ok se False (cnCalls c @ [CallSubscribe (insSandboxID se) (insExecutionID se)])" by (intro calls_ok_more) simp_all
  obtain s1 res where sub: "SubscribeExecutionEvents (insSandboxID se) (insExecutionID se) s = (s1, res)" by fastforce
  show ?thesis
  proof (cases res)
    case (Inl e)
    then show ?thesis
      using assms(3) call_inv_end [of "send_error (errText e) (called (CallSubscribe (insSandboxID se) (insExecutionID se)) c)" se False s1 s' c'] se more
      by (simp add: conn_subscribe_def sub Let_def)
  next
    case (Inr q)
    obtain history subID live where q: "q = (history, subID, live)" by (metis surj_pair)
    show ?thesis
      using assms(3) conn_events_calls [of "(called (CallSubscribe (insSandboxID se) (insExecutionID se)) c)\<lparr>cnSub := Some subID, cnControl := Reading,
          cnStdin := Reading, cnPhase := Serving\<rparr>" se history s1 s' c'] se more
      by (simp add: conn_subscribe_def sub Inr q Let_def)
  qed
qed

lemma call_inv_select:
  assumes "call_inv c" "cnPhase c = Serving" "conn_select errText sel s c = (s', c')"
  shows "call_inv c'"
proof -
  obtain se where se: "cnSession c = Some se" "calls_ok se False (cnCalls c)"
    using assms(1,2) by (auto simp: call_inv_def refused_def split: option.splits)
  note over = call_inv_over [where se = se]
  have "call_inv (c\<lparr>cnStdin := r\<rparr>)" for r using assms(1,2) se by (simp add: call_inv_def ended_def)
  then show ?thesis
  proof (cases sel)
    case (SelUpdate e)
    then show ?thesis using assms se conn_event_calls [OF se assms(2)] by (auto simp: conn_select_def split: option.splits intro: over)
  next
    case (SelDone es)
    obtain s1 c1 where e: "conn_events es s c = (s1, c1)" by fastforce
    note c1 = conn_events_calls [OF se assms(2) e]
    then show ?thesis using assms(3) over [of False s1 c1 s' c'] by (auto simp: conn_select_def SelDone e call_inv_def split: if_splits)
  qed (use assms se in \<open>auto simp: conn_select_def Let_def split: reader.splits option.splits if_splits intro: over\<close>)
qed

text \<open>What a turn of the control reader changes of the connection: its own state, and at most one call more.\<close>

lemma control_cancel_conn: "control_cancel clk se sig s c = (s', c', r) \<Longrightarrow> c' = called (CallCancel (insSandboxID se) (insExecutionID se) sig) c"
  by (auto simp: control_cancel_def Let_def split: prod.splits sum.splits)

lemma readControl_conn:
  assumes "cnSession c = Some se" "readControl clk frame resized s c = (s', c', ks)"
  shows "\<exists>r calls. c' = c\<lparr>cnControl := r, cnCalls := cnCalls c @ calls\<rparr> \<and> (calls = [] \<or> (\<exists>x. calls = [x] \<and> about se x \<and> \<not> is_release x))"
proof -
  have quiet: ?thesis if "c' = c \<or> (\<exists>r. c' = c\<lparr>cnControl := r\<rparr>)"
    using that
  proof (elim disjE exE)
    assume "c' = c"
    then show ?thesis by (intro exI [of _ "cnControl c"] exI [of _ "[]"]) simp
  next
    fix r assume "c' = c\<lparr>cnControl := r\<rparr>"
    then show ?thesis by (intro exI [of _ r] exI [of _ "[]"]) simp
  qed
  have one: ?thesis if "c' = called x c \<or> (\<exists>r. c' = (called x c)\<lparr>cnControl := r\<rparr>)" "about se x" "\<not> is_release x" for x
    using that(1)
  proof (elim disjE exE)
    assume "c' = called x c"
    then show ?thesis using that(2,3) by (intro exI [of _ "cnControl c"] exI [of _ "[x]"]) (simp add: called_def)
  next
    fix r assume "c' = (called x c)\<lparr>cnControl := r\<rparr>"
    then show ?thesis using that(2,3) by (intro exI [of _ r] exI [of _ "[x]"]) (simp add: called_def)
  qed
  show ?thesis
  proof (cases frame)
    case (Inl e)
    then show ?thesis using assms by (intro quiet) (auto simp: readControl_def)
  next
    case (Inr msg)
    let ?sig = "if cmType msg = controlTypeSignal then cmSignal msg else 2"
    obtain s1 c1 res where cc: "control_cancel clk se ?sig s c = (s1, c1, res)" by (metis surj_pair)
    note c1 = control_cancel_conn [OF cc]
    consider (resize) "cmType msg = controlTypeResize" | (cancel) "cmType msg = controlTypeSignal \<or> cmType msg = controlTypeClose \<and> \<not> cmDetach msg"
      | (rest) "cmType msg \<noteq> controlTypeResize" "cmType msg \<noteq> controlTypeSignal" "cmType msg = controlTypeClose \<longrightarrow> cmDetach msg" by blast
    then show ?thesis
    proof cases
      case resize
      let ?x = "CallResize (insSandboxID se) (insExecutionID se) (cmCols msg) (cmRows msg)"
      have "c' = called ?x c \<or> (\<exists>r. c' = (called ?x c)\<lparr>cnControl := r\<rparr>)"
        using assms resize Inr by (auto simp: readControl_def Let_def split: option.splits if_splits)
      then show ?thesis by (rule one) simp_all
    next
      case cancel
      have "c' = c1 \<or> (\<exists>r. c' = c1\<lparr>cnControl := r\<rparr>)"
        using assms cancel Inr cc by (auto simp: readControl_def control_types split: sum.splits if_splits)
      then show ?thesis unfolding c1 by (rule one) simp_all
    next
      case rest
      have "c' = c \<or> (\<exists>r. c' = c\<lparr>cnControl := r\<rparr>)"
        using assms rest Inr by (auto simp: readControl_def split: if_splits)
      then show ?thesis by (rule quiet)
    qed
  qed
qed

lemma call_inv_control:
  assumes "call_inv c" "cnControl c = Reading" "readControl clk frame resized s c = (s', c', ks)"
  shows "call_inv c' \<and> cnSession c' = cnSession c \<and> cnPhase c' = cnPhase c"
proof -
  obtain se where se: "cnSession c = Some se" "calls_ok se (ended c) (cnCalls c)" "cnPhase c \<noteq> Accepting"
    using assms(1,2) by (auto simp: call_inv_def refused_def split: option.splits)
  have "cnPhase c' = cnPhase c \<and> cnSession c' = Some se \<and> (cnCalls c' = cnCalls c \<or> (\<exists>x. cnCalls c' = cnCalls c @ [x] \<and> about se x \<and> \<not> is_release x))"
    using readControl_conn [OF se(1) assms(3)] se(1) by auto
  then show ?thesis using se calls_ok_more by (auto simp: call_inv_def ended_def)
qed

lemma call_inv_stdin:
  assumes "call_inv c" "cnStdin c = Reading"
  shows "call_inv (readStdin payload err writeErr c)"
proof -
  obtain se where se: "cnSession c = Some se" "calls_ok se (ended c) (cnCalls c)" "cnPhase c \<noteq> Accepting"
    using assms by (auto simp: call_inv_def refused_def split: option.splits)
  have "calls_ok se (ended c) (cnCalls c @ [CallStdin (insSandboxID se) (insExecutionID se) payload])" using se(2) by (rule calls_ok_more) simp_all
  then show ?thesis using se by (auto simp: readStdin_def Let_def call_inv_def ended_def)
qed

lemma iq_step_calls: "iq_step errText (x, c) (y, c') \<Longrightarrow> call_inv c \<Longrightarrow> call_inv c'"
  by (erule iq_step.cases)
    (auto intro: call_inv_hello call_inv_ready call_inv_subscribe call_inv_select call_inv_stdin dest: call_inv_control)

lemma iq_reach_calls: "iq_reach errText x c \<Longrightarrow> call_inv c"
proof (induction rule: iq_reach.induct)
  case (start x)
  then show ?case by (simp add: new_conn_def call_inv_def refused_def)
next
  case (step x c y c')
  then show ?case using iq_step_calls by blast
qed

text \<open>C26. A connection acts on nothing but the execution of its own session. Before it has presented a session and its token it makes no
  call at all; if they are refused it has made that one call, has received nothing but an error and is closed. Once they are accepted,
  every further call on the control service names the sandbox and the execution of that session, and the execution is given
  back exactly once, when the connection ends. Throughout, the control service stays in states it can reach by its own steps.\<close>

theorem connection_confined:
  assumes "iq_reach errText x c"
  shows "reachable x \<and>
    (case cnSession c of
       None \<Rightarrow> (\<forall>m \<in> set (cnSent c). cmType m = controlTypeError) \<and> cnPTY c = [] \<and>
         (cnCalls c = [] \<or> ended c \<and> (\<exists>i t. cnCalls c = [CallConsume i t]))
     | Some se \<Rightarrow> \<exists>i t rest. cnCalls c = CallConsume i t # rest \<and> (\<forall>x \<in> set rest. about se x) \<and>
         length (filter is_release rest) = (if ended c then 1 else 0))"
  using iq_reach_service [OF assms] iq_reach_calls [OF assms]
  by (auto simp: call_inv_def refused_def calls_ok_def ended_def split: option.splits if_splits)

section \<open>The terminal's output\<close>

definition output_inv :: "conn \<Rightarrow> bool" where
  "output_inv c =
     (cnPTY c = concat (map event_bytes (cnEvents c)) \<and>
      (if cnPhase c = Ended True
       then \<exists>es e. cnEvents c = es @ [e] \<and> (\<forall>x \<in> set es. event_exit x = None) \<and> event_exit e \<noteq> None \<and>
              filter (\<lambda>m. cmType m = controlTypeExit) (cnSent c) = [exit_message e]
       else (\<forall>x \<in> set (cnEvents c). event_exit x = None) \<and> filter (\<lambda>m. cmType m = controlTypeExit) (cnSent c) = []))"

lemma exit_message_type [simp]: "cmType (exit_message e) = controlTypeExit"
  by (simp add: exit_message_def control_def split: option.splits prod.splits)

lemma output_inv_cong:
  assumes "output_inv c" "cnPTY c' = cnPTY c" "cnEvents c' = cnEvents c" "cnPhase c' = cnPhase c" "cnSent c' = cnSent c"
  shows "output_inv c'"
  using assms(1) unfolding output_inv_def assms(2-) .

definition same_output :: "conn \<Rightarrow> conn \<Rightarrow> bool" where
  "same_output c c' =
     (cnEvents c' = cnEvents c \<and> cnPTY c' = cnPTY c \<and> cnPhase c' \<noteq> Ended True \<and>
      filter (\<lambda>m. cmType m = controlTypeExit) (cnSent c') = filter (\<lambda>m. cmType m = controlTypeExit) (cnSent c))"

lemma same_outputD: "output_inv c \<Longrightarrow> cnPhase c \<noteq> Ended True \<Longrightarrow> same_output c c' \<Longrightarrow> output_inv c'"
  by (simp add: output_inv_def same_output_def)

lemma same_output_end: "end_conn False s c = (s', c') \<Longrightarrow> same_output c c'"
  by (auto simp: same_output_def dest: end_connD)

lemma same_output_error: "end_conn False s (send_error t c) = (s', c') \<Longrightarrow> same_output c c'"
  by (auto simp: same_output_def control_def control_types dest: end_connD)

lemma output_inv_end:
  "output_inv c \<Longrightarrow> cnPhase c \<noteq> Ended True \<Longrightarrow> end_conn False s c = (s', c') \<Longrightarrow> output_inv c'"
  using same_outputD same_output_end by blast

lemma output_inv_event:
  assumes "output_inv c" "cnPhase c = Serving" "conn_event e s c = (s', c')"
  shows "output_inv c' \<and> (cnPhase c' = Serving \<or> cnPhase c' = Ended True)"
proof (cases "event_exit e")
  case None
  then show ?thesis using assms by (auto simp: conn_event_def forwardEventToPTY_def output_inv_def)
next
  case (Some x)
  then have e: "end_conn True s (sendControl (exit_message e) (fst (forwardEventToPTY e c))) = (s', c')"
    using assms(3) by (simp add: conn_event_def forwardEventToPTY_def)
  show ?thesis using assms(1,2) Some by (simp add: end_connD [OF e] output_inv_def forwardEventToPTY_def)
qed

lemma output_inv_events:
  "output_inv c \<Longrightarrow> cnPhase c = Serving \<Longrightarrow> conn_events es s c = (s', c') \<Longrightarrow> output_inv c' \<and> (cnPhase c' = Serving \<or> cnPhase c' = Ended True)"
proof (induction es arbitrary: s c)
  case (Cons e es)
  obtain s1 c1 where e: "conn_event e s c = (s1, c1)" by fastforce
  note c1 = output_inv_event [OF Cons.prems(1,2) e]
  show ?case using Cons.prems(3) c1 Cons.IH [of c1 s1] by (auto simp: e split: if_splits)
qed simp

lemma same_output_called: "same_output (called x c) c' = same_output c c'"
  by (simp add: same_output_def)

lemma same_output_hello:
  assumes "cnPhase c = Accepting" "conn_hello errText clk frame s c = (s', c')"
  shows "same_output c c'"
proof (cases "\<exists>h. frame = Some (Inr h) \<and> cmType h = controlTypeHello")
  case True
  then obtain h where h: "frame = Some (Inr h)" "cmType h = controlTypeHello" by blast
  obtain s1 res where r: "ConsumeInteractiveSession clk (cmSessionID h) (cmSessionToken h) s = (s1, res)" by fastforce
  let ?c = "called (CallConsume (cmSessionID h) (cmSessionToken h)) c"
  show ?thesis
  proof (cases res)
    case (Inl e)
    then have "end_conn False s1 (send_error (errText e) ?c) = (s', c')" using assms(2) h r by (simp add: conn_hello_def)
    then show ?thesis using same_output_error same_output_called by blast
  next
    case (Inr se)
    then show ?thesis using assms(2) h r by (auto simp: conn_hello_def same_output_def)
  qed
next
  case False
  then show ?thesis
    using assms(2) by (auto simp: conn_hello_def split: option.splits sum.splits if_splits dest: same_output_end same_output_error)
qed

lemma same_output_ready:
  assumes "conn_ready errText resized ackSent ptyOpened s c = (s', c')"
  shows "same_output c c'"
proof -
  obtain c1 e where a: "applyInitialTTYSize resized c = (c1, e)" by fastforce
  have c1: "same_output c1 c' \<Longrightarrow> same_output c c'"
    using a by (auto simp: applyInitialTTYSize_def same_output_called split: option.splits if_splits)
  let ?c = "sendControl (control controlTypeHelloAck) c1"
  have ack: "same_output ?c c' \<Longrightarrow> same_output c1 c'"
    by (simp add: same_output_def control_def control_types)
  consider x where "end_conn False s (send_error (errText x) c1) = (s', c')" | "end_conn False s ?c = (s', c')"
    | t where "end_conn False s (send_error t ?c) = (s', c')" | "c' = ?c\<lparr>cnPhase := Opened\<rparr>"
    using assms by (auto simp: conn_ready_def a Let_def split: option.splits if_splits)
  then have "same_output c1 c' \<or> same_output ?c c'"
  proof cases
    case 4
    then show ?thesis by (simp add: same_output_def)
  qed (blast dest: same_output_end same_output_error)+
  then show ?thesis using c1 ack by blast
qed

lemma output_inv_subscribe:
  assumes "output_inv c" "cnPhase c = Opened" "conn_subscribe errText s c = (s', c')"
  shows "output_inv c'"
proof (cases "cnSession c")
  case None
  then show ?thesis using assms by (simp add: conn_subscribe_def)
next
  case (Some se)
  let ?c = "called (CallSubscribe (insSandboxID se) (insExecutionID se)) c"
  obtain s1 res where sub: "SubscribeExecutionEvents (insSandboxID se) (insExecutionID se) s = (s1, res)" by fastforce
  show ?thesis
  proof (cases res)
    case (Inl e)
    then have "end_conn False s1 (send_error (errText e) ?c) = (s', c')" using assms(3) Some sub by (simp add: conn_subscribe_def Let_def)
    then have "same_output c c'" using same_output_error same_output_called by blast
    then show ?thesis using same_outputD [OF assms(1)] assms(2) by simp
  next
    case (Inr q)
    obtain history subID live where q: "q = (history, subID, live)" by (metis surj_pair)
    let ?d = "?c\<lparr>cnSub := Some subID, cnControl := Reading, cnStdin := Reading, cnPhase := Serving\<rparr>"
    have "conn_events history s1 ?d = (s', c')" using assms(3) Some sub by (simp add: conn_subscribe_def Let_def Inr q)
    moreover have "output_inv ?d" using assms(1,2) by (simp add: output_inv_def)
    ultimately show ?thesis using output_inv_events [of ?d] by simp
  qed
qed

lemma output_inv_select:
  assumes "output_inv c" "cnPhase c = Serving" "conn_select errText sel s c = (s', c')"
  shows "output_inv c'"
proof -
  have keep: "output_inv (c\<lparr>cnStdin := r\<rparr>)" "output_inv (c\<lparr>cnControl := r\<rparr>)" for r by (rule output_inv_cong [OF assms(1)]; simp)+
  have over: "output_inv c'" if "end_conn False s1 c1 = (s', c') \<or> end_conn False s1 (send_error t c1) = (s', c')" "output_inv c1" "cnPhase c1 = Serving" for s1 t c1
    using that(1) same_outputD [OF that(2)] that(3) same_output_end [of s1 c1 s' c'] same_output_error [of s1 t c1 s' c'] by auto
  show ?thesis
  proof (cases sel)
    case (SelUpdate e)
    then show ?thesis using assms over [of s c] output_inv_event [OF assms(1,2)] by (auto simp: conn_select_def split: option.splits)
  next
    case (SelDone es)
    obtain s1 c1 where e: "conn_events es s c = (s1, c1)" by fastforce
    show ?thesis using assms(3) output_inv_events [OF assms(1,2) e] over [of s1 c1] by (auto simp: conn_select_def SelDone e split: if_splits)
  next
    case SelControl
    then show ?thesis using assms keep over [of s "c\<lparr>cnControl := Silent\<rparr>"]
      by (auto simp: conn_select_def Let_def split: reader.splits option.splits if_splits)
  next
    case SelStdin
    then show ?thesis using assms keep over [of s "c\<lparr>cnStdin := Silent\<rparr>"]
      by (auto simp: conn_select_def Let_def split: reader.splits option.splits if_splits)
  next
    case SelContext
    then show ?thesis using assms over [of s c] by (auto simp: conn_select_def)
  qed
qed

lemma output_inv_control:
  assumes "output_inv c" "readControl clk frame resized s c = (s', c', ks)"
  shows "output_inv c'"
proof (cases "cnSession c")
  case None
  then show ?thesis using assms by (simp add: readControl_def)
next
  case (Some se)
  then obtain r calls where "c' = c\<lparr>cnControl := r, cnCalls := cnCalls c @ calls\<rparr>" using readControl_conn assms(2) by blast
  then show ?thesis by (intro output_inv_cong [OF assms(1)]) simp_all
qed

lemma output_inv_stdin: "output_inv c \<Longrightarrow> output_inv (readStdin payload err writeErr c)"
  by (erule output_inv_cong) (simp_all add: readStdin_def Let_def split: option.splits)

lemma iq_step_output:
  assumes "iq_step errText (x, c) (y, c')" "output_inv c"
  shows "output_inv c'"
  using assms(1)
proof cases
  case (hello clk frame s')
  then show ?thesis using same_outputD [OF assms(2)] same_output_hello by simp
next
  case (ready resized ackSent ptyOpened s')
  then show ?thesis using same_outputD [OF assms(2)] same_output_ready by simp
next
  case (subscribe s')
  then show ?thesis using output_inv_subscribe [OF assms(2)] by blast
next
  case (select sel s')
  then show ?thesis using output_inv_select [OF assms(2)] by blast
next
  case (control clk frame resized s' ks)
  then show ?thesis using output_inv_control [OF assms(2)] by blast
next
  case (stdin payload turns writeErr err)
  then show ?thesis using output_inv_stdin [OF assms(2)] by blast
qed (use assms(2) in simp)

lemma iq_reach_output: "iq_reach errText x c \<Longrightarrow> output_inv c"
proof (induction rule: iq_reach.induct)
  case (start x)
  then show ?case by (simp add: new_conn_def output_inv_def)
next
  case (step x c y c')
  then show ?case using iq_step_output by blast
qed


section \<open>A connection that is accepted\<close>

definition demo_hello :: controlMessage where
  "demo_hello = (control controlTypeHello)\<lparr>cmSessionID := ''isess_1'', cmSessionToken := demo_token\<rparr>"

lemma demo_consumed:
  "\<exists>x c se. iq_reach errText x c \<and> cnPhase c = Consumed \<and> cnSession c = Some se \<and> cnCalls c = [CallConsume ''isess_1'' demo_token] \<and>
     cnSent c = [] \<and> cnPTY c = []"
proof -
  obtain x se ex where x: "reachable x" "svcSessions (sysService x) = [(''isess_1'', se)]" "svcAttached (sysService x) = []"
    "session_key se = executionKey ''cr_1'' ''exec_1''" "isToken se = demo_token" "isExpiresAt se > demo_clk 1"
    "get (svcExecutions (sysService x)) (executionKey ''cr_1'' ''exec_1'') = Some ex" "exKind ex = KIND_INTERACTIVE" "\<not> final ex"
    using demo_session by blast
  have tr: "trim_space ''isess_1'' = ''isess_1''" "trim_space demo_token = demo_token" "demo_token \<noteq> []" by code_simp+
  have "ConsumeInteractiveSession demo_clk ''isess_1'' demo_token (sysService x) =
     ((pruneExpiredInteractiveSessionsLocked (demo_clk 1) (demo_clk 0) (sysService x))
        \<lparr>svcSessions := [], svcAttached := [(executionKey ''cr_1'' ''exec_1'', ())]\<rparr>,
      Inr \<lparr>insSessionID = isSessionID se, insSandboxID = isSandboxID se, insExecutionID = isExecutionID se, insInitialCols = isInitialCols se,
           insInitialRows = isInitialRows se\<rparr>)"
    using x tr by (simp add: ConsumeInteractiveSession_def Let_def pruneExpiredInteractiveSessionsLocked_def get_def put_def del_def demo_clk_def)
  then obtain s' ins where cons: "ConsumeInteractiveSession demo_clk ''isess_1'' demo_token (sysService x) = (s', Inr ins)" by simp
  let ?c = "(called (CallConsume ''isess_1'' demo_token) new_conn)\<lparr>cnSession := Some ins, cnPhase := Consumed\<rparr>"
  have "conn_hello errText demo_clk (Some (Inr demo_hello)) (sysService x) new_conn = (s', ?c)"
    using cons by (simp add: conn_hello_def demo_hello_def control_def)
  then have "iq_step errText (x, new_conn) (in_service s' [] x, ?c)" by (intro iq_step.hello) (simp add: new_conn_def)
  with iq_reach.start [OF x(1)] have "iq_reach errText (in_service s' [] x) ?c" by (rule iq_reach.step)
  then show ?thesis by (intro exI conjI) (assumption, simp_all add: new_conn_def)
qed

theorem connection_confined_witness:
  "\<exists>x c se rest. iq_reach (\<lambda>_. []) x c \<and> cnSession c = Some se \<and> ended c \<and> cnCalls c = CallConsume ''isess_1'' demo_token # rest \<and>
     length (filter is_release rest) = 1"
proof -
  obtain x c se where x: "iq_reach (\<lambda>_. []) x c" "cnPhase c = Consumed" "cnSession c = Some se" "cnCalls c = [CallConsume ''isess_1'' demo_token]"
    using demo_consumed by blast
  obtain s' c' where r: "conn_ready (\<lambda>_. []) None False False (sysService x) c = (s', c')" by fastforce
  have reach: "iq_reach (\<lambda>_. []) (in_service s' [] x) c'" by (rule iq_reach.step [OF x(1)]) (rule iq_step.ready [OF x(2) r])
  obtain c1 where c1: "end_conn False (sysService x) c1 = (s', c')" "cnSession c1 = Some se" "\<exists>xs. cnCalls c1 = CallConsume ''isess_1'' demo_token # xs"
    using r x(3,4) by (auto simp: conn_ready_def applyInitialTTYSize_def Let_def split: if_splits)
  have c': "cnSession c' = Some se" "ended c'" "\<exists>xs. cnCalls c' = CallConsume ''isess_1'' demo_token # xs"
    using c1(2,3) by (auto simp: end_connD [OF c1(1)] ended_def)
  then obtain rest where "cnCalls c' = CallConsume ''isess_1'' demo_token # rest" "length (filter is_release rest) = 1"
    using connection_confined [OF reach] by auto
  then show ?thesis using reach c'(1,2) by blast
qed


end
