(* ===== verification/Interactive_Client.thy ===== *)
theory Interactive_Client
  imports Interactive_Props
begin

text \<open>
  The client of the interactive server (\<open>client.go\<close>) and the certificate of the server (\<open>tls.go\<close>). The client trusts the certificate by
  its SHA-256 pin alone. What QUIC, the certificate library and the wire do are arguments.
\<close>

section \<open>The pin\<close>

definition normalizePin :: "string \<Rightarrow> string" where
  "normalizePin pin =
     (let pin = trim_space (to_lower pin); pin = trim_prefix pin ''sha256:'' in filter (\<lambda>c. c \<noteq> CHR '':'') pin)"

definition verifyCertPin :: "string list \<Rightarrow> string \<Rightarrow> string option" where
  "verifyCertPin rawCerts pin0 =
     (case rawCerts of
        [] \<Rightarrow> Some ''interactive cert pin check failed: missing peer certificate''
      | cert # _ \<Rightarrow>
          (let pin = normalizePin pin0; got = sha256_hex cert in
           if pin = [] then Some ''interactive cert pin check failed: missing pin''
           else if got \<noteq> pin then Some (''interactive cert pin mismatch: got '' @ got)
           else None))"

text \<open>
  \<open>selfSignedTLSConfig\<close>: the answers of the key generator, the serial number, the certificate (its DER encoding), the encoding of the
  key and the key pair; the result is the certificate and the pin that the service announces.
\<close>

record cert_calls =
  ccKey :: "string option"
  ccSerial :: "string option"
  ccCertificate :: "string + string"
  ccMarshalKey :: "string option"
  ccKeyPair :: "string option"

definition failed_with :: "string \<Rightarrow> string option \<Rightarrow> string + unit" where
  "failed_with context e = (case e of None \<Rightarrow> Inr () | Some t \<Rightarrow> Inl (context @ '': '' @ t))"

definition selfSignedTLSConfig :: "cert_calls \<Rightarrow> string + string \<times> string" where
  "selfSignedTLSConfig k =
     and_then (failed_with ''generate interactive TLS key'' (ccKey k)) (\<lambda>_.
     and_then (failed_with ''generate interactive TLS serial'' (ccSerial k)) (\<lambda>_.
     and_then (map_error (\<lambda>e. ''create interactive TLS cert: '' @ e) (ccCertificate k)) (\<lambda>der.
     and_then (failed_with ''marshal interactive TLS key'' (ccMarshalKey k)) (\<lambda>_.
     and_then (failed_with ''load interactive TLS keypair'' (ccKeyPair k)) (\<lambda>_.
     Inr (der, sha256_hex der))))))"

section \<open>Dialling\<close>

text \<open>
  What the network answers a client: the certificates the server presents and the error of the connection for any other reason, the
  errors of opening the streams and of sending the hello, and the first control message of the server.
\<close>

record dial_net =
  dnCerts :: "string list"
  dnDial :: "string option"
  dnControlStream :: "string option"
  dnSendHello :: "string option"
  dnReply :: "string + controlMessage"
  dnStdinStream :: "string option"

record dial_result =
  drSession :: "string + unit"
  drHello :: "controlMessage option"
  drOpen :: bool

definition hello_message :: "string \<Rightarrow> string \<Rightarrow> controlMessage" where
  "hello_message sessionID token = (control controlTypeHello)\<lparr>cmSessionID := sessionID, cmSessionToken := token\<rparr>"

definition dial_failed :: "controlMessage option \<Rightarrow> string \<Rightarrow> dial_result" where
  "dial_failed h e = \<lparr>drSession = Inl e, drHello = h, drOpen = False\<rparr>"

text \<open>The part of \<open>Dial\<close> after the arguments are checked; every failure closes the connection that was opened.\<close>

definition dial_connected :: "dial_net \<Rightarrow> string \<Rightarrow> string \<Rightarrow> dial_result" where
  "dial_connected net sessionID token =
     (let hello = hello_message sessionID token in
      case dnControlStream net of
        Some e \<Rightarrow> dial_failed None (''open control stream: '' @ e)
      | None \<Rightarrow>
      case dnSendHello net of
        Some e \<Rightarrow> dial_failed (Some hello) (''send hello frame: '' @ e)
      | None \<Rightarrow>
      case dnReply net of
        Inl e \<Rightarrow> dial_failed (Some hello) (''receive hello ack: '' @ e)
      | Inr ack \<Rightarrow>
          if cmType ack = controlTypeError then dial_failed (Some hello) (trim_space (cmError ack))
          else if cmType ack \<noteq> controlTypeHelloAck then dial_failed (Some hello) (''unexpected hello response type '' @ go_quote (cmType ack))
          else
            (case dnStdinStream net of
               Some e \<Rightarrow> dial_failed (Some hello) (''open stdin stream: '' @ e)
             | None \<Rightarrow> \<lparr>drSession = Inr (), drHello = Some hello, drOpen = True\<rparr>))"

definition Dial :: "dial_net \<Rightarrow> string \<Rightarrow> string \<Rightarrow> string \<Rightarrow> string \<Rightarrow> string \<Rightarrow> dial_result" where
  "Dial net ep alpn certPin sessionID token =
     (if trim_space ep = [] then dial_failed None ''missing quic endpoint''
      else if trim_space alpn = [] then dial_failed None ''missing quic alpn''
      else if trim_space sessionID = [] then dial_failed None ''missing session_id''
      else if trim_space token = [] then dial_failed None ''missing session_token''
      else
        (case (case verifyCertPin (dnCerts net) certPin of Some e \<Rightarrow> Some e | None \<Rightarrow> dnDial net) of
           Some e \<Rightarrow> dial_failed None (''dial interactive endpoint '' @ go_quote (trim_space ep) @ '': '' @ e)
         | None \<Rightarrow> dial_connected net (trim_space sessionID) (trim_space token)))"

section \<open>The session of a client\<close>

record Session =
  ssStdin :: string
  ssStdinClosed :: bool
  ssControl :: "controlMessage list"
  ssClosed :: bool
  ssConnCloses :: nat

definition new_session :: Session where
  "new_session = \<lparr>ssStdin = [], ssStdinClosed = False, ssControl = [], ssClosed = False, ssConnCloses = 0\<rparr>"

text \<open>The error is that of the stream.\<close>

definition WriteStdin :: "string option \<Rightarrow> string \<Rightarrow> Session \<Rightarrow> Session \<times> string option" where
  "WriteStdin werr data s =
     (if data = [] then (s, None)
      else case werr of Some e \<Rightarrow> (s, Some e) | None \<Rightarrow> (s\<lparr>ssStdin := ssStdin s @ data\<rparr>, None))"

definition CloseStdin :: "Session \<Rightarrow> Session" where
  "CloseStdin s = s\<lparr>ssStdinClosed := True\<rparr>"

definition client_send :: "string option \<Rightarrow> controlMessage \<Rightarrow> Session \<Rightarrow> Session \<times> string option" where
  "client_send werr m s = (case werr of Some e \<Rightarrow> (s, Some e) | None \<Rightarrow> (s\<lparr>ssControl := ssControl s @ [m]\<rparr>, None))"

definition SendResize :: "string option \<Rightarrow> 32 word \<Rightarrow> 32 word \<Rightarrow> Session \<Rightarrow> Session \<times> string option" where
  "SendResize werr cols rows = client_send werr ((control controlTypeResize)\<lparr>cmCols := cols, cmRows := rows\<rparr>)"

definition SendSignal :: "string option \<Rightarrow> int \<Rightarrow> Session \<Rightarrow> Session \<times> string option" where
  "SendSignal werr sig = client_send werr ((control controlTypeSignal)\<lparr>cmSignal := sig\<rparr>)"

definition SendClose :: "string option \<Rightarrow> bool \<Rightarrow> Session \<Rightarrow> Session \<times> string option" where
  "SendClose werr det = client_send werr ((control controlTypeClose)\<lparr>cmDetach := det\<rparr>)"

definition Close :: "Session \<Rightarrow> Session" where
  "Close s = (if ssClosed s then s else s\<lparr>ssClosed := True, ssStdinClosed := True, ssConnCloses := ssConnCloses s + 1\<rparr>)"

text \<open>
  \<open>readControlEvents\<close>: the messages of the control stream up to the error that ends it (\<open>None\<close> for its end); what goes to the channel
  of events and to that of errors.
\<close>

fun readControlEvents :: "(string option + controlMessage) list \<Rightarrow> controlMessage list \<times> string list" where
  "readControlEvents [] = ([], [])"
| "readControlEvents (Inl None # _) = ([], [])"
| "readControlEvents (Inl (Some e) # _) = ([], [e])"
| "readControlEvents (Inr m # rest) = (case readControlEvents rest of (ms, es) \<Rightarrow> (m # ms, es))"

text \<open>\<open>acceptPTY\<close> and \<open>ReadPTY\<close>: the outcome of accepting the stream, then of a read.\<close>

definition ReadPTY :: "string + 'r \<Rightarrow> ('r \<Rightarrow> string + string) \<Rightarrow> string + string" where
  "ReadPTY accepted rd = and_then accepted rd"

section \<open>The pin decides\<close>

lemma normalizePin_hex: "normalizePin (sha256_hex cert) = sha256_hex cert"
proof -
  let ?h = "sha256_hex cert"
  have h: "lower_char c = c" "\<not> is_space c" "c \<noteq> CHR '':''" "c \<noteq> CHR ''s''" if c: "c \<in> set ?h" for c
  proof -
    obtain n where "n < 16" "c = hex_char n" using hex_encode_chars c unfolding sha256_hex_def by blast
    then show "lower_char c = c" "\<not> is_space c" "c \<noteq> CHR '':''" "c \<noteq> CHR ''s''" using hex_char_plain [of n] by simp_all
  qed
  have "to_lower ?h = ?h" unfolding to_lower_def using h(1) by (simp add: map_idI)
  moreover have "trim_space ?h = ?h" using h(2) by (intro trim_space_trimmed trimmed_if_no_space) blast
  moreover have "trim_prefix ?h ''sha256:'' = ?h"
    using h(4) by (cases ?h) (auto simp: trim_prefix_def has_prefix_def)
  moreover have "filter (\<lambda>c. c \<noteq> CHR '':'') ?h = ?h" using h(3) by (simp add: filter_id_conv)
  ultimately show ?thesis by (simp add: normalizePin_def)
qed

lemma verifyCertPin_iff:
  "verifyCertPin certs pin = None \<longleftrightarrow> (\<exists>cert rest. certs = cert # rest \<and> sha256_hex cert = normalizePin pin)"
  using sha256_hex_ne by (auto simp: verifyCertPin_def Let_def split: list.splits)

lemma dial_connected_cases:
  "drHello (dial_connected net i t) \<in> {None, Some (hello_message i t)} \<and>
   (drOpen (dial_connected net i t) \<longleftrightarrow> drSession (dial_connected net i t) = Inr ()) \<and>
   (drOpen (dial_connected net i t) \<longrightarrow> drHello (dial_connected net i t) = Some (hello_message i t))"
  by (simp add: dial_connected_def dial_failed_def Let_def split: option.splits sum.splits)

text \<open>C28. The session token goes to the right server only. A client sends its hello, with the session and the token it was given, to
  no server but one whose certificate has the announced SHA-256 pin; a session it returns has an open connection to such a server,
  and a failure leaves none open. The pin that a server computes for its own certificate is accepted for it.\<close>

theorem Dial_pinned:
  fixes net :: dial_net and ep alpn pin sessionID token :: string and r :: dial_result
  assumes "r = Dial net ep alpn pin sessionID token"
  shows "(\<forall>h. drHello r = Some h \<longrightarrow> h = hello_message (trim_space sessionID) (trim_space token) \<and>
           (\<exists>cert rest. dnCerts net = cert # rest \<and> sha256_hex cert = normalizePin pin)) \<and>
    (drOpen r \<longleftrightarrow> drSession r = Inr ()) \<and> (drOpen r \<longrightarrow> drHello r \<noteq> None) \<and>
    (\<forall>k der ownPin rest. selfSignedTLSConfig k = Inr (der, ownPin) \<longrightarrow> verifyCertPin (der # rest) ownPin = None)"
proof -
  have own: "verifyCertPin (der # rest) ownPin = None" if "selfSignedTLSConfig k = Inr (der, ownPin)" for k der ownPin rest
    using that normalizePin_hex by (auto simp: selfSignedTLSConfig_def verifyCertPin_iff)
  show ?thesis
  proof (cases "verifyCertPin (dnCerts net) pin")
    case None
    then have "r = dial_connected net (trim_space sessionID) (trim_space token) \<or> (\<exists>e. r = dial_failed None e)"
      unfolding assms Dial_def by (auto split: option.splits)
    then show ?thesis
      using dial_connected_cases [of net "trim_space sessionID" "trim_space token"] None own by (auto simp: verifyCertPin_iff dial_failed_def)
  next
    case (Some e)
    then have "\<exists>e. r = dial_failed None e" unfolding assms Dial_def by auto
    then show ?thesis using own by (auto simp: dial_failed_def)
  qed
qed

theorem Dial_pinned_witness:
  "\<exists>cert rest. dnCerts \<lparr>dnCerts = [''c''], dnDial = None, dnControlStream = None, dnSendHello = None, dnReply = Inr (control controlTypeHelloAck),
     dnStdinStream = None\<rparr> = cert # rest \<and> sha256_hex cert = normalizePin (sha256_hex ''c'')"
proof -
  let ?net = "\<lparr>dnCerts = [''c''], dnDial = None, dnControlStream = None, dnSendHello = None, dnReply = Inr (control controlTypeHelloAck), dnStdinStream = None\<rparr>"
  have ok: "verifyCertPin [''c''] (sha256_hex ''c'') = None" by (simp add: verifyCertPin_iff normalizePin_hex)
  have tr: "trim_space ''h:1'' \<noteq> []" "trim_space ''a'' \<noteq> []" "trim_space ''s'' \<noteq> []" "trim_space ''t'' \<noteq> []" by code_simp+
  have "drHello (Dial ?net ''h:1'' ''a'' (sha256_hex ''c'') ''s'' ''t'') = Some (hello_message (trim_space ''s'') (trim_space ''t''))"
    using ok tr by (simp add: Dial_def dial_connected_def control_def control_types)
  then show ?thesis using Dial_pinned [OF refl, of ?net "''h:1''" "''a''" "sha256_hex ''c''" "''s''" "''t''"] by blast
qed

end
