(* ===== verification/Guest_Agent.thy ===== *)
theory Guest_Agent
  imports Vsockexec
begin

text \<open>
  \<open>cmd/cleanroom-guest-agent\<close>: the process in the guest that runs the commands of the host. A connection carries one request, then input
  frames from the host and stream frames to it. The process that is started, and which writes on the connection fail, are arguments.
\<close>

section \<open>The port\<close>

text \<open>\<open>strings.Fields\<close>.\<close>

fun fields_from :: "string \<Rightarrow> string \<Rightarrow> string list" where
  "fields_from acc [] = (if acc = [] then [] else [rev acc])"
| "fields_from acc (c # cs) =
     (if is_space c then (if acc = [] then fields_from [] cs else rev acc # fields_from [] cs) else fields_from (c # acc) cs)"

definition go_fields :: "string \<Rightarrow> string list" where
  "go_fields s = fields_from [] s"

definition kernelCmdlineValue :: "string \<Rightarrow> string \<Rightarrow> string option" where
  "kernelCmdlineValue cmdline key0 =
     (let key = trim_space key0 in
      if key = [] then None
      else map_option (\<lambda>token. trim_prefix token (key @ ''='')) (find (\<lambda>token. has_prefix token (key @ ''='')) (go_fields cmdline)))"

text \<open>\<open>strconv.ParseUint\<close> to base 10 with 32 bits, digit by digit.\<close>

datatype num_error = BadSyntax | OutOfRange

fun parse_digits :: "nat \<Rightarrow> string \<Rightarrow> num_error + nat" where
  "parse_digits n [] = Inr n"
| "parse_digits n (c # cs) =
     (if CHR ''0'' \<le> c \<and> c \<le> CHR ''9''
      then (let n' = n * 10 + (of_char c - 48) in if n' > 2 ^ 32 - 1 then Inl OutOfRange else parse_digits n' cs)
      else Inl BadSyntax)"

definition parse_uint32 :: "string \<Rightarrow> num_error + nat" where
  "parse_uint32 s = (if s = [] then Inl BadSyntax else parse_digits 0 s)"

definition num_error_text :: "string \<Rightarrow> num_error \<Rightarrow> string" where
  "num_error_text s e =
     ''strconv.ParseUint: parsing '' @ go_quote s @ '': '' @ (case e of BadSyntax \<Rightarrow> ''invalid syntax'' | OutOfRange \<Rightarrow> ''value out of range'')"

definition resolveGuestAgentPort :: "32 word \<Rightarrow> string \<Rightarrow> string \<Rightarrow> string + 32 word" where
  "resolveGuestAgentPort defaultPort envPort cmdline =
     (let (rawPort, source) =
        (if trim_space envPort \<noteq> [] then (trim_space envPort, ''CLEANROOM_VSOCK_PORT'')
         else case kernelCmdlineValue cmdline ''cleanroom_guest_port'' of
           Some v \<Rightarrow> (trim_space v, ''cleanroom_guest_port'')
         | None \<Rightarrow> ([], ''CLEANROOM_VSOCK_PORT''))
      in if rawPort = [] then Inr defaultPort
         else
           (case parse_uint32 rawPort of
              Inl e \<Rightarrow> Inl (''invalid '' @ source @ '' '' @ go_quote rawPort @ '': '' @ num_error_text rawPort e)
            | Inr n \<Rightarrow> Inr (word_of_nat n)))"

text \<open>\<open>/proc/cmdline\<close>, read a second time after \<open>/proc\<close> was mounted.\<close>

definition readKernelCmdlineWith :: "string option \<Rightarrow> string option option \<Rightarrow> string option \<Rightarrow> string" where
  "readKernelCmdlineWith first mounted second =
     (case first of
        Some raw \<Rightarrow> trim_space raw
      | None \<Rightarrow>
          (case mounted of
             Some None \<Rightarrow> (case second of Some raw \<Rightarrow> trim_space raw | None \<Rightarrow> [])
           | _ \<Rightarrow> []))"

datatype mount_err = Busy | MountFailed string

definition ensureProcMounted :: "string option \<Rightarrow> mount_err option \<Rightarrow> string option" where
  "ensureProcMounted mkdir mounted =
     (case mkdir of Some e \<Rightarrow> Some e | None \<Rightarrow> (case mounted of None \<Rightarrow> None | Some Busy \<Rightarrow> None | Some (MountFailed e) \<Rightarrow> Some e))"

section \<open>The environment of a command\<close>

definition env_entry :: "string \<Rightarrow> string \<times> string" where
  "env_entry entry = (case cut entry CHR ''='' of (key, value, found) \<Rightarrow> (key, value))"

definition env_default :: "string \<Rightarrow> string \<Rightarrow> (string, string) gomap \<Rightarrow> (string, string) gomap" where
  "env_default key value m = (if trim_space (case get m key of None \<Rightarrow> [] | Some v \<Rightarrow> v) = [] then put key value m else m)"

text \<open>The map; the source lists its entries in the order of Go's map iteration, which is not specified.\<close>

definition command_env :: "string list \<Rightarrow> string list \<Rightarrow> (string, string) gomap" where
  "command_env environ requestEnv =
     (let base = fold (\<lambda>e. case env_entry e of (k, v) \<Rightarrow> put k v) environ [];
          base = fold (\<lambda>e. case env_entry e of (k, v) \<Rightarrow> put k v) requestEnv base;
          base = env_default ''HOME'' ''/root'' base
      in env_default ''PATH'' ''/usr/local/sbin:/usr/local/bin:/usr/sbin:/usr/bin:/sbin:/bin:/root/.local/bin'' base)"

definition buildCommandEnv :: "string list \<Rightarrow> string list \<Rightarrow> string list" where
  "buildCommandEnv environ requestEnv = map (\<lambda>(k, v). k @ ''='' @ v) (command_env environ requestEnv)"

definition envHasKey :: "string list \<Rightarrow> string \<Rightarrow> bool" where
  "envHasKey env key = list_ex (\<lambda>e. has_prefix e (key @ ''='')) env"

definition tty_env :: "string list \<Rightarrow> string list \<Rightarrow> string list" where
  "tty_env environ requestEnv =
     (let env = buildCommandEnv environ requestEnv in if envHasKey env ''TERM'' then env else env @ [''TERM=xterm-256color''])"

section \<open>Input\<close>

text \<open>
  \<open>readInputFrames\<close>: what is written to standard input and the sizes that are set, over the values of the stream. \<open>wok n\<close> says whether
  the write succeeds after \<open>n\<close> others. Sizes are cut to 16 bits.
\<close>

record input_seen =
  isStdin :: string
  isSizes :: "(16 word \<times> 16 word) list"

fun readInputFrames :: "(nat \<Rightarrow> bool) \<Rightarrow> bool \<Rightarrow> nat \<Rightarrow> json list \<Rightarrow> input_seen \<Rightarrow> input_seen" where
  "readInputFrames wok tty n [] seen = seen"
| "readInputFrames wok tty n (v # rest) seen =
     (case DecodeInputFrame [v] of
        Inl _ \<Rightarrow> seen
      | Inr frame \<Rightarrow>
          if ifType frame = ''stdin'' then
            (if ifData frame = [] then readInputFrames wok tty n rest seen
             else if wok n then readInputFrames wok tty (n + 1) rest (seen\<lparr>isStdin := isStdin seen @ ifData frame\<rparr>)
             else seen)
          else if ifType frame = ''eof'' then seen
          else if ifType frame = ''resize'' \<and> tty \<and> ifCols frame > 0 \<and> ifRows frame > 0
          then readInputFrames wok tty n rest (seen\<lparr>isSizes := isSizes seen @ [(ucast (ifCols frame), ucast (ifRows frame))]\<rparr>)
          else readInputFrames wok tty n rest seen)"

section \<open>Running a command\<close>

datatype wait_result = WaitOK | WaitExit int | WaitFailed string

definition exitResult :: "wait_result \<Rightarrow> int \<times> string" where
  "exitResult r = (case r of WaitOK \<Rightarrow> (0, []) | WaitExit code \<Rightarrow> (code, []) | WaitFailed e \<Rightarrow> (1, e))"

text \<open>
  The started process: the first error of making its pipes or its terminal, the error of its start, what it writes, chunk by chunk in the
  order in which the copying goroutines take them (\<open>True\<close> for standard output), and the result of waiting for it. \<open>gpSend n\<close> is the
  error of a write on the connection after \<open>n\<close> others.
\<close>

record guest_proc =
  gpPipes :: "string option"
  gpStart :: "string option"
  gpOutput :: "(bool \<times> string) list"
  gpWait :: wait_result
  gpSend :: "nat \<Rightarrow> string option"

record copying =
  cyWritten :: "json list"
  cyCount :: nat
  cyStdout :: string
  cyStderr :: string
  cyOutOK :: bool
  cyErrOK :: bool

definition new_copying :: copying where
  "new_copying = \<lparr>cyWritten = [], cyCount = 0, cyStdout = [], cyStderr = [], cyOutOK = True, cyErrOK = True\<rparr>"

definition frameSend :: "guest_proc \<Rightarrow> json \<Rightarrow> copying \<Rightarrow> copying \<times> bool" where
  "frameSend p v st =
     (case gpSend p (cyCount st) of
        None \<Rightarrow> (st\<lparr>cyWritten := cyWritten st @ [v], cyCount := cyCount st + 1\<rparr>, True)
      | Some _ \<Rightarrow> (st\<lparr>cyCount := cyCount st + 1\<rparr>, False))"

definition output_frame :: "string \<Rightarrow> string \<Rightarrow> ExecStreamFrame" where
  "output_frame kind chunk = \<lparr>sfType = kind, sfData = chunk, sfExitCode = 0, sfError = []\<rparr>"

text \<open>One write of a copying goroutine: into the buffer, then on the connection; a copy whose write failed has ended.\<close>

definition copy_chunk :: "guest_proc \<Rightarrow> bool \<times> string \<Rightarrow> copying \<Rightarrow> copying" where
  "copy_chunk p oc st =
     (case oc of (isOut, chunk) \<Rightarrow>
        if chunk = [] \<or> \<not> (if isOut then cyOutOK st else cyErrOK st) then st
        else
          (let st = (if isOut then st\<lparr>cyStdout := cyStdout st @ chunk\<rparr> else st\<lparr>cyStderr := cyStderr st @ chunk\<rparr>) in
           case frameSend p (EncodeStreamFrame (output_frame (if isOut then ''stdout'' else ''stderr'') chunk)) st of
             (st, True) \<Rightarrow> st
           | (st, False) \<Rightarrow> if isOut then st\<lparr>cyOutOK := False\<rparr> else st\<lparr>cyErrOK := False\<rparr>))"

definition exit_frame :: "wait_result \<Rightarrow> ExecStreamFrame" where
  "exit_frame r = \<lparr>sfType = ''exit'', sfData = [], sfExitCode = fst (exitResult r), sfError = snd (exitResult r)\<rparr>"

definition error_response :: "string \<Rightarrow> json" where
  "error_response e = EncodeResponse \<lparr>epExitCode = 1, epStdout = [], epStderr = [], epError = e\<rparr>"

definition send_response :: "guest_proc \<Rightarrow> json \<Rightarrow> copying \<Rightarrow> json list" where
  "send_response p v st = cyWritten (fst (frameSend p v st))"

text \<open>The exit frame, or a whole response when it cannot be sent; the terminal has no buffers.\<close>

definition sendExitResult :: "guest_proc \<Rightarrow> bool \<Rightarrow> copying \<Rightarrow> json list" where
  "sendExitResult p tty st =
     (case frameSend p (EncodeStreamFrame (exit_frame (gpWait p))) st of
        (st, True) \<Rightarrow> cyWritten st
      | (st, False) \<Rightarrow>
          send_response p
            (EncodeResponse \<lparr>epExitCode = fst (exitResult (gpWait p)), epStdout = (if tty then [] else cyStdout st),
               epStderr = (if tty then [] else cyStderr st), epError = snd (exitResult (gpWait p))\<rparr>) st)"

definition handleConnTTY :: "guest_proc \<Rightarrow> json list" where
  "handleConnTTY p =
     (case gpStart p of
        Some e \<Rightarrow> send_response p (error_response e) new_copying
      | None \<Rightarrow> sendExitResult p True (fold (copy_chunk p) (map (\<lambda>oc. (True, snd oc)) (gpOutput p)) new_copying))"

definition handleConnPipes :: "guest_proc \<Rightarrow> json list" where
  "handleConnPipes p =
     (case gpPipes p of
        Some e \<Rightarrow> send_response p (error_response e) new_copying
      | None \<Rightarrow>
          (case gpStart p of
             Some e \<Rightarrow> send_response p (error_response e) new_copying
           | None \<Rightarrow> sendExitResult p False (fold (copy_chunk p) (gpOutput p) new_copying)))"

definition request_error_text :: "(wire_error \<Rightarrow> string) \<Rightarrow> wire_error \<Rightarrow> string" where
  "request_error_text decodeText e =
     (case e of MissingCommand \<Rightarrow> ''missing command'' | MissingExecutable \<Rightarrow> ''missing command executable'' | _ \<Rightarrow> decodeText e)"

text \<open>\<open>run\<close> is the process that a request starts.\<close>

definition handleConn :: "(wire_error \<Rightarrow> string) \<Rightarrow> (ExecRequest \<Rightarrow> guest_proc) \<Rightarrow> (nat \<Rightarrow> string option) \<Rightarrow> json list \<Rightarrow> json list" where
  "handleConn decodeText run send stream =
     (case DecodeRequest stream of
        Inl e \<Rightarrow> if send 0 = None then [error_response (request_error_text decodeText e)] else []
      | Inr req \<Rightarrow> (let p = (run req)\<lparr>gpSend := send\<rparr> in if erTTY req then handleConnTTY p else handleConnPipes p))"

text \<open>The connections that the agent handles, one after the other, until the listener is closed.\<close>

datatype accept_result = Conn "json list" | ListenerClosed | AcceptFailed string

fun accept_loop :: "accept_result list \<Rightarrow> json list list" where
  "accept_loop [] = []"
| "accept_loop (Conn stream # rest) = stream # accept_loop rest"
| "accept_loop (ListenerClosed # rest) = []"
| "accept_loop (AcceptFailed e # rest) = accept_loop rest"

section \<open>Entropy\<close>

text \<open>The argument of the \<open>RNDADDENTROPY\<close> call: two 32-bit little-endian words, then the seed.\<close>

definition le32 :: "32 word \<Rightarrow> string" where
  "le32 w = map (\<lambda>i. char_of (unat (drop_bit (8 * i) w) mod 256 :: nat)) [0, 1, 2, 3]"

definition entropy_payload :: "string \<Rightarrow> string" where
  "entropy_payload seed = le32 (word_of_nat (length seed * 8)) @ le32 (word_of_nat (length seed)) @ seed"

definition injectEntropy :: "string option \<Rightarrow> string option \<Rightarrow> string \<Rightarrow> string option \<times> string list" where
  "injectEntropy openErr ioctlErr seed =
     (if seed = [] then (None, [])
      else
        (case openErr of
           Some e \<Rightarrow> (Some e, [])
         | None \<Rightarrow> (ioctlErr, [entropy_payload seed])))"

end
