(* ===== verification/Guest_Agent_Props.thy ===== *)
theory Guest_Agent_Props
  imports Guest_Agent
begin

text \<open>
  What the host reads from a guest agent: an answer to every request, with the output and the exit code of the command. What the command
  reads: the input the host sent, up to its end.
\<close>

section \<open>Answers\<close>

lemma decode_stream_response:
  assumes "- (2 ^ 63) \<le> epExitCode r" "epExitCode r < 2 ^ 63"
  shows "decode_stream out calls (EncodeResponse r # rest) = (Inr r, calls)"
proof -
  obtain code so se e where r: "r = \<lparr>epExitCode = code, epStdout = so, epStderr = se, epError = e\<rparr>" by (cases r)
  have raw: "raw_map ([(''exit_code'', JNum code)] @ omit_empty (so = []) ''stdout'' (JStr so) @ omit_empty (se = []) ''stderr'' (JStr se) @
      omit_empty (e = []) ''error'' (JStr e)) = m \<Longrightarrow> get m ''type'' = None \<and> unmarshal_response (marshal_map m) = Inr r" for m
    using assms
    by (cases "so = []"; cases "se = []"; cases "e = []")
      (auto simp: r raw_map_def omit_empty_def put_def get_def marshal_map_def unmarshal_response_def field_def into_int_def into_string_def
        to_lower_def lower_char_def)
  show ?thesis
    using raw [OF refl] by (simp add: r EncodeResponse_def Let_def)
qed

definition expected :: "bool \<Rightarrow> guest_proc \<Rightarrow> ExecResponse" where
  "expected tty p =
     (case (if tty then gpStart p else case gpPipes p of Some e \<Rightarrow> Some e | None \<Rightarrow> gpStart p) of
        Some e \<Rightarrow> \<lparr>epExitCode = 1, epStdout = [], epStderr = [], epError = e\<rparr>
      | None \<Rightarrow>
          \<lparr>epExitCode = fst (exitResult (gpWait p)),
           epStdout = concat (map snd (filter (\<lambda>oc. tty \<or> fst oc) (gpOutput p))),
           epStderr = concat (map snd (filter (\<lambda>oc. \<not> tty \<and> \<not> fst oc) (gpOutput p))),
           epError = snd (exitResult (gpWait p))\<rparr>)"

lemma copy_chunks:
  assumes "\<forall>n. gpSend p n = None" "cyOutOK st" "cyErrOK st"
  shows "cyWritten (fold (copy_chunk p) out st) = cyWritten st @
      map EncodeStreamFrame (map (\<lambda>oc. output_frame (if fst oc then ''stdout'' else ''stderr'') (snd oc)) (filter (\<lambda>oc. snd oc \<noteq> []) out))"
  using assms(2,3)
proof (induction out arbitrary: st)
  case (Cons oc out)
  obtain o1 chunk where oc: "oc = (o1, chunk)" by fastforce
  have "cyOutOK (copy_chunk p oc st) \<and> cyErrOK (copy_chunk p oc st) \<and>
      cyWritten (copy_chunk p oc st) = cyWritten st @ (if chunk = [] then [] else [EncodeStreamFrame (output_frame (if o1 then ''stdout'' else ''stderr'') chunk)])"
    using assms(1) Cons.prems by (simp add: copy_chunk_def oc frameSend_def)
  then show ?case using Cons.IH [of "copy_chunk p oc st"] by (simp add: oc)
qed simp

lemma exit_written:
  assumes "\<forall>n. gpSend p n = None"
  shows "sendExitResult p tty st = cyWritten st @ [EncodeStreamFrame (exit_frame (gpWait p))]"
  using assms by (simp add: sendExitResult_def frameSend_def)

lemma outputs_of:
  "frames_of kind (map (\<lambda>oc. output_frame (if fst oc then ''stdout'' else ''stderr'') (snd oc)) (filter (\<lambda>oc. snd oc \<noteq> []) out)) =
    concat (map snd (filter (\<lambda>oc. (if fst oc then ''stdout'' else ''stderr'') = kind) out))"
  by (induction out) (auto simp: frames_of_def output_frame_def)

lemma decode_run:
  assumes "\<forall>n. gpSend p n = None" "- (2 ^ 63) \<le> fst (exitResult (gpWait p))" "fst (exitResult (gpWait p)) < 2 ^ 63"
  shows "fst (DecodeStreamResponse (sendExitResult p tty (fold (copy_chunk p) out new_copying))) =
    Inr \<lparr>epExitCode = fst (exitResult (gpWait p)), epStdout = concat (map snd (filter fst out)),
         epStderr = concat (map snd (filter (\<lambda>oc. \<not> fst oc) out)), epError = snd (exitResult (gpWait p))\<rparr>"
proof -
  let ?fs = "map (\<lambda>oc. output_frame (if fst oc then ''stdout'' else ''stderr'') (snd oc)) (filter (\<lambda>oc. snd oc \<noteq> []) out)"
  have w: "sendExitResult p tty (fold (copy_chunk p) out new_copying) = map EncodeStreamFrame ?fs @ EncodeStreamFrame (exit_frame (gpWait p)) # []"
    using copy_chunks [OF assms(1), of new_copying out] by (simp add: exit_written [OF assms(1)] new_copying_def)
  have f: "\<forall>f \<in> set ?fs. sfType f \<in> {''stdout'', ''stderr''}" by (auto simp: output_frame_def)
  have e: "sfType (exit_frame (gpWait p)) = ''exit''" "sfExitCode (exit_frame (gpWait p)) = fst (exitResult (gpWait p))"
    "sfError (exit_frame (gpWait p)) = snd (exitResult (gpWait p))" by (simp_all add: exit_frame_def)
  have kinds: "((if b then ''stdout'' else ''stderr'') = ''stdout'') = b" "((if b then ''stdout'' else ''stderr'') = ''stderr'') = (\<not> b)" for b
    by simp_all
  show ?thesis
    unfolding w DecodeStreamResponse_def decode_stream_frames [OF f]
    by (subst decode_stream_exit [OF e(1)]) (use assms(2,3) e in \<open>simp_all add: outputs_of kinds\<close>)
qed

lemma decode_error: "fst (DecodeStreamResponse [error_response e]) = Inr \<lparr>epExitCode = 1, epStdout = [], epStderr = [], epError = e\<rparr>"
  unfolding DecodeStreamResponse_def error_response_def by (subst decode_stream_response) simp_all

text \<open>C29. Every request is answered, and the host reads the answer as it was meant: from what the agent writes on a working connection the
  host's decoder returns a response, never an error. A request that cannot be read or a command that cannot be started gives exit code 1
  and the reason; otherwise the response has the exit code of the process and all it wrote, standard output and error apart
  or, with a terminal, together.\<close>

theorem guest_answers:
  assumes "\<forall>n. send n = None" and "\<forall>req. - (2 ^ 63) \<le> fst (exitResult (gpWait (run req))) \<and> fst (exitResult (gpWait (run req))) < 2 ^ 63"
  shows "fst (DecodeStreamResponse (handleConn decodeText run send stream)) =
    Inr (case DecodeRequest stream of
           Inl e \<Rightarrow> \<lparr>epExitCode = 1, epStdout = [], epStderr = [], epError = request_error_text decodeText e\<rparr>
         | Inr req \<Rightarrow> expected (erTTY req) (run req))"
proof (cases "DecodeRequest stream")
  case (Inl e)
  then show ?thesis using assms(1) decode_error by (simp add: handleConn_def)
next
  case (Inr req)
  let ?p = "(run req)\<lparr>gpSend := send\<rparr>"
  have s: "\<forall>n. gpSend ?p n = None" using assms(1) by simp
  have err: "send_response ?p (error_response e) new_copying = [error_response e]" for e
    using assms(1) by (simp add: send_response_def frameSend_def new_copying_def)
  note run = decode_run [OF s, of tty out for tty out, simplified]
  have all: "filter fst (map (\<lambda>oc. (True, snd oc)) out) = map (\<lambda>oc. (True, snd oc)) out"
    "filter (\<lambda>oc. \<not> fst oc) (map (\<lambda>oc. (True, snd oc)) out) = []" for out :: "(bool \<times> string) list"
    by (induction out) auto
  show ?thesis
  proof (cases "erTTY req")
    case True
    then show ?thesis
      using Inr assms(2) err decode_error run [of True "map (\<lambda>oc. (True, snd oc)) (gpOutput (run req))"] all [of "gpOutput (run req)"]
      by (cases "gpStart (run req)") (simp_all add: handleConn_def Let_def handleConnTTY_def expected_def comp_def)
  next
    case False
    then show ?thesis
      using Inr assms(2) err decode_error run [of False "gpOutput (run req)"]
      by (cases "gpPipes (run req)"; cases "gpStart (run req)") (simp_all add: handleConn_def Let_def handleConnPipes_def expected_def)
  qed
qed

theorem guest_answers_witness:
  "fst (DecodeStreamResponse (handleConn (\<lambda>_. []) (\<lambda>req. \<lparr>gpPipes = None, gpStart = None, gpOutput = [(True, ''a''), (False, ''b''), (True, ''c'')],
      gpWait = WaitExit 3, gpSend = (\<lambda>_. None)\<rparr>) (\<lambda>_. None)
      [EncodeRequest \<lparr>erCommand = [''sh''], erDir = [], erEnv = [], erEntropySeed = [], erTTY = False\<rparr>])) =
   Inr \<lparr>epExitCode = 3, epStdout = ''ac'', epStderr = ''b'', epError = []\<rparr>"
proof -
  have "DecodeRequest [EncodeRequest \<lparr>erCommand = [''sh''], erDir = [], erEnv = [], erEntropySeed = [], erTTY = False\<rparr>] =
    Inr \<lparr>erCommand = [''sh''], erDir = [], erEnv = [], erEntropySeed = [], erTTY = False\<rparr>" by code_simp
  then show ?thesis by (subst guest_answers) (simp_all add: exitResult_def expected_def)
qed

section \<open>Input\<close>

lemma DecodeInputFrame_Encode: "DecodeInputFrame (EncodeInputFrame frame # rest) = Inr frame"
proof -
  have u: "uint w < 4294967296" for w :: "32 word" using uint_lt2p [of w] by simp
  have "DecodeInputFrame (EncodeInputFrame frame # rest) =
      Inr \<lparr>ifType = ifType frame, ifData = ifData frame, ifCols = ifCols frame, ifRows = ifRows frame\<rparr>"
    by (simp add: DecodeInputFrame_def EncodeInputFrame_def omit_empty_def field_def into_string_def into_uint32_def to_lower_def lower_char_def u)
  then show ?thesis by simp
qed

lemma read_frame:
  assumes "ifType f \<noteq> ''eof''" "wok k"
  shows "\<exists>k' seen'. (\<forall>vs. readInputFrames wok tty k (EncodeInputFrame f # vs) seen = readInputFrames wok tty k' vs seen') \<and>
    isStdin seen' = isStdin seen @ (if ifType f = ''stdin'' then ifData f else [])"
proof -
  have eq: "readInputFrames wok tty k (EncodeInputFrame f # vs) seen =
     (if ifType f = ''stdin'' then
        (if ifData f = [] then readInputFrames wok tty k vs seen
         else readInputFrames wok tty (k + 1) vs (seen\<lparr>isStdin := isStdin seen @ ifData f\<rparr>))
      else if ifType f = ''resize'' \<and> tty \<and> ifCols f > 0 \<and> ifRows f > 0
      then readInputFrames wok tty k vs (seen\<lparr>isSizes := isSizes seen @ [(ucast (ifCols f), ucast (ifRows f))]\<rparr>)
      else readInputFrames wok tty k vs seen)" for vs
    unfolding readInputFrames.simps DecodeInputFrame_Encode sum.case by (simp only: assms if_True if_False)
  show ?thesis
  proof (cases "ifType f = ''stdin'' \<and> ifData f \<noteq> []")
    case True
    then show ?thesis by (intro exI [of _ "k + 1"] exI [of _ "seen\<lparr>isStdin := isStdin seen @ ifData f\<rparr>"]) (simp add: eq del: readInputFrames.simps)
  next
    case False
    then have "if ifType f = ''stdin'' then ifData f = [] else True" by simp
    then show ?thesis
      by (intro exI [of _ k] exI [of _ "if ifType f = ''resize'' \<and> tty \<and> ifCols f > 0 \<and> ifRows f > 0
          then seen\<lparr>isSizes := isSizes seen @ [(ucast (ifCols f), ucast (ifRows f))]\<rparr> else seen"]) (simp add: eq del: readInputFrames.simps)
  qed
qed

text \<open>The command reads what the host sent: the data of the input frames in their order, up to the frame that ends the input; what
  comes after it is not read. Frames that set the size of a terminal are not part of the input.\<close>

theorem stdin_delivered:
  assumes "\<forall>n. wok n" and "ifType e = ''eof''" and "\<forall>f \<in> set frames. ifType f \<noteq> ''eof''"
  shows "isStdin (readInputFrames wok tty k (map EncodeInputFrame frames @ EncodeInputFrame e # rest) seen) =
    isStdin seen @ concat (map ifData (filter (\<lambda>f. ifType f = ''stdin'') frames))"
  using assms(3)
proof (induction frames arbitrary: k seen)
  case Nil
  then show ?case using assms(2) by (simp add: DecodeInputFrame_Encode)
next
  case (Cons f frames)
  then have IH: "isStdin (readInputFrames wok tty k (map EncodeInputFrame frames @ EncodeInputFrame e # rest) seen) =
    isStdin seen @ concat (map ifData (filter (\<lambda>f. ifType f = ''stdin'') frames))" and f: "ifType f \<noteq> ''eof''" for k seen by auto
  have w: "wok n" for n using assms(1) by blast
  obtain k' seen' where "readInputFrames wok tty k (EncodeInputFrame f # vs) seen = readInputFrames wok tty k' vs seen'"
      "isStdin seen' = isStdin seen @ (if ifType f = ''stdin'' then ifData f else [])" for vs
    using read_frame [OF f, of wok k] w by blast
  then show ?case by (simp add: IH)
qed

theorem stdin_delivered_witness:
  "isStdin (readInputFrames (\<lambda>_. True) False 0 (map EncodeInputFrame [\<lparr>ifType = ''stdin'', ifData = ''hi'', ifCols = 0, ifRows = 0\<rparr>] @
     EncodeInputFrame \<lparr>ifType = ''eof'', ifData = [], ifCols = 0, ifRows = 0\<rparr> # []) \<lparr>isStdin = [], isSizes = []\<rparr>) = ''hi''"
  by (subst stdin_delivered) simp_all

text \<open>A size beyond 16 bits is cut after the check that it is positive: 65536 columns become none.\<close>

lemma resize_truncated:
  "isSizes (readInputFrames wok True k [EncodeInputFrame \<lparr>ifType = ''resize'', ifData = [], ifCols = 65536, ifRows = 24\<rparr>] \<lparr>isStdin = [], isSizes = []\<rparr>) = [(0, 24)]"
  by (simp add: DecodeInputFrame_Encode)

section \<open>The environment\<close>

definition last_value :: "string list \<Rightarrow> string \<Rightarrow> string option" where
  "last_value es k = map_option snd (find (\<lambda>kv. fst kv = k) (rev (map env_entry es)))"

lemma find_append: "find P (xs @ ys) = (case find P xs of None \<Rightarrow> find P ys | Some x \<Rightarrow> Some x)"
  by (induction xs) auto

lemma get_fold_env:
  "get (fold (\<lambda>e. case env_entry e of (k, v) \<Rightarrow> put k v) es m) k = (case last_value es k of None \<Rightarrow> get m k | Some v \<Rightarrow> Some v)"
proof (induction es arbitrary: m)
  case (Cons e es)
  obtain k' v where e: "env_entry e = (k', v)" by fastforce
  show ?case using Cons.IH [of "put k' v m"] by (simp add: e last_value_def find_append split: option.splits)
qed (simp add: last_value_def)

definition blank :: "string option \<Rightarrow> bool" where
  "blank v = (trim_space (case v of None \<Rightarrow> [] | Some x \<Rightarrow> x) = [])"

lemma get_env_default: "get (env_default k v m) x = (if x = k \<and> blank (get m k) then Some v else get m x)"
  by (simp add: env_default_def blank_def)

text \<open>The environment of a command: a variable has the value the request gives it last, otherwise that of the agent's own environment,
  and \<open>HOME\<close> and \<open>PATH\<close> are never blank. Every variable is listed once.\<close>

theorem command_env_value:
  "get (command_env environ requestEnv) k =
     (let v = (case last_value requestEnv k of Some v \<Rightarrow> Some v | None \<Rightarrow> last_value environ k) in
      if k = ''HOME'' \<and> blank v then Some ''/root''
      else if k = ''PATH'' \<and> blank v then Some ''/usr/local/sbin:/usr/local/bin:/usr/sbin:/usr/bin:/sbin:/bin:/root/.local/bin''
      else v)"
proof -
  let ?m = "fold (\<lambda>e. case env_entry e of (k, v) \<Rightarrow> put k v) requestEnv (fold (\<lambda>e. case env_entry e of (k, v) \<Rightarrow> put k v) environ [])"
  have m: "get ?m k = (case last_value requestEnv k of Some v \<Rightarrow> Some v | None \<Rightarrow> last_value environ k)" for k
    by (simp add: get_fold_env split: option.splits)
  have ne: "''HOME'' \<noteq> ''PATH''" "''PATH'' \<noteq> ''HOME''" by simp_all
  consider (home) "k = ''HOME''" | (path) "k = ''PATH''" | (other) "k \<noteq> ''HOME''" "k \<noteq> ''PATH''" by blast
  then show ?thesis
  proof cases
    case home
    show ?thesis unfolding command_env_def Let_def get_env_default m home by (simp only: ne if_False simp_thms)
  next
    case path
    show ?thesis unfolding command_env_def Let_def get_env_default m path by (simp only: ne if_False simp_thms)
  next
    case other
    show ?thesis unfolding command_env_def Let_def get_env_default m by (simp only: other if_False simp_thms)
  qed
qed

end
