(* ===== verification/Guest_Boot.thy ===== *)
theory Guest_Boot
  imports Guest_Agent_Props Firecracker_Host
begin

text \<open>The port on which host and guest meet: the boot arguments that the host gives a machine carry the port it will dial to the agent.\<close>

lemma parse_digits_append: "parse_digits n (xs @ ys) = and_then (parse_digits n xs) (\<lambda>m. parse_digits m ys)"
  by (induction n xs rule: parse_digits.induct) (simp_all add: Let_def)

lemma parse_digit: "d < 10 \<Longrightarrow> n * 10 + d < 2 ^ 32 \<Longrightarrow> parse_digits n [digit_char d] = Inr (n * 10 + d)"
proof -
  assume d: "d < 10" "n * 10 + d < 2 ^ 32"
  have "\<forall>d \<in> set [0..<10]. CHR ''0'' \<le> digit_char d \<and> digit_char d \<le> CHR ''9'' \<and> of_char (digit_char d) = 48 + d" by code_simp
  then have "CHR ''0'' \<le> digit_char d \<and> digit_char d \<le> CHR ''9'' \<and> of_char (digit_char d) = 48 + d" using d(1) by simp
  then show ?thesis using d(2) by (simp add: Let_def)
qed

lemma parse_nat_to_string: "n < 2 ^ 32 \<Longrightarrow> parse_digits 0 (nat_to_string n) = Inr n"
proof (induction n rule: nat_to_string.induct)
  case (1 n)
  show ?case
  proof (cases "n < 10")
    case True
    then show ?thesis using parse_digit [of n 0] by (subst nat_to_string.simps) simp
  next
    case False
    then have "parse_digits 0 (nat_to_string (n div 10)) = Inr (n div 10)" using 1 by simp
    then show ?thesis
      using parse_digit [of "n mod 10" "n div 10"] 1(2) False by (subst nat_to_string.simps) (simp add: parse_digits_append)
  qed
qed

lemma parse_uint32_itoa: "parse_uint32 (itoa (uint (w :: 32 word))) = Inr (unat w)"
  using parse_nat_to_string [of "unat w"] unsigned_less [of w] by (simp add: parse_uint32_def itoa_def)

lemma fields_from_word: "\<forall>c \<in> set w. \<not> is_space c \<Longrightarrow> fields_from acc (w @ rest) = fields_from (rev w @ acc) rest"
  by (induction w arbitrary: acc) auto

text \<open>A word and the space after it.\<close>

lemma fields_word:
  assumes "w \<noteq> []" "\<forall>c \<in> set w. \<not> is_space c"
  shows "go_fields (w @ CHR '' '' # rest) = w # go_fields rest"
proof -
  have "is_space CHR '' ''" by code_simp
  then show ?thesis using assms by (simp add: go_fields_def fields_from_word)
qed

lemma find_word:
  assumes "w \<noteq> []" "\<forall>c \<in> set w. \<not> is_space c"
  shows "find P (go_fields (w @ CHR '' '' # rest)) = (if P w then Some w else find P (go_fields rest))"
  by (simp add: fields_word [OF assms])

lemma append_ne: "(x # xs) @ ys \<noteq> []"
  by simp

lemma itoa_nonneg_unspaced: "0 \<le> i \<Longrightarrow> \<forall>c \<in> set (itoa i). \<not> is_space c"
proof
  fix c assume "0 \<le> i" "c \<in> set (itoa i)"
  then have "is_digit c" using itoa_nonneg_chars by blast
  then show "\<not> is_space c" by (auto simp: is_digit_def is_space_def less_eq_char_def)
qed

lemma trim_itoa: "trim_space (itoa (uint (w :: 32 word))) = itoa (uint w)"
  using itoa_nonneg_unspaced [of "uint w"] by (intro trim_space_trimmed trimmed_if_no_space) simp

text \<open>Host and guest agree on the port: from the boot arguments of the machine, and without another setting, the agent resolves the very
  port the host was configured with and dials.\<close>

theorem boot_args_port:
  assumes "\<forall>c \<in> set (hnGuestIP net). \<not> is_space c" and "\<forall>c \<in> set (hnHostIP net). \<not> is_space c"
  shows "resolveGuestAgentPort DefaultPort [] (bsBootArgs (fcgBootSource (vm_config runID kernelPath rootfs vsockPath net compiled cfg))) =
    Inr (fcGuestPort cfg)"
proof -
  let ?port = "itoa (uint (fcGuestPort cfg))" and ?rest = "dockerServiceBootArgs (Some compiled) cfg"
  let ?P = "\<lambda>token. has_prefix token (''cleanroom_guest_port'' @ ''='')"
  have args: "bsBootArgs (fcgBootSource (vm_config runID kernelPath rootfs vsockPath net compiled cfg)) =
    ''console=ttyS0'' @ CHR '' '' # ''reboot=k'' @ CHR '' '' # ''panic=1'' @ CHR '' '' # ''pci=off'' @ CHR '' '' # ''init=/sbin/cleanroom-init'' @ CHR '' '' #
    ''random.trust_cpu=on'' @ CHR '' '' # (''cleanroom_guest_ip='' @ hnGuestIP net) @ CHR '' '' # (''cleanroom_guest_gw='' @ hnHostIP net) @ CHR '' '' #
    ''cleanroom_guest_mask=24'' @ CHR '' '' # ''cleanroom_guest_dns=1.1.1.1'' @ CHR '' '' # (''cleanroom_guest_port='' @ ?port) @ CHR '' '' # ?rest"
    by (simp add: vm_config_def)
  have words: "\<forall>c \<in> set ''console=ttyS0''. \<not> is_space c" "\<forall>c \<in> set ''reboot=k''. \<not> is_space c" "\<forall>c \<in> set ''panic=1''. \<not> is_space c"
    "\<forall>c \<in> set ''pci=off''. \<not> is_space c" "\<forall>c \<in> set ''init=/sbin/cleanroom-init''. \<not> is_space c" "\<forall>c \<in> set ''random.trust_cpu=on''. \<not> is_space c"
    "\<forall>c \<in> set ''cleanroom_guest_mask=24''. \<not> is_space c" "\<forall>c \<in> set ''cleanroom_guest_dns=1.1.1.1''. \<not> is_space c"
    "\<forall>c \<in> set (''cleanroom_guest_ip='' @ hnGuestIP net). \<not> is_space c" "\<forall>c \<in> set (''cleanroom_guest_gw='' @ hnHostIP net). \<not> is_space c"
    "\<forall>c \<in> set (''cleanroom_guest_port='' @ ?port). \<not> is_space c"
    using assms itoa_nonneg_unspaced [of "uint (fcGuestPort cfg)"] by (auto simp: is_space_def)
  have p: "\<not> ?P ''console=ttyS0''" "\<not> ?P ''reboot=k''" "\<not> ?P ''panic=1''" "\<not> ?P ''pci=off''" "\<not> ?P ''init=/sbin/cleanroom-init''"
    "\<not> ?P ''random.trust_cpu=on''" "\<not> ?P ''cleanroom_guest_mask=24''" "\<not> ?P ''cleanroom_guest_dns=1.1.1.1''"
    "\<not> ?P (''cleanroom_guest_ip='' @ x)" "\<not> ?P (''cleanroom_guest_gw='' @ x)" "?P (''cleanroom_guest_port='' @ x)" for x
    by (simp_all add: has_prefix_def)
  note steps = words(1-8) [THEN find_word [rotated], OF list.distinct(2)] words(9-11) [THEN find_word [rotated], OF append_ne]
  have f: "find ?P (go_fields (bsBootArgs (fcgBootSource (vm_config runID kernelPath rootfs vsockPath net compiled cfg)))) = Some (''cleanroom_guest_port='' @ ?port)"
    unfolding args by (simp only: steps p if_True if_False)
  have key: "trim_space ''cleanroom_guest_port'' = ''cleanroom_guest_port''" "trim_space [] = []" by code_simp+
  have pre: "trim_prefix (''cleanroom_guest_port='' @ x) (''cleanroom_guest_port'' @ ''='') = x" for x
    by (simp add: trim_prefix_def has_prefix_def)
  have v: "kernelCmdlineValue (bsBootArgs (fcgBootSource (vm_config runID kernelPath rootfs vsockPath net compiled cfg))) ''cleanroom_guest_port'' = Some ?port"
    unfolding kernelCmdlineValue_def Let_def key f option.map pre by simp
  show ?thesis
    unfolding resolveGuestAgentPort_def key v by (simp add: trim_itoa parse_uint32_itoa)
qed

theorem boot_args_port_witness:
  "\<exists>p cfg. fcGuestPort cfg = 4242 \<and> resolveGuestAgentPort DefaultPort []
     (bsBootArgs (fcgBootSource (vm_config ''r'' ''k'' ''f'' ''v''
       \<lparr>hnTapName = ''t'', hnHostIP = ''10.0.0.1'', hnGuestIP = ''10.0.0.2'', hnPolicyResolveMS = 0\<rparr> p cfg))) = Inr 4242"
proof -
  let ?net = "\<lparr>hnTapName = ''t'', hnHostIP = ''10.0.0.1'', hnGuestIP = ''10.0.0.2'', hnPolicyResolveMS = 0\<rparr>"
  obtain cfg :: FirecrackerConfig where cfg: "fcGuestPort cfg = 4242" by (rule that [of "c\<lparr>fcGuestPort := 4242\<rparr>" for c]) simp
  have "\<forall>c \<in> set (hnGuestIP ?net). \<not> is_space c" "\<forall>c \<in> set (hnHostIP ?net). \<not> is_space c" by (simp_all add: is_space_def)
  from boot_args_port [OF this, of "''r''" "''k''" "''f''" "''v''" _ cfg] cfg show ?thesis by auto
qed

end
