(* ===== verification/Bootassets.thy ===== *)
theory Bootassets
  imports Effect Paths Digest Host_Env
begin

text \<open>
  \<open>internal/bootassets/manager.go\<close>: the kernels that the program downloads itself, each pinned to a SHA-256, and
  \<open>internal/hosttools/e2fsprogs.go\<close>: where the tools for ext4 file systems are found. The state is the files of the host; the HTTP server and
  which calls of the operating system fail are arguments.
\<close>

section \<open>Kernels\<close>

record Selector =
  slBackend :: string
  slGOOS :: string
  slGOARCH :: string

record KernelSpec =
  ksID :: string
  ksFilename :: string
  ksURL :: string
  ksSHA256 :: string

record KernelEnsureResult =
  kePath :: string
  keCacheHit :: bool
  keSpec :: KernelSpec

record ResolveResult =
  rrPath :: string
  rrManaged :: bool
  rrCacheHit :: bool
  rrNotice :: string
  rrSpec :: "KernelSpec option"

datatype asset_file = AssetDir | AssetFile string

type_synonym asset_files = "(string, asset_file) gomap"

datatype asset_call = AStat string | AOpen string | ARead string | AMkdirAll string | ACreate string | ARename string string | ARemove string

text \<open>An HTTP answer: an error, or the status, the body as far as it was read, and the error that ended the reading.\<close>

record asset_env =
  asSpecs :: "(Selector \<times> KernelSpec) list"
  asAssetsDir :: "string + string"
  asOS :: "asset_call \<Rightarrow> string option"
  asHTTP :: "string \<Rightarrow> string + int \<times> string \<times> string option"
  asNow :: int

definition kernel_spec :: "string \<Rightarrow> string \<Rightarrow> string \<Rightarrow> KernelSpec" where
  "kernel_spec host arch digest =
     \<lparr>ksID = ''fc-ci-v1.14-'' @ host @ ''-vmlinux-6.1.155'', ksFilename = ''vmlinux-6.1.155'',
      ksURL = ''https://s3.amazonaws.com/spec.ccfc.min/firecracker-ci/v1.14/'' @ arch @ ''/vmlinux-6.1.155'', ksSHA256 = digest\<rparr>"

definition defaultKernelSpecs :: "(Selector \<times> KernelSpec) list" where
  "defaultKernelSpecs =
     (let amd = ''e41c7048bd2475e7e788153823fcb9166a7e0b78c4c443bd6446d015fa735f53'';
          arm = ''61baeae1ac6197be4fc5c71fa78df266acdc33c54570290d2f611c2b42c105be'' in
      [(\<lparr>slBackend = ''firecracker'', slGOOS = ''linux'', slGOARCH = ''amd64''\<rparr>, kernel_spec ''linux-amd64'' ''x86_64'' amd),
       (\<lparr>slBackend = ''firecracker'', slGOOS = ''linux'', slGOARCH = ''arm64''\<rparr>, kernel_spec ''linux-arm64'' ''aarch64'' arm),
       (\<lparr>slBackend = ''darwin-vz'', slGOOS = ''darwin'', slGOARCH = ''arm64''\<rparr>, kernel_spec ''darwin-arm64'' ''aarch64'' arm),
       (\<lparr>slBackend = ''darwin-vz'', slGOOS = ''darwin'', slGOARCH = ''amd64''\<rparr>, kernel_spec ''darwin-amd64'' ''x86_64'' amd)])"

definition kernelLookup :: "asset_env \<Rightarrow> string \<Rightarrow> string \<Rightarrow> string \<Rightarrow> KernelSpec option" where
  "kernelLookup env backendName goos goarch =
     map_of (asSpecs env) \<lparr>slBackend = trim_space backendName, slGOOS = trim_space goos, slGOARCH = trim_space goarch\<rparr>"

definition no_asset :: "string \<Rightarrow> string \<Rightarrow> string \<Rightarrow> string" where
  "no_asset backendName goos goarch = ''no managed kernel asset for backend='' @ backendName @ '' host='' @ goos @ ''/'' @ goarch"

definition KernelPath :: "asset_env \<Rightarrow> string \<Rightarrow> string \<Rightarrow> string \<Rightarrow> string + string" where
  "KernelPath env backendName goos goarch =
     (case kernelLookup env backendName goos goarch of
        None \<Rightarrow> Inl (no_asset backendName goos goarch)
      | Some spec \<Rightarrow>
          and_then (map_error (\<lambda>e. ''resolve assets directory: '' @ e) (asAssetsDir env)) (\<lambda>base.
          Inr (path_join [base, ''kernels'', ksID spec, ksFilename spec])))"

definition equal_fold :: "string \<Rightarrow> string \<Rightarrow> bool" where
  "equal_fold a b = (to_lower a = to_lower b)"

definition os_check :: "asset_env \<Rightarrow> asset_call \<Rightarrow> string \<Rightarrow> string + unit" where
  "os_check env c context = (case asOS env c of None \<Rightarrow> Inr () | Some e \<Rightarrow> Inl (context @ '': '' @ e))"

definition fileMatchesSHA256 :: "asset_env \<Rightarrow> asset_files \<Rightarrow> string \<Rightarrow> string \<Rightarrow> string + bool" where
  "fileMatchesSHA256 env fs path want =
     (case get fs path of
        None \<Rightarrow> and_then (os_check env (AStat path) (''stat kernel asset '' @ go_quote path)) (\<lambda>_. Inr False)
      | Some f \<Rightarrow>
          and_then (os_check env (AStat path) (''stat kernel asset '' @ go_quote path)) (\<lambda>_.
          case f of
            AssetDir \<Rightarrow> Inl (''kernel asset path '' @ go_quote path @ '' is a directory'')
          | AssetFile content \<Rightarrow>
              and_then (os_check env (AOpen path) (''open kernel asset '' @ go_quote path)) (\<lambda>_.
              and_then (os_check env (ARead path) (''hash kernel asset '' @ go_quote path)) (\<lambda>_.
              Inr (equal_fold (sha256_hex content) want)))))"

text \<open>A call that changes the files when it succeeds.\<close>

definition asset_do :: "asset_env \<Rightarrow> asset_call \<Rightarrow> string \<Rightarrow> (asset_files \<Rightarrow> asset_files) \<Rightarrow> (asset_files, unit) effect" where
  "asset_do env c context eff fs = (case os_check env c context of Inl e \<Rightarrow> (fs, Inl e) | Inr _ \<Rightarrow> (eff fs, Inr ()))"

text \<open>\<open>O_EXCL\<close>: the file must not exist.\<close>

definition create_excl :: "asset_env \<Rightarrow> string \<Rightarrow> (asset_files, unit) effect" where
  "create_excl env path fs =
     (if get fs path \<noteq> None then (fs, Inl (''create temporary kernel asset '' @ go_quote path @ '': file exists''))
      else asset_do env (ACreate path) (''create temporary kernel asset '' @ go_quote path) (put path (AssetFile [])) fs)"

definition downloadAndVerify :: "asset_env \<Rightarrow> KernelSpec \<Rightarrow> string \<Rightarrow> (asset_files, unit) effect" where
  "downloadAndVerify env spec tmpPath =
     (case asHTTP env (ksURL spec) of
        Inl e \<Rightarrow> throw (''download kernel asset from '' @ ksURL spec @ '': '' @ e)
      | Inr (status, body, readErr) \<Rightarrow>
          if status \<noteq> 200
          then throw (''download kernel asset from '' @ ksURL spec @ '': unexpected status '' @ itoa status @ '': '' @ trim_space (take 1024 body))
          else
            bind_act (create_excl env tmpPath) (\<lambda>_.
            bind_act (\<lambda>fs. (put tmpPath (AssetFile body) fs, case readErr of None \<Rightarrow> Inr () | Some e \<Rightarrow> Inl (''write kernel asset '' @ go_quote tmpPath @ '': '' @ e))) (\<lambda>_.
            if equal_fold (sha256_hex body) (ksSHA256 spec) then ret ()
            else throw (''kernel asset checksum mismatch for '' @ ksURL spec @ '': got '' @ sha256_hex body @ '' want '' @ ksSHA256 spec))))"

definition try_remove_asset :: "asset_env \<Rightarrow> string \<Rightarrow> asset_files \<Rightarrow> asset_files" where
  "try_remove_asset env path fs = (if asOS env (ARemove path) = None then del path fs else fs)"

definition rename_asset :: "string \<Rightarrow> string \<Rightarrow> asset_files \<Rightarrow> asset_files" where
  "rename_asset p q fs = (case get fs p of None \<Rightarrow> fs | Some f \<Rightarrow> put q f (del p fs))"

definition tmp_asset :: "asset_env \<Rightarrow> string \<Rightarrow> string" where
  "tmp_asset env dest = dest @ ''.tmp-'' @ itoa (asNow env)"

text \<open>\<open>EnsureKernel\<close> after the second check, with the manager's lock held.\<close>

definition fetch_kernel :: "asset_env \<Rightarrow> KernelSpec \<Rightarrow> string \<Rightarrow> (asset_files, KernelEnsureResult) effect" where
  "fetch_kernel env spec dest =
     (let tmp = tmp_asset env dest in
      bind_act (asset_do env (AMkdirAll (path_dir dest)) (''create kernel asset directory '' @ go_quote (path_dir dest)) id) (\<lambda>_.
      bind_act (on_error (try_remove_asset env tmp) (downloadAndVerify env spec tmp)) (\<lambda>_ fs.
      case asset_do env (ARename tmp dest) (''store kernel asset '' @ go_quote dest) (rename_asset tmp dest) fs of
        (fs, Inr _) \<Rightarrow> (fs, Inr \<lparr>kePath = dest, keCacheHit = False, keSpec = spec\<rparr>)
      | (fs, Inl e) \<Rightarrow>
          (let fs = try_remove_asset env tmp fs in
           if fileMatchesSHA256 env fs dest (ksSHA256 spec) = Inr True
           then (fs, Inr \<lparr>kePath = dest, keCacheHit = True, keSpec = spec\<rparr>) else (fs, Inl e)))))"

text \<open>The check is done twice, without the lock and with it; \<open>between\<close> are the files as the second one finds them.\<close>

definition EnsureKernel :: "asset_env \<Rightarrow> (asset_files \<Rightarrow> asset_files) \<Rightarrow> string \<Rightarrow> string \<Rightarrow> string \<Rightarrow> (asset_files, KernelEnsureResult) effect" where
  "EnsureKernel env between backendName goos goarch =
     (case kernelLookup env backendName goos goarch of
        None \<Rightarrow> throw (no_asset backendName goos goarch)
      | Some spec \<Rightarrow>
          bind_act (lift_res (KernelPath env backendName goos goarch)) (\<lambda>dest.
          bind_act (\<lambda>fs. (fs, fileMatchesSHA256 env fs dest (ksSHA256 spec))) (\<lambda>valid.
          if valid then ret \<lparr>kePath = dest, keCacheHit = True, keSpec = spec\<rparr>
          else
            bind_act (\<lambda>fs. (between fs, fileMatchesSHA256 env (between fs) dest (ksSHA256 spec))) (\<lambda>valid.
            if valid then ret \<lparr>kePath = dest, keCacheHit = True, keSpec = spec\<rparr> else fetch_kernel env spec dest))))"

definition cacheState :: "bool \<Rightarrow> string" where
  "cacheState hit = (if hit then ''cache hit'' else ''cache miss'')"

definition managed :: "string \<Rightarrow> KernelEnsureResult \<Rightarrow> ResolveResult" where
  "managed notice e =
     \<lparr>rrPath = kePath e, rrManaged = True, rrCacheHit = keCacheHit e,
      rrNotice = notice @ ''using managed kernel asset '' @ ksID (keSpec e) @ '' ('' @ cacheState (keCacheHit e) @ '')'', rrSpec = Some (keSpec e)\<rparr>"

text \<open>\<open>absPath\<close> is \<open>filepath.Abs\<close>.\<close>

definition ResolveKernelPath ::
  "asset_env \<Rightarrow> (asset_files \<Rightarrow> asset_files) \<Rightarrow> (string \<Rightarrow> string + string) \<Rightarrow> string \<Rightarrow> string \<Rightarrow> string \<Rightarrow> string \<Rightarrow> (asset_files, ResolveResult) effect" where
  "ResolveKernelPath env between absPath backendName goos goarch configuredPath fs =
     (let trimmed = trim_space configuredPath in
      if trimmed \<noteq> [] then
        (let trimmed = (case absPath trimmed of Inr p \<Rightarrow> p | Inl _ \<Rightarrow> trimmed) in
         if asOS env (AStat trimmed) = None \<and> (case get fs trimmed of Some (AssetFile _) \<Rightarrow> True | _ \<Rightarrow> False)
         then (fs, Inr \<lparr>rrPath = trimmed, rrManaged = False, rrCacheHit = False, rrNotice = [], rrSpec = None\<rparr>)
         else
           bind_act (wrap (''configured kernel_image '' @ go_quote trimmed @ '' is not accessible and managed kernel resolution failed'')
             (EnsureKernel env between backendName goos goarch)) (\<lambda>e.
           ret (managed (''configured kernel_image '' @ go_quote trimmed @ '' is not accessible; '') e)) fs)
      else bind_act (EnsureKernel env between backendName goos goarch) (\<lambda>e. ret (managed [] e)) fs)"

section \<open>Tools for ext4\<close>

definition e2fsProgsInstallHint :: "string \<Rightarrow> string" where
  "e2fsProgsInstallHint goos = (if goos \<noteq> ''darwin'' then [] else ''install it with `brew install e2fsprogs`'')"

definition append_new :: "string \<Rightarrow> string list \<Rightarrow> string list" where
  "append_new p out = (if trim_space p = [] \<or> p \<in> set out then out else out @ [p])"

definition candidateBinaryPaths :: "string \<Rightarrow> string list \<Rightarrow> string list" where
  "candidateBinaryPaths binary pfxs =
     (let b = trim_space binary in
      if b = [] then []
      else
        fold (\<lambda>pfx out.
          if trim_space pfx = [] then out
          else append_new (path_join [trim_space pfx, ''bin'', b]) (append_new (path_join [trim_space pfx, ''sbin'', b]) out)) pfxs [])"

text \<open>\<open>brew\<close> is the output of \<open>brew --prefix e2fsprogs\<close>, if it could be run.\<close>

definition e2fsProgsPrefixes :: "string \<Rightarrow> string option \<Rightarrow> string list" where
  "e2fsProgsPrefixes goos brew =
     (if goos \<noteq> ''darwin'' then []
      else fold (\<lambda>v. append_new (trim_space v)) ((case brew of None \<Rightarrow> [] | Some out \<Rightarrow> [out]) @ [''/opt/homebrew/opt/e2fsprogs'', ''/usr/local/opt/e2fsprogs'']) [])"

definition resolveBinary :: "string \<Rightarrow> string \<Rightarrow> (string \<Rightarrow> string option) \<Rightarrow> (string \<Rightarrow> bool) \<Rightarrow> string list \<Rightarrow> string + string" where
  "resolveBinary goos binary lookPath is_file candidates =
     (let b = trim_space binary; hint = (if e2fsProgsInstallHint goos = [] then [] else ''; '' @ e2fsProgsInstallHint goos) in
      if b = [] then Inl ''binary name is required''
      else
        (case lookPath b of
           Some path \<Rightarrow> Inr path
         | None \<Rightarrow>
             (case find (\<lambda>c. trim_space c \<noteq> [] \<and> is_file c) candidates of
                Some c \<Rightarrow> Inr c
              | None \<Rightarrow>
                  if candidates = [] then Inl (b @ '' not found in PATH'' @ hint)
                  else Inl (b @ '' not found in PATH or known Homebrew locations'' @ hint))))"

definition ResolveE2FSProgsBinary :: "string \<Rightarrow> (string \<Rightarrow> string option) \<Rightarrow> (string \<Rightarrow> bool) \<Rightarrow> string option \<Rightarrow> string \<Rightarrow> string + string" where
  "ResolveE2FSProgsBinary goos lookPath is_file brew binary =
     resolveBinary goos binary lookPath is_file (candidateBinaryPaths binary (e2fsProgsPrefixes goos brew))"

section \<open>What a managed kernel is\<close>

definition pinned_at :: "asset_files \<Rightarrow> string \<Rightarrow> KernelSpec \<Rightarrow> bool" where
  "pinned_at fs path spec = (\<exists>content. get fs path = Some (AssetFile content) \<and> equal_fold (sha256_hex content) (ksSHA256 spec))"

lemma fileMatches_True: "fileMatchesSHA256 env fs path want = Inr True \<Longrightarrow> \<exists>content. get fs path = Some (AssetFile content) \<and> equal_fold (sha256_hex content) want"
  by (auto simp: fileMatchesSHA256_def split: option.splits asset_file.splits)

lemma tmp_asset_ne: "tmp_asset env dest \<noteq> dest"
proof
  assume "tmp_asset env dest = dest"
  then have "length (tmp_asset env dest) = length dest" by simp
  then show False by (simp add: tmp_asset_def)
qed

lemma asset_do_out:
  "asset_do env c context eff fs = (fs', Inr u) \<longleftrightarrow> asOS env c = None \<and> fs' = eff fs"
  "asset_do env c context eff fs = (fs', Inl e) \<longleftrightarrow> fs' = fs \<and> (\<exists>t. asOS env c = Some t \<and> e = context @ '': '' @ t)"
  by (auto simp: asset_do_def os_check_def split: option.splits)

text \<open>Only the temporary file is written before the checksum is known.\<close>

lemma downloadAndVerify_out:
  assumes "downloadAndVerify env spec tmp fs = (fs', r)"
  shows "(\<forall>p. p \<noteq> tmp \<longrightarrow> get fs' p = get fs p)" "r = Inr () \<Longrightarrow> pinned_at fs' tmp spec"
proof -
  have "(\<forall>p. p \<noteq> tmp \<longrightarrow> get fs' p = get fs p) \<and> (r = Inr () \<longrightarrow> pinned_at fs' tmp spec)"
    using assms
    by (cases r) (auto simp: downloadAndVerify_def throw_def ret_def outcomes create_excl_def asset_do_out pinned_at_def split: sum.splits if_splits option.splits)
  then show "(\<forall>p. p \<noteq> tmp \<longrightarrow> get fs' p = get fs p)" "r = Inr () \<Longrightarrow> pinned_at fs' tmp spec" by blast+
qed

lemma fetch_kernel_out:
  assumes "fetch_kernel env spec dest fs = (fs', r)"
  shows "(\<forall>p. p \<noteq> dest \<and> p \<noteq> tmp_asset env dest \<longrightarrow> get fs' p = get fs p) \<and>
    (get fs' dest = get fs dest \<or> pinned_at fs' dest spec) \<and>
    (\<forall>k. r = Inr k \<longrightarrow> keSpec k = spec \<and> kePath k = dest \<and> pinned_at fs' dest spec)"
proof -
  let ?tmp = "tmp_asset env dest"
  have ne: "?tmp \<noteq> dest" "dest \<noteq> ?tmp" using tmp_asset_ne [of env dest] by auto
  obtain fs1 r1 where d: "downloadAndVerify env spec ?tmp fs = (fs1, r1)" by fastforce
  note dv = downloadAndVerify_out [OF d]
  have drop: "(\<forall>p. p \<noteq> ?tmp \<longrightarrow> get (try_remove_asset env ?tmp x) p = get x p)" for x by (simp add: try_remove_asset_def)
  note eval = fetch_kernel_def Let_def bind_act_def on_error_def asset_do_def os_check_def d
  show ?thesis
  proof (cases "asOS env (AMkdirAll (path_dir dest))")
    case (Some e)
    then show ?thesis using assms by (auto simp: eval)
  next
    case mk: None
    show ?thesis
    proof (cases r1)
      case (Inl e)
      then have "fs' = try_remove_asset env ?tmp fs1" "r = Inl e" using assms mk by (simp_all add: eval)
      then show ?thesis using dv(1) drop ne by simp
    next
      case (Inr u)
      then have pin: "pinned_at fs1 ?tmp spec" using dv(2) by simp
      show ?thesis
      proof (cases "asOS env (ARename ?tmp dest)")
        case None
        then have r: "fs' = rename_asset ?tmp dest fs1" "r = Inr \<lparr>kePath = dest, keCacheHit = False, keSpec = spec\<rparr>"
          using assms mk Inr by (simp_all add: eval)
        obtain content where c: "get fs1 ?tmp = Some (AssetFile content)" "equal_fold (sha256_hex content) (ksSHA256 spec)"
          using pin by (auto simp: pinned_at_def)
        have g: "get fs' p = (if p = dest then Some (AssetFile content) else if p = ?tmp then None else get fs1 p)" for p
          by (simp add: r(1) rename_asset_def c(1))
        have "pinned_at fs' dest spec" using g c(2) by (simp add: pinned_at_def)
        then show ?thesis using g dv(1) r(2) by simp
      next
        case (Some t)
        have fs': "fs' = try_remove_asset env ?tmp fs1" using assms mk Inr Some by (simp add: eval split: if_splits)
        have "r = Inr k \<Longrightarrow> fileMatchesSHA256 env fs' dest (ksSHA256 spec) = Inr True \<and> k = \<lparr>kePath = dest, keCacheHit = True, keSpec = spec\<rparr>" for k
          using assms mk Inr Some fs' by (simp add: eval split: if_splits)
        then show ?thesis using fs' dv(1) drop ne fileMatches_True [of env fs' dest "ksSHA256 spec"] by (fastforce simp: pinned_at_def)
      qed
    qed
  qed
qed

lemma fetch_kernel_frame:
  assumes "fetch_kernel env spec dest fs = (fs', r)"
  shows "get fs' p = get fs p \<or> p = tmp_asset env dest \<or> p = dest \<and> pinned_at fs' dest spec"
proof (cases "p = dest")
  case True
  then show ?thesis using conjunct1 [OF conjunct2 [OF fetch_kernel_out [OF assms]]] by (elim disjE) simp_all
next
  case False
  have "p = tmp_asset env dest \<or> get fs' p = get fs p" using conjunct1 [OF fetch_kernel_out [OF assms]] False by (cases "p = tmp_asset env dest") simp_all
  then show ?thesis by (elim disjE) simp_all
qed

lemma EnsureKernel_cases:
  assumes "EnsureKernel env id backendName goos goarch fs = (fs', r)"
  obtains
    (failed) e where "fs' = fs" "r = Inl e"
  | (hit) spec dest where "kernelLookup env backendName goos goarch = Some spec" "KernelPath env backendName goos goarch = Inr dest" "fs' = fs"
      "r = Inr \<lparr>kePath = dest, keCacheHit = True, keSpec = spec\<rparr>" "pinned_at fs dest spec"
  | (fetched) spec dest where "kernelLookup env backendName goos goarch = Some spec" "KernelPath env backendName goos goarch = Inr dest"
      "fetch_kernel env spec dest fs = (fs', r)"
proof (cases "kernelLookup env backendName goos goarch")
  case None
  then show ?thesis using assms by (auto simp: EnsureKernel_def throw_def intro: failed)
next
  case (Some spec)
  show ?thesis
  proof (cases "KernelPath env backendName goos goarch")
    case (Inl e)
    then show ?thesis using assms Some by (auto simp: EnsureKernel_def bind_act_def lift_res_def intro: failed)
  next
    case (Inr dest)
    obtain m where m: "fileMatchesSHA256 env fs dest (ksSHA256 spec) = m" by simp
    have run: "(fs', r) =
        (case m of Inl e \<Rightarrow> (fs, Inl e) | Inr True \<Rightarrow> (fs, Inr \<lparr>kePath = dest, keCacheHit = True, keSpec = spec\<rparr>) | Inr False \<Rightarrow> fetch_kernel env spec dest fs)"
      using m unfolding assms [symmetric] by (simp add: EnsureKernel_def Some Inr bind_act_def lift_res_def ret_def split: sum.splits)
    consider e where "m = Inl e" | "m = Inr True" | "m = Inr False" by (cases m) auto
    then show ?thesis
    proof cases
      case 1 then show ?thesis using run by (auto intro: failed)
    next
      case 2
      then have "pinned_at fs dest spec" using fileMatches_True [of env fs dest "ksSHA256 spec"] m by (simp add: pinned_at_def)
      then show ?thesis using run 2 by (intro hit [OF Some Inr]) simp_all
    next
      case 3 then show ?thesis using run by (intro fetched [OF Some Inr]) simp
    qed
  qed
qed

text \<open>C30. A managed kernel is the pinned one. When \<open>EnsureKernel\<close> returns a path, the file there has the SHA-256 of the specification, however
  it came there. In every case, failures included, the file of the kernel is the one it was or has that SHA-256, and no file but it and
  its temporary file is touched, so a download that is cut short or altered is never put in place. (Here nothing else changes the
  files between the two checks.)\<close>

theorem EnsureKernel_pinned:
  assumes "EnsureKernel env id backendName goos goarch fs = (fs', r)"
  shows "(\<forall>k. r = Inr k \<longrightarrow> kernelLookup env backendName goos goarch = Some (keSpec k) \<and> KernelPath env backendName goos goarch = Inr (kePath k) \<and>
           pinned_at fs' (kePath k) (keSpec k)) \<and>
    (\<forall>p. get fs' p = get fs p \<or>
       (\<exists>dest spec. KernelPath env backendName goos goarch = Inr dest \<and> kernelLookup env backendName goos goarch = Some spec \<and>
          (p = tmp_asset env dest \<or> p = dest \<and> pinned_at fs' dest spec)))"
  using assms
proof (cases rule: EnsureKernel_cases)
  case (fetched spec dest)
  have "keSpec k = spec \<and> kePath k = dest \<and> pinned_at fs' dest spec" if "r = Inr k" for k
    using fetch_kernel_out [OF fetched(3)] that by blast
  then show ?thesis using fetch_kernel_frame [OF fetched(3)] fetched(1,2) by (metis (no_types, lifting))
qed auto

definition ex_asset_env :: asset_env where
  "ex_asset_env =
     \<lparr>asSpecs = [(\<lparr>slBackend = ''b'', slGOOS = ''linux'', slGOARCH = ''amd64''\<rparr>, \<lparr>ksID = ''k'', ksFilename = ''vm'', ksURL = ''u'', ksSHA256 = sha256_hex ''x''\<rparr>)],
      asAssetsDir = Inr ''/a'', asOS = (\<lambda>_. None), asHTTP = (\<lambda>_. Inr (200, ''x'', None)), asNow = 7\<rparr>"

theorem EnsureKernel_pinned_witness:
  "\<exists>fs' k. EnsureKernel ex_asset_env id ''b'' ''linux'' ''amd64'' [] = (fs', Inr k) \<and> pinned_at fs' (kePath k) (keSpec k)"
proof -
  have tr: "trim_space ''b'' = ''b''" "trim_space ''linux'' = ''linux''" "trim_space ''amd64'' = ''amd64''" by code_simp+
  have look: "kernelLookup ex_asset_env ''b'' ''linux'' ''amd64'' = Some \<lparr>ksID = ''k'', ksFilename = ''vm'', ksURL = ''u'', ksSHA256 = sha256_hex ''x''\<rparr>"
    by (simp add: kernelLookup_def tr ex_asset_env_def)
  obtain dest where dest: "KernelPath ex_asset_env ''b'' ''linux'' ''amd64'' = Inr dest"
    by (simp add: KernelPath_def look) (simp add: ex_asset_env_def)
  have e: "asOS ex_asset_env c = None" "asHTTP ex_asset_env u = Inr (200, ''x'', None)" for c u by (simp_all add: ex_asset_env_def)
  have "\<exists>fs' k. EnsureKernel ex_asset_env id ''b'' ''linux'' ''amd64'' [] = (fs', Inr k)"
    by (simp add: EnsureKernel_def look bind_act_def lift_res_def dest fileMatchesSHA256_def os_check_def fetch_kernel_def Let_def asset_do_def on_error_def
        downloadAndVerify_def create_excl_def equal_fold_def ret_def e)
  then show ?thesis using EnsureKernel_pinned by blast
qed

end
