(* ===== verification/Controlserver.thy ===== *)
theory Controlserver
  imports Service_System Effect
begin

text \<open>
  \<open>internal/controlserver/server.go\<close> and \<open>internal/tlsconfig\<close>: the handlers that carry the control service over Connect, with the
  classification of errors and the two event streams, the listeners, and the TLS material of a server or client. The Connect and
  HTTP libraries, sockets and certificates are arguments.
\<close>

section \<open>Errors\<close>

text \<open>
  A Go error as the handlers see it: its text, the Connect error \<open>errors.As\<close> finds in it, and the context error \<open>errors.Is\<close> finds
  in it. A Connect error is a code and a message.
\<close>

datatype connect_code =
    CodeCanceled
  | CodeDeadlineExceeded
  | CodeInvalidArgument
  | CodeNotFound
  | CodeFailedPrecondition
  | CodeResourceExhausted
  | CodeUnavailable
  | CodeInternal
  | CodeOther nat

record go_error =
  geText :: string
  geConnect :: "(connect_code \<times> string) option"
  geContext :: "ctx_err option"

definition plain_error :: "string \<Rightarrow> go_error" where
  "plain_error t = \<lparr>geText = t, geConnect = None, geContext = None\<rparr>"

definition toConnectError :: "go_error \<Rightarrow> connect_code \<times> string" where
  "toConnectError err =
     (case geConnect err of
        Some c \<Rightarrow> c
      | None \<Rightarrow>
          (let message = to_lower (geText err);
               code = (if geContext err = Some ContextCanceled then CodeCanceled
                       else if geContext err = Some DeadlineExceeded then CodeDeadlineExceeded
                       else if contains_str message ''missing '' \<or> contains_str message ''invalid'' then CodeInvalidArgument
                       else if contains_str message ''unknown sandbox'' \<or> contains_str message ''unknown cleanroom'' \<or> contains_str message ''unknown execution''
                       then CodeNotFound
                       else if contains_str message ''not ready'' then CodeFailedPrecondition
                       else CodeInternal)
           in (code, geText err)))"

text \<open>
  The texts of the service's errors. The texts of a policy's errors and of an execution kind are arguments, and so is the context
  error that the error of an adapter may wrap. \<open>CreateExecution\<close> and \<open>DownloadSandboxFile\<close> word a running download differently.
\<close>

definition svc_error_text :: "(policy_error \<Rightarrow> string) \<Rightarrow> (ExecutionKind \<Rightarrow> string) \<Rightarrow> bool \<Rightarrow> svc_error \<Rightarrow> string" where
  "svc_error_text policyText kindName creating e =
     (case e of
        MissingRequest \<Rightarrow> ''missing request''
      | MissingPolicyField \<Rightarrow> ''missing policy''
      | InvalidPolicy p \<Rightarrow> ''invalid policy: '' @ policyText p
      | UnknownBackend b \<Rightarrow> ''unknown backend '' @ go_quote b
      | ProvisionFailed t \<Rightarrow> ''provision sandbox: '' @ t
      | MissingSandboxID \<Rightarrow> ''missing sandbox_id''
      | MissingExecutionID \<Rightarrow> ''missing execution_id''
      | MissingPath \<Rightarrow> ''missing path''
      | PathNotAbsolute \<Rightarrow> ''invalid path: must be absolute''
      | MissingCommand \<Rightarrow> ''missing command''
      | UnsupportedKind k \<Rightarrow> ''unsupported execution kind '' @ go_quote (kindName k)
      | UnknownSandbox i \<Rightarrow> ''unknown sandbox '' @ go_quote i
      | SandboxNotReady i \<Rightarrow> ''sandbox '' @ go_quote i @ '' is not ready''
      | DownloadUnsupported b \<Rightarrow> ''backend '' @ go_quote b @ '' does not support sandbox file downloads''
      | BusyDownload i \<Rightarrow> ''sandbox_busy: sandbox '' @ go_quote i @ (if creating then '' currently has an active file download'' else '' already has an active file download'')
      | BusyExecution i x \<Rightarrow> ''sandbox_busy: sandbox '' @ go_quote i @ '' already has active execution '' @ go_quote x
      | DownloadFailed t \<Rightarrow> ''download sandbox file: '' @ t
      | TerminateFailed t \<Rightarrow> ''terminate backend sandbox: '' @ t
      | UnknownExecution x i \<Rightarrow> ''unknown execution '' @ go_quote x @ '' in sandbox '' @ go_quote i
      | NotInteractive x \<Rightarrow> ''execution '' @ go_quote x @ '' is not interactive''
      | NoLongerActive x \<Rightarrow> ''execution '' @ go_quote x @ '' is no longer active''
      | TransportNotConfigured \<Rightarrow> ''interactive transport is not configured''
      | AlreadyAttached x \<Rightarrow> ''execution '' @ go_quote x @ '' already has an active interactive session''
      | AlreadyPending x \<Rightarrow> ''execution '' @ go_quote x @ '' already has a pending interactive session''
      | TokenGeneration t \<Rightarrow> ''generate session token: '' @ t
      | MissingSessionID \<Rightarrow> ''missing session_id''
      | MissingSessionToken \<Rightarrow> ''missing session_token''
      | UnknownSession i \<Rightarrow> ''unknown interactive session '' @ go_quote i
      | InvalidSessionToken \<Rightarrow> ''invalid session token''
      | NotRunning \<Rightarrow> ''execution is not running''
      | StdinUnsupported \<Rightarrow> ''execution stdin attach is not supported by the current backend''
      | ResizeUnsupported \<Rightarrow> ''execution resize is not supported by the current backend''
      | AttachFailed t \<Rightarrow> t
      | ContextEnded t \<Rightarrow> t)"

record error_texts =
  etPolicy :: "policy_error \<Rightarrow> string"
  etKind :: "ExecutionKind \<Rightarrow> string"
  etWrapped :: "svc_error \<Rightarrow> ctx_err option"

definition svc_go_error :: "error_texts \<Rightarrow> bool \<Rightarrow> svc_error \<Rightarrow> go_error" where
  "svc_go_error et creating e = \<lparr>geText = svc_error_text (etPolicy et) (etKind et) creating e, geConnect = None, geContext = etWrapped et e\<rparr>"

section \<open>Unary handlers\<close>

text \<open>Every unary handler calls the service and turns its error into a Connect error.\<close>

type_synonym 'a rpc = "(connect_code \<times> string) + 'a"

definition respond :: "error_texts \<Rightarrow> bool \<Rightarrow> svc_error + 'a \<Rightarrow> 'a rpc" where
  "respond et creating r = map_error (\<lambda>e. toConnectError (svc_go_error et creating e)) r"

definition serve_CreateSandbox where
  "serve_CreateSandbox et env gen provision clk req s = (case CreateSandbox env gen provision clk (Some req) s of (s', r) \<Rightarrow> (s', respond et False r))"

definition serve_GetSandbox :: "error_texts \<Rightarrow> string \<Rightarrow> Service \<Rightarrow> PbSandbox rpc" where
  "serve_GetSandbox et sid s = respond et False (GetSandbox (Some sid) s)"

definition serve_ListSandboxes :: "error_texts \<Rightarrow> Service \<Rightarrow> PbSandbox list rpc" where
  "serve_ListSandboxes et s = respond et False (Inr (ListSandboxes s))"

definition serve_CreateExecution where
  "serve_CreateExecution et gen clk req s = (case CreateExecution gen clk (Some req) s of (s', r) \<Rightarrow> (s', respond et True r))"

definition serve_OpenInteractiveExecution where
  "serve_OpenInteractiveExecution et gen random clk req s = (case OpenInteractiveExecution gen random clk (Some req) s of (s', r) \<Rightarrow> (s', respond et False r))"

definition serve_GetExecution :: "error_texts \<Rightarrow> string \<Rightarrow> string \<Rightarrow> Service \<Rightarrow> PbExecution rpc" where
  "serve_GetExecution et sid eid s = respond et False (GetExecution (Some (sid, eid)) s)"

definition serve_CancelExecution where
  "serve_CancelExecution et clk sid eid signal s = (case CancelExecution clk (Some (sid, eid)) signal s of (s', r) \<Rightarrow> (s', respond et False r))"

section \<open>Event streams\<close>

text \<open>
  \<open>StreamSandboxEvents\<close> and \<open>StreamExecution\<close> differ in their service calls and the type of the events. \<open>sendErr n\<close> is the error
  of \<open>stream.Send\<close> after \<open>n\<close> events were sent. A turn of the loop takes what \<open>select\<close> found: the end of the context, an event, the
  closed channel with whether \<open>done\<close> is closed too, or \<open>done\<close> with the events that the drain still finds in the channel.
\<close>

datatype 'e turn = TContext ctx_err | TUpdate 'e | TClosed bool | TDone "'e list"

datatype stream_end = EndOK | EndSend string | EndContext ctx_err | EndRPC connect_code string

fun send_events :: "(nat \<Rightarrow> string option) \<Rightarrow> 'e list \<Rightarrow> 'e list \<Rightarrow> 'e list \<times> string option" where
  "send_events sendErr sent [] = (sent, None)"
| "send_events sendErr sent (e # es) =
     (case sendErr (length sent) of Some x \<Rightarrow> (sent, Some x) | None \<Rightarrow> send_events sendErr (sent @ [e]) es)"

definition streamSubscriberDroppedErr :: "bool \<Rightarrow> string \<Rightarrow> stream_end" where
  "streamSubscriberDroppedErr doneClosed name =
     (if doneClosed then EndOK
      else EndRPC CodeResourceExhausted (name @ '' stream closed because the client could not keep up with event throughput''))"

definition drain_events :: "(nat \<Rightarrow> string option) \<Rightarrow> 'e list \<Rightarrow> 'e list \<Rightarrow> 'e list \<times> stream_end" where
  "drain_events sendErr sent es = (case send_events sendErr sent es of (sent, Some x) \<Rightarrow> (sent, EndSend x) | (sent, None) \<Rightarrow> (sent, EndOK))"

text \<open>\<open>None\<close> is a loop that still waits at the end of the turns.\<close>

fun follow :: "(nat \<Rightarrow> string option) \<Rightarrow> string \<Rightarrow> 'e list \<Rightarrow> 'e turn list \<Rightarrow> 'e list \<times> stream_end option" where
  "follow sendErr name sent [] = (sent, None)"
| "follow sendErr name sent (TContext e # ts) = (sent, Some (EndContext e))"
| "follow sendErr name sent (TUpdate e # ts) =
     (case sendErr (length sent) of Some x \<Rightarrow> (sent, Some (EndSend x)) | None \<Rightarrow> follow sendErr name (sent @ [e]) ts)"
| "follow sendErr name sent (TClosed doneClosed # ts) = (sent, Some (streamSubscriberDroppedErr doneClosed name))"
| "follow sendErr name sent (TDone es # ts) = (case drain_events sendErr sent es of (sent, r) \<Rightarrow> (sent, Some r))"

definition stream_body :: "(nat \<Rightarrow> string option) \<Rightarrow> string \<Rightarrow> bool \<Rightarrow> 'e list \<Rightarrow> 'e turn list \<Rightarrow> 'e list \<times> stream_end option" where
  "stream_body sendErr name following history turns =
     (case send_events sendErr [] history of
        (sent, Some x) \<Rightarrow> (sent, Some (EndSend x))
      | (sent, None) \<Rightarrow> if \<not> following then (sent, Some EndOK) else follow sendErr name sent turns)"

text \<open>
  The whole handlers: the subscription, the stream, and the deferred end of the subscription on the service as it is by then
  (\<open>later\<close> are the steps of the service in between).
\<close>

definition StreamExecution ::
  "error_texts \<Rightarrow> (nat \<Rightarrow> string option) \<Rightarrow> string \<Rightarrow> string \<Rightarrow> bool \<Rightarrow> (Service \<Rightarrow> Service) \<Rightarrow> ExecutionStreamEvent turn list \<Rightarrow> Service \<Rightarrow>
   Service \<times> ExecutionStreamEvent list \<times> stream_end option" where
  "StreamExecution et sendErr sid eid following later turns s =
     (case SubscribeExecutionEvents sid eid s of
        (s', Inl e) \<Rightarrow> (case toConnectError (svc_go_error et False e) of (code, msg) \<Rightarrow> (s', [], Some (EndRPC code msg)))
      | (s', Inr (history, subID, live)) \<Rightarrow>
          (case stream_body sendErr ''execution'' following history turns of
             (sent, None) \<Rightarrow> (later s', sent, None)
           | (sent, Some r) \<Rightarrow> (unsubscribeExecution (trim_space sid) (trim_space eid) subID (later s'), sent, Some r)))"

definition StreamSandboxEvents ::
  "error_texts \<Rightarrow> (nat \<Rightarrow> string option) \<Rightarrow> string \<Rightarrow> bool \<Rightarrow> (Service \<Rightarrow> Service) \<Rightarrow> SandboxEvent turn list \<Rightarrow> Service \<Rightarrow>
   Service \<times> SandboxEvent list \<times> stream_end option" where
  "StreamSandboxEvents et sendErr sid following later turns s =
     (case SubscribeSandboxEvents sid s of
        (s', Inl e) \<Rightarrow> (case toConnectError (svc_go_error et False e) of (code, msg) \<Rightarrow> (s', [], Some (EndRPC code msg)))
      | (s', Inr (history, subID, live)) \<Rightarrow>
          (case stream_body sendErr ''sandbox'' following history turns of
             (sent, None) \<Rightarrow> (later s', sent, None)
           | (sent, Some r) \<Rightarrow> (unsubscribeSandbox (trim_space sid) subID (later s'), sent, Some r)))"

section \<open>TLS material\<close>

record tls_options =
  toCertPath :: string
  toKeyPath :: string
  toCAPath :: string

text \<open>\<open>tlDir\<close> is \<open>paths.TLSDir\<close>; the rest is what the files and the certificate library answer.\<close>

record tls_files =
  tlDir :: "env_error + string"
  tlExists :: "string \<Rightarrow> bool"
  tlKeyPair :: "string \<Rightarrow> string \<Rightarrow> string option"
  tlRead :: "string \<Rightarrow> string + string"
  tlAppendCerts :: "string \<Rightarrow> bool"

datatype tls_version = VersionTLS12 | VersionTLS13

record tls_config =
  tcCertificate :: "(string \<times> string) option"
  tcMinVersion :: tls_version
  tcNextProtos :: "string list"
  tcRootCAs :: "string option"

definition resolveServerPaths :: "tls_files \<Rightarrow> tls_options \<Rightarrow> string \<times> string" where
  "resolveServerPaths fs opts =
     (case tlDir fs of
        Inl _ \<Rightarrow> (toCertPath opts, toKeyPath opts)
      | Inr tlsDir \<Rightarrow>
          (let cert = path_join [tlsDir, ''server.pem'']; key = path_join [tlsDir, ''server.key''] in
           (if toCertPath opts = [] \<and> tlExists fs cert then cert else toCertPath opts,
            if toKeyPath opts = [] \<and> tlExists fs key then key else toKeyPath opts)))"

definition ResolveServer :: "tls_files \<Rightarrow> tls_options \<Rightarrow> string + tls_config option" where
  "ResolveServer fs opts =
     (case resolveServerPaths fs opts of (certPath, keyPath) \<Rightarrow>
        if certPath = [] \<or> keyPath = [] then Inr None
        else
          (case tlKeyPair fs certPath keyPath of
             Some e \<Rightarrow> Inl (''load server certificate: '' @ e)
           | None \<Rightarrow>
               Inr (Some \<lparr>tcCertificate = Some (certPath, keyPath), tcMinVersion = VersionTLS13, tcNextProtos = [''h2'', ''http/1.1''], tcRootCAs = None\<rparr>)))"

definition resolveClientCAPath :: "tls_files \<Rightarrow> string \<Rightarrow> string" where
  "resolveClientCAPath fs caPath =
     (if caPath \<noteq> [] then caPath
      else
        (case tlDir fs of
           Inl _ \<Rightarrow> []
         | Inr tlsDir \<Rightarrow> (let candidate = path_join [tlsDir, ''ca.pem''] in if tlExists fs candidate then candidate else [])))"

definition loadCAPool :: "tls_files \<Rightarrow> string \<Rightarrow> string + string" where
  "loadCAPool fs path =
     (case tlRead fs path of
        Inl e \<Rightarrow> Inl (''read CA certificate: '' @ e)
      | Inr pem \<Rightarrow> if \<not> tlAppendCerts fs pem then Inl (''no valid certificates found in CA file '' @ path) else Inr pem)"

definition ResolveClient :: "tls_files \<Rightarrow> tls_options \<Rightarrow> string + tls_config" where
  "ResolveClient fs opts =
     (if toCertPath opts \<noteq> [] \<or> toKeyPath opts \<noteq> [] then Inl ''client certificates are not supported''
      else
        (let caPath = resolveClientCAPath fs (toCAPath opts);
             cfg = \<lparr>tcCertificate = None, tcMinVersion = VersionTLS13, tcNextProtos = [], tcRootCAs = None\<rparr> in
         if caPath = [] then Inr cfg else and_then (loadCAPool fs caPath) (\<lambda>pool. Inr (cfg\<lparr>tcRootCAs := Some pool\<rparr>))))"

section \<open>Listeners\<close>

text \<open>
  The host as the server's listener sees it: the files by path with their mode, and the open listeners. \<open>fails\<close> gives the error of a
  call that fails; the removal of a file that is not there is no error for \<open>listen\<close>. The mode of a fresh socket is what the umask
  leaves. Closing a listener on a socket removes its file.
\<close>

text \<open>The mode \<open>0o600\<close>.\<close>

definition owner_mode :: nat where
  "owner_mode = 6 * 8 ^ 2"

datatype listen_call = LMkdirAll string | LRemove string | LListenUnix string | LChmod string | LListenTCP string | LListenTLS string

datatype listener = ListenUnix string | ListenTCP string | ListenTLS string tls_config

record listen_host =
  lhFiles :: "(string, nat) gomap"
  lhListeners :: "listener list"

definition close_listener :: "listener \<Rightarrow> listen_host \<Rightarrow> listen_host" where
  "close_listener l h =
     (let h = h\<lparr>lhListeners := remove1 l (lhListeners h)\<rparr> in case l of ListenUnix p \<Rightarrow> h\<lparr>lhFiles := del p (lhFiles h)\<rparr> | _ \<Rightarrow> h)"

definition listen_unix :: "(listen_call \<Rightarrow> string option) \<Rightarrow> nat \<Rightarrow> string \<Rightarrow> (listen_host, listener) effect" where
  "listen_unix fails umaskMode addr h =
     (case fails (LMkdirAll (path_dir addr)) of Some e \<Rightarrow> (h, Inl e) | None \<Rightarrow>
      case (if get (lhFiles h) addr = None then None else fails (LRemove addr)) of Some e \<Rightarrow> (h, Inl e) | None \<Rightarrow>
      (let h = h\<lparr>lhFiles := del addr (lhFiles h)\<rparr> in
       case fails (LListenUnix addr) of Some e \<Rightarrow> (h, Inl e) | None \<Rightarrow>
       (let h = h\<lparr>lhFiles := put addr umaskMode (lhFiles h), lhListeners := ListenUnix addr # lhListeners h\<rparr> in
        case fails (LChmod addr) of
          Some e \<Rightarrow> (close_listener (ListenUnix addr) h, Inl e)
        | None \<Rightarrow> (h\<lparr>lhFiles := put addr owner_mode (lhFiles h)\<rparr>, Inr (ListenUnix addr)))))"

definition listen :: "(listen_call \<Rightarrow> string option) \<Rightarrow> nat \<Rightarrow> tls_files \<Rightarrow> Endpoint \<Rightarrow> tls_options option \<Rightarrow> (listen_host, listener) effect" where
  "listen fails umaskMode fs ep tlsOpts h =
     (if epScheme ep = ''unix'' then listen_unix fails umaskMode (epAddress ep) h
      else if epScheme ep = ''https'' then
        (let opts = (case tlsOpts of None \<Rightarrow> \<lparr>toCertPath = [], toKeyPath = [], toCAPath = []\<rparr> | Some o' \<Rightarrow> o'\<lparr>toCAPath := []\<rparr>) in
         case ResolveServer fs opts of
           Inl e \<Rightarrow> (h, Inl (''resolve server TLS config: '' @ e))
         | Inr None \<Rightarrow> (h, Inl ''https listen endpoint requires TLS certificates (provide --tls-cert/--tls-key)'')
         | Inr (Some cfg) \<Rightarrow>
             (let addr = trim_prefix (trim_prefix (epAddress ep) ''https://'') ''http://'' in
              case fails (LListenTLS addr) of
                Some e \<Rightarrow> (h, Inl (''start TLS listener for '' @ go_quote addr @ '': '' @ e))
              | None \<Rightarrow> (h\<lparr>lhListeners := ListenTLS addr cfg # lhListeners h\<rparr>, Inr (ListenTLS addr cfg))))
      else if epScheme ep = ''http'' then
        (let addr = trim_prefix (epAddress ep) ''http://'' in
         case fails (LListenTCP addr) of Some e \<Rightarrow> (h, Inl e) | None \<Rightarrow> (h\<lparr>lhListeners := ListenTCP addr # lhListeners h\<rparr>, Inr (ListenTCP addr)))
      else (h, Inl (''unsupported endpoint scheme '' @ go_quote (epScheme ep))))"

text \<open>
  \<open>Serve\<close>: what ends it is the context (\<open>None\<close>) or the HTTP server with its error, \<open>True\<close> for \<open>ErrServerClosed\<close>. The deferred close
  of the listener runs in every case; \<open>configured\<close> is the error of \<open>http2.ConfigureServer\<close>.
\<close>

definition Serve ::
  "(listen_call \<Rightarrow> string option) \<Rightarrow> nat \<Rightarrow> tls_files \<Rightarrow> string option \<Rightarrow> (bool \<times> string) option \<Rightarrow> Endpoint \<Rightarrow> tls_options option \<Rightarrow> (listen_host, unit) effect" where
  "Serve fails umaskMode fs configured ended ep tlsOpts =
     bind_act (listen fails umaskMode fs ep tlsOpts) (\<lambda>l.
     deferred (close_listener l) (\<lambda>h.
       if epScheme ep = ''https'' \<and> configured \<noteq> None then (h, Inl (''configure HTTP/2 for TLS: '' @ the configured))
       else
         (case ended of
            None \<Rightarrow>
              (if epScheme ep = ''unix'' \<and> fails (LRemove (epAddress ep)) = None then h\<lparr>lhFiles := del (epAddress ep) (lhFiles h)\<rparr> else h, Inr ())
          | Some (True, _) \<Rightarrow> (h, Inr ())
          | Some (False, e) \<Rightarrow> (h, Inl e))))"

lemma ResolveServer_tls13: "ResolveServer fs opts = Inr (Some cfg) \<Longrightarrow> tcMinVersion cfg = VersionTLS13 \<and> tcCertificate cfg \<noteq> None"
  by (auto simp: ResolveServer_def split: prod.splits if_splits option.splits)

text \<open>What \<open>listen\<close> leaves: an open listener whose socket only the owner may use, or none.\<close>

lemma listen_unix_out:
  assumes "listen_unix fails m addr h = (h', r)"
  shows "(r = Inr (ListenUnix addr) \<and> lhListeners h' = ListenUnix addr # lhListeners h \<and> get (lhFiles h') addr = Some owner_mode) \<or>
    (\<exists>e. r = Inl e \<and> lhListeners h' = lhListeners h \<and> get (lhFiles h') addr \<in> {get (lhFiles h) addr, None})"
  using assms by (auto simp: listen_unix_def close_listener_def Let_def split: option.splits if_splits)


end
