(* ===== verification/Client.thy ===== *)
theory Client
  imports Controlserver
begin

text \<open>
  \<open>client\<close>: the public Go client. Errors are classified into stable codes; \<open>EnsureSandbox\<close> keeps one sandbox for each key, under a lock
  for the key; \<open>ExecAndWait\<close> runs a command and collects what the server streams. What the server answers is an argument.
\<close>

section \<open>Connecting\<close>

text \<open>
  The transports of \<open>controlclient\<close>, the arguments of a dialler: TLS for https, HTTP/2 in the clear over a socket or to a host, and the
  default transport for a base URL without a host. \<open>urlHost\<close> is \<open>url.Parse\<close> followed by \<open>Host\<close>.
\<close>

datatype transport = HTTPSTransport tls_config | UnixTransport string | DefaultTransport | H2CTransport string

definition buildTransport :: "tls_files \<Rightarrow> (string \<Rightarrow> string + string) \<Rightarrow> Endpoint \<Rightarrow> string \<Rightarrow> tls_options \<Rightarrow> string + transport" where
  "buildTransport fs urlHost ep baseURL tlsOpts =
     (if epScheme ep = ''https'' then and_then (ResolveClient fs tlsOpts) (\<lambda>cfg. Inr (HTTPSTransport cfg))
      else if epScheme ep = ''unix'' then Inr (UnixTransport (epAddress ep))
      else (case urlHost baseURL of Inl _ \<Rightarrow> Inr DefaultTransport | Inr host \<Rightarrow> if host = [] then Inr DefaultTransport else Inr (H2CTransport host)))"

definition trim_right_slash :: "string \<Rightarrow> string" where
  "trim_right_slash s = rev (dropWhile (\<lambda>c. c = CHR ''/'') (rev s))"

definition New_controlclient :: "tls_files \<Rightarrow> (string \<Rightarrow> string + string) \<Rightarrow> Endpoint \<Rightarrow> tls_options \<Rightarrow> string + string \<times> transport" where
  "New_controlclient fs urlHost ep tlsOpts =
     (let baseURL = trim_right_slash (epBaseURL ep) in and_then (buildTransport fs urlHost ep baseURL tlsOpts) (\<lambda>t. Inr (baseURL, t)))"

datatype connect_error = BadEndpoint endpoint_error | CannotConnect string

definition New_client :: "host_env \<Rightarrow> tls_files \<Rightarrow> (string \<Rightarrow> string + string) \<Rightarrow> string \<Rightarrow> tls_options \<Rightarrow> connect_error + string \<times> transport" where
  "New_client env fs urlHost host tlsOpts =
     (case Resolve env host of
        Inl e \<Rightarrow> Inl (BadEndpoint e)
      | Inr ep \<Rightarrow>
          if epScheme ep = ''tssvc'' then Inl (CannotConnect ''tssvc:// endpoints are listen-only; use https://<service>.<your-tailnet>.ts.net'')
          else map_error CannotConnect (New_controlclient fs urlHost ep tlsOpts))"

text \<open>A client of an https endpoint never speaks anything older than TLS 1.3, and never in the clear.\<close>

lemma New_client_https:
  assumes "New_client env fs urlHost host opts = Inr (url, t)" and "Resolve env host = Inr ep" and "epScheme ep = ''https''"
  shows "\<exists>cfg. t = HTTPSTransport cfg \<and> tcMinVersion cfg = VersionTLS13"
  using assms by (auto simp: New_client_def New_controlclient_def buildTransport_def ResolveClient_def Let_def split: if_splits)

section \<open>Error codes\<close>

datatype ErrorCode =
    ErrorCodeUnknown
  | ErrorCodeCanceled
  | ErrorCodeDeadlineExceeded
  | ErrorCodeInvalidArgument
  | ErrorCodeNotFound
  | ErrorCodeUnavailable
  | ErrorCodeInternal
  | ErrorCodePolicyInvalid
  | ErrorCodePolicyConflict
  | ErrorCodeBackendUnavailable
  | ErrorCodeBackendCapabilityMismatch
  | ErrorCodeHostNotAllowed
  | ErrorCodeRegistryNotAllowed
  | ErrorCodeLockfileViolation
  | ErrorCodeSecretScopeViolation
  | ErrorCodeRuntimeLaunchFailed

definition classifyAppErrorCode :: "string \<Rightarrow> ErrorCode" where
  "classifyAppErrorCode message =
     (if contains_str message ''policy_invalid'' then ErrorCodePolicyInvalid
      else if contains_str message ''policy_conflict'' then ErrorCodePolicyConflict
      else if contains_str message ''backend_unavailable'' then ErrorCodeBackendUnavailable
      else if contains_str message ''backend_capability_mismatch'' then ErrorCodeBackendCapabilityMismatch
      else if contains_str message ''host_not_allowed'' then ErrorCodeHostNotAllowed
      else if contains_str message ''registry_not_allowed'' then ErrorCodeRegistryNotAllowed
      else if contains_str message ''lockfile_violation'' then ErrorCodeLockfileViolation
      else if contains_str message ''secret_scope_violation'' then ErrorCodeSecretScopeViolation
      else if contains_str message ''runtime_launch_failed'' then ErrorCodeRuntimeLaunchFailed
      else ErrorCodeUnknown)"

definition ErrCode :: "go_error option \<Rightarrow> ErrorCode" where
  "ErrCode err =
     (case err of
        None \<Rightarrow> ErrorCodeUnknown
      | Some e \<Rightarrow>
          (let appCode = classifyAppErrorCode (to_lower (geText e)) in
           if appCode \<noteq> ErrorCodeUnknown then appCode
           else
             (case geConnect e of
                Some (code, _) \<Rightarrow>
                  (case code of
                     CodeCanceled \<Rightarrow> ErrorCodeCanceled
                   | CodeDeadlineExceeded \<Rightarrow> ErrorCodeDeadlineExceeded
                   | CodeInvalidArgument \<Rightarrow> ErrorCodeInvalidArgument
                   | CodeNotFound \<Rightarrow> ErrorCodeNotFound
                   | CodeUnavailable \<Rightarrow> ErrorCodeUnavailable
                   | _ \<Rightarrow> ErrorCodeInternal)
              | None \<Rightarrow>
                  if geContext e = Some ContextCanceled then ErrorCodeCanceled
                  else if geContext e = Some DeadlineExceeded then ErrorCodeDeadlineExceeded
                  else ErrorCodeUnknown)))"

section \<open>Policies from an allow list\<close>

record HostPort =
  hpHost :: string
  hpPorts :: "int list"

definition Allow :: "string \<Rightarrow> int list \<Rightarrow> HostPort" where
  "Allow host ports = \<lparr>hpHost = trim_space host, hpPorts = ports\<rparr>"

fun allow_entries :: "HostPort list \<Rightarrow> PbAllowRule list" where
  "allow_entries [] = []"
| "allow_entries (entry # rest) =
     (if trim_space (hpHost entry) = [] \<or> hpPorts entry = [] then allow_entries rest
      else \<lparr>pbHost = trim_space (hpHost entry), pbPorts = hpPorts entry\<rparr> # allow_entries rest)"

definition PolicyFromAllowlist :: "string \<Rightarrow> string \<Rightarrow> HostPort list \<Rightarrow> PbPolicy" where
  "PolicyFromAllowlist imageRef imageDigest entries =
     \<lparr>pbVersion = 1, pbImageRef = trim_space imageRef, pbImageDigest = trim_space imageDigest, pbServices = None, pbNetworkDefault = ''deny'',
      pbAllow = allow_entries entries, pbHash = []\<rparr>"

section \<open>A sandbox for a key\<close>

record EnsureSandboxOptions =
  eoBackend :: string
  eoPolicy :: "PbPolicy option"
  eoLaunchSeconds :: "int option"
  eoSandboxID :: string

record SandboxHandle =
  shID :: string
  shBackend :: string
  shStatus :: SandboxStatus
  shCreated :: bool

text \<open>
  The client's table of sandboxes by key, and the calls it made. The server's answers have \<open>None\<close> for a response without a sandbox.
\<close>

datatype api_call = CallGetSandbox string | CallCreateSandbox CreateSandboxRequest

record client_state =
  clKeys :: "(string, string) gomap"
  clCalls :: "api_call list"

record sandbox_api =
  saGet :: "string \<Rightarrow> go_error + PbSandbox option"
  saCreate :: "CreateSandboxRequest \<Rightarrow> go_error + PbSandbox option"

definition isReusableSandboxStatus :: "SandboxStatus \<Rightarrow> bool" where
  "isReusableSandboxStatus st = (st = SANDBOX_READY)"

definition handle_of :: "PbSandbox \<Rightarrow> bool \<Rightarrow> SandboxHandle" where
  "handle_of sb created = \<lparr>shID = psSandboxID sb, shBackend = psBackend sb, shStatus = psStatus sb, shCreated = created\<rparr>"

definition fetchSandboxHandle :: "sandbox_api \<Rightarrow> string \<Rightarrow> bool \<Rightarrow> client_state \<Rightarrow> client_state \<times> (go_error + SandboxHandle)" where
  "fetchSandboxHandle api sandboxID created c =
     (c\<lparr>clCalls := clCalls c @ [CallGetSandbox sandboxID]\<rparr>,
      case saGet api sandboxID of
        Inl e \<Rightarrow> Inl e
      | Inr None \<Rightarrow> Inl (plain_error (''sandbox '' @ go_quote sandboxID @ '' not found''))
      | Inr (Some sb) \<Rightarrow> Inr (handle_of sb created))"

definition lookupSandboxKey :: "string \<Rightarrow> client_state \<Rightarrow> string option" where
  "lookupSandboxKey key c = get (clKeys c) key"

definition recordSandboxKey :: "string \<Rightarrow> string \<Rightarrow> client_state \<Rightarrow> client_state" where
  "recordSandboxKey key sandboxID c = c\<lparr>clKeys := put key sandboxID (clKeys c)\<rparr>"

definition clearSandboxKey :: "string \<Rightarrow> client_state \<Rightarrow> client_state" where
  "clearSandboxKey key c = c\<lparr>clKeys := del key (clKeys c)\<rparr>"

text \<open>The end of \<open>EnsureSandbox\<close>: a new sandbox for the key.\<close>

definition create_for_key :: "sandbox_api \<Rightarrow> string \<Rightarrow> EnsureSandboxOptions \<Rightarrow> client_state \<Rightarrow> client_state \<times> (go_error + SandboxHandle)" where
  "create_for_key api key opts c =
     (if eoPolicy opts = None then (c, Inl (plain_error ''missing policy''))
      else
        (let req = \<lparr>csPolicy = eoPolicy opts, csBackend = trim_space (eoBackend opts), csLaunchSeconds = eoLaunchSeconds opts\<rparr>;
             c = c\<lparr>clCalls := clCalls c @ [CallCreateSandbox req]\<rparr> in
         case saCreate api req of
           Inl e \<Rightarrow> (c, Inl e)
         | Inr None \<Rightarrow> (c, Inl (plain_error ''create sandbox returned empty sandbox_id''))
         | Inr (Some sb) \<Rightarrow>
             if trim_space (psSandboxID sb) = [] then (c, Inl (plain_error ''create sandbox returned empty sandbox_id''))
             else (recordSandboxKey key (psSandboxID sb) c, Inr (handle_of sb True))))"

text \<open>\<open>lockErr\<close> is the error of \<open>lockEnsureKey\<close>, when the context ends before the lock is free.\<close>

definition EnsureSandbox ::
  "sandbox_api \<Rightarrow> go_error option \<Rightarrow> string \<Rightarrow> EnsureSandboxOptions \<Rightarrow> client_state \<Rightarrow> client_state \<times> (go_error + SandboxHandle)" where
  "EnsureSandbox api lockErr key opts c =
     (let trimmedKey = trim_space key in
      if trimmedKey = [] then (c, Inl (plain_error ''missing key''))
      else
        (case lockErr of
           Some e \<Rightarrow> (c, Inl e)
         | None \<Rightarrow>
             (let requestedBackend = trim_space (eoBackend opts); explicitID = trim_space (eoSandboxID opts) in
              if explicitID \<noteq> [] then
                (case fetchSandboxHandle api explicitID False c of
                   (c, Inl e) \<Rightarrow> (c, Inl e)
                 | (c, Inr handle) \<Rightarrow> (recordSandboxKey trimmedKey explicitID c, Inr handle))
              else
                (case lookupSandboxKey trimmedKey c of
                   None \<Rightarrow> create_for_key api trimmedKey opts c
                 | Some cachedID \<Rightarrow>
                     (case fetchSandboxHandle api cachedID False c of
                        (c, Inr handle) \<Rightarrow>
                          if isReusableSandboxStatus (shStatus handle) \<and> (requestedBackend = [] \<or> shBackend handle = requestedBackend)
                          then (c, Inr handle)
                          else create_for_key api trimmedKey opts (clearSandboxKey trimmedKey c)
                      | (c, Inl e) \<Rightarrow>
                          if ErrCode (Some e) \<noteq> ErrorCodeNotFound then (c, Inl e)
                          else create_for_key api trimmedKey opts (clearSandboxKey trimmedKey c))))))"

section \<open>A command and its result\<close>

record ExecOptions =
  xoStdout :: bool
  xoStderr :: bool
  xoTTY :: bool

record ExecResult =
  xrSandboxID :: string
  xrExecutionID :: string
  xrStatus :: ExecutionStatus
  xrExitCode :: int
  xrMessage :: string
  xrStdout :: string
  xrStderr :: string

text \<open>What the loop over the stream has collected, with what it wrote to the two writers of the options.\<close>

record collected =
  coStatus :: ExecutionStatus
  coExitCode :: int
  coMessage :: string
  coStdout :: string
  coStderr :: string
  coOutWriter :: string
  coErrWriter :: string

definition nothing_collected :: collected where
  "nothing_collected =
     \<lparr>coStatus = EXECUTION_UNSPECIFIED, coExitCode = 0, coMessage = [], coStdout = [], coStderr = [], coOutWriter = [], coErrWriter = []\<rparr>"

definition collect_event :: "ExecOptions \<Rightarrow> ExecutionStreamEvent option \<Rightarrow> collected \<Rightarrow> collected" where
  "collect_event opts event r =
     (case event of
        None \<Rightarrow> r
      | Some e \<Rightarrow>
          (let r = r\<lparr>coStatus := eeStatus e\<rparr> in
           case eePayload e of
             PStdout chunk \<Rightarrow> r\<lparr>coStdout := coStdout r @ chunk, coOutWriter := coOutWriter r @ (if xoStdout opts then chunk else [])\<rparr>
           | PStderr chunk \<Rightarrow> r\<lparr>coStderr := coStderr r @ chunk, coErrWriter := coErrWriter r @ (if xoStderr opts then chunk else [])\<rparr>
           | PExit code st msg \<Rightarrow>
               r\<lparr>coExitCode := code, coStatus := (if st \<noteq> EXECUTION_UNSPECIFIED then st else eeStatus e), coMessage := msg\<rparr>
           | PMessage msg \<Rightarrow> if trim_space msg \<noteq> [] then r\<lparr>coMessage := trim_space msg\<rparr> else r))"

definition collect :: "ExecOptions \<Rightarrow> ExecutionStreamEvent option list \<Rightarrow> collected" where
  "collect opts events = fold (collect_event opts) events nothing_collected"

datatype exec_call =
    CallCreateExecution CreateExecutionRequest
  | CallStreamExecution string string
  | CallCancelExecution string string
  | CallGetExecution string string

text \<open>
  The answers of the server: the created execution, the stream (an error, or the messages received until it ended and the error it
  ended with) and \<open>GetExecution\<close>. The timeout of the options shows in the stream's error only. The result is the list of calls, what was
  collected, and the error or the result.
\<close>

record exec_api =
  eaCreate :: "CreateExecutionRequest \<Rightarrow> go_error + PbExecution option"
  eaStream :: "string \<Rightarrow> string \<Rightarrow> go_error + ExecutionStreamEvent option list \<times> go_error option"
  eaGet :: "string \<Rightarrow> string \<Rightarrow> go_error + PbExecution option"

definition exec_result :: "string \<Rightarrow> string \<Rightarrow> collected \<Rightarrow> ExecutionStatus \<Rightarrow> int \<Rightarrow> ExecResult" where
  "exec_result sandboxID executionID r st code =
     \<lparr>xrSandboxID = sandboxID, xrExecutionID = executionID, xrStatus = st, xrExitCode = code, xrMessage = coMessage r, xrStdout = coStdout r,
      xrStderr = coStderr r\<rparr>"

definition ExecAndWait :: "exec_api \<Rightarrow> string \<Rightarrow> string list \<Rightarrow> ExecOptions \<Rightarrow> exec_call list \<times> (go_error + ExecResult)" where
  "ExecAndWait api sandbox command opts =
     (let sandboxID = trim_space sandbox in
      if sandboxID = [] then ([], Inl (plain_error ''missing sandbox_id''))
      else if command = [] then ([], Inl (plain_error ''missing command''))
      else
        (let req = \<lparr>ceSandboxID = sandboxID, ceCommand = command, ceOptions = (if xoTTY opts then Some (0, True) else None), ceKind = KIND_UNSPECIFIED\<rparr>;
             calls = [CallCreateExecution req] in
         case eaCreate api req of
           Inl e \<Rightarrow> (calls, Inl e)
         | Inr created \<Rightarrow>
             (let executionID = (case created of None \<Rightarrow> [] | Some ex \<Rightarrow> trim_space (peExecutionID ex)) in
              if executionID = [] then (calls, Inl (plain_error ''create execution returned empty execution_id''))
              else
                (let calls = calls @ [CallStreamExecution sandboxID executionID] in
                 case eaStream api sandboxID executionID of
                   Inl e \<Rightarrow> (calls @ [CallCancelExecution sandboxID executionID], Inl e)
                 | Inr (events, Some e) \<Rightarrow> (calls @ [CallCancelExecution sandboxID executionID], Inl e)
                 | Inr (events, None) \<Rightarrow>
                     (let r = collect opts events in
                      if coStatus r \<noteq> EXECUTION_UNSPECIFIED then (calls, Inr (exec_result sandboxID executionID r (coStatus r) (coExitCode r)))
                      else
                        (let calls = calls @ [CallGetExecution sandboxID executionID] in
                         case eaGet api sandboxID executionID of
                           Inl e \<Rightarrow> (calls, Inl e)
                         | Inr None \<Rightarrow> (calls, Inr (exec_result sandboxID executionID r (coStatus r) (coExitCode r)))
                         | Inr (Some ex) \<Rightarrow> (calls, Inr (exec_result sandboxID executionID r (peStatus ex) (peExitCode ex)))))))))"

section \<open>The lock of a key\<close>

text \<open>
  \<open>lockEnsureKey\<close>. A lock is an object with a gate, a channel of capacity one that holds a token while the lock is free, and the number
  of goroutines that refer to it; objects have an address. A goroutine waits at the gate, holds the lock, or has put the token back
  and has still to drop its reference. The sections under the client's mutex and the two uses of the gate are the steps.
\<close>

record ensureKeyLock =
  lkToken :: bool
  lkRefs :: nat

datatype lock_user = Waiting string nat | Holding string nat | Leaving string nat

record lock_state =
  lsLocks :: "(string, nat) gomap"
  lsHeap :: "(nat, ensureKeyLock) gomap"
  lsNext :: nat
  lsUsers :: "(nat, lock_user) gomap"

definition no_locks :: lock_state where
  "no_locks = \<lparr>lsLocks = [], lsHeap = [], lsNext = 0, lsUsers = []\<rparr>"

definition lock_enter :: "nat \<Rightarrow> string \<Rightarrow> lock_state \<Rightarrow> lock_state" where
  "lock_enter g key st =
     (case get (lsLocks st) key of
        Some l \<Rightarrow>
          (case get (lsHeap st) l of
             None \<Rightarrow> st
           | Some lk \<Rightarrow> st\<lparr>lsHeap := put l (lk\<lparr>lkRefs := lkRefs lk + 1\<rparr>) (lsHeap st), lsUsers := put g (Waiting key l) (lsUsers st)\<rparr>)
      | None \<Rightarrow>
          (let l = lsNext st in
           st\<lparr>lsLocks := put key l (lsLocks st), lsHeap := put l \<lparr>lkToken = True, lkRefs = 1\<rparr> (lsHeap st), lsNext := l + 1,
              lsUsers := put g (Waiting key l) (lsUsers st)\<rparr>))"

text \<open>The section that drops a reference, after a cancellation or after the token was put back.\<close>

definition lock_drop :: "nat \<Rightarrow> string \<Rightarrow> nat \<Rightarrow> lock_state \<Rightarrow> lock_state" where
  "lock_drop g key l st =
     (case get (lsHeap st) l of
        None \<Rightarrow> st
      | Some lk \<Rightarrow>
          (let refs = lkRefs lk - 1 in
           st\<lparr>lsHeap := put l (lk\<lparr>lkRefs := refs\<rparr>) (lsHeap st),
              lsLocks := (if refs = 0 then del key (lsLocks st) else lsLocks st),
              lsUsers := del g (lsUsers st)\<rparr>))"

definition set_token :: "nat \<Rightarrow> bool \<Rightarrow> lock_state \<Rightarrow> lock_state" where
  "set_token l b st = (case get (lsHeap st) l of None \<Rightarrow> st | Some lk \<Rightarrow> st\<lparr>lsHeap := put l (lk\<lparr>lkToken := b\<rparr>) (lsHeap st)\<rparr>)"

definition token_of :: "lock_state \<Rightarrow> nat \<Rightarrow> bool" where
  "token_of st l = (case get (lsHeap st) l of None \<Rightarrow> False | Some lk \<Rightarrow> lkToken lk)"

inductive lock_step :: "lock_state \<Rightarrow> lock_state \<Rightarrow> bool" where
  enter: "get (lsUsers st) g = None \<Longrightarrow> lock_step st (lock_enter g key st)"
| cancelled: "get (lsUsers st) g = Some (Waiting key l) \<Longrightarrow> lock_step st (lock_drop g key l st)"
| acquire: "get (lsUsers st) g = Some (Waiting key l) \<Longrightarrow> token_of st l \<Longrightarrow>
    lock_step st ((set_token l False st)\<lparr>lsUsers := put g (Holding key l) (lsUsers st)\<rparr>)"
| release: "get (lsUsers st) g = Some (Holding key l) \<Longrightarrow> \<not> token_of st l \<Longrightarrow>
    lock_step st ((set_token l True st)\<lparr>lsUsers := put g (Leaving key l) (lsUsers st)\<rparr>)"
| unref: "get (lsUsers st) g = Some (Leaving key l) \<Longrightarrow> lock_step st (lock_drop g key l st)"

inductive lock_reach :: "lock_state \<Rightarrow> bool" where
  start: "lock_reach no_locks"
| step: "lock_reach st \<Longrightarrow> lock_step st st' \<Longrightarrow> lock_reach st'"

end
