(* ===== verification/Client_Props.thy ===== *)
theory Client_Props
  imports Client
begin

text \<open>Properties of the client: the lock of a key, the sandbox of a key over the server's answers, and the result of a command.\<close>

section \<open>The lock of a key excludes\<close>

fun key_of :: "lock_user \<Rightarrow> string" where
  "key_of (Waiting k l) = k" | "key_of (Holding k l) = k" | "key_of (Leaving k l) = k"

fun lock_of :: "lock_user \<Rightarrow> nat" where
  "lock_of (Waiting k l) = l" | "lock_of (Holding k l) = l" | "lock_of (Leaving k l) = l"

fun holding :: "lock_user \<Rightarrow> bool" where
  "holding (Holding k l) = True" | "holding _ = False"

definition users_of :: "lock_state \<Rightarrow> nat \<Rightarrow> nat set" where
  "users_of st l = {g. \<exists>u. get (lsUsers st) g = Some u \<and> lock_of u = l}"

definition holders_of :: "lock_state \<Rightarrow> nat \<Rightarrow> nat set" where
  "holders_of st l = {g. \<exists>u. get (lsUsers st) g = Some u \<and> lock_of u = l \<and> holding u}"

definition lock_ok :: "lock_state \<Rightarrow> nat \<Rightarrow> ensureKeyLock \<Rightarrow> bool" where
  "lock_ok st l lk \<longleftrightarrow> l < lsNext st \<and> lkRefs lk = card (users_of st l) \<and> (if lkToken lk then holders_of st l = {} else \<exists>g. holders_of st l = {g})"

definition lock_inv :: "lock_state \<Rightarrow> bool" where
  "lock_inv st \<longleftrightarrow>
     (\<forall>g u. get (lsUsers st) g = Some u \<longrightarrow> get (lsLocks st) (key_of u) = Some (lock_of u)) \<and>
     (\<forall>l lk. get (lsHeap st) l = Some lk \<longrightarrow> lock_ok st l lk) \<and>
     (\<forall>key l. get (lsLocks st) key = Some l \<longrightarrow> (\<exists>lk. get (lsHeap st) l = Some lk) \<and> users_of st l \<noteq> {} \<and> l < lsNext st) \<and>
     (\<forall>key key' l. get (lsLocks st) key = Some l \<longrightarrow> get (lsLocks st) key' = Some l \<longrightarrow> key = key')"

lemma finite_users [simp]: "finite (users_of st l)"
proof (rule finite_subset)
  show "users_of st l \<subseteq> set (map fst (lsUsers st))" by (auto simp: users_of_def get_def dest: map_of_SomeD intro: rev_image_eqI)
qed simp

text \<open>How the sets move when the state of one goroutine changes.\<close>

lemma users_put: "users_of (st\<lparr>lsUsers := put g u U\<rparr>) l =
    (if lock_of u = l then insert g (users_of (st\<lparr>lsUsers := U\<rparr>) l) else users_of (st\<lparr>lsUsers := U\<rparr>) l - {g})"
  by (auto simp: users_of_def)

lemma holders_put: "holders_of (st\<lparr>lsUsers := put g u U\<rparr>) l =
    (if lock_of u = l \<and> holding u then insert g (holders_of (st\<lparr>lsUsers := U\<rparr>) l) else holders_of (st\<lparr>lsUsers := U\<rparr>) l - {g})"
  by (auto simp: holders_of_def)

lemma users_del: "users_of (st\<lparr>lsUsers := del g U\<rparr>) l = users_of (st\<lparr>lsUsers := U\<rparr>) l - {g}"
  by (auto simp: users_of_def)

lemma holders_del: "holders_of (st\<lparr>lsUsers := del g U\<rparr>) l = holders_of (st\<lparr>lsUsers := U\<rparr>) l - {g}"
  by (auto simp: holders_of_def)

lemma sets_only_users [simp]:
  "users_of (st\<lparr>lsLocks := L\<rparr>) l = users_of st l" "users_of (st\<lparr>lsHeap := H\<rparr>) l = users_of st l" "users_of (st\<lparr>lsNext := n\<rparr>) l = users_of st l"
  "holders_of (st\<lparr>lsLocks := L\<rparr>) l = holders_of st l" "holders_of (st\<lparr>lsHeap := H\<rparr>) l = holders_of st l" "holders_of (st\<lparr>lsNext := n\<rparr>) l = holders_of st l"
  "users_of (st\<lparr>lsUsers := lsUsers st\<rparr>) l = users_of st l" "holders_of (st\<lparr>lsUsers := lsUsers st\<rparr>) l = holders_of st l"
  by (simp_all add: users_of_def holders_of_def)

lemma lock_invE:
  assumes "lock_inv st"
  shows "get (lsUsers st) g = Some u \<Longrightarrow> get (lsLocks st) (key_of u) = Some (lock_of u)"
    and "get (lsHeap st) l = Some lk \<Longrightarrow> lock_ok st l lk"
    and "get (lsLocks st) key = Some l \<Longrightarrow> \<exists>lk. get (lsHeap st) l = Some lk"
    and "get (lsLocks st) key = Some l \<Longrightarrow> users_of st l \<noteq> {}"
    and "get (lsLocks st) key = Some l \<Longrightarrow> get (lsLocks st) key' = Some l \<Longrightarrow> key = key'"
    and "get (lsLocks st) key = Some l \<Longrightarrow> l < lsNext st"
  using assms unfolding lock_inv_def by blast+

lemma lock_invI:
  assumes "\<And>g u. get (lsUsers st) g = Some u \<Longrightarrow> get (lsLocks st) (key_of u) = Some (lock_of u)"
    and "\<And>l lk. get (lsHeap st) l = Some lk \<Longrightarrow> lock_ok st l lk"
    and "\<And>key l. get (lsLocks st) key = Some l \<Longrightarrow> (\<exists>lk. get (lsHeap st) l = Some lk) \<and> users_of st l \<noteq> {} \<and> l < lsNext st"
    and "\<And>key key' l. get (lsLocks st) key = Some l \<Longrightarrow> get (lsLocks st) key' = Some l \<Longrightarrow> key = key'"
  shows "lock_inv st"
  using assms unfolding lock_inv_def by blast

lemma not_user: "get (lsUsers st) g = None \<Longrightarrow> g \<notin> users_of st l \<and> g \<notin> holders_of st l"
  by (simp add: users_of_def holders_of_def)

lemma no_lock_no_user:
  assumes inv: "lock_inv st" and "\<And>key. get (lsLocks st) key \<noteq> Some l"
  shows "users_of st l = {}" "holders_of st l = {}"
  using assms(2) lock_invE(1) [OF inv] by (fastforce simp: users_of_def holders_of_def)+

lemma inv_enter:
  assumes inv: "lock_inv st" and g: "get (lsUsers st) g = None"
  shows "lock_inv (lock_enter g key st)"
proof (cases "get (lsLocks st) key")
  case (Some l)
  obtain lk where lk: "get (lsHeap st) l = Some lk" using lock_invE(3) [OF inv Some] by blast
  let ?st = "st\<lparr>lsHeap := put l (lk\<lparr>lkRefs := lkRefs lk + 1\<rparr>) (lsHeap st), lsUsers := put g (Waiting key l) (lsUsers st)\<rparr>"
  have u: "users_of ?st x = (if x = l then insert g (users_of st l) else users_of st x)" for x using not_user [OF g] by (simp add: users_put)
  have h: "holders_of ?st x = holders_of st x" for x using not_user [OF g] by (simp add: holders_put)
  have "lock_inv ?st"
  proof (rule lock_invI)
    fix g' v assume "get (lsUsers ?st) g' = Some v"
    then show "get (lsLocks ?st) (key_of v) = Some (lock_of v)" using Some lock_invE(1) [OF inv] by (auto split: if_splits)
  next
    fix x xk assume "get (lsHeap ?st) x = Some xk"
    then show "lock_ok ?st x xk" unfolding lock_ok_def u h
      using lock_invE(2) [OF inv, of x] lock_invE(2) [OF inv lk] not_user [OF g, of l] by (cases "x = l") (auto simp: lock_ok_def)
  next
    fix k x assume "get (lsLocks ?st) k = Some x"
    then show "(\<exists>xk. get (lsHeap ?st) x = Some xk) \<and> users_of ?st x \<noteq> {} \<and> x < lsNext ?st"
      unfolding u using lock_invE(3,4,6) [OF inv, of k x] by simp
  next
    fix k k' x assume "get (lsLocks ?st) k = Some x" "get (lsLocks ?st) k' = Some x"
    then show "k = k'" using lock_invE(5) [OF inv, of k x k'] by simp
  qed
  then show ?thesis by (simp add: lock_enter_def Some lk)
next
  case None
  let ?l = "lsNext st"
  let ?st = "st\<lparr>lsLocks := put key ?l (lsLocks st), lsHeap := put ?l \<lparr>lkToken = True, lkRefs = 1\<rparr> (lsHeap st), lsNext := ?l + 1,
    lsUsers := put g (Waiting key ?l) (lsUsers st)\<rparr>"
  have new: "get (lsLocks st) k \<noteq> Some ?l" for k using lock_invE(6) [OF inv, of k ?l] by blast
  have u: "users_of ?st x = (if x = ?l then {g} else users_of st x)" for x
    using not_user [OF g] no_lock_no_user(1) [OF inv new] by (simp add: users_put)
  have h: "holders_of ?st x = holders_of st x" for x using not_user [OF g] by (simp add: holders_put)
  have "lock_inv ?st"
  proof (rule lock_invI)
    fix g' v assume "get (lsUsers ?st) g' = Some v"
    then show "get (lsLocks ?st) (key_of v) = Some (lock_of v)" using None lock_invE(1) [OF inv] by (auto split: if_splits)
  next
    fix x xk assume "get (lsHeap ?st) x = Some xk"
    then show "lock_ok ?st x xk" unfolding lock_ok_def u h
      using lock_invE(2) [OF inv, of x] no_lock_no_user(2) [OF inv new] by (cases "x = ?l") (auto simp: lock_ok_def)
  next
    fix k x assume "get (lsLocks ?st) k = Some x"
    then show "(\<exists>xk. get (lsHeap ?st) x = Some xk) \<and> users_of ?st x \<noteq> {} \<and> x < lsNext ?st"
      unfolding u using lock_invE(3,4,6) [OF inv, of k x] by (auto split: if_splits)
  next
    fix k k' x assume "get (lsLocks ?st) k = Some x" "get (lsLocks ?st) k' = Some x"
    then show "k = k'" using lock_invE(5) [OF inv, of k x k'] new by (auto split: if_splits)
  qed
  then show ?thesis by (simp add: lock_enter_def None Let_def)
qed

text \<open>A goroutine that does not hold the lock drops its reference; the last one takes the lock out of the table.\<close>

lemma inv_drop:
  assumes inv: "lock_inv st" and g: "get (lsUsers st) g = Some v" and v: "key_of v = key" "lock_of v = l" "\<not> holding v"
  shows "lock_inv (lock_drop g key l st)"
proof -
  have k: "get (lsLocks st) key = Some l" using lock_invE(1) [OF inv g] v by simp
  obtain lk where lk: "get (lsHeap st) l = Some lk" using lock_invE(3) [OF inv k] by blast
  have gu: "g \<in> users_of st l" "g \<notin> holders_of st x" "x \<noteq> l \<Longrightarrow> g \<notin> users_of st x" for x using g v by (auto simp: users_of_def holders_of_def)
  have refs: "lkRefs lk = card (users_of st l)" using lock_invE(2) [OF inv lk] by (simp add: lock_ok_def)
  have gone: "lkRefs lk - 1 = 0 \<longleftrightarrow> users_of st l = {g}"
  proof -
    have "lkRefs lk - 1 = card (users_of st l - {g})" using refs gu(1) by simp
    then have "lkRefs lk - 1 = 0 \<longleftrightarrow> users_of st l - {g} = {}" by (simp only: card_eq_0_iff) simp
    then show ?thesis using gu(1) by blast
  qed
  let ?st = "st\<lparr>lsHeap := put l (lk\<lparr>lkRefs := lkRefs lk - 1\<rparr>) (lsHeap st), lsLocks := (if lkRefs lk - 1 = 0 then del key (lsLocks st) else lsLocks st),
    lsUsers := del g (lsUsers st)\<rparr>"
  have u: "users_of ?st x = users_of st x - {g}" for x by (simp add: users_del)
  have h: "holders_of ?st x = holders_of st x" for x using gu(2) by (simp add: holders_del)
  have "lock_inv ?st"
  proof (rule lock_invI)
    fix g' w assume "get (lsUsers ?st) g' = Some w"
    then have w: "g' \<noteq> g" "get (lsUsers st) g' = Some w" by (auto split: if_splits)
    have kw: "get (lsLocks st) (key_of w) = Some (lock_of w)" by (rule lock_invE(1) [OF inv w(2)])
    have "key_of w \<noteq> key" if "users_of st l = {g}"
    proof
      assume "key_of w = key"
      then have "g' \<in> users_of st l" using kw k w(2) by (auto simp: users_of_def)
      then show False using that w(1) by blast
    qed
    then show "get (lsLocks ?st) (key_of w) = Some (lock_of w)" using kw gone by auto
  next
    fix x xk assume "get (lsHeap ?st) x = Some xk"
    then show "lock_ok ?st x xk" unfolding lock_ok_def u h
      using lock_invE(2) [OF inv, of x] lock_invE(2) [OF inv lk] gu by (cases "x = l") (auto simp: lock_ok_def)
  next
    fix k' x assume "get (lsLocks ?st) k' = Some x"
    then have k': "get (lsLocks st) k' = Some x" "users_of st l = {g} \<Longrightarrow> k' \<noteq> key" using gone by (auto split: if_splits)
    have "users_of st x - {g} \<noteq> {}"
    proof (cases "x = l")
      case True
      then have "k' = key" using lock_invE(5) [OF inv k, of k'] k'(1) by simp
      then show ?thesis using k'(2) gu(1) True by blast
    next
      case False
      then show ?thesis using lock_invE(4) [OF inv k'(1)] gu(3) [OF False] by blast
    qed
    then show "(\<exists>xk. get (lsHeap ?st) x = Some xk) \<and> users_of ?st x \<noteq> {} \<and> x < lsNext ?st"
      unfolding u using lock_invE(3,6) [OF inv k'(1)] by simp
  next
    fix k1 k2 x assume "get (lsLocks ?st) k1 = Some x" "get (lsLocks ?st) k2 = Some x"
    then show "k1 = k2" using lock_invE(5) [OF inv, of k1 x k2] by (auto split: if_splits)
  qed
  then show ?thesis by (simp add: lock_drop_def lk Let_def)
qed

text \<open>A goroutine takes the token, or puts it back.\<close>

lemma inv_token:
  assumes inv: "lock_inv st" and g: "get (lsUsers st) g = Some v" and v: "key_of w = key_of v" "lock_of w = lock_of v" "lock_of v = l" "holding w = (\<not> b)"
    and tok: "token_of st l \<noteq> b" and hv: "holding v = b"
  shows "lock_inv ((set_token l b st)\<lparr>lsUsers := put g w (lsUsers st)\<rparr>)"
proof -
  have k: "get (lsLocks st) (key_of v) = Some l" using lock_invE(1) [OF inv g] v by simp
  obtain lk where lk: "get (lsHeap st) l = Some lk" using lock_invE(3) [OF inv k] by blast
  have tk: "lkToken lk \<noteq> b" using tok by (simp add: token_of_def lk)
  have gu: "g \<in> users_of st l" "x \<noteq> l \<Longrightarrow> g \<notin> users_of st x" "x \<noteq> l \<Longrightarrow> g \<notin> holders_of st x" "g \<in> holders_of st l \<longleftrightarrow> b" for x
    using g v hv by (auto simp: users_of_def holders_of_def)
  let ?st = "st\<lparr>lsHeap := put l (lk\<lparr>lkToken := b\<rparr>) (lsHeap st), lsUsers := put g w (lsUsers st)\<rparr>"
  have u: "users_of ?st x = users_of st x" for x using gu(1,2) v by (auto simp: users_put)
  have h: "holders_of ?st x = (if x = l then if b then {} else {g} else holders_of st x)" for x
    using gu(3,4) v tk lock_invE(2) [OF inv lk] by (cases b) (auto simp: holders_put lock_ok_def)
  have "lock_inv ?st"
  proof (rule lock_invI)
    fix g' z assume "get (lsUsers ?st) g' = Some z"
    then show "get (lsLocks ?st) (key_of z) = Some (lock_of z)" using k v lock_invE(1) [OF inv, of g' z] by (auto split: if_splits)
  next
    fix x xk assume "get (lsHeap ?st) x = Some xk"
    then show "lock_ok ?st x xk" unfolding lock_ok_def u h
      using lock_invE(2) [OF inv, of x] lock_invE(2) [OF inv lk] by (cases "x = l") (auto simp: lock_ok_def)
  next
    fix k' x assume "get (lsLocks ?st) k' = Some x"
    then show "(\<exists>xk. get (lsHeap ?st) x = Some xk) \<and> users_of ?st x \<noteq> {} \<and> x < lsNext ?st"
      unfolding u using lock_invE(3,4,6) [OF inv, of k' x] by simp
  next
    fix k1 k2 x assume "get (lsLocks ?st) k1 = Some x" "get (lsLocks ?st) k2 = Some x"
    then show "k1 = k2" using lock_invE(5) [OF inv, of k1 x k2] by simp
  qed
  then show ?thesis by (simp add: set_token_def lk)
qed

lemma inv_lock_step: "lock_step st st' \<Longrightarrow> lock_inv st \<Longrightarrow> lock_inv st'"
proof (induction rule: lock_step.induct)
  case (enter st g key)
  then show ?case using inv_enter by blast
next
  case (cancelled st g key l)
  then show ?case using inv_drop [of st g "Waiting key l" key l] by simp
next
  case (acquire st g key l)
  then show ?case using inv_token [of st g "Waiting key l" "Holding key l" l False] by simp
next
  case (release st g key l)
  then show ?case using inv_token [of st g "Holding key l" "Leaving key l" l True] by simp
next
  case (unref st g key l)
  then show ?case using inv_drop [of st g "Leaving key l" key l] by simp
qed

lemma lock_reach_inv: "lock_reach st \<Longrightarrow> lock_inv st"
proof (induction rule: lock_reach.induct)
  case start
  show ?case by (rule lock_invI) (simp_all add: no_locks_def get_def)
next
  case (step st st')
  then show ?case using inv_lock_step by blast
qed

text \<open>C31. One \<open>EnsureSandbox\<close> at a time for a key, over every interleaving of entering, cancellation, acquiring and releasing: two goroutines
  never hold the lock of the same key, although locks are made and removed on the fly; the holder can always put its token back; a
  goroutine that waits while nobody holds the key's lock finds the token; and a key in use by nobody has no lock in the table.\<close>

theorem ensure_key_exclusive:
  assumes "lock_reach st"
  shows "(get (lsUsers st) g = Some (Holding key l) \<longrightarrow> get (lsUsers st) g' = Some (Holding key l') \<longrightarrow> g = g') \<and>
    (get (lsUsers st) g = Some (Holding key l) \<longrightarrow> \<not> token_of st l) \<and>
    (get (lsUsers st) g = Some (Waiting key l) \<longrightarrow> (\<forall>h m. get (lsUsers st) h \<noteq> Some (Holding key m)) \<longrightarrow> token_of st l) \<and>
    ((\<forall>h u. get (lsUsers st) h = Some u \<longrightarrow> key_of u \<noteq> key) \<longrightarrow> get (lsLocks st) key = None)"
proof -
  note inv = lock_reach_inv [OF assms]
  have holder: "\<exists>lk. get (lsHeap st) l = Some lk \<and> \<not> lkToken lk \<and> holders_of st l = {h}" if "get (lsUsers st) h = Some (Holding key l)" for h l
  proof -
    have k: "get (lsLocks st) key = Some l" using lock_invE(1) [OF inv that] by simp
    obtain lk where lk: "get (lsHeap st) l = Some lk" using lock_invE(3) [OF inv k] by blast
    have "h \<in> holders_of st l" using that by (auto simp: holders_of_def)
    then show ?thesis using lock_invE(2) [OF inv lk] lk by (auto simp: lock_ok_def split: if_splits)
  qed
  have one: "g = g'" if "get (lsUsers st) g = Some (Holding key l)" "get (lsUsers st) g' = Some (Holding key l')"
  proof -
    have "l = l'" using lock_invE(1) [OF inv that(1)] lock_invE(1) [OF inv that(2)] by simp
    then show ?thesis using holder [OF that(1)] holder [OF that(2)] by auto
  qed
  have wait: "token_of st l" if w: "get (lsUsers st) g = Some (Waiting key l)" and no: "\<And>h m. get (lsUsers st) h \<noteq> Some (Holding key m)"
  proof -
    have k: "get (lsLocks st) key = Some l" using lock_invE(1) [OF inv w] by simp
    obtain lk where lk: "get (lsHeap st) l = Some lk" using lock_invE(3) [OF inv k] by blast
    have "holders_of st l = {}"
    proof (rule ccontr)
      assume "holders_of st l \<noteq> {}"
      then obtain h u where h: "get (lsUsers st) h = Some u" "lock_of u = l" "holding u" by (auto simp: holders_of_def)
      then obtain k' where u: "u = Holding k' l" by (cases u) auto
      have "get (lsLocks st) k' = Some l" using lock_invE(1) [OF inv h(1)] u by simp
      then have "k' = key" using lock_invE(5) [OF inv k] by blast
      then show False using no h(1) u by blast
    qed
    then show ?thesis using lock_invE(2) [OF inv lk] by (auto simp: lock_ok_def token_of_def lk split: if_splits)
  qed
  have free: "get (lsLocks st) key = None" if no: "\<And>h u. get (lsUsers st) h = Some u \<Longrightarrow> key_of u \<noteq> key"
  proof (rule ccontr)
    assume "get (lsLocks st) key \<noteq> None"
    then obtain l where k: "get (lsLocks st) key = Some l" by blast
    then obtain h u where h: "get (lsUsers st) h = Some u" "lock_of u = l" using lock_invE(4) [OF inv k] by (auto simp: users_of_def)
    have "get (lsLocks st) (key_of u) = Some l" using lock_invE(1) [OF inv h(1)] h(2) by simp
    then show False using lock_invE(5) [OF inv k] no [OF h(1)] by blast
  qed
  have held: "\<not> token_of st l" if "get (lsUsers st) g = Some (Holding key l)" using holder [OF that] by (auto simp: token_of_def)
  show ?thesis using one held wait free by blast
qed

definition ex_locks :: "lock_state list" where
  "ex_locks = (let s1 = lock_enter 1 ''k'' no_locks; s2 = lock_enter 2 ''k'' s1;
     s3 = (set_token 0 False s2)\<lparr>lsUsers := put 1 (Holding ''k'' 0) (lsUsers s2)\<rparr> in [s1, s2, s3])"

theorem ensure_key_exclusive_witness:
  "get (lsUsers (ex_locks ! 2)) 1 = Some (Holding ''k'' 0) \<and> get (lsUsers (ex_locks ! 2)) 2 = Some (Waiting ''k'' 0) \<and>
    get (lsUsers (ex_locks ! 2)) 2 \<noteq> Some (Holding ''k'' 0)"
proof -
  have e: "ex_locks ! 0 = lock_enter 1 ''k'' no_locks" "ex_locks ! 1 = lock_enter 2 ''k'' (ex_locks ! 0)"
    "ex_locks ! 2 = (set_token 0 False (ex_locks ! 1))\<lparr>lsUsers := put 1 (Holding ''k'' 0) (lsUsers (ex_locks ! 1))\<rparr>"
    by (simp_all add: ex_locks_def Let_def)
  have u: "get (lsUsers no_locks) 1 = None" "get (lsUsers (ex_locks ! 0)) 2 = None" "get (lsUsers (ex_locks ! 1)) 1 = Some (Waiting ''k'' 0)"
    "token_of (ex_locks ! 1) 0" "get (lsUsers (ex_locks ! 2)) 1 = Some (Holding ''k'' 0)" "get (lsUsers (ex_locks ! 2)) 2 = Some (Waiting ''k'' 0)"
    by code_simp+
  have "lock_reach (ex_locks ! 0)" unfolding e(1) by (rule lock_reach.step [OF lock_reach.start lock_step.enter [OF u(1)]])
  then have "lock_reach (ex_locks ! 1)" unfolding e(2) by (rule lock_reach.step [OF _ lock_step.enter [OF u(2)]])
  then have "lock_reach (ex_locks ! 2)" unfolding e(3) by (rule lock_reach.step [OF _ lock_step.acquire [OF u(3,4)]])
  then have "get (lsUsers (ex_locks ! 2)) 2 \<noteq> Some (Holding ''k'' 0)"
    using ensure_key_exclusive [of "ex_locks ! 2" 1 "''k''" 0 2 0] u(5) by auto
  then show ?thesis using u(5,6) by blast
qed

section \<open>The sandbox of a key\<close>

text \<open>The characters of the identifiers of sandboxes: the base 32 alphabet of type ids, digits, and the separators after the prefix.\<close>

definition typeid_char :: "char \<Rightarrow> bool" where
  "typeid_char c \<longleftrightarrow> c \<in> set ''0123456789abcdefghjkmnpqrstvwxyz_-''"

text \<open>An answer of the server as the client receives it; \<open>connectText\<close> is the text of a Connect error.\<close>

definition over_wire :: "(connect_code \<Rightarrow> string \<Rightarrow> string) \<Rightarrow> 'a rpc \<Rightarrow> go_error + 'a option" where
  "over_wire connectText r =
     (case r of
        Inl (code, msg) \<Rightarrow> Inl \<lparr>geText = connectText code msg, geConnect = Some (code, msg), geContext = None\<rparr>
      | Inr x \<Rightarrow> Inr (Some x))"

lemma contains_str_set: "contains_str s t \<Longrightarrow> set t \<subseteq> set s"
proof (induction s)
  case (Cons c s)
  then show ?case using set_take_subset [of "length t" "c # s"] by (fastforce simp: has_prefix_def)
qed simp

lemma typeid_chars:
  assumes "typeid_char c"
  shows "lower_char c = c" "quote_char c = [c]" "\<not> is_space c" "c \<noteq> CHR ''i''" "c \<noteq> CHR ''l''" "c \<noteq> CHR ''o''" "c \<noteq> CHR ''u''"
proof -
  have "list_all (\<lambda>c. lower_char c = c \<and> quote_char c = [c] \<and> \<not> is_space c \<and> c \<noteq> CHR ''i'' \<and> c \<noteq> CHR ''l'' \<and> c \<noteq> CHR ''o'' \<and> c \<noteq> CHR ''u'')
    ''0123456789abcdefghjkmnpqrstvwxyz_-''" by code_simp
  then show "lower_char c = c" "quote_char c = [c]" "\<not> is_space c" "c \<noteq> CHR ''i''" "c \<noteq> CHR ''l''" "c \<noteq> CHR ''o''" "c \<noteq> CHR ''u''"
    using assms unfolding typeid_char_def list_all_iff by blast+
qed

lemma typeid_string:
  assumes "\<forall>c \<in> set i. typeid_char c"
  shows "to_lower (go_quote i) = go_quote i" "go_quote i = CHR 0x22 # i @ [CHR 0x22]" "trim_space i = i"
proof -
  have q: "concat (map quote_char i) = i" using assms by (induction i) (auto simp: typeid_chars)
  then show g: "go_quote i = CHR 0x22 # i @ [CHR 0x22]" by (simp add: go_quote_def)
  have "map lower_char i = i" using assms by (induction i) (auto simp: typeid_chars)
  moreover have "lower_char CHR 0x22 = CHR 0x22" by code_simp
  ultimately show "to_lower (go_quote i) = go_quote i" by (simp add: g to_lower_def)
  show "trim_space i = i" using assms typeid_chars(3) by (intro trim_space_trimmed trimmed_if_no_space) blast
qed

lemma prefix_steps: "has_prefix s []" "has_prefix [] (d # t) = False" "has_prefix (c # s) (d # t) = (c = d \<and> has_prefix s t)"
  by (auto simp: has_prefix_def)

text \<open>A text of Latin letters followed by a quoted identifier contains a word only where the letters do.\<close>

lemma typeid_no_word:
  assumes "\<forall>c \<in> set i. typeid_char c" and "CHR ''i'' \<in> set t \<or> CHR ''l'' \<in> set t \<or> CHR ''o'' \<in> set t \<or> CHR ''u'' \<in> set t"
  shows "\<not> contains_str (i @ [CHR 0x22]) t"
proof
  assume "contains_str (i @ [CHR 0x22]) t"
  then have sub: "set t \<subseteq> insert CHR 0x22 (set i)" using contains_str_set [of "i @ [CHR 0x22]" t] by simp
  have "CHR ''i'' \<notin> set i" "CHR ''l'' \<notin> set i" "CHR ''o'' \<notin> set i" "CHR ''u'' \<notin> set i"
    using bspec [OF assms(1), of "CHR ''i''"] bspec [OF assms(1), of "CHR ''l''"] bspec [OF assms(1), of "CHR ''o''"] bspec [OF assms(1), of "CHR ''u''"]
      typeid_chars(4) [of "CHR ''i''"] typeid_chars(5) [of "CHR ''l''"] typeid_chars(6) [of "CHR ''o''"] typeid_chars(7) [of "CHR ''u''"]
    by blast+
  then have "CHR ''i'' \<notin> set t" "CHR ''l'' \<notin> set t" "CHR ''o'' \<notin> set t" "CHR ''u'' \<notin> set t"
    using subsetD [OF sub] by auto
  then show False using assms(2) by blast
qed

lemma unknown_is_not_found:
  assumes "\<forall>c \<in> set i. typeid_char c" and "etWrapped et (UnknownSandbox i) = None"
  shows "toConnectError (svc_go_error et creating (UnknownSandbox i)) = (CodeNotFound, ''unknown sandbox '' @ go_quote i)"
proof -
  have low: "to_lower ''unknown sandbox '' = ''unknown sandbox ''" by code_simp
  have w: "\<not> contains_str (''unknown sandbox '' @ go_quote i) ''missing ''" "\<not> contains_str (''unknown sandbox '' @ go_quote i) ''invalid''"
    using typeid_no_word [OF assms(1)] by (simp_all add: typeid_string(2) [OF assms(1)] prefix_steps)
  have "contains_str (''unknown sandbox '' @ go_quote i) ''unknown sandbox''" by (simp add: prefix_steps)
  then show ?thesis using w assms(2)
    unfolding toConnectError_def svc_go_error_def svc_error_text_def by (simp add: Let_def low typeid_string(1) [OF assms(1)] del: contains_str.simps append.simps)
qed

lemma not_found_classified:
  assumes "\<forall>c \<in> set i. typeid_char c" and "geText e = ''not_found: '' @ ''unknown sandbox '' @ go_quote i" and "geConnect e = Some (CodeNotFound, msg)"
  shows "ErrCode (Some e) = ErrorCodeNotFound"
proof -
  have low: "to_lower ''not_found: '' = ''not_found: ''" "to_lower ''unknown sandbox '' = ''unknown sandbox ''" by code_simp+
  have "classifyAppErrorCode (''not_found: '' @ ''unknown sandbox '' @ go_quote i) = ErrorCodeUnknown"
    using typeid_no_word [OF assms(1)] by (simp add: classifyAppErrorCode_def typeid_string(2) [OF assms(1)] prefix_steps)
  then show ?thesis using assms(2,3) unfolding ErrCode_def by (simp add: Let_def low typeid_string(1) [OF assms(1)] del: append.simps)
qed

text \<open>C32. The sandbox of a key follows the service. For a key that has a sandbox, \<open>EnsureSandbox\<close> asks the server for it: if the service still
  has it, ready and with the wanted backend, it is returned and nothing is created; in every other case, also when the service has
  forgotten it (an error the server classifies and the client reads back through the Connect error), the key gets a new sandbox.
  The identifier is one that the service issues; \<open>connectText\<close> is the text of the Connect library for an error.\<close>

theorem EnsureSandbox_follows_service:
  assumes server: "\<And>i. saGet api i = over_wire connectText (serve_GetSandbox et i s)"
    and connect: "\<And>msg. connectText CodeNotFound msg = ''not_found: '' @ msg" and plain: "\<And>i. etWrapped et (UnknownSandbox i) = None"
    and key: "trim_space key \<noteq> []" "get (clKeys c) (trim_space key) = Some i" and i: "i \<noteq> []" "\<forall>c \<in> set i. typeid_char c"
    and any_id: "trim_space (eoSandboxID opts) = []"
  shows "EnsureSandbox api None key opts c =
    (let asked = c\<lparr>clCalls := clCalls c @ [CallGetSandbox i]\<rparr>; new = create_for_key api (trim_space key) opts (clearSandboxKey (trim_space key) asked) in
     case get (svcSandboxes s) i of
       None \<Rightarrow> new
     | Some sb \<Rightarrow>
         if sbStatus sb = SANDBOX_READY \<and> (trim_space (eoBackend opts) = [] \<or> sbBackend sb = trim_space (eoBackend opts))
         then (asked, Inr \<lparr>shID = sbID sb, shBackend = sbBackend sb, shStatus = SANDBOX_READY, shCreated = False\<rparr>) else new)"
proof -
  have t: "trim_space i = i" by (rule typeid_string(3) [OF i(2)])
  show ?thesis
  proof (cases "get (svcSandboxes s) i")
    case None
    then have "saGet api i = Inl \<lparr>geText = ''not_found: '' @ ''unknown sandbox '' @ go_quote i,
        geConnect = Some (CodeNotFound, ''unknown sandbox '' @ go_quote i), geContext = None\<rparr>"
      using unknown_is_not_found [OF i(2) plain] i(1) by (simp add: server over_wire_def serve_GetSandbox_def respond_def GetSandbox_def t connect del: append.simps)
    moreover have "ErrCode (Some \<lparr>geText = ''not_found: '' @ ''unknown sandbox '' @ go_quote i,
        geConnect = Some (CodeNotFound, ''unknown sandbox '' @ go_quote i), geContext = None\<rparr>) = ErrorCodeNotFound"
      by (rule not_found_classified [OF i(2)]) (simp_all del: append.simps)
    ultimately show ?thesis using None key any_id
      by (simp add: EnsureSandbox_def Let_def lookupSandboxKey_def fetchSandboxHandle_def del: append.simps)
  next
    case (Some sb)
    then have "saGet api i = Inr (Some (cloneSandboxLocked sb))"
      using i(1) by (simp add: server over_wire_def serve_GetSandbox_def respond_def GetSandbox_def t)
    then show ?thesis using Some key any_id
      by (auto simp: EnsureSandbox_def Let_def lookupSandboxKey_def fetchSandboxHandle_def handle_of_def isReusableSandboxStatus_def cloneSandboxLocked_def)
  qed
qed

definition ex_texts :: error_texts where
  "ex_texts = \<lparr>etPolicy = (\<lambda>_. ''policy''), etKind = (\<lambda>_. ''kind''), etWrapped = (\<lambda>_. None)\<rparr>"

definition ex_connect_text :: "connect_code \<Rightarrow> string \<Rightarrow> string" where
  "ex_connect_text code msg = (if code = CodeNotFound then ''not_found: '' @ msg else ''internal: '' @ msg)"

definition ex_keys :: client_state where
  "ex_keys = \<lparr>clKeys = [(''job'', ''cr_01h'')], clCalls = []\<rparr>"

definition ex_options :: EnsureSandboxOptions where
  "ex_options = \<lparr>eoBackend = [], eoPolicy = None, eoLaunchSeconds = None, eoSandboxID = []\<rparr>"

theorem EnsureSandbox_follows_service_witness:
  "\<forall>cfg. snd (EnsureSandbox \<lparr>saGet = (\<lambda>i. over_wire ex_connect_text (serve_GetSandbox ex_texts i (sysService (initial cfg [])))), saCreate = (\<lambda>_. Inr None)\<rparr>
     None ''job'' ex_options ex_keys) = Inl (plain_error ''missing policy'')"
proof
  fix cfg
  let ?s = "sysService (initial cfg [])"
  let ?api = "\<lparr>saGet = (\<lambda>i. over_wire ex_connect_text (serve_GetSandbox ex_texts i ?s)), saCreate = (\<lambda>_. Inr None)\<rparr>"
  have t: "trim_space ''job'' = ''job''" by code_simp
  have k: "get (clKeys ex_keys) (trim_space ''job'') = Some ''cr_01h''" "trim_space (eoSandboxID ex_options) = []" by code_simp+
  have i: "\<forall>c \<in> set ''cr_01h''. typeid_char c" by code_simp
  have "EnsureSandbox ?api None ''job'' ex_options ex_keys =
      create_for_key ?api ''job'' ex_options (clearSandboxKey ''job'' (ex_keys\<lparr>clCalls := clCalls ex_keys @ [CallGetSandbox ''cr_01h'']\<rparr>))"
    by (subst EnsureSandbox_follows_service [where i = "''cr_01h''" and s = ?s and connectText = ex_connect_text and et = ex_texts])
      (simp_all add: k i t ex_connect_text_def ex_texts_def initial_def get_def ex_keys_def Let_def)
  then show "snd (EnsureSandbox ?api None ''job'' ex_options ex_keys) = Inl (plain_error ''missing policy'')"
    by (simp add: create_for_key_def ex_options_def)
qed

section \<open>The result of a command\<close>

text \<open>The events that the turns of a stream take from the channel, to its regular end.\<close>

fun taken :: "'e turn list \<Rightarrow> 'e list" where
  "taken (TUpdate e # ts) = e # taken ts"
| "taken (TDone es # ts) = es"
| "taken _ = []"

lemma send_events_out: "send_events sendErr sent es = (sent', r) \<Longrightarrow> prefix sent' (sent @ es) \<and> (r = None \<longrightarrow> sent' = sent @ es)"
proof (induction sendErr sent es rule: send_events.induct)
  case (2 sendErr sent e es)
  show ?case
  proof (cases "sendErr (length sent)")
    case None
    then show ?thesis using 2 by simp
  next
    case (Some x)
    then have "sent' = sent" "r = Some x" using "2.prems" by simp_all
    then show ?thesis by simp
  qed
qed simp

lemma follow_out:
  "follow sendErr name sent ts = (sent', r) \<Longrightarrow> prefix sent' (sent @ taken ts) \<and> (r = Some EndOK \<longrightarrow> sent' = sent @ taken ts)"
proof (induction sendErr name sent ts rule: follow.induct)
  case (3 sendErr name sent e ts)
  then show ?case by (auto split: option.splits)
next
  case (5 sendErr name sent es ts)
  then show ?case using send_events_out [of sendErr sent es] by (auto simp: drain_events_def split: prod.splits option.splits)
qed auto

lemma stream_body_out:
  assumes "stream_body sendErr name True history turns = (sent, r)"
  shows "prefix sent (history @ taken turns) \<and> (r = Some EndOK \<longrightarrow> sent = history @ taken turns)"
proof -
  obtain sent' x where h: "send_events sendErr [] history = (sent', x)" by fastforce
  show ?thesis
  proof (cases x)
    case None
    then have "sent' = history" "follow sendErr name history turns = (sent, r)" using assms h send_events_out [OF h] by (auto simp: stream_body_def)
    then show ?thesis using follow_out by blast
  next
    case (Some e)
    then have "sent' = sent" "r = Some (EndSend e)" using assms h by (auto simp: stream_body_def)
    then show ?thesis using send_events_out [OF h] by (auto intro: prefix_prefix)
  qed
qed

fun out_of :: "ExecutionStreamEvent \<Rightarrow> string" where
  "out_of e = (case eePayload e of PStdout b \<Rightarrow> b | _ \<Rightarrow> [])"

fun err_of :: "ExecutionStreamEvent \<Rightarrow> string" where
  "err_of e = (case eePayload e of PStderr b \<Rightarrow> b | _ \<Rightarrow> [])"

lemma collect_outputs:
  "coStdout (fold (collect_event opts) (map Some es) r) = coStdout r @ concat (map out_of es) \<and>
   coStderr (fold (collect_event opts) (map Some es) r) = coStderr r @ concat (map err_of es)"
proof (induction es arbitrary: r)
  case (Cons e es)
  then show ?case by (cases "eePayload e") (auto simp: collect_event_def Let_def)
qed simp

text \<open>The result of a command is what the execution did. Let the server stream an execution to the client and end the stream regularly,
  after the subscription's history and the events taken from the channel, the last of which is the exit. Then \<open>ExecAndWait\<close> returns that
  exit code and status and message, and as output all chunks of these events in order; the writers of the options have received the
  same, and nothing is cancelled.\<close>

theorem ExecAndWait_complete:
  assumes streamed: "stream_body sendErr name True history turns = (sent, Some EndOK)"
    and events: "history @ taken turns = es @ [e]" "eePayload e = PExit code st msg" "st \<noteq> EXECUTION_UNSPECIFIED"
    and api: "eaCreate api = (\<lambda>req. Inr (Some ex))" "eaStream api (trim_space sandbox) (trim_space (peExecutionID ex)) = Inr (map Some sent, None)"
    and args: "trim_space sandbox \<noteq> []" "command \<noteq> []" "trim_space (peExecutionID ex) \<noteq> []"
  shows "snd (ExecAndWait api sandbox command opts) =
      Inr \<lparr>xrSandboxID = trim_space sandbox, xrExecutionID = trim_space (peExecutionID ex), xrStatus = st, xrExitCode = code, xrMessage = msg,
           xrStdout = concat (map out_of (history @ taken turns)), xrStderr = concat (map err_of (history @ taken turns))\<rparr> \<and>
    (\<forall>i j. CallCancelExecution i j \<notin> set (fst (ExecAndWait api sandbox command opts)))"
proof -
  have sent: "sent = es @ [e]" using stream_body_out [OF streamed] events(1) by simp
  let ?r = "collect opts (map Some sent)"
  have out: "coStdout ?r = concat (map out_of (history @ taken turns))" "coStderr ?r = concat (map err_of (history @ taken turns))"
    using collect_outputs [of opts sent nothing_collected] unfolding events(1) sent by (simp_all add: collect_def nothing_collected_def)
  have last: "coStatus ?r = st" "coExitCode ?r = code" "coMessage ?r = msg"
    using events(2,3) by (simp_all add: collect_def sent collect_event_def Let_def)
  show ?thesis using api args events(3) out last by (simp add: ExecAndWait_def Let_def exec_result_def)
qed

definition ex_event :: "exec_payload \<Rightarrow> ExecutionStreamEvent" where
  "ex_event p = \<lparr>eeSandboxID = ''s'', eeExecutionID = ''x'', eeStatus = RUNNING, eePayload = p, eeImageRef = [], eeImageDigest = [], eeOccurredAt = None\<rparr>"

definition ex_exec :: PbExecution where
  "ex_exec = \<lparr>peExecutionID = ''x'', peSandboxID = ''s'', peStatus = QUEUED, peCommand = [''sh''], peExitCode = 0, peTty = False, peRunID = [],
     peKind = KIND_BATCH, peStartedAt = None, peFinishedAt = None\<rparr>"

definition ex_stream_api :: "ExecutionStreamEvent list \<Rightarrow> exec_api" where
  "ex_stream_api sent = \<lparr>eaCreate = (\<lambda>_. Inr (Some ex_exec)), eaStream = (\<lambda>_ _. Inr (map Some sent, None)), eaGet = (\<lambda>_ _. Inr None)\<rparr>"

definition ex_run :: ExecOptions where
  "ex_run = \<lparr>xoStdout = False, xoStderr = False, xoTTY = False\<rparr>"

theorem ExecAndWait_complete_witness:
  "snd (ExecAndWait (ex_stream_api [ex_event (PStdout ''a''), ex_event (PStdout ''b''), ex_event (PExit 3 FAILED ''m'')]) ''s'' [''sh''] ex_run) =
     Inr \<lparr>xrSandboxID = ''s'', xrExecutionID = ''x'', xrStatus = FAILED, xrExitCode = 3, xrMessage = ''m'', xrStdout = ''ab'', xrStderr = []\<rparr>"
proof -
  let ?sent = "[ex_event (PStdout ''a''), ex_event (PStdout ''b''), ex_event (PExit 3 FAILED ''m'')]"
  have body: "stream_body (\<lambda>_. None) ''execution'' True [ex_event (PStdout ''a'')] [TUpdate (ex_event (PStdout ''b'')), TDone [ex_event (PExit 3 FAILED ''m'')]] =
      (?sent, Some EndOK)"
    by (simp add: stream_body_def drain_events_def)
  have t: "trim_space ''s'' = ''s''" "trim_space (peExecutionID ex_exec) = ''x''" by code_simp+
  have "snd (ExecAndWait (ex_stream_api ?sent) ''s'' [''sh''] ex_run) =
      Inr \<lparr>xrSandboxID = trim_space ''s'', xrExecutionID = trim_space (peExecutionID ex_exec), xrStatus = FAILED, xrExitCode = 3, xrMessage = ''m'',
        xrStdout = concat (map out_of ?sent), xrStderr = concat (map err_of ?sent)\<rparr>"
    using ExecAndWait_complete [OF body, where es = "[ex_event (PStdout ''a''), ex_event (PStdout ''b'')]" and e = "ex_event (PExit 3 FAILED ''m'')" and code = 3
        and st = FAILED and msg = "''m''" and ex = ex_exec and api = "ex_stream_api ?sent" and sandbox = "''s''" and command = "[''sh'']" and opts = ex_run]
    by (simp add: t ex_stream_api_def ex_event_def)
  then show ?thesis by (simp add: t ex_event_def)
qed

text \<open>
  Not every regular end is complete. A subscriber that was dropped because its buffer was full, and sees the closed channel only after the
  execution has ended, ends its stream without an error; the client then takes the last event it has seen for the result.
\<close>

lemma dropped_stream_looks_complete:
  "stream_body (\<lambda>_. None) ''execution'' True [] [TUpdate (ex_event (PStdout ''a'')), TClosed True] = ([ex_event (PStdout ''a'')], Some EndOK)"
  "snd (ExecAndWait (ex_stream_api [ex_event (PStdout ''a'')]) ''s'' [''sh''] ex_run) =
     Inr \<lparr>xrSandboxID = ''s'', xrExecutionID = ''x'', xrStatus = RUNNING, xrExitCode = 0, xrMessage = [], xrStdout = ''a'', xrStderr = []\<rparr>"
proof -
  show "stream_body (\<lambda>_. None) ''execution'' True [] [TUpdate (ex_event (PStdout ''a'')), TClosed True] = ([ex_event (PStdout ''a'')], Some EndOK)"
    by (simp add: stream_body_def streamSubscriberDroppedErr_def)
  show "snd (ExecAndWait (ex_stream_api [ex_event (PStdout ''a'')]) ''s'' [''sh''] ex_run) =
     Inr \<lparr>xrSandboxID = ''s'', xrExecutionID = ''x'', xrStatus = RUNNING, xrExitCode = 0, xrMessage = [], xrStdout = ''a'', xrStderr = []\<rparr>"
    by code_simp
qed

end
