(* ===== verification/Darwinvz.thy ===== *)
theory Darwinvz
  imports Firecracker_Run Bootassets
begin

text \<open>
  \<open>internal/backend/darwinvz\<close>: the backend for macOS. A run starts a helper process, has it boot a virtual machine on a copy of a prepared
  root file system, and runs one command in it over a proxy socket. Host actions are those of \<open>Firecracker_Host\<close>; in place of a firewall the
  host has helper processes and their machines. The helper, \<open>debugfs\<close>, \<open>codesign\<close> and the operating system are arguments.
\<close>

section \<open>Policy, boot arguments, environment\<close>

definition allowRulesIgnoredWarning :: string where
  "allowRulesIgnoredWarning = ''darwin-vz ignores sandbox.network.allow entries; allowlist egress filtering is not implemented''"

definition guestNetworkUnavailableWarning :: string where
  "guestNetworkUnavailableWarning = ''darwin-vz guest networking is enabled without host-side egress filtering''"

definition evaluateNetworkPolicy :: "string \<Rightarrow> nat \<Rightarrow> string + string" where
  "evaluateNetworkPolicy networkDefault allowCount =
     (if trim_space networkDefault \<noteq> ''deny'' then Inl (''darwin-vz backend requires deny-by-default policy, got '' @ go_quote networkDefault)
      else if allowCount > 0 then Inr allowRulesIgnoredWarning
      else Inr [])"

definition dvz_sanitizeKernelArgValue :: "string \<Rightarrow> string" where
  "dvz_sanitizeKernelArgValue value = filter (\<lambda>r. is_alnum r \<or> r = CHR ''.'' \<or> r = CHR ''_'' \<or> r = CHR ''-'') value"

definition dvz_dockerServiceBootArgs :: "CompiledPolicy option \<Rightarrow> FirecrackerConfig \<Rightarrow> string" where
  "dvz_dockerServiceBootArgs compiled cfg =
     (if compiled = None \<or> \<not> RequiresDockerService compiled then ''cleanroom_service_docker_required=0''
      else
        (let startupSeconds = (if fcDockerStartupSeconds cfg \<le> 0 then 20 else fcDockerStartupSeconds cfg);
             storageDriver = dvz_sanitizeKernelArgValue (trim_space (fcDockerStorageDriver cfg));
             storageDriver = (if storageDriver = [] then ''vfs'' else storageDriver);
             iptables = (if fcDockerIPTables cfg then 1 else 0)
         in ''cleanroom_service_docker_required=1 cleanroom_service_docker_startup_timeout='' @ itoa startupSeconds @
            '' cleanroom_service_docker_storage_driver='' @ storageDriver @
            '' cleanroom_service_docker_iptables='' @ itoa iptables))"

definition defaultGatewayHost :: string where
  "defaultGatewayHost = ''192.168.64.1''"

text \<open>The entries of the git configuration: a rewrite for each host that the policy allows on port 443, and the header with the token.\<close>

fun rewrite_entries :: "string \<Rightarrow> int \<Rightarrow> AllowRule list \<Rightarrow> (string \<times> string) list" where
  "rewrite_entries gatewayHost gatewayPort [] = []"
| "rewrite_entries gatewayHost gatewayPort (rule # rules) =
     (let host = trim_space (arHost rule) in
      if host = [] \<or> \<not> list_ex (\<lambda>port. port = 443) (arPorts rule) then rewrite_entries gatewayHost gatewayPort rules
      else (''url.http://'' @ gatewayHost @ '':'' @ itoa gatewayPort @ ''/git/'' @ host @ ''/.insteadOf'', ''https://'' @ host @ ''/'') #
        rewrite_entries gatewayHost gatewayPort rules)"

definition config_env :: "(string \<times> string) list \<Rightarrow> string list" where
  "config_env entries =
     (''GIT_CONFIG_COUNT='' @ itoa (int (length entries))) #
     concat (map (\<lambda>(i, k, v). [''GIT_CONFIG_KEY_'' @ itoa (int i) @ ''='' @ k, ''GIT_CONFIG_VALUE_'' @ itoa (int i) @ ''='' @ v]) (enumerate 0 entries))"

definition token_entry :: "string \<Rightarrow> int \<Rightarrow> string \<Rightarrow> string \<times> string" where
  "token_entry gatewayHost gatewayPort scopeToken =
     (''http.http://'' @ gatewayHost @ '':'' @ itoa gatewayPort @ ''/.extraHeader'', ''X-Cleanroom-Scope-Token: '' @ scopeToken)"

definition dvz_gatewayEnvVars :: "CompiledPolicy option \<Rightarrow> string \<Rightarrow> int \<Rightarrow> string \<Rightarrow> string list" where
  "dvz_gatewayEnvVars compiled gatewayHost gatewayPort scopeToken =
     (case compiled of
        None \<Rightarrow> []
      | Some p \<Rightarrow>
          (let gatewayHost = trim_space gatewayHost; scopeToken = trim_space scopeToken in
           if gatewayPort \<le> 0 \<or> gatewayHost = [] \<or> scopeToken = [] then []
           else
             (let entries = rewrite_entries gatewayHost gatewayPort (cpAllow p) in
              if entries = [] then [] else config_env (entries @ [token_entry gatewayHost gatewayPort scopeToken]))))"

section \<open>Helper process\<close>

definition resolveHelperCandidatePath :: "(string \<Rightarrow> string + string) \<Rightarrow> (string \<Rightarrow> string + bool) \<Rightarrow> string \<Rightarrow> string + string" where
  "resolveHelperCandidatePath absPath statDir path =
     (let trimmed = trim_space path in
      if trimmed = [] then Inl ''path is empty''
      else
        and_then (map_error (\<lambda>e. ''resolve absolute path: '' @ e) (absPath trimmed)) (\<lambda>p.
        and_then (statDir p) (\<lambda>isDir. if isDir then Inl (p @ '' is a directory'') else Inr p)))"

definition resolveHelperBinaryPathWith ::
  "(string \<Rightarrow> string + string) \<Rightarrow> string \<Rightarrow> (string \<Rightarrow> string + string) \<Rightarrow> string + string \<Rightarrow> (string \<Rightarrow> string + bool) \<Rightarrow> string + string" where
  "resolveHelperBinaryPathWith absPath envOverride lookPath executable statDir =
     (let override = trim_space envOverride in
      if override \<noteq> []
      then map_error (\<lambda>e. ''resolve darwin-vz helper from CLEANROOM_DARWIN_VZ_HELPER='' @ go_quote override @ '': '' @ e)
             (resolveHelperCandidatePath absPath statDir override)
      else
        (let sibling = (case executable of Inl e \<Rightarrow> Inl e
               | Inr self \<Rightarrow> resolveHelperCandidatePath absPath statDir (path_join [path_dir self, ''cleanroom-darwin-vz''])) in
         case sibling of
           Inr path \<Rightarrow> Inr path
         | Inl _ \<Rightarrow>
             (case lookPath ''cleanroom-darwin-vz'' of
                Inr path \<Rightarrow> Inr path
              | Inl _ \<Rightarrow> Inl ''cleanroom-darwin-vz helper binary was not found (set CLEANROOM_DARWIN_VZ_HELPER or install cleanroom-darwin-vz in PATH)'')))"

definition ensureUnixSocketPathFits :: "string \<Rightarrow> string option" where
  "ensureUnixSocketPathFits path =
     (if length path \<le> 103 then None else Some (''max length is 103 bytes, got '' @ itoa (int (length path))))"

text \<open>In nanoseconds; \<open>time.Duration\<close> is 64 bits wide.\<close>

definition helperStartupTimeout :: "int \<Rightarrow> int" where
  "helperStartupTimeout launchSeconds =
     (if launchSeconds \<le> 0 then 10 * 10 ^ 9
      else (let timeout = to_int64 (launchSeconds * 10 ^ 9) in if timeout < 5 * 10 ^ 9 then 5 * 10 ^ 9 else timeout))"

text \<open>
  The two polling loops. A turn is whether the dial connected and what the loop saw next; a dial loop without a process
  never sees one exit. \<open>None\<close> is a loop that still waits at the end of the turns.
\<close>

fun waitForHelperControlSocket :: "(bool \<times> dial_event) list \<Rightarrow> (string + unit) option" where
  "waitForHelperControlSocket [] = None"
| "waitForHelperControlSocket ((connected, ev) # rest) =
     (if connected then Some (Inr ())
      else
        (case ev of
           ProcessExited None \<Rightarrow> Some (Inl ''helper exited before control socket was ready'')
         | ProcessExited (Some e) \<Rightarrow> Some (Inl (''helper exited before control socket was ready: '' @ e))
         | CtxDone e \<Rightarrow> Some (Inl (''timed out waiting for helper control socket: '' @ e))
         | Tick \<Rightarrow> waitForHelperControlSocket rest))"

fun dialUnixSocketWithRetry :: "string \<Rightarrow> (bool \<times> string option) list \<Rightarrow> (string + unit) option" where
  "dialUnixSocketWithRetry socketPath [] = None"
| "dialUnixSocketWithRetry socketPath ((connected, ctxErr) # rest) =
     (if connected then Some (Inr ())
      else
        (case ctxErr of
           Some e \<Rightarrow> Some (Inl (''timed out waiting for unix socket '' @ go_quote socketPath @ '': '' @ e))
         | None \<Rightarrow> dialUnixSocketWithRetry socketPath rest))"

record helperControlRequest =
  hqOp :: string
  hqKernelPath :: string
  hqRootFSPath :: string
  hqBootArgs :: string
  hqVCPUs :: int
  hqMemoryMiB :: int
  hqGuestPort :: "32 word"
  hqLaunchSeconds :: int
  hqRunDir :: string
  hqProxySocketPath :: string
  hqConsoleLogPath :: string
  hqVMID :: string

record helperControlResponse =
  hrOK :: bool
  hrError :: string
  hrVMID :: string
  hrProxySocketPath :: string

definition decorateError :: "string \<Rightarrow> string \<Rightarrow> string" where
  "decorateError helperStderr e =
     (let stderr = trim_space helperStderr in if stderr = [] then e else e @ '' (helper stderr: '' @ stderr @ '')'')"

text \<open>The exchange of a request: the errors of the deadline, of sending and of decoding, or the response.\<close>

record helper_exchange =
  hxDeadline :: "string option"
  hxSend :: "string option"
  hxReply :: "string + helperControlResponse"

definition helper_failure :: "string \<Rightarrow> string \<Rightarrow> string" where
  "helper_failure op e =
     (let msg = trim_space e; msg = (if msg = [] then ''unknown helper error'' else msg);
          msg = (if contains_str msg ''com.apple.security.virtualization''
                 then msg @ ''; run `mise run install` to install and sign cleanroom-darwin-vz with the virtualization entitlement'' else msg)
      in ''helper '' @ op @ '' failed: '' @ msg)"

definition helper_request :: "string \<Rightarrow> helper_exchange \<Rightarrow> helperControlRequest \<Rightarrow> string + helperControlResponse" where
  "helper_request stderr x req =
     (case hxDeadline x of
        Some e \<Rightarrow> Inl (''set helper control deadline: '' @ e)
      | None \<Rightarrow>
      case hxSend x of
        Some e \<Rightarrow> Inl (decorateError stderr (''send helper request '' @ go_quote (hqOp req) @ '': '' @ e))
      | None \<Rightarrow>
      case hxReply x of
        Inl e \<Rightarrow> Inl (decorateError stderr (''decode helper response '' @ go_quote (hqOp req) @ '': '' @ e))
      | Inr res \<Rightarrow> if hrOK res then Inr res else Inl (decorateError stderr (helper_failure (hqOp req) (hrError res))))"

text \<open>How a process ended: by an \<open>ExitError\<close> with a wait status (whether it is the interrupt), or with another error.\<close>

datatype exit_err = WaitStatusErr bool string | OtherExitErr string

definition exit_err_text :: "exit_err \<Rightarrow> string" where
  "exit_err_text e = (case e of WaitStatusErr _ t \<Rightarrow> t | OtherExitErr t \<Rightarrow> t)"

definition isExpectedInterruptExit :: "exit_err \<Rightarrow> bool" where
  "isExpectedInterruptExit e = (case e of WaitStatusErr interrupt _ \<Rightarrow> interrupt | OtherExitErr t \<Rightarrow> contains_str t ''signal: interrupt'')"

definition normalizeHelperExitErr :: "string \<Rightarrow> exit_err option \<Rightarrow> string option" where
  "normalizeHelperExitErr stderr err =
     (case err of
        None \<Rightarrow> None
      | Some e \<Rightarrow> if isExpectedInterruptExit e then None else Some (decorateError stderr (''helper exited: '' @ exit_err_text e)))"

text \<open>
  What the channel of the process gives in \<open>closeProcess\<close>: at once, within two seconds of the interrupt, within two seconds of the kill
  (\<open>None\<close> for nothing). The result is the error and whether the process is gone.
\<close>

record process_end =
  peAtOnce :: "exit_err option option"
  peInterrupted :: "exit_err option option"
  peKilled :: "exit_err option option"

definition closeProcess :: "string \<Rightarrow> process_end \<Rightarrow> string option \<times> bool" where
  "closeProcess stderr p =
     (case peAtOnce p of
        Some e \<Rightarrow> (normalizeHelperExitErr stderr e, True)
      | None \<Rightarrow>
      case peInterrupted p of
        Some e \<Rightarrow> (normalizeHelperExitErr stderr e, True)
      | None \<Rightarrow>
      case peKilled p of
        Some e \<Rightarrow> (normalizeHelperExitErr stderr e, True)
      | None \<Rightarrow> (Some (decorateError stderr ''timed out waiting for helper process exit''), False))"

section \<open>Files in an ext4 image\<close>

text \<open>
  The host of this backend: helper processes (by their control socket), the sockets of helpers that run a machine, the lines the
  backend has sent to the caller's standard error, and what it has sent to guests.
\<close>

record dvz_procs =
  dpHelpers :: "string list"
  dpVMs :: "string list"
  dpStderr :: "string list"
  dpSent :: "json list"

type_synonym 'a dvz = "(dvz_procs, 'a) act"

text \<open>
  What the backend asks of its surroundings. \<open>ddDebugFS\<close> is the tool itself: for a command, opened for writing or not, the host's files and
  the image it gives the new image, its output and its error. \<open>ddRemove\<close> is the error of removing a file that is there.
\<close>

record dvz_deps =
  ddOS :: os
  ddRemove :: "string \<Rightarrow> string option"
  ddGOOS :: string
  ddGOARCH :: string
  ddRunBase :: "string + string"
  ddCacheBase :: "string + string"
  ddAbs :: "string \<Rightarrow> string + string"
  ddKernel :: "string \<Rightarrow> string + string \<times> string"
  ddManager :: "string + (string \<Rightarrow> string + imageArtifact)"
  ddAgent :: "string + string \<times> string"
  ddDebugFSPath :: "string + string"
  ddDebugFS :: "bool \<Rightarrow> string \<Rightarrow> (string, string) gomap \<Rightarrow> string \<Rightarrow> string \<times> string \<times> string option"
  ddScript :: string
  ddNanos :: int

fun output_error :: "string list \<Rightarrow> string" where
  "output_error [] = []"
| "output_error (line # rest) =
     (let msg = trim_space line; lower = to_lower msg in
      if msg = [] \<or> has_prefix lower ''debugfs '' then output_error rest
      else if contains_str lower ''file not found'' \<or> contains_str lower ''ext2_lookup'' \<or> contains_str lower ''command not found'' \<or>
        contains_str lower ''no such file or directory'' \<or> contains_str lower ''not a directory''
      then msg else output_error rest)"

definition debugFSCommandOutputError :: "string \<Rightarrow> string" where
  "debugFSCommandOutputError output =
     (let trimmed = trim_space output in if trimmed = [] then [] else output_error (split_on (CHR 0x0A) trimmed))"

definition runDebugFS :: "dvz_deps \<Rightarrow> string \<Rightarrow> bool \<Rightarrow> string \<Rightarrow> unit dvz" where
  "runDebugFS d imagePath writable command h =
     (case ddDebugFSPath d of
        Inl e \<Rightarrow> (h, Inl (''find debugfs for runtime rootfs preparation: '' @ e))
      | Inr _ \<Rightarrow>
          (let image0 = (case get (fhFiles h) imagePath of None \<Rightarrow> [] | Some c \<Rightarrow> c);
               (image1, output, err) = ddDebugFS d writable command (fhFiles h) image0;
               h = (if writable \<and> get (fhFiles h) imagePath \<noteq> None then put_file imagePath image1 h else h);
               trimmedOutput = trim_space output in
           case err of
             Some e \<Rightarrow> (h, Inl (''debugfs command '' @ go_quote command @ '' failed: '' @ e @ '': '' @ trimmedOutput))
           | None \<Rightarrow>
               (let outputErr = debugFSCommandOutputError trimmedOutput in
                if outputErr \<noteq> [] then (h, Inl (''debugfs command '' @ go_quote command @ '' reported error: '' @ outputErr)) else (h, Inr ()))))"

definition ext4PathExists :: "dvz_deps \<Rightarrow> string \<Rightarrow> string \<Rightarrow> dvz_procs fc_host \<Rightarrow> bool" where
  "ext4PathExists d imagePath path h \<longleftrightarrow> snd (runDebugFS d imagePath False (''stat '' @ path) h) = Inr ()"

fun ext4_dirs :: "dvz_deps \<Rightarrow> string \<Rightarrow> string \<Rightarrow> string list \<Rightarrow> unit dvz" where
  "ext4_dirs d imagePath cur [] h = (h, Inr ())"
| "ext4_dirs d imagePath cur (part # parts) h =
     (if trim_space part = [] then ext4_dirs d imagePath cur parts h
      else
        (let cur = cur @ ''/'' @ part in
         if ext4PathExists d imagePath cur h then ext4_dirs d imagePath cur parts h
         else bind_act (runDebugFS d imagePath True (''mkdir '' @ cur)) (\<lambda>_. ext4_dirs d imagePath cur parts) h))"

definition ensureExt4Dir :: "dvz_deps \<Rightarrow> string \<Rightarrow> string \<Rightarrow> unit dvz" where
  "ensureExt4Dir d imagePath dir =
     (let cleanDir = Clean dir in
      if cleanDir = ''.'' \<or> cleanDir = ''/'' then ret ()
      else
        (let cleanDir = (if has_prefix cleanDir ''/'' then cleanDir else ''/'' @ cleanDir) in
         ext4_dirs d imagePath [] (split_on CHR ''/'' (trim_prefix cleanDir ''/''))))"

fun octal :: "nat \<Rightarrow> string" where
  "octal n = (if n < 8 then [digit_char n] else octal (n div 8) @ [digit_char (n mod 8)])"

declare octal.simps [simp del]

text \<open>\<open>mode\<close> are the permission bits; the regular-file bit is \<open>0o100000\<close>, and \<open>%#o\<close> writes a leading zero.\<close>

definition injectFileIntoExt4 :: "dvz_deps \<Rightarrow> string \<Rightarrow> string \<Rightarrow> string \<Rightarrow> nat \<Rightarrow> unit dvz" where
  "injectFileIntoExt4 d imagePath srcPath dstPath mode =
     (let cleanDst = Clean dstPath in
      if \<not> has_prefix cleanDst ''/'' then throw (''destination path '' @ go_quote dstPath @ '' must be absolute'')
      else
        bind_act (ensureExt4Dir d imagePath (path_dir cleanDst)) (\<lambda>_.
        bind_act (\<lambda>h. (if ext4PathExists d imagePath cleanDst h then fst (runDebugFS d imagePath True (''rm '' @ cleanDst) h) else h, Inr ())) (\<lambda>_.
        bind_act (runDebugFS d imagePath True (''write '' @ srcPath @ '' '' @ cleanDst)) (\<lambda>_.
        runDebugFS d imagePath True (''set_inode_field '' @ cleanDst @ '' mode 0'' @ octal (8 ^ 5 + mode mod 8 ^ 3))))))"

definition dvz_guestInitScriptPath :: string where
  "dvz_guestInitScriptPath = ''/sbin/cleanroom-init''"

definition dvz_guestAgentPath :: string where
  "dvz_guestAgentPath = ''/usr/local/bin/cleanroom-guest-agent''"

definition dvz_preparedRuntimeRootFSVersion :: string where
  "dvz_preparedRuntimeRootFSVersion = ''v8-darwin-vz''"

definition dvz_guestInitScriptTemplate :: string where
  "dvz_guestInitScriptTemplate = concat (map (\<lambda>line. line @ [CHR 0x0A])
     [''#!/bin/sh'',
      ''set -eu'',
      [],
      ''mount -t proc proc /proc 2>/dev/null || true'',
      ''mount -t sysfs sysfs /sys 2>/dev/null || true'',
      ''mount -t devtmpfs devtmpfs /dev 2>/dev/null || true'',
      ''mkdir -p /dev/pts /run /tmp'',
      ''mount -t devpts devpts /dev/pts 2>/dev/null || true'',
      ''mount -t tmpfs tmpfs /run 2>/dev/null || true'',
      ''mount -t tmpfs tmpfs /tmp 2>/dev/null || true'',
      [],
      ''export HOME=/root'',
      ''export PATH=/usr/local/sbin:/usr/local/bin:/usr/sbin:/usr/bin:/sbin:/bin:/root/.local/bin'',
      [],
      ''setup_guest_network() {'',
      ''  NET_IFACE='' @ [CHR 0x22] @ [CHR 0x22],
      ''  for cand in /sys/class/net/*; do'',
      ''    name='' @ [CHR 0x22] @ ''$(basename '' @ [CHR 0x22] @ ''$cand'' @ [CHR 0x22] @ '')'' @ [CHR 0x22],
      ''    if [ '' @ [CHR 0x22] @ ''$name'' @ [CHR 0x22] @ '' = '' @ [CHR 0x22] @ ''lo'' @ [CHR 0x22] @ '' ]; then'',
      ''      continue'',
      ''    fi'',
      ''    NET_IFACE='' @ [CHR 0x22] @ ''$name'' @ [CHR 0x22],
      ''    break'',
      ''  done'',
      ''  if [ -z '' @ [CHR 0x22] @ ''$NET_IFACE'' @ [CHR 0x22] @ '' ]; then'',
      ''    return 0'',
      ''  fi'',
      [],
      ''  if command -v ip >/dev/null 2>&1; then'',
      ''    ip link set '' @ [CHR 0x22] @ ''$NET_IFACE'' @ [CHR 0x22] @ '' up 2>/dev/null || true'',
      ''  elif command -v ifconfig >/dev/null 2>&1; then'',
      ''    ifconfig '' @ [CHR 0x22] @ ''$NET_IFACE'' @ [CHR 0x22] @ '' up 2>/dev/null || true'',
      ''  fi'',
      [],
      ''  if command -v udhcpc >/dev/null 2>&1; then'',
      ''    udhcpc -q -n -t 3 -T 3 -i '' @ [CHR 0x22] @ ''$NET_IFACE'' @ [CHR 0x22] @ '' >/dev/null 2>&1 || true'',
      ''  elif command -v dhclient >/dev/null 2>&1; then'',
      ''    dhclient -1 '' @ [CHR 0x22] @ ''$NET_IFACE'' @ [CHR 0x22] @ '' >/dev/null 2>&1 || true'',
      ''  fi'',
      ''}'',
      ''setup_guest_network'',
      [],
      ''cmdline='' @ [CHR 0x22] @ ''$(cat /proc/cmdline 2>/dev/null || true)'' @ [CHR 0x22],
      ''arg_value() {'',
      ''  key='' @ [CHR 0x22] @ ''$1'' @ [CHR 0x22],
      ''  for token in $cmdline; do'',
      ''    case '' @ [CHR 0x22] @ ''$token'' @ [CHR 0x22] @ '' in'',
      ''      '' @ [CHR 0x22] @ ''$key'' @ [CHR 0x22] @ ''=*) echo '' @ [CHR 0x22] @ ''${token#*=}'' @ [CHR 0x22] @ ''; return 0 ;;'',
      ''    esac'',
      ''  done'',
      ''  return 1'',
      ''}'',
      [],
      ''GUEST_PORT='' @ [CHR 0x22] @ ''$(arg_value cleanroom_guest_port || true)'' @ [CHR 0x22],
      ''if [ -z '' @ [CHR 0x22] @ ''$GUEST_PORT'' @ [CHR 0x22] @ '' ]; then'',
      ''  GUEST_PORT='' @ [CHR 0x22] @ ''10700'' @ [CHR 0x22],
      ''fi'',
      ''export CLEANROOM_VSOCK_PORT='' @ [CHR 0x22] @ ''$GUEST_PORT'' @ [CHR 0x22],
      [],
      ''DOCKER_REQUIRED='' @ [CHR 0x22] @ ''$(arg_value cleanroom_service_docker_required || true)'' @ [CHR 0x22],
      ''if [ '' @ [CHR 0x22] @ ''$DOCKER_REQUIRED'' @ [CHR 0x22] @ '' = '' @ [CHR 0x22] @ ''1'' @ [CHR 0x22] @ '' ] && command -v dockerd >/dev/null 2>&1; then'',
      ''  DOCKER_STARTUP_TIMEOUT='' @ [CHR 0x22] @ ''$(arg_value cleanroom_service_docker_startup_timeout || true)'' @ [CHR 0x22],
      ''  case '' @ [CHR 0x22] @ ''$DOCKER_STARTUP_TIMEOUT'' @ [CHR 0x22] @ '' in'',
      ''    '' @ [CHR 0x27] @ [CHR 0x27] @ ''|*[!0-9]*) DOCKER_STARTUP_TIMEOUT='' @ [CHR 0x22] @ ''20'' @ [CHR 0x22] @ '' ;;'',
      ''  esac'',
      ''  if [ '' @ [CHR 0x22] @ ''$DOCKER_STARTUP_TIMEOUT'' @ [CHR 0x22] @ '' -le 0 ]; then'',
      ''    DOCKER_STARTUP_TIMEOUT='' @ [CHR 0x22] @ ''20'' @ [CHR 0x22],
      ''  fi'',
      ''  DOCKER_STORAGE_DRIVER='' @ [CHR 0x22] @ ''$(arg_value cleanroom_service_docker_storage_driver || true)'' @ [CHR 0x22],
      ''  if [ -z '' @ [CHR 0x22] @ ''$DOCKER_STORAGE_DRIVER'' @ [CHR 0x22] @ '' ]; then'',
      ''    DOCKER_STORAGE_DRIVER='' @ [CHR 0x22] @ ''vfs'' @ [CHR 0x22],
      ''  fi'',
      ''  DOCKER_IPTABLES='' @ [CHR 0x22] @ ''$(arg_value cleanroom_service_docker_iptables || true)'' @ [CHR 0x22],
      [],
      ''  DOCKER_ARGS='' @ [CHR 0x22] @ ''--host=unix:///var/run/docker.sock --storage-driver=$DOCKER_STORAGE_DRIVER'' @ [CHR 0x22],
      ''  if [ '' @ [CHR 0x22] @ ''$DOCKER_IPTABLES'' @ [CHR 0x22] @ '' = '' @ [CHR 0x22] @ ''0'' @ [CHR 0x22] @ '' ] || [ '' @ [CHR 0x22] @ ''$DOCKER_IPTABLES'' @ [CHR 0x22] @ '' = '' @ [CHR 0x22] @ ''false'' @ [CHR 0x22] @ '' ]; then'',
      ''    DOCKER_ARGS='' @ [CHR 0x22] @ ''$DOCKER_ARGS --iptables=false'' @ [CHR 0x22],
      ''  fi'',
      [],
      ''  mkdir -p /var/log /var/lib/docker /etc/docker /var/run /sys/fs/cgroup'',
      ''  mount -t cgroup2 none /sys/fs/cgroup 2>/dev/null || true'',
      ''  if [ ! -S /var/run/docker.sock ]; then'',
      ''    dockerd $DOCKER_ARGS >/var/log/dockerd.log 2>&1 &'',
      ''  fi'',
      ''  i=0'',
      ''  DOCKER_WAIT_TICKS=$((DOCKER_STARTUP_TIMEOUT * 10))'',
      ''  while [ '' @ [CHR 0x22] @ ''$i'' @ [CHR 0x22] @ '' -lt '' @ [CHR 0x22] @ ''$DOCKER_WAIT_TICKS'' @ [CHR 0x22] @ '' ]; do'',
      ''    if [ -S /var/run/docker.sock ]; then'',
      ''      if command -v docker >/dev/null 2>&1; then'',
      ''        if docker version >/dev/null 2>&1; then'',
      ''          break'',
      ''        fi'',
      ''      else'',
      ''        break'',
      ''      fi'',
      ''    fi'',
      ''    sleep 0.1'',
      ''    i=$((i + 1))'',
      ''  done'',
      ''fi'',
      [],
      ''AGENT_DEV='' @ [CHR 0x22] @ [CHR 0x22],
      ''if [ -c /dev/hvc1 ]; then'',
      ''  AGENT_DEV='' @ [CHR 0x22] @ ''/dev/hvc1'' @ [CHR 0x22],
      ''elif [ -c /dev/vport1p0 ]; then'',
      ''  AGENT_DEV='' @ [CHR 0x22] @ ''/dev/vport1p0'' @ [CHR 0x22],
      ''fi'',
      [],
      ''if [ -n '' @ [CHR 0x22] @ ''$AGENT_DEV'' @ [CHR 0x22] @ '' ]; then'',
      ''  stty raw -echo <'' @ [CHR 0x22] @ ''$AGENT_DEV'' @ [CHR 0x22] @ '' 2>/dev/null || true'',
      ''  ('',
      ''    while true; do'',
      ''      CLEANROOM_GUEST_TRANSPORT=stdio /usr/local/bin/cleanroom-guest-agent <'' @ [CHR 0x22] @ ''$AGENT_DEV'' @ [CHR 0x22] @ '' >'' @ [CHR 0x22] @ ''$AGENT_DEV'' @ [CHR 0x22] @ '' 2>/dev/hvc0 || true'',
      ''      sleep 1'',
      ''    done'',
      ''  ) &'',
      ''fi'',
      [],
      ''while true; do'',
      ''  /usr/local/bin/cleanroom-guest-agent || true'',
      ''  sleep 1'',
      ''done''])"

definition dvz_createGuestInitScript :: "dvz_deps \<Rightarrow> string dvz" where
  "dvz_createGuestInitScript d =
     (let os = ddOS d; name = ddScript d in
      bind_act (wrap ''create guest init script'' (call os CreateTemp (put_file name []))) (\<lambda>_.
      on_error (remove_file name)
        (bind_act (wrap ''write guest init script'' (call os WriteString (put_file name dvz_guestInitScriptTemplate))) (\<lambda>_.
         bind_act (wrap ''chmod guest init script'' (call os ChmodTemp id)) (\<lambda>_.
         bind_act (wrap ''close guest init script'' (call os CloseTemp id)) (\<lambda>_.
         ret name))))))"

definition dvz_installGuestRuntimeIntoRootFS :: "dvz_deps \<Rightarrow> string \<Rightarrow> string \<Rightarrow> unit dvz" where
  "dvz_installGuestRuntimeIntoRootFS d rootFSPath agentPath =
     bind_act (lift_res (map_error (\<lambda>e. ''find debugfs for runtime rootfs preparation: '' @ e) (ddDebugFSPath d))) (\<lambda>_.
     bind_act (dvz_createGuestInitScript d) (\<lambda>script.
     deferred (remove_file script)
       (bind_act (wrap ''inject guest agent into rootfs image'' (injectFileIntoExt4 d rootFSPath agentPath dvz_guestAgentPath (7 * 8 ^ 2 + 5 * 8 + 5))) (\<lambda>_.
        wrap ''inject cleanroom init into rootfs image'' (injectFileIntoExt4 d rootFSPath script dvz_guestInitScriptPath (7 * 8 ^ 2 + 5 * 8 + 5))))))"

section \<open>The prepared root file system\<close>

definition preparedRuntimeRootFSRequiredPaths :: "string list" where
  "preparedRuntimeRootFSRequiredPaths = [dvz_guestAgentPath, dvz_guestInitScriptPath]"

fun require_paths :: "dvz_deps \<Rightarrow> string \<Rightarrow> string list \<Rightarrow> unit dvz" where
  "require_paths d path [] h = (h, Inr ())"
| "require_paths d path (p # ps) h =
     bind_act (wrap (''required runtime file '' @ go_quote p @ '' is missing or unreadable'') (runDebugFS d path False (''stat '' @ p)))
       (\<lambda>_. require_paths d path ps) h"

definition validatePreparedRuntimeRootFS :: "dvz_deps \<Rightarrow> string \<Rightarrow> unit dvz" where
  "validatePreparedRuntimeRootFS d path = require_paths d path preparedRuntimeRootFSRequiredPaths"

definition guestInitExecutableForShellPresence :: "bool \<Rightarrow> string \<times> string" where
  "guestInitExecutableForShellPresence hasShell =
     (if hasShell then (dvz_guestInitScriptPath, []) else (dvz_guestAgentPath, ''rootfs is shell-less; using '' @ dvz_guestAgentPath @ '' as init''))"

definition guestInitExecutableForRootFS :: "dvz_deps \<Rightarrow> string \<Rightarrow> dvz_procs fc_host \<Rightarrow> string \<times> string" where
  "guestInitExecutableForRootFS d rootFSPath h = guestInitExecutableForShellPresence (ext4PathExists d rootFSPath ''/bin/sh'' h)"

definition dvz_runtimeRootFSCacheKey :: "string \<Rightarrow> string \<Rightarrow> string \<Rightarrow> string" where
  "dvz_runtimeRootFSCacheKey goarch imageDigest guestAgentHash =
     sha256_hex (trim_space imageDigest @ ''|'' @ guestAgentHash @ ''|'' @ goarch @ ''|'' @ dvz_preparedRuntimeRootFSVersion @ ''|'' @ dvz_guestInitScriptTemplate)"

definition dvz_preparedRuntimeRootFSPath :: "dvz_deps \<Rightarrow> string \<Rightarrow> string \<Rightarrow> string + string" where
  "dvz_preparedRuntimeRootFSPath d imageDigest guestAgentHash =
     (case ddCacheBase d of
        Inl e \<Rightarrow> Inl (''resolve cache base directory: '' @ e)
      | Inr base \<Rightarrow> Inr (path_join [base, ''darwin-vz'', ''runtime-rootfs'', dvz_runtimeRootFSCacheKey (ddGOARCH d) imageDigest guestAgentHash @ ''.ext4'']))"

definition dvz_copyFile :: "os \<Rightarrow> string \<Rightarrow> string \<Rightarrow> unit dvz" where
  "dvz_copyFile os src dst =
     bind_act (call os (Open src) id) (\<lambda>_ h.
       case get (fhFiles h) src of
         None \<Rightarrow> throw (''open '' @ src @ '': no such file or directory'') h
       | Some content \<Rightarrow>
           bind_act (call os (FStat src) id) (\<lambda>_.
           bind_act (call os (OpenFile dst) (put_file dst [])) (\<lambda>_.
           bind_act (call os (Copy dst src) (put_file dst content)) (\<lambda>_.
           call os (Sync dst) id))) h)"

record preparedRootFS =
  prfRef :: string
  prfDigest :: string
  prfPath :: string
  prfHit :: bool

definition prepared :: "imageArtifact \<Rightarrow> string \<Rightarrow> bool \<Rightarrow> preparedRootFS" where
  "prepared img path hit = \<lparr>prfRef = iaRef img, prfDigest = iaDigest img, prfPath = path, prfHit = hit\<rparr>"

text \<open>Whether a valid prepared image is in the cache; an invalid one is left for the caller to remove.\<close>

datatype cached = CacheValid | CacheInvalid | CacheMissing

definition inspect_prepared :: "dvz_deps \<Rightarrow> string \<Rightarrow> cached dvz" where
  "inspect_prepared d path =
     bind_act (wrap (''inspect prepared runtime rootfs '' @ go_quote path) (stat (ddOS d) path)) (\<lambda>present h.
       if \<not> present then (h, Inr CacheMissing)
       else (case validatePreparedRuntimeRootFS d path h of (h, Inr _) \<Rightarrow> (h, Inr CacheValid) | (h, Inl _) \<Rightarrow> (h, Inr CacheInvalid)))"

text \<open>The image is built beside its place and moved there once it is valid.\<close>

definition store_prepared :: "dvz_deps \<Rightarrow> imageArtifact \<Rightarrow> string \<Rightarrow> string \<Rightarrow> preparedRootFS dvz" where
  "store_prepared d img tmpPath preparedPath h =
     (case ddOS d (Rename tmpPath preparedPath) of
        None \<Rightarrow> (remove_file tmpPath (put_file preparedPath (case get (fhFiles h) tmpPath of None \<Rightarrow> [] | Some c \<Rightarrow> c) h), Inr (prepared img preparedPath False))
      | Some e \<Rightarrow>
          (let h1 = remove_file tmpPath h in
           if ddOS d (Stat preparedPath) = None \<and> exists_file preparedPath h1 then
             (case validatePreparedRuntimeRootFS d preparedPath h1 of
                (h2, Inr _) \<Rightarrow> (h2, Inr (prepared img preparedPath True))
              | (h2, Inl _) \<Rightarrow> (h2, Inl (''prepared runtime rootfs '' @ go_quote preparedPath @ '' became invalid during rename race'')))
           else (h1, Inl (''store prepared runtime rootfs '' @ go_quote preparedPath @ '': '' @ e))))"

definition build_prepared :: "dvz_deps \<Rightarrow> imageArtifact \<Rightarrow> string \<Rightarrow> string \<Rightarrow> preparedRootFS dvz" where
  "build_prepared d img agentPath preparedPath =
     (let os = ddOS d; preparedDir = path_dir preparedPath; tmpPath = preparedPath @ ''.tmp-'' @ itoa (ddNanos d) in
      bind_act (wrap (''create prepared rootfs cache directory '' @ go_quote preparedDir) (call os (MkdirAll preparedDir) (make_dir preparedDir))) (\<lambda>_.
      bind_act (wrap ''copy rootfs image for runtime preparation'' (dvz_copyFile os (iaRootFSPath img) tmpPath)) (\<lambda>_.
      bind_act (on_error (remove_file tmpPath) (dvz_installGuestRuntimeIntoRootFS d tmpPath agentPath)) (\<lambda>_.
      bind_act (on_error (remove_file tmpPath) (wrap (''validate prepared runtime rootfs '' @ go_quote tmpPath) (validatePreparedRuntimeRootFS d tmpPath))) (\<lambda>_.
      store_prepared d img tmpPath preparedPath)))))"

text \<open>What happens under the lock: another call may have prepared the image in the meantime.\<close>

definition prepare_locked :: "dvz_deps \<Rightarrow> imageArtifact \<Rightarrow> string \<Rightarrow> string \<Rightarrow> preparedRootFS dvz" where
  "prepare_locked d img agentPath preparedPath =
     bind_act (inspect_prepared d preparedPath) (\<lambda>c h.
       if c = CacheValid then (h, Inr (prepared img preparedPath True))
       else if c = CacheInvalid then
         (case ddRemove d preparedPath of
            Some e \<Rightarrow> (h, Inl (''remove invalid prepared runtime rootfs '' @ go_quote preparedPath @ '': '' @ e))
          | None \<Rightarrow> build_prepared d img agentPath preparedPath (remove_file preparedPath h))
       else build_prepared d img agentPath preparedPath h)"

text \<open>\<open>relock\<close> is what other calls did to the host before this one got the lock.\<close>

definition prepare_image ::
  "dvz_deps \<Rightarrow> (dvz_procs fc_host \<Rightarrow> dvz_procs fc_host) \<Rightarrow> imageArtifact \<Rightarrow> string \<Rightarrow> string \<Rightarrow> preparedRootFS dvz" where
  "prepare_image d relock img agentPath preparedPath =
     bind_act (inspect_prepared d preparedPath) (\<lambda>c h.
       if c = CacheValid then (h, Inr (prepared img preparedPath True))
       else
         (let h = (if c = CacheInvalid \<and> ddRemove d preparedPath = None then remove_file preparedPath h else h)
          in prepare_locked d img agentPath preparedPath (relock h)))"

definition ensurePreparedRuntimeRootFSFromImage :: "dvz_deps \<Rightarrow> (dvz_procs fc_host \<Rightarrow> dvz_procs fc_host) \<Rightarrow> string \<Rightarrow> preparedRootFS dvz" where
  "ensurePreparedRuntimeRootFSFromImage d relock imageRef =
     bind_act (lift_res (ensureImageArtifact (ddManager d) imageRef)) (\<lambda>img.
     if trim_space (iaRootFSPath img) = [] then throw ''resolved image rootfs path is empty''
     else
       bind_act (wrap (''resolved image rootfs '' @ go_quote (iaRootFSPath img)) (must_exist (ddOS d) (iaRootFSPath img))) (\<lambda>_.
       bind_act (lift_res (ddAgent d)) (\<lambda>(agentPath, agentHash).
       bind_act (lift_res (dvz_preparedRuntimeRootFSPath d (iaDigest img) agentHash)) (\<lambda>preparedPath.
       prepare_image d relock img agentPath preparedPath))))"

text \<open>The path, reference, digest and notice.\<close>

definition resolveRootFSPath ::
  "dvz_deps \<Rightarrow> (dvz_procs fc_host \<Rightarrow> dvz_procs fc_host) \<Rightarrow> CompiledPolicy \<Rightarrow> FirecrackerConfig \<Rightarrow> (string \<times> string \<times> string \<times> string) dvz" where
  "resolveRootFSPath d relock policy cfg h =
     (let configuredPath = trim_space (fcRootFSPath cfg) in
      if configuredPath \<noteq> [] \<and> ddOS d (Stat configuredPath) = None \<and> exists_file configuredPath h
      then (h, Inr (configuredPath, trim_space (cpImageRef policy), trim_space (cpImageDigest policy), []))
      else
        (let notice = (if configuredPath \<noteq> []
               then ''configured rootfs '' @ go_quote configuredPath @ '' is not accessible; deriving rootfs from sandbox.image.ref'' else []);
             ref = trim_space (cpImageRef policy) in
         if ref = [] then (h, Inl ''rootfs is not configured and sandbox.image.ref is empty'')
         else
           bind_act (ensurePreparedRuntimeRootFSFromImage d relock ref) (\<lambda>p.
             let derivation = ''derived rootfs from sandbox.image.ref digest '' @ prfDigest p @ '' ('' @ (if prfHit p then ''cache hit'' else ''cache miss'') @ '')'' in
             ret (prfPath p, prfRef p, prfDigest p, if notice \<noteq> [] then notice @ ''; '' @ derivation else derivation)) h))"

end
