(* ===== verification/Darwinvz_Run.thy ===== *)
theory Darwinvz_Run
  imports Darwinvz
begin

text \<open>The run of the macOS backend, its discovery of the guest agent and the checks of a host.\<close>

section \<open>The guest agent and the entitlement of the helper\<close>

datatype elf_machine = EM_AARCH64 | EM_X86_64 | EM_OTHER nat

definition expectedGuestAgentELFMachine :: "string \<Rightarrow> elf_machine option" where
  "expectedGuestAgentELFMachine goarch = (if goarch = ''arm64'' then Some EM_AARCH64 else if goarch = ''amd64'' then Some EM_X86_64 else None)"

text \<open>\<open>elfMachine\<close> is \<open>elf.Open\<close>: the machine of the file, or \<open>None\<close> when it is no ELF file.\<close>

definition isLinuxGuestAgentBinary :: "(string \<Rightarrow> elf_machine option) \<Rightarrow> string \<Rightarrow> string \<Rightarrow> string + bool" where
  "isLinuxGuestAgentBinary elfMachine goarch path =
     (case elfMachine path of
        None \<Rightarrow> Inr False
      | Some machine \<Rightarrow>
          (case expectedGuestAgentELFMachine goarch of
             None \<Rightarrow> Inl (''unsupported host architecture '' @ go_quote goarch)
           | Some expected \<Rightarrow> Inr (machine = expected)))"

fun first_agent :: "(string \<Rightarrow> string + string) \<Rightarrow> (string \<Rightarrow> bool) \<Rightarrow> (string \<Rightarrow> elf_machine option) \<Rightarrow> string \<Rightarrow> string list \<Rightarrow> string + string" where
  "first_agent lookPath isFile elfMachine goarch [] =
     Inl (''linux guest-agent binary not found for architecture '' @ goarch @
       ''; run `mise run install` to build and install cleanroom-guest-agent-linux-'' @ goarch)"
| "first_agent lookPath isFile elfMachine goarch (candidate # rest) =
     (let next = first_agent lookPath isFile elfMachine goarch rest in
      if trim_space candidate = [] then next
      else
        (case (if IsAbs candidate then Inr candidate else lookPath candidate) of
           Inl _ \<Rightarrow> next
         | Inr resolved \<Rightarrow>
             if \<not> isFile resolved then next
             else
               (case isLinuxGuestAgentBinary elfMachine goarch resolved of
                  Inl e \<Rightarrow> Inl (''validate guest agent binary '' @ go_quote resolved @ '': '' @ e)
                | Inr True \<Rightarrow> Inr resolved
                | Inr False \<Rightarrow> next)))"

definition dvz_discoverGuestAgentBinary ::
  "(string \<Rightarrow> string + string) \<Rightarrow> string + string \<Rightarrow> (string \<Rightarrow> bool) \<Rightarrow> (string \<Rightarrow> elf_machine option) \<Rightarrow> string \<Rightarrow> string + string" where
  "dvz_discoverGuestAgentBinary lookPath executable isFile elfMachine goarch =
     (let linuxName = ''cleanroom-guest-agent-linux-'' @ goarch in
      first_agent lookPath isFile elfMachine goarch
        ([linuxName, ''cleanroom-guest-agent''] @
         (case executable of
            Inl _ \<Rightarrow> []
          | Inr self \<Rightarrow> [path_join [path_dir self, linuxName], path_join [path_dir self, ''cleanroom-guest-agent'']])))"

text \<open>The first answer is kept; \<open>hash\<close> is \<open>hashFileSHA256\<close>.\<close>

definition dvz_getGuestAgentBinary :: "(string + string \<times> string) option \<Rightarrow> string + string \<Rightarrow> (string \<Rightarrow> string + string) \<Rightarrow>
  (string + string \<times> string) option \<times> (string + string \<times> string)" where
  "dvz_getGuestAgentBinary once discovered hash =
     (let kept = (case once of Some r \<Rightarrow> r | None \<Rightarrow> and_then discovered (\<lambda>path. and_then (hash path) (\<lambda>hsh. Inr (path, hsh)))) in
      (Some kept,
       and_then kept (\<lambda>(path, hsh).
         if trim_space path = [] \<or> trim_space hsh = [] then Inl ''failed to resolve cleanroom guest agent binary'' else Inr (path, hsh))))"

text \<open>
  The regular expression for the entitlement: the key and a true value, with white space between the parts. Every \<open>\s*\<close> is followed by
  a character that is no space, so there is one way to match.
\<close>

definition re_space :: "char \<Rightarrow> bool" where
  "re_space c \<longleftrightarrow> c \<in> {CHR 0x09, CHR 0x0A, CHR 0x0C, CHR 0x0D, CHR '' ''}"

definition expect :: "string \<Rightarrow> string option \<Rightarrow> string option" where
  "expect p s = (case s of None \<Rightarrow> None | Some s \<Rightarrow> if has_prefix s p then Some (drop (length p) s) else None)"

definition skip_spaces :: "string option \<Rightarrow> string option" where
  "skip_spaces s = map_option (dropWhile re_space) s"

definition entitlement_at :: "string \<Rightarrow> bool" where
  "entitlement_at s =
     (let rest = skip_spaces (expect ''<true'' (skip_spaces (expect ''</key>'' (skip_spaces
            (expect ''com.apple.security.virtualization'' (skip_spaces (expect ''<key>'' (Some s))))))))
      in expect ''/>'' rest \<noteq> None \<or> expect ''>'' rest \<noteq> None)"

fun entitlement_match :: "string \<Rightarrow> bool" where
  "entitlement_match [] = entitlement_at []"
| "entitlement_match (c # s) = (entitlement_at (c # s) \<or> entitlement_match s)"

fun from_sub :: "string \<Rightarrow> string \<Rightarrow> string option" where
  "from_sub sub [] = (if sub = [] then Some [] else None)"
| "from_sub sub (c # s) = (if has_prefix (c # s) sub then Some (c # s) else from_sub sub s)"

definition hasVirtualizationEntitlement :: "string \<Rightarrow> bool" where
  "hasVirtualizationEntitlement raw =
     (let entitlements = trim_space raw in
      if entitlements = [] then False
      else entitlement_match (case from_sub ''<?xml'' entitlements of Some s \<Rightarrow> s
             | None \<Rightarrow> (case from_sub ''<plist'' entitlements of Some s \<Rightarrow> s | None \<Rightarrow> entitlements)))"

text \<open>\<open>codesign\<close> is the output of the command and its error.\<close>

definition helperHasVirtualizationEntitlement :: "(string \<Rightarrow> string \<times> string option) \<Rightarrow> string \<Rightarrow> string + bool" where
  "helperHasVirtualizationEntitlement codesign helperPath =
     (case codesign helperPath of
        (output, Some err) \<Rightarrow> (let msg = trim_space output in Inl (if msg \<noteq> [] then err @ '': '' @ msg else err))
      | (output, None) \<Rightarrow> Inr (hasVirtualizationEntitlement output))"

section \<open>Doctor\<close>

record dvz_doctor =
  dzGOOS :: string
  dzStat :: "string \<Rightarrow> string option"
  dzManagedKernel :: "(string \<times> string) option"
  dzTool :: "string \<Rightarrow> string + string"
  dzAgent :: "string + string"
  dzHelper :: "string + string"
  dzCodesign :: "string \<Rightarrow> string \<times> string option"

definition dvz_kernel_check :: "dvz_doctor \<Rightarrow> string \<Rightarrow> DoctorCheck" where
  "dvz_kernel_check z configured0 =
     (let configured = trim_space configured0 in
      if configured = [] then
        (case dzManagedKernel z of
           Some (spec, path) \<Rightarrow> check ''kernel_image'' ''pass'' (''kernel image will be auto-managed ('' @ spec @ '' -> '' @ path @ '')'')
         | None \<Rightarrow> check ''kernel_image'' ''fail'' ''kernel image must be configured'')
      else
        (case dzStat z configured of
           Some e \<Rightarrow>
             (case dzManagedKernel z of
                Some (spec, path) \<Rightarrow> check ''kernel_image'' ''warn''
                  (''configured kernel image is not accessible ('' @ e @ ''); runtime will use managed kernel ('' @ spec @ '' -> '' @ path @ '')'')
              | None \<Rightarrow> check ''kernel_image'' ''fail'' (''kernel image not accessible: '' @ e))
         | None \<Rightarrow> check ''kernel_image'' ''pass'' (''kernel image configured: '' @ configured)))"

definition has_image_ref :: "CompiledPolicy option \<Rightarrow> bool" where
  "has_image_ref policy = (case policy of None \<Rightarrow> False | Some p \<Rightarrow> trim_space (cpImageRef p) \<noteq> [])"

definition rootfs_check :: "dvz_doctor \<Rightarrow> CompiledPolicy option \<Rightarrow> string \<Rightarrow> DoctorCheck" where
  "rootfs_check z policy rootfs =
     (if trim_space rootfs = [] then
        (if has_image_ref policy then check ''rootfs'' ''pass'' ''rootfs will be derived from sandbox.image.ref''
         else check ''rootfs'' ''warn'' ''rootfs is not configured; provide sandbox.image.ref for automatic OCI rootfs derivation'')
      else
        (case dzStat z rootfs of
           Some e \<Rightarrow>
             if has_image_ref policy
             then check ''rootfs'' ''warn'' (''configured rootfs is not accessible ('' @ e @ ''); runtime will derive rootfs from sandbox.image.ref'')
             else check ''rootfs'' ''fail'' (''rootfs not accessible: '' @ e)
         | None \<Rightarrow> check ''rootfs'' ''pass'' (''rootfs configured: '' @ rootfs)))"

definition dvz_policy_checks :: "CompiledPolicy option \<Rightarrow> DoctorCheck list" where
  "dvz_policy_checks policy =
     (case policy of
        None \<Rightarrow> [check ''policy'' ''warn'' ''policy not loaded'']
      | Some p \<Rightarrow>
          (case evaluateNetworkPolicy (cpNetworkDefault p) (length (cpAllow p)) of
             Inl e \<Rightarrow> [check ''policy_network_default'' ''fail'' e]
           | Inr policyWarn \<Rightarrow>
               [check ''policy_network_default'' ''pass'' ''deny-by-default policy'',
                if policyWarn \<noteq> [] then check ''policy_network_allow'' ''warn'' policyWarn else check ''policy_network_allow'' ''pass'' ''allow list empty'',
                if trim_space (cpImageRef p) = [] then check ''sandbox_image_ref'' ''fail'' ''sandbox.image.ref is required when rootfs is not configured''
                else check ''sandbox_image_ref'' ''pass'' (''sandbox image ref configured: '' @ cpImageRef p)]))"

definition helper_checks :: "dvz_doctor \<Rightarrow> DoctorCheck list" where
  "helper_checks z =
     (case dzHelper z of
        Inl e \<Rightarrow> [check ''helper_binary'' ''fail'' e]
      | Inr helperPath \<Rightarrow>
          [check ''helper_binary'' ''pass'' (''darwin-vz helper resolved at '' @ helperPath),
           case helperHasVirtualizationEntitlement (dzCodesign z) helperPath of
             Inl e \<Rightarrow> check ''vm_entitlement'' ''warn'' (''could not verify com.apple.security.virtualization entitlement on '' @ helperPath @ '': '' @ e)
           | Inr False \<Rightarrow> check ''vm_entitlement'' ''fail''
               (helperPath @ '' is missing com.apple.security.virtualization entitlement; run `mise run install` to install and sign the helper'')
           | Inr True \<Rightarrow> check ''vm_entitlement'' ''pass'' (helperPath @ '' includes com.apple.security.virtualization entitlement'')])"

definition dvz_Doctor :: "dvz_doctor \<Rightarrow> CompiledPolicy option \<Rightarrow> FirecrackerConfig \<Rightarrow> DoctorCheck list" where
  "dvz_Doctor z policy cfg =
     (let rootfs = trim_space (fcRootFSPath cfg);
          missing = (if rootfs \<noteq> [] \<and> dzStat z rootfs = None then ''warn'' else ''fail'') in
      [if dzGOOS z = ''darwin'' then check ''os'' ''pass'' ''darwin host detected'' else check ''os'' ''fail'' (''darwin required, current OS is '' @ dzGOOS z),
       check ''guest_networking'' ''warn'' guestNetworkUnavailableWarning,
       dvz_kernel_check z (fcKernelImagePath cfg),
       rootfs_check z policy (fcRootFSPath cfg)] @
      dvz_policy_checks policy @
      [case dzTool z ''mkfs.ext4'' of
         Inl e \<Rightarrow> check ''mkfs_ext4'' missing (''mkfs.ext4 not available: '' @ e)
       | Inr path \<Rightarrow> check ''mkfs_ext4'' ''pass'' (''found mkfs.ext4 ('' @ path @ '') for OCI rootfs materialisation''),
       case dzTool z ''debugfs'' of
         Inl e \<Rightarrow> check ''debugfs'' missing (''debugfs not available: '' @ e)
       | Inr path \<Rightarrow> check ''debugfs'' ''pass'' (''found debugfs ('' @ path @ '') for runtime rootfs preparation''),
       case dzAgent z of
         Inl e \<Rightarrow> check ''guest_agent_binary'' ''fail'' e
       | Inr path \<Rightarrow> check ''guest_agent_binary'' ''pass'' (''linux guest-agent resolved at '' @ path)] @
      helper_checks z)"

definition dvz_Capabilities :: "(string, bool) gomap" where
  "dvz_Capabilities = [(''network.default_deny'', True), (''network.allowlist_egress'', False), (''network.guest_interface'', True)]"

text \<open>On other systems the backend only says so.\<close>

definition unsupported_error :: "string \<Rightarrow> string" where
  "unsupported_error goos = ''darwin-vz backend requires macOS, current OS is '' @ goos"

definition unsupported_Run :: "string \<Rightarrow> RunRequest \<Rightarrow> RunResult dvz" where
  "unsupported_Run goos req = throw (unsupported_error goos)"

definition unsupported_Doctor :: "string \<Rightarrow> DoctorCheck list" where
  "unsupported_Doctor goos = [check ''os'' ''fail'' (unsupported_error goos), check ''guest_networking'' ''warn'' guestNetworkUnavailableWarning]"

section \<open>The helper of a run\<close>

text \<open>
  What the helper of a run does: its binary, its start, the outcome of \<open>waitForHelperControlSocket\<close>, its standard error, the
  exchanges of the two requests, the end of the process.
\<close>

record helper_env =
  heBinary :: "string + string"
  heStart :: "string option"
  heReady :: "string + unit"
  heStderr :: string
  heStartVM :: "helperControlRequest \<Rightarrow> helper_exchange"
  heStopVM :: "helperControlRequest \<Rightarrow> helper_exchange"
  heEnd :: process_end

definition on_procs :: "(dvz_procs \<Rightarrow> dvz_procs) \<Rightarrow> dvz_procs fc_host \<Rightarrow> dvz_procs fc_host" where
  "on_procs f h = h\<lparr>fhNet := f (fhNet h)\<rparr>"

text \<open>A helper that is gone takes its machine with it.\<close>

definition helper_gone :: "string \<Rightarrow> dvz_procs fc_host \<Rightarrow> dvz_procs fc_host" where
  "helper_gone socket = on_procs (\<lambda>p. p\<lparr>dpHelpers := remove1 socket (dpHelpers p), dpVMs := filter (\<lambda>s. s \<noteq> socket) (dpVMs p)\<rparr>)"

definition startHelperSession :: "helper_env \<Rightarrow> string \<Rightarrow> string dvz" where
  "startHelperSession he runDir =
     bind_act (lift_res (heBinary he)) (\<lambda>helperPath h.
       let socket = path_join [runDir, ''vz-helper.sock''] in
       case ensureUnixSocketPathFits socket of
         Some e \<Rightarrow> (h, Inl (''helper control socket path '' @ go_quote socket @ '' is too long: '' @ e))
       | None \<Rightarrow>
           (let h = remove_file socket h in
            case heStart he of
              Some e \<Rightarrow> (h, Inl (''start darwin-vz helper '' @ go_quote helperPath @ '': '' @ e))
            | None \<Rightarrow>
                (let h = on_procs (\<lambda>p. p\<lparr>dpHelpers := socket # dpHelpers p\<rparr>) h in
                 case heReady he of
                   Inl e \<Rightarrow>
                     (if snd (closeProcess (heStderr he) (heEnd he)) then helper_gone socket h else h,
                      Inl (''connect darwin-vz helper control socket: '' @ decorateError (heStderr he) e))
                 | Inr _ \<Rightarrow> (h, Inr socket))))"

text \<open>The caller's standard error, when it listens (\<open>on\<close>).\<close>

definition warn_line :: "bool \<Rightarrow> string \<Rightarrow> dvz_procs fc_host \<Rightarrow> dvz_procs fc_host" where
  "warn_line on line h = (if on then on_procs (\<lambda>p. p\<lparr>dpStderr := dpStderr p @ [line @ [CHR 0x0A]]\<rparr>) h else h)"

text \<open>The deferred \<open>helper.close\<close>, with its warning.\<close>

definition close_helper :: "bool \<Rightarrow> helper_env \<Rightarrow> string \<Rightarrow> dvz_procs fc_host \<Rightarrow> dvz_procs fc_host" where
  "close_helper on he socket h =
     (case closeProcess (heStderr he) (heEnd he) of
        (err, gone) \<Rightarrow>
          (let h = remove_file socket (if gone then helper_gone socket h else h) in
           case err of None \<Rightarrow> h | Some e \<Rightarrow> warn_line on (''warning: failed to close darwin-vz helper: '' @ e) h))"

definition delivered :: "helper_exchange \<Rightarrow> bool" where
  "delivered x \<longleftrightarrow> hxDeadline x = None \<and> hxSend x = None"

text \<open>A machine runs once its start was delivered, unless the helper says that it failed.\<close>

definition dvz_start_vm :: "helper_env \<Rightarrow> string \<Rightarrow> helperControlRequest \<Rightarrow> helperControlResponse dvz" where
  "dvz_start_vm he socket req h =
     (let x = heStartVM he req;
          running = (delivered x \<and> (case hxReply x of Inl _ \<Rightarrow> True | Inr res \<Rightarrow> hrOK res));
          h = (if running then on_procs (\<lambda>p. p\<lparr>dpVMs := socket # dpVMs p\<rparr>) h else h)
      in (h, helper_request (heStderr he) x req))"

definition stop_request :: "string \<Rightarrow> helperControlRequest" where
  "stop_request vmID =
     \<lparr>hqOp = ''StopVM'', hqKernelPath = [], hqRootFSPath = [], hqBootArgs = [], hqVCPUs = 0, hqMemoryMiB = 0, hqGuestPort = 0, hqLaunchSeconds = 0,
      hqRunDir = [], hqProxySocketPath = [], hqConsoleLogPath = [], hqVMID = vmID\<rparr>"

definition stop_vm :: "bool \<Rightarrow> helper_env \<Rightarrow> string \<Rightarrow> string \<Rightarrow> dvz_procs fc_host \<Rightarrow> dvz_procs fc_host" where
  "stop_vm on he socket vmID h =
     (let req = stop_request vmID in
      case helper_request (heStderr he) (heStopVM he req) req of
        Inr _ \<Rightarrow> on_procs (\<lambda>p. p\<lparr>dpVMs := filter (\<lambda>s. s \<noteq> socket) (dpVMs p)\<rparr>) h
      | Inl e \<Rightarrow> warn_line on (''warning: failed to stop darwin-vz vm: '' @ e) h)"

section \<open>The run\<close>

text \<open>
  The arguments of a run beyond those of the preparation: the helper, what other calls do before the lock of the images is free, the
  outcome of \<open>dialUnixSocketWithRetry\<close> for a socket, the errors of the connection, what the guest sends, random bytes, the gateway.
\<close>

record dvz_run =
  drDeps :: dvz_deps
  drHelper :: helper_env
  drRelock :: "dvz_procs fc_host \<Rightarrow> dvz_procs fc_host"
  drProxy :: "string \<Rightarrow> string + unit"
  drSetDeadline :: "string option"
  drRandom :: "string + 8 word list"
  drSeed :: "string option"
  drGatewayHost :: string
  drGatewayPort :: int
  drSendError :: "string option"
  drIncoming :: "json list"
  drCtxErr :: "string option"
  drWireText :: "wire_error \<Rightarrow> string"
  drOnStderr :: bool

definition dvz_defaults :: "FirecrackerConfig \<Rightarrow> FirecrackerConfig" where
  "dvz_defaults cfg = cfg\<lparr>fcVCPUs := (if fcVCPUs cfg \<le> 0 then 1 else fcVCPUs cfg), fcMemoryMiB := (if fcMemoryMiB cfg \<le> 0 then 512 else fcMemoryMiB cfg),
     fcGuestPort := (if fcGuestPort cfg = 0 then DefaultPort else fcGuestPort cfg), fcLaunchSeconds := (if fcLaunchSeconds cfg \<le> 0 then 30 else fcLaunchSeconds cfg)\<rparr>"

definition buildRuntimeWarnings :: "string \<Rightarrow> string list" where
  "buildRuntimeWarnings policyWarning =
     (let trimmed = trim_space policyWarning in (if trimmed \<noteq> [] then [trimmed] else []) @ [guestNetworkUnavailableWarning])"

definition darwinVZResultMessage :: "string \<Rightarrow> string" where
  "darwinVZResultMessage guestErr = trim_space guestErr"

definition randomScopeToken :: "string + 8 word list \<Rightarrow> string + string" where
  "randomScopeToken random = and_then random (\<lambda>buf. Inr (hex_encode buf))"

definition registry_error_text :: "registry_error \<Rightarrow> string" where
  "registry_error_text e =
     (case e of
        GuestIPRegistered ip \<Rightarrow> ''guest IP '' @ ip @ '' already registered''
      | EmptyScopeToken \<Rightarrow> ''scope token must not be empty''
      | TokenRegistered \<Rightarrow> ''scope token already registered'')"

text \<open>The request to the guest, with the environment for the gateway when there is a token.\<close>

definition dvz_guest_request :: "dvz_run \<Rightarrow> RunRequest \<Rightarrow> CompiledPolicy \<Rightarrow> bool \<Rightarrow> string \<Rightarrow> ExecRequest" where
  "dvz_guest_request r req compiled hasRegistry token =
     \<lparr>erCommand = rrCommand req, erDir = [],
      erEnv = (if hasRegistry \<and> token \<noteq> []
               then dvz_gatewayEnvVars (Some compiled) (if trim_space (drGatewayHost r) = [] then defaultGatewayHost else trim_space (drGatewayHost r))
                      (if drGatewayPort r \<le> 0 then 8170 else drGatewayPort r) token
               else []),
      erEntropySeed = (case drSeed r of None \<Rightarrow> [] | Some s \<Rightarrow> s), erTTY = rrTTY req\<rparr>"

text \<open>The exchange with the guest. The frames that an attached caller sends come between and change nothing here.\<close>

definition dvz_command ::
  "dvz_run \<Rightarrow> RunRequest \<Rightarrow> CompiledPolicy \<Rightarrow> string \<Rightarrow> string \<Rightarrow> string \<Rightarrow> string \<Rightarrow> string \<Rightarrow> string \<Rightarrow> RunResult dvz" where
  "dvz_command r req compiled runDir planPath imageRef imageDigest stderrPrefix token h =
     (case drSendError r of
        Some e \<Rightarrow> (h, Inl (''send guest exec request: '' @ e))
      | None \<Rightarrow>
          (let sent = EncodeRequest (dvz_guest_request r req compiled (fhRegistry h \<noteq> None) token) # (if rrTTY req then [] else [EncodeInputFrame eof_frame]);
               h = on_procs (\<lambda>p. p\<lparr>dpSent := dpSent p @ sent\<rparr>) h in
           case fst (DecodeStreamResponse (drIncoming r)) of
             Inl e \<Rightarrow>
               (h, Inl (case drCtxErr r of
                  Some c \<Rightarrow> ''guest exec canceled while waiting for response: '' @ c
                | None \<Rightarrow> decorateError (heStderr (drHelper r)) (''decode guest exec response over darwin-vz proxy: '' @ drWireText r e)))
           | Inr res \<Rightarrow>
               (h, Inr \<lparr>resRunID = rrRunID req, resExitCode = epExitCode res, resLaunchedVM = True, resPlanPath = planPath, resRunDir = runDir,
                    resImageRef = imageRef, resImageDigest = imageDigest, resMessage = darwinVZResultMessage (epError res), resStdout = epStdout res,
                    resStderr = stderrPrefix @ epStderr res\<rparr>)))"

definition scope_sandbox :: "RunRequest \<Rightarrow> string \<Rightarrow> string" where
  "scope_sandbox req vmID =
     (if trim_space (rrSandboxID req) \<noteq> [] then trim_space (rrSandboxID req)
      else if trim_space (rrRunID req) \<noteq> [] then trim_space (rrRunID req) else vmID)"

definition release_token :: "string \<Rightarrow> dvz_procs fc_host \<Rightarrow> dvz_procs fc_host" where
  "release_token token h = h\<lparr>fhRegistry := map_option (ReleaseScopeToken token) (fhRegistry h)\<rparr>"

text \<open>A token in the gateway's registry for as long as the command runs.\<close>

definition with_scope_token :: "dvz_run \<Rightarrow> RunRequest \<Rightarrow> CompiledPolicy \<Rightarrow> string \<Rightarrow> (string \<Rightarrow> 'a dvz) \<Rightarrow> 'a dvz" where
  "with_scope_token r req compiled vmID body h =
     (case fhRegistry h of
        None \<Rightarrow> body [] h
      | Some reg \<Rightarrow>
          (case randomScopeToken (drRandom r) of
             Inl e \<Rightarrow> (h, Inl (''generate gateway scope token: '' @ e))
           | Inr token \<Rightarrow>
               (case RegisterScopeToken token (scope_sandbox req vmID) compiled reg of
                  Inl e \<Rightarrow> (h, Inl (''register sandbox in gateway: '' @ registry_error_text e))
                | Inr reg' \<Rightarrow> deferred (release_token token) (body token) (h\<lparr>fhRegistry := Some reg'\<rparr>))))"

definition start_request :: "FirecrackerConfig \<Rightarrow> string \<Rightarrow> string \<Rightarrow> string \<Rightarrow> string \<Rightarrow> string \<Rightarrow> string \<Rightarrow> helperControlRequest" where
  "start_request cfg kernelPath rootfs bootArgs runDir proxySocket consolePath =
     \<lparr>hqOp = ''StartVM'', hqKernelPath = kernelPath, hqRootFSPath = rootfs, hqBootArgs = bootArgs, hqVCPUs = fcVCPUs cfg, hqMemoryMiB = fcMemoryMiB cfg,
      hqGuestPort = fcGuestPort cfg, hqLaunchSeconds = fcLaunchSeconds cfg, hqRunDir = runDir, hqProxySocketPath = proxySocket,
      hqConsoleLogPath = consolePath, hqVMID = []\<rparr>"

definition dvz_connected :: "dvz_run \<Rightarrow> RunRequest \<Rightarrow> CompiledPolicy \<Rightarrow> string \<Rightarrow> string \<Rightarrow> (string \<Rightarrow> RunResult dvz) \<Rightarrow> RunResult dvz" where
  "dvz_connected r req compiled proxySocket vmID body =
     bind_act (lift_res (map_error (\<lambda>e. ''connect darwin-vz proxy socket '' @ go_quote proxySocket @ '': '' @ e) (drProxy r proxySocket))) (\<lambda>_.
     case drSetDeadline r of
       Some e \<Rightarrow> throw (''set proxy socket deadline: '' @ e)
     | None \<Rightarrow> with_scope_token r req compiled vmID body)"

definition proxy_too_long :: "string \<Rightarrow> string \<Rightarrow> string" where
  "proxy_too_long path e = ''proxy socket path '' @ go_quote path @ '' is too long: '' @ e"

text \<open>The machine of a run, from the request to the helper to its stop.\<close>

definition dvz_machine ::
  "dvz_run \<Rightarrow> RunRequest \<Rightarrow> CompiledPolicy \<Rightarrow> FirecrackerConfig \<Rightarrow> string \<Rightarrow> string \<Rightarrow> string \<Rightarrow> string \<Rightarrow> string \<Rightarrow> (string \<Rightarrow> RunResult dvz) \<Rightarrow> RunResult dvz" where
  "dvz_machine r req compiled cfg runDir kernelPath rootfs bootArgs socket body =
     (let he = drHelper r; proxySocket = path_join [runDir, ''vz-proxy.sock'']; consolePath = path_join [runDir, ''vm.console.log''] in
      case ensureUnixSocketPathFits proxySocket of
        Some e \<Rightarrow> throw (proxy_too_long proxySocket e)
      | None \<Rightarrow>
          bind_act (\<lambda>h. (remove_file proxySocket h, Inr ())) (\<lambda>_.
          bind_act (wrap ''start vm via darwin-vz helper'' (dvz_start_vm he socket (start_request cfg kernelPath rootfs bootArgs runDir proxySocket consolePath))) (\<lambda>res.
          let vmID = trim_space (hrVMID res);
              proxySocket = (if trim_space (hrProxySocketPath res) \<noteq> [] then trim_space (hrProxySocketPath res) else proxySocket) in
          if vmID = [] then throw ''darwin-vz helper returned empty vm_id''
          else if trim_space proxySocket = [] then throw ''darwin-vz helper returned empty proxy socket path''
          else
            (case ensureUnixSocketPathFits proxySocket of
               Some e \<Rightarrow> throw (proxy_too_long proxySocket e)
             | None \<Rightarrow> deferred (stop_vm (drOnStderr r) he socket vmID) (dvz_connected r req compiled proxySocket vmID body)))))"

definition vm_plan_json :: "FirecrackerConfig \<Rightarrow> string \<Rightarrow> string \<Rightarrow> string \<Rightarrow> json" where
  "vm_plan_json cfg kernelPath rootfs bootArgs =
     JObj [(''backend'', JStr ''darwin-vz''), (''boot_args'', JStr bootArgs), (''guest_port'', JNum (uint (fcGuestPort cfg))),
           (''kernel_image'', JStr kernelPath), (''launch_secs'', JNum (fcLaunchSeconds cfg)), (''memory_mib'', JNum (fcMemoryMiB cfg)),
           (''rootfs'', JStr rootfs), (''vcpus'', JNum (fcVCPUs cfg))]"

definition dvz_boot_args :: "string \<Rightarrow> CompiledPolicy \<Rightarrow> FirecrackerConfig \<Rightarrow> string" where
  "dvz_boot_args initPath compiled cfg =
     ''console=hvc0 root=/dev/vda rw init='' @ initPath @ '' cleanroom_guest_port='' @ itoa (uint (fcGuestPort cfg)) @ '' '' @
     dvz_dockerServiceBootArgs (Some compiled) cfg"

text \<open>The copy of the root file system, the plan and the helper, each taken back at the end.\<close>

definition dvz_launch :: "dvz_run \<Rightarrow> RunRequest \<Rightarrow> CompiledPolicy \<Rightarrow> FirecrackerConfig \<Rightarrow> string \<Rightarrow> string \<Rightarrow> RunResult dvz" where
  "dvz_launch r req compiled cfg runDir stderrPrefix =
     (let d = drDeps r; os = ddOS d; vmRootFS = path_join [runDir, ''rootfs-ephemeral.ext4'']; planPath = path_join [runDir, ''darwin-vz-config.json''] in
      bind_act (lift_res (ddKernel d (fcKernelImagePath cfg))) (\<lambda>(kernelPath, notice).
      bind_act (resolveRootFSPath d (drRelock r) compiled cfg) (\<lambda>(path, ref, digest, notice).
      let imageRef = (if trim_space ref \<noteq> [] then ref else cpImageRef compiled);
          imageDigest = (if trim_space digest \<noteq> [] then digest else cpImageDigest compiled) in
      bind_act (lift_res (map_error (\<lambda>e. ''resolve rootfs path: '' @ e) (ddAbs d path))) (\<lambda>rootFSPath.
      bind_act (wrap (''rootfs '' @ rootFSPath) (must_exist os rootFSPath)) (\<lambda>_.
      bind_act (wrap ''prepare per-run rootfs'' (dvz_copyFile os rootFSPath vmRootFS)) (\<lambda>_.
      deferred (remove_file vmRootFS) (\<lambda>h.
        let bootArgs = dvz_boot_args (fst (guestInitExecutableForRootFS d vmRootFS h)) compiled cfg in
        bind_act (writeJSON os planPath (vm_plan_json cfg kernelPath vmRootFS bootArgs)) (\<lambda>_.
        bind_act (wrap ''start darwin-vz helper'' (startHelperSession (drHelper r) runDir)) (\<lambda>socket.
        deferred (close_helper (drOnStderr r) (drHelper r) socket)
          (dvz_machine r req compiled cfg runDir kernelPath vmRootFS bootArgs socket
             (dvz_command r req compiled runDir planPath imageRef imageDigest stderrPrefix)))) h)))))))"

definition dvz_plan_only :: "os \<Rightarrow> RunRequest \<Rightarrow> CompiledPolicy \<Rightarrow> string \<Rightarrow> string \<Rightarrow> string \<Rightarrow> RunResult dvz" where
  "dvz_plan_only os req compiled runDir cmdPath stderrPrefix =
     (let planPath = path_join [runDir, ''plan.json''] in
      bind_act (writeJSON os planPath (JObj [(''backend'', JStr ''darwin-vz''), (''command_path'', JStr cmdPath), (''mode'', JStr ''plan-only'')])) (\<lambda>_.
      ret \<lparr>resRunID = rrRunID req, resExitCode = 0, resLaunchedVM = False, resPlanPath = planPath, resRunDir = runDir, resImageRef = cpImageRef compiled,
           resImageDigest = cpImageDigest compiled, resMessage = ''darwin-vz execution plan generated; command not executed'', resStdout = [],
           resStderr = stderrPrefix\<rparr>))"

definition dvz_run_dir :: "string + string \<Rightarrow> RunRequest \<Rightarrow> string + string" where
  "dvz_run_dir runBase req =
     (if fcRunDir (rrConfig req) \<noteq> [] then Inr (fcRunDir (rrConfig req))
      else and_then (map_error (\<lambda>e. ''resolve run base directory: '' @ e) runBase) (\<lambda>baseDir. Inr (path_join [baseDir, rrRunID req])))"

definition dvz_Adapter_run :: "dvz_run \<Rightarrow> RunRequest \<Rightarrow> RunResult dvz" where
  "dvz_Adapter_run r req =
     (let d = drDeps r; os = ddOS d in
      case rrPolicy req of
        None \<Rightarrow> throw ''missing compiled policy''
      | Some compiled \<Rightarrow>
          bind_act (lift_res (evaluateNetworkPolicy (cpNetworkDefault compiled) (length (cpAllow compiled)))) (\<lambda>policyWarn.
          if rrCommand req = [] then throw ''missing command''
          else if ddGOOS d \<noteq> ''darwin'' then throw (''darwin-vz backend is darwin-only, current OS is '' @ ddGOOS d)
          else
            bind_act (lift_res (dvz_run_dir (ddRunBase d) req)) (\<lambda>runDir.
            bind_act (wrap ''create run directory'' (call os (MkdirAll runDir) (make_dir runDir))) (\<lambda>_.
            let cfg = dvz_defaults (rrConfig req); cmdPath = path_join [runDir, ''requested-command.json''];
                lines = map (\<lambda>w. ''warning: '' @ w) (buildRuntimeWarnings policyWarn);
                stderrPrefix = concat (map (\<lambda>l. l @ [CHR 0x0A]) lines) in
            bind_act (writeJSON os cmdPath (JArr (map JStr (rrCommand req)))) (\<lambda>_.
            bind_act (\<lambda>h. (fold (warn_line (drOnStderr r)) lines h, Inr ())) (\<lambda>_.
            if \<not> fcLaunch (rrConfig req) then dvz_plan_only os req compiled runDir cmdPath stderrPrefix
            else dvz_launch r req compiled cfg runDir stderrPrefix))))))"

end
