(* ===== verification/Effect_Frame.thy ===== *)
theory Effect_Frame
  imports Effect
begin

text \<open>
  What an action leaves of a state, whatever its result: a relation between the state before and after, and the rules by which
  sequences, wrapped errors and deferred calls have it when their parts have it. The locale asks that the relation is a preorder.
\<close>

definition stays :: "('s \<Rightarrow> 's \<Rightarrow> bool) \<Rightarrow> ('s, 'a) effect \<Rightarrow> bool" where
  "stays R m \<longleftrightarrow> (\<forall>h. R h (fst (m h)))"

lemma staysI: "(\<And>h h' r. m h = (h', r) \<Longrightarrow> R h h') \<Longrightarrow> stays R m"
  unfolding stays_def by (metis prod.collapse)

lemma staysD: "stays R m \<Longrightarrow> m h = (h', r) \<Longrightarrow> R h h'"
  unfolding stays_def by (metis fst_conv)

lemma stays_wrap [intro]: "stays R m \<Longrightarrow> stays R (wrap ctx m)"
  by (rule staysI) (auto simp: wrap_def split: prod.splits sum.splits dest: staysD)

locale act_frame =
  fixes R :: "'s \<Rightarrow> 's \<Rightarrow> bool"
  assumes refl: "R h h"
    and trans: "R a b \<Longrightarrow> R b c \<Longrightarrow> R a c"
begin

lemma stays_ret: "stays R (ret x)"
  by (simp add: stays_def ret_def refl)

lemma stays_throw: "stays R (throw e)"
  by (simp add: stays_def throw_def refl)

lemma stays_lift: "stays R (lift_res x)"
  by (simp add: stays_def lift_res_def refl)

lemma stays_pure: "(\<And>h. R h (f h)) \<Longrightarrow> stays R (\<lambda>h. (f h, g h))"
  by (simp add: stays_def)

lemma stays_bind:
  assumes "stays R m" and "\<And>x. stays R (f x)"
  shows "stays R (bind_act m f)"
proof (rule staysI)
  fix h h' r assume b: "bind_act m f h = (h', r)"
  obtain h1 r1 where m: "m h = (h1, r1)" by fastforce
  have 1: "R h h1" by (rule staysD [OF assms(1) m])
  show "R h h'"
  proof (cases r1)
    case (Inl e)
    then show ?thesis using b m 1 by (simp add: bind_act_def)
  next
    case (Inr x)
    then have "f x h1 = (h', r)" using b m by (simp add: bind_act_def)
    then show ?thesis using trans [OF 1 staysD [OF assms(2)]] by blast
  qed
qed

lemma stays_on_error: "stays R m \<Longrightarrow> (\<And>h. R h (c h)) \<Longrightarrow> stays R (on_error c m)"
  by (rule staysI) (auto simp: on_error_def split: prod.splits sum.splits dest: staysD intro: trans)

lemma stays_deferred: "stays R m \<Longrightarrow> (\<And>h. R h (c h)) \<Longrightarrow> stays R (deferred c m)"
  by (rule staysI) (auto simp: deferred_def split: prod.splits dest: staysD intro: trans)

lemma stays_prod: "(\<And>a b. stays R (f a b)) \<Longrightarrow> stays R (case p of (a, b) \<Rightarrow> f a b)"
  by (cases p) simp

lemma stays_if: "stays R a \<Longrightarrow> stays R b \<Longrightarrow> stays R (if c then a else b)"
  by simp

lemma stays_option: "stays R a \<Longrightarrow> (\<And>x. stays R (f x)) \<Longrightarrow> stays R (case v of None \<Rightarrow> a | Some x \<Rightarrow> f x)"
  by (cases v) simp_all

text \<open>An action that looks at the state first.\<close>

lemma stays_case: "stays R a \<Longrightarrow> (\<And>x. stays R (f x)) \<Longrightarrow> stays R (\<lambda>h. case v h of None \<Rightarrow> a h | Some x \<Rightarrow> f x h)"
  by (auto simp: stays_def split: option.splits)

lemma stays_cond: "stays R a \<Longrightarrow> stays R b \<Longrightarrow> stays R (\<lambda>h. if c h then a h else b h)"
  by (simp add: stays_def)

lemma stays_let: "(\<And>x. stays R (f x)) \<Longrightarrow> stays R (\<lambda>h. f (v h) h)"
  by (simp add: stays_def)

lemma stays_after: "stays R m \<Longrightarrow> (\<And>h. R h (c h)) \<Longrightarrow> stays R (\<lambda>h. m (c h))"
  by (auto simp: stays_def intro: trans)

lemmas stays_rules = stays_ret stays_throw stays_lift stays_bind stays_wrap stays_on_error stays_deferred stays_prod stays_if stays_option

end

end
