(* ===== verification/Darwinvz_Props.thy ===== *)
theory Darwinvz_Props
  imports Darwinvz_Run Effect_Frame
begin

text \<open>What a run of the macOS backend leaves behind, the validity of prepared images, and the environment of a guest.\<close>

section \<open>What a run leaves\<close>

text \<open>The registry of the gateway, the helpers and their machines; without those of one helper.\<close>

definition dvz_same_but :: "string option \<Rightarrow> dvz_procs fc_host \<Rightarrow> dvz_procs fc_host \<Rightarrow> bool" where
  "dvz_same_but s h h' \<longleftrightarrow> fhRegistry h' = fhRegistry h \<and> dpHelpers (fhNet h') = dpHelpers (fhNet h) \<and>
     filter (\<lambda>x. Some x \<noteq> s) (dpVMs (fhNet h')) = filter (\<lambda>x. Some x \<noteq> s) (dpVMs (fhNet h))"

interpretation same: act_frame "dvz_same_but s" for s
  by unfold_locales (auto simp: dvz_same_but_def)

lemma same_files [simp]:
  "dvz_same_but s h (put_file p c h)" "dvz_same_but s h (remove_file p h)" "dvz_same_but s h (make_dir p h)" "dvz_same_but s h h"
  "dvz_same_but s h (warn_line on l h)" "dvz_same_but s h (on_procs (\<lambda>p. p\<lparr>dpSent := f p\<rparr>) h)"
  by (simp_all add: dvz_same_but_def put_file_def remove_file_def make_dir_def warn_line_def on_procs_def)

lemma same_weaken: "dvz_same_but None h h' \<Longrightarrow> dvz_same_but s h h'"
  by (simp add: dvz_same_but_def)

lemma stays_call: "(\<And>h. dvz_same_but s h (f h)) \<Longrightarrow> stays (dvz_same_but s) (call os c f)"
  by (rule staysI) (auto simp: call_def split: option.splits)

lemma stays_stat: "stays (dvz_same_but s) (stat os p)" "stays (dvz_same_but s) (must_exist os p)"
proof -
  show st: "stays (dvz_same_but s) (stat os p)" for p by (rule staysI) (auto simp: stat_def split: option.splits)
  show "stays (dvz_same_but s) (must_exist os p)" unfolding must_exist_def by (intro same.stays_rules st)
qed

lemma stays_debugfs: "stays (dvz_same_but s) (runDebugFS d img w c)"
  by (rule staysI) (auto simp: runDebugFS_def Let_def split: sum.splits prod.splits option.splits if_splits)

lemma stays_files:
  "stays (dvz_same_but s) (writeJSON os p v)" "stays (dvz_same_but s) (dvz_copyFile os src dst)" "stays (dvz_same_but s) (dvz_createGuestInitScript d)"
proof -
  show "stays (dvz_same_but s) (writeJSON os p v)" unfolding writeJSON_def by (intro stays_call) simp
  have copy: "stays (dvz_same_but s) (bind_act (call os (FStat src) id) (\<lambda>_. bind_act (call os (OpenFile dst) (put_file dst [])) (\<lambda>_.
      bind_act (call os (Copy dst src) (put_file dst content)) (\<lambda>_. call os (Sync dst) id))))" for content
    by (intro same.stays_bind stays_call) simp_all
  show "stays (dvz_same_but s) (dvz_copyFile os src dst)" unfolding dvz_copyFile_def
    by (intro same.stays_bind stays_call same.stays_case copy same.stays_throw) simp
  show "stays (dvz_same_but s) (dvz_createGuestInitScript d)" unfolding dvz_createGuestInitScript_def Let_def
    by (intro same.stays_rules stays_call) simp_all
qed

lemma stays_ext4_dirs: "stays (dvz_same_but s) (ext4_dirs d img cur parts)"
proof (induction parts arbitrary: cur)
  case Nil
  show ?case by (rule staysI) simp
next
  case (Cons part parts)
  have "ext4_dirs d img cur (part # parts) = (\<lambda>h. if trim_space part = [] then ext4_dirs d img cur parts h
      else if ext4PathExists d img (cur @ ''/'' @ part) h then ext4_dirs d img (cur @ ''/'' @ part) parts h
      else bind_act (runDebugFS d img True (''mkdir '' @ cur @ ''/'' @ part)) (\<lambda>_. ext4_dirs d img (cur @ ''/'' @ part) parts) h)"
    by (rule ext) (simp add: Let_def)
  then show ?case by (simp only:) (intro same.stays_cond Cons.IH same.stays_bind stays_debugfs)
qed

lemma stays_inject: "stays (dvz_same_but s) (injectFileIntoExt4 d img src dst mode)"
proof -
  have dir: "stays (dvz_same_but s) (ensureExt4Dir d img p)" for p
    unfolding ensureExt4Dir_def Let_def by (intro same.stays_if same.stays_ret stays_ext4_dirs)
  have "dvz_same_but s h (if b then fst (runDebugFS d img True c h) else h)" for b c h
    using stays_debugfs [of s d img True c] by (simp add: stays_def)
  then show ?thesis unfolding injectFileIntoExt4_def Let_def
    by (intro same.stays_if same.stays_throw same.stays_bind dir stays_debugfs same.stays_pure)
qed

lemma stays_install: "stays (dvz_same_but s) (dvz_installGuestRuntimeIntoRootFS d p a)"
  unfolding dvz_installGuestRuntimeIntoRootFS_def by (intro same.stays_rules stays_files stays_inject) simp

lemma stays_validate: "stays (dvz_same_but s) (validatePreparedRuntimeRootFS d p)"
proof -
  have "stays (dvz_same_but s) (require_paths d p ps)" for ps
  proof (induction ps)
    case Nil
    show ?case by (rule staysI) simp
  next
    case (Cons x xs)
    have "require_paths d p (x # xs) = bind_act (wrap (''required runtime file '' @ go_quote x @ '' is missing or unreadable'')
        (runDebugFS d p False (''stat '' @ x))) (\<lambda>_. require_paths d p xs)" by (rule ext) simp
    then show ?case by (simp only:) (intro same.stays_bind stays_wrap stays_debugfs Cons.IH)
  qed
  then show ?thesis by (simp add: validatePreparedRuntimeRootFS_def)
qed

lemma stays_inspect: "stays (dvz_same_but s) (inspect_prepared d p)"
  unfolding inspect_prepared_def
proof (rule same.stays_bind)
  fix present
  show "stays (dvz_same_but s) (\<lambda>h. if \<not> present then (h, Inr CacheMissing)
      else case validatePreparedRuntimeRootFS d p h of (h, Inr _) \<Rightarrow> (h, Inr CacheValid) | (h, Inl _) \<Rightarrow> (h, Inr CacheInvalid))"
    by (rule staysI) (auto split: if_splits prod.splits sum.splits dest: staysD [OF stays_validate])
qed (intro stays_wrap stays_stat)

lemma stays_store: "stays (dvz_same_but s) (store_prepared d img tmp p)"
proof (rule staysI)
  fix h h' r assume r: "store_prepared d img tmp p h = (h', r)"
  have moved: "dvz_same_but s h (remove_file tmp (put_file p c h))" for c by (rule same.trans [OF same_files(1) same_files(2)])
  have valid: "dvz_same_but s h h2" if "validatePreparedRuntimeRootFS d p (remove_file tmp h) = (h2, x)" for h2 x
    by (rule same.trans [OF same_files(2) staysD [OF stays_validate that]])
  show "dvz_same_but s h h'"
    using r moved valid unfolding store_prepared_def Let_def by (auto split: option.splits if_splits prod.splits sum.splits)
qed

lemma stays_build: "stays (dvz_same_but s) (build_prepared d img a p)"
  unfolding build_prepared_def Let_def
  by (intro same.stays_bind stays_wrap same.stays_on_error stays_call stays_files stays_install stays_validate stays_store) simp_all

lemma stays_locked: "stays (dvz_same_but s) (prepare_locked d img a p)"
  unfolding prepare_locked_def
proof (rule same.stays_bind [OF stays_inspect])
  fix c
  have "stays (dvz_same_but s) (\<lambda>h. build_prepared d img a p (remove_file p h))" by (rule same.stays_after [OF stays_build same_files(2)])
  then show "stays (dvz_same_but s) (\<lambda>h. if c = CacheValid then (h, Inr (prepared img p True))
    else if c = CacheInvalid then
      (case ddRemove d p of
         Some e \<Rightarrow> (h, Inl (''remove invalid prepared runtime rootfs '' @ go_quote p @ '': '' @ e))
       | None \<Rightarrow> build_prepared d img a p (remove_file p h))
    else build_prepared d img a p h)"
    using stays_build by (auto simp: stays_def split: option.splits)
qed

lemma stays_prepare:
  assumes "\<And>h. dvz_same_but s h (relock h)"
  shows "stays (dvz_same_but s) (ensurePreparedRuntimeRootFSFromImage d relock ref)"
proof -
  have again: "dvz_same_but s h (relock (if b then remove_file p h else h))" for b p h
    using same.trans [OF same_files(2) assms] assms by simp
  show ?thesis unfolding ensurePreparedRuntimeRootFSFromImage_def prepare_image_def Let_def
    by (intro same.stays_bind same.stays_lift same.stays_if same.stays_throw stays_wrap stays_stat same.stays_prod stays_inspect
        same.stays_cond same.stays_pure same.refl same.stays_after [OF stays_locked again])
qed

lemma stays_resolve:
  assumes "\<And>h. dvz_same_but s h (relock h)"
  shows "stays (dvz_same_but s) (resolveRootFSPath d relock policy cfg)"
proof -
  have m: "stays (dvz_same_but s) (bind_act (ensurePreparedRuntimeRootFSFromImage d relock ref) (\<lambda>p. ret (f p)))" for ref and f :: "_ \<Rightarrow> 'b"
    by (intro same.stays_bind stays_prepare assms same.stays_ret)
  show ?thesis
    by (rule staysI) (auto simp: resolveRootFSPath_def Let_def split: if_splits dest: staysD [OF m])
qed

lemma stays_command: "stays (dvz_same_but s) (dvz_command r req compiled runDir planPath ref digest pre token)"
  by (rule staysI) (auto simp: dvz_command_def Let_def split: option.splits sum.splits)

lemma scope_token_register_release:
  assumes "RegisterScopeToken t i p reg = Inr reg'" and "trim_space t = t"
  shows "ReleaseScopeToken t reg' = reg"
proof -
  have fresh: "get (byScopeToken reg) t = None" and reg': "reg' = reg\<lparr>byScopeToken := put t \<lparr>ssSandboxID = i, ssGuestIP = [], ssPolicy = p\<rparr> (byScopeToken reg)\<rparr>"
    using assms by (auto simp: RegisterScopeToken_def Let_def split: if_splits option.splits)
  have "del t (put t v m) = m" if "get m t = None" for v and m :: "(string, SandboxScope) gomap"
    using that by (induction m) (auto simp: del_def put_def get_def split: if_splits)
  then show ?thesis using fresh by (simp add: reg' ReleaseScopeToken_def)
qed

lemma stays_scope_token:
  assumes "\<And>token. stays (dvz_same_but s) (body token)"
  shows "stays (dvz_same_but s) (with_scope_token r req compiled vmID body)"
proof (rule staysI)
  fix h h' x assume run: "with_scope_token r req compiled vmID body h = (h', x)"
  show "dvz_same_but s h h'"
  proof (cases "fhRegistry h")
    case None
    then show ?thesis using run staysD [OF assms] by (simp add: with_scope_token_def)
  next
    case (Some reg)
    show ?thesis
    proof (cases "randomScopeToken (drRandom r)")
      case (Inl e)
      then show ?thesis using run Some by (simp add: with_scope_token_def)
    next
      case (Inr token)
      then have t: "trim_space token = token" using hex_encode_trimmed by (auto simp: randomScopeToken_def)
      show ?thesis
      proof (cases "RegisterScopeToken token (scope_sandbox req vmID) compiled reg")
        case (Inl e)
        then show ?thesis using run Some Inr by (simp add: with_scope_token_def)
      next
        case reg: (Inr reg')
        let ?h = "h\<lparr>fhRegistry := Some reg'\<rparr>"
        obtain h1 y where b: "body token ?h = (h1, y)" by fastforce
        have h': "h' = release_token token h1" using run Some Inr reg b by (simp add: with_scope_token_def deferred_def)
        have s: "dvz_same_but s ?h h1" by (rule staysD [OF assms b])
        then show ?thesis using scope_token_register_release [OF reg t] Some by (simp add: h' dvz_same_but_def release_token_def)
      qed
    qed
  qed
qed

lemma stays_vm: "stays (dvz_same_but (Some socket)) (dvz_start_vm he socket q)" "dvz_same_but (Some socket) h (stop_vm on he socket vmID h)"
proof -
  show "stays (dvz_same_but (Some socket)) (dvz_start_vm he socket q)"
    by (rule staysI) (auto simp: dvz_start_vm_def Let_def dvz_same_but_def on_procs_def split: if_splits sum.splits)
  show "dvz_same_but (Some socket) h (stop_vm on he socket vmID h)"
    by (auto simp: stop_vm_def Let_def split: sum.splits) (simp add: dvz_same_but_def on_procs_def)
qed

text \<open>A machine is left to its helper at most.\<close>

lemma stays_machine:
  assumes "\<And>token. stays (dvz_same_but (Some socket)) (body token)"
  shows "stays (dvz_same_but (Some socket)) (dvz_machine r req compiled cfg runDir k rootfs args socket body)"
proof -
  have conn: "stays (dvz_same_but (Some socket)) (dvz_connected r req compiled p vmID body)" for p vmID
    unfolding dvz_connected_def by (intro same.stays_bind same.stays_lift same.stays_option stays_scope_token assms same.stays_throw)
  show ?thesis unfolding dvz_machine_def Let_def
    by (intro same.stays_option same.stays_throw same.stays_bind same.stays_pure stays_wrap stays_vm same.stays_if same.stays_deferred conn same_files)
qed

text \<open>The helper of a run is a new one, and with its end its machine goes.\<close>

definition helper_unused :: "string \<Rightarrow> dvz_procs fc_host \<Rightarrow> bool" where
  "helper_unused socket h \<longleftrightarrow> socket \<notin> set (dpHelpers (fhNet h)) \<and> socket \<notin> set (dpVMs (fhNet h))"

definition helper_ends :: "helper_env \<Rightarrow> bool" where
  "helper_ends he \<longleftrightarrow> snd (closeProcess (heStderr he) (heEnd he))"

abbreviation helper_socket :: "string \<Rightarrow> string" where
  "helper_socket runDir \<equiv> path_join [runDir, ''vz-helper.sock'']"

definition helper_started :: "string \<Rightarrow> dvz_procs fc_host \<Rightarrow> dvz_procs fc_host \<Rightarrow> bool" where
  "helper_started socket h h' \<longleftrightarrow> dvz_same_but (Some socket) (on_procs (\<lambda>p. p\<lparr>dpHelpers := socket # dpHelpers p\<rparr>) h) h'"

lemma same_unused: "dvz_same_but None h h' \<Longrightarrow> helper_unused s h \<Longrightarrow> helper_unused s h'"
  by (simp add: dvz_same_but_def helper_unused_def)

lemma filter_unused: "s \<notin> set xs \<Longrightarrow> filter (\<lambda>x. x \<noteq> s) xs = xs"
  by (induction xs) auto

lemma gone_restores: "helper_started s h h' \<Longrightarrow> helper_unused s h \<Longrightarrow> dvz_same_but None h (helper_gone s h')"
  by (simp add: helper_started_def dvz_same_but_def on_procs_def helper_gone_def helper_unused_def filter_unused)

lemma session_outcome:
  assumes "startHelperSession he runDir h = (h', x)" and "helper_ends he" and u: "helper_unused (helper_socket runDir) h"
  shows "(\<exists>e. x = Inl e) \<and> dvz_same_but None h h' \<or> x = Inr (helper_socket runDir) \<and> helper_started (helper_socket runDir) h h'"
proof -
  let ?s = "helper_socket runDir" and ?up = "\<lambda>h. on_procs (\<lambda>p. p\<lparr>dpHelpers := helper_socket runDir # dpHelpers p\<rparr>) (remove_file (helper_socket runDir) h)"
  have up: "helper_started ?s h (?up h)" by (simp add: helper_started_def dvz_same_but_def on_procs_def remove_file_def)
  have gone: "dvz_same_but None h (helper_gone ?s (?up h))" by (rule gone_restores [OF up u])
  show ?thesis
  proof (cases "heBinary he")
    case (Inl e)
    then have "h' = h" "x = Inl e" using assms(1) by (simp_all add: startHelperSession_def bind_act_def lift_res_def)
    then show ?thesis by simp
  next
    case (Inr p)
    then show ?thesis
      using assms(1,2) up gone by (auto simp: startHelperSession_def bind_act_def lift_res_def Let_def helper_ends_def split: sum.splits option.splits)
  qed
qed

lemma close_restores:
  assumes "helper_started s h h'" and "helper_unused s h" and "helper_ends he"
  shows "dvz_same_but None h (close_helper on he s h')"
proof -
  obtain e where c: "closeProcess (heStderr he) (heEnd he) = (e, True)"
    using assms(3) by (cases "closeProcess (heStderr he) (heEnd he)") (simp add: helper_ends_def)
  have "dvz_same_but None h (remove_file s (helper_gone s h'))" by (rule same.trans [OF gone_restores [OF assms(1,2)] same_files(2)])
  then show ?thesis by (auto simp: close_helper_def c Let_def split: option.splits intro: same.trans [OF _ same_files(5)])
qed

text \<open>What holds of a host where the socket of the run is unused; the rules for actions apply to it too.\<close>

definition dvz_restores :: "string \<Rightarrow> dvz_procs fc_host \<Rightarrow> dvz_procs fc_host \<Rightarrow> bool" where
  "dvz_restores socket h h' \<longleftrightarrow> (helper_unused socket h \<longrightarrow> dvz_same_but None h h')"

interpretation restored: act_frame "dvz_restores s" for s
  by unfold_locales (auto simp: dvz_restores_def intro: same.trans same_unused)

lemma restores_same: "stays (dvz_same_but None) m \<Longrightarrow> stays (dvz_restores s) m"
  by (simp add: stays_def dvz_restores_def)

lemma restores_session:
  assumes ends: "helper_ends he" and body: "\<And>socket. stays (dvz_same_but (Some socket)) (body socket)"
  shows "stays (dvz_restores (helper_socket runDir))
    (bind_act (wrap ctx (startHelperSession he runDir)) (\<lambda>socket. deferred (close_helper on he socket) (body socket)))"
proof (rule staysI)
  let ?s = "helper_socket runDir"
  fix h h' x
  assume run: "bind_act (wrap ctx (startHelperSession he runDir)) (\<lambda>socket. deferred (close_helper on he socket) (body socket)) h = (h', x)"
  obtain h1 y where st: "startHelperSession he runDir h = (h1, y)" by fastforce
  have "dvz_same_but None h h'" if unused: "helper_unused ?s h"
  proof -
    consider e where "y = Inl e" "dvz_same_but None h h1" | "y = Inr ?s" "helper_started ?s h h1"
      using session_outcome [OF st ends unused] by blast
    then show ?thesis
    proof cases
      case 1
      then show ?thesis using run st by (simp add: bind_act_def wrap_def)
    next
      case 2
      obtain h2 z where b: "body ?s h1 = (h2, z)" by fastforce
      have "helper_started ?s h h2" using 2(2) staysD [OF body b] unfolding helper_started_def by (rule same.trans)
      moreover have "h' = close_helper on he ?s h2" using run st 2(1) b by (simp add: bind_act_def wrap_def deferred_def)
      ultimately show ?thesis using close_restores unused ends by blast
    qed
  qed
  then show "dvz_restores ?s h h'" by (simp add: dvz_restores_def)
qed

lemma restores_launch:
  assumes "helper_ends (drHelper r)" and "\<And>h. dvz_same_but None h (drRelock r h)"
  shows "stays (dvz_restores (helper_socket runDir)) (dvz_launch r req compiled cfg runDir pre)"
proof -
  have plan: "stays (dvz_restores s) (writeJSON (ddOS (drDeps r)) p v)" for s p v by (intro restores_same stays_files)
  have rm: "dvz_restores s h (remove_file p h)" for s h p by (simp add: dvz_restores_def)
  have booted: "stays (dvz_restores (helper_socket runDir)) (\<lambda>h. bind_act (writeJSON (ddOS (drDeps r)) p (v h)) (\<lambda>_.
        bind_act (wrap ctx (startHelperSession (drHelper r) runDir)) (\<lambda>socket.
        deferred (close_helper on (drHelper r) socket)
          (dvz_machine r req compiled cfg runDir k root (args h) socket (dvz_command r req compiled runDir p ref digest pre)))) h)"
    for p v ctx on k root args ref digest
    by (rule restored.stays_let [where v = "\<lambda>h. (v h, args h)" and f = "\<lambda>x. bind_act (writeJSON (ddOS (drDeps r)) p (fst x)) (\<lambda>_.
        bind_act (wrap ctx (startHelperSession (drHelper r) runDir)) (\<lambda>socket.
        deferred (close_helper on (drHelper r) socket)
          (dvz_machine r req compiled cfg runDir k root (snd x) socket (dvz_command r req compiled runDir p ref digest pre))))", simplified])
      (intro restored.stays_bind plan restores_session assms(1) stays_machine stays_command)
  show ?thesis unfolding dvz_launch_def Let_def
    by (intro restored.stays_bind restored.stays_lift restored.stays_prod restores_same [OF stays_resolve [OF assms(2)]] stays_wrap
        restores_same [OF stays_stat(2)] restores_same [OF stays_files(2)] restored.stays_deferred booted rm)
qed

lemma same_warnings: "dvz_same_but s h (fold (warn_line on) ls h)"
  by (induction ls arbitrary: h) (auto intro: same.trans [OF same_files(5)])

lemma restores_run:
  assumes "helper_ends (drHelper r)" and "\<And>h. dvz_same_but None h (drRelock r h)"
    and dir: "dvz_run_dir (ddRunBase (drDeps r)) req = Inr runDir"
  shows "stays (dvz_restores (helper_socket runDir)) (dvz_Adapter_run r req)"
proof -
  have w: "stays (dvz_restores s) (\<lambda>h. (fold (warn_line on) ls h, Inr ()))" for s on ls
    by (intro restores_same same.stays_pure same_warnings)
  have plan: "stays (dvz_restores s) (writeJSON os p v)" for s os p v by (intro restores_same stays_files)
  have mk: "stays (dvz_restores s) (call os (MkdirAll p) (make_dir p))" for s os p by (intro restores_same stays_call) simp
  have only: "stays (dvz_restores s) (dvz_plan_only os q c d p e)" for s os q c d p e
    unfolding dvz_plan_only_def Let_def by (intro restored.stays_bind plan restored.stays_ret)
  have known: "bind_act (lift_res (dvz_run_dir (ddRunBase (drDeps r)) req)) f = f runDir" for f :: "string \<Rightarrow> RunResult dvz"
    by (rule ext) (simp add: dir bind_act_def lift_res_def)
  show ?thesis unfolding dvz_Adapter_run_def Let_def known
    by (intro restored.stays_option restored.stays_throw restored.stays_bind restored.stays_lift restored.stays_if stays_wrap mk plan w only restores_launch assms(1,2))
qed

text \<open>C34. A run, whatever becomes of it, leaves no helper process, no machine and no scope token behind, if the helper ends when
  it is closed and no other helper listens on the socket of the run.
\<close>

theorem dvz_run_releases:
  assumes "dvz_Adapter_run r req h = (h', x)"
    and "\<And>h. dvz_same_but None h (drRelock r h)"
    and "helper_ends (drHelper r)"
    and "dvz_run_dir (ddRunBase (drDeps r)) req = Inr runDir"
    and "helper_unused (helper_socket runDir) h"
  shows "fhRegistry h' = fhRegistry h \<and> dpHelpers (fhNet h') = dpHelpers (fhNet h) \<and> dpVMs (fhNet h') = dpVMs (fhNet h)"
  using staysD [OF restores_run [OF assms(3,2,4)] assms(1)] assms(5) by (simp add: dvz_restores_def dvz_same_but_def)

definition dvz_exchange :: helper_exchange where
  "dvz_exchange = \<lparr>hxDeadline = None, hxSend = None, hxReply = Inr \<lparr>hrOK = True, hrError = [], hrVMID = ''vm1'', hrProxySocketPath = []\<rparr>\<rparr>"

definition dvz_demo_deps :: dvz_deps where
  "dvz_demo_deps = \<lparr>ddOS = (\<lambda>_. None), ddRemove = (\<lambda>_. None), ddGOOS = ''darwin'', ddGOARCH = ''arm64'', ddRunBase = Inr ''/runs'', ddCacheBase = Inr ''/cache'',
     ddAbs = Inr, ddKernel = (\<lambda>_. Inr (''/kernel'', [])), ddManager = Inr (\<lambda>ref. Inr \<lparr>iaRef = ref, iaDigest = ''sha256:d'', iaRootFSPath = ''/img'', iaCacheHit = False\<rparr>),
     ddAgent = Inr (''/agent'', ''h''), ddDebugFSPath = Inr ''/debugfs'', ddDebugFS = (\<lambda>w c files img. (if w then img @ c else img, [], None)),
     ddScript = ''/tmp/script'', ddNanos = 7\<rparr>"

definition dvz_demo_run :: dvz_run where
  "dvz_demo_run = \<lparr>drDeps = dvz_demo_deps,
     drHelper = \<lparr>heBinary = Inr ''/helper'', heStart = None, heReady = Inr (), heStderr = [], heStartVM = (\<lambda>_. dvz_exchange), heStopVM = (\<lambda>_. dvz_exchange),
       heEnd = \<lparr>peAtOnce = None, peInterrupted = Some None, peKilled = None\<rparr>\<rparr>,
     drRelock = id, drProxy = (\<lambda>_. Inr ()), drSetDeadline = None, drRandom = Inr [1, 255], drSeed = None, drGatewayHost = [], drGatewayPort = 0,
     drSendError = None, drIncoming = [JObj [(''type'', JStr ''exit''), (''exit_code'', JNum 3)]], drCtxErr = None, drWireText = (\<lambda>_. []), drOnStderr = True\<rparr>"

definition dvz_demo_request :: RunRequest where
  "dvz_demo_request = \<lparr>rrSandboxID = ''s1'', rrRunID = ''r1'', rrCommand = [''true''], rrTTY = False, rrPolicy = Some demo_policy,
     rrConfig = demo_config\<lparr>fcRootFSPath := ''/img''\<rparr>\<rparr>"

definition dvz_demo_host :: "dvz_procs fc_host" where
  "dvz_demo_host = \<lparr>fhFiles = [(''/img'', ''x'')], fhDirs = [], fhNet = \<lparr>dpHelpers = [''other''], dpVMs = [''other''], dpStderr = [], dpSent = []\<rparr>,
     fhRegistry = Some \<lparr>byGuestIP = [], byScopeToken = []\<rparr>, fhVMs = []\<rparr>"

theorem dvz_run_releases_witness:
  "\<exists>h' x. dvz_Adapter_run dvz_demo_run dvz_demo_request dvz_demo_host = (h', x) \<and> fhRegistry h' = Some \<lparr>byGuestIP = [], byScopeToken = []\<rparr> \<and>
     dpHelpers (fhNet h') = [''other''] \<and> dpVMs (fhNet h') = [''other'']"
proof -
  obtain h' x where run: "dvz_Adapter_run dvz_demo_run dvz_demo_request dvz_demo_host = (h', x)" by fastforce
  have "dvz_run_dir (ddRunBase (drDeps dvz_demo_run)) dvz_demo_request = Inr (path_join [''/runs'', ''r1''])"
    by (simp add: dvz_run_dir_def dvz_demo_run_def dvz_demo_deps_def dvz_demo_request_def demo_config_def)
  moreover have "helper_unused (helper_socket (path_join [''/runs'', ''r1''])) dvz_demo_host"
    unfolding helper_unused_def dvz_demo_host_def by code_simp
  ultimately have "fhRegistry h' = fhRegistry dvz_demo_host \<and> dpHelpers (fhNet h') = dpHelpers (fhNet dvz_demo_host) \<and> dpVMs (fhNet h') = dpVMs (fhNet dvz_demo_host)"
    by (intro dvz_run_releases [OF run]) (simp_all add: dvz_demo_run_def helper_ends_def closeProcess_def)
  then show ?thesis using run by (simp add: dvz_demo_host_def)
qed

section \<open>Prepared images\<close>

text \<open>\<open>debugfs\<close> without \<open>-w\<close> reads the image only.\<close>

definition debugfs_reads_image :: "dvz_deps \<Rightarrow> bool" where
  "debugfs_reads_image d \<longleftrightarrow> (\<forall>command files files' img. ddDebugFS d False command files img = ddDebugFS d False command files' img)"

definition image_at :: "string \<Rightarrow> 'n fc_host \<Rightarrow> string" where
  "image_at p h = (case get (fhFiles h) p of None \<Rightarrow> [] | Some c \<Rightarrow> c)"

lemma read_debugfs:
  assumes "debugfs_reads_image d"
  shows "fst (runDebugFS d p False c h) = h"
    and "image_at p h = image_at q h' \<Longrightarrow> snd (runDebugFS d p False c h) = snd (runDebugFS d q False c h')"
proof -
  show "fst (runDebugFS d p False c h) = h" by (auto simp: runDebugFS_def Let_def split: sum.splits prod.splits option.splits)
  have same: "ddDebugFS d False c (fhFiles h) i = ddDebugFS d False c (fhFiles h') i" for i using assms unfolding debugfs_reads_image_def by blast
  show "snd (runDebugFS d p False c h) = snd (runDebugFS d q False c h')" if "image_at p h = image_at q h'"
    using that unfolding image_at_def by (auto simp: runDebugFS_def Let_def same split: sum.splits prod.splits option.splits)
qed

lemma read_require:
  assumes "debugfs_reads_image d"
  shows "fst (require_paths d p ps h) = h"
    and "image_at p h = image_at q h' \<Longrightarrow> snd (require_paths d p ps h) = snd (require_paths d q ps h')"
proof -
  have step: "require_paths d p (x # xs) h = (case snd (runDebugFS d p False (''stat '' @ x) h) of
      Inl e \<Rightarrow> (h, Inl (''required runtime file '' @ go_quote x @ '' is missing or unreadable: '' @ e)) | Inr _ \<Rightarrow> require_paths d p xs h)" for x xs p h
    using read_debugfs(1) [OF assms, of p "''stat '' @ x" h]
    by (cases "runDebugFS d p False (''stat '' @ x) h") (simp add: bind_act_def wrap_def split: sum.splits)
  show "fst (require_paths d p ps h) = h" by (induction ps) (simp_all add: step split: sum.splits del: require_paths.simps(2))
  show "snd (require_paths d p ps h) = snd (require_paths d q ps h')" if i: "image_at p h = image_at q h'"
    by (induction ps) (simp_all add: step read_debugfs(2) [OF assms i] split: sum.splits del: require_paths.simps(2))
qed

text \<open>So the outcome of a validation is a matter of the image.\<close>

definition valid_image :: "dvz_deps \<Rightarrow> string \<Rightarrow> dvz_procs fc_host \<Rightarrow> bool" where
  "valid_image d p h \<longleftrightarrow> snd (validatePreparedRuntimeRootFS d p h) = Inr ()"

lemma validate_reads:
  assumes "debugfs_reads_image d"
  shows "validatePreparedRuntimeRootFS d p h = (h, snd (validatePreparedRuntimeRootFS d p h))"
    and "image_at p h = image_at q h' \<Longrightarrow> valid_image d p h \<longleftrightarrow> valid_image d q h'"
proof -
  show "validatePreparedRuntimeRootFS d p h = (h, snd (validatePreparedRuntimeRootFS d p h))"
    unfolding validatePreparedRuntimeRootFS_def by (rule prod_eqI) (simp_all only: fst_conv snd_conv read_require(1) [OF assms])
  show "valid_image d p h \<longleftrightarrow> valid_image d q h'" if "image_at p h = image_at q h'"
    unfolding validatePreparedRuntimeRootFS_def valid_image_def by (simp only: read_require(2) [OF assms that])
qed

lemma inspect_eq:
  assumes "debugfs_reads_image d"
  shows "inspect_prepared d p h = (case ddOS d (Stat p) of
      Some e \<Rightarrow> (h, Inl (''inspect prepared runtime rootfs '' @ go_quote p @ '': '' @ e))
    | None \<Rightarrow> (h, Inr (if \<not> exists_file p h then CacheMissing else if valid_image d p h then CacheValid else CacheInvalid)))"
proof -
  obtain x where v: "validatePreparedRuntimeRootFS d p h = (h, x)" using validate_reads(1) [OF assms] by blast
  then have "valid_image d p h \<longleftrightarrow> x = Inr ()" by (simp add: valid_image_def)
  then show ?thesis
    by (cases x) (simp_all add: inspect_prepared_def bind_act_def wrap_def stat_def v split: option.split)
qed

lemma store_outcome:
  assumes "debugfs_reads_image d" and "store_prepared d img tmp p h = (h', Inr q)" and "valid_image d tmp h" and "tmp \<noteq> p"
  shows "prfPath q = p \<and> exists_file p h' \<and> valid_image d p h' \<and> q = prepared img p (prfHit q)"
proof (cases "ddOS d (Rename tmp p)")
  case None
  then have h': "h' = remove_file tmp (put_file p (image_at tmp h) h)" and q: "q = prepared img p False"
    using assms(2) by (simp_all add: store_prepared_def image_at_def)
  have "image_at p h' = image_at tmp h" using assms(4) by (simp add: h' image_at_def remove_file_def put_file_def)
  then have "valid_image d p h'" using validate_reads(2) [OF assms(1)] assms(3) by blast
  then show ?thesis using assms(4) by (simp add: q prepared_def h' exists_file_def remove_file_def put_file_def)
next
  case (Some e)
  let ?h = "remove_file tmp h"
  have v: "validatePreparedRuntimeRootFS d p ?h = (?h, snd (validatePreparedRuntimeRootFS d p ?h))" by (rule validate_reads(1) [OF assms(1)])
  show ?thesis
  proof (cases "ddOS d (Stat p) = None \<and> exists_file p ?h")
    case True
    then have *: "store_prepared d img tmp p h = (case validatePreparedRuntimeRootFS d p ?h of
        (h2, Inr _) \<Rightarrow> (h2, Inr (prepared img p True))
      | (h2, Inl _) \<Rightarrow> (h2, Inl (''prepared runtime rootfs '' @ go_quote p @ '' became invalid during rename race'')))"
      by (simp only: store_prepared_def Some option.case Let_def True if_True simp_thms)
    obtain u where "snd (validatePreparedRuntimeRootFS d p ?h) = Inr u" "h' = ?h" "q = prepared img p True"
      using assms(2) unfolding * by (subst (asm) v) (cases "snd (validatePreparedRuntimeRootFS d p ?h)"; simp)
    then show ?thesis using True by (simp add: valid_image_def prepared_def)
  next
    case False
    then show ?thesis using assms(2) by (auto simp: store_prepared_def Some Let_def)
  qed
qed

lemma bind_InrE: "bind_act m f h = (h', Inr y) \<Longrightarrow> (\<And>h1 x. m h = (h1, Inr x) \<Longrightarrow> f x h1 = (h', Inr y) \<Longrightarrow> P) \<Longrightarrow> P"
  unfolding bind_act_Inr by blast

lemma wrap_InrE: "wrap ctx m h = (h', Inr y) \<Longrightarrow> (m h = (h', Inr y) \<Longrightarrow> P) \<Longrightarrow> P"
  unfolding wrap_Inr by blast

lemma on_error_InrE: "on_error c m h = (h', Inr y) \<Longrightarrow> (m h = (h', Inr y) \<Longrightarrow> P) \<Longrightarrow> P"
  unfolding on_error_Inr by blast

lemma build_outcome:
  assumes "debugfs_reads_image d" and "build_prepared d img a p h = (h', Inr q)"
  shows "prfPath q = p \<and> exists_file p h' \<and> valid_image d p h' \<and> q = prepared img p (prfHit q)"
proof -
  let ?tmp = "p @ ''.tmp-'' @ itoa (ddNanos d)"
  obtain h1 h2 u where v: "validatePreparedRuntimeRootFS d ?tmp h1 = (h2, Inr u)" and s: "store_prepared d img ?tmp p h2 = (h', Inr q)"
    using assms(2) unfolding build_prepared_def Let_def by (elim bind_InrE wrap_InrE on_error_InrE) (rule that)
  have "h2 = h1" "valid_image d ?tmp h2"
    using v validate_reads(1) [OF assms(1), of ?tmp h1] by (auto simp: valid_image_def)
  then show ?thesis using store_outcome [OF assms(1) s] by simp
qed

definition dvz_found :: "dvz_deps \<Rightarrow> string \<Rightarrow> preparedRootFS \<Rightarrow> dvz_procs fc_host \<Rightarrow> bool" where
  "dvz_found d ref q h' \<longleftrightarrow> (\<exists>img agentPath agentHash p hit. ensureImageArtifact (ddManager d) ref = Inr img \<and> trim_space (iaRootFSPath img) \<noteq> [] \<and>
     ddOS d (Stat (iaRootFSPath img)) = None \<and> ddAgent d = Inr (agentPath, agentHash) \<and> dvz_preparedRuntimeRootFSPath d (iaDigest img) agentHash = Inr p \<and>
     ddOS d (Stat p) = None \<and> q = prepared img p hit \<and> exists_file p h' \<and> valid_image d p h')"

lemma valid_hit:
  assumes "debugfs_reads_image d" and "inspect_prepared d p h = (h', Inr c)"
  shows "h' = h" "ddOS d (Stat p) = None" "c = CacheValid \<Longrightarrow> exists_file p h \<and> valid_image d p h"
  using assms(2) by (auto simp: inspect_eq [OF assms(1)] split: option.splits if_splits)

lemma locked_outcome:
  assumes "debugfs_reads_image d" and "prepare_locked d img a p h = (h', Inr q)"
  shows "q = prepared img p (prfHit q) \<and> exists_file p h' \<and> valid_image d p h'"
proof -
  obtain g c where i: "inspect_prepared d p h = (g, Inr c)" and c: "(if c = CacheValid then (g, Inr (prepared img p True))
      else if c = CacheInvalid then
        (case ddRemove d p of
           Some e \<Rightarrow> (g, Inl (''remove invalid prepared runtime rootfs '' @ go_quote p @ '': '' @ e))
         | None \<Rightarrow> build_prepared d img a p (remove_file p g))
      else build_prepared d img a p g) = (h', Inr q)"
    using assms(2) unfolding prepare_locked_def by (rule bind_InrE)
  show ?thesis
  proof (cases "c = CacheValid")
    case True
    then have "h' = h" "q = prepared img p True" using c valid_hit(1) [OF assms(1) i] by simp_all
    then show ?thesis using valid_hit(3) [OF assms(1) i True] by (simp add: prepared_def)
  next
    case False
    then obtain g' where "build_prepared d img a p g' = (h', Inr q)" using c by (auto split: if_splits option.splits)
    then show ?thesis using build_outcome [OF assms(1)] by blast
  qed
qed

lemma prepare_outcome:
  assumes "debugfs_reads_image d" and "prepare_image d relock img a p h = (h', Inr q)"
  shows "ddOS d (Stat p) = None \<and> q = prepared img p (prfHit q) \<and> exists_file p h' \<and> valid_image d p h'"
proof -
  obtain g c where i: "inspect_prepared d p h = (g, Inr c)" and c: "(if c = CacheValid then (g, Inr (prepared img p True))
      else let g = (if c = CacheInvalid \<and> ddRemove d p = None then remove_file p g else g) in prepare_locked d img a p (relock g)) = (h', Inr q)"
    using assms(2) unfolding prepare_image_def by (rule bind_InrE)
  show ?thesis
  proof (cases "c = CacheValid")
    case True
    then have "h' = h" "q = prepared img p True" using c valid_hit(1) [OF assms(1) i] by simp_all
    then show ?thesis using valid_hit(2,3) [OF assms(1) i] True by (simp add: prepared_def)
  next
    case False
    then have "prepare_locked d img a p (relock (if c = CacheInvalid \<and> ddRemove d p = None then remove_file p g else g)) = (h', Inr q)"
      using c by (simp only: if_False Let_def)
    then show ?thesis using locked_outcome [OF assms(1)] valid_hit(2) [OF assms(1) i] by blast
  qed
qed

lemma ensure_found:
  assumes run: "ensurePreparedRuntimeRootFSFromImage d relock ref h = (h', Inr q)" and reads: "debugfs_reads_image d"
  shows "dvz_found d ref q h'"
proof -
  obtain img where img: "ensureImageArtifact (ddManager d) ref = Inr img" and ne: "trim_space (iaRootFSPath img) \<noteq> []"
      and rest: "bind_act (wrap (''resolved image rootfs '' @ go_quote (iaRootFSPath img)) (must_exist (ddOS d) (iaRootFSPath img))) (\<lambda>_.
       bind_act (lift_res (ddAgent d)) (\<lambda>(agentPath, agentHash).
       bind_act (lift_res (dvz_preparedRuntimeRootFSPath d (iaDigest img) agentHash)) (\<lambda>p. prepare_image d relock img agentPath p))) h = (h', Inr q)"
    using run unfolding ensurePreparedRuntimeRootFSFromImage_def
    by (elim bind_InrE) (auto simp: lift_res_def throw_def split: if_splits)
  obtain g where st: "must_exist (ddOS d) (iaRootFSPath img) h = (g, Inr ())" and rest: "bind_act (lift_res (ddAgent d)) (\<lambda>(agentPath, agentHash).
       bind_act (lift_res (dvz_preparedRuntimeRootFSPath d (iaDigest img) agentHash)) (\<lambda>p. prepare_image d relock img agentPath p)) g = (h', Inr q)"
    using rest by (rule bind_InrE) (erule wrap_InrE, simp)
  obtain a ah p where ag: "ddAgent d = Inr (a, ah)" and p: "dvz_preparedRuntimeRootFSPath d (iaDigest img) ah = Inr p"
      and rest: "prepare_image d relock img a p g = (h', Inr q)"
    using rest by (elim bind_InrE) (auto simp: lift_res_def bind_act_Inr)
  have root: "ddOS d (Stat (iaRootFSPath img)) = None" using st by (auto simp: must_exist_def bind_act_def stat_def split: option.splits)
  show ?thesis using prepare_outcome [OF reads rest] img ne root ag p unfolding dvz_found_def by blast
qed

lemma found_hit:
  assumes "dvz_found d ref q h" and reads: "debugfs_reads_image d" and "\<And>img. ensureImageArtifact (ddManager d) ref = Inr img \<Longrightarrow> exists_file (iaRootFSPath img) h"
  shows "ensurePreparedRuntimeRootFSFromImage d relock ref h = (h, Inr (q\<lparr>prfHit := True\<rparr>))"
proof -
  obtain img a ah p hit where f: "ensureImageArtifact (ddManager d) ref = Inr img" "trim_space (iaRootFSPath img) \<noteq> []"
     "ddOS d (Stat (iaRootFSPath img)) = None" "ddAgent d = Inr (a, ah)" "dvz_preparedRuntimeRootFSPath d (iaDigest img) ah = Inr p"
     "ddOS d (Stat p) = None" "q = prepared img p hit" "exists_file p h" "valid_image d p h"
    using assms(1) unfolding dvz_found_def by blast
  have i: "inspect_prepared d p h = (h, Inr CacheValid)" using f by (simp add: inspect_eq [OF reads])
  have m: "must_exist (ddOS d) (iaRootFSPath img) h = (h, Inr ())" using f(3) assms(3) [OF f(1)] by (simp add: must_exist_def bind_act_def stat_def ret_def)
  show ?thesis
    unfolding ensurePreparedRuntimeRootFSFromImage_def prepare_image_def f(1) f(4)
    by (simp only: bind_act_def lift_res_def prod.case sum.case f(2) if_False wrap_def m f(5) i if_True f(7)) (simp add: prepared_def)
qed

text \<open>C35. A prepared root file system is never returned before it has the agent and the init script: the image at the returned path passes the
  validation in the resulting state, and the next request for the same image, as long as the source image is there, is a hit that changes nothing.
\<close>

theorem prepared_image_valid:
  assumes "ensurePreparedRuntimeRootFSFromImage d relock ref h = (h', Inr q)"
    and "debugfs_reads_image d"
    and "\<And>img. ensureImageArtifact (ddManager d) ref = Inr img \<Longrightarrow> exists_file (iaRootFSPath img) h'"
  shows "validatePreparedRuntimeRootFS d (prfPath q) h' = (h', Inr ()) \<and>
    ensurePreparedRuntimeRootFSFromImage d relock' ref h' = (h', Inr (q\<lparr>prfHit := True\<rparr>))"
proof
  have f: "dvz_found d ref q h'" by (rule ensure_found [OF assms(1,2)])
  show "ensurePreparedRuntimeRootFSFromImage d relock' ref h' = (h', Inr (q\<lparr>prfHit := True\<rparr>))" by (rule found_hit [OF f assms(2,3)])
  have "valid_image d (prfPath q) h'" using f by (auto simp: dvz_found_def prepared_def)
  then show "validatePreparedRuntimeRootFS d (prfPath q) h' = (h', Inr ())"
    using validate_reads(1) [OF assms(2)] unfolding valid_image_def by metis
qed

definition dvz_demo_prepared :: string where
  "dvz_demo_prepared = path_join [''/cache'', ''darwin-vz'', ''runtime-rootfs'', dvz_runtimeRootFSCacheKey ''arm64'' ''sha256:d'' ''h'' @ ''.ext4'']"

definition dvz_demo_cached :: "dvz_procs fc_host" where
  "dvz_demo_cached = dvz_demo_host\<lparr>fhFiles := [(''/img'', ''x''), (dvz_demo_prepared, ''y'')]\<rparr>"

lemma dvz_demo_reads: "debugfs_reads_image dvz_demo_deps"
  by (simp add: debugfs_reads_image_def dvz_demo_deps_def)

lemma dvz_demo_image: "ensureImageArtifact (ddManager dvz_demo_deps) ''i'' = Inr \<lparr>iaRef = ''i'', iaDigest = ''sha256:d'', iaRootFSPath = ''/img'', iaCacheHit = False\<rparr>"
  by (simp add: dvz_demo_deps_def) code_simp

lemma dvz_demo_exists: "exists_file ''/img'' dvz_demo_cached" "exists_file dvz_demo_prepared dvz_demo_cached"
  by (simp_all add: exists_file_def dvz_demo_cached_def get_def)

lemma dvz_demo_found: "dvz_found dvz_demo_deps ''i'' (prepared \<lparr>iaRef = ''i'', iaDigest = ''sha256:d'', iaRootFSPath = ''/img'', iaCacheHit = False\<rparr> dvz_demo_prepared True) dvz_demo_cached"
proof -
  have "snd (runDebugFS dvz_demo_deps p False c h) = Inr ()" for p c h
    by (simp add: runDebugFS_def dvz_demo_deps_def Let_def debugFSCommandOutputError_def trim_space_trimmed trimmed_def)
  then have "snd (require_paths dvz_demo_deps p ps h) = Inr ()" for p ps h
    by (induction ps arbitrary: h) (auto simp: bind_act_def wrap_def split: prod.splits sum.splits, (metis snd_conv sum.distinct(1))+)
  then have v: "valid_image dvz_demo_deps dvz_demo_prepared dvz_demo_cached" by (simp add: valid_image_def validatePreparedRuntimeRootFS_def)
  have "dvz_preparedRuntimeRootFSPath dvz_demo_deps ''sha256:d'' ''h'' = Inr dvz_demo_prepared"
    by (simp only: dvz_preparedRuntimeRootFSPath_def dvz_demo_prepared_def dvz_demo_deps_def dvz_deps.simps sum.case)
  moreover have "ddOS dvz_demo_deps c = None" "ddAgent dvz_demo_deps = Inr (''/agent'', ''h'')" "trim_space ''/img'' \<noteq> []" for c
    by (simp_all add: dvz_demo_deps_def) code_simp
  ultimately show ?thesis using dvz_demo_image dvz_demo_exists(2) v unfolding dvz_found_def by fastforce
qed

theorem prepared_image_valid_witness:
  "\<exists>h' q. ensurePreparedRuntimeRootFSFromImage dvz_demo_deps id ''i'' dvz_demo_cached = (h', Inr q) \<and> prfPath q = dvz_demo_prepared \<and>
     validatePreparedRuntimeRootFS dvz_demo_deps (prfPath q) h' = (h', Inr ())"
proof -
  let ?q = "prepared \<lparr>iaRef = ''i'', iaDigest = ''sha256:d'', iaRootFSPath = ''/img'', iaCacheHit = False\<rparr> dvz_demo_prepared True"
  have there: "exists_file (iaRootFSPath img) dvz_demo_cached" if "ensureImageArtifact (ddManager dvz_demo_deps) ''i'' = Inr img" for img
    using that dvz_demo_image dvz_demo_exists(1) by auto
  have "ensurePreparedRuntimeRootFSFromImage dvz_demo_deps id ''i'' dvz_demo_cached = (dvz_demo_cached, Inr (?q\<lparr>prfHit := True\<rparr>))"
    by (rule found_hit [OF dvz_demo_found dvz_demo_reads there])
  then show ?thesis using prepared_image_valid [OF _ dvz_demo_reads there] by (fastforce simp: prepared_def)
qed

section \<open>Environment\<close>

text \<open>Boot arguments are those of the Linux backend.\<close>

lemma dvz_boot_args_same: "dvz_dockerServiceBootArgs = dockerServiceBootArgs"
  by (intro ext) (auto simp: RequiresDockerService_def dvz_dockerServiceBootArgs_def dockerServiceBootArgs_def dvz_sanitizeKernelArgValue_def sanitizeKernelArgValue_def Let_def)

definition git_rewrite :: "string \<Rightarrow> int \<Rightarrow> string \<Rightarrow> string \<times> string" where
  "git_rewrite gw port host = (''url.http://'' @ gw @ '':'' @ itoa port @ ''/git/'' @ host @ ''/.insteadOf'', ''https://'' @ host @ ''/'')"

lemma rewrite_hosts: "list_all wf_rule allow \<Longrightarrow> rewrite_entries gw port allow = map (git_rewrite gw port) (git_hosts allow)"
proof (induction allow)
  case Nil
  show ?case by (simp add: git_hosts_def)
next
  case (Cons rule rules)
  have h: "norm_host (arHost rule) = arHost rule" "arHost rule \<noteq> []" using Cons.prems by (auto simp: wf_rule_def)
  then have "trim_space (arHost rule) = arHost rule" unfolding norm_host_def by (metis trim_space_idem)
  then show ?case using Cons h by (simp add: git_hosts_def git_rewrite_def Let_def)
qed

text \<open>Under a well-formed policy the guest's git sends to the gateway exactly the hosts that the policy allows on port 443, and the token goes
  with each request to the gateway: the environment is one rewrite for each such host and the header, and it is empty when there is no such host.
\<close>

theorem dvz_env_rewrites_allowed:
  assumes "wf_policy p" and "trim_space gw \<noteq> []" and "trim_space token \<noteq> []" and "0 < port"
  shows "\<exists>hosts. (\<forall>host. host \<in> set hosts \<longleftrightarrow> norm_host host = host \<and> Allows p host 443) \<and>
    dvz_gatewayEnvVars (Some p) gw port token =
      (if hosts = [] then [] else config_env (map (git_rewrite (trim_space gw) port) hosts @ [token_entry (trim_space gw) port (trim_space token)]))"
proof (intro exI [of _ "git_hosts (cpAllow p)"] conjI allI)
  have wf: "list_all wf_rule (cpAllow p)" using assms(1) by (simp add: wf_policy_def)
  then show "host \<in> set (git_hosts (cpAllow p)) \<longleftrightarrow> norm_host host = host \<and> Allows p host 443" for host
    by (auto simp: git_hosts_def Allows_def list_ex_iff list_all_iff wf_rule_def)
  show "dvz_gatewayEnvVars (Some p) gw port token = (if git_hosts (cpAllow p) = [] then []
      else config_env (map (git_rewrite (trim_space gw) port) (git_hosts (cpAllow p)) @ [token_entry (trim_space gw) port (trim_space token)]))"
    using assms by (simp add: dvz_gatewayEnvVars_def rewrite_hosts [OF wf] Let_def)
qed

theorem dvz_env_rewrites_allowed_witness:
  "\<exists>p hosts. Compile demo_raw = Inr p \<and> (\<forall>host. host \<in> set hosts \<longleftrightarrow> norm_host host = host \<and> Allows p host 443) \<and>
    dvz_gatewayEnvVars (Some p) defaultGatewayHost 8170 ''t'' =
      (if hosts = [] then [] else config_env (map (git_rewrite (trim_space defaultGatewayHost) 8170) hosts @ [token_entry (trim_space defaultGatewayHost) 8170 (trim_space ''t'')]))"
proof -
  obtain p where c: "Compile demo_raw = Inr p" using demo_compiles by blast
  have "trim_space defaultGatewayHost \<noteq> []" "trim_space ''t'' \<noteq> []" by code_simp+
  then show ?thesis using dvz_env_rewrites_allowed [OF yaml.compile_wf [OF c], of defaultGatewayHost "''t''" 8170] c by auto
qed

end
