(* ===== verification/Cli.thy ===== *)
theory Cli
  imports Client Imagemgr Firecracker_Run
begin

text \<open>
  \<open>internal/cli\<close>: what the commands of the command line do, on a state of everything they touch: the calls to the control API, the two
  output streams, the files and the processes. This theory holds the state and the actions, the policy and image commands, and the choice of
  a sandbox. The answers of the server, of the registry and of the operating system are arguments.
\<close>

section \<open>Errors, state, actions\<close>

text \<open>Errors keep what \<open>errors.As\<close> can find in them: an exit code of the command line's own, or a process that exited.\<close>

datatype cli_error =
    ExitCodeError int
  | Failed string
  | Wrapped string cli_error
  | RPCError go_error
  | EndpointFailed endpoint_error
  | LoadFailed load_error
  | RefFailed ref_error
  | PolicyFailed policy_error
  | EnvFailed env_error
  | ProcessExited int string
  | AndLocal cli_error cli_error
  | CommandFailed string cli_error string

fun find_exit_code :: "cli_error \<Rightarrow> int option" where
  "find_exit_code (ExitCodeError code) = Some code"
| "find_exit_code (ProcessExited code _) = Some code"
| "find_exit_code (Wrapped _ e) = find_exit_code e"
| "find_exit_code (AndLocal e _) = find_exit_code e"
| "find_exit_code (CommandFailed _ e _) = find_exit_code e"
| "find_exit_code _ = None"

text \<open>\<open>cmd/cleanroom\<close> ends with 0 when there is no error.\<close>

definition ExitCode :: "cli_error \<Rightarrow> int" where
  "ExitCode err = (case find_exit_code err of Some code \<Rightarrow> code | None \<Rightarrow> 1)"

fun isExitError :: "cli_error \<Rightarrow> bool" where
  "isExitError (ProcessExited _ _) = True"
| "isExitError (Wrapped _ e) = isExitError e"
| "isExitError (AndLocal e _) = isExitError e"
| "isExitError (CommandFailed _ e _) = isExitError e"
| "isExitError _ = False"

datatype cli_call =
    RCreateSandbox CreateSandboxRequest
  | RTerminateSandbox string
  | RListSandboxes
  | RCreateExecution CreateExecutionRequest
  | RStreamExecution string string bool
  | RCancelExecution string string int
  | RGetExecution string string
  | ROpenInteractive string string "32 word" "32 word"

record cli_state =
  clCalls :: "cli_call list"
  clOut :: "string list"
  clErr :: "string list"
  clFiles :: "(string, string) gomap"
  clDirs :: "string list"
  clProcs :: "string list list"

text \<open>
  What the operating system answers: errors of a write (by how many went before), of the calls on a path (a missing file is no such
  error), and of a process.
\<close>

record cli_env =
  evOut :: "nat \<Rightarrow> string option"
  evErr :: "nat \<Rightarrow> string option"
  evStat :: "string \<Rightarrow> string option"
  evRead :: "string \<Rightarrow> string option"
  evWrite :: "string \<Rightarrow> string option"
  evMkdir :: "string \<Rightarrow> string option"
  evRemove :: "string \<Rightarrow> string option"
  evProc :: "string list \<Rightarrow> (string \<times> cli_error) option"
  evHost :: host_env

type_synonym 'a cmd = "cli_state \<Rightarrow> cli_state \<times> (cli_error + 'a)"

definition cmd_ret :: "'a \<Rightarrow> 'a cmd" where
  "cmd_ret x s = (s, Inr x)"

definition cmd_fail :: "cli_error \<Rightarrow> 'a cmd" where
  "cmd_fail e s = (s, Inl e)"

definition cmd_lift :: "cli_error + 'a \<Rightarrow> 'a cmd" where
  "cmd_lift r s = (s, r)"

definition cmd_bind :: "'a cmd \<Rightarrow> ('a \<Rightarrow> 'b cmd) \<Rightarrow> 'b cmd" where
  "cmd_bind m f s = (case m s of (s', Inl e) \<Rightarrow> (s', Inl e) | (s', Inr x) \<Rightarrow> f x s')"

definition cmd_deferred :: "(cli_state \<Rightarrow> cli_state) \<Rightarrow> 'a cmd \<Rightarrow> 'a cmd" where
  "cmd_deferred f m s = (case m s of (s', r) \<Rightarrow> (f s', r))"

definition cmd_wrap :: "string \<Rightarrow> 'a cmd \<Rightarrow> 'a cmd" where
  "cmd_wrap ctx m s = (case m s of (s', Inl e) \<Rightarrow> (s', Inl (Wrapped ctx e)) | (s', Inr x) \<Rightarrow> (s', Inr x))"

definition write_out :: "cli_env \<Rightarrow> string \<Rightarrow> unit cmd" where
  "write_out ev text s = (case evOut ev (length (clOut s)) of Some e \<Rightarrow> (s, Inl (Failed e)) | None \<Rightarrow> (s\<lparr>clOut := clOut s @ [text]\<rparr>, Inr ()))"

definition write_err :: "cli_env \<Rightarrow> string \<Rightarrow> unit cmd" where
  "write_err ev text s = (case evErr ev (length (clErr s)) of Some e \<Rightarrow> (s, Inl (Failed e)) | None \<Rightarrow> (s\<lparr>clErr := clErr s @ [text]\<rparr>, Inr ()))"

text \<open>A call of the control API is in the log whatever the answer.\<close>

definition rpc :: "cli_call \<Rightarrow> go_error + 'a \<Rightarrow> 'a cmd" where
  "rpc c answer s = (s\<lparr>clCalls := clCalls s @ [c]\<rparr>, map_error RPCError answer)"

datatype stat_info = NoFile | IsFile | IsDir

definition cmd_stat :: "cli_env \<Rightarrow> string \<Rightarrow> stat_info cmd" where
  "cmd_stat ev p s =
     (case evStat ev p of
        Some e \<Rightarrow> (s, Inl (Failed e))
      | None \<Rightarrow> (s, Inr (if p \<in> set (clDirs s) then IsDir else if get (clFiles s) p \<noteq> None then IsFile else NoFile)))"

definition cmd_mkdir :: "cli_env \<Rightarrow> string \<Rightarrow> unit cmd" where
  "cmd_mkdir ev p s = (case evMkdir ev p of Some e \<Rightarrow> (s, Inl (Failed e)) | None \<Rightarrow> (s\<lparr>clDirs := List.insert p (clDirs s)\<rparr>, Inr ()))"

definition cmd_write :: "cli_env \<Rightarrow> string \<Rightarrow> string \<Rightarrow> unit cmd" where
  "cmd_write ev p content s = (case evWrite ev p of Some e \<Rightarrow> (s, Inl (Failed e)) | None \<Rightarrow> (s\<lparr>clFiles := put p content (clFiles s)\<rparr>, Inr ()))"

definition cmd_read :: "cli_env \<Rightarrow> string \<Rightarrow> string cmd" where
  "cmd_read ev p s =
     (case evRead ev p of
        Some e \<Rightarrow> (s, Inl (Failed e))
      | None \<Rightarrow> (case get (clFiles s) p of None \<Rightarrow> (s, Inl (Failed (''open '' @ p @ '': no such file or directory''))) | Some c \<Rightarrow> (s, Inr c)))"

section \<open>Directories and references\<close>

definition resolveCWD :: "string \<Rightarrow> string \<Rightarrow> string" where
  "resolveCWD base chdir = (if chdir = [] then base else if IsAbs chdir then Clean chdir else path_join [base, chdir])"

definition fileExists :: "cli_env \<Rightarrow> string \<Rightarrow> bool cmd" where
  "fileExists ev p = cmd_bind (cmd_stat ev p) (\<lambda>st. cmd_ret (st \<noteq> NoFile))"

definition resolvePolicyPathForUpdate :: "cli_env \<Rightarrow> string \<Rightarrow> string \<Rightarrow> string cmd" where
  "resolvePolicyPathForUpdate ev cwd candidate =
     (if trim_space candidate \<noteq> [] then cmd_ret (if IsAbs candidate then Clean candidate else path_join [cwd, candidate])
      else
        (let primary = path_join [cwd, PrimaryPolicyPath]; fallback = path_join [cwd, FallbackPolicyPath] in
         cmd_bind (cmd_wrap (''check policy '' @ primary) (fileExists ev primary)) (\<lambda>primaryExists.
         if primaryExists then cmd_ret primary
         else
           cmd_bind (cmd_wrap (''check policy '' @ fallback) (fileExists ev fallback)) (\<lambda>fallbackExists.
           if fallbackExists then cmd_ret fallback
           else cmd_fail (Failed (''policy not found: expected '' @ primary @ '' or '' @ fallback))))))"

definition defaultBumpRefSource :: string where
  "defaultBumpRefSource = ''ghcr.io/buildkite/cleanroom-base/alpine:latest''"

text \<open>\<open>newTag\<close> is \<open>name.NewTag\<close>, which gives the name of the repository; \<open>head\<close> asks the registry for the digest of a tag.\<close>

definition resolveReferenceForPolicyUpdate :: "(string \<Rightarrow> string + string) \<Rightarrow> (string \<Rightarrow> string + string) \<Rightarrow> string \<Rightarrow> cli_error + string" where
  "resolveReferenceForPolicyUpdate newTag head source =
     (let trimmed = trim_space source; resolved = (if trimmed = [] then defaultBumpRefSource else trimmed) in
      case ParseDigestReference resolved of
        Inr parsed \<Rightarrow> Inr (drOriginal parsed)
      | Inl _ \<Rightarrow>
          (case newTag resolved of
             Inl e \<Rightarrow> Inl (Wrapped (''parse image ref '' @ go_quote resolved) (Failed e))
           | Inr repository \<Rightarrow>
               (case head resolved of
                  Inl e \<Rightarrow> Inl (Wrapped (''resolve image digest for '' @ go_quote resolved) (Failed e))
                | Inr digest \<Rightarrow> Inr (repository @ ''@'' @ digest))))"

section \<open>A local Docker image\<close>

text \<open>
  The outcome of a \<open>docker\<close> command: its output, or its standard error and the error of the process. \<open>lkList\<close> and \<open>lkImport\<close> are the image
  manager, \<open>lkStat\<close> whether a root file system is there, \<open>lkTemp\<close> the name of the temporary file.
\<close>

record local_docker =
  lkLookPath :: "string option"
  lkDocker :: "string list \<Rightarrow> (string \<times> string) + string"
  lkManager :: "string option"
  lkList :: "string + Record list"
  lkStat :: "string \<Rightarrow> bool"
  lkTemp :: "string + string"
  lkSeek :: "string option"
  lkImport :: "string \<Rightarrow> string \<Rightarrow> string option"

definition docker_error :: "string \<times> string \<Rightarrow> string" where
  "docker_error = (\<lambda>(stderr, err). let errText = trim_space stderr in if errText = [] then err else errText)"

definition docker_command :: "local_docker \<Rightarrow> string list \<Rightarrow> cli_state \<Rightarrow> cli_state \<times> ((string \<times> string) + string)" where
  "docker_command lk args s = (s\<lparr>clProcs := clProcs s @ [''docker'' # args]\<rparr>, lkDocker lk args)"

text \<open>Texts for standard error whose failure is ignored.\<close>

definition note_line :: "cli_env \<Rightarrow> string \<Rightarrow> cli_state \<Rightarrow> cli_state" where
  "note_line ev text s = fst (write_err ev text s)"

definition cli_remove_path :: "string \<Rightarrow> cli_state \<Rightarrow> cli_state" where
  "cli_remove_path p s = s\<lparr>clFiles := del p (clFiles s)\<rparr>"

definition export_container :: "cli_env \<Rightarrow> local_docker \<Rightarrow> string \<Rightarrow> string \<Rightarrow> string \<Rightarrow> string \<Rightarrow> string cmd" where
  "export_container ev lk source containerID ref name s =
     (case docker_command lk [''export'', containerID] s of
        (s, Inl e) \<Rightarrow> (s, Inl (Failed (''export container '' @ go_quote containerID @ '' from '' @ go_quote source @ '': '' @ docker_error e)))
      | (s, Inr tar) \<Rightarrow>
          (let s = s\<lparr>clFiles := put name tar (clFiles s)\<rparr> in
           case lkSeek lk of
             Some e \<Rightarrow> (s, Inl (Failed (''rewind temporary export file: '' @ e)))
           | None \<Rightarrow>
               (case lkImport lk ref tar of
                  Some e \<Rightarrow> (s, Inl (Wrapped (''import local docker image '' @ go_quote source @ '' into cleanroom cache'') (Failed e)))
                | None \<Rightarrow> (note_line ev (''imported local docker image override as '' @ ref @ [CHR 0x0A]) s, Inr ref))))"

definition import_container :: "cli_env \<Rightarrow> local_docker \<Rightarrow> string \<Rightarrow> string \<Rightarrow> string cmd" where
  "import_container ev lk source ref s =
     (case docker_command lk [''create'', source] s of
        (s, Inl e) \<Rightarrow> (s, Inl (Failed (''create container from '' @ go_quote source @ '': '' @ docker_error e)))
      | (s, Inr out) \<Rightarrow>
          (let containerID = trim_space out in
           if containerID = [] then (s, Inl (Failed (''create container from '' @ go_quote source @ '' returned empty container id'')))
           else
             cmd_deferred (\<lambda>s. fst (docker_command lk [''rm'', ''-f'', containerID] s))
               (case lkTemp lk of
                  Inl e \<Rightarrow> cmd_fail (Failed (''create temporary export file: '' @ e))
                | Inr name \<Rightarrow> cmd_deferred (cli_remove_path name) (\<lambda>s. export_container ev lk source containerID ref name (s\<lparr>clFiles := put name [] (clFiles s)\<rparr>))) s))"

definition importLocalDockerImageForOverride :: "cli_env \<Rightarrow> local_docker \<Rightarrow> string \<Rightarrow> string cmd" where
  "importLocalDockerImageForOverride ev lk source0 s =
     (let source = trim_space source0 in
      if source = [] then (s, Inl (Failed ''image reference cannot be empty''))
      else case lkLookPath lk of
        Some e \<Rightarrow> (s, Inl (Failed (''docker CLI not found in PATH: '' @ e)))
      | None \<Rightarrow>
          (case docker_command lk [''image'', ''inspect'', ''--format'', ''{{.Id}}'', source] s of
             (s, Inl e) \<Rightarrow> (s, Inl (Failed (''inspect local docker image '' @ go_quote source @ '': '' @ docker_error e)))
           | (s, Inr out) \<Rightarrow>
               (let imageID = trim_space out in
                if imageID = [] then (s, Inl (Failed (''inspect local docker image '' @ go_quote source @ '' returned empty image id'')))
                else case ParseDigestReference (''local/docker-image@'' @ imageID) of
                  Inl e \<Rightarrow> (s, Inl (Wrapped (''inspect local docker image '' @ go_quote source @ '' returned invalid image id '' @ go_quote imageID) (RefFailed e)))
                | Inr digestRef \<Rightarrow>
                    (case lkManager lk of
                       Some e \<Rightarrow> (s, Inl (Failed e))
                     | None \<Rightarrow>
                         (case lkList lk of
                            Inl e \<Rightarrow> (s, Inl (Failed e))
                          | Inr records \<Rightarrow>
                              if list_ex (\<lambda>r. recDigest r = Digest digestRef \<and> lkStat lk (recRootFSPath r)) records
                              then (note_line ev (''using cached local image override '' @ drOriginal digestRef @ [CHR 0x0A]) s, Inr (drOriginal digestRef))
                              else import_container ev lk source (drOriginal digestRef)
                                (note_line ev (''importing local docker image '' @ go_quote source @ '' into cleanroom cache (first run can take a while)'' @ [CHR 0x0A]) s))))))"

definition resolveReferenceForImageOverride ::
  "cli_env \<Rightarrow> local_docker \<Rightarrow> (string \<Rightarrow> string + string) \<Rightarrow> (string \<Rightarrow> string + string) \<Rightarrow> string \<Rightarrow> bool \<Rightarrow> string cmd" where
  "resolveReferenceForImageOverride ev lk newTag head source allowLocal s =
     (if \<not> allowLocal then (s, resolveReferenceForPolicyUpdate newTag head source)
      else case importLocalDockerImageForOverride ev lk source s of
        (s, Inr localRef) \<Rightarrow> (s, Inr localRef)
      | (s, Inl localErr) \<Rightarrow>
          (s, map_error (\<lambda>e. AndLocal e localErr) (resolveReferenceForPolicyUpdate newTag head source)))"

section \<open>The policy of a new sandbox\<close>

text \<open>\<open>rs\<close> is \<open>resolveReferenceForImageOverride\<close> with its arguments.\<close>

definition apply_image :: "CompiledPolicy \<Rightarrow> string \<Rightarrow> cli_error + CompiledPolicy" where
  "apply_image compiled resolvedRef =
     and_then (map_error (\<lambda>e. Wrapped ''invalid --image value'' (RefFailed e)) (ParseDigestReference resolvedRef)) (\<lambda>parsedRef.
     map_error (\<lambda>e. Wrapped ''apply --image override'' (PolicyFailed e))
       (FromProto (Some ((ToProto compiled)\<lparr>pbImageRef := drOriginal parsedRef, pbImageDigest := Digest parsedRef, pbHash := []\<rparr>))))"

definition overrideCompiledPolicyImage :: "(string \<Rightarrow> bool \<Rightarrow> string cmd) \<Rightarrow> CompiledPolicy \<Rightarrow> string \<Rightarrow> bool \<Rightarrow> CompiledPolicy cmd" where
  "overrideCompiledPolicyImage rs compiled imageRefOverride0 allowLocal =
     (let imageRefOverride = trim_space imageRefOverride0 in
      if imageRefOverride = [] then cmd_ret compiled
      else cmd_bind (cmd_wrap ''invalid --image value'' (rs imageRefOverride allowLocal)) (\<lambda>resolvedRef. cmd_lift (apply_image compiled resolvedRef)))"

definition isLocalControlPlaneEndpoint :: "host_env \<Rightarrow> string \<Rightarrow> cli_error + bool" where
  "isLocalControlPlaneEndpoint env host = and_then (map_error EndpointFailed (Resolve env host)) (\<lambda>ep. Inr (epScheme ep = ''unix''))"

text \<open>The answers of the server. A response may lack its message.\<close>

record cli_api =
  apCreateSandbox :: "CreateSandboxRequest \<Rightarrow> go_error + PbSandbox option"
  apTerminate :: "string \<Rightarrow> go_error + string"
  apList :: "go_error + PbSandbox list"
  apCreateExecution :: "CreateExecutionRequest \<Rightarrow> go_error + PbExecution option"
  apGet :: "string \<Rightarrow> string \<Rightarrow> go_error + PbExecution option"
  apReplay :: "string \<Rightarrow> string \<Rightarrow> go_error + ExecutionStreamEvent list \<times> go_error option"

record cli_world =
  cwEnv :: cli_env
  cwApi :: cli_api
  cwClient :: "string \<Rightarrow> string option"
  cwLoad :: "string \<Rightarrow> load_error + CompiledPolicy \<times> string"
  cwResolve :: "string \<Rightarrow> bool \<Rightarrow> string cmd"
  cwCWD :: string

definition sandbox_id :: "PbSandbox option \<Rightarrow> string" where
  "sandbox_id sb = (case sb of None \<Rightarrow> [] | Some sb \<Rightarrow> trim_space (psSandboxID sb))"

text \<open>From the policy in the directory to the sandbox; the two callers differ in what they do with the response.\<close>

definition create_sandbox :: "cli_world \<Rightarrow> string \<Rightarrow> string \<Rightarrow> string \<Rightarrow> string \<Rightarrow> int \<Rightarrow> PbSandbox option cmd" where
  "create_sandbox w cwd host backendName imageRefOverride launchSeconds =
     cmd_bind (cmd_lift (map_error LoadFailed (cwLoad w cwd))) (\<lambda>(compiled, _).
     cmd_bind (cmd_lift (isLocalControlPlaneEndpoint (evHost (cwEnv w)) host)) (\<lambda>allowLocal.
     cmd_bind (overrideCompiledPolicyImage (cwResolve w) compiled imageRefOverride allowLocal) (\<lambda>compiled.
     let req = \<lparr>csPolicy = Some (ToProto compiled), csBackend = backendName, csLaunchSeconds = Some launchSeconds\<rparr> in
     cmd_wrap ''create sandbox'' (rpc (RCreateSandbox req) (apCreateSandbox (cwApi w) req)))))"

definition ensureSandboxID :: "cli_world \<Rightarrow> string \<Rightarrow> string \<Rightarrow> string \<Rightarrow> string \<Rightarrow> string \<Rightarrow> int \<Rightarrow> string cmd" where
  "ensureSandboxID w cwd host backendName existingSandboxID imageRefOverride launchSeconds =
     (let sandboxID = trim_space existingSandboxID in
      if sandboxID \<noteq> [] then
        (if trim_space imageRefOverride \<noteq> [] then cmd_fail (Failed ''--image cannot be used with --sandbox-id'') else cmd_ret sandboxID)
      else cmd_bind (create_sandbox w cwd host backendName imageRefOverride launchSeconds) (\<lambda>sb. cmd_ret (sandbox_id sb)))"

text \<open>
  \<open>connect\<close> resolves the endpoint and builds the client; \<open>cwClient\<close> is the error of the transport for a CA. \<open>pretty\<close> is the JSON of a sandbox.
\<close>

record clientFlags =
  cfHost :: string
  cfTLSCA :: string

definition connect :: "cli_world \<Rightarrow> clientFlags \<Rightarrow> unit cmd" where
  "connect w f =
     cmd_bind (cmd_lift (map_error EndpointFailed (Resolve (evHost (cwEnv w)) (cfHost f)))) (\<lambda>_.
     case cwClient w (cfTLSCA f) of Some e \<Rightarrow> cmd_fail (Failed e) | None \<Rightarrow> cmd_ret ())"

definition runSandboxCreate :: "cli_world \<Rightarrow> (PbSandbox option \<Rightarrow> string) \<Rightarrow> clientFlags \<Rightarrow> string \<Rightarrow> string \<Rightarrow> string \<Rightarrow> int \<Rightarrow> bool \<Rightarrow> unit cmd" where
  "runSandboxCreate w pretty flags chdir backendName imageRefOverride launchSeconds outputJSON =
     cmd_bind (connect w flags) (\<lambda>_.
     cmd_bind (create_sandbox w (resolveCWD (cwCWD w) chdir) (cfHost flags) backendName imageRefOverride launchSeconds) (\<lambda>sb.
     if sandbox_id sb = [] then cmd_fail (Failed ''create sandbox: response missing sandbox id'')
     else write_out (cwEnv w) ((if outputJSON then pretty sb else sandbox_id sb) @ [CHR 0x0A])))"

definition SandboxTerminateCommand_Run :: "cli_world \<Rightarrow> clientFlags \<Rightarrow> string \<Rightarrow> unit cmd" where
  "SandboxTerminateCommand_Run w flags sandboxID =
     cmd_bind (connect w flags) (\<lambda>_.
     cmd_bind (rpc (RTerminateSandbox sandboxID) (apTerminate (cwApi w) sandboxID)) (\<lambda>message. write_out (cwEnv w) (message @ [CHR 0x0A])))"

definition sandboxStatusString :: "SandboxStatus \<Rightarrow> string" where
  "sandboxStatusString s =
     (case s of
        SANDBOX_PROVISIONING \<Rightarrow> ''provisioning'' | SANDBOX_READY \<Rightarrow> ''ready'' | SANDBOX_STOPPING \<Rightarrow> ''stopping'' | SANDBOX_STOPPED \<Rightarrow> ''stopped''
      | SANDBOX_FAILED \<Rightarrow> ''failed'' | SANDBOX_UNSPECIFIED \<Rightarrow> ''unknown'')"

text \<open>The cells of the table; \<open>tabwriter\<close> lays them out (\<open>layout\<close>), \<open>rfc3339\<close> writes a time.\<close>

definition SandboxListCommand_Run :: "cli_world \<Rightarrow> (PbSandbox list \<Rightarrow> string) \<Rightarrow> (string list list \<Rightarrow> string) \<Rightarrow> (time \<Rightarrow> string) \<Rightarrow> clientFlags \<Rightarrow> bool \<Rightarrow> unit cmd" where
  "SandboxListCommand_Run w pretty layout rfc3339 flags asJSON =
     cmd_bind (connect w flags) (\<lambda>_.
     cmd_bind (rpc RListSandboxes (apList (cwApi w))) (\<lambda>sandboxes.
     write_out (cwEnv w)
       (if asJSON then pretty sandboxes
        else if sandboxes = [] then ''no active sandboxes'' @ [CHR 0x0A]
        else layout ([''ID'', ''STATUS'', ''BACKEND'', ''CREATED''] #
          map (\<lambda>sb. [psSandboxID sb, sandboxStatusString (psStatus sb), psBackend sb, rfc3339 (psCreatedAt sb)]) sandboxes))))"

definition PolicyValidateCommand_Run :: "cli_world \<Rightarrow> (string \<Rightarrow> CompiledPolicy \<Rightarrow> string) \<Rightarrow> string \<Rightarrow> bool \<Rightarrow> unit cmd" where
  "PolicyValidateCommand_Run w pretty chdir asJSON =
     cmd_bind (cmd_lift (map_error LoadFailed (cwLoad w (resolveCWD (cwCWD w) chdir)))) (\<lambda>(compiled, source).
     write_out (cwEnv w) (if asJSON then pretty source compiled
       else ''policy valid: '' @ source @ [CHR 0x0A] @ ''policy hash: '' @ cpHash compiled @ [CHR 0x0A]))"

end
