(* ===== verification/Cli_Edit.thy ===== *)
theory Cli_Edit
  imports Cli
begin

text \<open>The commands that edit files of the user (\<open>image bump-ref\<close>, \<open>config init\<close>) and those of the image cache.\<close>

section \<open>YAML nodes\<close>

datatype yaml_kind = YZero | YDocument | YSequence | YMapping | YScalar | YAlias

text \<open>\<open>yMeta\<close> is the rest of a node (style, anchor, comments, position), which the code never changes.\<close>

datatype yaml_node = YNode (yKind: yaml_kind) (yTag: string) (yValue: string) (yContent: "yaml_node list") (yMeta: string)

definition scalar_node :: "string \<Rightarrow> string \<Rightarrow> yaml_node" where
  "scalar_node tag v = YNode YScalar tag v [] []"

definition mapping_node :: yaml_node where
  "mapping_node = YNode YMapping [] [] [] []"

definition as_mapping :: "yaml_node \<Rightarrow> yaml_node" where
  "as_mapping v = (if yKind v = YMapping then v else YNode YMapping [] [] [] (yMeta v))"

definition set_content :: "yaml_node list \<Rightarrow> yaml_node \<Rightarrow> yaml_node" where
  "set_content c v = YNode (yKind v) (yTag v) (yValue v) c (yMeta v)"

text \<open>
  The content of a mapping alternates keys and values. \<open>ensureMapEntry\<close> gives the value of a key to change; the change is \<open>f\<close> here. The loops
  leave a last key without a value alone.
\<close>

fun ensureMapEntry :: "string \<Rightarrow> (yaml_node \<Rightarrow> yaml_node) \<Rightarrow> yaml_node list \<Rightarrow> yaml_node list" where
  "ensureMapEntry key f (k # v # rest) = (if yValue k = key then k # f (as_mapping v) # rest else k # v # ensureMapEntry key f rest)"
| "ensureMapEntry key f rest = rest @ [scalar_node ''!!str'' key, f mapping_node]"

fun set_scalar :: "string \<Rightarrow> string \<Rightarrow> string \<Rightarrow> yaml_node list \<Rightarrow> yaml_node list" where
  "set_scalar key tag value (k # v # rest) =
     (if yValue k = key then k # YNode YScalar tag value [] (yMeta v) # rest else k # v # set_scalar key tag value rest)"
| "set_scalar key tag value rest = rest @ [scalar_node ''!!str'' key, scalar_node tag value]"

definition setMapString :: "string \<Rightarrow> string \<Rightarrow> yaml_node list \<Rightarrow> yaml_node list" where
  "setMapString key value = set_scalar key ''!!str'' value"

definition setMapInt :: "string \<Rightarrow> int \<Rightarrow> yaml_node list \<Rightarrow> yaml_node list" where
  "setMapInt key value = set_scalar key ''!!int'' (itoa value)"

definition on_content :: "(yaml_node list \<Rightarrow> yaml_node list) \<Rightarrow> yaml_node \<Rightarrow> yaml_node" where
  "on_content f v = set_content (f (yContent v)) v"

text \<open>The change of the root mapping, and of the document.\<close>

definition set_ref :: "string \<Rightarrow> yaml_node \<Rightarrow> yaml_node" where
  "set_ref ref = on_content (ensureMapEntry ''sandbox'' (on_content (ensureMapEntry ''image'' (on_content (setMapString ''ref'' ref)))))"

definition update_document :: "string \<Rightarrow> yaml_node \<Rightarrow> cli_error + yaml_node" where
  "update_document ref doc0 =
     (let doc = (if yKind doc0 = YZero then YNode YDocument (yTag doc0) (yValue doc0) (yContent doc0) (yMeta doc0) else doc0);
          bootstrapped = (yContent doc = []);
          content = (if bootstrapped then [mapping_node] else yContent doc);
          root = hd content in
      if yKind root \<noteq> YMapping then Inl (Failed ''policy root must be a mapping'')
      else
        (let root = (if bootstrapped then on_content (setMapInt ''version'' 1) root else root)
         in Inr (set_content (set_ref ref root # tl content) doc)))"

text \<open>\<open>unmarshal\<close> and \<open>encode\<close> are the YAML library.\<close>

definition setSandboxImageRef :: "(string \<Rightarrow> string + yaml_node) \<Rightarrow> (yaml_node \<Rightarrow> string + string) \<Rightarrow> string \<Rightarrow> string \<Rightarrow> cli_error + string" where
  "setSandboxImageRef unmarshal encode raw ref =
     and_then (map_error Failed (unmarshal raw)) (\<lambda>doc.
     and_then (update_document ref doc) (\<lambda>doc. map_error Failed (encode doc)))"

definition ImageBumpRefCommand_Run ::
  "cli_world \<Rightarrow> (string \<Rightarrow> string + yaml_node) \<Rightarrow> (yaml_node \<Rightarrow> string + string) \<Rightarrow> (string \<Rightarrow> cli_error + string) \<Rightarrow> string \<Rightarrow> string \<Rightarrow> string \<Rightarrow> unit cmd" where
  "ImageBumpRefCommand_Run w unmarshal encode resolveRef source0 chdir policyFlag =
     (let ev = cwEnv w in
      cmd_bind (cmd_lift (resolveRef source0)) (\<lambda>resolvedRef.
      cmd_bind (resolvePolicyPathForUpdate ev (resolveCWD (cwCWD w) chdir) policyFlag) (\<lambda>policyPath.
      cmd_bind (cmd_wrap (''read policy '' @ policyPath) (cmd_read ev policyPath)) (\<lambda>raw.
      cmd_bind (cmd_wrap (''update policy '' @ policyPath) (cmd_lift (setSandboxImageRef unmarshal encode raw resolvedRef))) (\<lambda>updated.
      cmd_bind (cmd_wrap (''stat policy '' @ policyPath) (cmd_bind (cmd_stat ev policyPath)
        (\<lambda>st. if st = NoFile then cmd_fail (Failed (''stat '' @ policyPath @ '': no such file or directory'')) else cmd_ret ()))) (\<lambda>_.
      cmd_bind (cmd_wrap (''write policy '' @ policyPath) (cmd_write ev policyPath updated)) (\<lambda>_.
      let source = (if trim_space source0 = [] then defaultBumpRefSource else trim_space source0) in
      write_out ev (''updated sandbox.image.ref'' @ [CHR 0x0A] @ ''policy='' @ policyPath @ [CHR 0x0A] @ ''source='' @ source @ [CHR 0x0A] @ ''ref='' @ resolvedRef @ [CHR 0x0A]))))))))"

section \<open>Configuration file\<close>

definition defaultRuntimeConfig :: "string \<Rightarrow> Config" where
  "defaultRuntimeConfig defaultBackend =
     (let docker = \<lparr>dscStartupTimeoutSeconds = 20, dscStorageDriver = ''vfs'', dscIPTables = False\<rparr> in
      \<lparr>cfgDefaultBackend = defaultBackend,
       cfgFirecracker = \<lparr>rfBinaryPath = ''firecracker'', rfKernelImage = [], rfRootFS = [], rfDocker = docker, rfPrivilegedMode = ''sudo'',
         rfPrivilegedHelperPath = ''/usr/local/sbin/cleanroom-root-helper'', rfVCPUs = 2, rfMemoryMiB = 1024, rfGuestCID = 3, rfGuestPort = 10700, rfLaunchSeconds = 30\<rparr>,
       cfgDarwinVZ = \<lparr>dvKernelImage = [], dvRootFS = [], dvDocker = docker, dvVCPUs = 2, dvMemoryMiB = 1024, dvGuestPort = 10700, dvLaunchSeconds = 30\<rparr>\<rparr>)"

text \<open>\<open>marshal\<close> is the YAML library.\<close>

definition ConfigInitCommand_Run :: "cli_world \<Rightarrow> (Config \<Rightarrow> string + string) \<Rightarrow> string \<Rightarrow> bool \<Rightarrow> string \<Rightarrow> unit cmd" where
  "ConfigInitCommand_Run w marshal path0 force backend0 =
     (let ev = cwEnv w; trimmedPath = trim_space path0;
          defaultBackend = (if trim_space backend0 = [] then DefaultBackendForHost (evHost ev) else trim_space backend0) in
      cmd_bind (cmd_lift (if trimmedPath = [] then map_error EnvFailed (configPath (evHost ev))
                          else Inr (if IsAbs trimmedPath then trimmedPath else path_join [cwCWD w, trimmedPath]))) (\<lambda>path.
      if defaultBackend \<noteq> ''firecracker'' \<and> defaultBackend \<noteq> ''darwin-vz''
      then cmd_fail (Failed (''unsupported default backend '' @ go_quote defaultBackend @ '' (expected firecracker or darwin-vz)''))
      else
        cmd_bind (cmd_wrap (''stat '' @ path) (cmd_stat ev path)) (\<lambda>st.
        if st = IsFile \<and> \<not> force then cmd_fail (Failed (''runtime config already exists at '' @ path @ '' (use --force to overwrite)''))
        else if st = IsDir then cmd_fail (Failed (''runtime config path '' @ path @ '' is a directory''))
        else
          cmd_bind (cmd_wrap ''create config directory'' (cmd_mkdir ev (path_dir path))) (\<lambda>_.
          cmd_bind (cmd_wrap ''marshal runtime config template'' (cmd_lift (map_error Failed (marshal (defaultRuntimeConfig defaultBackend))))) (\<lambda>payload.
          cmd_bind (cmd_wrap (''write runtime config '' @ path) (cmd_write ev path payload)) (\<lambda>_.
          write_out ev (''runtime config written: '' @ path @ [CHR 0x0A])))))))"

section \<open>Image commands\<close>

definition image_lines :: "string \<Rightarrow> Record \<Rightarrow> string" where
  "image_lines what r =
     what @ '' image'' @ [CHR 0x0A] @ ''ref='' @ recRef r @ [CHR 0x0A] @ ''digest='' @ recDigest r @ [CHR 0x0A] @
     ''rootfs='' @ recRootFSPath r @ [CHR 0x0A] @ ''size_bytes='' @ itoa (recSizeBytes r) @ [CHR 0x0A]"

text \<open>The image manager runs beside the state of the command: its outcome is an argument.\<close>

definition ImagePullCommand_Run :: "cli_env \<Rightarrow> string + EnsureResult \<Rightarrow> unit cmd" where
  "ImagePullCommand_Run ev pulled =
     cmd_bind (cmd_lift (map_error Failed pulled)) (\<lambda>r. write_out ev (image_lines (if enCacheHit r then ''cached'' else ''pulled'') (enRecord r)))"

definition ImageImportCommand_Run :: "cli_env \<Rightarrow> string + Record \<Rightarrow> unit cmd" where
  "ImageImportCommand_Run ev record0 = cmd_bind (cmd_lift (map_error Failed record0)) (\<lambda>r. write_out ev (image_lines ''imported'' r))"

fun write_all :: "cli_env \<Rightarrow> string list \<Rightarrow> unit cmd" where
  "write_all ev [] s = (s, Inr ())"
| "write_all ev (t # ts) s = cmd_bind (write_out ev t) (\<lambda>_. write_all ev ts) s"

definition ImageRemoveCommand_Run :: "cli_env \<Rightarrow> string + Record list \<Rightarrow> string \<Rightarrow> unit cmd" where
  "ImageRemoveCommand_Run ev records selector =
     cmd_bind (cmd_lift (map_error Failed records)) (\<lambda>items.
     if items = [] then write_out ev (''no cached images match '' @ go_quote selector @ [CHR 0x0A])
     else write_all ev (map (\<lambda>r. ''removed '' @ recDigest r @ '' ('' @ recRef r @ '')'' @ [CHR 0x0A]) items))"

definition ImageListCommand_Run ::
  "cli_env \<Rightarrow> (Record list \<Rightarrow> string) \<Rightarrow> (string list list \<Rightarrow> string) \<Rightarrow> (Record \<Rightarrow> string) \<Rightarrow> string + Record list \<Rightarrow> bool \<Rightarrow> unit cmd" where
  "ImageListCommand_Run ev pretty layout lastUsed listed asJSON =
     cmd_bind (cmd_lift (map_error Failed listed)) (\<lambda>items.
     write_out ev
       (if asJSON then pretty items
        else if items = [] then ''no cached images'' @ [CHR 0x0A]
        else layout ([''DIGEST'', ''REF'', ''SIZE'', ''LAST_USED'', ''ROOTFS''] #
          map (\<lambda>r. [recDigest r, recRef r, itoa (recSizeBytes r), lastUsed r, recRootFSPath r]) items)))"

section \<open>Runs\<close>

text \<open>The entries of the run directory: name, whether a directory, modification time or the error of reading it.\<close>

type_synonym dir_entry = "string \<times> bool \<times> (string + int)"

fun newest_run :: "(string \<times> int) option \<Rightarrow> dir_entry list \<Rightarrow> cli_error + string option" where
  "newest_run best [] = Inr (map_option fst best)"
| "newest_run best ((name, isDir, modTime) # rest) =
     (if \<not> isDir then newest_run best rest
      else case modTime of
        Inl e \<Rightarrow> Inl (Failed e)
      | Inr t \<Rightarrow> newest_run (case best of None \<Rightarrow> Some (name, t) | Some (n, t') \<Rightarrow> if t > t' then Some (name, t) else best) rest)"

text \<open>\<open>reindent\<close> is \<open>json.Unmarshal\<close> into a map and \<open>json.MarshalIndent\<close>.\<close>

definition inspectRun :: "cli_env \<Rightarrow> (string \<Rightarrow> cli_error + string) \<Rightarrow> string \<Rightarrow> string \<Rightarrow> unit cmd" where
  "inspectRun ev reindent baseDir runID =
     (let runDir = path_join [baseDir, runID]; obsPath = path_join [runDir, ''run-observability.json''] in
      cmd_bind (cmd_stat ev runDir) (\<lambda>st.
      if st = NoFile then cmd_fail (Failed (''run '' @ go_quote runID @ '' not found in '' @ baseDir))
      else
        cmd_bind (write_out ev (''run: '' @ runDir @ [CHR 0x0A])) (\<lambda>_ s.
          if evRead ev obsPath = None \<and> get (clFiles s) obsPath = None
          then write_out ev (''observability: not found ('' @ obsPath @ '')'' @ [CHR 0x0A]) s
          else
            cmd_bind (cmd_read ev obsPath) (\<lambda>b.
            cmd_bind (cmd_lift (reindent b)) (\<lambda>out.
            write_out ev (''observability ('' @ obsPath @ ''):'' @ [CHR 0x0A] @ out @ [CHR 0x0A]))) s)))"

text \<open>\<open>entries\<close> is \<open>os.ReadDir\<close>: \<open>None\<close> when the directory does not exist.\<close>

definition StatusCommand_Run ::
  "cli_env \<Rightarrow> (string \<Rightarrow> cli_error + string) \<Rightarrow> (string + dir_entry list) option \<Rightarrow> string \<Rightarrow> bool \<Rightarrow> unit cmd" where
  "StatusCommand_Run ev reindent entries runID lastRun =
     cmd_bind (cmd_wrap ''resolve run base directory'' (cmd_lift (map_error EnvFailed (RunBaseDir (evHost ev))))) (\<lambda>baseDir.
     if runID \<noteq> [] \<and> lastRun then cmd_fail (Failed ''choose either --run-id or --last-run'')
     else if runID \<noteq> [] then inspectRun ev reindent baseDir runID
     else case entries of
       None \<Rightarrow> write_out ev (''no runs found ('' @ baseDir @ '' does not exist)'' @ [CHR 0x0A])
     | Some (Inl e) \<Rightarrow> cmd_fail (Failed e)
     | Some (Inr es) \<Rightarrow>
         if lastRun then
           cmd_bind (cmd_lift (newest_run None es)) (\<lambda>newest.
             case newest of
               None \<Rightarrow> write_out ev (''no runs found in '' @ baseDir @ [CHR 0x0A])
             | Some name \<Rightarrow> inspectRun ev reindent baseDir name)
         else if es = [] then write_out ev (''no runs found in '' @ baseDir @ [CHR 0x0A])
         else
           cmd_bind (write_out ev (''runs in '' @ baseDir @ '':'' @ [CHR 0x0A])) (\<lambda>_.
           write_all ev (map (\<lambda>(name, _). ''- '' @ name @ [CHR 0x0A]) (filter (\<lambda>(_, isDir, _). isDir) es))))"

end
