(* ===== verification/Cli_Exec.thy ===== *)
theory Cli_Exec
  imports Cli Interactive_Client Gateway
begin

text \<open>
  \<open>exec\<close> and \<open>console\<close>: a command in a sandbox, its output and its exit code. Goroutines that handle signals and control messages are
  interleaved with the loop over the output by the list of turns that the environment gives.
\<close>

section \<open>Shared by the two commands\<close>

definition cli_isFinalExecutionStatus :: "ExecutionStatus \<Rightarrow> bool" where
  "cli_isFinalExecutionStatus st \<longleftrightarrow> st \<in> {SUCCEEDED, FAILED, CANCELED, TIMED_OUT}"

definition final_exit_code :: "go_error + PbExecution option \<Rightarrow> int option" where
  "final_exit_code answer =
     (case answer of
        Inr (Some ex) \<Rightarrow> if cli_isFinalExecutionStatus (peStatus ex) then Some (peExitCode ex) else None
      | _ \<Rightarrow> None)"

definition getFinalExecutionExitCode :: "cli_api \<Rightarrow> string \<Rightarrow> string \<Rightarrow> cli_state \<Rightarrow> cli_state \<times> int option" where
  "getFinalExecutionExitCode api sandboxID executionID s =
     (s\<lparr>clCalls := clCalls s @ [RGetExecution sandboxID executionID]\<rparr>, final_exit_code (apGet api sandboxID executionID))"

text \<open>The exit code of the stream, or of the execution once it is final.\<close>

definition with_final :: "cli_api \<Rightarrow> string \<Rightarrow> string \<Rightarrow> int option \<Rightarrow> cli_state \<Rightarrow> cli_state \<times> int option" where
  "with_final api sandboxID executionID code s =
     (case code of Some c \<Rightarrow> (s, Some c) | None \<Rightarrow> getFinalExecutionExitCode api sandboxID executionID s)"

definition report_exit :: "string \<Rightarrow> int option \<Rightarrow> cli_error + unit" where
  "report_exit missing code =
     (case code of None \<Rightarrow> Inl (Failed missing) | Some c \<Rightarrow> if c \<noteq> 0 then Inl (ExitCodeError c) else Inr ())"

definition terminateSandboxBestEffort :: "string \<Rightarrow> cli_state \<Rightarrow> cli_state" where
  "terminateSandboxBestEffort sandboxID s =
     (if trim_space sandboxID = [] then s else s\<lparr>clCalls := clCalls s @ [RTerminateSandbox sandboxID]\<rparr>)"

definition isCanceledStreamErr :: "go_error \<Rightarrow> bool" where
  "isCanceledStreamErr e \<longleftrightarrow> geContext e = Some ContextCanceled \<or> (\<exists>m. geConnect e = Some (CodeCanceled, m))"

lemma isCanceledStreamErr_code [code]:
  "isCanceledStreamErr e = (geContext e = Some ContextCanceled \<or> (case geConnect e of Some (CodeCanceled, _) \<Rightarrow> True | _ \<Rightarrow> False))"
  by (auto simp: isCanceledStreamErr_def split: option.splits prod.splits connect_code.splits)

definition isExecutionNoLongerActiveErr :: "go_error \<Rightarrow> bool" where
  "isExecutionNoLongerActiveErr e = contains_str (to_lower (geText e)) ''no longer active''"

section \<open>exec\<close>

datatype exec_turn = SEvent ExecutionStreamEvent | SSignal

record exec_loop =
  elExit :: "int option"
  elInterrupts :: nat

definition exec_stream_event :: "cli_env \<Rightarrow> ExecutionStreamEvent \<Rightarrow> exec_loop \<Rightarrow> exec_loop cmd" where
  "exec_stream_event ev e l =
     (case eePayload e of
        PStdout chunk \<Rightarrow> cmd_bind (write_out ev chunk) (\<lambda>_. cmd_ret l)
      | PStderr chunk \<Rightarrow> cmd_bind (write_err ev chunk) (\<lambda>_. cmd_ret l)
      | PExit code _ _ \<Rightarrow> cmd_ret (l\<lparr>elExit := Some code\<rparr>)
      | PMessage _ \<Rightarrow> cmd_ret l)"

text \<open>The first signal asks the server to cancel, the second one detaches (and cancels the stream), later ones do nothing.\<close>

definition exec_signal :: "string \<Rightarrow> string \<Rightarrow> exec_loop \<Rightarrow> cli_state \<Rightarrow> cli_state \<times> exec_loop" where
  "exec_signal sandboxID executionID l s =
     (if elInterrupts l = 0 then s\<lparr>clCalls := clCalls s @ [RCancelExecution sandboxID executionID 2]\<rparr> else s,
      l\<lparr>elInterrupts := elInterrupts l + 1\<rparr>)"

fun exec_stream :: "cli_env \<Rightarrow> string \<Rightarrow> string \<Rightarrow> exec_turn list \<Rightarrow> exec_loop \<Rightarrow> exec_loop cmd" where
  "exec_stream ev sandboxID executionID [] l s = (s, Inr l)"
| "exec_stream ev sandboxID executionID (SEvent e # rest) l s =
     cmd_bind (exec_stream_event ev e l) (\<lambda>l. exec_stream ev sandboxID executionID rest l) s"
| "exec_stream ev sandboxID executionID (SSignal # rest) l s =
     (case exec_signal sandboxID executionID l s of (s, l) \<Rightarrow> exec_stream ev sandboxID executionID rest l s)"

record ExecCommand =
  xcFlags :: clientFlags
  xcChdir :: string
  xcBackend :: string
  xcSandboxID :: string
  xcImage :: string
  xcRemove :: bool
  xcPrintSandboxID :: bool
  xcLaunchSeconds :: int
  xcCommand :: "string list"

text \<open>
  \<open>stream\<close> is the answer of \<open>StreamExecution\<close>: an error, or the turns until the stream ended and the error it ended with. The state \<open>detached\<close> of
  the deferred clean-up is the second component of the result.
\<close>

type_synonym exec_answer = "string \<Rightarrow> string \<Rightarrow> go_error + exec_turn list \<times> go_error option"

definition exec_finish :: "cli_world \<Rightarrow> bool \<Rightarrow> string \<Rightarrow> string \<Rightarrow> go_error option \<Rightarrow> exec_loop \<Rightarrow> cli_state \<Rightarrow> cli_state \<times> (cli_error + unit) \<times> bool" where
  "exec_finish w remove sandboxID executionID streamErr l s =
     (if elInterrupts l \<ge> 2 then
        (if remove then terminateSandboxBestEffort sandboxID s else s, Inl (ExitCodeError 130), True)
      else
        (case streamErr of
           Some e \<Rightarrow>
             if \<not> isCanceledStreamErr e then (s, Inl (Wrapped ''stream execution'' (RPCError e)), False)
             else (case with_final (cwApi w) sandboxID executionID (elExit l) s of
                     (s, code) \<Rightarrow> (s, report_exit ''execution stream ended without exit status'' code, False))
         | None \<Rightarrow> (case with_final (cwApi w) sandboxID executionID (elExit l) s of
                     (s, code) \<Rightarrow> (s, report_exit ''execution stream ended without exit status'' code, False))))"

definition exec_in_sandbox :: "cli_world \<Rightarrow> exec_answer \<Rightarrow> ExecCommand \<Rightarrow> string \<Rightarrow> cli_state \<Rightarrow> cli_state \<times> (cli_error + unit) \<times> bool" where
  "exec_in_sandbox w stream c sandboxID s =
     (let req = \<lparr>ceSandboxID = sandboxID, ceCommand = xcCommand c, ceOptions = Some (xcLaunchSeconds c, False), ceKind = KIND_BATCH\<rparr> in
      case cmd_wrap ''create execution'' (rpc (RCreateExecution req) (apCreateExecution (cwApi w) req)) s of
        (s, Inl e) \<Rightarrow> (s, Inl e, False)
      | (s, Inr created) \<Rightarrow>
          (let executionID = (case created of None \<Rightarrow> [] | Some ex \<Rightarrow> peExecutionID ex) in
           case cmd_wrap ''stream execution'' (rpc (RStreamExecution sandboxID executionID True) (stream sandboxID executionID)) s of
             (s, Inl e) \<Rightarrow> (s, Inl e, False)
           | (s, Inr (turns, streamErr)) \<Rightarrow>
               (case exec_stream (cwEnv w) sandboxID executionID turns \<lparr>elExit = None, elInterrupts = 0\<rparr> s of
                  (s, Inl e) \<Rightarrow> (s, Inl e, False)
                | (s, Inr l) \<Rightarrow> exec_finish w (xcRemove c) sandboxID executionID streamErr l s)))"

text \<open>The command from the sandbox on, with the deferred clean-up. A failure to print the identifier comes before the clean-up is deferred.\<close>

definition exec_with_sandbox :: "cli_world \<Rightarrow> exec_answer \<Rightarrow> ExecCommand \<Rightarrow> string \<Rightarrow> unit cmd" where
  "exec_with_sandbox w stream c sandboxID =
     cmd_bind (if xcPrintSandboxID c then write_err (cwEnv w) (''sandbox_id='' @ sandboxID @ [CHR 0x0A]) else cmd_ret ()) (\<lambda>_ s.
       case exec_in_sandbox w stream c sandboxID s of
         (s, r, detached) \<Rightarrow> (if detached \<or> \<not> xcRemove c \<or> sandboxID = [] then s else terminateSandboxBestEffort sandboxID s, r))"

text \<open>\<open>logger\<close> is the error of an unknown log level.\<close>

definition ExecCommand_Run :: "cli_world \<Rightarrow> string option \<Rightarrow> exec_answer \<Rightarrow> ExecCommand \<Rightarrow> unit cmd" where
  "ExecCommand_Run w logger stream c =
     (case logger of
        Some e \<Rightarrow> cmd_fail (Failed e)
      | None \<Rightarrow>
          cmd_bind (connect w (xcFlags c)) (\<lambda>_.
          cmd_bind (ensureSandboxID w (resolveCWD (cwCWD w) (xcChdir c)) (cfHost (xcFlags c)) (xcBackend c) (trim_space (xcSandboxID c)) (xcImage c) (xcLaunchSeconds c))
            (exec_with_sandbox w stream c)))"

section \<open>The output of a console\<close>

fun normalize_bytes :: "bool \<Rightarrow> string \<Rightarrow> string" where
  "normalize_bytes endedCR [] = []"
| "normalize_bytes endedCR (b # bs) = (if b = CHR 0x0A \<and> \<not> endedCR then [CHR 0x0D, b] else [b]) @ normalize_bytes (b = CHR 0x0D) bs"

definition normalizeLineEndingsForRawTTY :: "string \<Rightarrow> bool \<Rightarrow> string \<times> bool" where
  "normalizeLineEndingsForRawTTY chunk prevEndedCR =
     (if chunk = [] then (chunk, prevEndedCR)
      else if CHR 0x0A \<notin> set chunk then (chunk, last chunk = CHR 0x0D)
      else (normalize_bytes prevEndedCR chunk, last chunk = CHR 0x0D))"

text \<open>The size of the terminal, or the error of asking; \<open>int\<close> numbers are cut to 32 bits.\<close>

definition attachTTYSize :: "(int \<times> int) option \<Rightarrow> 32 word \<times> 32 word" where
  "attachTTYSize sz =
     (case sz of
        None \<Rightarrow> (80, 24)
      | Some (cols, rows) \<Rightarrow> (word_of_int (if cols \<le> 0 then 80 else cols), word_of_int (if rows \<le> 0 then 24 else rows)))"

definition trimPassthroughSeparator :: "string list \<Rightarrow> string list" where
  "trimPassthroughSeparator args = (case args of [] \<Rightarrow> [] | a # rest \<Rightarrow> if trim_space a \<noteq> ''--'' then args else rest)"

section \<open>The control channel of a console\<close>

text \<open>An error of a stream: its text, whether it is the end of the stream, a cancelled context or a closed connection, and the QUIC application code.\<close>

record stream_error =
  seText :: string
  seEnded :: bool
  seAppCode :: "nat option"

definition isInteractiveStreamClosedErr :: "stream_error \<Rightarrow> bool" where
  "isInteractiveStreamClosedErr e \<longleftrightarrow> seEnded e \<or> seAppCode e = Some 0"

text \<open>
  The goroutine over the control messages writes to two channels of capacity one and closes the second at its end; these are its operations.
\<close>

datatype chan_op = OpExit int | OpErr stream_error | OpClose

fun control_ops :: "stream_error option \<Rightarrow> controlMessage list \<Rightarrow> chan_op list" where
  "control_ops eventErr [] = (case eventErr of None \<Rightarrow> [] | Some e \<Rightarrow> [OpErr e]) @ [OpClose]"
| "control_ops eventErr (m # ms) =
     (if cmType m = ''exit'' then [OpExit (cmExitCode m), OpClose]
      else if cmType m = ''error'' \<and> trim_space (cmError m) \<noteq> [] then [OpErr \<lparr>seText = cmError m, seEnded = False, seAppCode = None\<rparr>, OpClose]
      else control_ops eventErr ms)"

text \<open>The channels; a channel of errors that was seen closed becomes nil.\<close>

datatype err_chan = ErrNil | ErrOpen "stream_error option" | ErrClosed "stream_error option"

record chans =
  chExit :: "int option"
  chErr :: err_chan

definition new_chans :: chans where
  "new_chans = \<lparr>chExit = None, chErr = ErrOpen None\<rparr>"

definition apply_op :: "chan_op \<Rightarrow> chans \<Rightarrow> chans" where
  "apply_op op c =
     (case op of
        OpExit code \<Rightarrow> (case chExit c of None \<Rightarrow> c\<lparr>chExit := Some code\<rparr> | Some _ \<Rightarrow> c)
      | OpErr e \<Rightarrow> (case chErr c of ErrOpen None \<Rightarrow> c\<lparr>chErr := ErrOpen (Some e)\<rparr> | _ \<Rightarrow> c)
      | OpClose \<Rightarrow> (case chErr c of ErrOpen b \<Rightarrow> c\<lparr>chErr := ErrClosed b\<rparr> | _ \<Rightarrow> c))"

definition control_failed :: "stream_error \<Rightarrow> cli_error" where
  "control_failed e = Wrapped ''interactive control stream'' (Failed (seText e))"

definition pollInteractiveExitOrControlErr :: "chans \<Rightarrow> chans \<times> (cli_error + int option)" where
  "pollInteractiveExitOrControlErr c =
     (case chExit c of
        Some code \<Rightarrow> (c\<lparr>chExit := None\<rparr>, Inr (Some code))
      | None \<Rightarrow>
          (case chErr c of
             ErrNil \<Rightarrow> (c, Inr None)
           | ErrOpen None \<Rightarrow> (c, Inr None)
           | ErrClosed None \<Rightarrow> (c\<lparr>chErr := ErrNil\<rparr>, Inr None)
           | ErrOpen (Some e) \<Rightarrow> (c\<lparr>chErr := ErrOpen None\<rparr>, if isInteractiveStreamClosedErr e then Inr None else Inl (control_failed e))
           | ErrClosed (Some e) \<Rightarrow> (c\<lparr>chErr := ErrClosed None\<rparr>, if isInteractiveStreamClosedErr e then Inr None else Inl (control_failed e))))"

text \<open>
  The wait after the end of the output: what the goroutine still does until the deadline, which comes at the end of the operations. A poll
  finds what is there; the select then takes the next operation.
\<close>

fun waitForInteractiveExitOrControlErr :: "chan_op list \<Rightarrow> chans \<Rightarrow> cli_error + int option" where
  "waitForInteractiveExitOrControlErr ops c =
     (case pollInteractiveExitOrControlErr c of
        (c, Inl e) \<Rightarrow> Inl e
      | (c, Inr (Some code)) \<Rightarrow> Inr (Some code)
      | (c, Inr None) \<Rightarrow>
          (case ops of
             [] \<Rightarrow> Inr None
           | op # rest \<Rightarrow> waitForInteractiveExitOrControlErr rest (apply_op op c)))"

declare waitForInteractiveExitOrControlErr.simps [simp del]

definition resolveConsoleDialFailure :: "cli_error \<Rightarrow> (cli_error + int option) \<Rightarrow> int option \<Rightarrow> cli_error + unit" where
  "resolveConsoleDialFailure dialErr replayed fetched =
     (let code = (case replayed of Inr (Some c) \<Rightarrow> Some c | _ \<Rightarrow> fetched) in
      case code of Some c \<Rightarrow> if c \<noteq> 0 then Inl (ExitCodeError c) else Inr () | None \<Rightarrow> Inl (Wrapped ''dial interactive execution'' dialErr))"

section \<open>The endpoint of a console\<close>

text \<open>\<open>net.SplitHostPort\<close> with the port, which follows the last colon, and \<open>net.JoinHostPort\<close>.\<close>

definition split_host_port :: "string \<Rightarrow> (string \<times> string) option" where
  "split_host_port hp = map_option (\<lambda>host. (host, rev (takeWhile (\<lambda>c. c \<noteq> CHR '':'') (rev hp)))) (SplitHostPort hp)"

definition JoinHostPort :: "string \<Rightarrow> string \<Rightarrow> string" where
  "JoinHostPort host port = (if CHR '':'' \<in> set host then ''['' @ host @ '']:'' @ port else host @ '':'' @ port)"

definition resolveInteractiveQUICEndpoint :: "Endpoint \<Rightarrow> string \<times> string" where
  "resolveInteractiveQUICEndpoint ep =
     (let local = (''127.0.0.1:0'', ''127.0.0.1'') in
      if epScheme ep = ''unix'' then local
      else case split_host_port (trim_prefix (trim_prefix (trim_space (epAddress ep)) ''http://'') ''https://'') of
        None \<Rightarrow> local
      | Some (host, port) \<Rightarrow>
          if trim_space port = [] then local
          else (JoinHostPort (if host = [] then ''0.0.0.0'' else host) port, trim_space host))"

definition interactiveAdvertiseEndpoint :: "string option \<Rightarrow> string \<Rightarrow> string" where
  "interactiveAdvertiseEndpoint listenerAddr advertiseHost =
     (case listenerAddr of
        None \<Rightarrow> []
      | Some addr \<Rightarrow>
          (case split_host_port addr of
             None \<Rightarrow> addr
           | Some (host, port) \<Rightarrow>
               if trim_space port = [] then addr
               else JoinHostPort (if trim_space advertiseHost = [] then host else trim_space advertiseHost) port))"

definition trim_brackets :: "string \<Rightarrow> string" where
  "trim_brackets s = (let f = dropWhile (\<lambda>c. c = CHR ''['' \<or> c = CHR '']'') in rev (f (rev (f s))))"

definition isWildcardHost :: "string \<Rightarrow> bool" where
  "isWildcardHost host0 \<longleftrightarrow> (let host = trim_space (trim_brackets host0) in host = [] \<or> host = ''0.0.0.0'' \<or> host = ''::'')"

text \<open>\<open>loopbackIP\<close> is \<open>net.ParseIP\<close> with \<open>IsLoopback\<close>; \<open>hostname\<close> is \<open>url.Parse\<close> with \<open>Hostname\<close>, \<open>None\<close> for an error.\<close>

definition isLoopbackHost :: "(string \<Rightarrow> bool) \<Rightarrow> string \<Rightarrow> bool" where
  "isLoopbackHost loopbackIP host0 = (let host = trim_space (trim_brackets host0) in to_lower host = ''localhost'' \<or> loopbackIP host)"

definition isWildcardOrLoopbackHost :: "(string \<Rightarrow> bool) \<Rightarrow> string \<Rightarrow> bool" where
  "isWildcardOrLoopbackHost loopbackIP host \<longleftrightarrow> isWildcardHost host \<or> isLoopbackHost loopbackIP host"

definition resolveEndpointDialHost :: "(string \<Rightarrow> string option) \<Rightarrow> Endpoint \<Rightarrow> string" where
  "resolveEndpointDialHost hostname ep =
     (if epScheme ep = ''unix'' then []
      else (let baseURL = trim_space (epBaseURL ep) in
            if baseURL = [] then [] else case hostname baseURL of None \<Rightarrow> [] | Some h \<Rightarrow> trim_space h))"

definition resolveInteractiveDialEndpoint :: "(string \<Rightarrow> bool) \<Rightarrow> (string \<Rightarrow> string option) \<Rightarrow> Endpoint \<Rightarrow> string \<Rightarrow> string" where
  "resolveInteractiveDialEndpoint loopbackIP hostname controlEP quicEndpoint0 =
     (let quicEndpoint = trim_space quicEndpoint0 in
      case split_host_port quicEndpoint of
        None \<Rightarrow> quicEndpoint
      | Some (quicHost, quicPort) \<Rightarrow>
          if trim_space quicPort = [] \<or> \<not> isWildcardOrLoopbackHost loopbackIP quicHost then quicEndpoint
          else
            (let controlHost = resolveEndpointDialHost hostname controlEP in
             if controlHost = [] \<or> isWildcardHost controlHost then quicEndpoint else JoinHostPort controlHost quicPort))"

section \<open>console\<close>

definition replayExecutionHistory :: "cli_env \<Rightarrow> cli_api \<Rightarrow> string \<Rightarrow> string \<Rightarrow> int option cmd" where
  "replayExecutionHistory ev api sandboxID executionID =
     cmd_bind (rpc (RStreamExecution sandboxID executionID False) (apReplay api sandboxID executionID)) (\<lambda>(events, streamErr).
     cmd_bind (exec_stream ev sandboxID executionID (map SEvent events) \<lparr>elExit = None, elInterrupts = 0\<rparr>) (\<lambda>l.
     case streamErr of Some e \<Rightarrow> cmd_fail (RPCError e) | None \<Rightarrow> cmd_ret (elExit l)))"

text \<open>
  A dialled session: the reads of the terminal, each with what the control goroutine did before it, the last one with the error that ends
  the loop, and what the goroutine does before the deadline after that.
\<close>

record console_session =
  csRaw :: bool
  csReads :: "(chan_op list \<times> string) list"
  csLast :: "chan_op list \<times> string \<times> stream_error"
  csAfter :: "chan_op list"

record console_loop =
  ccChans :: chans
  ccExit :: "int option"
  ccEndedCR :: bool

definition console_read :: "cli_env \<Rightarrow> bool \<Rightarrow> chan_op list \<Rightarrow> string \<Rightarrow> console_loop \<Rightarrow> console_loop cmd" where
  "console_read ev raw ops chunk l =
     (let (text, endedCR) = (if raw then normalizeLineEndingsForRawTTY chunk (ccEndedCR l) else (chunk, ccEndedCR l)) in
      cmd_bind (if chunk = [] then cmd_ret () else write_out ev text) (\<lambda>_.
      case pollInteractiveExitOrControlErr (fold apply_op ops (ccChans l)) of
        (c, Inl e) \<Rightarrow> cmd_fail e
      | (c, Inr code) \<Rightarrow> cmd_ret \<lparr>ccChans = c, ccExit = (case code of None \<Rightarrow> ccExit l | Some n \<Rightarrow> Some n), ccEndedCR = endedCR\<rparr>))"

fun console_reads :: "cli_env \<Rightarrow> bool \<Rightarrow> (chan_op list \<times> string) list \<Rightarrow> console_loop \<Rightarrow> console_loop cmd" where
  "console_reads ev raw [] l s = (s, Inr l)"
| "console_reads ev raw ((ops, chunk) # rest) l s = cmd_bind (console_read ev raw ops chunk l) (\<lambda>l. console_reads ev raw rest l) s"

definition console_attached :: "cli_world \<Rightarrow> string \<Rightarrow> string \<Rightarrow> console_session \<Rightarrow> unit cmd" where
  "console_attached w sandboxID executionID cs =
     cmd_bind (console_reads (cwEnv w) (csRaw cs) (csReads cs) \<lparr>ccChans = new_chans, ccExit = None, ccEndedCR = False\<rparr>) (\<lambda>l.
     case csLast cs of (ops, chunk, readErr) \<Rightarrow>
       cmd_bind (console_read (cwEnv w) (csRaw cs) ops chunk l) (\<lambda>l.
       if \<not> isInteractiveStreamClosedErr readErr then cmd_fail (Wrapped ''interactive pty stream'' (Failed (seText readErr)))
       else
         cmd_bind (case ccExit l of Some c \<Rightarrow> cmd_ret (Some c) | None \<Rightarrow> cmd_lift (waitForInteractiveExitOrControlErr (csAfter cs) (ccChans l))) (\<lambda>code s.
           case with_final (cwApi w) sandboxID executionID code s of (s, code) \<Rightarrow> (s, report_exit ''console stream ended without exit status'' code))))"

record ConsoleCommand =
  kcFlags :: clientFlags
  kcChdir :: string
  kcBackend :: string
  kcSandboxID :: string
  kcImage :: string
  kcRemove :: bool
  kcLaunchSeconds :: int
  kcCommand :: "string list"

text \<open>
  What the environment of a console answers: the size of the terminal, \<open>OpenInteractiveExecution\<close> with the endpoint, and dialling it.
\<close>

record console_env =
  keSize :: "(int \<times> int) option"
  keOpen :: "string \<Rightarrow> string \<Rightarrow> 32 word \<times> 32 word \<Rightarrow> go_error + string"
  keLoopback :: "string \<Rightarrow> bool"
  keHostname :: "string \<Rightarrow> string option"
  keDial :: "string \<Rightarrow> cli_error + console_session"

definition console_command :: "string list \<Rightarrow> string list" where
  "console_command command = (if command = [] then [''sh''] else command)"

definition console_not_active :: "cli_world \<Rightarrow> string \<Rightarrow> string \<Rightarrow> go_error \<Rightarrow> unit cmd" where
  "console_not_active w sandboxID executionID openErr s =
     (case replayExecutionHistory (cwEnv w) (cwApi w) sandboxID executionID s of
        (s, Inl _) \<Rightarrow> (s, Inl (Wrapped ''open interactive execution'' (RPCError openErr)))
      | (s, Inr code) \<Rightarrow>
          (case with_final (cwApi w) sandboxID executionID code s of (s, code) \<Rightarrow> (s, report_exit ''console stream ended without exit status'' code)))"

definition console_dial_failed :: "cli_world \<Rightarrow> string \<Rightarrow> string \<Rightarrow> cli_error \<Rightarrow> unit cmd" where
  "console_dial_failed w sandboxID executionID dialErr s =
     (case replayExecutionHistory (cwEnv w) (cwApi w) sandboxID executionID s of
        (s, replayed) \<Rightarrow>
          (case with_final (cwApi w) sandboxID executionID (case replayed of Inr code \<Rightarrow> code | Inl _ \<Rightarrow> None) s of
             (s, fetched) \<Rightarrow> (s, resolveConsoleDialFailure dialErr replayed fetched)))"

definition console_open :: "cli_world \<Rightarrow> console_env \<Rightarrow> ConsoleCommand \<Rightarrow> string \<Rightarrow> string \<Rightarrow> unit cmd" where
  "console_open w ke c sandboxID executionID =
     (let (cols, rows) = attachTTYSize (keSize ke) in
      cmd_bind (\<lambda>s. (s\<lparr>clCalls := clCalls s @ [ROpenInteractive sandboxID executionID cols rows]\<rparr>, Inr ())) (\<lambda>_.
      case keOpen ke sandboxID executionID (cols, rows) of
        Inl e \<Rightarrow>
          if isExecutionNoLongerActiveErr e then console_not_active w sandboxID executionID e
          else cmd_fail (Wrapped ''open interactive execution'' (RPCError e))
      | Inr quicEndpoint \<Rightarrow>
          cmd_bind (cmd_lift (map_error EndpointFailed (Resolve (evHost (cwEnv w)) (cfHost (kcFlags c))))) (\<lambda>ep.
          case keDial ke (resolveInteractiveDialEndpoint (keLoopback ke) (keHostname ke) ep quicEndpoint) of
            Inl e \<Rightarrow> console_dial_failed w sandboxID executionID e
          | Inr cs \<Rightarrow> console_attached w sandboxID executionID cs)))"

definition console_in_sandbox :: "cli_world \<Rightarrow> console_env \<Rightarrow> ConsoleCommand \<Rightarrow> string \<Rightarrow> unit cmd" where
  "console_in_sandbox w ke c sandboxID =
     (let req = \<lparr>ceSandboxID = sandboxID, ceCommand = console_command (kcCommand c), ceOptions = Some (kcLaunchSeconds c, True), ceKind = KIND_INTERACTIVE\<rparr> in
      cmd_bind (cmd_wrap ''create execution'' (rpc (RCreateExecution req) (apCreateExecution (cwApi w) req))) (\<lambda>created.
      console_open w ke c sandboxID (case created of None \<Rightarrow> [] | Some ex \<Rightarrow> peExecutionID ex)))"

definition ConsoleCommand_Run :: "cli_world \<Rightarrow> string option \<Rightarrow> console_env \<Rightarrow> ConsoleCommand \<Rightarrow> unit cmd" where
  "ConsoleCommand_Run w logger ke c =
     (case logger of
        Some e \<Rightarrow> cmd_fail (Failed e)
      | None \<Rightarrow>
          cmd_bind (connect w (kcFlags c)) (\<lambda>_.
          cmd_bind (ensureSandboxID w (resolveCWD (cwCWD w) (kcChdir c)) (cfHost (kcFlags c)) (kcBackend c) (trim_space (kcSandboxID c)) (kcImage c) (kcLaunchSeconds c)) (\<lambda>sandboxID.
          cmd_deferred (\<lambda>s. if sandboxID = [] \<or> \<not> kcRemove c then s else terminateSandboxBestEffort sandboxID s) (console_in_sandbox w ke c sandboxID))))"

text \<open>
  The goroutines towards the guest: standard input until it ends or a send fails, signals, and the size of a raw terminal, which is sent once at the
  start and after each change; a size that cannot be had is not sent. A read is its bytes and whether it failed; \<open>send\<close> is the error of the stream.
\<close>

fun console_stdin :: "(Session \<Rightarrow> string option) \<Rightarrow> (string \<times> bool) list \<Rightarrow> Session \<Rightarrow> Session" where
  "console_stdin send [] s = s"
| "console_stdin send ((payload, failed) # rest) s =
     (case (if payload = [] then (s, None) else WriteStdin (send s) payload s) of
        (s, Some _) \<Rightarrow> s
      | (s, None) \<Rightarrow> if failed then CloseStdin s else console_stdin send rest s)"

definition console_signal :: "(Session \<Rightarrow> string option) \<Rightarrow> bool \<Rightarrow> Session \<Rightarrow> Session" where
  "console_signal send isTERM s = fst (SendSignal (send s) (if isTERM then 15 else 2) s)"

definition console_resize :: "(Session \<Rightarrow> string option) \<Rightarrow> (int \<times> int) option \<Rightarrow> Session \<Rightarrow> Session" where
  "console_resize send sz s = (case sz of None \<Rightarrow> s | Some (cols, rows) \<Rightarrow> fst (SendResize (send s) (word_of_int cols) (word_of_int rows) s))"

definition console_resizes :: "(Session \<Rightarrow> string option) \<Rightarrow> bool \<Rightarrow> (int \<times> int) option list \<Rightarrow> Session \<Rightarrow> Session" where
  "console_resizes send raw sizes s = (if raw then fold (console_resize send) sizes s else s)"

end
