(* ===== verification/Gateway_Server.thy ===== *)
theory Gateway_Server
  imports Gateway
begin

text \<open>
  The gateway's server around the request handler of \<open>Gateway\<close>: its address, whether it was started and whether its socket is open. A server is
  started once; it keeps the address of its listener, also after it is stopped.
\<close>

section \<open>The server\<close>

record GatewayServer =
  gsAddr :: string
  gsStarted :: bool
  gsListening :: bool

definition GatewayDefaultPort :: int where
  "GatewayDefaultPort = 8170"

definition DefaultListenAddr :: string where
  "DefaultListenAddr = '':8170''"

definition Routes :: "string list" where
  "Routes = serviceRoutes"

definition NewServer :: "string \<Rightarrow> GatewayServer" where
  "NewServer listenAddr = \<lparr>gsAddr = (if listenAddr = [] then DefaultListenAddr else listenAddr), gsStarted = False, gsListening = False\<rparr>"

text \<open>\<open>listen\<close> is \<open>net.Listen\<close> with the address of the listener, \<open>shutdown\<close> the error of \<open>http.Server.Shutdown\<close>, which closes the listener first.\<close>

definition StartGatewayServer :: "(string \<Rightarrow> string + string) \<Rightarrow> GatewayServer \<Rightarrow> GatewayServer \<times> (string + unit)" where
  "StartGatewayServer listen s =
     (if gsStarted s then (s, Inl ''gateway server already started'')
      else case listen (gsAddr s) of
        Inl e \<Rightarrow> (s, Inl e)
      | Inr addr \<Rightarrow> (s\<lparr>gsStarted := True, gsAddr := addr, gsListening := True\<rparr>, Inr ()))"

definition StopGatewayServer :: "string option \<Rightarrow> GatewayServer \<Rightarrow> GatewayServer \<times> (string + unit)" where
  "StopGatewayServer shutdown s = (s\<lparr>gsListening := False\<rparr>, case shutdown of None \<Rightarrow> Inr () | Some e \<Rightarrow> Inl e)"

section \<open>Lemmas\<close>

text \<open>A server that was started is never started again: its socket stays closed after a stop.\<close>

lemma start_once:
  assumes "gsStarted s"
  shows "fst (StartGatewayServer listen (fst (StopGatewayServer e s))) = fst (StopGatewayServer e s)"
    and "\<not> gsListening (fst (StartGatewayServer listen (fst (StopGatewayServer e s))))"
  using assms by (simp_all add: StartGatewayServer_def StopGatewayServer_def)

lemma StartGatewayServer_ok:
  "StartGatewayServer listen (NewServer a) = (s, Inr ()) \<longleftrightarrow>
     (\<exists>addr. listen (gsAddr (NewServer a)) = Inr addr \<and> s = \<lparr>gsAddr = addr, gsStarted = True, gsListening = True\<rparr>)"
  by (auto simp: StartGatewayServer_def NewServer_def split: sum.splits)

lemma StartGatewayServer_failed:
  assumes "StartGatewayServer listen s = (s', Inl e)"
  shows "s' = s"
  using assms by (auto simp: StartGatewayServer_def split: if_splits sum.splits)

end
