(* ===== verification/Cli_Serve.thy ===== *)
theory Cli_Serve
  imports Cli_Exec Darwinvz_Run Gateway_Server
begin

text \<open>
  \<open>serve\<close> with the installation of the daemon, \<open>doctor\<close>, and the texts of \<open>ui.go\<close>; at the end, what \<open>serve\<close> starts and stops.
\<close>

section \<open>Arguments of the daemon\<close>

record ServeCommand =
  svAction :: string
  svForce :: bool
  svListen :: string
  svGatewayListen :: string
  svLogLevel :: string
  svTLSCert :: string
  svTLSKey :: string

definition systemdServiceName :: string where
  "systemdServiceName = ''cleanroom.service''"

definition launchdServiceName :: string where
  "launchdServiceName = ''com.buildkite.cleanroom''"

definition defaultDaemonListen :: string where
  "defaultDaemonListen = ''unix://'' @ DefaultSystemSocketPath"

definition serveInstallSystemdUnitPath :: string where
  "serveInstallSystemdUnitPath = ''/etc/systemd/system/'' @ systemdServiceName"

definition serveInstallLaunchdPath :: string where
  "serveInstallLaunchdPath = ''/Library/LaunchDaemons/'' @ launchdServiceName @ ''.plist''"

text \<open>\<open>absPath\<close> is \<open>filepath.Abs\<close>.\<close>

definition resolveDaemonInstallPath :: "(string \<Rightarrow> string + string) \<Rightarrow> string \<Rightarrow> string \<Rightarrow> cli_error + string" where
  "resolveDaemonInstallPath absPath cwd value =
     (if IsAbs value then Inr (Clean value)
      else
        (let base = (if trim_space cwd = [] then ''.'' else trim_space cwd) in
         and_then (if IsAbs base then Inr base else map_error (\<lambda>e. Wrapped ''resolve absolute working directory'' (Failed e)) (absPath base))
           (\<lambda>base. Inr (Clean (path_join [base, value])))))"

definition path_flag :: "(string \<Rightarrow> string + string) \<Rightarrow> string \<Rightarrow> string \<Rightarrow> string \<Rightarrow> cli_error + string list" where
  "path_flag absPath cwd flag value0 =
     (let value = trim_space value0 in
      if value = [] then Inr []
      else and_then (map_error (Wrapped (''resolve '' @ flag @ '' path'')) (resolveDaemonInstallPath absPath cwd value)) (\<lambda>resolved. Inr [flag, resolved]))"

definition text_flag :: "string \<Rightarrow> string \<Rightarrow> string list" where
  "text_flag flag value = (if trim_space value = [] then [] else [flag, trim_space value])"

definition daemonRunArgs :: "(string \<Rightarrow> string + string) \<Rightarrow> ServeCommand \<Rightarrow> string \<Rightarrow> cli_error + string list" where
  "daemonRunArgs absPath s cwd =
     (let listen = (if trim_space (svListen s) = [] then defaultDaemonListen else trim_space (svListen s)) in
      and_then (path_flag absPath cwd ''--tls-cert'' (svTLSCert s)) (\<lambda>cert.
      and_then (path_flag absPath cwd ''--tls-key'' (svTLSKey s)) (\<lambda>key.
      Inr ([''serve'', ''--listen'', listen] @ text_flag ''--gateway-listen'' (svGatewayListen s) @ text_flag ''--log-level'' (svLogLevel s) @ cert @ key))))"

section \<open>Service files\<close>

definition needs_quotes :: "string \<Rightarrow> bool" where
  "needs_quotes arg \<longleftrightarrow> list_ex (\<lambda>c. c \<in> {CHR '' '', CHR 0x09, CHR 0x22, CHR 0x5C, CHR 0x27}) arg"

definition joinSystemdExecArgs :: "string list \<Rightarrow> string" where
  "joinSystemdExecArgs args = join '' '' (map (\<lambda>arg. if needs_quotes arg then go_quote arg else arg) args)"

definition text_lines :: "string list \<Rightarrow> string" where
  "text_lines ls = concat (map (\<lambda>l. l @ [CHR 0x0A]) ls)"

definition renderSystemdService :: "string \<Rightarrow> string list \<Rightarrow> string" where
  "renderSystemdService executablePath args = text_lines
     [''[Unit]'', ''Description=Cleanroom control-plane server'', ''After=network-online.target'', ''Wants=network-online.target'', [],
      ''[Service]'', ''Type=simple'', ''ExecStart='' @ joinSystemdExecArgs (executablePath # args), ''Restart=on-failure'', ''RestartSec=5'', [],
      ''[Install]'', ''WantedBy=multi-user.target'']"

text \<open>\<open>xml.EscapeText\<close> on ASCII text: characters that XML does not allow become the replacement character.\<close>

definition xml_escape :: "char \<Rightarrow> string" where
  "xml_escape c =
     (if c = CHR 0x22 then ''&#34;'' else if c = CHR 0x27 then ''&#39;'' else if c = CHR ''&'' then ''&amp;'' else if c = CHR ''<'' then ''&lt;''
      else if c = CHR ''>'' then ''&gt;'' else if c = CHR 0x09 then ''&#x9;'' else if c = CHR 0x0A then ''&#xA;'' else if c = CHR 0x0D then ''&#xD;''
      else if (of_char c :: nat) < 32 then [CHR 0xEF, CHR 0xBF, CHR 0xBD] else [c])"

definition escapePlistValue :: "string \<Rightarrow> string" where
  "escapePlistValue value = concat (map xml_escape value)"

definition plist_string :: "string \<Rightarrow> string" where
  "plist_string value = ''<string>'' @ escapePlistValue value @ ''</string>''"

definition renderLaunchdService :: "string \<Rightarrow> string list \<Rightarrow> string" where
  "renderLaunchdService executablePath args =
     (let tab = CHR 0x09; q = [CHR 0x22] in
      text_lines
        ([''<?xml version='' @ q @ ''1.0'' @ q @ '' encoding='' @ q @ ''UTF-8'' @ q @ ''?>'',
          ''<!DOCTYPE plist PUBLIC '' @ q @ ''-//Apple//DTD PLIST 1.0//EN'' @ q @ '' '' @ q @ ''http://www.apple.com/DTDs/PropertyList-1.0.dtd'' @ q @ ''>'',
          ''<plist version='' @ q @ ''1.0'' @ q @ ''>'', ''<dict>'', tab # ''<key>Label</key>'', tab # plist_string launchdServiceName,
          tab # ''<key>ProgramArguments</key>'', tab # ''<array>''] @
         map (\<lambda>arg. tab # tab # plist_string arg) (executablePath # args) @
         [tab # ''</array>'', tab # ''<key>RunAtLoad</key>'', tab # ''<true/>'', tab # ''<key>KeepAlive</key>'', tab # ''<true/>'', ''</dict>'', ''</plist>'']))"

section \<open>Install, uninstall, status\<close>

text \<open>The output of the process and its error.\<close>

definition runServeInstallCommand :: "cli_env \<Rightarrow> string list \<Rightarrow> unit cmd" where
  "runServeInstallCommand ev args s =
     (let s = s\<lparr>clProcs := clProcs s @ [args]\<rparr> in
      case evProc ev args of
        None \<Rightarrow> (s, Inr ())
      | Some (out, err) \<Rightarrow> (s, Inl (CommandFailed (join '' '' args) err (if trim_space out = [] then ''no stderr output'' else trim_space out))))"

definition writeDaemonFile :: "cli_env \<Rightarrow> string \<Rightarrow> string \<Rightarrow> bool \<Rightarrow> unit cmd" where
  "writeDaemonFile ev path content force =
     cmd_bind (cmd_wrap (''stat '' @ path) (cmd_stat ev path)) (\<lambda>st.
     if st = IsDir then cmd_fail (Failed (''daemon service path '' @ path @ '' is a directory''))
     else if st = IsFile \<and> \<not> force then cmd_fail (Failed (path @ '' already exists (use --force to overwrite)''))
     else
       cmd_bind (cmd_wrap ''create daemon service directory'' (cmd_mkdir ev (path_dir path))) (\<lambda>_.
       cmd_wrap (''write daemon service file '' @ path) (cmd_write ev path content)))"

definition installSystemdDaemon :: "cli_env \<Rightarrow> string \<Rightarrow> string list \<Rightarrow> bool \<Rightarrow> unit cmd" where
  "installSystemdDaemon ev executablePath args force =
     cmd_bind (writeDaemonFile ev serveInstallSystemdUnitPath (renderSystemdService executablePath args) force) (\<lambda>_.
     cmd_bind (cmd_wrap ''reload systemd'' (runServeInstallCommand ev [''systemctl'', ''daemon-reload''])) (\<lambda>_.
     cmd_bind (cmd_wrap (''enable systemd service '' @ systemdServiceName) (runServeInstallCommand ev [''systemctl'', ''enable'', ''--now'', systemdServiceName])) (\<lambda>_.
     cmd_bind (if force then cmd_wrap (''restart systemd service '' @ systemdServiceName) (runServeInstallCommand ev [''systemctl'', ''restart'', systemdServiceName])
               else cmd_ret ()) (\<lambda>_.
     write_out ev (text_lines [''daemon installed'', ''manager=systemd'', ''service='' @ systemdServiceName, ''path='' @ serveInstallSystemdUnitPath])))))"

definition installLaunchdDaemon :: "cli_env \<Rightarrow> string \<Rightarrow> string list \<Rightarrow> bool \<Rightarrow> unit cmd" where
  "installLaunchdDaemon ev executablePath args force =
     (let target = ''system/'' @ launchdServiceName in
      cmd_bind (writeDaemonFile ev serveInstallLaunchdPath (renderLaunchdService executablePath args) force) (\<lambda>_.
      cmd_bind (\<lambda>s. (if force then fst (runServeInstallCommand ev [''launchctl'', ''bootout'', target] s) else s, Inr ())) (\<lambda>_.
      cmd_bind (cmd_wrap (''bootstrap launchd service '' @ launchdServiceName) (runServeInstallCommand ev [''launchctl'', ''bootstrap'', ''system'', serveInstallLaunchdPath])) (\<lambda>_.
      cmd_bind (cmd_wrap (''enable launchd service '' @ launchdServiceName) (runServeInstallCommand ev [''launchctl'', ''enable'', target])) (\<lambda>_.
      write_out ev (text_lines [''daemon installed'', ''manager=launchd'', ''service='' @ launchdServiceName, ''path='' @ serveInstallLaunchdPath]))))))"

text \<open>\<open>os.Remove\<close> of the service file.\<close>

definition cmd_remove :: "cli_env \<Rightarrow> string \<Rightarrow> unit cmd" where
  "cmd_remove ev p s = (case evRemove ev p of Some e \<Rightarrow> (s, Inl (Failed e)) | None \<Rightarrow> (cli_remove_path p s, Inr ()))"

text \<open>Only a missing file stops the removal; another error of \<open>stat\<close> does not.\<close>

definition service_missing :: "cli_env \<Rightarrow> string \<Rightarrow> cli_state \<Rightarrow> bool" where
  "service_missing ev p s \<longleftrightarrow> snd (cmd_stat ev p s) = Inr NoFile"

definition uninstallSystemdDaemon :: "cli_env \<Rightarrow> unit cmd" where
  "uninstallSystemdDaemon ev s =
     (let path = serveInstallSystemdUnitPath in
      if service_missing ev path s then (s, Inl (Failed (''service file '' @ path @ '' does not exist'')))
      else
        cmd_bind (cmd_wrap (''stop systemd service '' @ systemdServiceName) (runServeInstallCommand ev [''systemctl'', ''stop'', systemdServiceName])) (\<lambda>_.
        cmd_bind (cmd_wrap (''disable systemd service '' @ systemdServiceName) (runServeInstallCommand ev [''systemctl'', ''disable'', systemdServiceName])) (\<lambda>_.
        cmd_bind (cmd_wrap (''remove service file '' @ path) (cmd_remove ev path)) (\<lambda>_.
        cmd_bind (cmd_wrap ''reload systemd'' (runServeInstallCommand ev [''systemctl'', ''daemon-reload''])) (\<lambda>_.
        write_out ev (text_lines [''daemon uninstalled'', ''manager=systemd'', ''service='' @ systemdServiceName]))))) s)"

definition tolerate_exit :: "unit cmd \<Rightarrow> bool cmd" where
  "tolerate_exit m s = (case m s of (s, Inr _) \<Rightarrow> (s, Inr True) | (s, Inl e) \<Rightarrow> (s, if isExitError e then Inr False else Inl e))"

definition uninstallLaunchdDaemon :: "cli_env \<Rightarrow> unit cmd" where
  "uninstallLaunchdDaemon ev s =
     (let path = serveInstallLaunchdPath in
      if service_missing ev path s then (s, Inl (Failed (''service file '' @ path @ '' does not exist'')))
      else
        cmd_bind (cmd_wrap (''bootout launchd service '' @ launchdServiceName)
          (tolerate_exit (runServeInstallCommand ev [''launchctl'', ''bootout'', ''system/'' @ launchdServiceName]))) (\<lambda>_.
        cmd_bind (cmd_wrap (''remove service file '' @ path) (cmd_remove ev path)) (\<lambda>_.
        write_out ev (text_lines [''daemon uninstalled'', ''manager=launchd'', ''service='' @ launchdServiceName]))) s)"

definition yes_no :: "string \<Rightarrow> string \<Rightarrow> bool \<Rightarrow> string" where
  "yes_no yes no b = (if b then yes else no)"

definition installed_text :: "cli_env \<Rightarrow> string \<Rightarrow> cli_state \<Rightarrow> string" where
  "installed_text ev p s = ''installed='' @ yes_no ''true'' ''false'' (case snd (cmd_stat ev p s) of Inr st \<Rightarrow> st \<noteq> NoFile | Inl _ \<Rightarrow> False)"

definition systemdDaemonStatus :: "cli_env \<Rightarrow> unit cmd" where
  "systemdDaemonStatus ev s =
     (let installed = installed_text ev serveInstallSystemdUnitPath s in
      cmd_bind (cmd_wrap ''check systemd service active state'' (tolerate_exit (runServeInstallCommand ev [''systemctl'', ''is-active'', ''--quiet'', systemdServiceName]))) (\<lambda>active.
      cmd_bind (cmd_wrap ''check systemd service enabled state'' (tolerate_exit (runServeInstallCommand ev [''systemctl'', ''is-enabled'', ''--quiet'', systemdServiceName]))) (\<lambda>enabled.
      write_out ev (text_lines [''manager=systemd'', ''service='' @ systemdServiceName, installed, ''active='' @ yes_no ''active'' ''inactive'' active,
        ''enabled='' @ yes_no ''true'' ''false'' enabled]))) s)"

definition launchdDaemonStatus :: "cli_env \<Rightarrow> unit cmd" where
  "launchdDaemonStatus ev s =
     (let installed = installed_text ev serveInstallLaunchdPath s in
      cmd_bind (cmd_wrap ''check launchd service state'' (tolerate_exit (runServeInstallCommand ev [''launchctl'', ''print'', ''system/'' @ launchdServiceName]))) (\<lambda>active.
      write_out ev (text_lines [''manager=launchd'', ''service='' @ launchdServiceName, installed, ''active='' @ yes_no ''active'' ''inactive'' active])) s)"

text \<open>\<open>executable\<close> is \<open>os.Executable\<close>; \<open>run\<close> is \<open>runServer\<close>.\<close>

definition by_system :: "string \<Rightarrow> string \<Rightarrow> 'a cmd \<Rightarrow> 'a cmd \<Rightarrow> 'a cmd" where
  "by_system what goos linux darwin =
     (if goos = ''linux'' then linux else if goos = ''darwin'' then darwin
      else cmd_fail (Failed (''serve '' @ what @ '' is unsupported on '' @ goos @ '' (expected linux or darwin)'')))"

definition as_root :: "cli_env \<Rightarrow> string \<Rightarrow> 'a cmd \<Rightarrow> 'a cmd" where
  "as_root ev what m =
     (if heEuid (evHost ev) \<noteq> 0 then cmd_fail (Failed (''serve '' @ what @ '' requires root privileges (use sudo cleanroom serve '' @ what @ '')'')) else m)"

definition installDaemon :: "cli_env \<Rightarrow> (string \<Rightarrow> string + string) \<Rightarrow> string + string \<Rightarrow> ServeCommand \<Rightarrow> string \<Rightarrow> unit cmd" where
  "installDaemon ev absPath executable c cwd =
     (let prepare = (\<lambda>install.
        as_root ev ''install''
          (cmd_bind (cmd_lift (map_error (\<lambda>e. Wrapped ''resolve cleanroom executable path'' (Failed e)) executable)) (\<lambda>path.
           cmd_bind (cmd_lift (if IsAbs path then Inr path else map_error (\<lambda>e. Wrapped ''resolve absolute executable path'' (Failed e)) (absPath path))) (\<lambda>path.
           cmd_bind (cmd_lift (daemonRunArgs absPath c cwd)) (\<lambda>args. install path args (svForce c)))))) in
      by_system ''install'' (heGOOS (evHost ev)) (prepare (installSystemdDaemon ev)) (prepare (installLaunchdDaemon ev)))"

definition uninstallDaemon :: "cli_env \<Rightarrow> unit cmd" where
  "uninstallDaemon ev =
     by_system ''uninstall'' (heGOOS (evHost ev)) (as_root ev ''uninstall'' (uninstallSystemdDaemon ev)) (as_root ev ''uninstall'' (uninstallLaunchdDaemon ev))"

definition daemonStatus :: "cli_env \<Rightarrow> unit cmd" where
  "daemonStatus ev = by_system ''status'' (heGOOS (evHost ev)) (systemdDaemonStatus ev) (launchdDaemonStatus ev)"

definition ServeCommand_Run :: "cli_env \<Rightarrow> (string \<Rightarrow> string + string) \<Rightarrow> string + string \<Rightarrow> unit cmd \<Rightarrow> ServeCommand \<Rightarrow> string \<Rightarrow> unit cmd" where
  "ServeCommand_Run ev absPath executable run c cwd =
     (let action = trim_space (to_lower (svAction c)) in
      if action = [] then (if svForce c then cmd_fail (Failed (''--force is only supported with '' @ [CHR 0x27] @ ''cleanroom serve install'' @ [CHR 0x27])) else run)
      else if action = ''install'' then installDaemon ev absPath executable c cwd
      else if action = ''uninstall'' then uninstallDaemon ev
      else if action = ''status'' then daemonStatus ev
      else cmd_fail (Failed (''unsupported serve action '' @ go_quote (svAction c))))"

section \<open>Texts\<close>

definition ansiWrap :: "string \<Rightarrow> string \<Rightarrow> string" where
  "ansiWrap code value = [CHR 0x1B] @ ''['' @ code @ ''m'' @ value @ [CHR 0x1B] @ ''[0m''"

definition colored :: "bool \<Rightarrow> string \<Rightarrow> string \<Rightarrow> string" where
  "colored color code value = (if color then ansiWrap code value else value)"

definition header_icon :: string where
  "header_icon = [CHR 0xF0, CHR 0x9F, CHR 0xA7, CHR 0x91, CHR 0xE2, CHR 0x80, CHR 0x8D, CHR 0xF0, CHR 0x9F, CHR 0x94, CHR 0xAC]"

definition header_line :: "bool \<Rightarrow> string \<times> string \<Rightarrow> string" where
  "header_line color = (\<lambda>(key0, value0). let key = trim_space key0; value = trim_space value0 in
     if key = [] \<or> value = [] then [] else ''   '' @ colored color ''38;5;252'' (key @ '': '' @ value) @ [CHR 0x0A])"

definition renderStartupHeader :: "string \<Rightarrow> (string \<times> string) list \<Rightarrow> bool \<Rightarrow> string" where
  "renderStartupHeader title0 fields0 color =
     (let title = (if trim_space title0 = [] then ''cleanroom'' else trim_space title0) in
      [CHR 0x0A] @ colored color ''1;33'' header_icon @ '' '' @ colored color ''1;36'' title @ [CHR 0x0A] @
      concat (map (header_line color) fields0) @ [CHR 0x0A])"

definition normalizeDoctorStatus :: "string \<Rightarrow> string" where
  "normalizeDoctorStatus raw =
     (let s = trim_space (to_lower raw) in
      if s \<in> {''pass'', ''ok'', ''success''} then ''pass'' else if s \<in> {''warn'', ''warning''} then ''warn''
      else if s \<in> {''fail'', ''failed'', ''error''} then ''fail'' else ''unknown'')"

definition status_icon :: "string \<Rightarrow> string" where
  "status_icon status =
     (if status = ''pass'' then [CHR 0xE2, CHR 0x9C, CHR 0x93] else if status = ''warn'' then ''!''
      else if status = ''fail'' then [CHR 0xE2, CHR 0x9C, CHR 0x97] else ''?'')"

definition status_color :: "string \<Rightarrow> string" where
  "status_color status = (if status = ''pass'' then ''1;32'' else if status = ''warn'' then ''1;33'' else if status = ''fail'' then ''1;31'' else ''1;37'')"

definition doctor_line :: "bool \<Rightarrow> DoctorCheck \<Rightarrow> string" where
  "doctor_line color c =
     (let status = normalizeDoctorStatus (dcStatus c) in
      colored color (status_color status) (status_icon status @ '' ['' @ status @ '']'') @ '' '' @
      (if trim_space (dcName c) = [] then ''unnamed_check'' else trim_space (dcName c)) @ '': '' @
      (if trim_space (dcMessage c) = [] then ''(no message)'' else trim_space (dcMessage c)) @ [CHR 0x0A])"

definition count_status :: "string \<Rightarrow> DoctorCheck list \<Rightarrow> nat" where
  "count_status status checks = length (filter (\<lambda>c. normalizeDoctorStatus (dcStatus c) = status) checks)"

definition renderDoctorReport :: "string \<Rightarrow> DoctorCheck list \<Rightarrow> bool \<Rightarrow> string" where
  "renderDoctorReport backendName checks color =
     (let name = (if trim_space backendName = [] then ''unknown'' else trim_space backendName);
          count = (\<lambda>status. itoa (int (count_status status checks))) in
      colored color ''1;36'' (''doctor report ('' @ name @ '')'') @ [CHR 0x0A] @ concat (map (doctor_line color) checks) @
      colored color ''38;5;246'' (''summary: '' @ count ''pass'' @ '' pass, '' @ count ''warn'' @ '' warn, '' @ count ''fail'' @ '' fail'') @ [CHR 0x0A])"

definition endpointDisplay :: "Endpoint \<Rightarrow> string" where
  "endpointDisplay ep = (if epScheme ep = ''unix'' then ''unix://'' @ epAddress ep else if epAddress ep \<noteq> [] then epAddress ep else epBaseURL ep)"

definition effectiveLogLevel :: "string \<Rightarrow> string" where
  "effectiveLogLevel rawLevel = (let level = trim_space (to_lower rawLevel) in if level = [] then ''info'' else level)"

text \<open>\<open>lookup\<close> is \<open>os.LookupEnv\<close>, \<open>atoi\<close> is \<open>strconv.Atoi\<close>, \<open>tty\<close> whether the file is a terminal.\<close>

definition env_text :: "(string \<Rightarrow> string option) \<Rightarrow> string \<Rightarrow> string" where
  "env_text lookup name = (case lookup name of None \<Rightarrow> [] | Some v \<Rightarrow> trim_space v)"

definition noColorRequested :: "(string \<Rightarrow> string option) \<Rightarrow> bool" where
  "noColorRequested lookup \<longleftrightarrow> lookup ''NO_COLOR'' \<noteq> None \<or> env_text lookup ''CLICOLOR'' = ''0''"

definition forceColorRequested :: "(string \<Rightarrow> int option) \<Rightarrow> (string \<Rightarrow> string option) \<Rightarrow> bool" where
  "forceColorRequested atoi lookup =
     (let value = env_text lookup ''CLICOLOR_FORCE'' in
      if value = [] then False else case atoi value of Some parsed \<Rightarrow> parsed \<noteq> 0 | None \<Rightarrow> True)"

definition shouldUseANSI :: "(string \<Rightarrow> int option) \<Rightarrow> (string \<Rightarrow> string option) \<Rightarrow> bool option \<Rightarrow> bool" where
  "shouldUseANSI atoi lookup tty \<longleftrightarrow>
     \<not> noColorRequested lookup \<and> (forceColorRequested atoi lookup \<or> tty = Some True)"

section \<open>doctor\<close>

definition capabilityCheckName :: "string \<Rightarrow> string" where
  "capabilityCheckName key =
     (let trimmed = trim_space key in
      if trimmed = [] then ''capability_unknown''
      else ''capability_'' @ map (\<lambda>c. if c = CHR ''.'' \<or> c = CHR ''-'' then CHR ''_'' else c) trimmed)"

definition capability_check :: "(string, bool) gomap \<Rightarrow> string \<Rightarrow> DoctorCheck" where
  "capability_check capabilities key =
     (if get capabilities key = Some True then check (capabilityCheckName key) ''pass'' (key @ '': supported'')
      else check (capabilityCheckName key) ''warn'' (key @ '': unsupported''))"

text \<open>
  The checks of a host for a backend: those of the configuration, the capabilities of its adapter, the policy of the directory and the backend's own
  (\<open>doctor\<close>, \<open>None\<close> when the adapter has none). \<open>loadText\<close> is the text of an error.
\<close>

definition doctor_checks ::
  "string \<Rightarrow> string \<Rightarrow> string list \<Rightarrow> (string, bool) gomap \<Rightarrow> string \<Rightarrow> (load_error \<Rightarrow> string) \<Rightarrow> load_error + CompiledPolicy \<times> string \<Rightarrow>
   (CompiledPolicy option \<Rightarrow> cli_error + DoctorCheck list) option \<Rightarrow> cli_error + DoctorCheck list" where
  "doctor_checks configFile backendName gwHosts capabilities cwd loadText loaded doctor =
     (let credSummary = (if gwHosts = [] then ''none configured'' else join '', '' gwHosts);
          common = [check ''runtime_config'' ''pass'' (''using runtime config path '' @ configFile),
                    check ''backend'' ''pass'' (''selected backend '' @ backendName),
                    check ''gateway_listen'' ''pass'' (''default listen '' @ DefaultListenAddr @ '' (port '' @ itoa GatewayDefaultPort @ ''; override with cleanroom serve --gateway-listen)''),
                    check ''gateway_routes'' ''pass'' (''enabled routes: '' @ join '', '' Routes),
                    check ''gateway_credentials'' ''pass'' (''configured credential hosts: '' @ credSummary)] @
            map (capability_check capabilities) (SortedCapabilityKeys capabilities);
          policy = (case loaded of
              Inl e \<Rightarrow> check ''repository_policy'' ''warn'' (''policy not loaded from '' @ cwd @ '': '' @ loadText e)
            | Inr (compiled, source) \<Rightarrow> check ''repository_policy'' ''pass'' (''policy loaded from '' @ source @ '' (hash '' @ cpHash compiled @ '')'')) in
      case doctor of
        None \<Rightarrow> Inr (common @ [policy, check ''backend_doctor'' ''warn'' ''selected backend does not expose doctor diagnostics''])
      | Some d \<Rightarrow> and_then (d (case loaded of Inl _ \<Rightarrow> None | Inr (compiled, _) \<Rightarrow> Some compiled)) (\<lambda>own. Inr (common @ policy # own)))"

text \<open>\<open>pretty\<close> is the JSON of the report.\<close>

definition DoctorCommand_Run ::
  "cli_world \<Rightarrow> Config \<Rightarrow> string \<Rightarrow> (string, adapter) gomap \<Rightarrow> string list \<Rightarrow> (load_error \<Rightarrow> string) \<Rightarrow>
   (string \<Rightarrow> (CompiledPolicy option \<Rightarrow> FirecrackerConfig \<Rightarrow> cli_error + DoctorCheck list) option) \<Rightarrow> (string \<Rightarrow> (string, bool) gomap \<Rightarrow> DoctorCheck list \<Rightarrow> string) \<Rightarrow>
   bool \<Rightarrow> string \<Rightarrow> string \<Rightarrow> bool \<Rightarrow> unit cmd" where
  "DoctorCommand_Run w cfg configFile backends gwHosts loadText doctors pretty color chdir requested asJSON =
     (let cwd = resolveCWD (cwCWD w) chdir; backendName = resolveBackendName (evHost (cwEnv w)) requested (cfgDefaultBackend cfg) in
      case get backends backendName of
        None \<Rightarrow> cmd_fail (Failed (''unknown backend '' @ go_quote backendName))
      | Some ad \<Rightarrow>
          (let capabilities = CapabilitiesForAdapter (Some ad) in
           cmd_bind (cmd_lift (doctor_checks configFile backendName gwHosts capabilities cwd loadText (cwLoad w cwd)
             (map_option (\<lambda>d p. d p (mergeBackendConfig backendName 0 cfg)) (doctors backendName)))) (\<lambda>checks.
           write_out (cwEnv w) (if asJSON then pretty backendName (CloneCapabilities capabilities) checks else renderDoctorReport backendName checks color))))"

section \<open>The server\<close>

definition shouldInstallGatewayFirewall :: "string \<Rightarrow> bool" where
  "shouldInstallGatewayFirewall goos \<longleftrightarrow> to_lower (trim_space goos) = ''linux''"

text \<open>The port of the gateway's address, when it is a positive number.\<close>

definition gateway_port :: "(string \<Rightarrow> int option) \<Rightarrow> string \<Rightarrow> int" where
  "gateway_port atoi addr =
     (case split_host_port addr of
        None \<Rightarrow> GatewayDefaultPort
      | Some (_, port) \<Rightarrow> (case atoi port of Some p \<Rightarrow> if p > 0 then p else GatewayDefaultPort | None \<Rightarrow> GatewayDefaultPort))"

text \<open>
  What \<open>runServer\<close> shows, starts and stops, in order. \<open>swGateway\<close> and \<open>swInteractive\<close> give the address of a listener.
  \<open>swHeader\<close> is the error of writing the header, which is shown on a terminal only.
\<close>

datatype serve_step =
    ShowHeader string
  | StartGateway string | StopGateway
  | UseGateway string int string
  | InstallFirewall int | RemoveFirewall
  | StartInteractive string | StopInteractive
  | Advertise string
  | ServeControl Endpoint "(string \<times> string) option"

record serve_world =
  swTerminal :: bool
  swColor :: bool
  swCWD :: string
  swConfigPath :: string
  swHeader :: "cli_error option"
  swLogger :: "cli_error option"
  swGateway :: "string \<Rightarrow> string + string"
  swAtoi :: "string \<Rightarrow> int option"
  swFirecracker :: bool
  swDarwin :: bool
  swFirewall :: "string option"
  swGatewayHost :: string
  swInteractive :: "string \<Rightarrow> string + string"
  swServe :: "cli_error option"
  swGOOS :: string

text \<open>The clean-up of the firewall is deferred, so it comes last.\<close>

definition serve_listening :: "serve_world \<Rightarrow> ServeCommand \<Rightarrow> Endpoint \<Rightarrow> serve_step list \<times> (cli_error + unit)" where
  "serve_listening sw c ep =
     (let (listenAddr, host) = resolveInteractiveQUICEndpoint ep in
      case swInteractive sw listenAddr of
        Inl e \<Rightarrow> ([], Inl (Wrapped ''start interactive quic server'' (Failed e)))
      | Inr addr \<Rightarrow>
          ([StartInteractive listenAddr, Advertise (interactiveAdvertiseEndpoint (Some addr) host),
            ServeControl ep (if epScheme ep = ''https'' then Some (svTLSCert c, svTLSKey c) else None), StopGateway, StopInteractive],
           case swServe sw of None \<Rightarrow> Inr () | Some e \<Rightarrow> Inl e))"

definition serve_firewall :: "serve_world \<Rightarrow> int \<Rightarrow> serve_step list \<times> serve_step list" where
  "serve_firewall sw gwPort =
     (if swFirecracker sw \<and> shouldInstallGatewayFirewall (swGOOS sw) \<and> swFirewall sw = None then ([InstallFirewall gwPort], [RemoveFirewall]) else ([], []))"

definition serve_header :: "serve_world \<Rightarrow> ServeCommand \<Rightarrow> Endpoint \<Rightarrow> serve_step list \<times> (cli_error + unit)" where
  "serve_header sw c ep =
     (if \<not> swTerminal sw then ([], Inr ())
      else
        (let gatewayListen = (if trim_space (svGatewayListen c) = [] then '':'' @ itoa GatewayDefaultPort else trim_space (svGatewayListen c)) in
         ([ShowHeader (renderStartupHeader ''cleanroom serve''
             [(''workspace'', swCWD sw), (''listen'', endpointDisplay ep), (''gateway_listen'', gatewayListen), (''runtime_config'', swConfigPath sw),
              (''log_level'', effectiveLogLevel (svLogLevel c))] (swColor sw))],
          case swHeader sw of None \<Rightarrow> Inr () | Some e \<Rightarrow> Inl e)))"

definition serve_gateway :: "serve_world \<Rightarrow> ServeCommand \<Rightarrow> Endpoint \<Rightarrow> serve_step list \<times> (cli_error + unit)" where
  "serve_gateway sw c ep =
     (case StartGatewayServer (swGateway sw) (NewServer (svGatewayListen c)) of
        (_, Inl e) \<Rightarrow> ([], Inl (Wrapped ''start gateway'' (Failed e)))
      | (gwServer, Inr _) \<Rightarrow>
          (let gwPort = gateway_port (swAtoi sw) (gsAddr gwServer);
               (before, after) = serve_firewall sw gwPort;
               (steps, r) = serve_listening sw c ep in
           ([StartGateway (gsAddr gwServer)] @ (if swFirecracker sw then [UseGateway ''firecracker'' gwPort []] else []) @ before @
            (if swDarwin sw then [UseGateway ''darwin-vz'' gwPort (trim_space (swGatewayHost sw))] else []) @ steps @ after, r)))"

definition runServer :: "cli_env \<Rightarrow> serve_world \<Rightarrow> ServeCommand \<Rightarrow> serve_step list \<times> (cli_error + unit)" where
  "runServer ev sw c =
     (case ResolveListen (evHost ev) (svListen c) of
        Inl e \<Rightarrow> ([], Inl (EndpointFailed e))
      | Inr ep \<Rightarrow>
          (case (serve_header sw c ep, swLogger sw) of
             ((shown, Inl e), _) \<Rightarrow> (shown, Inl e)
           | ((shown, Inr _), Some e) \<Rightarrow> (shown, Inl e)
           | ((shown, Inr _), None) \<Rightarrow> (case serve_gateway sw c ep of (steps, r) \<Rightarrow> (shown @ steps, r))))"

section \<open>What serve starts and stops\<close>

lemma serve_listening_steps:
  assumes "serve_listening sw c ep = (steps, r)"
  shows "steps = [] \<or> (\<exists>a e tls. steps = [StartInteractive a, Advertise e, ServeControl ep tls, StopGateway, StopInteractive])"
  using assms by (auto simp: serve_listening_def Let_def split: sum.splits prod.splits)

lemma serve_firewall_steps:
  "serve_firewall sw p = ([InstallFirewall p], [RemoveFirewall]) \<or> serve_firewall sw p = ([], [])"
  by (simp add: serve_firewall_def)

text \<open>The steps that set the backends up are quiet: they start and stop nothing.\<close>

definition quiet_step :: "serve_step \<Rightarrow> bool" where
  "quiet_step s = (case s of ShowHeader _ \<Rightarrow> True | UseGateway _ _ _ \<Rightarrow> True | _ \<Rightarrow> False)"

lemma quiet_step_simps [simp]:
  "quiet_step (ShowHeader t)" "quiet_step (UseGateway a b d)" "\<not> quiet_step (InstallFirewall p)" "\<not> quiet_step (ServeControl ep tls)"
  by (simp_all add: quiet_step_def)

lemma serve_gateway_steps:
  assumes "serve_gateway sw c ep = (steps, r)"
  shows "steps = [] \<or> (\<exists>addr use1 use2 mid p r'. steps = StartGateway addr # use1 @ fst (serve_firewall sw p) @ use2 @ mid @ snd (serve_firewall sw p) \<and>
    serve_listening sw c ep = (mid, r') \<and> list_all quiet_step (use1 @ use2))"
proof -
  obtain gw e where st: "StartGatewayServer (swGateway sw) (NewServer (svGatewayListen c)) = (gw, e)" by fastforce
  obtain mid r' where mid: "serve_listening sw c ep = (mid, r')" by fastforce
  define p where "p = gateway_port (swAtoi sw) (gsAddr gw)"
  define use1 where "use1 = (if swFirecracker sw then [UseGateway ''firecracker'' p []] else [])"
  define use2 where "use2 = (if swDarwin sw then [UseGateway ''darwin-vz'' p (trim_space (swGatewayHost sw))] else [])"
  show ?thesis
  proof (cases e)
    case Inl then show ?thesis using assms by (simp add: serve_gateway_def st)
  next
    case Inr
    have "steps = StartGateway (gsAddr gw) # use1 @ fst (serve_firewall sw p) @ use2 @ mid @ snd (serve_firewall sw p)"
      using assms unfolding p_def use1_def use2_def by (simp add: serve_gateway_def st Inr mid Let_def split_beta split del: if_split)
    moreover have "list_all quiet_step (use1 @ use2)" by (simp add: use1_def use2_def)
    ultimately show ?thesis using mid by blast
  qed
qed

lemma runServer_steps:
  assumes "runServer ev sw c = (steps, r)"
  obtains shown rest ep r' where "steps = shown @ rest" "list_all quiet_step shown" "rest = [] \<or> serve_gateway sw c ep = (rest, r')"
proof (cases "ResolveListen (evHost ev) (svListen c)")
  case Inl then show ?thesis using assms that [of "[]" "[]"] by (simp add: runServer_def)
next
  case (Inr ep)
  obtain shown e where h: "serve_header sw c ep = (shown, e)" by fastforce
  have q: "list_all quiet_step shown" using h by (auto simp: serve_header_def Let_def split: if_splits)
  obtain rest r' where g: "serve_gateway sw c ep = (rest, r')" by fastforce
  have "steps = shown \<or> steps = shown @ rest" using assms h by (auto simp: runServer_def Inr g split: sum.splits option.splits)
  then show ?thesis using that [of shown "[]"] that [of shown rest] q g by auto
qed

text \<open>The control API is served behind a gateway that listens and after its firewall rules are in place; then gateway and QUIC server are stopped.\<close>

lemma runServer_brackets:
  assumes "runServer ev sw c = (steps, r)" "ServeControl ep tls \<in> set steps"
  shows "\<exists>xs ys addr a. steps = xs @ ServeControl ep tls # StopGateway # StopInteractive # ys \<and> StartGateway addr \<in> set xs \<and> StartInteractive a \<in> set xs \<and>
    (\<forall>p. InstallFirewall p \<in> set steps \<longrightarrow> InstallFirewall p \<in> set xs \<and> ys = [RemoveFirewall])"
proof -
  obtain shown rest ep1 r' where 1: "steps = shown @ rest" "list_all quiet_step shown" "rest = [] \<or> serve_gateway sw c ep1 = (rest, r')"
    using runServer_steps [OF assms(1)] .
  have no: "InstallFirewall p \<notin> set xs" "ServeControl ep tls \<notin> set xs" if "list_all quiet_step xs" for p xs
    using that quiet_step_simps(3,4) by (auto simp: list_all_iff)
  have "ServeControl ep tls \<in> set rest" using assms(2) 1 no by auto
  then have ne: "rest \<noteq> []" "serve_gateway sw c ep1 = (rest, r')" using 1(3) by auto
  obtain addr use1 use2 mid q r2 where 2: "rest = StartGateway addr # use1 @ fst (serve_firewall sw q) @ use2 @ mid @ snd (serve_firewall sw q)"
      "serve_listening sw c ep1 = (mid, r2)" "list_all quiet_step (use1 @ use2)"
    using serve_gateway_steps [OF ne(2)] ne(1) by blast
  have u: "list_all quiet_step use1" "list_all quiet_step use2" using 2(3) by simp_all
  have "ServeControl ep tls \<in> set mid" using \<open>ServeControl ep tls \<in> set rest\<close> 2(1) no(2) u serve_firewall_steps [of sw q] by auto
  then obtain a e where mid: "mid = [StartInteractive a, Advertise e, ServeControl ep tls, StopGateway, StopInteractive]"
    using serve_listening_steps [OF 2(2)] by auto
  let ?xs = "shown @ StartGateway addr # use1 @ fst (serve_firewall sw q) @ use2 @ [StartInteractive a, Advertise e]"
  have "steps = ?xs @ ServeControl ep tls # StopGateway # StopInteractive # snd (serve_firewall sw q)" using 1(1) 2(1) mid by simp
  moreover have "InstallFirewall p \<in> set ?xs \<and> snd (serve_firewall sw q) = [RemoveFirewall]" if "InstallFirewall p \<in> set steps" for p
    using that no(1) 1(1,2) u 2(1) mid serve_firewall_steps [of sw q] by auto
  moreover have "StartGateway addr \<in> set ?xs" "StartInteractive a \<in> set ?xs" by simp_all
  ultimately show ?thesis by blast
qed

end
