(* ===== verification/Cli_Props.thy ===== *)
theory Cli_Props
  imports Cli_Edit Cli_Serve
begin

text \<open>What the command line keeps to: the image of a sandbox, its removal, exit codes, the terminal, files of the user.\<close>

section \<open>The image of a sandbox\<close>

definition with_image :: "CompiledPolicy \<Rightarrow> DigestReference \<Rightarrow> CompiledPolicy" where
  "with_image p r = (let q = p\<lparr>cpImageRef := drOriginal r, cpImageDigest := Digest r\<rparr> in q\<lparr>cpHash := hashPolicy q\<rparr>)"

lemma FromProto_no_hash: "FromProto (Some pb) = Inr p \<Longrightarrow> FromProto (Some (pb\<lparr>pbHash := []\<rparr>)) = Inr p"
  unfolding FromProto_def by (auto simp: Let_def pbDockerRequired_def split: if_splits sum.splits)

lemma with_image_wf:
  assumes "wf_policy p" and "ParseDigestReference raw = Inr r"
  shows "wf_policy (with_image p r)"
  using assms ParseDigestReference_reparse [OF assms(2)]
  by (simp add: wf_policy_def with_image_def pinned_image_def Let_def)

lemma apply_image_eq:
  assumes "wf_policy p" and r: "ParseDigestReference ref = Inr r"
  shows "apply_image p ref = Inr (with_image p r)"
proof -
  have "FromProto (Some ((ToProto (with_image p r))\<lparr>pbHash := []\<rparr>)) = Inr (with_image p r)"
    by (rule FromProto_no_hash [OF FromProto_ToProto_wf [OF with_image_wf [OF assms]]])
  also have "(ToProto (with_image p r))\<lparr>pbHash := []\<rparr> = (ToProto p)\<lparr>pbImageRef := drOriginal r, pbImageDigest := Digest r, pbHash := []\<rparr>"
    by (simp add: ToProto_def with_image_def Let_def)
  finally show ?thesis by (simp add: apply_image_def r)
qed

text \<open>C38. \<open>--image\<close> replaces the image and nothing else: for a compiled policy the sandbox is created with a well-formed policy that pins the
  resolved reference and has the rules, the services and the default of the compiled one; without the flag it is the compiled one.
\<close>

theorem override_image_only:
  assumes "wf_policy p" and "overrideCompiledPolicyImage rs p override allowLocal s = (s', Inr q)"
  shows "wf_policy q \<and> cpAllow q = cpAllow p \<and> cpServices q = cpServices p \<and> cpNetworkDefault q = cpNetworkDefault p \<and>
    (trim_space override = [] \<longrightarrow> q = p) \<and>
    (trim_space override \<noteq> [] \<longrightarrow> (\<exists>ref r. rs (trim_space override) allowLocal s = (s', Inr ref) \<and> ParseDigestReference ref = Inr r \<and>
       cpImageRef q = drOriginal r \<and> cpImageDigest q = Digest r))"
proof (cases "trim_space override = []")
  case True
  then show ?thesis using assms by (simp add: overrideCompiledPolicyImage_def cmd_ret_def)
next
  case False
  then obtain ref where rs: "rs (trim_space override) allowLocal s = (s', Inr ref)" and ap: "apply_image p ref = Inr q"
    using assms(2)
    by (auto simp: overrideCompiledPolicyImage_def cmd_bind_def cmd_wrap_def cmd_lift_def split: prod.splits sum.splits)
  obtain r where r: "ParseDigestReference ref = Inr r" using ap by (cases "ParseDigestReference ref") (simp_all add: apply_image_def)
  have "q = with_image p r" using ap apply_image_eq [OF assms(1) r] by simp
  then show ?thesis using with_image_wf [OF assms(1) r] rs r False by (simp add: with_image_def Let_def)
qed

theorem override_image_only_witness:
  "\<exists>p s' q. Compile demo_raw = Inr p \<and> overrideCompiledPolicyImage (\<lambda>src _. cmd_ret src) p demo_ref False undefined = (s', Inr q) \<and>
     wf_policy q \<and> cpAllow q = cpAllow p"
proof -
  obtain p where c: "Compile demo_raw = Inr p" using demo_compiles by blast
  have wf: "wf_policy p" by (rule yaml.compile_wf [OF c])
  obtain r where r: "ParseDigestReference demo_ref = Inr r" using demo_ref_parses by blast
  have t: "trim_space demo_ref = demo_ref" "demo_ref \<noteq> []"
    using ParseDigestReference_InrD(1) [OF demo_ref_parses] r by (simp_all add: demo_ref_def)
  have run: "overrideCompiledPolicyImage (\<lambda>src _. cmd_ret src) p demo_ref False undefined = (undefined, Inr (with_image p r))"
    using apply_image_eq [OF wf r] t
    by (simp add: overrideCompiledPolicyImage_def cmd_bind_def cmd_wrap_def cmd_ret_def cmd_lift_def)
  show ?thesis using override_image_only [OF wf run] run c by blast
qed

section \<open>Output of a terminal\<close>

lemma normalize_append: "normalize_bytes cr (a @ b) = normalize_bytes cr a @ normalize_bytes (if a = [] then cr else last a = CHR 0x0D) b"
  by (induction a arbitrary: cr) auto

lemma normalize_plain: "CHR 0x0A \<notin> set a \<Longrightarrow> normalize_bytes cr a = a"
  by (induction a arbitrary: cr) auto

lemma normalize_chunk: "normalizeLineEndingsForRawTTY chunk cr = (normalize_bytes cr chunk, if chunk = [] then cr else last chunk = CHR 0x0D)"
  by (auto simp: normalizeLineEndingsForRawTTY_def normalize_plain)

fun normalize_chunks :: "bool \<Rightarrow> string list \<Rightarrow> string" where
  "normalize_chunks cr [] = []"
| "normalize_chunks cr (c # cs) = (case normalizeLineEndingsForRawTTY c cr of (text, cr') \<Rightarrow> text @ normalize_chunks cr' cs)"

fun crlf :: "bool \<Rightarrow> string \<Rightarrow> bool" where
  "crlf cr [] = True"
| "crlf cr (b # bs) = ((b = CHR 0x0A \<longrightarrow> cr) \<and> crlf (b = CHR 0x0D) bs)"

lemma normalize_crlf: "crlf cr (normalize_bytes cr t)"
  by (induction t arbitrary: cr) auto

lemma normalize_rest: "filter (\<lambda>b. b \<noteq> CHR 0x0D) (normalize_bytes cr t) = filter (\<lambda>b. b \<noteq> CHR 0x0D) t"
  by (induction t arbitrary: cr) auto

lemma console_read_out:
  assumes "console_read ev True ops chunk l s = (s', Inr l')"
  shows "concat (clOut s') = concat (clOut s) @ normalize_bytes (ccEndedCR l) chunk \<and> ccEndedCR l' = (if chunk = [] then ccEndedCR l else last chunk = CHR 0x0D)"
  using assms
  by (auto simp: console_read_def normalize_chunk cmd_bind_def cmd_ret_def cmd_fail_def write_out_def Let_def split: if_splits option.splits prod.splits sum.splits)

lemma console_reads_out:
  "console_reads ev True reads l s = (s', Inr l') \<Longrightarrow> concat (clOut s') = concat (clOut s) @ normalize_bytes (ccEndedCR l) (concat (map snd reads))"
proof (induction reads arbitrary: l s)
  case (Cons r reads)
  obtain ops chunk where r: "r = (ops, chunk)" by fastforce
  obtain s1 l1 where 1: "console_read ev True ops chunk l s = (s1, Inr l1)" and 2: "console_reads ev True reads l1 s1 = (s', Inr l')"
    using Cons.prems by (auto simp: r cmd_bind_def split: prod.splits sum.splits)
  show ?case using Cons.IH [OF 2] console_read_out [OF 1] by (simp add: r normalize_append)
qed simp

text \<open>C39. However the output of the guest is cut into reads, a raw terminal shows the same: what the loop writes is the whole text with a carriage
  return put before each line feed that has none, and nothing else changed.
\<close>

theorem console_output_uncut:
  assumes "console_reads ev True reads \<lparr>ccChans = chans0, ccExit = code, ccEndedCR = False\<rparr> s = (s', Inr l)"
  shows "\<exists>text. concat (clOut s') = concat (clOut s) @ text \<and> text = normalize_bytes False (concat (map snd reads)) \<and> crlf False text \<and>
    filter (\<lambda>b. b \<noteq> CHR 0x0D) text = filter (\<lambda>b. b \<noteq> CHR 0x0D) (concat (map snd reads))"
  using console_reads_out [OF assms] by (simp add: normalize_crlf normalize_rest)

definition demo_cli_env :: cli_env where
  "demo_cli_env = \<lparr>evOut = (\<lambda>_. None), evErr = (\<lambda>_. None), evStat = (\<lambda>_. None), evRead = (\<lambda>_. None), evWrite = (\<lambda>_. None), evMkdir = (\<lambda>_. None),
     evRemove = (\<lambda>_. None), evProc = (\<lambda>_. None), evHost = \<lparr>heGetenv = (\<lambda>_. []), heHome = Inr ''/home/u'', heTempDir = ''/tmp'', heEuid = 0, heSystemSocket = True, heGOOS = ''linux''\<rparr>\<rparr>"

definition demo_cli_state :: cli_state where
  "demo_cli_state = \<lparr>clCalls = [], clOut = [], clErr = [], clFiles = [], clDirs = [], clProcs = []\<rparr>"

theorem console_output_uncut_witness:
  "\<exists>s' l. console_reads demo_cli_env True [([], ''a''), ([], [CHR 0x0D]), ([], [CHR 0x0A, CHR 0x0A])]
       \<lparr>ccChans = new_chans, ccExit = None, ccEndedCR = False\<rparr> demo_cli_state = (s', Inr l) \<and>
     concat (clOut s') = [CHR ''a'', CHR 0x0D, CHR 0x0A, CHR 0x0D, CHR 0x0A]"
proof -
  let ?run = "console_reads demo_cli_env True [([], ''a''), ([], [CHR 0x0D]), ([], [CHR 0x0A, CHR 0x0A])]
       \<lparr>ccChans = new_chans, ccExit = None, ccEndedCR = False\<rparr> demo_cli_state"
  have "\<exists>s' l. ?run = (s', Inr l)"
    by (simp add: console_read_def normalize_chunk cmd_bind_def cmd_ret_def write_out_def demo_cli_env_def Let_def pollInteractiveExitOrControlErr_def new_chans_def)
  then obtain s' l where r: "?run = (s', Inr l)" by blast
  show ?thesis using console_output_uncut [OF r] r by (auto simp: demo_cli_state_def)
qed

section \<open>exec\<close>

definition stdout_of :: "exec_turn list \<Rightarrow> string" where
  "stdout_of turns = concat (map (\<lambda>t. case t of SEvent e \<Rightarrow> (case eePayload e of PStdout c \<Rightarrow> c | _ \<Rightarrow> []) | SSignal \<Rightarrow> []) turns)"

definition stderr_of :: "exec_turn list \<Rightarrow> string" where
  "stderr_of turns = concat (map (\<lambda>t. case t of SEvent e \<Rightarrow> (case eePayload e of PStderr c \<Rightarrow> c | _ \<Rightarrow> []) | SSignal \<Rightarrow> []) turns)"

definition last_exit :: "int option \<Rightarrow> exec_turn list \<Rightarrow> int option" where
  "last_exit code turns = fold (\<lambda>t code. case t of SEvent e \<Rightarrow> (case eePayload e of PExit c _ _ \<Rightarrow> Some c | _ \<Rightarrow> code) | SSignal \<Rightarrow> code) turns code"

definition signals :: "exec_turn list \<Rightarrow> nat" where
  "signals turns = length (filter (\<lambda>t. t = SSignal) turns)"

lemma exec_stream_outcome:
  "exec_stream ev sid eid turns l s = (s', Inr l') \<Longrightarrow>
     concat (clOut s') = concat (clOut s) @ stdout_of turns \<and> concat (clErr s') = concat (clErr s) @ stderr_of turns \<and>
     elExit l' = last_exit (elExit l) turns \<and> elInterrupts l' = elInterrupts l + signals turns"
proof (induction turns arbitrary: l s)
  case Nil
  then show ?case by (simp add: stdout_of_def stderr_of_def last_exit_def signals_def)
next
  case (Cons t turns)
  show ?case
  proof (cases t)
    case (SEvent e)
    then obtain s1 l1 where 1: "exec_stream_event ev e l s = (s1, Inr l1)" and 2: "exec_stream ev sid eid turns l1 s1 = (s', Inr l')"
      using Cons.prems by (auto simp: cmd_bind_def split: prod.splits sum.splits)
    have "concat (clOut s1) = concat (clOut s) @ stdout_of [t] \<and> concat (clErr s1) = concat (clErr s) @ stderr_of [t] \<and>
        elExit l1 = last_exit (elExit l) [t] \<and> elInterrupts l1 = elInterrupts l"
      using 1 by (auto simp: SEvent exec_stream_event_def cmd_bind_def cmd_ret_def write_out_def write_err_def stdout_of_def stderr_of_def last_exit_def
          split: exec_payload.splits option.splits)
    then show ?thesis using Cons.IH [OF 2] by (simp add: SEvent stdout_of_def stderr_of_def last_exit_def signals_def)
  next
    case SSignal
    then show ?thesis
      using Cons.IH [of "l\<lparr>elInterrupts := elInterrupts l + 1\<rparr>" "fst (exec_signal sid eid l s)"] Cons.prems
      by (auto simp: exec_signal_def stdout_of_def stderr_of_def last_exit_def signals_def split: if_splits)
  qed
qed

lemma exec_stream_succeeds:
  assumes "evOut ev = (\<lambda>_. None)" and "evErr ev = (\<lambda>_. None)"
  shows "\<exists>s' l'. exec_stream ev sid eid turns l s = (s', Inr l')"
proof (induction turns arbitrary: l s)
  case (Cons t turns)
  show ?case
  proof (cases t)
    case (SEvent e)
    have "\<exists>s1 l1. exec_stream_event ev e l s = (s1, Inr l1)"
      by (auto simp: exec_stream_event_def cmd_bind_def cmd_ret_def write_out_def write_err_def assms split: exec_payload.splits)
    then show ?thesis using Cons.IH by (auto simp: SEvent cmd_bind_def)
  next
    case SSignal
    then show ?thesis using Cons.IH by (auto simp: exec_signal_def)
  qed
qed simp

definition execution_id :: "PbExecution option \<Rightarrow> string" where
  "execution_id created = (case created of None \<Rightarrow> [] | Some ex \<Rightarrow> peExecutionID ex)"

definition exec_request :: "ExecCommand \<Rightarrow> string \<Rightarrow> CreateExecutionRequest" where
  "exec_request c sid = \<lparr>ceSandboxID = sid, ceCommand = xcCommand c, ceOptions = Some (xcLaunchSeconds c, False), ceKind = KIND_BATCH\<rparr>"

text \<open>The result that a stream calls for, when the server was asked for the state of the execution only if the stream had no exit code.\<close>

definition exec_verdict :: "cli_api \<Rightarrow> string \<Rightarrow> string \<Rightarrow> exec_turn list \<Rightarrow> go_error option \<Rightarrow> cli_error + unit" where
  "exec_verdict api sid eid turns err =
     (let code = (case last_exit None turns of Some c \<Rightarrow> Some c | None \<Rightarrow> final_exit_code (apGet api sid eid)) in
      if signals turns \<ge> 2 then Inl (ExitCodeError 130)
      else case err of
        Some e \<Rightarrow> if \<not> isCanceledStreamErr e then Inl (Wrapped ''stream execution'' (RPCError e)) else report_exit ''execution stream ended without exit status'' code
      | None \<Rightarrow> report_exit ''execution stream ended without exit status'' code)"

lemma finish_outputs: "exec_finish w rm sid eid err l s = (s', r, det) \<Longrightarrow> clOut s' = clOut s \<and> clErr s' = clErr s"
  by (auto simp: exec_finish_def terminateSandboxBestEffort_def with_final_def getFinalExecutionExitCode_def split: if_splits option.splits prod.splits)

lemma finish_verdict:
  assumes "exec_finish w rm sid eid err l s = (s', r, det)" and "elExit l = last_exit None turns" and "elInterrupts l = signals turns"
  shows "r = exec_verdict (cwApi w) sid eid turns err"
  using assms by (auto simp: exec_finish_def exec_verdict_def with_final_def getFinalExecutionExitCode_def Let_def split: if_splits option.splits prod.splits)

lemma exec_in_sandbox_outcome:
  assumes run: "exec_in_sandbox w stream c sid s = (s', r, det)"
    and created: "apCreateExecution (cwApi w) (exec_request c sid) = Inr created"
    and st: "stream sid (execution_id created) = Inr (turns, err)"
    and io: "evOut (cwEnv w) = (\<lambda>_. None)" "evErr (cwEnv w) = (\<lambda>_. None)"
  shows "concat (clOut s') = concat (clOut s) @ stdout_of turns \<and> concat (clErr s') = concat (clErr s) @ stderr_of turns \<and>
    r = exec_verdict (cwApi w) sid (execution_id created) turns err"
proof -
  let ?eid = "execution_id created"
  let ?s = "s\<lparr>clCalls := (clCalls s @ [RCreateExecution (exec_request c sid)]) @ [RStreamExecution sid ?eid True]\<rparr>"
  obtain s1 l where l: "exec_stream (cwEnv w) sid ?eid turns \<lparr>elExit = None, elInterrupts = 0\<rparr> ?s = (s1, Inr l)"
    using exec_stream_succeeds [OF io] by blast
  have f: "exec_finish w (xcRemove c) sid ?eid err l s1 = (s', r, det)"
    using run created st l
    by (simp add: exec_in_sandbox_def exec_request_def execution_id_def cmd_wrap_def rpc_def Let_def)
  show ?thesis using exec_stream_outcome [OF l] finish_outputs [OF f] finish_verdict [OF f] by simp
qed


lemma verdict_success: "exec_verdict api sid eid turns err = Inr () \<Longrightarrow>
   last_exit None turns = Some 0 \<or> last_exit None turns = None \<and> final_exit_code (apGet api sid eid) = Some 0"
  by (auto simp: exec_verdict_def report_exit_def Let_def split: if_splits option.splits)

section \<open>Removal of the sandbox\<close>

definition terminations :: "cli_state \<Rightarrow> string list" where
  "terminations s = concat (map (\<lambda>c. case c of RTerminateSandbox x \<Rightarrow> [x] | _ \<Rightarrow> []) (clCalls s))"

definition executions :: "cli_state \<Rightarrow> string list" where
  "executions s = concat (map (\<lambda>c. case c of RCreateExecution q \<Rightarrow> [ceSandboxID q] | _ \<Rightarrow> []) (clCalls s))"

text \<open>Actions that ask for neither.\<close>

definition calm :: "(cli_state \<Rightarrow> cli_state \<times> 'a) \<Rightarrow> bool" where
  "calm m \<longleftrightarrow> (\<forall>s. terminations (fst (m s)) = terminations s \<and> executions (fst (m s)) = executions s)"

lemma calmI: "(\<And>s s' x. m s = (s', x) \<Longrightarrow> terminations s' = terminations s \<and> executions s' = executions s) \<Longrightarrow> calm m"
  unfolding calm_def by (metis prod.collapse)

lemma calmD: "calm m \<Longrightarrow> m s = (s', x) \<Longrightarrow> terminations s' = terminations s \<and> executions s' = executions s"
  unfolding calm_def by (metis fst_conv)

lemma calm_calls: "(\<And>s. clCalls (fst (m s)) = clCalls s) \<Longrightarrow> calm m"
  by (simp add: calm_def terminations_def executions_def)

lemma calm_bind:
  assumes "calm m" and "\<And>x. calm (f x)"
  shows "calm (cmd_bind m f)"
proof (rule calmI)
  fix s s' x assume b: "cmd_bind m f s = (s', x)"
  obtain s1 y where m: "m s = (s1, y)" by fastforce
  show "terminations s' = terminations s \<and> executions s' = executions s"
  proof (cases y)
    case (Inl e)
    then show ?thesis using b m calmD [OF assms(1) m] by (simp add: cmd_bind_def)
  next
    case (Inr v)
    then have "f v s1 = (s', x)" using b m by (simp add: cmd_bind_def)
    then show ?thesis using calmD [OF assms(2)] calmD [OF assms(1) m] by simp
  qed
qed

lemma calm_wrap: "calm m \<Longrightarrow> calm (cmd_wrap ctx m)"
  by (rule calmI) (auto simp: cmd_wrap_def split: prod.splits sum.splits dest: calmD)

lemma calm_basic:
  "calm (cmd_ret x)" "calm (cmd_fail e)" "calm (cmd_lift r)" "calm (write_out ev t)" "calm (write_err ev t)"
  by (rule calm_calls; simp add: cmd_ret_def cmd_fail_def cmd_lift_def write_out_def write_err_def split: option.split)+

lemma calm_rpc: "(case c of RTerminateSandbox _ \<Rightarrow> False | RCreateExecution _ \<Rightarrow> False | _ \<Rightarrow> True) \<Longrightarrow> calm (rpc c a)"
  by (auto simp: calm_def rpc_def terminations_def executions_def split: cli_call.splits)

lemma calm_option: "calm a \<Longrightarrow> (\<And>x. calm (f x)) \<Longrightarrow> calm (case v of None \<Rightarrow> a | Some x \<Rightarrow> f x)"
  by (cases v) simp_all

lemma calm_sum: "(\<And>e. calm (a e)) \<Longrightarrow> (\<And>x. calm (f x)) \<Longrightarrow> calm (case v of Inl e \<Rightarrow> a e | Inr x \<Rightarrow> f x)"
  by (cases v) simp_all

lemma calm_prod: "(\<And>a b. calm (f a b)) \<Longrightarrow> calm (case p of (a, b) \<Rightarrow> f a b)"
  by (cases p) simp

lemma calm_if: "calm a \<Longrightarrow> calm b \<Longrightarrow> calm (if c then a else b)"
  by simp

lemmas calm_rules = calm_bind calm_wrap calm_basic calm_option calm_sum calm_prod calm_if

lemma calm_choice:
  assumes "\<And>x b s. clCalls (fst (rs x b s)) = clCalls s"
  shows "calm (overrideCompiledPolicyImage rs p image0 b)"
  unfolding overrideCompiledPolicyImage_def Let_def using calm_calls [of "rs _ _"] assms by (intro calm_rules) blast

lemma calm_ensure:
  assumes "\<And>x b s. clCalls (fst (cwResolve w x b s)) = clCalls s"
  shows "calm (connect w fl)" "calm (ensureSandboxID w cwd host backendName existing image0 secs)"
proof -
  show "calm (connect w fl)" unfolding connect_def by (intro calm_rules)
  have "calm (create_sandbox w cwd host backendName image0 secs)" unfolding create_sandbox_def Let_def
    by (intro calm_rules calm_choice assms calm_rpc) simp
  then show "calm (ensureSandboxID w cwd host backendName existing image0 secs)" unfolding ensureSandboxID_def Let_def by (intro calm_rules)
qed

lemma calm_stream: "calm (exec_stream ev sid eid turns l)"
proof (induction turns arbitrary: l)
  case Nil
  show ?case by (rule calm_calls) simp
next
  case (Cons t turns)
  show ?case
  proof (cases t)
    case (SEvent e)
    have "exec_stream ev sid eid (t # turns) l = cmd_bind (exec_stream_event ev e l) (exec_stream ev sid eid turns)" by (rule ext) (simp add: SEvent)
    moreover have "calm (exec_stream_event ev e l)" by (cases "eePayload e") (simp_all add: exec_stream_event_def, (intro calm_rules)+)
    ultimately show ?thesis using Cons.IH by (simp only:) (rule calm_bind)
  next
    case SSignal
    show ?thesis
      by (rule calmI) (auto simp: SSignal exec_signal_def terminations_def executions_def dest!: calmD [OF Cons.IH] split: if_splits)
  qed
qed

lemma calm_final: "calm (with_final api sid eid code)"
  by (auto simp: calm_def with_final_def getFinalExecutionExitCode_def terminations_def executions_def split: option.splits)

lemma calm_then: "calm m \<Longrightarrow> calm (\<lambda>s. case m s of (s, x) \<Rightarrow> (s, f x))"
  by (rule calmI) (auto split: prod.splits dest: calmD)

text \<open>A sandbox that is asked for an execution is terminated once at the end, if it is to be removed, and none is otherwise.\<close>

definition cleans_up :: "bool \<Rightarrow> cli_state \<Rightarrow> cli_state \<Rightarrow> bool" where
  "cleans_up remove s s' \<longleftrightarrow> executions s' = executions s \<and> terminations s' = terminations s \<or>
     (\<exists>sid. executions s' = executions s @ [sid] \<and> terminations s' = terminations s @ (if remove \<and> sid \<noteq> [] then [sid] else []))"

lemma terminate_calls:
  assumes "trim_space sid = sid"
  shows "terminations (terminateSandboxBestEffort sid s) = terminations s @ (if sid \<noteq> [] then [sid] else [])"
    "executions (terminateSandboxBestEffort sid s) = executions s"
  using assms by (auto simp: terminateSandboxBestEffort_def terminations_def executions_def)

lemma finish_calls:
  assumes "exec_finish w rm sid eid err l s = (s', r, det)" and "trim_space sid = sid"
  shows "executions s' = executions s \<and> terminations s' = terminations s @ (if det \<and> rm \<and> sid \<noteq> [] then [sid] else [])"
proof (cases "elInterrupts l \<ge> 2")
  case True
  then show ?thesis using assms(1) terminate_calls [OF assms(2)] by (auto simp: exec_finish_def split: if_splits)
next
  case False
  then have "s' = s \<and> \<not> det \<or> s' = fst (with_final (cwApi w) sid eid (elExit l) s) \<and> \<not> det"
    using assms(1) by (auto simp: exec_finish_def split: option.splits if_splits prod.splits)
  then show ?thesis using calm_final unfolding calm_def by fastforce
qed

lemma rpc_execution: "rpc (RCreateExecution q) a s = (s', x) \<Longrightarrow> executions s' = executions s @ [ceSandboxID q] \<and> terminations s' = terminations s"
  by (auto simp: rpc_def executions_def terminations_def)

lemma wrap_state: "cmd_wrap ctx m s = (s', x) \<Longrightarrow> \<exists>y. m s = (s', y)"
  by (auto simp: cmd_wrap_def split: prod.splits sum.splits)

lemma exec_calls:
  assumes run: "exec_in_sandbox w stream c sid s = (s', r, det)" and t: "trim_space sid = sid"
  shows "executions s' = executions s @ [sid] \<and> terminations s' = terminations s @ (if det \<and> xcRemove c \<and> sid \<noteq> [] then [sid] else [])"
proof -
  let ?create = "cmd_wrap ''create execution'' (rpc (RCreateExecution (exec_request c sid)) (apCreateExecution (cwApi w) (exec_request c sid)))"
  let ?follow = "\<lambda>eid. cmd_wrap ''stream execution'' (rpc (RStreamExecution sid eid True) (stream sid eid))"
  obtain s1 x where 1: "?create s = (s1, x)" by fastforce
  have c1: "executions s1 = executions s @ [sid]" "terminations s1 = terminations s"
    using wrap_state [OF 1] rpc_execution by (fastforce simp: exec_request_def)+
  show ?thesis
  proof (cases x)
    case (Inl e)
    then show ?thesis using run 1 c1 by (simp add: exec_in_sandbox_def exec_request_def Let_def)
  next
    case (Inr created)
    let ?eid = "execution_id created"
    obtain s2 y where 2: "?follow ?eid s1 = (s2, y)" by fastforce
    have c2: "executions s2 = executions s1" "terminations s2 = terminations s1"
      using calmD [OF calm_wrap [OF calm_rpc] 2] by auto
    show ?thesis
    proof (cases y)
      case y: (Inl e)
      then show ?thesis using run 1 2 Inr c1 c2 by (simp add: exec_in_sandbox_def exec_request_def execution_id_def Let_def)
    next
      case y: (Inr p)
      obtain turns err where p: "p = (turns, err)" by fastforce
      obtain s3 z where 3: "exec_stream (cwEnv w) sid ?eid turns \<lparr>elExit = None, elInterrupts = 0\<rparr> s2 = (s3, z)" by fastforce
      have c3: "executions s3 = executions s2" "terminations s3 = terminations s2" using calmD [OF calm_stream 3] by auto
      show ?thesis
      proof (cases z)
        case z: (Inl e)
        then show ?thesis using run 1 2 3 Inr y p c1 c2 c3 by (simp add: exec_in_sandbox_def exec_request_def execution_id_def Let_def)
      next
        case z: (Inr l)
        then have "exec_finish w (xcRemove c) sid ?eid err l s3 = (s', r, det)"
          using run 1 2 3 Inr y p by (simp add: exec_in_sandbox_def exec_request_def execution_id_def Let_def)
        then show ?thesis using finish_calls [OF _ t] c1 c2 c3 by simp
      qed
    qed
  qed
qed

lemma exec_sandbox_cleans:
  assumes "trim_space sid = sid"
  shows "cleans_up (xcRemove c) s (fst (exec_with_sandbox w stream c sid s))"
proof -
  let ?print = "if xcPrintSandboxID c then write_err (cwEnv w) (''sandbox_id='' @ sid @ [CHR 0x0A]) else cmd_ret ()"
  obtain s1 x where 1: "?print s = (s1, x)" by fastforce
  have c1: "executions s1 = executions s" "terminations s1 = terminations s"
    using calmD [OF calm_if [OF calm_basic(5) calm_basic(1)] 1] by auto
  obtain s2 r det where 2: "exec_in_sandbox w stream c sid s1 = (s2, r, det)" using prod_cases3 by blast
  show ?thesis
    using 1 2 c1 exec_calls [OF 2 assms] terminate_calls [OF assms, of s2]
    by (cases x) (auto simp: exec_with_sandbox_def cmd_bind_def cleans_up_def)
qed

lemma calm_console:
  "calm (replayExecutionHistory ev api sid eid)" "calm (console_not_active w sid eid e)" "calm (console_dial_failed w sid eid d)"
  "calm (console_attached w sid eid cs)"
proof -
  have final: "calm (\<lambda>s. case with_final api sid eid code s of (s, code) \<Rightarrow> (s, report_exit m code))" for api code m
    by (rule calm_then [OF calm_final])
  show replay: "calm (replayExecutionHistory ev api sid eid)" for ev api unfolding replayExecutionHistory_def
    by (intro calm_rules calm_stream calm_rpc) simp
  show "calm (console_not_active w sid eid e)"
    by (rule calmI) (auto simp: console_not_active_def split: prod.splits sum.splits dest!: calmD [OF replay] calmD [OF calm_final])
  show "calm (console_dial_failed w sid eid d)"
    by (rule calmI) (auto simp: console_dial_failed_def split: prod.splits dest!: calmD [OF replay] calmD [OF calm_final])
  have rd: "calm (console_read ev raw ops chunk l)" for ev raw ops chunk l unfolding console_read_def Let_def
    by (intro calm_rules)
  have rds: "calm (console_reads ev raw reads l)" for ev raw reads l
  proof (induction reads arbitrary: l)
    case Nil
    show ?case by (rule calm_calls) simp
  next
    case (Cons r reads)
    have "console_reads ev raw (r # reads) l = cmd_bind (console_read ev raw (fst r) (snd r) l) (console_reads ev raw reads)" by (rule ext) (cases r; simp)
    then show ?case using rd Cons.IH by (simp only:) (rule calm_bind)
  qed
  show "calm (console_attached w sid eid cs)" unfolding console_attached_def
    by (intro calm_rules rd rds final)
qed

lemma console_calls:
  assumes "console_in_sandbox w ke c sid s = (s', r)"
  shows "executions s' = executions s @ [sid] \<and> terminations s' = terminations s"
proof -
  let ?q = "\<lparr>ceSandboxID = sid, ceCommand = console_command (kcCommand c), ceOptions = Some (kcLaunchSeconds c, True), ceKind = KIND_INTERACTIVE\<rparr>"
  let ?create = "cmd_wrap ''create execution'' (rpc (RCreateExecution ?q) (apCreateExecution (cwApi w) ?q))"
  have opened: "calm (\<lambda>s. (s\<lparr>clCalls := clCalls s @ [ROpenInteractive sid eid a b]\<rparr>, Inr ()))" for eid a b
    by (simp add: calm_def terminations_def executions_def)
  let ?f = "\<lambda>created. console_open w ke c sid (case created of None \<Rightarrow> [] | Some ex \<Rightarrow> peExecutionID ex)"
  have f: "calm (?f x)" for x unfolding console_open_def Let_def by (intro calm_rules calm_console opened)
  have eq: "console_in_sandbox w ke c sid = cmd_bind ?create ?f" by (simp add: console_in_sandbox_def Let_def)
  obtain s1 x where 1: "?create s = (s1, x)" by fastforce
  have c1: "executions s1 = executions s @ [sid]" "terminations s1 = terminations s"
    using wrap_state [OF 1] rpc_execution by fastforce+
  show ?thesis
  proof (cases x)
    case (Inl e)
    then show ?thesis using assms 1 c1 unfolding eq by (simp add: cmd_bind_def)
  next
    case (Inr y)
    then have y: "?f y s1 = (s', r)" using assms 1 unfolding eq by (simp add: cmd_bind_def)
    show ?thesis using calmD [OF f y] c1 by simp
  qed
qed

lemma ensure_trimmed: "ensureSandboxID w cwd host b existing image0 secs s = (s', Inr sid) \<Longrightarrow> trim_space sid = sid"
  by (auto simp: ensureSandboxID_def cmd_bind_def cmd_ret_def cmd_fail_def sandbox_id_def trim_space_trimmed trimmed_def Let_def
      split: if_splits prod.splits sum.splits option.splits)

text \<open>A command with a sandbox of its own: the calm part, then the command.\<close>

lemma cleans_after:
  assumes keep: "\<And>x b s. clCalls (fst (cwResolve w x b s)) = clCalls s"
    and body: "\<And>sid s. trim_space sid = sid \<Longrightarrow> cleans_up rm s (fst (body sid s))"
  shows "cleans_up rm s (fst (cmd_bind (connect w fl) (\<lambda>_. cmd_bind (ensureSandboxID w cwd host b existing image0 secs) body) s))"
proof -
  obtain s1 x where 1: "connect w fl s = (s1, x)" by fastforce
  obtain s2 y where 2: "ensureSandboxID w cwd host b existing image0 secs s1 = (s2, y)" by fastforce
  have c: "executions s1 = executions s" "terminations s1 = terminations s" "executions s2 = executions s" "terminations s2 = terminations s"
    using calmD [OF calm_ensure(1) [OF keep] 1] calmD [OF calm_ensure(2) [OF keep] 2] by simp_all
  show ?thesis
  proof (cases x)
    case (Inl e)
    then show ?thesis using 1 c by (simp add: cmd_bind_def cleans_up_def)
  next
    case x: (Inr u)
    show ?thesis
    proof (cases y)
      case (Inl e)
      then show ?thesis using 1 2 x c by (simp add: cmd_bind_def cleans_up_def)
    next
      case (Inr sid)
      then have "trim_space sid = sid" using 2 ensure_trimmed by blast
      then have "cleans_up rm s2 (fst (body sid s2))" by (rule body)
      then show ?thesis using 1 2 x Inr c by (simp add: cmd_bind_def cleans_up_def)
    qed
  qed
qed

text \<open>The lookup of an image for \<open>--image\<close> makes no call of the control API.\<close>

lemma local_no_calls:
  "clCalls (note_line ev t s) = clCalls s" "docker_command lk args s = (s', x) \<Longrightarrow> clCalls s' = clCalls s"
  "clCalls (fst (export_container ev lk src cid ref name s)) = clCalls s"
  by (auto simp: export_container_def docker_command_def note_line_def write_err_def Let_def split: sum.splits option.splits)

lemma import_no_calls: "import_container ev lk src ref s = (s', x) \<Longrightarrow> clCalls s' = clCalls s"
proof -
  assume run: "import_container ev lk src ref s = (s', x)"
  obtain s1 y where 1: "docker_command lk [''create'', src] s = (s1, y)" by fastforce
  have e: "clCalls s3 = clCalls s2" if "export_container ev lk src cid ref name (s2\<lparr>clFiles := fs\<rparr>) = (s3, z)" for s2 s3 cid name z fs
    using local_no_calls(3) [of ev lk src cid ref name "s2\<lparr>clFiles := fs\<rparr>"] that by simp
  show "clCalls s' = clCalls s"
    using run 1 local_no_calls(2) [OF 1]
    by (auto simp: import_container_def cmd_deferred_def cmd_fail_def cli_remove_path_def docker_command_def Let_def split: sum.splits prod.splits if_splits dest!: e)
qed

lemma resolve_no_calls: "clCalls (fst (resolveReferenceForImageOverride ev lk newTag head source allowLocal s)) = clCalls s"
proof -
  have "clCalls s2 = clCalls s1" if run: "importLocalDockerImageForOverride ev lk src s1 = (s2, x)" for src s1 s2 x
  proof -
    obtain s3 y where 1: "docker_command lk [''image'', ''inspect'', ''--format'', ''{{.Id}}'', trim_space src] s1 = (s3, y)" by fastforce
    show ?thesis
      using run 1 local_no_calls(2) [OF 1]
      by (auto simp: importLocalDockerImageForOverride_def local_no_calls(1) Let_def split: if_splits option.splits sum.splits dest!: import_no_calls)
  qed
  then show ?thesis by (auto simp: resolveReferenceForImageOverride_def split: prod.splits sum.splits)
qed

text \<open>C36. A sandbox that a command runs in is removed when the user asked for it, and only then: whatever becomes of \<open>exec\<close> or \<open>console\<close>, it asks
  for at most one execution; with \<open>--rm\<close> it then terminates the sandbox of that execution exactly once, without it it terminates none.
\<close>

theorem commands_clean_up:
  assumes "cwResolve w = resolveReferenceForImageOverride ev lk newTag head"
  shows "cleans_up (xcRemove c) s (fst (ExecCommand_Run w logger stream c s)) \<and> cleans_up (kcRemove k) s (fst (ConsoleCommand_Run w logger ke k s))"
proof
  have keep: "clCalls (fst (cwResolve w x b s)) = clCalls s" for x b s by (simp add: assms resolve_no_calls)
  have failed: "cleans_up rm s (fst (cmd_fail e s))" for rm and e :: cli_error by (simp add: cmd_fail_def cleans_up_def)
  show "cleans_up (xcRemove c) s (fst (ExecCommand_Run w logger stream c s))" unfolding ExecCommand_Run_def
    by (cases logger) (simp_all only: option.case failed cleans_after [OF keep exec_sandbox_cleans])
  have body: "cleans_up (kcRemove k) s (fst (cmd_deferred (\<lambda>s. if sid = [] \<or> \<not> kcRemove k then s else terminateSandboxBestEffort sid s) (console_in_sandbox w ke k sid) s))"
    if t: "trim_space sid = sid" for sid s
  proof -
    obtain s1 r where 1: "console_in_sandbox w ke k sid s = (s1, r)" by fastforce
    show ?thesis using console_calls [OF 1] terminate_calls [OF t, of s1] by (auto simp: cmd_deferred_def 1 cleans_up_def)
  qed
  show "cleans_up (kcRemove k) s (fst (ConsoleCommand_Run w logger ke k s))" unfolding ConsoleCommand_Run_def
    by (cases logger) (simp_all only: option.case failed cleans_after [OF keep body])
qed

definition demo_local :: local_docker where
  "demo_local = \<lparr>lkLookPath = Some ''none'', lkDocker = (\<lambda>_. Inr []), lkManager = None, lkList = Inr [], lkStat = (\<lambda>_. False), lkTemp = Inr ''/tmp/x'', lkSeek = None, lkImport = (\<lambda>_ _. None)\<rparr>"

definition demo_execution :: PbExecution where
  "demo_execution = \<lparr>peExecutionID = ''e1'', peSandboxID = ''s1'', peStatus = SUCCEEDED, peCommand = [''true''], peExitCode = 0, peTty = False, peRunID = [],
     peKind = KIND_BATCH, peStartedAt = None, peFinishedAt = None\<rparr>"

definition demo_cli_world :: cli_world where
  "demo_cli_world = \<lparr>cwEnv = demo_cli_env,
     cwApi = \<lparr>apCreateSandbox = (\<lambda>_. Inr None), apTerminate = (\<lambda>_. Inr []), apList = Inr [], apCreateExecution = (\<lambda>_. Inr (Some demo_execution)),
       apGet = (\<lambda>_ _. Inr (Some demo_execution)), apReplay = (\<lambda>_ _. Inr ([], None))\<rparr>,
     cwClient = (\<lambda>_. None), cwLoad = (\<lambda>_. Inl (ReadPolicy [])), cwResolve = resolveReferenceForImageOverride demo_cli_env demo_local Inr Inr, cwCWD = ''/w''\<rparr>"

definition demo_exec :: ExecCommand where
  "demo_exec = \<lparr>xcFlags = \<lparr>cfHost = ''/s'', cfTLSCA = []\<rparr>, xcChdir = [], xcBackend = [], xcSandboxID = ''s1'', xcImage = [], xcRemove = True,
     xcPrintSandboxID = False, xcLaunchSeconds = 0, xcCommand = [''true'']\<rparr>"

definition demo_console :: ConsoleCommand where
  "demo_console = \<lparr>kcFlags = \<lparr>cfHost = ''/s'', cfTLSCA = []\<rparr>, kcChdir = [], kcBackend = [], kcSandboxID = ''s1'', kcImage = [], kcRemove = True,
     kcLaunchSeconds = 0, kcCommand = []\<rparr>"

lemma demo_cli_sandbox:
  "connect demo_cli_world (xcFlags demo_exec) demo_cli_state = (demo_cli_state, Inr ())"
  "ensureSandboxID demo_cli_world (resolveCWD (cwCWD demo_cli_world) (xcChdir demo_exec)) (cfHost (xcFlags demo_exec)) (xcBackend demo_exec)
     (trim_space (xcSandboxID demo_exec)) (xcImage demo_exec) (xcLaunchSeconds demo_exec) demo_cli_state = (demo_cli_state, Inr ''s1'')"
  by code_simp+

definition demo_turns :: "exec_turn list" where
  "demo_turns = [SEvent \<lparr>eeSandboxID = ''s1'', eeExecutionID = ''e1'', eeStatus = RUNNING, eePayload = PStdout ''hi'', eeImageRef = [], eeImageDigest = [], eeOccurredAt = None\<rparr>]"

lemma demo_exec_calls:
  "clCalls (fst (ExecCommand_Run demo_cli_world None (\<lambda>_ _. Inr (demo_turns, None)) demo_exec demo_cli_state)) =
     [RCreateExecution (exec_request demo_exec ''s1''), RStreamExecution ''s1'' ''e1'' True, RGetExecution ''s1'' ''e1'', RTerminateSandbox ''s1'']"
  by code_simp

theorem commands_clean_up_witness:
  "cleans_up True demo_cli_state (fst (ExecCommand_Run demo_cli_world None (\<lambda>_ _. Inr (demo_turns, None)) demo_exec demo_cli_state)) \<and>
   terminations (fst (ExecCommand_Run demo_cli_world None (\<lambda>_ _. Inr (demo_turns, None)) demo_exec demo_cli_state)) = [''s1'']"
proof -
  have "cwResolve demo_cli_world = resolveReferenceForImageOverride demo_cli_env demo_local Inr Inr" by (simp add: demo_cli_world_def)
  from commands_clean_up [OF this, of demo_exec demo_cli_state None "\<lambda>_ _. Inr (demo_turns, None)" demo_console] show ?thesis
    by (simp add: demo_exec_calls terminations_def) (simp add: demo_exec_def)
qed


section \<open>Files of the user\<close>

text \<open>The value of a key, and of a path of keys through mappings.\<close>

fun entry :: "string \<Rightarrow> yaml_node list \<Rightarrow> yaml_node option" where
  "entry key (k # v # rest) = (if yValue k = key then Some v else entry key rest)"
| "entry key rest = None"

fun at_path :: "string list \<Rightarrow> yaml_node \<Rightarrow> yaml_node option" where
  "at_path [] v = Some v"
| "at_path (key # keys) v = (if yKind v = YMapping then (case entry key (yContent v) of None \<Rightarrow> None | Some u \<Rightarrow> at_path keys u) else None)"

text \<open>The content of every mapping is pairs of a key and a value, as the YAML library makes it.\<close>

fun paired :: "yaml_node \<Rightarrow> bool" where
  "paired (YNode kind tag v c m) \<longleftrightarrow> (kind = YMapping \<longrightarrow> even (length c)) \<and> list_all paired c"

lemma paired_content: "paired v \<Longrightarrow> list_all paired (yContent v) \<and> (yKind v = YMapping \<longrightarrow> even (length (yContent v)))"
  by (cases v) simp

lemma entry_paired: "list_all paired c \<Longrightarrow> entry key c = Some v \<Longrightarrow> paired v"
  by (induction key c rule: entry.induct) (auto split: if_splits)

lemma entry_ensure_same: "even (length c) \<Longrightarrow> entry key (ensureMapEntry key f c) = Some (f (case entry key c of None \<Rightarrow> mapping_node | Some v \<Rightarrow> as_mapping v))"
  by (induction key f c rule: ensureMapEntry.induct) (auto simp: scalar_node_def)

lemma entry_ensure_other: "key' \<noteq> key \<Longrightarrow> even (length c) \<Longrightarrow> entry key' (ensureMapEntry key f c) = entry key' c"
  by (induction key f c rule: ensureMapEntry.induct) (auto simp: scalar_node_def)

lemma entry_set_same: "even (length c) \<Longrightarrow> \<exists>m. entry key (set_scalar key tag v0 c) = Some (YNode YScalar tag v0 [] m)"
  by (induction key tag v0 c rule: set_scalar.induct) (auto simp: scalar_node_def)

lemma entry_set_other: "key' \<noteq> key \<Longrightarrow> even (length c) \<Longrightarrow> entry key' (set_scalar key tag v0 c) = entry key' c"
  by (induction key tag v0 c rule: set_scalar.induct) (auto simp: scalar_node_def)

lemma as_mapping_paired: "paired v \<Longrightarrow> yKind (as_mapping v) = YMapping \<and> even (length (yContent (as_mapping v))) \<and> paired (as_mapping v)"
  using paired_content [of v] by (auto simp: as_mapping_def)

lemma as_mapping_path: "at_path (k # ks) (as_mapping v) = at_path (k # ks) v"
  by (auto simp: as_mapping_def)

lemma on_content_sel [simp]: "yKind (on_content f v) = yKind v" "yContent (on_content f v) = f (yContent v)"
  by (simp_all add: on_content_def set_content_def)

text \<open>The mapping that an edit works on: the old value of the key, or an empty one.\<close>

definition old_entry :: "string \<Rightarrow> yaml_node \<Rightarrow> yaml_node" where
  "old_entry key v = (case entry key (yContent v) of None \<Rightarrow> mapping_node | Some u \<Rightarrow> as_mapping u)"

lemma old_entry_paired:
  assumes "paired v"
  shows "yKind (old_entry key v) = YMapping \<and> even (length (yContent (old_entry key v))) \<and> paired (old_entry key v)"
  using paired_content [OF assms] entry_paired as_mapping_paired by (auto simp: old_entry_def mapping_node_def split: option.splits)

lemma edit_entry:
  assumes "paired v" and "yKind v = YMapping"
  shows "at_path (key # ks) (on_content (ensureMapEntry key f) v) = at_path ks (f (old_entry key v))"
    and "key' \<noteq> key \<Longrightarrow> at_path (key' # ks) (on_content (ensureMapEntry key f) v) = at_path (key' # ks) v"
    and "at_path (key # k # ks) v = at_path (k # ks) (old_entry key v)"
proof -
  have ev: "even (length (yContent v))" using paired_content [OF assms(1)] assms(2) by simp
  show "at_path (key # ks) (on_content (ensureMapEntry key f) v) = at_path ks (f (old_entry key v))"
    using assms(2) entry_ensure_same [OF ev] by (simp add: old_entry_def)
  show "at_path (key' # ks) (on_content (ensureMapEntry key f) v) = at_path (key' # ks) v" if "key' \<noteq> key"
    using assms(2) entry_ensure_other [OF that ev] by simp
  show "at_path (key # k # ks) v = at_path (k # ks) (old_entry key v)"
    using assms(2) by (auto simp: old_entry_def mapping_node_def as_mapping_def split: option.splits)
qed

abbreviation ref_path :: "string list" where
  "ref_path \<equiv> [''sandbox'', ''image'', ''ref'']"

lemma set_ref_path:
  assumes "paired v" and "yKind v = YMapping"
  shows "\<exists>m. at_path ref_path (set_ref ref v) = Some (YNode YScalar ''!!str'' ref [] m)"
    and "\<not> prefix p ref_path \<Longrightarrow> \<not> prefix ref_path p \<Longrightarrow> at_path p (set_ref ref v) = at_path p v"
proof -
  let ?sb = "old_entry ''sandbox'' v" and ?im = "old_entry ''image'' (old_entry ''sandbox'' v)"
  have sb: "paired ?sb" "yKind ?sb = YMapping" using old_entry_paired [OF assms(1)] by auto
  have im: "yKind ?im = YMapping" "even (length (yContent ?im))" using old_entry_paired [OF sb(1)] by auto
  have in_image: "at_path (''sandbox'' # ''image'' # ks) (set_ref ref v) = at_path ks (on_content (setMapString ''ref'' ref) ?im)" for ks
    unfolding set_ref_def edit_entry(1) [OF assms] edit_entry(1) [OF sb] ..
  show "\<exists>m. at_path ref_path (set_ref ref v) = Some (YNode YScalar ''!!str'' ref [] m)"
    using entry_set_same [OF im(2), of "''ref''" "''!!str''" ref] im(1) unfolding in_image by (auto simp: setMapString_def)
  assume p: "\<not> prefix p ref_path" "\<not> prefix ref_path p"
  obtain k1 ks1 where p1: "p = k1 # ks1" using p(1) by (cases p) auto
  show "at_path p (set_ref ref v) = at_path p v"
  proof (cases "k1 = ''sandbox''")
    case False
    then show ?thesis unfolding p1 set_ref_def by (rule edit_entry(2) [OF assms])
  next
    case s: True
    obtain k2 ks2 where p2: "ks1 = k2 # ks2" using p(1) p1 s by (cases ks1) auto
    have old: "at_path (''sandbox'' # k2 # ks2) v = at_path (k2 # ks2) ?sb" by (rule edit_entry(3) [OF assms])
    show ?thesis
    proof (cases "k2 = ''image''")
      case False
      then show ?thesis
        unfolding p1 p2 s old set_ref_def edit_entry(1) [OF assms] by (rule edit_entry(2) [OF sb])
    next
      case i: True
      obtain k3 ks3 where p3: "ks2 = k3 # ks3" using p(1) p1 p2 s i by (cases ks2) auto
      have "k3 \<noteq> ''ref''" using p(2) p1 p2 p3 s i by auto
      then have "at_path (k3 # ks3) (on_content (setMapString ''ref'' ref) ?im) = at_path (k3 # ks3) ?im"
        using entry_set_other [OF _ im(2)] im(1) by (simp add: setMapString_def)
      moreover have "at_path (''image'' # k3 # ks3) ?sb = at_path (k3 # ks3) ?im" by (rule edit_entry(3) [OF sb])
      ultimately show ?thesis unfolding p1 p2 p3 s i in_image edit_entry(3) [OF assms] by simp
    qed
  qed
qed



text \<open>Without \<open>--force\<close> a service file that is there stays as it is.\<close>

lemma writeDaemonFile_keeps:
  assumes "get (clFiles s) p = Some old" and "writeDaemonFile ev p content False s = (s', r)"
  shows "s' = s \<and> (\<exists>e. r = Inl e)"
  using assms by (auto simp: writeDaemonFile_def cmd_bind_def cmd_wrap_def cmd_stat_def cmd_fail_def split: option.splits if_splits)

end
