(* ===== verification/Spec2Isabelle.thy ===== *)
theory Spec2Isabelle
  imports Gateway Host_Env Service_Ops_Props Firecracker_Run Firecracker_Exec_Props Imagemgr_Props
    Interactive_Client Interactive_Props Guest_Boot Bootassets Client_Props Darwinvz_Props
    Cli_Props
begin

text \<open>
  Cleanroom runs untrusted commands in sandboxes: a control service keeps sandboxes and their executions, a backend runs them in
  virtual machines, a policy says which hosts a sandbox may reach, a gateway on the host carries the git traffic that the policy allows
  and adds credentials the guest never sees. The command line talks to the service and runs it.
  This development models the Go program under \<open>src/internal\<close>, \<open>src/client\<close> and \<open>src/cmd/cleanroom-guest-agent\<close>.

  \<^bold>\<open>Parts and theories.\<close>
  \<^item> \<open>Prelude\<close>, \<open>Effect\<close>, \<open>Decimal\<close>, \<open>Digest\<close>, \<open>Paths\<close>, \<open>Json\<close>, \<open>Json_Value\<close>: what the code uses of the Go library. Strings are byte
    lists, maps are association lists with one entry for a key, results are sums with the error on the left, actions on a state
    give the state and a result; SHA-1, SHA-256, \<open>path.Clean\<close>, \<open>filepath.Join\<close>, percent decoding, JSON output, integers in decimal.
  \<^item> \<open>Ociref\<close> (\<open>ociref/ref.go\<close>), \<open>Policy\<close> (\<open>policy/policy.go\<close>): pinned image references and the compilation of a policy
    from its file or from a protobuf message. A compiled policy is well formed, allows exactly the listed host and port pairs and
    survives the round trip through the message.
  \<^item> \<open>Host_Env\<close> (\<open>paths\<close>, \<open>endpoint\<close>, \<open>runtimeconfig\<close>): directories, endpoints and configuration over an explicit environment.
  \<^item> \<open>Gateway_Path\<close>, \<open>Gateway_Registry\<close>, \<open>Gateway\<close> (\<open>gateway\<close>): path canonicalisation, the registry of sandbox identities (the locale
    \<open>identity_map\<close>, interpreted for guest addresses and for tokens), and the request handler. Whatever is sent upstream belongs to
    an identified sandbox whose policy allows it and is a git read. \<open>Gateway_Server\<close>: a server is started once.
  \<^item> \<open>Backend\<close> (\<open>backend/backend.go\<close>): requests, results and capabilities.
  \<^item> \<open>Service_State\<close>, \<open>Service_Ops\<close>, \<open>Service_Run\<close> (\<open>controlservice\<close>): the state of the control service and every handler, cut where
    the code gives up its lock. \<open>Service_Facts\<close>, \<open>Service_Inv\<close>, \<open>Service_Handlers\<close>, \<open>Service_Handlers_Run\<close>: the invariant and its
    preservation. \<open>Service_System\<close>: the step relation over all handlers, goroutines and clocks; \<open>Service_Safety\<close>, \<open>Service_Props\<close>,
    \<open>Service_Ops_Props\<close>: one execution at a time, final states that stay and tell the truth, interactive sessions, retention, bounds.
  \<^item> \<open>Controlserver\<close> (\<open>controlserver\<close>, \<open>tlsconfig\<close>): the handlers of the control API, the classification of errors, event streams,
    listeners and TLS material. \<open>Client\<close>, \<open>Client_Props\<close> (\<open>client\<close>, \<open>controlclient\<close>): the Go client; the lock that admits one
    \<open>EnsureSandbox\<close> at a time for a key, a sandbox for a key over the server's answers, the result of a command.
  \<^item> \<open>Interactive\<close>, \<open>Interactive_Props\<close>, \<open>Interactive_Client\<close> (\<open>interactivequic\<close>): the connections that carry a terminal, as a step
    relation together with the control service; the client with the pin of the server's certificate.
  \<^item> \<open>Vsockexec\<close> (\<open>vsockexec/protocol.go\<close>): the messages to and from the guest agent, with base64 and the decoding of fields.
    \<open>Guest_Agent\<close>, \<open>Guest_Agent_Props\<close> (\<open>cmd/cleanroom-guest-agent\<close>): the agent, whose answers the host decodes as they were meant.
    \<open>Guest_Boot\<close>: host and agent agree on the port.
  \<^item> \<open>Firecracker_Net\<close>, \<open>Firecracker_Net_Props\<close> (\<open>backend/firecracker\<close>): identifiers, privileged commands, the firewall of a sandbox.
    The locales \<open>filter_host\<close> and \<open>undoing_host\<close> say what a host does with \<open>iptables\<close> commands; they are interpreted for recorded
    commands and for the privileged commands as they are started.
  \<^item> \<open>Firecracker_Host\<close>, \<open>Firecracker_Launch\<close>: files, the prepared root file system, the launch of a machine and its release.
  \<^item> \<open>Firecracker_Exec\<close>, \<open>Firecracker_Adapter\<close>, \<open>Firecracker_Exec_Props\<close>, \<open>Firecracker_Lifecycle\<close>: commands in a guest, downloads, the
    adapter's operations, and all their interleavings. \<open>Firecracker_Run\<close>: the single run and the checks of a host.
  \<^item> \<open>Imagemgr_Tar\<close>, \<open>Imagemgr\<close>, \<open>Imagemgr_Props\<close> (\<open>imagemgr\<close>): the extraction of an image, confined to its directory, and the cache of
    images, which refines a map from digests to artifacts. \<open>Bootassets\<close> (\<open>bootassets\<close>, \<open>hosttools\<close>): pinned kernels and host tools.
  \<^item> \<open>Effect_Frame\<close>: the locale \<open>act_frame\<close> of relations that every action of a kind respects. \<open>Darwinvz\<close>, \<open>Darwinvz_Run\<close>, \<open>Darwinvz_Props\<close>
    (\<open>backend/darwinvz\<close>): the macOS backend with its helper process. A run leaves no helper, machine or scope token behind whatever fails, a
    prepared image that is returned was validated, the guest's environment redirects exactly the hosts that the policy allows.
  \<^item> \<open>Cli\<close>, \<open>Cli_Edit\<close>, \<open>Cli_Exec\<close>, \<open>Cli_Serve\<close>, \<open>Cli_Props\<close> (\<open>cli\<close>): the commands, as actions on what they print, the files they write, the
    processes they start and the calls they make. \<open>exec\<close> and \<open>console\<close> terminate the sandbox exactly when asked to, report the exit code of the
    command and show all of its output; \<open>--image\<close> and \<open>image bump-ref\<close> change the image and nothing else; \<open>serve\<close> opens the control
    API behind gateway and firewall and stops them after it.

  \<^bold>\<open>How code becomes definitions.\<close> A critical section is one function on the state. A handler that gives up its lock is several
  functions (\<open>_begin\<close>, \<open>_finish\<close>), and the step relations interleave them with everything else. The clock, random bytes, name
  resolution, the YAML and HTTP libraries, processes and the operating system's answers are arguments. Errors are values.
  Host actions of the Firecracker backend are functions from the host to a host and a result, where \<open>os\<close> says which calls fail.

  \<^bold>\<open>Termination and bounds.\<close> All functions are total. Polling loops take the list of what each turn finds; their claims say when
  they have returned. Integers are unbounded where the source bounds them (\<open>int64\<close> values are compared with \<open>2 ^ 63\<close> where a sum
  could overflow) and words where it wraps or stores 32 bits. Retained output, histories and subscriber queues have the source's bounds.

  \<^bold>\<open>Not modelled.\<close> Generated code (\<open>gen\<close>) and the clients' one-line calls into it, the Swift helper and the shell scripts, which are not the
  program's own Go code; the parsing of arguments, which a library does from the tags of the command records; the QUIC listener's parameters; log
  lines and their styles. \<open>cli.go\<close> has its own copies of \<open>resolveBackendName\<close> and \<open>mergeBackendConfig\<close>, which are those of the service.
\<close>

end
